(* ===== verification/Py_Prelude.thy ===== *)
theory Py_Prelude
  imports Complex_Main "HOL-Library.AList" "HOL-Library.Char_ord" "HOL-Library.List_Lexorder"
begin

text \<open>
  The part of Python the library is written in, as far as its sources use it, shared by every
  component theory.

  \<^item> A Python \<open>str\<close> is a \<open>string\<close> whose characters are the code points U+0000 to U+00FF; the
    predicates below (white space, case, digits, word characters) are exact on that range.
    Code points above U+00FF are outside the model.
  \<^item> A \<open>float\<close> is a rational or one of the three special values; arithmetic on the finite
    ones is exact, that is, the rounding of IEEE double arithmetic is not modelled.
  \<^item> A value that came out of \<open>json.loads\<close> is a \<open>json\<close>; a \<open>dict\<close> is an association list in
    insertion order with distinct keys.
  \<^item> A function that may raise returns \<open>'e + 'a\<close> with the exception on the left; \<open>bnd\<close> is
    the propagation of an exception through a sequence of statements.
\<close>

section \<open>Fact collections\<close>

named_theorems py_simps \<open>unfolding rules for the Python primitives\<close>
named_theorems res_splits \<open>rules that take apart a computation that may raise\<close>

section \<open>Computations that may raise\<close>

definition bnd :: "'e + 'a \<Rightarrow> ('a \<Rightarrow> 'e + 'b) \<Rightarrow> 'e + 'b" where
  "bnd m f = (case m of Inl e \<Rightarrow> Inl e | Inr x \<Rightarrow> f x)"

lemma bnd_Inl [simp]: "bnd (Inl e) f = Inl e"
  by (simp add: bnd_def)

lemma bnd_Inr [simp]: "bnd (Inr x) f = f x"
  by (simp add: bnd_def)

lemma bnd_eq_Inr [res_splits]: "bnd m f = Inr y \<longleftrightarrow> (\<exists>x. m = Inr x \<and> f x = Inr y)"
  by (cases m) auto

lemma bnd_eq_Inl [res_splits]:
  "bnd m f = Inl e \<longleftrightarrow> m = Inl e \<or> (\<exists>x. m = Inr x \<and> f x = Inl e)"
  by (cases m) auto

lemma bnd_cong [fundef_cong]:
  "m = m' \<Longrightarrow> (\<And>x. m' = Inr x \<Longrightarrow> f x = g x) \<Longrightarrow> bnd m f = bnd m' g"
  by (cases m') auto

text \<open>A \<open>for\<close> loop whose body may raise stops at the first exception.\<close>

fun for_each :: "('a \<Rightarrow> 'e + unit) \<Rightarrow> 'a list \<Rightarrow> 'e + unit" where
  "for_each f [] = Inr ()"
| "for_each f (x # xs) = bnd (f x) (\<lambda>_. for_each f xs)"

lemma for_each_ok: "for_each f xs = Inr () \<longleftrightarrow> (\<forall>x \<in> set xs. f x = Inr ())"
  by (induction xs) (auto simp: res_splits)

lemma for_each_raises:
  assumes "for_each f xs = Inl e"
  shows "\<exists>x \<in> set xs. f x = Inl e"
  using assms by (induction xs) (auto simp: res_splits)

definition guard_raise :: "bool \<Rightarrow> 'e \<Rightarrow> 'e + unit" where
  "guard_raise c e = (if c then Inl e else Inr ())"

lemma guard_raise_Inr [simp]: "guard_raise c e = Inr u \<longleftrightarrow> \<not> c"
  by (simp add: guard_raise_def)

lemma guard_raise_Inl [simp]: "guard_raise c e = Inl e' \<longleftrightarrow> c \<and> e' = e"
  by (auto simp: guard_raise_def)

lemma guard_raise_simps [simp]:
  "guard_raise True e = Inl e" "guard_raise False e = Inr ()"
  by (simp_all add: guard_raise_def)

definition is_ok :: "'e + 'a \<Rightarrow> bool" where
  "is_ok r = (case r of Inl _ \<Rightarrow> False | Inr _ \<Rightarrow> True)"

lemma is_ok_simps [simp]: "is_ok (Inr x)" "\<not> is_ok (Inl e)"
  by (simp_all add: is_ok_def)

section \<open>Computations with a state\<close>

text \<open>
  A computation that reads and writes a state and may raise. An exception keeps the state it was
  raised in, as a Python exception undoes nothing.
\<close>

type_synonym ('s, 'e, 'a) stm = "'s \<Rightarrow> ('e + 'a) \<times> 's"

definition sret :: "'a \<Rightarrow> ('s, 'e, 'a) stm" where
  "sret x s = (Inr x, s)"

definition slift :: "'e + 'a \<Rightarrow> ('s, 'e, 'a) stm" where
  "slift r s = (r, s)"

definition sbnd :: "('s, 'e, 'a) stm \<Rightarrow> ('a \<Rightarrow> ('s, 'e, 'b) stm) \<Rightarrow> ('s, 'e, 'b) stm" where
  "sbnd m f s = (case m s of (Inl e, s') \<Rightarrow> (Inl e, s') | (Inr x, s') \<Rightarrow> f x s')"

definition supd :: "('s \<Rightarrow> 's) \<Rightarrow> ('s, 'e, unit) stm" where
  "supd f s = (Inr (), f s)"

definition sget :: "('s \<Rightarrow> 'a) \<Rightarrow> ('s, 'e, 'a) stm" where
  "sget f s = (Inr (f s), s)"

text \<open>\<open>try\<close> with a handler that decides by the exception.\<close>

definition scatch :: "('s, 'e, 'a) stm \<Rightarrow> ('e \<Rightarrow> ('s, 'e, 'a) stm) \<Rightarrow> ('s, 'e, 'a) stm" where
  "scatch m h s = (case m s of (Inl e, s') \<Rightarrow> h e s' | (Inr x, s') \<Rightarrow> (Inr x, s'))"

text \<open>A lookup that may miss, and what runs on a miss.\<close>

definition or_else :: "('s, 'e, 'a option) stm \<Rightarrow> ('s, 'e, 'a) stm \<Rightarrow> ('s, 'e, 'a) stm" where
  "or_else hit m = sbnd hit (\<lambda>h. case h of Some x \<Rightarrow> sret x | None \<Rightarrow> m)"

lemmas stm_simps = sret_def slift_def supd_def sget_def

text \<open>
  Triples: from a state with \<open>P\<close> a computation returns with \<open>Q\<close> or raises with \<open>E\<close>. The rules
  follow the structure of the computation; \<open>keeps P\<close> is the triple of an invariant.
\<close>

definition triple ::
  "('s \<Rightarrow> bool) \<Rightarrow> ('s, 'e, 'a) stm \<Rightarrow> ('a \<Rightarrow> 's \<Rightarrow> bool) \<Rightarrow> ('e \<Rightarrow> 's \<Rightarrow> bool) \<Rightarrow> bool" where
  "triple P m Q E \<longleftrightarrow> (\<forall>s. P s \<longrightarrow> (case m s of (Inl e, s') \<Rightarrow> E e s' | (Inr x, s') \<Rightarrow> Q x s'))"

abbreviation keeps :: "('s \<Rightarrow> bool) \<Rightarrow> ('s, 'e, 'a) stm \<Rightarrow> bool" where
  "keeps P m \<equiv> triple P m (\<lambda>_. P) (\<lambda>_. P)"

named_theorems triple_intros \<open>rules for triples\<close>

lemma tripleI:
  "\<lbrakk>\<And>s x s'. \<lbrakk>P s; m s = (Inr x, s')\<rbrakk> \<Longrightarrow> Q x s'; \<And>s e s'. \<lbrakk>P s; m s = (Inl e, s')\<rbrakk> \<Longrightarrow> E e s'\<rbrakk> \<Longrightarrow> triple P m Q E"
  unfolding triple_def by (auto split: prod.split sum.split)

lemma triple_Inr: "\<lbrakk>triple P m Q E; P s; m s = (Inr x, s')\<rbrakk> \<Longrightarrow> Q x s'"
  unfolding triple_def by fastforce

lemma triple_Inl: "\<lbrakk>triple P m Q E; P s; m s = (Inl e, s')\<rbrakk> \<Longrightarrow> E e s'"
  unfolding triple_def by fastforce

lemma keepsD: "\<lbrakk>keeps P m; P s\<rbrakk> \<Longrightarrow> P (snd (m s))"
  unfolding triple_def by (cases "m s"; cases "fst (m s)") fastforce+

lemma triple_conseq:
  "\<lbrakk>triple P m Q E; \<And>s. P' s \<Longrightarrow> P s; \<And>x s. Q x s \<Longrightarrow> Q' x s; \<And>e s. E e s \<Longrightarrow> E' e s\<rbrakk> \<Longrightarrow> triple P' m Q' E'"
  unfolding triple_def by (fastforce split: prod.splits sum.splits)

lemma triple_sret: "(\<And>s. P s \<Longrightarrow> Q x s) \<Longrightarrow> triple P (sret x) Q E"
  by (simp add: triple_def sret_def)

lemma triple_slift:
  "\<lbrakk>\<And>x s. \<lbrakk>P s; r = Inr x\<rbrakk> \<Longrightarrow> Q x s; \<And>e s. \<lbrakk>P s; r = Inl e\<rbrakk> \<Longrightarrow> E e s\<rbrakk> \<Longrightarrow> triple P (slift r) Q E"
  by (cases r) (simp_all add: triple_def slift_def)

lemma triple_sget: "(\<And>s. P s \<Longrightarrow> Q (f s) s) \<Longrightarrow> triple P (sget f) Q E"
  by (simp add: triple_def sget_def)

lemma triple_supd: "(\<And>s. P s \<Longrightarrow> Q () (f s)) \<Longrightarrow> triple P (supd f) Q E"
  by (simp add: triple_def supd_def)

lemma triple_sbnd: "\<lbrakk>triple P m R E; \<And>x. triple (R x) (f x) Q E\<rbrakk> \<Longrightarrow> triple P (sbnd m f) Q E"
  unfolding triple_def sbnd_def by (fastforce split: prod.splits sum.splits)

lemma triple_scatch: "\<lbrakk>triple P m Q R; \<And>e. triple (R e) (h e) Q E\<rbrakk> \<Longrightarrow> triple P (scatch m h) Q E"
  unfolding triple_def scatch_def by (fastforce split: prod.splits sum.splits)

lemma triple_if [triple_intros]:
  "\<lbrakk>c \<Longrightarrow> triple P m Q E; \<not> c \<Longrightarrow> triple P n Q E\<rbrakk> \<Longrightarrow> triple P (if c then m else n) Q E"
  by simp

lemma triple_option [triple_intros]:
  "\<lbrakk>x = None \<Longrightarrow> triple P m Q E; \<And>y. x = Some y \<Longrightarrow> triple P (f y) Q E\<rbrakk> \<Longrightarrow>
     triple P (case x of None \<Rightarrow> m | Some y \<Rightarrow> f y) Q E"
  by (cases x) auto

lemma triple_pair [triple_intros]:
  "(\<And>a b. x = (a, b) \<Longrightarrow> triple P (f a b) Q E) \<Longrightarrow> triple P (case x of (a, b) \<Rightarrow> f a b) Q E"
  by (cases x) auto

text \<open>A fact that does not depend on the state moves in and out of the precondition.\<close>

lemma triple_pre: "(c \<Longrightarrow> triple P m Q E) \<Longrightarrow> triple (\<lambda>s. P s \<and> c) m Q E"
  by (simp add: triple_def)

lemma triple_pre_ex: "(\<And>z. triple (P z) m Q E) \<Longrightarrow> triple (\<lambda>s. \<exists>z. P z s) m Q E"
  proof -
  assume h: "\<And>z. triple (P z) m Q E"
  show "triple (\<lambda>s. \<exists>z. P z s) m Q E"
    by (rule tripleI; elim exE) (blast intro: triple_Inr [OF h] triple_Inl [OF h])+
qed

lemma triple_or_else:
  "\<lbrakk>triple P hit (\<lambda>h s. case h of Some x \<Rightarrow> Q x s | None \<Rightarrow> R s) E; triple R m Q E\<rbrakk> \<Longrightarrow> triple P (or_else hit m) Q E"
  unfolding or_else_def
  by (rule triple_sbnd, assumption, rule triple_option) (auto intro: triple_sret)

lemma keeps_pure [triple_intros]: "keeps P (sret x)" "keeps P (slift r)" "keeps P (sget f)"
  by (auto intro: triple_sret triple_slift triple_sget)

lemma keeps_sbnd [triple_intros]: "\<lbrakk>keeps P m; \<And>x. keeps P (f x)\<rbrakk> \<Longrightarrow> keeps P (sbnd m f)"
  by (rule triple_sbnd)

lemma keeps_scatch [triple_intros]: "\<lbrakk>keeps P m; \<And>e. keeps P (h e)\<rbrakk> \<Longrightarrow> keeps P (scatch m h)"
  by (rule triple_scatch)

text \<open>How a sequence returns.\<close>

lemma sbnd_Inr: "sbnd m f s = (Inr y, s') \<longleftrightarrow> (\<exists>x t. m s = (Inr x, t) \<and> f x t = (Inr y, s'))"
  by (auto simp: sbnd_def split: prod.splits sum.splits)

lemma sbnd_lift_Inr: "sbnd (slift r) f s = (Inr y, s') \<longleftrightarrow> (\<exists>x. r = Inr x \<and> f x s = (Inr y, s'))"
  by (auto simp: sbnd_Inr slift_def)

section \<open>Characters and strings\<close>

abbreviation ord :: "char \<Rightarrow> int" where
  "ord c \<equiv> of_char c"

lemma ord_bounds [simp]: "0 \<le> ord c" "ord c < 256"
proof -
  have "0 \<le> ord c mod 256" "ord c mod 256 < 256"
    by (rule pos_mod_sign pos_mod_bound, simp)+
  then show "0 \<le> ord c" "ord c < 256" by (simp_all only: of_char_mod_256)
qed

definition py_isspace :: "char \<Rightarrow> bool" where
  "py_isspace c = (let n = ord c in
     (9 \<le> n \<and> n \<le> 13) \<or> (28 \<le> n \<and> n \<le> 32) \<or> n = 133 \<or> n = 160)"

definition is_ascii_digit :: "char \<Rightarrow> bool" where
  "is_ascii_digit c = (48 \<le> ord c \<and> ord c \<le> 57)"

definition is_ascii_alpha :: "char \<Rightarrow> bool" where
  "is_ascii_alpha c = ((65 \<le> ord c \<and> ord c \<le> 90) \<or> (97 \<le> ord c \<and> ord c \<le> 122))"

text \<open>\<open>str.isdigit\<close> also holds of the superscripts U+00B2, U+00B3 and U+00B9.\<close>

definition py_isdigit_char :: "char \<Rightarrow> bool" where
  "py_isdigit_char c = (is_ascii_digit c \<or> ord c \<in> {178, 179, 185})"

definition py_isdigit :: "string \<Rightarrow> bool" where
  "py_isdigit s = (s \<noteq> [] \<and> list_all py_isdigit_char s)"

text \<open>The word characters of a regular expression (\<open>\w\<close>) in the range of the model.\<close>

definition py_isword :: "char \<Rightarrow> bool" where
  "py_isword c = (let n = ord c in
     is_ascii_digit c \<or> is_ascii_alpha c \<or> n = 95
     \<or> n \<in> {170, 178, 179, 181, 185, 186, 188, 189, 190}
     \<or> (192 \<le> n \<and> n \<noteq> 215 \<and> n \<noteq> 247))"

definition char_lower :: "char \<Rightarrow> char" where
  "char_lower c = (let n = ord c in
     if (65 \<le> n \<and> n \<le> 90) \<or> (192 \<le> n \<and> n \<le> 222 \<and> n \<noteq> 215) then char_of (n + 32) else c)"

definition py_lower :: "string \<Rightarrow> string" where
  "py_lower s = map char_lower s"

text \<open>
  \<open>str.upper\<close> maps U+00DF to two characters; U+00B5 and U+00FF have their upper-case forms
  above U+00FF and stay as they are here.
\<close>

definition char_upper :: "char \<Rightarrow> string" where
  "char_upper c = (let n = ord c in
     if 97 \<le> n \<and> n \<le> 122 then [char_of (n - 32)]
     else if n = 223 then ''SS''
     else if 224 \<le> n \<and> n \<le> 254 \<and> n \<noteq> 247 then [char_of (n - 32)]
     else [c])"

definition py_upper :: "string \<Rightarrow> string" where
  "py_upper s = concat (map char_upper s)"

definition py_isascii :: "string \<Rightarrow> bool" where
  "py_isascii s = list_all (\<lambda>c. ord c < 128) s"

definition py_lstrip :: "string \<Rightarrow> string" where
  "py_lstrip s = dropWhile py_isspace s"

definition py_strip :: "string \<Rightarrow> string" where
  "py_strip s = rev (dropWhile py_isspace (rev (dropWhile py_isspace s)))"

definition py_rstrip_char :: "char \<Rightarrow> string \<Rightarrow> string" where
  "py_rstrip_char c s = rev (dropWhile (\<lambda>x. x = c) (rev s))"

definition py_startswith :: "string \<Rightarrow> string \<Rightarrow> bool" where
  "py_startswith s p = (take (length p) s = p)"

definition py_endswith :: "string \<Rightarrow> string \<Rightarrow> bool" where
  "py_endswith s p = py_startswith (rev s) (rev p)"

fun py_contains :: "string \<Rightarrow> string \<Rightarrow> bool" where
  "py_contains p [] = (p = [])"
| "py_contains p (c # s) = (py_startswith (c # s) p \<or> py_contains p s)"

text \<open>\<open>s.split(c)\<close> for a one-character separator: always at least one part.\<close>

fun py_split :: "char \<Rightarrow> string \<Rightarrow> string list" where
  "py_split d [] = [[]]"
| "py_split d (c # s) =
     (if c = d then [] # py_split d s
      else case py_split d s of [] \<Rightarrow> [[c]] | p # ps \<Rightarrow> (c # p) # ps)"

text \<open>\<open>s.split()\<close>: the maximal runs of non-space characters.\<close>

fun split_ws_aux :: "string \<Rightarrow> string \<Rightarrow> string list" where
  "split_ws_aux acc [] = (if acc = [] then [] else [rev acc])"
| "split_ws_aux acc (c # s) =
     (if py_isspace c then (if acc = [] then split_ws_aux [] s else rev acc # split_ws_aux [] s)
      else split_ws_aux (c # acc) s)"

definition py_split_ws :: "string \<Rightarrow> string list" where
  "py_split_ws s = split_ws_aux [] s"

fun py_join :: "string \<Rightarrow> string list \<Rightarrow> string" where
  "py_join sep [] = []"
| "py_join sep [s] = s"
| "py_join sep (s # t # ss) = s @ sep @ py_join sep (t # ss)"

text \<open>A value between single quotes, as the f-strings of the messages show it.\<close>

definition sq :: "string \<Rightarrow> string" where
  "sq s = CHR 0x27 # s @ [CHR 0x27]"

text \<open>\<open>s.partition(c)\<close>: the part before the first separator, whether there is one, the rest.\<close>

definition py_partition :: "char \<Rightarrow> string \<Rightarrow> string \<times> bool \<times> string" where
  "py_partition d s = (takeWhile (\<lambda>x. x \<noteq> d) s, d \<in> set s, drop 1 (dropWhile (\<lambda>x. x \<noteq> d) s))"

text \<open>\<open>s.rpartition(c)\<close>: the part before the last separator, whether there is one, the rest.\<close>

definition py_rpartition :: "char \<Rightarrow> string \<Rightarrow> string \<times> bool \<times> string" where
  "py_rpartition d s =
     (rev (drop 1 (dropWhile (\<lambda>x. x \<noteq> d) (rev s))), d \<in> set s, rev (takeWhile (\<lambda>x. x \<noteq> d) (rev s)))"

lemma py_split_nonempty [simp]: "py_split d s \<noteq> []"
  by (induction s) (auto split: list.splits)

lemma py_join_split: "py_join [d] (py_split d s) = s"
proof (induction s)
  case Nil
  show ?case by simp
next
  case (Cons c s)
  obtain p ps where ps: "py_split d s = p # ps"
    using py_split_nonempty by (cases "py_split d s") auto
  have "py_join [d] ((c # p) # ps) = c # py_join [d] (p # ps)"
    by (cases ps) simp_all
  with Cons ps show ?case by (cases "c = d") auto
qed

lemma py_split_no_sep: "p \<in> set (py_split d s) \<Longrightarrow> d \<notin> set p"
proof (induction s arbitrary: p)
  case Nil
  then show ?case by simp
next
  case (Cons c s)
  then show ?case
    by (cases "py_split d s") (auto split: if_splits)
qed

lemma py_split_single: "d \<notin> set s \<Longrightarrow> py_split d s = [s]"
  by (induction s) auto

lemma py_startswith_iff: "py_startswith s p \<longleftrightarrow> (\<exists>r. s = p @ r)"
  by (metis append_eq_conv_conj append_take_drop_id py_startswith_def)

lemma py_endswith_iff: "py_endswith s p \<longleftrightarrow> (\<exists>r. s = r @ p)"
  by (metis py_endswith_def py_startswith_iff rev_append rev_rev_ident)

lemma py_contains_iff: "py_contains p s \<longleftrightarrow> (\<exists>a b. s = a @ p @ b)"
proof (induction s)
  case Nil
  show ?case by auto
next
  case (Cons c s)
  have "(\<exists>a b. c # s = a @ p @ b) \<longleftrightarrow> (\<exists>r. c # s = p @ r) \<or> (\<exists>a b. s = a @ p @ b)" (is "?l = ?r")
  proof
    assume ?l
    then obtain a b where ab: "c # s = a @ p @ b" by blast
    then show ?r by (cases a) auto
  next
    assume ?r
    then show ?l by (metis append_Cons append_Nil)
  qed
  with Cons show ?case by (simp add: py_startswith_iff)
qed

lemma split_ws_aux_nonspace:
  "\<forall>c \<in> set acc. \<not> py_isspace c \<Longrightarrow> w \<in> set (split_ws_aux acc s) \<Longrightarrow>
     w \<noteq> [] \<and> (\<forall>c \<in> set w. \<not> py_isspace c)"
proof (induction s arbitrary: acc)
  case Nil
  then show ?case by (cases acc) auto
next
  case (Cons c s)
  have nil: "w \<in> set (split_ws_aux [] s) \<Longrightarrow> w \<noteq> [] \<and> (\<forall>c \<in> set w. \<not> py_isspace c)"
    by (rule Cons.IH) simp_all
  have push: "\<not> py_isspace c \<Longrightarrow> w \<in> set (split_ws_aux (c # acc) s) \<Longrightarrow>
      w \<noteq> [] \<and> (\<forall>c \<in> set w. \<not> py_isspace c)"
    by (rule Cons.IH) (use Cons.prems(1) in auto)
  show ?case
  proof (cases "py_isspace c \<and> acc \<noteq> [] \<and> w = rev acc")
    case True
    with Cons.prems(1) show ?thesis by simp
  next
    case False
    with Cons.prems(2) nil push show ?thesis by (auto split: if_splits)
  qed
qed

lemma py_split_ws_words:
  "w \<in> set (py_split_ws s) \<Longrightarrow> w \<noteq> [] \<and> (\<forall>c \<in> set w. \<not> py_isspace c)"
  unfolding py_split_ws_def by (rule split_ws_aux_nonspace[where acc = "[]"]) simp_all

lemma char_lower_idem [simp]: "char_lower (char_lower c) = char_lower c"
  by (auto simp: char_lower_def Let_def)

lemma py_lower_idem [simp]: "py_lower (py_lower s) = py_lower s"
  by (simp add: py_lower_def)

lemma py_lower_Nil_iff [simp]: "py_lower s = [] \<longleftrightarrow> s = []" "py_lower [] = []"
  by (simp_all add: py_lower_def)

lemma py_lower_append: "py_lower (s @ t) = py_lower s @ py_lower t"
  by (simp add: py_lower_def)

lemma py_strip_Nil [simp]: "py_strip [] = []"
  by (simp add: py_strip_def)

end
