(* ===== verification/Py_Values.thy ===== *)
theory Py_Values
  imports Py_Prelude
begin

text \<open>
  Python values: floats with their special values, the literals \<open>int()\<close> and \<open>float()\<close> accept,
  dictionaries in insertion order, and the values of a parsed JSON document with their truth
  value, their equality and their type name.
\<close>

section \<open>Floats\<close>

datatype pyfloat = Fin rat | PosInf | NegInf | NaN

definition pf_isfinite :: "pyfloat \<Rightarrow> bool" where
  "pf_isfinite f = (case f of Fin _ \<Rightarrow> True | _ \<Rightarrow> False)"

text \<open>Every ordering comparison with a NaN is false.\<close>

fun pf_less :: "pyfloat \<Rightarrow> pyfloat \<Rightarrow> bool" where
  "pf_less (Fin a) (Fin b) = (a < b)"
| "pf_less (Fin a) PosInf = True"
| "pf_less NegInf (Fin b) = True"
| "pf_less NegInf PosInf = True"
| "pf_less _ _ = False"

text \<open>The built-ins \<open>max\<close> and \<open>min\<close> of two floats keep the first unless the second is strictly better.\<close>

definition pf_max :: "pyfloat \<Rightarrow> pyfloat \<Rightarrow> pyfloat" where
  "pf_max a b = (if pf_less a b then b else a)"

definition pf_min :: "pyfloat \<Rightarrow> pyfloat \<Rightarrow> pyfloat" where
  "pf_min a b = (if pf_less b a then b else a)"

text \<open>The least magnitude whose nearest double is an infinity.\<close>

definition float_overflow :: rat where
  "float_overflow = 2 ^ 1024 - 2 ^ 970"

definition float_of_rat :: "rat \<Rightarrow> pyfloat" where
  "float_of_rat q = (if float_overflow \<le> q then PosInf
                     else if q \<le> - float_overflow then NegInf else Fin q)"

section \<open>Integer and float literals\<close>

definition digit_val :: "char \<Rightarrow> int" where
  "digit_val c = ord c - 48"

definition digits_val :: "string \<Rightarrow> int" where
  "digits_val s = foldl (\<lambda>n c. 10 * n + digit_val c) 0 s"

text \<open>
  A digit group of a numeric literal: digits with single underscores between them. The result
  is the group without its underscores.
\<close>

fun digit_group_rest :: "string \<Rightarrow> string option" where
  "digit_group_rest [] = Some []"
| "digit_group_rest [c] = (if is_ascii_digit c then Some [c] else None)"
| "digit_group_rest (c # d # s) =
     (if is_ascii_digit c then map_option ((#) c) (digit_group_rest (d # s))
      else if c = CHR ''_'' \<and> is_ascii_digit d then map_option ((#) d) (digit_group_rest s)
      else None)"

definition digit_group :: "string \<Rightarrow> string option" where
  "digit_group s = (case s of [] \<Rightarrow> None
     | c # t \<Rightarrow> if is_ascii_digit c then map_option ((#) c) (digit_group_rest t) else None)"

definition split_sign :: "string \<Rightarrow> bool \<times> string" where
  "split_sign s = (case s of [] \<Rightarrow> (False, [])
     | c # t \<Rightarrow> if c = CHR ''-'' then (True, t) else if c = CHR ''+'' then (False, t) else (False, s))"

text \<open>\<open>int(s)\<close>: \<open>None\<close> is the \<open>ValueError\<close>, which more than 4300 digits also raise.\<close>

definition py_int :: "string \<Rightarrow> int option" where
  "py_int s = (let (neg, t) = split_sign (py_strip s) in
     case digit_group t of None \<Rightarrow> None
     | Some ds \<Rightarrow> if 4300 < length ds then None
                 else Some (if neg then - digits_val ds else digits_val ds))"

definition opt_group :: "string \<Rightarrow> string option" where
  "opt_group s = (if s = [] then Some [] else digit_group s)"

definition pow10 :: "int \<Rightarrow> rat" where
  "pow10 e = (if 0 \<le> e then 10 ^ nat e else 1 / 10 ^ nat (- e))"

definition parse_exponent :: "string \<Rightarrow> int option" where
  "parse_exponent s = (let (neg, t) = split_sign s in
     map_option (\<lambda>ds. if neg then - digits_val ds else digits_val ds) (digit_group t))"

definition parse_decimal :: "string \<Rightarrow> rat option" where
  "parse_decimal s =
     (let mant = takeWhile (\<lambda>c. c \<notin> {CHR ''e'', CHR ''E''}) s;
          expo = dropWhile (\<lambda>c. c \<notin> {CHR ''e'', CHR ''E''}) s;
          (ip, dot, fp) = py_partition (CHR ''.'') mant in
      case (opt_group ip, opt_group fp, if expo = [] then Some 0 else parse_exponent (tl expo)) of
        (Some is, Some fs, Some e) \<Rightarrow>
          if is = [] \<and> fs = [] then None
          else Some (of_int (digits_val (is @ fs)) * pow10 (e - int (length fs)))
      | _ \<Rightarrow> None)"

text \<open>\<open>float(s)\<close>: \<open>None\<close> is the \<open>ValueError\<close>.\<close>

definition py_float :: "string \<Rightarrow> pyfloat option" where
  "py_float s = (let (neg, t) = split_sign (py_strip s); l = py_lower t in
     if l = ''inf'' \<or> l = ''infinity'' then Some (if neg then NegInf else PosInf)
     else if l = ''nan'' then Some NaN
     else map_option (\<lambda>q. float_of_rat (if neg then - q else q)) (parse_decimal t))"

section \<open>Printing\<close>

function show_digits :: "int \<Rightarrow> string" where
  "show_digits n = (if n < 10 then [char_of (48 + n)] else show_digits (n div 10) @ [char_of (48 + n mod 10)])"
  by pat_completeness auto
termination
  by (relation "measure nat") auto

declare show_digits.simps [simp del]

definition show_int :: "int \<Rightarrow> string" where
  "show_int i = (if i < 0 then CHR ''-'' # show_digits (- i) else show_digits i)"

definition show_nat :: "nat \<Rightarrow> string" where
  "show_nat n = show_digits (int n)"

section \<open>Dictionaries\<close>

type_synonym 'v dict = "(string \<times> 'v) list"

abbreviation dict_keys :: "('k \<times> 'v) list \<Rightarrow> 'k list" where
  "dict_keys d \<equiv> map fst d"

abbreviation dict_set :: "'k \<Rightarrow> 'v \<Rightarrow> ('k \<times> 'v) list \<Rightarrow> ('k \<times> 'v) list" where
  "dict_set \<equiv> AList.update"

abbreviation dict_pop :: "'k \<Rightarrow> ('k \<times> 'v) list \<Rightarrow> ('k \<times> 'v) list" where
  "dict_pop \<equiv> AList.delete"

definition dict_ok :: "('k \<times> 'v) list \<Rightarrow> bool" where
  "dict_ok d = distinct (dict_keys d)"

lemma dict_ok_set [intro, simp]: "dict_ok d \<Longrightarrow> dict_ok (dict_set k v d)"
  by (simp add: dict_ok_def distinct_update)

lemma dict_ok_pop [intro, simp]: "dict_ok d \<Longrightarrow> dict_ok (dict_pop k d)"
  by (simp add: dict_ok_def distinct_delete)

lemma dict_get_set: "map_of (dict_set k v d) k' = (if k' = k then Some v else map_of d k')"
  by (simp add: update_conv')

lemma dict_get_pop: "map_of (dict_pop k d) k' = (if k' = k then None else map_of d k')"
  by (simp add: delete_conv')

section \<open>Parsed JSON\<close>

datatype json =
    JNull
  | JBool bool
  | JInt int
  | JFloat pyfloat
  | JStr string
  | JList "json list"
  | JDict "(string \<times> json) list"

fun truthy :: "json \<Rightarrow> bool" where
  "truthy JNull = False"
| "truthy (JBool b) = b"
| "truthy (JInt i) = (i \<noteq> 0)"
| "truthy (JFloat f) = (f \<noteq> Fin 0)"
| "truthy (JStr s) = (s \<noteq> [])"
| "truthy (JList xs) = (xs \<noteq> [])"
| "truthy (JDict d) = (d \<noteq> [])"

fun type_name :: "json \<Rightarrow> string" where
  "type_name JNull = ''NoneType''"
| "type_name (JBool _) = ''bool''"
| "type_name (JInt _) = ''int''"
| "type_name (JFloat _) = ''float''"
| "type_name (JStr _) = ''str''"
| "type_name (JList _) = ''list''"
| "type_name (JDict _) = ''dict''"

definition is_str :: "json \<Rightarrow> bool" where
  "is_str j = (case j of JStr _ \<Rightarrow> True | _ \<Rightarrow> False)"

definition is_list :: "json \<Rightarrow> bool" where
  "is_list j = (case j of JList _ \<Rightarrow> True | _ \<Rightarrow> False)"

definition is_dict :: "json \<Rightarrow> bool" where
  "is_dict j = (case j of JDict _ \<Rightarrow> True | _ \<Rightarrow> False)"

lemma json_kind_simps [simp]:
  "is_str (JStr s)" "\<not> is_str JNull" "\<not> is_str (JBool b)" "\<not> is_str (JInt i)"
  "\<not> is_str (JFloat f)" "\<not> is_str (JList l)" "\<not> is_str (JDict d)"
  "is_list (JList l)" "\<not> is_list JNull" "\<not> is_list (JBool b)" "\<not> is_list (JInt i)"
  "\<not> is_list (JFloat f)" "\<not> is_list (JStr s)" "\<not> is_list (JDict d)"
  "is_dict (JDict d)" "\<not> is_dict JNull" "\<not> is_dict (JBool b)" "\<not> is_dict (JInt i)"
  "\<not> is_dict (JFloat f)" "\<not> is_dict (JStr s)" "\<not> is_dict (JList l)"
  by (simp_all add: is_str_def is_list_def is_dict_def)

lemma is_str_iff: "is_str j \<longleftrightarrow> (\<exists>s. j = JStr s)"
  by (cases j) auto

lemma is_dict_iff: "is_dict j \<longleftrightarrow> (\<exists>d. j = JDict d)"
  by (cases j) auto

text \<open>
  \<open>d.get(k)\<close>: an absent key and a key bound to \<open>None\<close> give the same answer; \<open>k in d\<close> tells
  them apart.
\<close>

definition jget :: "json dict \<Rightarrow> string \<Rightarrow> json" where
  "jget d k = (case map_of d k of None \<Rightarrow> JNull | Some v \<Rightarrow> v)"

definition has_key :: "(string \<times> 'v) list \<Rightarrow> string \<Rightarrow> bool" where
  "has_key d k = (map_of d k \<noteq> None)"

lemma has_key_iff: "has_key d k \<longleftrightarrow> k \<in> set (dict_keys d)"
  by (simp add: has_key_def map_of_eq_None_iff)

lemma jget_not_null_has_key: "jget d k \<noteq> JNull \<Longrightarrow> has_key d k"
  by (auto simp: jget_def has_key_def split: option.splits)

text \<open>
  Python's \<open>==\<close>: numbers and booleans compare by value across their types, dictionaries
  without regard to the order of their keys.
\<close>

definition json_num :: "json \<Rightarrow> pyfloat option" where
  "json_num j = (case j of JBool b \<Rightarrow> Some (Fin (if b then 1 else 0))
     | JInt i \<Rightarrow> Some (Fin (of_int i)) | JFloat f \<Rightarrow> Some f | _ \<Rightarrow> None)"

definition pf_eq :: "pyfloat \<Rightarrow> pyfloat \<Rightarrow> bool" where
  "pf_eq a b = (a = b \<and> a \<noteq> NaN)"

lemma size_list_member: "(x :: json) \<in> set xs \<Longrightarrow> size x \<le> size_list size xs"
  by (rule size_list_estimation'[where x = x]) simp_all

lemma size_dict_member:
  "(k, v) \<in> set d \<Longrightarrow> size v \<le> size_list (size_prod (\<lambda>_. 0) size) d"
  by (rule size_list_estimation'[where x = "(k, v)"]) simp_all

function py_eq :: "json \<Rightarrow> json \<Rightarrow> bool" where
  "py_eq (JList xs) j = (case j of JList ys \<Rightarrow> length xs = length ys \<and> list_all (\<lambda>(x, y). py_eq x y) (zip xs ys) | _ \<Rightarrow> False)"
| "py_eq (JDict d) j = (case j of JDict e \<Rightarrow>
      length d = length e \<and> list_all (\<lambda>(k, v). case map_of e k of None \<Rightarrow> False | Some w \<Rightarrow> py_eq v w) d | _ \<Rightarrow> False)"
| "py_eq (JStr s) j = (j = JStr s)"
| "py_eq JNull j = (j = JNull)"
| "py_eq (JBool b) j = (case json_num j of None \<Rightarrow> False | Some g \<Rightarrow> pf_eq (Fin (if b then 1 else 0)) g)"
| "py_eq (JInt i) j = (case json_num j of None \<Rightarrow> False | Some g \<Rightarrow> pf_eq (Fin (of_int i)) g)"
| "py_eq (JFloat f) j = (case json_num j of None \<Rightarrow> False | Some g \<Rightarrow> pf_eq f g)"
  by pat_completeness auto
termination
  by (relation "measure (\<lambda>(j, _). size j)")
     (auto simp: less_Suc_eq_le dest!: set_zip_leftD intro: size_list_member size_dict_member)

lemma py_eq_JStr [simp]: "py_eq j (JStr s) \<longleftrightarrow> j = JStr s"
  by (cases j) (auto simp: json_num_def)

text \<open>The value of a numeric claim; \<open>bool\<close> is a subclass of \<open>int\<close> and is excluded here.\<close>

definition json_number :: "json \<Rightarrow> pyfloat option" where
  "json_number j = (case j of JInt i \<Rightarrow> Some (Fin (of_int i)) | JFloat f \<Rightarrow> Some f | _ \<Rightarrow> None)"

section \<open>Optional strings\<close>

definition opt_truthy :: "string option \<Rightarrow> bool" where
  "opt_truthy s = (case s of None \<Rightarrow> False | Some t \<Rightarrow> t \<noteq> [])"

lemma opt_truthy_simps [simp]: "\<not> opt_truthy None" "opt_truthy (Some s) \<longleftrightarrow> s \<noteq> []"
  by (simp_all add: opt_truthy_def)

lemma opt_truthy_iff: "opt_truthy s \<longleftrightarrow> (\<exists>t. s = Some t \<and> t \<noteq> [])"
  by (cases s) auto

definition jopt :: "string option \<Rightarrow> json" where
  "jopt s = (case s of None \<Rightarrow> JNull | Some t \<Rightarrow> JStr t)"

definition opt_or :: "string option \<Rightarrow> string \<Rightarrow> string" where
  "opt_or s d = (case s of None \<Rightarrow> d | Some t \<Rightarrow> if t = [] then d else t)"

text \<open>The text an f-string shows for an optional string.\<close>

definition fmt_opt :: "string option \<Rightarrow> string" where
  "fmt_opt s = (case s of None \<Rightarrow> ''None'' | Some t \<Rightarrow> t)"

end
