(* ===== verification/Ip_Address.thy ===== *)
theory Ip_Address
  imports Py_Values
begin

text \<open>
  The parts of the standard library's \<open>ipaddress\<close> and \<open>socket\<close> modules the discovery checks
  rest on: \<open>ipaddress.ip_address\<close> for IPv4 and IPv6 literals, the address-class predicates
  (\<open>is_loopback\<close>, \<open>is_private\<close>, ...) and \<open>socket.inet_aton\<close>, which accepts the decimal, octal
  and hexadecimal spellings of an IPv4 address and its one- to three-part forms. Addresses are
  integers below \<open>2 ^ 32\<close> and \<open>2 ^ 128\<close>.
\<close>

section \<open>Literals\<close>

datatype ip = IPv4 int | IPv6 int "string option"

definition is_hex_digit :: "char \<Rightarrow> bool" where
  "is_hex_digit c = (is_ascii_digit c \<or> (65 \<le> ord c \<and> ord c \<le> 70) \<or> (97 \<le> ord c \<and> ord c \<le> 102))"

definition hex_val :: "char \<Rightarrow> int" where
  "hex_val c = (if is_ascii_digit c then ord c - 48 else if ord c \<le> 70 then ord c - 55 else ord c - 87)"

definition base_val :: "int \<Rightarrow> string \<Rightarrow> int" where
  "base_val b s = foldl (\<lambda>n c. b * n + hex_val c) 0 s"

text \<open>\<open>IPv4Address._parse_octet\<close>: plain decimal, no leading zero, at most 255.\<close>

definition parse_octet :: "string \<Rightarrow> int option" where
  "parse_octet s =
     (if s = [] \<or> \<not> list_all is_ascii_digit s \<or> 3 < length s \<or> (s \<noteq> ''0'' \<and> hd s = CHR ''0'')
      then None
      else let v = base_val 10 s in if 255 < v then None else Some v)"

definition ipv4_from_string :: "string \<Rightarrow> int option" where
  "ipv4_from_string s =
     (case map parse_octet (py_split (CHR ''.'') s) of
        [Some a, Some b, Some c, Some d] \<Rightarrow> Some (a * 16777216 + b * 65536 + c * 256 + d)
      | _ \<Rightarrow> None)"

definition parse_hextet :: "string \<Rightarrow> int option" where
  "parse_hextet s = (if s = [] \<or> \<not> list_all is_hex_digit s \<or> 4 < length s then None
                     else Some (base_val 16 s))"

text \<open>The parts of the address, an IPv4-style last part already split into two hextets.\<close>

definition ipv6_parts :: "string \<Rightarrow> int option list option" where
  "ipv6_parts s =
     (let parts = py_split (CHR '':'') s;
          hextets = map (\<lambda>p. if p = [] then None else Some p) parts in
      if length parts < 3 then None
      else
        let last_part = last parts;
            enc = (\<lambda>p. case p of None \<Rightarrow> Some None | Some t \<Rightarrow> map_option Some (parse_hextet t));
            front = (if CHR ''.'' \<in> set last_part then butlast hextets else hextets);
            tail = (if CHR ''.'' \<in> set last_part
                    then map_option (\<lambda>v. [Some (v div 65536), Some (v mod 65536)]) (ipv4_from_string last_part)
                    else Some [])
        in case tail of None \<Rightarrow> None
           | Some t \<Rightarrow>
             if 9 < length front + length t then None
             else if list_all (\<lambda>p. enc p \<noteq> None) front
                  then Some (map (\<lambda>p. the (enc p)) front @ t) else None)"

text \<open>The positions, endpoints apart, of the empty parts: the \<open>::\<close> of the literal.\<close>

definition skip_positions :: "'a option list \<Rightarrow> nat list" where
  "skip_positions ps = filter (\<lambda>i. ps ! i = None) [1..<length ps - 1]"

definition hextets_value :: "int list \<Rightarrow> int" where
  "hextets_value hs = foldl (\<lambda>n h. 65536 * n + h) 0 hs"

definition ipv6_from_parts :: "int option list \<Rightarrow> int option" where
  "ipv6_from_parts ps =
     (case skip_positions ps of
        [] \<Rightarrow> if length ps = 8 \<and> list_all (\<lambda>p. p \<noteq> None) ps
              then Some (hextets_value (map the ps)) else None
      | [i] \<Rightarrow>
          let hi = take i ps; lo = drop (Suc i) ps;
              hi' = (if hd ps = None then tl hi else hi);
              lo' = (if last ps = None then butlast lo else lo);
              skipped = 8 - (length hi' + length lo')
          in if (hd ps = None \<and> hi' \<noteq> []) \<or> (last ps = None \<and> lo' \<noteq> []) then None
             else if 8 \<le> length hi' + length lo' then None
             else Some (hextets_value (map the hi' @ replicate skipped 0 @ map the lo'))
      | _ \<Rightarrow> None)"

definition ipv6_from_string :: "string \<Rightarrow> (int \<times> string option) option" where
  "ipv6_from_string s =
     (if CHR ''/'' \<in> set s then None
      else let (addr, sep, scope) = py_partition (CHR ''%'') s in
        if sep \<and> (scope = [] \<or> CHR ''%'' \<in> set scope) then None
        else case ipv6_parts addr of None \<Rightarrow> None
             | Some ps \<Rightarrow> map_option (\<lambda>v. (v, if sep then Some scope else None)) (ipv6_from_parts ps))"

text \<open>\<open>ipaddress.ip_address(s)\<close>: \<open>None\<close> is the \<open>ValueError\<close>.\<close>

definition ip_address :: "string \<Rightarrow> ip option" where
  "ip_address s = (case ipv4_from_string s of Some v \<Rightarrow> Some (IPv4 v)
     | None \<Rightarrow> map_option (\<lambda>(v, sc). IPv6 v sc) (ipv6_from_string s))"

section \<open>Address classes\<close>

text \<open>Membership of an address of \<open>w\<close> bits in the network \<open>base/plen\<close>.\<close>

definition in_net :: "nat \<Rightarrow> int \<Rightarrow> int \<times> nat \<Rightarrow> bool" where
  "in_net w a net = (a div 2 ^ (w - snd net) = fst net div 2 ^ (w - snd net))"

definition v4 :: "int \<Rightarrow> int \<Rightarrow> int \<Rightarrow> int \<Rightarrow> int" where
  "v4 a b c d = a * 16777216 + b * 65536 + c * 256 + d"

definition v4_private_nets :: "(int \<times> nat) list" where
  "v4_private_nets =
     [(v4 0 0 0 0, 8), (v4 10 0 0 0, 8), (v4 127 0 0 0, 8), (v4 169 254 0 0, 16), (v4 172 16 0 0, 12),
      (v4 192 0 0 0, 24), (v4 192 0 0 170, 31), (v4 192 0 2 0, 24), (v4 192 168 0 0, 16),
      (v4 198 18 0 0, 15), (v4 198 51 100 0, 24), (v4 203 0 113 0, 24), (v4 240 0 0 0, 4),
      (v4 255 255 255 255, 32)]"

definition v4_private_exceptions :: "(int \<times> nat) list" where
  "v4_private_exceptions = [(v4 192 0 0 9, 32), (v4 192 0 0 10, 32)]"

definition v4_is_private :: "int \<Rightarrow> bool" where
  "v4_is_private a = (list_ex (in_net 32 a) v4_private_nets
                      \<and> list_all (\<lambda>n. \<not> in_net 32 a n) v4_private_exceptions)"

definition v4_is_loopback :: "int \<Rightarrow> bool" where
  "v4_is_loopback a = in_net 32 a (v4 127 0 0 0, 8)"

definition v4_is_link_local :: "int \<Rightarrow> bool" where
  "v4_is_link_local a = in_net 32 a (v4 169 254 0 0, 16)"

definition v4_is_reserved :: "int \<Rightarrow> bool" where
  "v4_is_reserved a = in_net 32 a (v4 240 0 0 0, 4)"

definition v4_is_multicast :: "int \<Rightarrow> bool" where
  "v4_is_multicast a = in_net 32 a (v4 224 0 0 0, 4)"

text \<open>An IPv6 network given by its first hextets.\<close>

definition v6 :: "int list \<Rightarrow> int" where
  "v6 hs = hextets_value (hs @ replicate (8 - length hs) 0)"

definition v6_private_nets :: "(int \<times> nat) list" where
  "v6_private_nets =
     [(1, 128), (0, 128), (v6 [0, 0, 0, 0, 0, 65535], 96), (v6 [100, 65435, 1], 48), (v6 [256], 64),
      (v6 [8193], 23), (v6 [8193, 3512], 32), (v6 [64512], 7), (v6 [65152], 10)]"

definition v6_private_exceptions :: "(int \<times> nat) list" where
  "v6_private_exceptions =
     [(v6 [8193, 1, 0, 0, 0, 0, 0, 1], 128), (v6 [8193, 1, 0, 0, 0, 0, 0, 2], 128), (v6 [8193, 3], 32),
      (v6 [8193, 4, 274], 48), (v6 [8193, 32], 28), (v6 [8193, 48], 28)]"

definition v6_reserved_nets :: "(int \<times> nat) list" where
  "v6_reserved_nets =
     [(0, 8), (v6 [256], 8), (v6 [512], 7), (v6 [1024], 6), (v6 [2048], 5), (v6 [4096], 4),
      (v6 [16384], 3), (v6 [24576], 3), (v6 [32768], 3), (v6 [40960], 3), (v6 [49152], 3),
      (v6 [57344], 4), (v6 [61440], 5), (v6 [63488], 6), (v6 [65024], 9)]"

definition ipv4_mapped :: "int \<Rightarrow> int option" where
  "ipv4_mapped a = (if a div 2 ^ 32 = 65535 then Some (a mod 2 ^ 32) else None)"

fun ip_is_private :: "ip \<Rightarrow> bool" where
  "ip_is_private (IPv4 a) = v4_is_private a"
| "ip_is_private (IPv6 a _) = (case ipv4_mapped a of Some m \<Rightarrow> v4_is_private m
     | None \<Rightarrow> list_ex (in_net 128 a) v6_private_nets
              \<and> list_all (\<lambda>n. \<not> in_net 128 a n) v6_private_exceptions)"

fun ip_is_loopback :: "ip \<Rightarrow> bool" where
  "ip_is_loopback (IPv4 a) = v4_is_loopback a"
| "ip_is_loopback (IPv6 a _) = (case ipv4_mapped a of Some m \<Rightarrow> v4_is_loopback m | None \<Rightarrow> a = 1)"

fun ip_is_link_local :: "ip \<Rightarrow> bool" where
  "ip_is_link_local (IPv4 a) = v4_is_link_local a"
| "ip_is_link_local (IPv6 a _) = (case ipv4_mapped a of Some m \<Rightarrow> v4_is_link_local m
     | None \<Rightarrow> in_net 128 a (v6 [65152], 10))"

fun ip_is_reserved :: "ip \<Rightarrow> bool" where
  "ip_is_reserved (IPv4 a) = v4_is_reserved a"
| "ip_is_reserved (IPv6 a _) = (case ipv4_mapped a of Some m \<Rightarrow> v4_is_reserved m
     | None \<Rightarrow> list_ex (in_net 128 a) v6_reserved_nets)"

fun ip_is_multicast :: "ip \<Rightarrow> bool" where
  "ip_is_multicast (IPv4 a) = v4_is_multicast a"
| "ip_is_multicast (IPv6 a _) = (case ipv4_mapped a of Some m \<Rightarrow> v4_is_multicast m
     | None \<Rightarrow> in_net 128 a (v6 [65280], 8))"

fun ip_is_unspecified :: "ip \<Rightarrow> bool" where
  "ip_is_unspecified (IPv4 a) = (a = 0)"
| "ip_is_unspecified (IPv6 a _) = (case ipv4_mapped a of Some m \<Rightarrow> m = 0 | None \<Rightarrow> a = 0)"

section \<open>The resolver's spellings of an IPv4 address\<close>

text \<open>
  \<open>strtoul\<close> with base 0 on a string that starts with a digit: a \<open>0x\<close> prefix followed by a hex
  digit is hexadecimal, a leading zero octal, anything else decimal. The result is the value
  and the rest of the string.
\<close>

definition is_octal_digit :: "char \<Rightarrow> bool" where
  "is_octal_digit c = (48 \<le> ord c \<and> ord c \<le> 55)"

definition strtoul0 :: "string \<Rightarrow> int \<times> string" where
  "strtoul0 s =
     (case s of
        z # x # h # t \<Rightarrow>
          if z = CHR ''0'' \<and> x \<in> {CHR ''x'', CHR ''X''} \<and> is_hex_digit h
          then (base_val 16 (takeWhile is_hex_digit (h # t)), dropWhile is_hex_digit (h # t))
          else if z = CHR ''0'' then (base_val 8 (takeWhile is_octal_digit s), dropWhile is_octal_digit s)
          else (base_val 10 (takeWhile is_ascii_digit s), dropWhile is_ascii_digit s)
      | _ \<Rightarrow>
          if take 1 s = ''0'' then (base_val 8 (takeWhile is_octal_digit s), dropWhile is_octal_digit s)
          else (base_val 10 (takeWhile is_ascii_digit s), dropWhile is_ascii_digit s))"

definition c_isspace :: "char \<Rightarrow> bool" where
  "c_isspace c = ((9 \<le> ord c \<and> ord c \<le> 13) \<or> ord c = 32)"

text \<open>
  The number groups of the address, at most four of them, the ones before the last at most
  255: the loop of the C function, with the number of groups still allowed as its bound.
\<close>

fun aton_groups :: "nat \<Rightarrow> string \<Rightarrow> (int list \<times> string) option" where
  "aton_groups 0 s = None"
| "aton_groups (Suc n) s =
     (if s = [] \<or> \<not> is_ascii_digit (hd s) then None
      else let (v, r) = strtoul0 s in
        if 4294967295 < v then None
        else if r \<noteq> [] \<and> hd r = CHR ''.''
             then if n = 0 \<or> 255 < v then None
                  else map_option (\<lambda>(vs, q). (v # vs, q)) (aton_groups n (tl r))
             else Some ([v], r))"

definition aton_last_max :: "nat \<Rightarrow> int" where
  "aton_last_max k = (if k = 1 then 4294967295 else if k = 2 then 16777215 else if k = 3 then 65535 else 255)"

text \<open>The value of the groups: the last one fills the bytes the others leave.\<close>

definition aton_value :: "int list \<Rightarrow> int" where
  "aton_value vs =
     (case vs of [a] \<Rightarrow> a | [a, b] \<Rightarrow> a * 16777216 + b
      | [a, b, c] \<Rightarrow> a * 16777216 + b * 65536 + c
      | [a, b, c, d] \<Rightarrow> a * 16777216 + b * 65536 + c * 256 + d | _ \<Rightarrow> 0)"

text \<open>\<open>socket.inet_aton(s)\<close>: \<open>None\<close> is the \<open>OSError\<close>.\<close>

definition inet_aton :: "string \<Rightarrow> int option" where
  "inet_aton s =
     (case aton_groups 4 s of None \<Rightarrow> None
      | Some (vs, r) \<Rightarrow>
          if r \<noteq> [] \<and> \<not> c_isspace (hd r) then None
          else if aton_last_max (length vs) < last vs then None
          else Some (aton_value vs))"

section \<open>Bounds\<close>

lemma parse_octet_bound: "parse_octet s = Some v \<Longrightarrow> v \<le> 255"
  by (auto simp: parse_octet_def Let_def split: if_splits)

lemma ipv4_from_string_bound: "ipv4_from_string s = Some v \<Longrightarrow> v < 2 ^ 32"
  by (auto simp: ipv4_from_string_def dest!: parse_octet_bound
      split: list.splits option.splits)

lemma aton_groups_bounds:
  assumes "aton_groups n s = Some (vs, r)"
  shows "vs \<noteq> [] \<and> length vs \<le> n \<and> (\<forall>v \<in> set (butlast vs). v \<le> 255)"
  using assms
proof (induction n s arbitrary: vs r rule: aton_groups.induct)
  case (1 s)
  then show ?case by simp
next
  case (2 n s)
  then show ?case
    by (auto simp: Let_def split: if_splits prod.splits)
qed

end
