(* ===== verification/Exceptions.thy ===== *)
theory Exceptions
  imports Py_Values
begin

text \<open>
  The exception hierarchy of \<open>exceptions.py\<close>, together with the built-in exceptions and the
  exceptions of PyJWT and httpx that the library's handlers name. An exception is a record of
  its class, its message and the attributes the library reads back; a handler
  \<open>except C\<close> is \<open>exn_isinstance e C\<close>.
\<close>

section \<open>Classes\<close>

datatype exc_class =
    PyIdentityModelException
  | ValidationException
  | TokenValidationException
  | SignatureVerificationException
  | TokenExpiredException
  | InvalidAudienceException
  | InvalidIssuerException
  | LogoutTokenValidationException
  | IdTokenValidationException
  | LogoutStateValidationException
  | AuthorizeCallbackException
  | JarmValidationException
  | CertificateBindingError
  | ClaimsValidationError
  | NetworkException
  | DiscoveryException
  | DiscoveryParseError
  | DiscoveryMissingFieldsError
  | JwksException
  | TokenRequestException
  | UserInfoException
  | ConfigurationException
  | DiscoveryHTTPSRequiredError
  | FailedResponseAccessError
  | SuccessfulResponseAccessError
  | ValueError
  | UnicodeEncodeError
  | TypeError
  | AttributeError
  | KeyError
  | IndexError
  | RuntimeError
  | NotImplementedError
  | OverflowError
  | PyJWTError
  | JwtInvalidTokenError
  | JwtDecodeError
  | JwtInvalidSignatureError
  | JwtExpiredSignatureError
  | JwtInvalidAudienceError
  | JwtInvalidIssuerError
  | HttpxRequestError
  | PyException
  | CancelledError

text \<open>
  The direct base class; \<open>Exception\<close> itself has none here. asyncio's \<open>CancelledError\<close> is not an \<open>Exception\<close>: no handler
  of the library catches it.
\<close>

fun exc_base :: "exc_class \<Rightarrow> exc_class option" where
  "exc_base PyIdentityModelException = Some PyException"
| "exc_base ValidationException = Some PyIdentityModelException"
| "exc_base TokenValidationException = Some ValidationException"
| "exc_base SignatureVerificationException = Some TokenValidationException"
| "exc_base TokenExpiredException = Some TokenValidationException"
| "exc_base InvalidAudienceException = Some TokenValidationException"
| "exc_base InvalidIssuerException = Some TokenValidationException"
| "exc_base LogoutTokenValidationException = Some TokenValidationException"
| "exc_base IdTokenValidationException = Some TokenValidationException"
| "exc_base LogoutStateValidationException = Some ValidationException"
| "exc_base AuthorizeCallbackException = Some ValidationException"
| "exc_base JarmValidationException = Some AuthorizeCallbackException"
| "exc_base CertificateBindingError = Some TokenValidationException"
| "exc_base ClaimsValidationError = Some TokenValidationException"
| "exc_base NetworkException = Some PyIdentityModelException"
| "exc_base DiscoveryException = Some NetworkException"
| "exc_base DiscoveryParseError = Some DiscoveryException"
| "exc_base DiscoveryMissingFieldsError = Some DiscoveryException"
| "exc_base JwksException = Some NetworkException"
| "exc_base TokenRequestException = Some NetworkException"
| "exc_base UserInfoException = Some NetworkException"
| "exc_base ConfigurationException = Some PyIdentityModelException"
| "exc_base DiscoveryHTTPSRequiredError = Some ConfigurationException"
| "exc_base FailedResponseAccessError = Some PyIdentityModelException"
| "exc_base SuccessfulResponseAccessError = Some PyIdentityModelException"
| "exc_base ValueError = Some PyException"
| "exc_base UnicodeEncodeError = Some ValueError"
| "exc_base TypeError = Some PyException"
| "exc_base AttributeError = Some PyException"
| "exc_base KeyError = Some PyException"
| "exc_base IndexError = Some PyException"
| "exc_base RuntimeError = Some PyException"
| "exc_base NotImplementedError = Some RuntimeError"
| "exc_base OverflowError = Some PyException"
| "exc_base PyJWTError = Some PyException"
| "exc_base JwtInvalidTokenError = Some PyJWTError"
| "exc_base JwtDecodeError = Some JwtInvalidTokenError"
| "exc_base JwtInvalidSignatureError = Some JwtDecodeError"
| "exc_base JwtExpiredSignatureError = Some JwtInvalidTokenError"
| "exc_base JwtInvalidAudienceError = Some JwtInvalidTokenError"
| "exc_base JwtInvalidIssuerError = Some JwtInvalidTokenError"
| "exc_base HttpxRequestError = Some PyException"
| "exc_base PyException = None"
| "exc_base CancelledError = None"

text \<open>The depth of a class, a measure for the walk up the hierarchy.\<close>

fun exc_depth :: "exc_class \<Rightarrow> nat" where
  "exc_depth PyException = 0"
| "exc_depth CancelledError = 0"
| "exc_depth PyIdentityModelException = 1"
| "exc_depth ValidationException = 2"
| "exc_depth TokenValidationException = 3"
| "exc_depth SignatureVerificationException = 4"
| "exc_depth TokenExpiredException = 4"
| "exc_depth InvalidAudienceException = 4"
| "exc_depth InvalidIssuerException = 4"
| "exc_depth LogoutTokenValidationException = 4"
| "exc_depth IdTokenValidationException = 4"
| "exc_depth LogoutStateValidationException = 3"
| "exc_depth AuthorizeCallbackException = 3"
| "exc_depth JarmValidationException = 4"
| "exc_depth CertificateBindingError = 4"
| "exc_depth ClaimsValidationError = 4"
| "exc_depth NetworkException = 2"
| "exc_depth DiscoveryException = 3"
| "exc_depth DiscoveryParseError = 4"
| "exc_depth DiscoveryMissingFieldsError = 4"
| "exc_depth JwksException = 3"
| "exc_depth TokenRequestException = 3"
| "exc_depth UserInfoException = 3"
| "exc_depth ConfigurationException = 2"
| "exc_depth DiscoveryHTTPSRequiredError = 3"
| "exc_depth FailedResponseAccessError = 2"
| "exc_depth SuccessfulResponseAccessError = 2"
| "exc_depth ValueError = 1"
| "exc_depth UnicodeEncodeError = 2"
| "exc_depth TypeError = 1"
| "exc_depth AttributeError = 1"
| "exc_depth KeyError = 1"
| "exc_depth IndexError = 1"
| "exc_depth RuntimeError = 1"
| "exc_depth NotImplementedError = 2"
| "exc_depth OverflowError = 1"
| "exc_depth PyJWTError = 1"
| "exc_depth JwtInvalidTokenError = 2"
| "exc_depth JwtDecodeError = 3"
| "exc_depth JwtInvalidSignatureError = 4"
| "exc_depth JwtExpiredSignatureError = 3"
| "exc_depth JwtInvalidAudienceError = 3"
| "exc_depth JwtInvalidIssuerError = 3"
| "exc_depth HttpxRequestError = 1"

lemma exc_depth_base: "exc_base c = Some b \<Longrightarrow> exc_depth b < exc_depth c"
  by (cases c) auto

function exc_mro :: "exc_class \<Rightarrow> exc_class list" where
  "exc_mro c = c # (case exc_base c of None \<Rightarrow> [] | Some b \<Rightarrow> exc_mro b)"
  by pat_completeness auto
termination
  by (relation "measure exc_depth") (auto dest: exc_depth_base)

declare exc_mro.simps [simp del]

definition subclass_of :: "exc_class \<Rightarrow> exc_class \<Rightarrow> bool" where
  "subclass_of c d = (d \<in> set (exc_mro c))"

lemma subclass_of_refl [simp]: "subclass_of c c"
  by (simp add: subclass_of_def exc_mro.simps[of c])

lemma subclass_of_base:
  "exc_base c = Some b \<Longrightarrow> subclass_of c d \<longleftrightarrow> c = d \<or> subclass_of b d"
  by (auto simp: subclass_of_def exc_mro.simps[of c])

lemma subclass_of_top:
  "subclass_of PyException d \<longleftrightarrow> d = PyException" "subclass_of CancelledError d \<longleftrightarrow> d = CancelledError"
  by (simp_all add: subclass_of_def exc_mro.simps eq_commute)

lemma subclass_of_Exception [simp]: "subclass_of c PyException \<longleftrightarrow> c \<noteq> CancelledError"
proof (induction c rule: exc_mro.induct)
  case (1 c)
  show ?case
  proof (cases "exc_base c")
    case None
    then show ?thesis by (cases c) (auto simp: subclass_of_top)
  next
    case (Some b)
    with 1 show ?thesis by (cases c) (auto simp: subclass_of_base)
  qed
qed

lemma subclass_of_trans:
  assumes "subclass_of c d" and "subclass_of d e"
  shows "subclass_of c e"
  using assms
proof (induction c rule: exc_mro.induct)
  case (1 c)
  show ?case
  proof (cases "exc_base c")
    case None
    with 1 show ?thesis by (simp add: subclass_of_def exc_mro.simps[of c])
  next
    case (Some b)
    with 1 have "c \<noteq> d \<Longrightarrow> subclass_of b e" by (simp add: subclass_of_base[OF Some])
    with "1.prems" Some show ?thesis by (cases "c = d") (auto simp: subclass_of_base)
  qed
qed

text \<open>
  The classes that are, directly or not, \<open>TokenValidationException\<close>s, resp.\ exceptions of the
  library: the tests the handlers of the library make.
\<close>

lemma subclass_of_TokenValidation [simp]:
  "subclass_of c TokenValidationException \<longleftrightarrow>
     c \<in> {TokenValidationException, SignatureVerificationException, TokenExpiredException,
          InvalidAudienceException, InvalidIssuerException, LogoutTokenValidationException,
          IdTokenValidationException, CertificateBindingError, ClaimsValidationError}"
  by (cases c) (simp_all add: subclass_of_base subclass_of_top)

lemma subclass_of_Configuration [simp]:
  "subclass_of c ConfigurationException \<longleftrightarrow>
     c \<in> {ConfigurationException, DiscoveryHTTPSRequiredError}"
  by (cases c) (simp_all add: subclass_of_base subclass_of_top)

lemma subclass_of_Discovery [simp]:
  "subclass_of c DiscoveryException \<longleftrightarrow>
     c \<in> {DiscoveryException, DiscoveryParseError, DiscoveryMissingFieldsError}"
  by (cases c) (simp_all add: subclass_of_base subclass_of_top)

lemma subclass_of_ValueError [simp]:
  "subclass_of c ValueError \<longleftrightarrow> c \<in> {ValueError, UnicodeEncodeError}"
  by (cases c) (simp_all add: subclass_of_base subclass_of_top)

lemma subclass_of_Callback [simp]:
  "subclass_of c AuthorizeCallbackException \<longleftrightarrow>
     c \<in> {AuthorizeCallbackException, JarmValidationException}"
  by (cases c) (simp_all add: subclass_of_base subclass_of_top)

lemma subclass_of_JwtInvalidToken [simp]:
  "subclass_of c JwtInvalidTokenError \<longleftrightarrow>
     c \<in> {JwtInvalidTokenError, JwtDecodeError, JwtInvalidSignatureError,
          JwtExpiredSignatureError, JwtInvalidAudienceError, JwtInvalidIssuerError}"
  by (cases c) (simp_all add: subclass_of_base subclass_of_top)

lemma subclass_of_leaf [simp]:
  "subclass_of c SignatureVerificationException \<longleftrightarrow> c = SignatureVerificationException"
  "subclass_of c ClaimsValidationError \<longleftrightarrow> c = ClaimsValidationError"
  "subclass_of c IdTokenValidationException \<longleftrightarrow> c = IdTokenValidationException"
  "subclass_of c JarmValidationException \<longleftrightarrow> c = JarmValidationException"
  "subclass_of c DiscoveryHTTPSRequiredError \<longleftrightarrow> c = DiscoveryHTTPSRequiredError"
  "subclass_of c DiscoveryMissingFieldsError \<longleftrightarrow> c = DiscoveryMissingFieldsError"
  "subclass_of c DiscoveryParseError \<longleftrightarrow> c = DiscoveryParseError"
  "subclass_of c JwtExpiredSignatureError \<longleftrightarrow> c = JwtExpiredSignatureError"
  "subclass_of c JwtInvalidAudienceError \<longleftrightarrow> c = JwtInvalidAudienceError"
  "subclass_of c JwtInvalidIssuerError \<longleftrightarrow> c = JwtInvalidIssuerError"
  "subclass_of c JwtInvalidSignatureError \<longleftrightarrow> c = JwtInvalidSignatureError"
  "subclass_of c HttpxRequestError \<longleftrightarrow> c = HttpxRequestError"
  "subclass_of c TypeError \<longleftrightarrow> c = TypeError"
  "subclass_of c AttributeError \<longleftrightarrow> c = AttributeError"
  "subclass_of c UnicodeEncodeError \<longleftrightarrow> c = UnicodeEncodeError"
  by (cases c; simp add: subclass_of_base subclass_of_top)+

lemma subclass_of_PyJWTError [simp]:
  "subclass_of c PyJWTError \<longleftrightarrow> c = PyJWTError \<or> subclass_of c JwtInvalidTokenError"
  by (cases c) (simp_all add: subclass_of_base subclass_of_top)

lemma subclass_of_library:
  "subclass_of c PyIdentityModelException \<longleftrightarrow>
     c \<in> {PyIdentityModelException, ValidationException, TokenValidationException,
          SignatureVerificationException, TokenExpiredException, InvalidAudienceException,
          InvalidIssuerException, LogoutTokenValidationException, IdTokenValidationException,
          LogoutStateValidationException, AuthorizeCallbackException, JarmValidationException,
          CertificateBindingError, ClaimsValidationError, NetworkException, DiscoveryException,
          DiscoveryParseError, DiscoveryMissingFieldsError, JwksException,
          TokenRequestException, UserInfoException, ConfigurationException,
          DiscoveryHTTPSRequiredError, FailedResponseAccessError, SuccessfulResponseAccessError}"
  by (cases c) (simp_all add: subclass_of_base subclass_of_top)

section \<open>Exceptions\<close>

record exn =
  exn_class :: exc_class
  exn_message :: string
  exn_details :: "json dict"
  exn_token_part :: "string option"
  exn_url :: "string option"
  exn_status_code :: "int option"
  exn_fields :: "string list"
  exn_reason :: string
  exn_claim :: "string option"

type_synonym 'a res = "exn + 'a"

definition exn_isinstance :: "exn \<Rightarrow> exc_class \<Rightarrow> bool" where
  "exn_isinstance e c = subclass_of (exn_class e) c"

text \<open>The constructor most classes inherit: a message and optional details.\<close>

definition mk_exn :: "exc_class \<Rightarrow> string \<Rightarrow> json dict \<Rightarrow> exn" where
  "mk_exn c msg det =
     \<lparr>exn_class = c, exn_message = msg, exn_details = det, exn_token_part = None,
      exn_url = None, exn_status_code = None, exn_fields = [], exn_reason = [], exn_claim = None\<rparr>"

abbreviation raise_cls :: "exc_class \<Rightarrow> string \<Rightarrow> exn" where
  "raise_cls c msg \<equiv> mk_exn c msg []"

text \<open>\<open>TokenValidationException(message, token_part, details)\<close> and its subclasses.\<close>

definition token_exn :: "exc_class \<Rightarrow> string \<Rightarrow> string option \<Rightarrow> json dict \<Rightarrow> exn" where
  "token_exn c msg part det = (mk_exn c msg det)\<lparr>exn_token_part := part\<rparr>"

text \<open>The subclasses whose constructor fixes the part of the token.\<close>

definition signature_exn :: "string \<Rightarrow> json dict \<Rightarrow> exn" where
  "signature_exn msg det = token_exn SignatureVerificationException msg (Some ''signature'') det"

definition payload_exn :: "exc_class \<Rightarrow> string \<Rightarrow> json dict \<Rightarrow> exn" where
  "payload_exn c msg det = token_exn c msg (Some ''payload'') det"

definition network_exn :: "exc_class \<Rightarrow> string \<Rightarrow> string option \<Rightarrow> int option \<Rightarrow> exn" where
  "network_exn c msg url status = (mk_exn c msg [])\<lparr>exn_url := url, exn_status_code := status\<rparr>"

definition missing_fields_exn :: "string \<Rightarrow> string list \<Rightarrow> exn" where
  "missing_fields_exn msg flds = (mk_exn DiscoveryMissingFieldsError msg [])\<lparr>exn_fields := flds\<rparr>"

definition claims_validation_exn :: "string \<Rightarrow> string option \<Rightarrow> exn" where
  "claims_validation_exn reason claim =
     (token_exn ClaimsValidationError reason (Some ''payload'')
        ((''reason'', JStr reason) # (case claim of None \<Rightarrow> [] | Some c \<Rightarrow> [(''claim'', JStr c)])))
     \<lparr>exn_reason := reason, exn_claim := claim\<rparr>"

definition failed_access_exn :: "string \<Rightarrow> string option \<Rightarrow> exn" where
  "failed_access_exn field err =
     raise_cls FailedResponseAccessError
       (''Cannot access '' @ sq field @ '' on a failed response''
        @ (if opt_truthy err then '': '' @ the err else []) @ ''. ''
        @ ''Check 'is_successful' before accessing response data.'')"

definition successful_access_exn :: "string \<Rightarrow> exn" where
  "successful_access_exn field =
     raise_cls SuccessfulResponseAccessError
       (''Cannot access '' @ sq field @ '' on a successful response. ''
        @ ''Check 'is_successful' before accessing error details.'')"

lemma exn_class_simps [simp]:
  "exn_class (mk_exn c msg det) = c"
  "exn_class (token_exn c msg part det) = c"
  "exn_class (signature_exn msg det) = SignatureVerificationException"
  "exn_class (payload_exn c msg det) = c"
  "exn_class (network_exn c msg url st) = c"
  "exn_class (missing_fields_exn msg fs) = DiscoveryMissingFieldsError"
  "exn_class (claims_validation_exn r cl) = ClaimsValidationError"
  "exn_class (failed_access_exn f er) = FailedResponseAccessError"
  "exn_class (successful_access_exn f) = SuccessfulResponseAccessError"
  by (simp_all add: mk_exn_def token_exn_def signature_exn_def payload_exn_def network_exn_def
      missing_fields_exn_def claims_validation_exn_def failed_access_exn_def successful_access_exn_def)

lemma exn_message_simps [simp]:
  "exn_message (mk_exn c msg det) = msg"
  "exn_message (token_exn c msg part det) = msg"
  by (simp_all add: mk_exn_def token_exn_def)

lemma exn_fields_missing [simp]: "exn_fields (missing_fields_exn msg fs) = fs"
  by (simp add: missing_fields_exn_def)

lemma exn_reason_claims [simp]: "exn_reason (claims_validation_exn r cl) = r"
  by (simp add: claims_validation_exn_def)

section \<open>Which exceptions a computation may raise\<close>

definition raises_in :: "exc_class set \<Rightarrow> 'a res \<Rightarrow> bool" where
  "raises_in C r = (case r of Inl e \<Rightarrow> exn_class e \<in> C | Inr _ \<Rightarrow> True)"

named_theorems raises_intros \<open>rules for bounding the exceptions of a computation\<close>

lemma raises_in_simps [simp]:
  "raises_in C (Inr x)" "raises_in C (Inl e) \<longleftrightarrow> exn_class e \<in> C"
  by (simp_all add: raises_in_def)

lemma raises_inD: "\<lbrakk>raises_in C r; r = Inl e\<rbrakk> \<Longrightarrow> exn_class e \<in> C"
  by simp

lemma raises_in_mono: "\<lbrakk>raises_in C r; C \<subseteq> D\<rbrakk> \<Longrightarrow> raises_in D r"
  by (cases r) auto

lemma raises_in_bnd [raises_intros]:
  "\<lbrakk>raises_in C r; \<And>x. r = Inr x \<Longrightarrow> raises_in C (f x)\<rbrakk> \<Longrightarrow> raises_in C (bnd r f)"
  by (cases r) auto

lemma raises_in_guard [raises_intros]: "(c \<Longrightarrow> exn_class e \<in> C) \<Longrightarrow> raises_in C (guard_raise c e)"
  by (simp add: guard_raise_def)

lemma raises_in_if [raises_intros]:
  "\<lbrakk>c \<Longrightarrow> raises_in C r; \<not> c \<Longrightarrow> raises_in C s\<rbrakk> \<Longrightarrow> raises_in C (if c then r else s)"
  by simp

lemma raises_in_for_each [raises_intros]:
  "(\<And>x. x \<in> set xs \<Longrightarrow> raises_in C (f x)) \<Longrightarrow> raises_in C (for_each f xs)"
  by (induction xs) (auto intro!: raises_in_bnd)

end
