(* ===== verification/Url_Parse.thy ===== *)
theory Url_Parse
  imports Ip_Address Exceptions
begin

text \<open>
  The functions of the standard library's \<open>urllib.parse\<close> the library calls: \<open>urlparse\<close> with
  the attributes of its result, \<open>urlunparse\<close>, \<open>quote\<close>, \<open>urlencode\<close> and \<open>parse_qs\<close>. They follow
  the code of the Python versions the package supports (3.12 and later).
\<close>

section \<open>Splitting a URL\<close>

record parse_result =
  scheme :: string
  netloc :: string
  path :: string
  params :: string
  query :: string
  fragment :: string

definition is_c0_or_space :: "char \<Rightarrow> bool" where
  "is_c0_or_space c = (ord c \<le> 32)"

definition is_scheme_char :: "char \<Rightarrow> bool" where
  "is_scheme_char c = (is_ascii_alpha c \<or> is_ascii_digit c \<or> c \<in> {CHR ''+'', CHR ''-'', CHR ''.''})"

text \<open>Leading control characters and spaces go, tabs and line breaks go everywhere.\<close>

definition clean_url :: "string \<Rightarrow> string" where
  "clean_url url = filter (\<lambda>c. ord c \<notin> {9, 10, 13}) (dropWhile is_c0_or_space url)"

definition split_scheme :: "string \<Rightarrow> string \<times> string" where
  "split_scheme url =
     (let (pre, colon, rest) = py_partition (CHR '':'') url in
      if colon \<and> pre \<noteq> [] \<and> is_ascii_alpha (hd pre) \<and> list_all is_scheme_char pre
      then (py_lower pre, rest) else ([], url))"

definition is_netloc_end :: "char \<Rightarrow> bool" where
  "is_netloc_end c = (c \<in> {CHR ''/'', CHR ''?'', CHR ''#''})"

definition split_netloc :: "string \<Rightarrow> string \<times> string" where
  "split_netloc url =
     (if take 2 url = ''//''
      then (takeWhile (\<lambda>c. \<not> is_netloc_end c) (drop 2 url), dropWhile (\<lambda>c. \<not> is_netloc_end c) (drop 2 url))
      else ([], url))"

text \<open>\<open>_check_bracketed_host\<close>: an IPv6 literal or an \<open>IPvFuture\<close> one.\<close>

definition bracketed_host_ok :: "string \<Rightarrow> bool" where
  "bracketed_host_ok h =
     (if take 1 h = ''v''
      then let (ver, dot, rest) = py_partition (CHR ''.'') (drop 1 h) in
           ver \<noteq> [] \<and> list_all is_hex_digit ver \<and> dot \<and> rest \<noteq> [] \<and> CHR 0x0A \<notin> set rest
      else case ip_address h of Some (IPv6 _ _) \<Rightarrow> True | _ \<Rightarrow> False)"

definition netloc_ok :: "string \<Rightarrow> bool" where
  "netloc_ok loc =
     (let op = CHR ''['' \<in> set loc; cl = CHR '']'' \<in> set loc in
      if op \<noteq> cl then False
      else if \<not> op then True
      else
        let (_, _, hp) = py_rpartition (CHR ''@'') loc;
            (pre, have_open, bracketed) = py_partition (CHR ''['') hp in
        if have_open
        then let (host, _, port) = py_partition (CHR '']'') bracketed in
             pre = [] \<and> (port = [] \<or> take 1 port = '':'') \<and> bracketed_host_ok host
        else let (host, _, _) = py_partition (CHR '':'') hp in bracketed_host_ok host)"

text \<open>The schemes whose last path segment may carry parameters.\<close>

definition uses_params :: "string list" where
  "uses_params = [[], ''ftp'', ''hdl'', ''prospero'', ''http'', ''imap'', ''https'', ''shttp'', ''rtsp'',
     ''rtsps'', ''rtspu'', ''sip'', ''sips'', ''mms'', ''sftp'', ''tel'']"

text \<open>\<open>_splitparams\<close>: at the first semicolon of the last path segment.\<close>

definition split_params :: "string \<Rightarrow> string \<times> string" where
  "split_params url =
     (let seg = rev (takeWhile (\<lambda>c. c \<noteq> CHR ''/'') (rev url));
          dir = take (length url - length seg) url;
          (a, semi, b) = py_partition (CHR '';'') seg in
      if semi then (dir @ a, b) else (url, []))"

definition url_value_error :: exn where
  "url_value_error = raise_cls ValueError ''Invalid IPv6 URL''"

definition urlparse :: "string \<Rightarrow> parse_result res" where
  "urlparse url0 =
     (let (sch, rest1) = split_scheme (clean_url url0);
          (loc, rest2) = split_netloc rest1;
          (rest3, _, frag) = py_partition (CHR ''#'') rest2;
          (rest4, _, qry) = py_partition (CHR ''?'') rest3;
          (pth, prm) = (if sch \<in> set uses_params then split_params rest4 else (rest4, []))
      in if \<not> netloc_ok loc then Inl url_value_error
         else Inr \<lparr>scheme = sch, netloc = loc, path = pth, params = prm, query = qry, fragment = frag\<rparr>)"

section \<open>The host\<close>

definition url_hostname :: "parse_result \<Rightarrow> string option" where
  "url_hostname p =
     (let (_, _, info) = py_rpartition (CHR ''@'') (netloc p);
          (_, have_open, bracketed) = py_partition (CHR ''['') info;
          host = (if have_open then fst (py_partition (CHR '']'') bracketed)
                  else fst (py_partition (CHR '':'') info));
          (h, pct, zone) = py_partition (CHR ''%'') host in
      if host = [] then None
      else Some (py_lower h @ (if pct then CHR ''%'' # zone else [])))"

text \<open>\<open>parsed.hostname or ""\<close>.\<close>

definition hostname_or_empty :: "parse_result \<Rightarrow> string" where
  "hostname_or_empty p = (case url_hostname p of None \<Rightarrow> [] | Some h \<Rightarrow> h)"

section \<open>Putting a URL together\<close>

text \<open>\<open>urlunparse\<close> with empty query and fragment and a non-empty network location.\<close>

definition urlunparse_base :: "parse_result \<Rightarrow> string" where
  "urlunparse_base p =
     (let u = path p @ (if params p = [] then [] else CHR '';'' # params p);
          u' = (if u \<noteq> [] \<and> take 1 u \<noteq> ''/'' then CHR ''/'' # u else u)
      in (if scheme p = [] then [] else scheme p @ '':'') @ ''//'' @ netloc p @ u')"

section \<open>Percent encoding\<close>

definition is_unreserved :: "char \<Rightarrow> bool" where
  "is_unreserved c = (is_ascii_alpha c \<or> is_ascii_digit c \<or> c \<in> {CHR ''_'', CHR ''.'', CHR ''-'', CHR ''~''})"

definition hex_upper :: "int \<Rightarrow> char" where
  "hex_upper n = (if n < 10 then char_of (48 + n) else char_of (55 + n))"

definition pct_byte :: "int \<Rightarrow> string" where
  "pct_byte n = [CHR ''%'', hex_upper (n div 16), hex_upper (n mod 16)]"

text \<open>The UTF-8 bytes of a code point below U+0100.\<close>

definition utf8_bytes :: "char \<Rightarrow> int list" where
  "utf8_bytes c = (if ord c < 128 then [ord c] else [192 + ord c div 64, 128 + ord c mod 64])"

definition quote_char :: "char \<Rightarrow> string" where
  "quote_char c = (if is_unreserved c then [c] else concat (map pct_byte (utf8_bytes c)))"

text \<open>\<open>quote(s, safe="")\<close>.\<close>

definition quote :: "string \<Rightarrow> string" where
  "quote s = concat (map quote_char s)"

text \<open>\<open>quote_plus(s)\<close>, the encoding of \<open>urlencode\<close>: a space becomes a plus sign.\<close>

definition quote_plus :: "string \<Rightarrow> string" where
  "quote_plus s = concat (map (\<lambda>c. if c = CHR '' '' then ''+'' else quote_char c) s)"

definition urlencode :: "(string \<times> string) list \<Rightarrow> string" where
  "urlencode d = py_join ''&'' (map (\<lambda>(k, v). quote_plus k @ ''='' @ quote_plus v) d)"

section \<open>Query strings\<close>

text \<open>
  \<open>unquote\<close>, decoding the percent-encoded bytes as UTF-8. A code point above U+00FF and an
  invalid sequence are outside the model's alphabet; both become a question mark.
\<close>

fun pct_decode_bytes :: "string \<Rightarrow> int list" where
  "pct_decode_bytes (p # a # b # s) =
     (if p = CHR ''%'' \<and> is_hex_digit a \<and> is_hex_digit b
      then (16 * hex_val a + hex_val b) # pct_decode_bytes s
      else utf8_bytes p @ pct_decode_bytes (a # b # s))"
| "pct_decode_bytes (p # s) = utf8_bytes p @ pct_decode_bytes s"
| "pct_decode_bytes [] = []"

fun utf8_decode :: "int list \<Rightarrow> string" where
  "utf8_decode [] = []"
| "utf8_decode [b] = [if b < 128 then char_of b else CHR ''?'']"
| "utf8_decode (b # c # bs) =
     (if b < 128 then char_of b # utf8_decode (c # bs)
      else if 194 \<le> b \<and> b \<le> 195 \<and> 128 \<le> c \<and> c \<le> 191
           then char_of (64 * (b - 192) + (c - 128)) # utf8_decode bs
      else CHR ''?'' # utf8_decode (c # bs))"

definition unquote_plus :: "string \<Rightarrow> string" where
  "unquote_plus s = utf8_decode (pct_decode_bytes (map (\<lambda>c. if c = CHR ''+'' then CHR '' '' else c) s))"

text \<open>\<open>parse_qsl(qs, keep_blank_values=True)\<close>: empty pieces are skipped, a missing \<open>=\<close> is an empty value.\<close>

definition parse_qsl :: "string \<Rightarrow> (string \<times> string) list" where
  "parse_qsl qs =
     map (\<lambda>piece. let (k, _, v) = py_partition (CHR ''='') piece in (unquote_plus k, unquote_plus v))
       (filter (\<lambda>piece. piece \<noteq> []) (py_split (CHR ''&'') qs))"

text \<open>\<open>parse_qs\<close>: the values of each name in order, the names in order of first occurrence.\<close>

definition qs_add :: "string \<times> string \<Rightarrow> string list dict \<Rightarrow> string list dict" where
  "qs_add kv d = dict_set (fst kv) ((case map_of d (fst kv) of None \<Rightarrow> [] | Some vs \<Rightarrow> vs) @ [snd kv]) d"

definition parse_qs :: "string \<Rightarrow> string list dict" where
  "parse_qs qs = fold qs_add (parse_qsl qs) []"

section \<open>Facts\<close>

lemma url_value_error_class [simp]: "exn_class url_value_error = ValueError"
  by (simp add: url_value_error_def)

lemma urlparse_raises: "urlparse u = Inl e \<Longrightarrow> e = url_value_error"
  by (auto simp: urlparse_def Let_def split: prod.splits if_splits)

lemma urlparse_scheme_lower: "urlparse u = Inr p \<Longrightarrow> py_lower (scheme p) = scheme p"
  by (auto simp: urlparse_def split_scheme_def Let_def split: prod.splits if_splits)

lemma parse_qs_fold_get:
  "map_of (fold qs_add kvs d) k =
     (let new = map snd (filter (\<lambda>kv. fst kv = k) kvs) in
      case map_of d k of None \<Rightarrow> (if new = [] then None else Some new) | Some vs \<Rightarrow> Some (vs @ new))"
  by (induction kvs arbitrary: d) (auto simp: qs_add_def dict_get_set Let_def split: option.splits)

lemma parse_qs_get:
  "map_of (parse_qs s) k =
     (let vs = map snd (filter (\<lambda>kv. fst kv = k) (parse_qsl s)) in if vs = [] then None else Some vs)"
  by (simp add: parse_qs_def parse_qs_fold_get Let_def)

lemma hex_upper_hex:
  assumes "0 \<le> n" and "n < 16"
  shows "is_hex_digit (hex_upper n) \<and> hex_val (hex_upper n) = n"
  using assms by (auto simp: is_hex_digit_def hex_upper_def hex_val_def is_ascii_digit_def)

lemma utf8_bytes_range: "b \<in> set (utf8_bytes c) \<Longrightarrow> 0 \<le> b \<and> b < 256"
proof -
  have "ord c div 64 \<le> 3" using ord_bounds[of c] by linarith
  then show "b \<in> set (utf8_bytes c) \<Longrightarrow> 0 \<le> b \<and> b < 256"
    by (auto simp: utf8_bytes_def split: if_splits)
qed

section \<open>Encoding and decoding are inverse\<close>

lemma pct_decode_plain: "p \<noteq> CHR ''%'' \<Longrightarrow> pct_decode_bytes (p # s) = utf8_bytes p @ pct_decode_bytes s"
proof (cases s)
  case (Cons a t)
  assume "p \<noteq> CHR ''%''"
  with Cons show ?thesis by (cases t) simp_all
qed simp

lemma pct_decode_byte:
  assumes "0 \<le> n" and "n < 256"
  shows "pct_decode_bytes (pct_byte n @ s) = n # pct_decode_bytes s"
proof -
  have "0 \<le> n div 16 \<and> n div 16 < 16" using assms by linarith
  then show ?thesis
    using hex_upper_hex[of "n div 16"] hex_upper_hex[of "n mod 16"] by (simp add: pct_byte_def)
qed

lemma pct_decode_bytes_concat:
  "\<forall>b \<in> set bs. 0 \<le> b \<and> b < 256 \<Longrightarrow>
     pct_decode_bytes (concat (map pct_byte bs) @ s) = bs @ pct_decode_bytes s"
  by (induction bs) (auto simp: pct_decode_byte)

lemma pct_decode_quote_char: "pct_decode_bytes (quote_char c @ s) = utf8_bytes c @ pct_decode_bytes s"
proof (cases "is_unreserved c")
  case True
  then have "c \<noteq> CHR ''%''" by (auto simp: is_unreserved_def is_ascii_alpha_def is_ascii_digit_def)
  with True show ?thesis by (simp add: quote_char_def pct_decode_plain)
next
  case False
  then show ?thesis
    by (simp add: quote_char_def pct_decode_bytes_concat utf8_bytes_range)
qed

lemma utf8_decode_bytes: "utf8_decode (utf8_bytes c @ bs) = c # utf8_decode bs"
proof (cases "ord c < 128")
  case True
  then show ?thesis by (cases bs) (simp_all add: utf8_bytes_def)
next
  case False
  obtain d m where d: "d = ord c div 64" and m: "m = ord c mod 64" by simp
  have bytes: "utf8_bytes c = [192 + d, 128 + m]" using False by (simp add: utf8_bytes_def d m)
  have "2 \<le> d" "d \<le> 3" "0 \<le> m" "m \<le> 63" unfolding d m using False ord_bounds[of c] by linarith+
  moreover have "char_of (64 * d + m) = c" by (simp add: d m)
  ultimately show ?thesis by (simp add: bytes)
qed

lemma quote_char_no_plus: "CHR ''+'' \<notin> set (quote_char c)"
proof -
  have hex: "hex_upper n \<noteq> CHR ''+''" if "0 \<le> n" "n < 16" for n
  proof
    assume "hex_upper n = CHR ''+''"
    then have "ord (hex_upper n) = 43" by simp
    with that show False by (auto simp: hex_upper_def split: if_splits)
  qed
  have "CHR ''+'' \<notin> set (pct_byte b)" if "0 \<le> b" "b < 256" for b
  proof -
    have "0 \<le> b div 16 \<and> b div 16 < 16" using that by linarith
    with hex[of "b div 16"] hex[of "b mod 16"] show ?thesis by (auto simp: pct_byte_def)
  qed
  then show ?thesis
    using utf8_bytes_range[of _ c]
    by (auto simp: quote_char_def is_unreserved_def is_ascii_alpha_def is_ascii_digit_def)
qed

lemma quote_plus_spaces:
  "map (\<lambda>c. if c = CHR ''+'' then CHR '' '' else c) (quote_plus s)
     = concat (map (\<lambda>c. if c = CHR '' '' then '' '' else quote_char c) s)"
proof (induction s)
  case (Cons c s)
  have "map (\<lambda>c. if c = CHR ''+'' then CHR '' '' else c) (quote_char c) = quote_char c"
    using quote_char_no_plus[of c] by (auto intro!: map_idI)
  with Cons show ?case by (simp add: quote_plus_def)
qed (simp add: quote_plus_def)

theorem unquote_quote_plus: "unquote_plus (quote_plus s) = s"
proof -
  have "utf8_decode (pct_decode_bytes
          (concat (map (\<lambda>c. if c = CHR '' '' then '' '' else quote_char c) s))) = s"
  proof (induction s)
    case (Cons c s)
    have "pct_decode_bytes ((if c = CHR '' '' then '' '' else quote_char c) @ t)
            = utf8_bytes c @ pct_decode_bytes t" for t
      by (simp add: pct_decode_quote_char pct_decode_plain)
    with Cons show ?case by (simp add: utf8_decode_bytes)
  qed simp
  then show ?thesis by (simp add: unquote_plus_def quote_plus_spaces)
qed

end
