(* ===== verification/Models.thy ===== *)
theory Models
  imports Exceptions
begin

text \<open>
  The data model of \<open>core/models.py\<close> that validation rests on: the field-access guard of the
  response classes, \<open>JsonWebKey\<close> with its construction-time checks and its dictionary forms, the
  discovery and JWKS responses and \<open>TokenValidationConfig\<close>. The members of a key are kept as
  JSON values, since the dataclass does not enforce its annotations and the checks decide on the
  run-time type.

  Messages follow the source; an interpolated value that is neither a string, an integer, a
  boolean nor \<open>None\<close> is shown by a placeholder.
\<close>

section \<open>Showing a value in a message\<close>

fun fmt_json :: "json \<Rightarrow> string" where
  "fmt_json JNull = ''None''"
| "fmt_json (JBool b) = (if b then ''True'' else ''False'')"
| "fmt_json (JInt i) = show_int i"
| "fmt_json (JFloat _) = ''<float>''"
| "fmt_json (JStr s) = s"
| "fmt_json (JList _) = ''[...]''"
| "fmt_json (JDict _) = ''{...}''"

section \<open>Guarded field access\<close>

text \<open>
  \<open>_GuardedResponseMixin.__getattribute__\<close>: \<open>v\<close> is the raw attribute \<open>name\<close> of a response with
  the given success flag and error text, \<open>guarded\<close> the class's \<open>_guarded_fields\<close>.
\<close>

definition error_fields :: "string list" where
  "error_fields = [''error'', ''error_description'']"

definition guarded_get :: "string list \<Rightarrow> bool \<Rightarrow> string option \<Rightarrow> string \<Rightarrow> 'v \<Rightarrow> 'v res" where
  "guarded_get guarded ok err name v =
     (if name \<in> set guarded
      then if \<not> ok then Inl (failed_access_exn name err) else Inr v
      else if name \<in> set error_fields
      then if ok then Inl (successful_access_exn name) else Inr v
      else Inr v)"

section \<open>JSON Web Keys\<close>

record jwk =
  jwk_kty :: json
  jwk_use :: json
  jwk_key_ops :: json
  jwk_alg :: json
  jwk_kid :: json
  jwk_x5u :: json
  jwk_x5c :: json
  jwk_x5t :: json
  jwk_x5t_s256 :: json
  jwk_crv :: json
  jwk_x :: json
  jwk_y :: json
  jwk_d :: json
  jwk_n :: json
  jwk_e :: json
  jwk_p :: json
  jwk_q :: json
  jwk_dp :: json
  jwk_dq :: json
  jwk_qi :: json
  jwk_oth :: json
  jwk_k :: json

definition valid_curves :: "string list" where
  "valid_curves = [''P-256'', ''P-384'', ''P-521'', ''secp256k1'']"

definition valid_key_ops :: "string list" where
  "valid_key_ops = [''sign'', ''verify'', ''encrypt'', ''decrypt'', ''wrapKey'', ''unwrapKey'',
     ''deriveKey'', ''deriveBits'']"

definition json_in :: "json \<Rightarrow> string list \<Rightarrow> bool" where
  "json_in j ss = (\<exists>s \<in> set ss. j = JStr s)"

lemma json_in_code [code]: "json_in j ss = list_ex (\<lambda>s. j = JStr s) ss"
  by (auto simp: json_in_def list_ex_iff)

text \<open>The \<open>repr\<close> of a list of plain strings, as the messages show it.\<close>

definition fmt_str_list :: "string list \<Rightarrow> string" where
  "fmt_str_list ss = ''['' @ py_join '', '' (map sq ss) @ '']''"

definition validate_ec_key :: "jwk \<Rightarrow> unit res" where
  "validate_ec_key k =
     bnd (guard_raise (\<not> (truthy (jwk_crv k) \<and> truthy (jwk_x k) \<and> truthy (jwk_y k)))
            (raise_cls ConfigurationException
               ''EC keys require 'crv', 'x', and 'y' parameters''))
       (\<lambda>_. guard_raise (\<not> json_in (jwk_crv k) valid_curves)
              (raise_cls ConfigurationException
                 (''Unsupported curve: '' @ fmt_json (jwk_crv k) @ ''. Supported curves: ''
                  @ fmt_str_list valid_curves)))"

definition validate_rsa_key :: "jwk \<Rightarrow> unit res" where
  "validate_rsa_key k =
     guard_raise (\<not> (truthy (jwk_n k) \<and> truthy (jwk_e k)))
       (raise_cls ConfigurationException ''RSA keys require 'n' and 'e' parameters'')"

definition validate_symmetric_key :: "jwk \<Rightarrow> unit res" where
  "validate_symmetric_key k =
     guard_raise (jwk_k k = JNull) (raise_cls ConfigurationException ''Symmetric keys require 'k' parameter'')"

text \<open>\<open>self.use.startswith\<close> is an \<open>AttributeError\<close> on a value that is not a string.\<close>

definition validate_use_parameter :: "jwk \<Rightarrow> unit res" where
  "validate_use_parameter k =
     (case jwk_use k of
        JNull \<Rightarrow> Inr ()
      | JStr u \<Rightarrow> guard_raise (u \<notin> set [''sig'', ''enc''] \<and> \<not> py_startswith u ''https://'')
                   (raise_cls ConfigurationException
                      (''Invalid 'use' parameter: '' @ u @ ''. Must be 'sig', 'enc', or a URI''))
      | _ \<Rightarrow> Inl (raise_cls AttributeError ''startswith''))"

text \<open>What a \<open>for\<close> loop over a JSON value runs through.\<close>

definition json_iter :: "json \<Rightarrow> json list res" where
  "json_iter j = (case j of JList xs \<Rightarrow> Inr xs | JStr s \<Rightarrow> Inr (map (\<lambda>c. JStr [c]) s)
     | JDict d \<Rightarrow> Inr (map (\<lambda>kv. JStr (fst kv)) d)
     | _ \<Rightarrow> Inl (raise_cls TypeError (type_name j @ '' object is not iterable'')))"

definition validate_key_ops_parameter :: "jwk \<Rightarrow> unit res" where
  "validate_key_ops_parameter k =
     (if jwk_key_ops k = JNull then Inr ()
      else bnd (json_iter (jwk_key_ops k))
        (for_each (\<lambda>op. guard_raise (\<not> json_in op valid_key_ops)
            (raise_cls ConfigurationException
               (''Invalid key operation: '' @ fmt_json op @ ''. Valid operations: ''
                @ fmt_str_list valid_key_ops)))))"

definition validate_key_parameters :: "jwk \<Rightarrow> unit res" where
  "validate_key_parameters k =
     bnd (if jwk_kty k = JStr ''EC'' then validate_ec_key k
          else if jwk_kty k = JStr ''RSA'' then validate_rsa_key k
          else if jwk_kty k = JStr ''oct'' then validate_symmetric_key k
          else Inr ())
       (\<lambda>_. bnd (validate_use_parameter k)
         (\<lambda>_. bnd (validate_key_ops_parameter k)
           (\<lambda>_. guard_raise (jwk_use k \<noteq> JNull \<and> jwk_key_ops k \<noteq> JNull)
                  (raise_cls ConfigurationException
                     ''The 'use' and 'key_ops' parameters are mutually exclusive''))))"

text \<open>\<open>JsonWebKey(...)\<close>: the generated constructor followed by \<open>__post_init__\<close>.\<close>

definition post_init :: "jwk \<Rightarrow> jwk res" where
  "post_init k =
     bnd (guard_raise (\<not> truthy (jwk_kty k))
            (raise_cls ConfigurationException ''The 'kty' (Key Type) parameter is required''))
       (\<lambda>_. bnd (validate_key_parameters k) (\<lambda>_. Inr k))"

text \<open>\<open>parsers.jwks_from_dict\<close>.\<close>

definition jwk_of_members :: "(string \<Rightarrow> json) \<Rightarrow> jwk" where
  "jwk_of_members g =
     \<lparr>jwk_kty = (if truthy (g ''kty'') then g ''kty'' else JStr []),
      jwk_use = g ''use'', jwk_key_ops = g ''key_ops'', jwk_alg = g ''alg'', jwk_kid = g ''kid'',
      jwk_x5u = g ''x5u'', jwk_x5c = g ''x5c'', jwk_x5t = g ''x5t'', jwk_x5t_s256 = g ''x5t#S256'',
      jwk_crv = g ''crv'', jwk_x = g ''x'', jwk_y = g ''y'', jwk_d = g ''d'',
      jwk_n = g ''n'', jwk_e = g ''e'', jwk_p = g ''p'', jwk_q = g ''q'', jwk_dp = g ''dp'',
      jwk_dq = g ''dq'', jwk_qi = g ''qi'', jwk_oth = g ''oth'', jwk_k = g ''k''\<rparr>"

definition jwks_from_dict :: "json dict \<Rightarrow> jwk res" where
  "jwks_from_dict d = post_init (jwk_of_members (jget d))"

text \<open>The members of a key in declaration order, \<open>x5t_s256\<close> under its RFC 7517 name.\<close>

definition jwk_members :: "jwk \<Rightarrow> json dict" where
  "jwk_members k =
     [(''kty'', jwk_kty k), (''use'', jwk_use k), (''key_ops'', jwk_key_ops k), (''alg'', jwk_alg k),
      (''kid'', jwk_kid k), (''x5u'', jwk_x5u k), (''x5c'', jwk_x5c k), (''x5t'', jwk_x5t k),
      (''x5t#S256'', jwk_x5t_s256 k), (''crv'', jwk_crv k), (''x'', jwk_x k), (''y'', jwk_y k),
      (''d'', jwk_d k), (''n'', jwk_n k), (''e'', jwk_e k), (''p'', jwk_p k), (''q'', jwk_q k),
      (''dp'', jwk_dp k), (''dq'', jwk_dq k), (''qi'', jwk_qi k), (''oth'', jwk_oth k), (''k'', jwk_k k)]"

definition as_dict :: "jwk \<Rightarrow> json dict" where
  "as_dict k = filter (\<lambda>kv. snd kv \<noteq> JNull) (jwk_members k)"

definition has_private_key :: "jwk \<Rightarrow> bool" where
  "has_private_key k =
     (if jwk_kty k = JStr ''RSA''
      then truthy (jwk_d k) \<and> truthy (jwk_p k) \<and> truthy (jwk_q k) \<and> truthy (jwk_dp k)
           \<and> truthy (jwk_dq k) \<and> truthy (jwk_qi k)
      else if jwk_kty k = JStr ''EC'' then jwk_d k \<noteq> JNull else False)"

text \<open>
  \<open>JsonWebKey.from_json\<close>: \<open>loads\<close> is \<open>json.loads\<close>, \<open>None\<close> its \<open>JSONDecodeError\<close>. A member written
  as a string where a list is expected is wrapped; unknown members are dropped; an
  \<open>AttributeError\<close> or \<open>TypeError\<close> of the constructor is reported as a configuration error.
\<close>

definition map_member :: "string \<times> json \<Rightarrow> string \<times> json" where
  "map_member kv =
     (case kv of (k, v) \<Rightarrow>
        if k = ''x5t#S256'' then (''x5t_s256'', v)
        else if k = ''key_ops'' \<and> is_str v then (k, JList [v])
        else if k = ''x5c'' \<and> is_str v then (k, JList [v])
        else if k = ''oth'' \<and> is_str v then (k, JList [JDict [(''r'', v)]])
        else (k, v))"

definition jwk_field_names :: "string list" where
  "jwk_field_names =
     [''kty'', ''use'', ''key_ops'', ''alg'', ''kid'', ''x5u'', ''x5c'', ''x5t'', ''x5t_s256'', ''crv'', ''x'', ''y'',
      ''d'', ''n'', ''e'', ''p'', ''q'', ''dp'', ''dq'', ''qi'', ''oth'', ''k'']"

definition jwk_of_fields :: "json dict \<Rightarrow> jwk" where
  "jwk_of_fields d =
     (let g = jget d in
      \<lparr>jwk_kty = g ''kty'', jwk_use = g ''use'', jwk_key_ops = g ''key_ops'', jwk_alg = g ''alg'',
       jwk_kid = g ''kid'', jwk_x5u = g ''x5u'', jwk_x5c = g ''x5c'', jwk_x5t = g ''x5t'',
       jwk_x5t_s256 = g ''x5t_s256'', jwk_crv = g ''crv'', jwk_x = g ''x'', jwk_y = g ''y'', jwk_d = g ''d'',
       jwk_n = g ''n'', jwk_e = g ''e'', jwk_p = g ''p'', jwk_q = g ''q'', jwk_dp = g ''dp'', jwk_dq = g ''dq'',
       jwk_qi = g ''qi'', jwk_oth = g ''oth'', jwk_k = g ''k''\<rparr>)"

definition wrap_jwk_error :: "exn \<Rightarrow> exn" where
  "wrap_jwk_error e =
     (if exn_isinstance e TypeError \<or> exn_isinstance e AttributeError
      then raise_cls ConfigurationException (''Invalid JWK format: '' @ exn_message e) else e)"

definition from_json :: "(string \<Rightarrow> json option) \<Rightarrow> string \<Rightarrow> jwk res" where
  "from_json loads s =
     (if py_strip s = [] then Inl (raise_cls ConfigurationException ''JSON string cannot be empty'')
      else case loads s of
        None \<Rightarrow> Inl (raise_cls ConfigurationException ''Invalid JSON format'')
      | Some (JDict d) \<Rightarrow>
          let fields = filter (\<lambda>kv. fst kv \<in> set jwk_field_names) (fold (\<lambda>kv acc. dict_set (fst kv) (snd kv) acc) (map map_member d) [])
          in map_sum wrap_jwk_error id
               (if has_key fields ''kty'' then post_init (jwk_of_fields fields)
                else Inl (raise_cls TypeError ''missing 1 required positional argument: kty''))
      | Some j \<Rightarrow> Inl (raise_cls ConfigurationException
                    (''Invalid JWK format: JSON must be an object, not a '' @ type_name j)))"

section \<open>Responses\<close>

datatype disco_error_kind =
    UNEXPECTED_STATUS | INVALID_JSON | MISSING_FIELDS | HTTPS_REQUIRED | INVALID_CONFIGURATION
  | INVALID_DOCUMENT | NETWORK_ERROR | UNEXPECTED_ERROR

text \<open>
  \<open>DiscoveryDocumentResponse\<close>: its document attributes are kept as a dictionary from attribute
  name to value, the diagnostic attributes as fields.
\<close>

record disco_response =
  d_is_successful :: bool
  d_error :: "string option"
  d_error_kind :: "disco_error_kind option"
  d_status_code :: "int option"
  d_missing_fields :: "string list"
  d_attrs :: "json dict"
  d_cache_control :: "string option"

definition disco_attr_names :: "string list" where
  "disco_attr_names =
     [''issuer'', ''jwks_uri'', ''authorization_endpoint'', ''token_endpoint'', ''response_types_supported'',
      ''subject_types_supported'', ''id_token_signing_alg_values_supported'', ''userinfo_endpoint'',
      ''registration_endpoint'', ''introspection_endpoint'', ''scopes_supported'', ''response_modes_supported'',
      ''grant_types_supported'', ''acr_values_supported'', ''id_token_encryption_alg_values_supported'',
      ''id_token_encryption_enc_values_supported'', ''userinfo_signing_alg_values_supported'',
      ''userinfo_encryption_alg_values_supported'', ''userinfo_encryption_enc_values_supported'',
      ''request_object_signing_alg_values_supported'', ''request_object_encryption_alg_values_supported'',
      ''request_object_encryption_enc_values_supported'', ''token_endpoint_auth_methods_supported'',
      ''code_challenge_methods_supported'', ''token_endpoint_auth_signing_alg_values_supported'',
      ''display_values_supported'', ''claim_types_supported'', ''claims_supported'', ''claims_locales_supported'',
      ''ui_locales_supported'', ''claims_parameter_supported'', ''request_parameter_supported'',
      ''request_uri_parameter_supported'', ''require_request_uri_registration'',
      ''pushed_authorization_request_endpoint'', ''require_pushed_authorization_requests'',
      ''authorization_response_iss_parameter_supported'', ''authorization_signing_alg_values_supported'',
      ''authorization_encryption_alg_values_supported'', ''authorization_encryption_enc_values_supported'',
      ''mtls_endpoint_aliases'', ''tls_client_certificate_bound_access_tokens'', ''end_session_endpoint'',
      ''backchannel_logout_supported'', ''backchannel_logout_session_supported'', ''service_documentation'',
      ''op_policy_uri'', ''op_tos_uri'']"

text \<open>Every document attribute is guarded, the diagnostic ones and the cache header are not.\<close>

definition disco_get :: "disco_response \<Rightarrow> string \<Rightarrow> json res" where
  "disco_get r name = guarded_get disco_attr_names (d_is_successful r) (d_error r) name (jget (d_attrs r) name)"

definition disco_get_error :: "disco_response \<Rightarrow> string option res" where
  "disco_get_error r = guarded_get disco_attr_names (d_is_successful r) (d_error r) ''error'' (d_error r)"

definition disco_failure :: "string \<Rightarrow> disco_error_kind \<Rightarrow> disco_response" where
  "disco_failure msg kind =
     \<lparr>d_is_successful = False, d_error = Some msg, d_error_kind = Some kind, d_status_code = None,
      d_missing_fields = [], d_attrs = [], d_cache_control = None\<rparr>"

record jwks_response =
  j_is_successful :: bool
  j_error :: "string option"
  j_keys :: "jwk list option"
  j_cache_control :: "string option"

definition jwks_get_keys :: "jwks_response \<Rightarrow> jwk list option res" where
  "jwks_get_keys r = guarded_get [''keys''] (j_is_successful r) (j_error r) ''keys'' (j_keys r)"

definition jwks_get_error :: "jwks_response \<Rightarrow> string option res" where
  "jwks_get_error r = guarded_get [''keys''] (j_is_successful r) (j_error r) ''error'' (j_error r)"

definition jwks_failure :: "string \<Rightarrow> jwks_response" where
  "jwks_failure msg = \<lparr>j_is_successful = False, j_error = Some msg, j_keys = None, j_cache_control = None\<rparr>"

section \<open>Facts about keys\<close>

lemma validate_use_parameter_str:
  "validate_use_parameter k = Inr () \<Longrightarrow> jwk_use k = JNull \<or> (\<exists>u. jwk_use k = JStr u)"
  by (auto simp: validate_use_parameter_def split: json.splits)

lemma post_init_ok: "post_init k = Inr k' \<Longrightarrow> k' = k \<and> truthy (jwk_kty k) \<and> validate_key_parameters k = Inr ()"
  by (auto simp: post_init_def res_splits)

lemma map_of_filter_snd:
  "distinct (map fst d) \<Longrightarrow> map_of (filter (\<lambda>kv. snd kv \<noteq> JNull) d) k =
     (case map_of d k of None \<Rightarrow> None | Some v \<Rightarrow> if v = JNull then None else Some v)"
  by (induction d) (auto split: option.splits simp: map_of_eq_None_iff dest: map_of_SomeD)

lemma jget_filter_not_null:
  "distinct (map fst d) \<Longrightarrow> jget (filter (\<lambda>kv. snd kv \<noteq> JNull) d) k = jget d k"
  by (simp add: jget_def map_of_filter_snd split: option.splits)

lemma jwk_members_keys: "dict_keys (jwk_members k) = dict_keys (jwk_members k')"
  by (simp add: jwk_members_def)

lemma jwk_members_distinct: "distinct (dict_keys (jwk_members k))"
  by (simp add: jwk_members_def)

lemma jget_as_dict: "jget (as_dict k) n = jget (jwk_members k) n"
  unfolding as_dict_def by (rule jget_filter_not_null) (rule jwk_members_distinct)

lemma jwk_of_members_as_dict:
  assumes "truthy (jwk_kty k)"
  shows "jwk_of_members (jget (as_dict k)) = k"
  using assms unfolding jwk_of_members_def jget_as_dict
  by (cases k) (simp add: jwk_members_def jget_def)

lemma as_dict_no_null: "(n, v) \<in> set (as_dict k) \<Longrightarrow> v \<noteq> JNull"
  by (simp add: as_dict_def)

lemma dict_ok_as_dict: "dict_ok (as_dict k)"
  using jwk_members_distinct[of k] by (simp add: dict_ok_def as_dict_def distinct_map_filter)

end
