(* ===== verification/Discovery_Policy.thy ===== *)
theory Discovery_Policy
  imports Url_Parse Models
begin

text \<open>
  \<open>core/discovery_policy.py\<close> and \<open>core/validators.py\<close>: the configurable security policy for
  discovery, its cache key, the loopback test, the normalisation of discovery addresses, the
  scheme check every fetch passes first, and the checks on the issuer, the endpoint URLs and the
  required parameters of a discovery document.
\<close>

section \<open>The policy\<close>

record discovery_policy =
  require_https :: bool
  allow_http_on_loopback :: bool
  validate_issuer_flag :: bool
  validate_endpoints :: bool
  require_key_set :: bool
  additional_endpoint_base_addresses :: "string list"
  authority :: "string option"
  allow_loopback_endpoints :: bool

text \<open>\<open>DiscoveryPolicy()\<close>.\<close>

definition default_policy :: discovery_policy where
  "default_policy =
     \<lparr>require_https = True, allow_http_on_loopback = True, validate_issuer_flag = True,
      validate_endpoints = True, require_key_set = True, additional_endpoint_base_addresses = [],
      authority = None, allow_loopback_endpoints = False\<rparr>"

type_synonym policy_key = "bool \<times> bool \<times> bool \<times> bool \<times> bool \<times> string list \<times> string option \<times> bool"

definition cache_key :: "discovery_policy \<Rightarrow> policy_key" where
  "cache_key p =
     (require_https p, allow_http_on_loopback p, validate_issuer_flag p, validate_endpoints p,
      require_key_set p, additional_endpoint_base_addresses p, authority p, allow_loopback_endpoints p)"

definition resolve_discovery_policy :: "discovery_policy option \<Rightarrow> bool \<Rightarrow> discovery_policy" where
  "resolve_discovery_policy p rh = (case p of Some q \<Rightarrow> q | None \<Rightarrow> default_policy\<lparr>require_https := rh\<rparr>)"

definition well_known_path :: string where
  "well_known_path = ''/.well-known/openid-configuration''"

definition is_loopback :: "string \<Rightarrow> bool" where
  "is_loopback host =
     (if host \<in> set [''localhost'', ''127.0.0.1'', ''::1''] then True
      else case ip_address host of None \<Rightarrow> False | Some ip \<Rightarrow> ip_is_loopback ip)"

section \<open>Discovery addresses\<close>

record discovery_endpoint =
  ep_url :: string
  ep_authority :: string

definition parse_discovery_url :: "string \<Rightarrow> discovery_endpoint res" where
  "parse_discovery_url url =
     (if url = [] then Inl (raise_cls ConfigurationException ''Discovery URL cannot be empty'')
      else bnd (urlparse url) (\<lambda>p.
        if scheme p = []
        then Inl (raise_cls ConfigurationException (''Discovery URL must include a scheme: '' @ url))
        else if scheme p \<notin> set [''http'', ''https'']
        then Inl (raise_cls ConfigurationException
                    (''Discovery URL must use HTTP or HTTPS scheme, got: '' @ scheme p))
        else if netloc p = []
        then Inl (raise_cls ConfigurationException (''Discovery URL must include a host: '' @ url))
        else if query p \<noteq> [] \<or> fragment p \<noteq> []
        then Inl (raise_cls ConfigurationException
                    ''Discovery URL must not contain query or fragment components'')
        else
          let auth = scheme p @ ''://'' @ netloc p;
              full = (if \<not> py_endswith (py_rstrip_char (CHR ''/'') (path p)) well_known_path
                      then py_rstrip_char (CHR ''/'') url @ well_known_path else url)
          in Inr \<lparr>ep_url = py_rstrip_char (CHR ''/'') full, ep_authority = auth\<rparr>))"

definition validate_url_scheme :: "string \<Rightarrow> discovery_policy \<Rightarrow> unit res" where
  "validate_url_scheme url pol =
     (if url = [] then Inl (raise_cls ConfigurationException ''URL cannot be empty'')
      else bnd (urlparse url) (\<lambda>p.
        if scheme p = [] then Inl (raise_cls ConfigurationException (''URL must include a scheme: '' @ url))
        else if scheme p \<notin> set [''http'', ''https'']
        then Inl (raise_cls ConfigurationException (''URL must use HTTP or HTTPS scheme, got: '' @ scheme p))
        else if \<not> require_https pol then Inr ()
        else if scheme p = ''https'' then Inr ()
        else if scheme p = ''http'' \<and> allow_http_on_loopback pol \<and> is_loopback (hostname_or_empty p)
        then Inr ()
        else Inl (raise_cls DiscoveryHTTPSRequiredError
                    (''HTTPS is required by discovery policy. Got: '' @ url
                     @ ''. Set require_https=False or use a loopback address.''))))"

section \<open>Issuer and endpoint checks\<close>

definition validate_issuer :: "string \<Rightarrow> bool \<Rightarrow> unit res" where
  "validate_issuer issuer rh =
     (if issuer = [] then Inl (raise_cls ConfigurationException ''Issuer parameter is required'')
      else bnd (urlparse issuer) (\<lambda>p.
        if rh \<and> scheme p \<noteq> ''https''
        then Inl (raise_cls DiscoveryHTTPSRequiredError ''Issuer must use HTTPS scheme'')
        else if \<not> rh \<and> scheme p \<notin> set [''http'', ''https'']
        then Inl (raise_cls ConfigurationException ''Issuer must use HTTP or HTTPS scheme'')
        else if query p \<noteq> [] \<or> fragment p \<noteq> []
        then Inl (raise_cls ConfigurationException ''Issuer must not contain query or fragment components'')
        else if netloc p = []
        then Inl (raise_cls ConfigurationException ''Issuer must be a valid URL with host'')
        else Inr ()))"

definition validate_https_url :: "string \<Rightarrow> string \<Rightarrow> unit res" where
  "validate_https_url url name =
     (if url = [] then Inr ()
      else bnd (urlparse url) (\<lambda>p.
        if netloc p = []
        then Inl (raise_cls ConfigurationException (name @ '' must be an absolute URL with host''))
        else if scheme p \<noteq> ''https''
        then Inl (raise_cls DiscoveryHTTPSRequiredError (name @ '' must use HTTPS scheme''))
        else Inr ()))"

definition validate_issuer_with_policy :: "string \<Rightarrow> discovery_policy option \<Rightarrow> unit res" where
  "validate_issuer_with_policy issuer pol =
     (if pol = None \<or> validate_issuer_flag (the pol)
      then
        let eff = (case pol of None \<Rightarrow> True | Some p \<Rightarrow> require_https p) in
        if eff \<and> pol \<noteq> None \<and> allow_http_on_loopback (the pol)
        then bnd (urlparse issuer) (\<lambda>u.
               validate_issuer issuer (\<not> (scheme u = ''http'' \<and> is_loopback (hostname_or_empty u))))
        else validate_issuer issuer eff
      else if issuer = [] then Inl (raise_cls ConfigurationException ''Issuer parameter is required'')
      else Inr ())"

definition validate_https_url_with_policy :: "string \<Rightarrow> string \<Rightarrow> discovery_policy option \<Rightarrow> unit res" where
  "validate_https_url_with_policy url name pol =
     (case pol of None \<Rightarrow> validate_https_url url name
      | Some p \<Rightarrow>
        if \<not> validate_endpoints p then Inr ()
        else if url = [] then Inr ()
        else bnd (urlparse url) (\<lambda>u.
          if netloc u = []
          then Inl (raise_cls ConfigurationException (name @ '' must be an absolute URL with host''))
          else if scheme u \<notin> set [''http'', ''https'']
          then Inl (raise_cls ConfigurationException
                      (name @ '' must use HTTP or HTTPS scheme, got: '' @ scheme u))
          else if \<not> require_https p then Inr ()
          else if scheme u = ''https'' then Inr ()
          else if scheme u = ''http'' \<and> allow_http_on_loopback p \<and> is_loopback (hostname_or_empty u)
          then Inr ()
          else Inl (raise_cls DiscoveryHTTPSRequiredError
                      (name @ '' must use HTTPS (policy: require_https=True)''))))"

section \<open>Required parameters and parameter values\<close>

definition required_params :: "string list" where
  "required_params = [''issuer'', ''response_types_supported'', ''subject_types_supported'',
     ''id_token_signing_alg_values_supported'']"

definition validate_required_parameters :: "json dict \<Rightarrow> unit res" where
  "validate_required_parameters d =
     (let missing = filter (\<lambda>p. jget d p = JNull) required_params in
      guard_raise (missing \<noteq> [])
        (missing_fields_exn (''Missing required parameters: '' @ py_join '', '' missing) missing))"

definition validate_subject_types :: "json list \<Rightarrow> unit res" where
  "validate_subject_types ts =
     for_each (\<lambda>t. guard_raise (\<not> json_in t [''public'', ''pairwise''])
       (raise_cls DiscoveryException
          (''Invalid subject type: '' @ fmt_json t @ ''. Must be 'public' or '' @ sq ''pairwise''))) ts"

definition valid_response_types :: "string list" where
  "valid_response_types = [''code'', ''id_token'', ''token'', ''none'', ''code id_token'', ''code token'',
     ''id_token token'', ''code id_token token'']"

text \<open>\<open>response_type.split()\<close> is an \<open>AttributeError\<close> on an element that is not a string.\<close>

definition validate_response_type :: "json \<Rightarrow> unit res" where
  "validate_response_type t =
     (if json_in t valid_response_types then Inr ()
      else case t of
        JStr s \<Rightarrow> guard_raise (\<not> list_all (\<lambda>c. c \<in> set [''code'', ''id_token'', ''token'']) (py_split_ws s))
                   (raise_cls DiscoveryException (''Invalid response type: '' @ s))
      | _ \<Rightarrow> Inl (raise_cls AttributeError ''split''))"

definition validate_parameter_values :: "json dict \<Rightarrow> unit res" where
  "validate_parameter_values d =
     bnd (if truthy (jget d ''subject_types_supported'')
          then bnd (json_iter (jget d ''subject_types_supported'')) validate_subject_types
          else Inr ())
       (\<lambda>_. if truthy (jget d ''response_types_supported'')
            then bnd (json_iter (jget d ''response_types_supported'')) (for_each validate_response_type)
            else Inr ())"

section \<open>Facts\<close>

lemma cache_key_inj: "cache_key p = cache_key q \<longleftrightarrow> p = q"
  by (auto simp: cache_key_def)

lemma is_loopback_ip: "ip_address h = Some a \<Longrightarrow> h \<notin> set [''localhost'', ''127.0.0.1'', ''::1''] \<Longrightarrow>
    is_loopback h = ip_is_loopback a"
  by (auto simp: is_loopback_def)

text \<open>
  What the scheme check accepts, in one place: the address parses, its scheme is \<open>http\<close> or
  \<open>https\<close>, and plain \<open>http\<close> is either allowed by the policy or goes to a loopback host under
  the loopback exception.
\<close>

definition scheme_admitted :: "parse_result \<Rightarrow> discovery_policy \<Rightarrow> bool" where
  "scheme_admitted p pol \<longleftrightarrow>
     scheme p \<in> {''http'', ''https''} \<and>
     (require_https pol \<longrightarrow> scheme p = ''https'' \<or> allow_http_on_loopback pol \<and> is_loopback (hostname_or_empty p))"

lemma validate_url_scheme_ok:
  "validate_url_scheme url pol = Inr () \<longleftrightarrow> url \<noteq> [] \<and> (\<exists>p. urlparse url = Inr p \<and> scheme_admitted p pol)"
  by (cases "urlparse url") (simp_all add: validate_url_scheme_def scheme_admitted_def)

lemma validate_https_url_with_policy_ok:
  "validate_https_url_with_policy url name (Some pol) = Inr () \<longleftrightarrow>
     \<not> validate_endpoints pol \<or> url = [] \<or>
     (\<exists>p. urlparse url = Inr p \<and> netloc p \<noteq> [] \<and> scheme_admitted p pol)"
  by (cases "urlparse url") (simp_all add: validate_https_url_with_policy_def scheme_admitted_def)

lemma validate_https_url_ok:
  "validate_https_url url name = Inr () \<longleftrightarrow>
     url = [] \<or> (\<exists>p. urlparse url = Inr p \<and> netloc p \<noteq> [] \<and> scheme p = ''https'')"
  by (cases "urlparse url") (simp_all add: validate_https_url_def)

end
