(* ===== verification/Jwks_Cache.thy ===== *)
theory Jwks_Cache
  imports Models
begin

text \<open>
  \<open>core/jwks_cache.py\<close>: the environment settings of the caches, the TTL a response is cached
  for, the size-bounded LRU dictionaries with their three structural operations (read-hit
  reorder, write, eviction), the outcome rules for JWKS and discovery responses, and the
  cooldown that bounds forced refreshes. Each structural operation runs under
  \<open>_CACHE_STRUCTURE_LOCK\<close> in the source, so it is one function from cache to cache here.

  A cache is an association list in recency order, least recently used first, as the
  \<open>OrderedDict\<close> of the source is. Times are values of the monotonic clock.
\<close>

section \<open>Settings\<close>

definition DEFAULT_JWKS_CACHE_TTL_SECONDS :: rat where "DEFAULT_JWKS_CACHE_TTL_SECONDS = 86400"
definition DEFAULT_DISCO_CACHE_TTL_SECONDS :: rat where "DEFAULT_DISCO_CACHE_TTL_SECONDS = 3600"
definition MIN_CACHE_TTL_SECONDS :: rat where "MIN_CACHE_TTL_SECONDS = 60"
definition MAX_CACHE_TTL_SECONDS :: rat where "MAX_CACHE_TTL_SECONDS = 86400"
definition MIN_KID_MISS_COOLDOWN_SECONDS :: rat where "MIN_KID_MISS_COOLDOWN_SECONDS = 0"
definition MAX_KID_MISS_COOLDOWN_SECONDS :: rat where "MAX_KID_MISS_COOLDOWN_SECONDS = 3600"
definition DEFAULT_KID_MISS_REFRESH_COOLDOWN_SECONDS :: rat where
  "DEFAULT_KID_MISS_REFRESH_COOLDOWN_SECONDS = 5"
definition DEFAULT_MAX_CACHE_ENTRIES :: int where "DEFAULT_MAX_CACHE_ENTRIES = 64"

lemmas cache_constants =
  DEFAULT_JWKS_CACHE_TTL_SECONDS_def DEFAULT_DISCO_CACHE_TTL_SECONDS_def MIN_CACHE_TTL_SECONDS_def
  MAX_CACHE_TTL_SECONDS_def MIN_KID_MISS_COOLDOWN_SECONDS_def MAX_KID_MISS_COOLDOWN_SECONDS_def
  DEFAULT_KID_MISS_REFRESH_COOLDOWN_SECONDS_def DEFAULT_MAX_CACHE_ENTRIES_def

text \<open>\<open>max(lo, min(v, hi))\<close> on a float; Python's \<open>min\<close> and \<open>max\<close> keep the first argument on a NaN.\<close>

definition clamp_float :: "rat \<Rightarrow> rat \<Rightarrow> pyfloat \<Rightarrow> rat" where
  "clamp_float lo hi v =
     (case v of Fin q \<Rightarrow> max lo (min q hi) | PosInf \<Rightarrow> max lo hi | NegInf \<Rightarrow> lo | NaN \<Rightarrow> lo)"

type_synonym os_env = "string \<Rightarrow> string option"

definition safe_env_float :: "os_env \<Rightarrow> string \<Rightarrow> rat \<Rightarrow> rat \<Rightarrow> rat \<Rightarrow> rat" where
  "safe_env_float env name dflt lo hi =
     (case env name of None \<Rightarrow> dflt
      | Some raw \<Rightarrow>
          if raw = [] then dflt
          else case py_float raw of None \<Rightarrow> dflt
               | Some v \<Rightarrow> if \<not> pf_isfinite v then dflt else clamp_float lo hi v)"

definition safe_env_ttl :: "os_env \<Rightarrow> string \<Rightarrow> rat \<Rightarrow> rat" where
  "safe_env_ttl env name dflt = safe_env_float env name dflt MIN_CACHE_TTL_SECONDS MAX_CACHE_TTL_SECONDS"

definition read_max_cache_entries :: "os_env \<Rightarrow> int" where
  "read_max_cache_entries env =
     (case env ''JWKS_CACHE_MAX_ENTRIES'' of None \<Rightarrow> DEFAULT_MAX_CACHE_ENTRIES
      | Some raw \<Rightarrow>
          if raw = [] then DEFAULT_MAX_CACHE_ENTRIES
          else case py_int raw of None \<Rightarrow> DEFAULT_MAX_CACHE_ENTRIES
               | Some v \<Rightarrow> if v < 1 then DEFAULT_MAX_CACHE_ENTRIES else v)"

text \<open>
  The module-level memo variables. Each getter reads the environment once and keeps the result.
\<close>

record env_memo =
  m_env_ttl :: "rat option"
  m_disco_env_ttl :: "rat option"
  m_kid_miss_cooldown :: "rat option"
  m_max_cache_entries :: "int option"

definition reset_env_for_testing :: "env_memo \<Rightarrow> env_memo" where
  "reset_env_for_testing m =
     \<lparr>m_env_ttl = None, m_disco_env_ttl = None, m_kid_miss_cooldown = None, m_max_cache_entries = None\<rparr>"

definition get_env_ttl :: "os_env \<Rightarrow> env_memo \<Rightarrow> rat \<times> env_memo" where
  "get_env_ttl env m = (case m_env_ttl m of Some v \<Rightarrow> (v, m)
     | None \<Rightarrow> let v = safe_env_ttl env ''JWKS_CACHE_TTL'' DEFAULT_JWKS_CACHE_TTL_SECONDS
              in (v, m\<lparr>m_env_ttl := Some v\<rparr>))"

definition get_disco_env_ttl :: "os_env \<Rightarrow> env_memo \<Rightarrow> rat \<times> env_memo" where
  "get_disco_env_ttl env m = (case m_disco_env_ttl m of Some v \<Rightarrow> (v, m)
     | None \<Rightarrow> let v = safe_env_ttl env ''DISCO_CACHE_TTL'' DEFAULT_DISCO_CACHE_TTL_SECONDS
              in (v, m\<lparr>m_disco_env_ttl := Some v\<rparr>))"

definition get_kid_miss_cooldown :: "os_env \<Rightarrow> env_memo \<Rightarrow> rat \<times> env_memo" where
  "get_kid_miss_cooldown env m = (case m_kid_miss_cooldown m of Some v \<Rightarrow> (v, m)
     | None \<Rightarrow> let v = safe_env_float env ''KID_MISS_REFRESH_COOLDOWN''
                         DEFAULT_KID_MISS_REFRESH_COOLDOWN_SECONDS
                         MIN_KID_MISS_COOLDOWN_SECONDS MAX_KID_MISS_COOLDOWN_SECONDS
              in (v, m\<lparr>m_kid_miss_cooldown := Some v\<rparr>))"

definition get_max_cache_entries :: "os_env \<Rightarrow> env_memo \<Rightarrow> int \<times> env_memo" where
  "get_max_cache_entries env m = (case m_max_cache_entries m of Some v \<Rightarrow> (v, m)
     | None \<Rightarrow> let v = read_max_cache_entries env in (v, m\<lparr>m_max_cache_entries := Some v\<rparr>))"

text \<open>
  The four memoised values of a process, as the operations below use them. A getter returns the
  same value at every call after its first, so one record stands for all the calls.
\<close>

record cache_settings =
  s_env_ttl :: rat
  s_disco_env_ttl :: rat
  s_cooldown :: rat
  s_max_entries :: int

definition settings_of :: "os_env \<Rightarrow> env_memo \<Rightarrow> cache_settings" where
  "settings_of env m =
     \<lparr>s_env_ttl = fst (get_env_ttl env m), s_disco_env_ttl = fst (get_disco_env_ttl env m),
      s_cooldown = fst (get_kid_miss_cooldown env m), s_max_entries = fst (get_max_cache_entries env m)\<rparr>"

definition settings_ok :: "cache_settings \<Rightarrow> bool" where
  "settings_ok s \<longleftrightarrow>
     60 \<le> s_env_ttl s \<and> s_env_ttl s \<le> 86400 \<and> 60 \<le> s_disco_env_ttl s \<and> s_disco_env_ttl s \<le> 86400
     \<and> 0 \<le> s_cooldown s \<and> s_cooldown s \<le> 3600 \<and> 1 \<le> s_max_entries s"

section \<open>Cache-Control\<close>

text \<open>\<open>re.search(r"\<close>\<open>\b\<close>\<open>word\<close>\<open>\b\<close>\<open>", s, IGNORECASE)\<close> for a word of word characters and hyphens.\<close>

fun search_word :: "string \<Rightarrow> bool \<Rightarrow> string \<Rightarrow> bool" where
  "search_word w prev_word [] = False"
| "search_word w prev_word (c # s) =
     ((\<not> prev_word \<and> py_startswith (py_lower (c # s)) w
       \<and> (case drop (length w) (c # s) of [] \<Rightarrow> True | d # _ \<Rightarrow> \<not> py_isword d))
      \<or> search_word w (py_isword c) s)"

definition is_uncacheable :: "string option \<Rightarrow> bool" where
  "is_uncacheable cc =
     (case cc of None \<Rightarrow> False
      | Some s \<Rightarrow> if s = [] then False
                 else search_word ''no-store'' False s \<or> search_word ''no-cache'' False s)"

definition is_uncacheable_for_jwks :: "string option \<Rightarrow> bool" where
  "is_uncacheable_for_jwks cc = False"

text \<open>\<open>re.search(r"max-age=(\<close>\<open>\d+\<close>\<open>)", s, IGNORECASE)\<close>: the digits after the leftmost match.\<close>

fun search_max_age :: "string \<Rightarrow> string option" where
  "search_max_age [] = None"
| "search_max_age (c # s) =
     (if py_startswith (py_lower (c # s)) ''max-age='' \<and> takeWhile is_ascii_digit (drop 8 (c # s)) \<noteq> []
      then Some (takeWhile is_ascii_digit (drop 8 (c # s))) else search_max_age s)"

definition parse_max_age :: "string option \<Rightarrow> pyfloat option" where
  "parse_max_age cc =
     (case cc of None \<Rightarrow> None
      | Some s \<Rightarrow> if s = [] then None
                 else map_option (\<lambda>ds. float_of_rat (of_int (digits_val ds))) (search_max_age s))"

definition resolve_ttl :: "cache_settings \<Rightarrow> string option \<Rightarrow> rat" where
  "resolve_ttl st cc =
     (case parse_max_age cc of
        Some a \<Rightarrow> clamp_float MIN_CACHE_TTL_SECONDS MAX_CACHE_TTL_SECONDS a
      | None \<Rightarrow> s_env_ttl st)"

definition resolve_disco_ttl :: "cache_settings \<Rightarrow> string option \<Rightarrow> rat" where
  "resolve_disco_ttl st cc =
     (case parse_max_age cc of
        Some a \<Rightarrow> clamp_float MIN_CACHE_TTL_SECONDS MAX_CACHE_TTL_SECONDS a
      | None \<Rightarrow> s_disco_env_ttl st)"

section \<open>Entries and the LRU operations\<close>

record 'r cache_entry =
  e_response :: 'r
  e_cached_at :: rat
  e_ttl :: rat

type_synonym jwks_entry = "jwks_response cache_entry"
type_synonym disco_entry = "disco_response cache_entry"

definition is_cache_expired :: "rat \<Rightarrow> 'r cache_entry \<Rightarrow> bool" where
  "is_cache_expired now e = (now - e_cached_at e \<ge> e_ttl e)"

definition touch_cache_entry :: "'k \<Rightarrow> ('k \<times> 'e) list \<Rightarrow> ('k \<times> 'e) list" where
  "touch_cache_entry k c = (case map_of c k of None \<Rightarrow> c | Some e \<Rightarrow> dict_pop k c @ [(k, e)])"

definition clear_cache_locked :: "('k \<times> 'e) list \<Rightarrow> ('k \<times> 'e) list" where
  "clear_cache_locked c = []"

text \<open>The eviction loop: the cache that is left and the evicted keys, first evicted first.\<close>

fun enforce_size_limit :: "int \<Rightarrow> ('k \<times> 'e) list \<Rightarrow> ('k \<times> 'e) list \<times> 'k list" where
  "enforce_size_limit m [] = ([], [])"
| "enforce_size_limit m (x # c) =
     (if m < int (length (x # c))
      then let (c', evicted) = enforce_size_limit m c in (c', fst x # evicted)
      else (x # c, []))"

text \<open>The write of a cacheable response: pop, reinsert at the recent end, evict.\<close>

definition cache_store :: "int \<Rightarrow> 'k \<Rightarrow> 'e \<Rightarrow> ('k \<times> 'e) list \<Rightarrow> ('k \<times> 'e) list \<times> 'k list" where
  "cache_store m k e c = enforce_size_limit m (dict_pop k c @ [(k, e)])"

definition drop_cooldowns :: "string list \<Rightarrow> rat dict \<Rightarrow> rat dict" where
  "drop_cooldowns ks cd = fold dict_pop ks cd"

section \<open>Outcome rules\<close>

definition apply_jwks_cache_outcome ::
  "cache_settings \<Rightarrow> string \<Rightarrow> jwks_response \<Rightarrow> rat \<Rightarrow> jwks_entry dict \<times> rat dict \<Rightarrow> jwks_entry dict \<times> rat dict" where
  "apply_jwks_cache_outcome st uri r now s =
     (case s of (cache, cooldown) \<Rightarrow>
      if \<not> j_is_successful r then (cache, cooldown)
      else if j_keys r = None \<or> j_keys r = Some [] then (cache, cooldown)
      else if is_uncacheable_for_jwks (j_cache_control r) then (dict_pop uri cache, dict_pop uri cooldown)
      else let (cache', evicted) =
             cache_store (s_max_entries st) uri
               \<lparr>e_response = r, e_cached_at = now, e_ttl = resolve_ttl st (j_cache_control r)\<rparr> cache
           in (cache', drop_cooldowns evicted cooldown))"

definition apply_disco_cache_outcome ::
  "cache_settings \<Rightarrow> 'k \<Rightarrow> disco_response \<Rightarrow> rat \<Rightarrow> ('k \<times> disco_entry) list \<Rightarrow> ('k \<times> disco_entry) list" where
  "apply_disco_cache_outcome st k r now cache =
     (if \<not> d_is_successful r then cache
      else if is_uncacheable (d_cache_control r) then dict_pop k cache
      else fst (cache_store (s_max_entries st) k
             \<lparr>e_response = r, e_cached_at = now, e_ttl = resolve_disco_ttl st (d_cache_control r)\<rparr> cache))"

definition should_attempt_kid_miss_refresh :: "cache_settings \<Rightarrow> rat dict \<Rightarrow> string \<Rightarrow> bool \<Rightarrow> rat \<Rightarrow> bool" where
  "should_attempt_kid_miss_refresh st last_attempts uri has_cached_keys now =
     (if \<not> has_cached_keys then True
      else case map_of last_attempts uri of None \<Rightarrow> True
           | Some l \<Rightarrow> s_cooldown st \<le> now - l)"

section \<open>Settings and TTLs stay in range\<close>

lemma clamp_float_bounds: "lo \<le> hi \<Longrightarrow> lo \<le> clamp_float lo hi v \<and> clamp_float lo hi v \<le> hi"
  by (cases v) (simp_all add: clamp_float_def)

lemma safe_env_float_bounds:
  assumes "lo \<le> d" "d \<le> hi"
  shows "lo \<le> safe_env_float env name d lo hi" and "safe_env_float env name d lo hi \<le> hi"
  using assms clamp_float_bounds [of lo hi]
  by (simp_all add: safe_env_float_def split: option.split)

lemma read_max_cache_entries_pos: "1 \<le> read_max_cache_entries env"
  by (simp add: read_max_cache_entries_def cache_constants split: option.split)

lemma settings_ok_fresh: "settings_ok (settings_of env (reset_env_for_testing m))"
  using safe_env_float_bounds [of 60 86400 86400 env] safe_env_float_bounds [of 60 3600 86400 env]
    safe_env_float_bounds [of 0 5 3600 env] read_max_cache_entries_pos [of env]
  by (simp add: settings_ok_def settings_of_def reset_env_for_testing_def get_env_ttl_def
      get_disco_env_ttl_def get_kid_miss_cooldown_def get_max_cache_entries_def safe_env_ttl_def
      cache_constants Let_def)

lemma resolve_ttl_bounds:
  assumes "settings_ok st"
  shows "60 \<le> resolve_ttl st cc" and "resolve_ttl st cc \<le> 86400"
    and "60 \<le> resolve_disco_ttl st cc" and "resolve_disco_ttl st cc \<le> 86400"
  using assms clamp_float_bounds [of 60 86400]
  by (simp_all add: resolve_ttl_def resolve_disco_ttl_def settings_ok_def cache_constants
      split: option.split)

section \<open>The LRU contract\<close>

text \<open>
  What a client of a cache relies on: the lookup after each operation, and the recency order of
  the keys. The contract is stated for a cache whose keys are listed least recently used first.
\<close>

datatype ('k, 'e) cache_op = Touch 'k | Store 'k 'e

primrec op_key :: "('k, 'e) cache_op \<Rightarrow> 'k" where
  "op_key (Touch k) = k"
| "op_key (Store k e) = k"

definition last_n :: "nat \<Rightarrow> 'a list \<Rightarrow> 'a list" where
  "last_n n xs = drop (length xs - n) xs"

lemma last_n_append: "n \<ge> length ys \<Longrightarrow> last_n n (xs @ ys) = last_n (n - length ys) xs @ ys"
  by (simp add: last_n_def)

lemma length_last_n [simp]: "length (last_n n xs) = min n (length xs)"
  by (simp add: last_n_def)

lemma set_last_n: "set (last_n n xs) \<subseteq> set xs"
  by (simp add: last_n_def set_drop_subset)

lemma distinct_last_n: "distinct xs \<Longrightarrow> distinct (last_n n xs)"
  by (simp add: last_n_def)

locale lru_cache =
  fixes order :: "'c \<Rightarrow> 'k list"
    and find :: "'c \<Rightarrow> 'k \<Rightarrow> 'e option"
    and touch :: "'k \<Rightarrow> 'c \<Rightarrow> 'c"
    and store :: "int \<Rightarrow> 'k \<Rightarrow> 'e \<Rightarrow> 'c \<Rightarrow> 'c"
    and inv :: "'c \<Rightarrow> bool"
  assumes order_distinct: "inv c \<Longrightarrow> distinct (order c)"
    and find_order: "inv c \<Longrightarrow> find c k \<noteq> None \<longleftrightarrow> k \<in> set (order c)"
    and order_touch: "inv c \<Longrightarrow>
      order (touch k c) = (if k \<in> set (order c) then removeAll k (order c) @ [k] else order c)"
    and find_touch: "inv c \<Longrightarrow> find (touch k c) k' = find c k'"
    and inv_touch: "inv c \<Longrightarrow> inv (touch k c)"
    and order_store: "\<lbrakk>inv c; 1 \<le> m\<rbrakk> \<Longrightarrow>
      order (store m k e c) = last_n (nat m) (removeAll k (order c) @ [k])"
    and find_store: "\<lbrakk>inv c; 1 \<le> m; k' \<in> set (order (store m k e c))\<rbrakk> \<Longrightarrow>
      find (store m k e c) k' = (if k' = k then Some e else find c k')"
    and inv_store: "\<lbrakk>inv c; 1 \<le> m\<rbrakk> \<Longrightarrow> inv (store m k e c)"
begin

primrec apply_op :: "int \<Rightarrow> ('k, 'e) cache_op \<Rightarrow> 'c \<Rightarrow> 'c" where
  "apply_op m (Touch k) c = touch k c"
| "apply_op m (Store k e) c = store m k e c"

definition apply_ops :: "int \<Rightarrow> ('k, 'e) cache_op list \<Rightarrow> 'c \<Rightarrow> 'c" where
  "apply_ops m ops c = fold (apply_op m) ops c"

lemma inv_apply_op: "\<lbrakk>inv c; 1 \<le> m\<rbrakk> \<Longrightarrow> inv (apply_op m x c)"
  by (cases x) (simp_all add: inv_touch inv_store)

lemma length_store: "\<lbrakk>inv c; 1 \<le> m\<rbrakk> \<Longrightarrow> length (order (store m k e c)) \<le> nat m"
  by (simp add: order_store)

lemma find_store_same: "\<lbrakk>inv c; 1 \<le> m\<rbrakk> \<Longrightarrow> find (store m k e c) k = Some e"
  by (simp add: find_store order_store last_n_append [of "[k]", simplified] nat_le_iff)

lemma length_removeAll_mem: "\<lbrakk>distinct xs; x \<in> set xs\<rbrakk> \<Longrightarrow> Suc (length (removeAll x xs)) = length xs"
  by (induction xs) auto

lemma length_apply_op:
  "\<lbrakk>inv c; 1 \<le> m; int (length (order c)) \<le> m\<rbrakk> \<Longrightarrow> int (length (order (apply_op m x c))) \<le> m"
proof (cases x)
  case (Touch k)
  assume "inv c" "int (length (order c)) \<le> m"
  then show ?thesis
    using Touch length_removeAll_mem [OF order_distinct, of c k] by (simp add: order_touch)
next
  case (Store k e)
  assume "inv c" "1 \<le> m"
  then show ?thesis
    using Store length_store [of c m k e] by simp
qed

text \<open>
  The keys used after \<open>k\<close>, within the recency order, are keys of the operations since.
\<close>

definition younger :: "'k \<Rightarrow> 'k list \<Rightarrow> 'k list" where
  "younger k xs = tl (dropWhile (\<lambda>y. y \<noteq> k) xs)"

lemma younger_append: "\<lbrakk>distinct (xs @ k # ys)\<rbrakk> \<Longrightarrow> younger k (xs @ k # ys) = ys"
  by (induction xs) (auto simp: younger_def)

definition recent :: "'k \<Rightarrow> 'k set \<Rightarrow> 'c \<Rightarrow> bool" where
  "recent k S c \<longleftrightarrow> (\<exists>xs ys. order c = xs @ k # ys \<and> set ys \<subseteq> S)"

lemma recent_apply_op:
  assumes "inv c" "1 \<le> m" "recent k S c" "op_key x \<noteq> k" "finite S"
    and "int (card (insert (op_key x) S)) < m"
  shows "recent k (insert (op_key x) S) (apply_op m x c)" and "find (apply_op m x c) k = find c k"
proof -
  obtain xs ys where o: "order c = xs @ k # ys" and ys: "set ys \<subseteq> S"
    using assms(3) by (auto simp: recent_def)
  let ?a = "op_key x" and ?zs = "removeAll (op_key x) ys @ [op_key x]"
  have d: "distinct ?zs" and s: "set ?zs \<subseteq> insert ?a S"
    using order_distinct [OF assms(1)] ys o by (auto simp: distinct_removeAll)
  have "length ?zs \<le> card (insert ?a S)"
    using card_mono [OF _ s] assms(5) distinct_card [OF d] by simp
  then have fit: "length (k # ?zs) \<le> nat m"
    using assms(6) by simp
  have r: "removeAll ?a (order c) @ [?a] = removeAll ?a xs @ k # ?zs"
    using assms(4) o by simp
  have l: "last_n (nat m) (removeAll ?a xs @ k # ?zs) =
           last_n (nat m - length (k # ?zs)) (removeAll ?a xs) @ k # ?zs"
    by (rule last_n_append [OF fit])
  show rec: "recent k (insert ?a S) (apply_op m x c)"
  proof (cases x)
    case (Touch a)
    show ?thesis
    proof (cases "a \<in> set (order c)")
      case True
      then have "order (apply_op m x c) = removeAll ?a xs @ k # ?zs"
        using Touch r order_touch [OF assms(1), of a] by simp
      then show ?thesis
        unfolding recent_def using s by blast
    next
      case False
      then have "order (apply_op m x c) = xs @ k # ys"
        using Touch o order_touch [OF assms(1), of a] by simp
      then show ?thesis
        unfolding recent_def using ys by blast
    qed
  next
    case (Store a e)
    then have "order (apply_op m x c) =
        last_n (nat m - length (k # ?zs)) (removeAll ?a xs) @ k # ?zs"
      using order_store [OF assms(1,2), of a e] r l by simp
    then show ?thesis
      unfolding recent_def using s by blast
  qed
  have mem: "k \<in> set (order (apply_op m x c))"
    using rec by (auto simp: recent_def)
  show "find (apply_op m x c) k = find c k"
    using mem assms(1,2,4) by (cases x) (simp_all add: find_touch find_store)
qed

lemma recent_mono: "\<lbrakk>recent k S c; S \<subseteq> T\<rbrakk> \<Longrightarrow> recent k T c"
  unfolding recent_def by blast

lemma recent_apply_ops:
  "\<lbrakk>inv c; 1 \<le> m; recent k S c; finite S; k \<notin> op_key ` set ops;
    int (card (S \<union> op_key ` set ops)) < m\<rbrakk> \<Longrightarrow> find (apply_ops m ops c) k = find c k"
proof (induction ops arbitrary: c S)
  case Nil
  then show ?case by (simp add: apply_ops_def)
next
  case (Cons x ops)
  let ?S = "insert (op_key x) S"
  have eq: "S \<union> op_key ` set (x # ops) = ?S \<union> op_key ` set ops"
    by auto
  have "card ?S \<le> card (?S \<union> op_key ` set ops)"
    using Cons.prems(4) by (intro card_mono) auto
  then have small: "int (card ?S) < m"
    using Cons.prems(6) eq by simp
  have ne: "op_key x \<noteq> k"
    using Cons.prems(5) by auto
  note step = recent_apply_op [OF Cons.prems(1,2,3) ne Cons.prems(4) small]
  have "find (apply_ops m ops (apply_op m x c)) k = find (apply_op m x c) k"
    using Cons.prems step(1) eq
    by (intro Cons.IH [where S = ?S]) (auto simp: inv_apply_op)
  then show ?case
    using step(2) by (simp add: apply_ops_def)
qed

theorem hot_entry_survives:
  assumes "inv c" "1 \<le> m" "find c k = Some e" "k \<notin> op_key ` set ops"
    and "int (card (op_key ` set ops)) < m"
  shows "find (apply_ops m ops (touch k c)) k = Some e"
proof -
  have "k \<in> set (order c)"
    using find_order [OF assms(1), of k] assms(3) by simp
  then have "recent k {} (touch k c)"
    unfolding recent_def using order_touch [OF assms(1), of k] by auto
  then have "find (apply_ops m ops (touch k c)) k = find (touch k c) k"
    using assms by (intro recent_apply_ops [where S = "{}"]) (auto simp: inv_touch)
  then show ?thesis
    using assms(1,3) by (simp add: find_touch)
qed

end

section \<open>The caches of the program satisfy the contract\<close>

lemma enforce_size_limit_closed:
  "0 \<le> m \<Longrightarrow> enforce_size_limit m c =
     (last_n (nat m) c, map fst (take (length c - nat m) c))"
proof (induction c)
  case (Cons x c)
  show ?case
  proof (cases "m < int (length (x # c))")
    case True
    then have "Suc (length c) - nat m = Suc (length c - nat m)"
      using Cons.prems by simp
    then show ?thesis
      using True Cons by (simp add: last_n_def)
  next
    case False
    then show ?thesis by (simp add: last_n_def)
  qed
qed (simp add: last_n_def)

lemma fst_cache_store:
  "1 \<le> m \<Longrightarrow> fst (cache_store m k e c) = last_n (nat m) (dict_pop k c @ [(k, e)])"
  by (simp add: cache_store_def enforce_size_limit_closed)

lemma dict_keys_pop: "dict_keys (dict_pop k c) = removeAll k (dict_keys c)"
  by (simp add: delete_keys removeAll_filter_not_eq)

lemma map_fst_last_n: "map fst (last_n n c) = last_n n (map fst c)"
  by (simp add: last_n_def drop_map)

lemma map_of_last_n:
  "\<lbrakk>dict_ok c; k \<in> set (dict_keys (last_n n c))\<rbrakk> \<Longrightarrow> map_of (last_n n c) k = map_of c k"
proof -
  assume ok: "dict_ok c" and k: "k \<in> set (dict_keys (last_n n c))"
  let ?j = "length c - n"
  have "set (map fst (take ?j c)) \<inter> set (map fst (drop ?j c)) = {}"
    using ok unfolding dict_ok_def
    by (subst (asm) append_take_drop_id [of ?j c, symmetric], subst (asm) map_append) simp
  then have "map_of (take ?j c) k = None"
    using k unfolding last_n_def by (auto simp: map_of_eq_None_iff)
  then have "map_of (take ?j c @ drop ?j c) k = map_of (drop ?j c) k"
    unfolding map_of_append by (simp add: map_add_def split: option.split)
  then show "map_of (last_n n c) k = map_of c k"
    unfolding last_n_def append_take_drop_id by (rule sym)
qed

lemma dict_ok_store: "\<lbrakk>dict_ok c; 1 \<le> m\<rbrakk> \<Longrightarrow> dict_ok (fst (cache_store m k e c))"
  by (simp add: dict_ok_def fst_cache_store map_fst_last_n dict_keys_pop distinct_last_n distinct_removeAll)

lemma dict_ok_touch: "dict_ok c \<Longrightarrow> dict_ok (touch_cache_entry k c)"
  by (auto simp: dict_ok_def touch_cache_entry_def dict_keys_pop distinct_removeAll split: option.split)

lemma map_of_touch: "map_of (touch_cache_entry k c) k' = map_of c k'"
  by (auto simp: touch_cache_entry_def dict_get_pop map_add_def split: option.split)

interpretation cache: lru_cache dict_keys map_of touch_cache_entry
  "\<lambda>m k e c. fst (cache_store m k e c)" dict_ok
proof unfold_locales
  fix c :: "('k \<times> 'e) list" and k k' e m
  show "dict_ok c \<Longrightarrow> distinct (dict_keys c)"
    by (simp add: dict_ok_def)
  show "map_of c k \<noteq> None \<longleftrightarrow> k \<in> set (dict_keys c)"
    by (simp add: map_of_eq_None_iff)
  show "dict_keys (touch_cache_entry k c) =
      (if k \<in> set (dict_keys c) then removeAll k (dict_keys c) @ [k] else dict_keys c)"
    using map_of_eq_None_iff [of c k]
    by (auto simp: touch_cache_entry_def dict_keys_pop split: option.split)
  show "map_of (touch_cache_entry k c) k' = map_of c k'"
    by (rule map_of_touch)
  show "dict_ok c \<Longrightarrow> dict_ok (touch_cache_entry k c)"
    by (rule dict_ok_touch)
  show "1 \<le> m \<Longrightarrow> dict_keys (fst (cache_store m k e c)) = last_n (nat m) (removeAll k (dict_keys c) @ [k])"
    by (simp add: fst_cache_store map_fst_last_n dict_keys_pop)
  show "dict_ok (fst (cache_store m k e c))" if "dict_ok c" "1 \<le> m"
    using that by (rule dict_ok_store)
  show "map_of (fst (cache_store m k e c)) k' = (if k' = k then Some e else map_of c k')"
    if "dict_ok c" "1 \<le> m" "k' \<in> set (dict_keys (fst (cache_store m k e c)))"
  proof -
    have "dict_ok (dict_pop k c @ [(k, e)])"
      using that(1) by (simp add: dict_ok_def dict_keys_pop distinct_removeAll)
    then show ?thesis
      using that by (simp add: fst_cache_store map_of_last_n dict_get_pop map_add_def split: option.split)
  qed
qed

section \<open>Facts about the outcome rules\<close>

lemma set_dict_pop: "set (dict_pop k c) = {x \<in> set c. fst x \<noteq> k}"
  by (auto simp: AList.delete_eq)

lemma cache_store_entries:
  "\<lbrakk>1 \<le> m; x \<in> set (fst (cache_store m k e c))\<rbrakk> \<Longrightarrow> x = (k, e) \<or> x \<in> set c"
  using set_last_n [of "nat m" "dict_pop k c @ [(k, e)]"]
  by (auto simp: fst_cache_store set_dict_pop)

lemma touch_cache_entries: "set (touch_cache_entry k c) \<subseteq> set c"
  by (auto simp: touch_cache_entry_def set_dict_pop split: option.split dest: map_of_SomeD)

lemma cache_store_all:
  "\<lbrakk>1 \<le> m; P (k, e); \<forall>x \<in> set c. P x\<rbrakk> \<Longrightarrow> \<forall>x \<in> set (fst (cache_store m k e c)). P x"
  by (rule ballI, drule (1) cache_store_entries) auto

lemma touch_cache_all: "\<forall>x \<in> set c. P x \<Longrightarrow> \<forall>x \<in> set (touch_cache_entry k c). P x"
  using touch_cache_entries [of k c] by blast

lemma cache_store_length: "1 \<le> m \<Longrightarrow> int (length (fst (cache_store m k e c))) \<le> m"
  by (simp add: fst_cache_store nat_le_iff)

lemma cache_store_keys_evicted:
  "1 \<le> m \<Longrightarrow> set (dict_keys (fst (cache_store m k e c))) \<union> set (snd (cache_store m k e c)) =
     insert k (set (dict_keys c))"
proof -
  assume m: "1 \<le> m"
  let ?c = "dict_pop k c @ [(k, e)]" and ?j = "Suc (length (dict_pop k c)) - nat m"
  have "set (dict_keys (drop ?j ?c)) \<union> set (dict_keys (take ?j ?c)) = set (dict_keys ?c)"
    by (metis Un_commute append_take_drop_id map_append set_append)
  then show ?thesis
    using m by (auto simp: cache_store_def enforce_size_limit_closed last_n_def dict_keys_pop)
qed

lemma touch_cache_keys: "fst ` set (touch_cache_entry k c) = fst ` set c"
  by (auto simp: touch_cache_entry_def set_dict_pop split: option.split dest!: map_of_SomeD intro: rev_image_eqI)

lemma touch_cache_length: "dict_ok c \<Longrightarrow> length (touch_cache_entry k c) = length c"
proof -
  assume ok: "dict_ok c"
  then have "length (dict_keys (touch_cache_entry k c)) = length (dict_keys c)"
    using touch_cache_keys [of k c] dict_ok_touch [OF ok, of k] ok
    by (metis dict_ok_def distinct_card set_map)
  then show ?thesis by simp
qed

lemma drop_cooldowns_keys: "dict_keys (drop_cooldowns ks cd) = filter (\<lambda>u. u \<notin> set ks) (dict_keys cd)"
  unfolding drop_cooldowns_def
  by (induction ks arbitrary: cd) (auto simp: dict_keys_pop removeAll_filter_not_eq intro: filter_cong)

lemma drop_cooldowns_get: "map_of (drop_cooldowns ks cd) u = (if u \<in> set ks then None else map_of cd u)"
  unfolding drop_cooldowns_def by (induction ks arbitrary: cd) (auto simp: dict_get_pop)

lemma dict_ok_drop_cooldowns: "dict_ok cd \<Longrightarrow> dict_ok (drop_cooldowns ks cd)"
  by (simp add: dict_ok_def drop_cooldowns_keys)

text \<open>A cache with its cooldown stamps: distinct keys, bounded, and no stamp without its entry.\<close>

definition cache_ok :: "int \<Rightarrow> ('k \<times> 'e) list \<Rightarrow> bool" where
  "cache_ok m c \<longleftrightarrow> dict_ok c \<and> int (length c) \<le> m"

definition stamps_ok :: "'e dict \<Rightarrow> rat dict \<Rightarrow> bool" where
  "stamps_ok c cd \<longleftrightarrow> dict_ok cd \<and> set (dict_keys cd) \<subseteq> set (dict_keys c)"

lemma cache_ok_touch: "cache_ok m c \<Longrightarrow> cache_ok m (touch_cache_entry k c)"
  by (simp add: cache_ok_def dict_ok_touch touch_cache_length)

lemma stamps_ok_touch: "stamps_ok c cd \<Longrightarrow> stamps_ok (touch_cache_entry k c) cd"
  by (simp add: stamps_ok_def touch_cache_keys)

lemma cache_ok_store: "\<lbrakk>cache_ok m c; 1 \<le> m\<rbrakk> \<Longrightarrow> cache_ok m (fst (cache_store m k e c))"
  by (simp add: cache_ok_def dict_ok_store cache_store_length)

lemma stamps_ok_store:
  "\<lbrakk>stamps_ok c cd; 1 \<le> m\<rbrakk> \<Longrightarrow>
     stamps_ok (fst (cache_store m k e c)) (drop_cooldowns (snd (cache_store m k e c)) cd)"
  using cache_store_keys_evicted [of m k e c]
  by (simp add: stamps_ok_def dict_ok_drop_cooldowns drop_cooldowns_keys) blast

text \<open>What a JWKS outcome leaves: nothing changed, or the response stored under its address.\<close>

lemma apply_jwks_outcome_cases:
  obtains
    (retain) "apply_jwks_cache_outcome st uri r now (c, cd) = (c, cd)"
      "\<not> j_is_successful r \<or> j_keys r = None \<or> j_keys r = Some []"
  | (store) "apply_jwks_cache_outcome st uri r now (c, cd) =
        (let cs = cache_store (s_max_entries st) uri
                 \<lparr>e_response = r, e_cached_at = now, e_ttl = resolve_ttl st (j_cache_control r)\<rparr> c
         in (fst cs, drop_cooldowns (snd cs) cd))"
      "j_is_successful r" "j_keys r \<noteq> None" "j_keys r \<noteq> Some []"
  by (cases "\<not> j_is_successful r \<or> j_keys r = None \<or> j_keys r = Some []")
     (auto simp: apply_jwks_cache_outcome_def is_uncacheable_for_jwks_def split_beta Let_def)

lemma apply_disco_outcome_cases:
  obtains
    (retain) "apply_disco_cache_outcome st k r now c = c" "\<not> d_is_successful r"
  | (drop) "apply_disco_cache_outcome st k r now c = dict_pop k c" "d_is_successful r"
      "is_uncacheable (d_cache_control r)"
  | (store) "apply_disco_cache_outcome st k r now c =
        fst (cache_store (s_max_entries st) k
             \<lparr>e_response = r, e_cached_at = now, e_ttl = resolve_disco_ttl st (d_cache_control r)\<rparr> c)"
      "d_is_successful r" "\<not> is_uncacheable (d_cache_control r)"
  by (cases "d_is_successful r"; cases "is_uncacheable (d_cache_control r)")
     (auto simp: apply_disco_cache_outcome_def)

section \<open>Properties\<close>

text \<open>C13: Whatever the environment variables hold, the four settings of the caches are within their
  documented ranges once they have been read, and a getter that was called once returns the same
  value ever after, even when the environment changes.\<close>

theorem cache_settings_in_range:
  "settings_ok (settings_of env (reset_env_for_testing m))
   \<and> fst (get_env_ttl env' (snd (get_env_ttl env m))) = fst (get_env_ttl env m)
   \<and> fst (get_disco_env_ttl env' (snd (get_disco_env_ttl env m))) = fst (get_disco_env_ttl env m)
   \<and> fst (get_kid_miss_cooldown env' (snd (get_kid_miss_cooldown env m))) = fst (get_kid_miss_cooldown env m)
   \<and> fst (get_max_cache_entries env' (snd (get_max_cache_entries env m))) = fst (get_max_cache_entries env m)"
  by (simp add: settings_ok_fresh get_env_ttl_def get_disco_env_ttl_def get_kid_miss_cooldown_def
      get_max_cache_entries_def Let_def split: option.split)

text \<open>A cached response lives for at least a minute and at most a day, whatever
  \<open>Cache-Control\<close> says, and a \<open>max-age\<close> within that range is used as it is, before any setting.\<close>

theorem ttl_in_range:
  assumes "settings_ok st"
  shows "60 \<le> resolve_ttl st cc \<and> resolve_ttl st cc \<le> 86400
    \<and> 60 \<le> resolve_disco_ttl st cc \<and> resolve_disco_ttl st cc \<le> 86400
    \<and> (\<forall>q. parse_max_age cc = Some (Fin q) \<and> 60 \<le> q \<and> q \<le> 86400 \<longrightarrow>
         resolve_ttl st cc = q \<and> resolve_disco_ttl st cc = q)"
  using resolve_ttl_bounds [OF assms]
  by (simp add: resolve_ttl_def resolve_disco_ttl_def clamp_float_def cache_constants)

lemma example_settings_ok:
  "settings_ok \<lparr>s_env_ttl = 86400, s_disco_env_ttl = 3600, s_cooldown = 5, s_max_entries = 2\<rparr>"
  by (simp add: settings_ok_def)

theorem ttl_in_range_witness:
  "60 \<le> resolve_ttl \<lparr>s_env_ttl = 86400, s_disco_env_ttl = 3600, s_cooldown = 5, s_max_entries = 2\<rparr> (Some ''no-cache'')"
  using ttl_in_range [OF example_settings_ok, of "Some ''no-cache''"] by simp

text \<open>A failed or empty JWKS response leaves the cache and the cooldown stamps as they were. A
  response with keys becomes the entry of its address, the most recently used one, with the time
  and the TTL of this response; every other address keeps its entry or loses it to eviction,
  and an evicted address keeps no stamp.\<close>

theorem jwks_outcome_rules:
  assumes "dict_ok c" "1 \<le> s_max_entries st"
    and "apply_jwks_cache_outcome st uri r now (c, cd) = (c', cd')"
  shows "(\<not> j_is_successful r \<or> j_keys r = None \<or> j_keys r = Some [] \<longrightarrow> c' = c \<and> cd' = cd)
    \<and> (j_is_successful r \<and> j_keys r \<noteq> None \<and> j_keys r \<noteq> Some [] \<longrightarrow>
         map_of c' uri = Some \<lparr>e_response = r, e_cached_at = now, e_ttl = resolve_ttl st (j_cache_control r)\<rparr>
         \<and> last (dict_keys c') = uri \<and> int (length c') \<le> s_max_entries st
         \<and> (\<forall>u. u \<noteq> uri \<longrightarrow> map_of c' u = map_of c u \<or> map_of c' u = None)
         \<and> (\<forall>u. map_of c u \<noteq> None \<and> map_of c' u = None \<longrightarrow> map_of cd' u = None))"
proof (cases rule: apply_jwks_outcome_cases [where st = st and uri = uri and r = r and now = now and c = c and cd = cd])
  case retain
  then show ?thesis using assms(3) by auto
next
  case store
  let ?e = "\<lparr>e_response = r, e_cached_at = now, e_ttl = resolve_ttl st (j_cache_control r)\<rparr>"
  let ?m = "s_max_entries st"
  have c': "c' = fst (cache_store ?m uri ?e c)" and cd': "cd' = drop_cooldowns (snd (cache_store ?m uri ?e c)) cd"
    using store(1) assms(3) by (auto simp: Let_def)
  have same: "map_of c' uri = Some ?e"
    unfolding c' by (rule cache.find_store_same [OF assms(1,2)])
  have keys: "dict_keys c' = last_n (nat ?m) (removeAll uri (dict_keys c) @ [uri])"
    unfolding c' using cache.order_store [OF assms(1,2)] .
  then have last: "last (dict_keys c') = uri"
    using assms(2) last_n_append [of "[uri]" "nat ?m"] by simp
  have other: "map_of c' u = map_of c u \<or> map_of c' u = None" if "u \<noteq> uri" for u
    using cache.find_store [OF assms(1,2), of u uri ?e] that unfolding c'
    by (metis map_of_eq_None_iff set_map)
  have gone: "map_of cd' u = None" if "map_of c u \<noteq> None" "map_of c' u = None" for u
  proof -
    have "u \<in> insert uri (set (dict_keys c))" "u \<notin> set (dict_keys c')"
      using that by (auto simp: map_of_eq_None_iff)
    then have "u \<in> set (snd (cache_store ?m uri ?e c))"
      using cache_store_keys_evicted [OF assms(2), of uri ?e c] c' by blast
    then show ?thesis
      by (simp add: cd' drop_cooldowns_get)
  qed
  show ?thesis
    using store same last other gone cache_store_length [OF assms(2), of uri ?e c] c' by auto
qed

definition example_key :: jwk where
  "example_key = jwk_of_members (\<lambda>n. if n = ''kty'' then JStr ''oct'' else if n = ''k'' then JStr ''c2VjcmV0'' else JNull)"

definition example_jwks :: jwks_response where
  "example_jwks = \<lparr>j_is_successful = True, j_error = None, j_keys = Some [example_key], j_cache_control = None\<rparr>"

definition example_entry :: jwks_entry where
  "example_entry = \<lparr>e_response = example_jwks, e_cached_at = 0, e_ttl = 60\<rparr>"

definition one_entry_settings :: cache_settings where
  "one_entry_settings = \<lparr>s_env_ttl = 86400, s_disco_env_ttl = 3600, s_cooldown = 5, s_max_entries = 1\<rparr>"

lemma example_outcome:
  "apply_jwks_cache_outcome one_entry_settings ''b'' example_jwks 7 ([(''a'', example_entry)], [(''a'', 1)]) =
     ([(''b'', \<lparr>e_response = example_jwks, e_cached_at = 7, e_ttl = 86400\<rparr>)], [])"
  by (simp add: apply_jwks_cache_outcome_def example_jwks_def one_entry_settings_def is_uncacheable_for_jwks_def
      cache_store_def resolve_ttl_def parse_max_age_def drop_cooldowns_def)

theorem jwks_outcome_rules_witness:
  "map_of (fst (apply_jwks_cache_outcome one_entry_settings ''b'' example_jwks 7
       ([(''a'', example_entry)], [(''a'', 1)]))) ''b'' = Some \<lparr>e_response = example_jwks, e_cached_at = 7, e_ttl = 86400\<rparr>"
proof -
  have "dict_ok [(''a'', example_entry)]" "1 \<le> s_max_entries one_entry_settings"
    by (simp_all add: dict_ok_def one_entry_settings_def)
  from jwks_outcome_rules [OF this example_outcome] show ?thesis
    by (simp add: example_outcome)
qed

text \<open>The operations a cache sees over time, run on the model's dictionaries.\<close>

primrec run_cache_op :: "int \<Rightarrow> ('k, 'e) cache_op \<Rightarrow> ('k \<times> 'e) list \<Rightarrow> ('k \<times> 'e) list" where
  "run_cache_op m (Touch k) c = touch_cache_entry k c"
| "run_cache_op m (Store k e) c = fst (cache_store m k e c)"

definition run_cache_ops :: "int \<Rightarrow> ('k, 'e) cache_op list \<Rightarrow> ('k \<times> 'e) list \<Rightarrow> ('k \<times> 'e) list" where
  "run_cache_ops m ops c = fold (run_cache_op m) ops c"

lemma run_cache_op_eq: "run_cache_op m x c = cache.apply_op m x c"
  by (cases x) simp_all

lemma run_cache_ops_eq: "run_cache_ops m ops c = cache.apply_ops m ops c"
  unfolding run_cache_ops_def cache.apply_ops_def
  by (induction ops arbitrary: c) (simp_all add: run_cache_op_eq)

text \<open>A cache entry that was just read survives as long as fewer other keys are read or
  written than the cache has room for, however often: walking through distinct addresses does not
  evict an entry that is in use.\<close>

theorem hot_entry_not_evicted:
  assumes "dict_ok c" "1 \<le> m" "map_of c k = Some e" "k \<notin> op_key ` set ops" "int (card (op_key ` set ops)) < m"
  shows "map_of (run_cache_ops m ops (touch_cache_entry k c)) k = Some e"
  unfolding run_cache_ops_eq by (rule cache.hot_entry_survives [OF assms])

theorem hot_entry_not_evicted_witness:
  "map_of (run_cache_ops 2 [Store ''b'' 1, Touch ''b'', Store ''b'' 2]
      (touch_cache_entry ''a'' [(''a'', 0::nat), (''c'', 5)])) ''a'' = Some 0"
  by (rule hot_entry_not_evicted) (simp_all add: dict_ok_def)

end
