(* ===== verification/Http_Utils.thy ===== *)
theory Http_Utils
  imports Jwks_Cache
begin

text \<open>
  \<open>core/http_utils.py\<close> and the retry decorator of \<open>sync/http_client.py\<close>: the retry settings, the
  exponential backoff, the \<open>Retry-After\<close> header, the redirect block, and the loop that calls the
  transport again on 429, on 5xx and on request errors.

  A response is the record of what the library reads of an \<open>httpx.Response\<close>: the transport
  itself is a parameter, a function from the attempt number to the outcome of that call. The date
  form of \<open>Retry-After\<close> is read by the parameter \<open>parsedate\<close>, the POSIX time of an HTTP date or
  \<open>None\<close> for a text that is not one.
\<close>

section \<open>Responses\<close>

record http_response =
  h_status :: int
  h_headers :: "string dict"
  h_content :: string
  h_url :: "string option"
  h_json :: "json res"
  h_text :: string

text \<open>Header names are case-insensitive; the record keeps them in lower case.\<close>

definition header_get :: "http_response \<Rightarrow> string \<Rightarrow> string option" where
  "header_get r name = map_of (h_headers r) (py_lower name)"

definition header_or :: "http_response \<Rightarrow> string \<Rightarrow> string \<Rightarrow> string" where
  "header_or r name d = (case header_get r name of None \<Rightarrow> d | Some v \<Rightarrow> v)"

definition is_success :: "http_response \<Rightarrow> bool" where
  "is_success r \<longleftrightarrow> 200 \<le> h_status r \<and> h_status r \<le> 299"

section \<open>Settings\<close>

definition getenv_or :: "os_env \<Rightarrow> string \<Rightarrow> string \<Rightarrow> string" where
  "getenv_or env name d = (case env name of None \<Rightarrow> d | Some v \<Rightarrow> v)"

definition int_or_raise :: "string \<Rightarrow> int res" where
  "int_or_raise s = (case py_int s of Some i \<Rightarrow> Inr i
     | None \<Rightarrow> Inl (raise_cls ValueError (''invalid literal for int() with base 10: '' @ sq s)))"

definition float_or_raise :: "string \<Rightarrow> pyfloat res" where
  "float_or_raise s = (case py_float s of Some f \<Rightarrow> Inr f
     | None \<Rightarrow> Inl (raise_cls ValueError (''could not convert string to float: '' @ sq s)))"

definition get_retry_config :: "os_env \<Rightarrow> (int \<times> pyfloat) res" where
  "get_retry_config env =
     bnd (int_or_raise (opt_or (env ''HTTP_RETRY_MAX_ATTEMPTS'') (opt_or (env ''HTTP_RETRY_COUNT'') ''3'')))
       (\<lambda>max_retries. bnd (float_or_raise (getenv_or env ''HTTP_RETRY_BASE_DELAY'' ''1.0''))
         (\<lambda>base_delay. Inr (max_retries, base_delay)))"

definition get_retry_params :: "os_env \<Rightarrow> int option \<Rightarrow> pyfloat option \<Rightarrow> (int \<times> pyfloat) res" where
  "get_retry_params env max_retries base_delay =
     bnd (get_retry_config env) (\<lambda>(n, d).
       Inr (case max_retries of Some m \<Rightarrow> m | None \<Rightarrow> n, case base_delay of Some b \<Rightarrow> b | None \<Rightarrow> d))"

definition get_timeout :: "os_env \<Rightarrow> pyfloat res" where
  "get_timeout env = float_or_raise (getenv_or env ''HTTP_TIMEOUT'' ''30.0'')"

definition get_max_jwks_size :: "os_env \<Rightarrow> int res" where
  "get_max_jwks_size env = int_or_raise (getenv_or env ''MAX_JWKS_SIZE'' (show_int (512 * 1024)))"

definition get_max_jwks_keys :: "os_env \<Rightarrow> int res" where
  "get_max_jwks_keys env = bnd (int_or_raise (getenv_or env ''MAX_JWKS_KEYS'' (show_int 100))) (\<lambda>n. Inr (max 1 n))"

section \<open>Delays\<close>

definition should_retry_response :: "http_response \<Rightarrow> int \<Rightarrow> int \<Rightarrow> bool" where
  "should_retry_response r attempt retries \<longleftrightarrow> (h_status r = 429 \<or> h_status r \<ge> 500) \<and> attempt < retries"

text \<open>
  \<open>base_delay * 2 ** attempt\<close>: the power is an integer, whose conversion to a float overflows
  from \<open>2 ^ 1024\<close> on; the product of finite floats may be an infinity, and a zero times a power
  of two is zero.
\<close>

definition calculate_delay :: "pyfloat \<Rightarrow> int \<Rightarrow> pyfloat res" where
  "calculate_delay base attempt =
     (if 1024 \<le> attempt then Inl (raise_cls OverflowError ''int too large to convert to float'')
      else Inr (case base of Fin q \<Rightarrow> float_of_rat (q * 2 ^ nat attempt) | f \<Rightarrow> f))"

definition parse_retry_after :: "(string \<Rightarrow> rat option) \<Rightarrow> string option \<Rightarrow> rat \<Rightarrow> pyfloat option res" where
  "parse_retry_after parsedate value now =
     (case value of None \<Rightarrow> Inr None
      | Some v \<Rightarrow>
          let s = py_strip v in
          if s = [] then Inr None
          else if py_isdigit s then bnd (float_or_raise s) (\<lambda>f. Inr (Some f))
          else case parsedate s of None \<Rightarrow> Inr None
               | Some retry_at \<Rightarrow> Inr (Some (Fin (max 0 (retry_at - now)))))"

definition MAX_RETRY_DELAY_SECONDS :: rat where "MAX_RETRY_DELAY_SECONDS = 120"

definition resolve_retry_delay :: "(string \<Rightarrow> rat option) \<Rightarrow> http_response \<Rightarrow> pyfloat \<Rightarrow> int \<Rightarrow> rat \<Rightarrow> pyfloat res" where
  "resolve_retry_delay parsedate r base attempt now =
     bnd (calculate_delay base attempt) (\<lambda>backoff.
       bnd (parse_retry_after parsedate (header_get r ''Retry-After'') now) (\<lambda>retry_after.
         Inr (case retry_after of None \<Rightarrow> backoff
              | Some ra \<Rightarrow> pf_min (pf_max backoff ra) (Fin MAX_RETRY_DELAY_SECONDS))))"

text \<open>
  \<open>time.sleep\<close>: a negative or NaN length is a \<open>ValueError\<close>, a length beyond the range of the
  timer an \<open>OverflowError\<close>.
\<close>

definition time_sleep :: "pyfloat \<Rightarrow> unit res" where
  "time_sleep d =
     (case d of
        Fin q \<Rightarrow> if q < 0 then Inl (raise_cls ValueError ''sleep length must be non-negative'')
                 else if 9223372036 < q then Inl (raise_cls OverflowError ''timestamp too large to convert to C PyTime_t'')
                 else Inr ()
      | NaN \<Rightarrow> Inl (raise_cls ValueError ''Invalid value NaN (not a number)'')
      | _ \<Rightarrow> Inl (raise_cls OverflowError ''timestamp too large to convert to C PyTime_t''))"

section \<open>The retry loop\<close>

definition check_no_redirect :: "http_response \<Rightarrow> unit res" where
  "check_no_redirect r =
     guard_raise (300 \<le> h_status r \<and> h_status r \<le> 399)
       (network_exn NetworkException
          (''HTTP '' @ show_int (h_status r) @ '' redirect blocked - target: ''
           @ sq (header_or r ''location'' ''<not provided>'')
           @ ''. Redirect following is disabled to prevent SSRF attacks.'')
          (h_url r) (Some (h_status r)))"

definition sleep_for :: "pyfloat res \<Rightarrow> pyfloat res" where
  "sleep_for d = bnd d (\<lambda>x. bnd (time_sleep x) (\<lambda>_. Inr x))"

text \<open>
  The body of \<open>wrapper\<close>: the attempts still to make, the last request error, and the answer with
  the lengths slept. \<open>call a\<close> is the outcome of the transport at attempt \<open>a\<close>, \<open>clock a\<close> the
  wall-clock time then.
\<close>

fun retry_loop ::
  "(string \<Rightarrow> rat option) \<Rightarrow> (int \<Rightarrow> rat) \<Rightarrow> (int \<Rightarrow> http_response res) \<Rightarrow> int \<Rightarrow> pyfloat
   \<Rightarrow> int list \<Rightarrow> exn option \<Rightarrow> http_response res \<times> pyfloat list" where
  "retry_loop parsedate clock call retries base [] prev =
     (case prev of Some e \<Rightarrow> (Inl e, [])
      | None \<Rightarrow> (Inl (raise_cls RuntimeError ''No response received after retries''), []))"
| "retry_loop parsedate clock call retries base (a # as) prev =
     (case call a of
        Inl e \<Rightarrow>
          if exn_isinstance e HttpxRequestError \<and> a < retries
          then (case sleep_for (calculate_delay base a) of
                  Inl x \<Rightarrow> (Inl x, [])
                | Inr d \<Rightarrow> apsnd ((#) d) (retry_loop parsedate clock call retries base as (Some e)))
          else (Inl e, [])
      | Inr r \<Rightarrow>
          if should_retry_response r a retries
          then (case sleep_for (resolve_retry_delay parsedate r base a (clock a)) of
                  Inl x \<Rightarrow> (Inl x, [])
                | Inr d \<Rightarrow> apsnd ((#) d) (retry_loop parsedate clock call retries base as prev))
          else (bnd (check_no_redirect r) (\<lambda>_. Inr r), []))"

definition retry_with_backoff ::
  "(string \<Rightarrow> rat option) \<Rightarrow> os_env \<Rightarrow> (int \<Rightarrow> rat) \<Rightarrow> int option \<Rightarrow> pyfloat option
   \<Rightarrow> (int \<Rightarrow> http_response res) \<Rightarrow> http_response res \<times> pyfloat list" where
  "retry_with_backoff parsedate env clock max_retries base_delay call =
     (case get_retry_params env max_retries base_delay of
        Inl e \<Rightarrow> (Inl e, [])
      | Inr (retries, base) \<Rightarrow> retry_loop parsedate clock call retries base [0..retries] None)"

section \<open>Delays stay in range\<close>

lemma digit_group_rest_digits: "list_all is_ascii_digit s \<Longrightarrow> digit_group_rest s = Some s"
  by (induction s rule: digit_group_rest.induct) simp_all

lemma digit_group_digits: "\<lbrakk>s \<noteq> []; list_all is_ascii_digit s\<rbrakk> \<Longrightarrow> digit_group s = Some s"
  by (cases s) (simp_all add: digit_group_def digit_group_rest_digits)

lemma takeWhile_all_neq: "c \<notin> set s \<Longrightarrow> takeWhile (\<lambda>x. x \<noteq> c) s = s"
  by (induction s) auto

lemma ascii_digit_not:
  assumes "is_ascii_digit c"
  shows "c \<noteq> CHR ''e''" "c \<noteq> CHR ''E''" "c \<noteq> CHR ''.''" "c \<noteq> CHR ''-''" "c \<noteq> CHR ''+''" "\<not> py_isspace c"
    "c \<noteq> CHR ''i''" "c \<noteq> CHR ''n''" "char_lower c = c"
  using assms by (auto simp: is_ascii_digit_def py_isspace_def char_lower_def Let_def)

lemma parse_decimal_digits:
  assumes "s \<noteq> []" "list_all is_ascii_digit s"
  shows "parse_decimal s = Some (of_int (digits_val s))"
proof -
  have ne: "\<forall>c \<in> set s. c \<noteq> CHR ''e'' \<and> c \<noteq> CHR ''E'' \<and> c \<noteq> CHR ''.''"
    using assms(2) ascii_digit_not by (auto simp: list_all_iff)
  have t: "takeWhile (\<lambda>c. c \<notin> {CHR ''e'', CHR ''E''}) s = s"
    unfolding takeWhile_eq_all_conv using ne by blast
  have d: "dropWhile (\<lambda>c. c \<notin> {CHR ''e'', CHR ''E''}) s = []"
    unfolding dropWhile_eq_Nil_conv using ne by blast
  have tw: "takeWhile (\<lambda>x. x \<noteq> CHR ''.'') s = s" and dw: "dropWhile (\<lambda>x. x \<noteq> CHR ''.'') s = []"
    unfolding takeWhile_eq_all_conv dropWhile_eq_Nil_conv using ne by blast+
  have p: "py_partition (CHR ''.'') s = (s, False, [])"
    unfolding py_partition_def tw dw using ne by auto
  show ?thesis
    unfolding parse_decimal_def Let_def t d p
    using assms by (simp add: opt_group_def digit_group_digits pow10_def)
qed

lemma py_strip_id: "list_all (\<lambda>c. \<not> py_isspace c) s \<Longrightarrow> py_strip s = s"
proof -
  assume "list_all (\<lambda>c. \<not> py_isspace c) s"
  then have ns: "\<not> py_isspace c" if "c \<in> set s" for c
    using that by (simp add: list_all_iff)
  then have "dropWhile py_isspace s = s"
    by (cases s) simp_all
  moreover have "dropWhile py_isspace (rev s) = rev s"
    using ns by (cases s rule: rev_cases) simp_all
  ultimately show ?thesis by (simp add: py_strip_def)
qed

lemma py_float_digits:
  assumes "s \<noteq> []" "list_all is_ascii_digit s"
  shows "py_float s = Some (float_of_rat (of_int (digits_val s)))"
proof -
  obtain c t where s: "s = c # t" and c: "is_ascii_digit c"
    using assms by (cases s) auto
  have "py_strip s = s"
    using assms(2) ascii_digit_not(6) by (intro py_strip_id) (auto simp: list_all_iff)
  moreover have "split_sign s = (False, s)"
    using s ascii_digit_not [OF c] by (simp add: split_sign_def)
  moreover have "py_lower s \<noteq> ''inf'' \<and> py_lower s \<noteq> ''infinity'' \<and> py_lower s \<noteq> ''nan''"
    using s ascii_digit_not [OF c] by (simp add: py_lower_def)
  ultimately show ?thesis
    by (simp add: py_float_def parse_decimal_digits [OF assms])
qed

lemma py_isdigit_ascii: "\<lbrakk>py_isdigit s; py_isascii s\<rbrakk> \<Longrightarrow> s \<noteq> [] \<and> list_all is_ascii_digit s"
  by (fastforce simp: py_isdigit_def py_isascii_def py_isdigit_char_def list_all_iff)

lemma set_py_strip: "set (py_strip s) \<subseteq> set s"
  by (auto simp: py_strip_def dest!: set_dropWhileD)

lemma parse_retry_after_ascii:
  assumes "\<And>v. value = Some v \<Longrightarrow> py_isascii v"
  shows "\<exists>ra. parse_retry_after parsedate value now = Inr ra"
proof (cases "\<exists>v. value = Some v \<and> py_isdigit (py_strip v)")
  case True
  then obtain v where v: "value = Some v" and d: "py_isdigit (py_strip v)"
    by blast
  have "py_isascii (py_strip v)"
    using assms [OF v] set_py_strip [of v] by (auto simp: py_isascii_def list_all_iff)
  then show ?thesis
    using v d py_isdigit_ascii [OF d]
    by (simp add: parse_retry_after_def float_or_raise_def py_float_digits)
next
  case False
  then show ?thesis
    by (auto simp: parse_retry_after_def Let_def split: option.split)
qed

lemma time_sleep_ok: "time_sleep d = Inr u \<longleftrightarrow> (\<exists>q. d = Fin q \<and> 0 \<le> q \<and> q \<le> 9223372036)"
  by (cases d) (auto simp: time_sleep_def)

lemma float_of_rat_small: "\<lbrakk>- float_overflow < q; q < float_overflow\<rbrakk> \<Longrightarrow> float_of_rat q = Fin q"
  by (simp add: float_of_rat_def)

lemma float_overflow_large: "2 ^ 34 < float_overflow"
proof -
  have "(2::rat) ^ 1024 = 2 ^ 970 * 2 ^ 54"
    by (simp flip: power_add)
  moreover have "(2::rat) ^ 34 \<le> 2 ^ 970"
    by (rule power_increasing) simp_all
  ultimately have "(2::rat) ^ 1024 - 2 ^ 970 \<ge> 2 ^ 34 * (2 ^ 54 - 1)"
    by (simp add: right_diff_distrib' mult_right_mono)
  then show ?thesis
    unfolding float_overflow_def by simp
qed

lemma calculate_delay_small:
  assumes "0 \<le> a" "a < n" "n < 1024" "0 \<le> q" "q * 2 ^ nat n \<le> 9223372036"
  shows "calculate_delay (Fin q) a = Inr (Fin (q * 2 ^ nat a))" and "q * 2 ^ nat a \<le> 9223372036"
proof -
  have "(2::rat) ^ nat a \<le> 2 ^ nat n"
    using assms by (intro power_increasing) auto
  then show le: "q * 2 ^ nat a \<le> 9223372036"
    using assms(4,5) by (meson mult_left_mono order_trans)
  then have "float_of_rat (q * 2 ^ nat a) = Fin (q * 2 ^ nat a)"
    using float_overflow_large mult_nonneg_nonneg [OF assms(4), of "2 ^ nat a"]
    by (intro float_of_rat_small) simp_all
  then show "calculate_delay (Fin q) a = Inr (Fin (q * 2 ^ nat a))"
    using assms by (simp add: calculate_delay_def)
qed

lemma pf_cap_range:
  assumes "0 \<le> q"
  shows "\<exists>p. pf_min (pf_max (Fin q) ra) (Fin 120) = Fin p \<and> 0 \<le> p \<and> p \<le> 120"
  using assms by (cases ra) (auto simp: pf_min_def pf_max_def)

section \<open>What the loop returns\<close>

text \<open>
  The outcomes the loop tries again after, and the attempt whose outcome it keeps: the first that
  is not transient, or the last one.
\<close>

definition transient :: "http_response res \<Rightarrow> bool" where
  "transient x = (case x of Inl e \<Rightarrow> exn_isinstance e HttpxRequestError
     | Inr r \<Rightarrow> h_status r = 429 \<or> h_status r \<ge> 500)"

definition final_attempt :: "(int \<Rightarrow> http_response res) \<Rightarrow> int \<Rightarrow> int \<Rightarrow> int" where
  "final_attempt call start retries =
     (case find (\<lambda>a. \<not> transient (call a)) [start..retries - 1] of None \<Rightarrow> retries | Some a \<Rightarrow> a)"

definition deliver :: "http_response res \<Rightarrow> http_response res" where
  "deliver x = bnd x (\<lambda>r. bnd (check_no_redirect r) (\<lambda>_. Inr r))"

lemma final_attempt_step:
  "a < n \<Longrightarrow> final_attempt call a n = (if transient (call a) then final_attempt call (a + 1) n else a)"
  by (simp add: final_attempt_def upto_rec1)

lemma final_attempt_last: "final_attempt call n n = n"
  by (simp add: final_attempt_def)

lemma retry_loop_sleeps:
  "length (snd (retry_loop pd clk call n base as prev)) \<le> length as"
  by (induction as arbitrary: prev) (auto split: sum.split option.split)

lemma retry_loop_result:
  assumes "\<And>a. \<lbrakk>0 \<le> a; a < n; transient (call a)\<rbrakk> \<Longrightarrow>
      (case call a of Inl e \<Rightarrow> is_ok (sleep_for (calculate_delay base a))
       | Inr r \<Rightarrow> is_ok (sleep_for (resolve_retry_delay pd r base a (clk a))))"
    and "0 \<le> a" "a \<le> n"
  shows "fst (retry_loop pd clk call n base [a..n] prev) = deliver (call (final_attempt call a n)) \<and>
         int (length (snd (retry_loop pd clk call n base [a..n] prev))) = final_attempt call a n - a"
  using assms(2,3)
proof (induction "nat (n - a)" arbitrary: a prev)
  case 0
  then have "a = n" by simp
  then show ?case
    by (cases "call n") (simp_all add: final_attempt_last deliver_def should_retry_response_def)
next
  case (Suc m)
  then have lt: "a < n" by simp
  have IH: "fst (retry_loop pd clk call n base [a + 1..n] p) = deliver (call (final_attempt call (a + 1) n)) \<and>
         int (length (snd (retry_loop pd clk call n base [a + 1..n] p))) = final_attempt call (a + 1) n - (a + 1)" for p
    using Suc by (intro Suc.hyps) auto
  have up: "[a..n] = a # [a + 1..n]"
    using lt by (simp add: upto_rec1)
  show ?case
  proof (cases "transient (call a)")
    case True
    then show ?thesis
      using assms(1) [OF Suc.prems(1) lt True] IH lt unfolding up final_attempt_step [OF lt]
      by (cases "call a")
        (auto simp: transient_def should_retry_response_def is_ok_def split: sum.splits)
  next
    case False
    then show ?thesis
      using lt unfolding up final_attempt_step [OF lt]
      by (cases "call a") (auto simp: transient_def should_retry_response_def deliver_def)
  qed
qed

lemma sleep_for_ok: "is_ok (sleep_for d) \<longleftrightarrow> (\<exists>q. d = Inr (Fin q) \<and> 0 \<le> q \<and> q \<le> 9223372036)"
proof (cases d)
  case (Inr x)
  then show ?thesis
    using time_sleep_ok [of x "()"] by (cases "time_sleep x") (auto simp: sleep_for_def)
qed (simp add: sleep_for_def)

lemma resolve_retry_delay_small:
  assumes "0 \<le> a" "a < n" "n < 1024" "0 \<le> q" "q * 2 ^ nat n \<le> 9223372036"
    and "\<And>v. header_get r ''Retry-After'' = Some v \<Longrightarrow> py_isascii v"
  shows "is_ok (sleep_for (resolve_retry_delay pd r (Fin q) a now))"
proof -
  note d = calculate_delay_small [OF assms(1-5)]
  obtain ra where ra: "parse_retry_after pd (header_get r ''Retry-After'') now = Inr ra"
    using parse_retry_after_ascii [OF assms(6)] by blast
  have nn: "0 \<le> q * 2 ^ nat a"
    using assms(4) by simp
  show ?thesis
  proof (cases ra)
    case None
    then show ?thesis
      using d ra nn by (simp add: resolve_retry_delay_def sleep_for_ok)
  next
    case (Some f)
    obtain p where "pf_min (pf_max (Fin (q * 2 ^ nat a)) f) (Fin 120) = Fin p" "0 \<le> p" "p \<le> 120"
      using pf_cap_range [OF nn] by blast
    then show ?thesis
      using Some d ra by (simp add: resolve_retry_delay_def sleep_for_ok MAX_RETRY_DELAY_SECONDS_def)
  qed
qed

lemma deliver_ok: "deliver x = Inr r \<longleftrightarrow> x = Inr r \<and> \<not> (300 \<le> h_status r \<and> h_status r \<le> 399)"
  by (cases x) (auto simp: deliver_def check_no_redirect_def res_splits)

lemma retry_loop_ok:
  "fst (retry_loop pd clk call n base as prev) = Inr r \<Longrightarrow>
     \<exists>a \<in> set as. deliver (call a) = Inr r \<and> (transient (call a) \<longrightarrow> n \<le> a)"
proof (induction as arbitrary: prev)
  case Nil
  then show ?case by (simp split: option.splits)
next
  case (Cons a as)
  show ?case
  proof (cases "call a")
    case (Inl e)
    then show ?thesis
      using Cons by (auto split: if_splits sum.splits)
  next
    case (Inr x)
    show ?thesis
    proof (cases "should_retry_response x a n")
      case True
      then show ?thesis
        using Inr Cons by (auto split: sum.splits)
    next
      case False
      then have "deliver (call a) = Inr r"
        using Inr Cons.prems by (simp add: deliver_def)
      then show ?thesis
        using Inr False by (auto simp: should_retry_response_def transient_def)
    qed
  qed
qed

section \<open>Properties\<close>

text \<open>The environment in which no variable is set.\<close>

definition empty_env :: os_env where
  "empty_env = (\<lambda>_. None)"

lemma get_retry_config_default: "get_retry_config empty_env = Inr (3, Fin 1)"
proof -
  have i: "py_int ''3'' = Some 3"
    by code_simp
  have s: "split_sign (py_strip ''1.0'') = (False, ''1.0'')" "py_lower ''1.0'' = ''1.0''"
    and d: "parse_decimal ''1.0'' = Some 1"
    by code_simp+
  have "py_float ''1.0'' = Some (Fin 1)"
    using float_overflow_large by (simp add: py_float_def s d float_of_rat_small)
  then show ?thesis
    by (simp add: get_retry_config_def empty_env_def opt_or_def getenv_or_def int_or_raise_def float_or_raise_def i)
qed

definition ok_response :: http_response where
  "ok_response = \<lparr>h_status = 200, h_headers = [], h_content = [], h_url = None, h_json = Inr JNull, h_text = []\<rparr>"

text \<open>A provider that is down for two attempts and then answers.\<close>

definition flaky_call :: "int \<Rightarrow> http_response res" where
  "flaky_call a = (if a < 2 then Inr (ok_response\<lparr>h_status := 503\<rparr>) else Inr ok_response)"

text \<open>C12: The retry loop delivers the outcome of the first attempt that is not transient (429, 5xx or
  a request error), or of the last allowed attempt, after exactly as many sleeps as attempts
  before it: with a non-negative base delay and readable \<open>Retry-After\<close> headers it always comes to
  that outcome.\<close>

theorem retry_delivers_final_attempt:
  assumes "get_retry_params env mr bd = Inr (n, Fin q)" "0 \<le> n" "n < 1024" "0 \<le> q" "q * 2 ^ nat n \<le> 9223372036"
    and "\<And>a r v. \<lbrakk>call a = Inr r; header_get r ''Retry-After'' = Some v\<rbrakk> \<Longrightarrow> py_isascii v"
  shows "fst (retry_with_backoff pd env clk mr bd call) = deliver (call (final_attempt call 0 n))
    \<and> int (length (snd (retry_with_backoff pd env clk mr bd call))) = final_attempt call 0 n"
proof -
  have "case call a of Inl e \<Rightarrow> is_ok (sleep_for (calculate_delay (Fin q) a))
       | Inr r \<Rightarrow> is_ok (sleep_for (resolve_retry_delay pd r (Fin q) a (clk a)))"
    if "0 \<le> a" "a < n" for a
    using that assms calculate_delay_small [OF that assms(3-5)] resolve_retry_delay_small [OF that assms(3-5)]
    by (auto simp: sleep_for_ok split: sum.split)
  then show ?thesis
    using retry_loop_result [where a = 0, of n call "Fin q" pd clk None] assms(1,2)
    by (simp add: retry_with_backoff_def)
qed

theorem retry_delivers_final_attempt_witness:
  "fst (retry_with_backoff (\<lambda>_. None) empty_env (\<lambda>_. 0) None None flaky_call) = Inr ok_response"
proof -
  have "get_retry_params empty_env None None = Inr (3, Fin 1)"
    by (simp add: get_retry_params_def get_retry_config_default)
  then have "fst (retry_with_backoff (\<lambda>_. None) empty_env (\<lambda>_. 0) None None flaky_call) =
      deliver (flaky_call (final_attempt flaky_call 0 3))"
    by (rule retry_delivers_final_attempt [THEN conjunct1])
       (auto simp: flaky_call_def ok_response_def header_get_def split: if_splits)
  moreover have "deliver (flaky_call (final_attempt flaky_call 0 3)) = Inr ok_response"
    by (simp add: final_attempt_def flaky_call_def transient_def ok_response_def deliver_def check_no_redirect_def
        upto_rec1 upto_rec2)
  ultimately show ?thesis by simp
qed

text \<open>No response the retry loop returns is a redirect, whatever the settings: it is the outcome
  of one of the allowed attempts, and a transient one only when no attempt was left.\<close>

theorem retry_never_returns_redirect:
  assumes "fst (retry_with_backoff pd env clk mr bd call) = Inr r"
  shows "\<not> (300 \<le> h_status r \<and> h_status r \<le> 399)
    \<and> (\<exists>n b a. get_retry_params env mr bd = Inr (n, b) \<and> 0 \<le> a \<and> a \<le> n \<and> call a = Inr r
         \<and> (transient (call a) \<longrightarrow> a = n))"
proof -
  obtain n b where p: "get_retry_params env mr bd = Inr (n, b)"
    and l: "fst (retry_loop pd clk call n b [0..n] None) = Inr r"
    using assms by (auto simp: retry_with_backoff_def split: sum.splits)
  obtain a where "a \<in> set [0..n]" "deliver (call a) = Inr r" "transient (call a) \<longrightarrow> n \<le> a"
    using retry_loop_ok [OF l] by blast
  then show ?thesis
    using p by (intro conjI exI [of _ n] exI [of _ b] exI [of _ a]) (auto simp: deliver_ok)
qed

theorem retry_never_returns_redirect_witness:
  "\<not> (300 \<le> h_status ok_response \<and> h_status ok_response \<le> 399)"
proof -
  have "fst (retry_with_backoff (\<lambda>_. None) empty_env (\<lambda>_. 0) None None (\<lambda>_. Inr ok_response)) = Inr ok_response"
    by (simp add: retry_with_backoff_def get_retry_params_def get_retry_config_default upto_rec1
        ok_response_def should_retry_response_def check_no_redirect_def)
  from retry_never_returns_redirect [OF this] show ?thesis
    by blast
qed

text \<open>
  Two divergences of \<open>resolve_retry_delay\<close> and \<open>parse_retry_after\<close> from their documentation: a delay
  is capped only when there is a \<open>Retry-After\<close> header, and a header of superscript digits is an
  exception instead of an absent delay.
\<close>

theorem backoff_not_capped:
  "resolve_retry_delay pd ok_response (Fin 1000) 0 now = Inr (Fin 1000) \<and> MAX_RETRY_DELAY_SECONDS < 1000"
  using float_overflow_large
  by (simp add: resolve_retry_delay_def calculate_delay_def parse_retry_after_def header_get_def ok_response_def
      float_of_rat_small MAX_RETRY_DELAY_SECONDS_def)

theorem superscript_retry_after_raises:
  "\<exists>e. parse_retry_after pd (Some [CHR 0xB2]) now = Inl e \<and> exn_class e = ValueError"
proof -
  have "py_strip [CHR 0xB2] = [CHR 0xB2]" "py_isdigit [CHR 0xB2]" "py_float [CHR 0xB2] = None"
    by code_simp+
  then show ?thesis
    by (simp add: parse_retry_after_def float_or_raise_def)
qed

end
