(* ===== verification/Response_Processors.thy ===== *)
theory Response_Processors
  imports Discovery_Policy Http_Utils "HOL-Library.List_Lexorder" "HOL-Library.Char_ord"
begin

text \<open>
  The path from an HTTP response to a discovery document or a key set:
  \<open>core/response_processors.py\<close>, \<open>core/error_handlers.py\<close>, \<open>core/discovery_logic.py\<close>,
  \<open>core/jwks_logic.py\<close>, and the two fetch functions of \<open>sync/discovery.py\<close> and \<open>sync/jwks.py\<close>,
  which turn every exception into a failed response.

  A value read from the document has any JSON type. \<open>urlparse\<close> takes a falsy value as the empty
  string and is an \<open>AttributeError\<close> on any other value that is not a string (\<open>url_arg\<close>).
\<close>

section \<open>Authorities and IP literals\<close>

definition url_arg :: "json \<Rightarrow> string res" where
  "url_arg j = (case j of JStr s \<Rightarrow> Inr s
     | _ \<Rightarrow> if truthy j then Inl (raise_cls AttributeError (sq (type_name j) @ '' object has no attribute '' @ sq ''decode'')) else Inr [])"

definition get_url_authority :: "string \<Rightarrow> string res" where
  "get_url_authority url =
     (if url = [] then Inr []
      else bnd (urlparse url) (\<lambda>p. Inr (py_lower (scheme p @ ''://'' @ netloc p))))"

text \<open>
  \<open>ip_address\<close>, then the encodings of the resolver (\<open>inet_aton\<close>, whose argument may not hold a
  null character).
\<close>

definition parse_ip_literal :: "string \<Rightarrow> ip option res" where
  "parse_ip_literal host =
     (case ip_address host of Some a \<Rightarrow> Inr (Some a)
      | None \<Rightarrow>
          if CHR 0x00 \<in> set host then Inl (raise_cls ValueError ''embedded null character'')
          else Inr (map_option IPv4 (inet_aton host)))"

definition ip_internal :: "ip \<Rightarrow> bool" where
  "ip_internal a \<longleftrightarrow> ip_is_private a \<or> ip_is_loopback a \<or> ip_is_link_local a \<or> ip_is_reserved a
     \<or> ip_is_multicast a \<or> ip_is_unspecified a"

definition show_ip :: "ip \<Rightarrow> string" where
  "show_ip a = (case a of
     IPv4 n \<Rightarrow> py_join ''.'' (map (\<lambda>i. show_int (n div 256 ^ i mod 256)) [3, 2, 1, 0])
   | IPv6 n z \<Rightarrow> ''<IPv6 address>'')"

definition reject_internal_ip_host :: "string \<Rightarrow> string \<Rightarrow> discovery_policy option \<Rightarrow> unit res" where
  "reject_internal_ip_host url name pol =
     bnd (urlparse url) (\<lambda>p.
       case url_hostname p of None \<Rightarrow> Inr ()
       | Some host \<Rightarrow>
           if host = [] then Inr ()
           else bnd (parse_ip_literal host) (\<lambda>lit.
             case lit of None \<Rightarrow> Inr ()
             | Some a \<Rightarrow>
                 if ip_is_loopback a \<and> pol \<noteq> None \<and> allow_loopback_endpoints (the pol) then Inr ()
                 else guard_raise (ip_internal a)
                        (raise_cls DiscoveryException
                           (name @ '' host '' @ sq host @ '' is an internal/reserved IP address (''
                            @ show_ip a @ ''); refusing to route a request there''))))"

text \<open>The allowed authorities: policy or issuer, discovery URL, additional base addresses.\<close>

definition map_res :: "('a \<Rightarrow> 'b res) \<Rightarrow> 'a list \<Rightarrow> 'b list res" where
  "map_res f xs = foldr (\<lambda>x acc. bnd (f x) (\<lambda>y. bnd acc (\<lambda>ys. Inr (y # ys)))) xs (Inr [])"

definition issuer_authority :: "json dict \<Rightarrow> discovery_policy \<Rightarrow> string list res" where
  "issuer_authority d pol =
     (if opt_truthy (authority pol) then bnd (get_url_authority (the (authority pol))) (\<lambda>a. Inr [a])
      else if truthy (jget d ''issuer'')
      then bnd (url_arg (jget d ''issuer'')) (\<lambda>iss. bnd (get_url_authority iss) (\<lambda>a. Inr [a]))
      else Inr [])"

definition allowed_authorities :: "json dict \<Rightarrow> discovery_policy \<Rightarrow> string \<Rightarrow> string list res" where
  "allowed_authorities d pol discovery_url =
     bnd (issuer_authority d pol) (\<lambda>as.
       bnd (if discovery_url = [] then Inr []
            else bnd (get_url_authority discovery_url) (\<lambda>a. Inr [a])) (\<lambda>bs.
         bnd (map_res get_url_authority (additional_endpoint_base_addresses pol)) (\<lambda>cs.
           Inr (filter (\<lambda>a. a \<noteq> []) (as @ bs @ cs)))))"

definition validate_endpoint_authority ::
  "string \<Rightarrow> string \<Rightarrow> json dict \<Rightarrow> discovery_policy \<Rightarrow> string \<Rightarrow> unit res" where
  "validate_endpoint_authority url name d pol discovery_url =
     bnd (get_url_authority url) (\<lambda>ep.
       bnd (allowed_authorities d pol discovery_url) (\<lambda>allowed.
         if allowed = []
         then Inl (raise_cls DiscoveryException
                (''Cannot validate '' @ name @ '' authority: no authority constraint available (issuer is empty and ''
                 @ ''no policy.authority or additional_endpoint_base_addresses set)''))
         else guard_raise (ep \<notin> set allowed)
                (raise_cls DiscoveryException
                   (name @ '' authority '' @ sq ep @ '' does not match expected authorities: ''
                    @ fmt_str_list (sort (remdups allowed)) @ ''. If this is a legitimate ''
                    @ ''endpoint on a different host (RFC 8414 / RFC 9126 permit this), add ''
                    @ ''its base address to DiscoveryPolicy.additional_endpoint_base_addresses.''))))"

section \<open>Discovery documents\<close>

definition media_type :: "string \<Rightarrow> string" where
  "media_type ct = py_lower (py_strip (hd (py_split (CHR '';'') ct)))"

text \<open>
  \<open>validate_required_parameters\<close> on a body of any type: the membership test works on lists and
  strings too, where the subscription that follows a hit is a \<open>TypeError\<close>.
\<close>

definition document_dict :: "json \<Rightarrow> json dict res" where
  "document_dict j =
     (let all_missing = missing_fields_exn (''Missing required parameters: '' @ py_join '', '' required_params) required_params in
      case j of
        JDict d \<Rightarrow> bnd (validate_required_parameters d) (\<lambda>_. Inr d)
      | JList xs \<Rightarrow> Inl (if list_ex (\<lambda>p. JStr p \<in> set xs) required_params
                        then raise_cls TypeError ''list indices must be integers or slices, not str'' else all_missing)
      | JStr s \<Rightarrow> Inl (if list_ex (\<lambda>p. py_contains p s) required_params
                      then raise_cls TypeError (''string indices must be integers, not '' @ sq ''str'') else all_missing)
      | _ \<Rightarrow> Inl (raise_cls TypeError (''argument of type '' @ sq (type_name j) @ '' is not iterable'')))"

definition check_issuer :: "json \<Rightarrow> discovery_policy option \<Rightarrow> unit res" where
  "check_issuer j pol =
     (if pol \<noteq> None \<and> \<not> validate_issuer_flag (the pol)
      then guard_raise (\<not> truthy j) (raise_cls ConfigurationException ''Issuer parameter is required'')
      else bnd (url_arg j) (\<lambda>iss. validate_issuer_with_policy iss pol))"

definition check_url :: "json \<Rightarrow> string \<Rightarrow> discovery_policy option \<Rightarrow> unit res" where
  "check_url j name pol =
     (if pol \<noteq> None \<and> \<not> validate_endpoints (the pol) then Inr ()
      else bnd (url_arg j) (\<lambda>u. validate_https_url_with_policy u name pol))"

definition endpoint_names :: "string list" where
  "endpoint_names =
     [''jwks_uri'', ''authorization_endpoint'', ''token_endpoint'', ''userinfo_endpoint'', ''registration_endpoint'',
      ''introspection_endpoint'', ''end_session_endpoint'', ''pushed_authorization_request_endpoint'']"

definition effective_policy :: "discovery_policy option \<Rightarrow> discovery_policy" where
  "effective_policy pol = (case pol of None \<Rightarrow> default_policy | Some p \<Rightarrow> p)"

definition validate_endpoint ::
  "json dict \<Rightarrow> discovery_policy option \<Rightarrow> string \<Rightarrow> string \<Rightarrow> unit res" where
  "validate_endpoint d pol discovery_url name =
     bnd (check_url (jget d name) name pol) (\<lambda>_.
       if truthy (jget d name) \<and> validate_endpoints (effective_policy pol)
       then bnd (url_arg (jget d name)) (\<lambda>u.
              validate_endpoint_authority u name d (effective_policy pol) discovery_url)
       else Inr ())"

definition validate_mtls_alias :: "discovery_policy option \<Rightarrow> string \<times> json \<Rightarrow> unit res" where
  "validate_mtls_alias pol kv =
     (let name = ''mtls_endpoint_aliases.'' @ fst kv in
      bnd (check_url (snd kv) name pol) (\<lambda>_.
        case snd kv of
          JStr u \<Rightarrow> if u = [] then Inr () else reject_internal_ip_host u name (Some (effective_policy pol))
        | _ \<Rightarrow> Inr ()))"

definition mtls_aliases :: "json dict \<Rightarrow> json dict" where
  "mtls_aliases d = (case jget d ''mtls_endpoint_aliases'' of JDict m \<Rightarrow> m | _ \<Rightarrow> [])"

text \<open>The checks on a parsed document, in the order of the source.\<close>

definition validate_document :: "json dict \<Rightarrow> discovery_policy option \<Rightarrow> string \<Rightarrow> unit res" where
  "validate_document d pol discovery_url =
     bnd (check_issuer (jget d ''issuer'') pol) (\<lambda>_.
       bnd (validate_parameter_values d) (\<lambda>_.
         bnd (guard_raise ((pol = None \<or> require_key_set (the pol)) \<and> \<not> truthy (jget d ''jwks_uri''))
                (missing_fields_exn
                   ''Discovery document does not contain a jwks_uri, required by policy (require_key_set=True)''
                   [''jwks_uri''])) (\<lambda>_.
           bnd (for_each (validate_endpoint d pol discovery_url) endpoint_names) (\<lambda>_.
             for_each (validate_mtls_alias pol) (mtls_aliases d)))))"

definition validate_and_parse_discovery_response ::
  "http_response \<Rightarrow> discovery_policy option \<Rightarrow> json dict res" where
  "validate_and_parse_discovery_response r pol =
     (if media_type (header_or r ''Content-Type'' []) \<noteq> ''application/json''
      then Inl (raise_cls DiscoveryException
             (''Invalid content type. Expected application/json, got: '' @ header_or r ''Content-Type'' ''unknown''))
      else bnd (case h_json r of Inr j \<Rightarrow> Inr j
                | Inl e \<Rightarrow> Inl (if exn_isinstance e ValueError
                                then raise_cls DiscoveryParseError (''Invalid JSON response: '' @ exn_message e) else e))
        (\<lambda>j. bnd (document_dict j)
          (\<lambda>d. bnd (validate_document d pol (case h_url r of None \<Rightarrow> [] | Some u \<Rightarrow> u)) (\<lambda>_. Inr d))))"

definition build_discovery_response :: "json dict \<Rightarrow> string option \<Rightarrow> disco_response" where
  "build_discovery_response d cc =
     \<lparr>d_is_successful = True, d_error = None, d_error_kind = None, d_status_code = None, d_missing_fields = [],
      d_attrs = map (\<lambda>n. (n, jget d n)) disco_attr_names, d_cache_control = cc\<rparr>"

section \<open>Error handlers\<close>

definition handle_discovery_error :: "exn \<Rightarrow> disco_response" where
  "handle_discovery_error e =
     (let m = exn_message e; l = py_lower m in
      if exn_isinstance e ConfigurationException
      then disco_failure
             (if py_contains ''issuer'' l then ''Invalid issuer: '' @ m
              else if py_contains ''url'' l then ''Invalid endpoint URL: '' @ m else m)
             (if exn_isinstance e DiscoveryHTTPSRequiredError then HTTPS_REQUIRED else INVALID_CONFIGURATION)
      else if exn_isinstance e DiscoveryException
      then let msg = (if py_contains ''parameter'' l \<and> \<not> py_contains ''subject'' l
                      then ''Missing required parameters: '' @ m
                      else if py_contains ''subject'' l \<or> py_contains ''response_type'' l
                      then ''Invalid parameter values: '' @ m else m) in
           if exn_isinstance e DiscoveryMissingFieldsError
           then (disco_failure msg MISSING_FIELDS)\<lparr>d_missing_fields := exn_fields e\<rparr>
           else disco_failure msg (if exn_isinstance e DiscoveryParseError then INVALID_JSON else INVALID_DOCUMENT)
      else if exn_isinstance e HttpxRequestError
      then disco_failure (''Network error during discovery document request: '' @ m) NETWORK_ERROR
      else disco_failure (''Unexpected error during discovery document request: '' @ m) UNEXPECTED_ERROR)"

definition handle_jwks_error :: "exn \<Rightarrow> jwks_response" where
  "handle_jwks_error e =
     (let m = exn_message e in
      if exn_isinstance e ConfigurationException then jwks_failure (''Invalid JWKS endpoint URL: '' @ m)
      else if exn_isinstance e HttpxRequestError then jwks_failure (''Network error during JWKS request: '' @ m)
      else jwks_failure (''Unhandled exception during JWKS request: '' @ m))"

definition fmt_bytes :: "string \<Rightarrow> string" where
  "fmt_bytes b = CHR ''b'' # sq b"

definition status_message :: "string \<Rightarrow> http_response \<Rightarrow> string" where
  "status_message what r =
     what @ '' failed with status code: '' @ show_int (h_status r) @ ''. Response Content: '' @ fmt_bytes (h_content r)"

definition handle_unsuccessful_response :: "http_response \<Rightarrow> disco_response" where
  "handle_unsuccessful_response r =
     (disco_failure (status_message ''Discovery document request'' r) UNEXPECTED_STATUS)\<lparr>d_status_code := Some (h_status r)\<rparr>"

definition process_successful_response :: "http_response \<Rightarrow> discovery_policy option \<Rightarrow> disco_response res" where
  "process_successful_response r pol =
     bnd (validate_and_parse_discovery_response r pol)
       (\<lambda>d. Inr (build_discovery_response d (header_get r ''cache-control'')))"

definition process_discovery_response :: "http_response \<Rightarrow> discovery_policy option \<Rightarrow> disco_response" where
  "process_discovery_response r pol =
     (if \<not> is_success r then handle_unsuccessful_response r
      else case process_successful_response r pol of Inl e \<Rightarrow> handle_discovery_error e | Inr x \<Rightarrow> x)"

section \<open>Key sets\<close>

definition extract_jwks_keys :: "os_env \<Rightarrow> json \<Rightarrow> (json dict list \<times> string option) res" where
  "extract_jwks_keys env j =
     (case j of
        JDict d \<Rightarrow>
          (case map_of d ''keys'' of
             None \<Rightarrow> Inr ([], Some ''Invalid JWKS response: missing required 'keys' field'')
           | Some (JList xs) \<Rightarrow>
               bnd (get_max_jwks_keys env) (\<lambda>max_keys.
                 if int (length xs) > max_keys
                 then Inr ([], Some (''JWKS response contains too many keys: '' @ show_nat (length xs)
                                     @ '' exceeds limit of '' @ show_int max_keys))
                 else case find (\<lambda>(i, x). \<not> is_dict x) (enumerate 0 xs) of
                   Some (i, x) \<Rightarrow> Inr ([], Some (''Invalid JWKS response: key at index '' @ show_nat i
                                               @ '' is not a JSON object, got '' @ type_name x))
                 | None \<Rightarrow> Inr (map (\<lambda>x. case x of JDict m \<Rightarrow> m | _ \<Rightarrow> []) xs, None))
           | Some v \<Rightarrow> Inr ([], Some (''Invalid JWKS response: 'keys' field must be a JSON array, got '' @ type_name v)))
      | _ \<Rightarrow> Inr ([], Some (''Invalid JWKS response: expected a JSON object, got '' @ type_name j)))"

definition jwk_string_members :: "string list" where
  "jwk_string_members = [''kty'', ''kid'', ''use'', ''alg'', ''n'', ''e'', ''crv'', ''x'', ''y'']"

definition mistyped_members :: "json dict \<Rightarrow> string list" where
  "mistyped_members d = filter (\<lambda>n. jget d n \<noteq> JNull \<and> \<not> is_str (jget d n)) jwk_string_members"

text \<open>
  The loop over the raw keys: the keys built so far and the reasons of the skipped ones. An
  exception of another class than the three caught ones leaves the loop.
\<close>

fun build_keys_loop :: "json dict list \<Rightarrow> (jwk list \<times> string list) res" where
  "build_keys_loop [] = Inr ([], [])"
| "build_keys_loop (d # ds) =
     (if mistyped_members d \<noteq> []
      then bnd (build_keys_loop ds) (\<lambda>(ks, sk).
             Inr (ks, (''mistyped parameter(s) '' @ fmt_str_list (mistyped_members d) @ '': expected a string'') # sk))
      else case jwks_from_dict d of
        Inr k \<Rightarrow> bnd (build_keys_loop ds) (\<lambda>(ks, sk). Inr (k # ks, sk))
      | Inl e \<Rightarrow>
          if exn_isinstance e ConfigurationException \<or> exn_isinstance e TypeError \<or> exn_isinstance e AttributeError
          then bnd (build_keys_loop ds) (\<lambda>(ks, sk). Inr (ks, exn_message e # sk))
          else Inl e)"

definition build_jwks_keys :: "json dict list \<Rightarrow> (jwk list \<times> string option) res" where
  "build_jwks_keys raw =
     bnd (build_keys_loop raw) (\<lambda>(ks, sk).
       Inr (if raw \<noteq> [] \<and> ks = []
            then ([], Some (''JWKS has no usable keys: '' @ py_join ''; '' sk)) else (ks, None)))"

definition jwks_content_types :: "string list" where
  "jwks_content_types = [''application/json'', ''application/jwk-set+json'']"

definition jwks_size_desc :: "http_response \<Rightarrow> int \<Rightarrow> string option" where
  "jwks_size_desc r max_size =
     (let cl = header_get r ''Content-Length'';
          too_large = (case cl of None \<Rightarrow> False | Some s \<Rightarrow> (case py_int s of None \<Rightarrow> False | Some n \<Rightarrow> n > max_size)) in
      if too_large then Some (''Content-Length '' @ fmt_opt cl)
      else if int (length (h_content r)) > max_size then Some (show_nat (length (h_content r)) @ '' bytes'')
      else None)"

definition parse_jwks_response :: "os_env \<Rightarrow> http_response \<Rightarrow> jwks_response res" where
  "parse_jwks_response env r =
     (if \<not> is_success r then Inr (jwks_failure (status_message ''JSON web keys request'' r))
      else bnd (get_max_jwks_size env) (\<lambda>max_size.
        case jwks_size_desc r max_size of
          Some desc \<Rightarrow> Inr (jwks_failure (''JWKS response too large: '' @ desc @ '' exceeds limit of ''
                              @ show_int max_size @ '' bytes''))
        | None \<Rightarrow>
            let ct = header_or r ''Content-Type'' []; mt = media_type ct in
            if mt = [] then Inr (jwks_failure ''JWKS response missing Content-Type header'')
            else if mt \<notin> set jwks_content_types
            then Inr (jwks_failure (''Invalid JWKS Content-Type: expected application/json or ''
                        @ ''application/jwk-set+json, got: '' @ ct))
            else bnd (h_json r) (\<lambda>j.
              bnd (extract_jwks_keys env j) (\<lambda>(raw, err).
                case err of Some m \<Rightarrow> Inr (jwks_failure m)
                | None \<Rightarrow> bnd (build_jwks_keys raw) (\<lambda>(ks, kerr).
                    case kerr of Some m \<Rightarrow> Inr (jwks_failure m)
                    | None \<Rightarrow> Inr \<lparr>j_is_successful = True, j_error = None, j_keys = Some ks,
                                   j_cache_control = header_get r ''cache-control''\<rparr>)))))"

definition process_jwks_response :: "os_env \<Rightarrow> http_response \<Rightarrow> jwks_response" where
  "process_jwks_response env r =
     (case parse_jwks_response env r of Inl e \<Rightarrow> handle_jwks_error e | Inr x \<Rightarrow> x)"

section \<open>Fetching\<close>

text \<open>
  What a fetch sees of the outside: the environment, the date parser, the wall clock and the
  transport, by URL and attempt.
\<close>

record http_world =
  w_env :: os_env
  w_parsedate :: "string \<Rightarrow> rat option"
  w_clock :: "int \<Rightarrow> rat"
  w_get :: "string \<Rightarrow> int \<Rightarrow> http_response res"

definition fetch :: "http_world \<Rightarrow> string \<Rightarrow> http_response res" where
  "fetch w url = fst (retry_with_backoff (w_parsedate w) (w_env w) (w_clock w) None None (w_get w url))"

definition get_discovery_document :: "http_world \<Rightarrow> string \<Rightarrow> discovery_policy option \<Rightarrow> disco_response" where
  "get_discovery_document w address pol =
     (let p = effective_policy pol in
      case bnd (validate_url_scheme address p) (\<lambda>_. fetch w address) of
        Inl e \<Rightarrow> handle_discovery_error e
      | Inr r \<Rightarrow> process_discovery_response r (Some p))"

definition get_jwks :: "http_world \<Rightarrow> string \<Rightarrow> discovery_policy option \<Rightarrow> jwks_response" where
  "get_jwks w address pol =
     (case bnd (validate_url_scheme address (effective_policy pol)) (\<lambda>_. fetch w address) of
        Inl e \<Rightarrow> handle_jwks_error e
      | Inr r \<Rightarrow> process_jwks_response (w_env w) r)"

section \<open>What an accepted discovery document satisfies\<close>

lemma handle_discovery_error_fails [simp]: "\<not> d_is_successful (handle_discovery_error e)"
  by (simp add: handle_discovery_error_def disco_failure_def Let_def)

lemma handle_jwks_error_fails [simp]: "\<not> j_is_successful (handle_jwks_error e)"
  by (simp add: handle_jwks_error_def jwks_failure_def Let_def)

lemma handle_unsuccessful_fails [simp]: "\<not> d_is_successful (handle_unsuccessful_response r)"
  by (simp add: handle_unsuccessful_response_def disco_failure_def)

lemma jwks_failure_fails [simp]: "\<not> j_is_successful (jwks_failure m)" "j_error (jwks_failure m) = Some m"
  by (simp_all add: jwks_failure_def)

lemma url_arg_ok: "url_arg j = Inr u \<longleftrightarrow> j = JStr u \<or> (u = [] \<and> \<not> truthy j)"
  by (cases j) (auto simp: url_arg_def)

lemma map_res_Inr: "map_res f xs = Inr ys \<longleftrightarrow> map f xs = map Inr ys"
  by (induction xs arbitrary: ys) (auto simp: map_res_def res_splits Cons_eq_map_conv)

lemma get_url_authority_ok:
  "get_url_authority url = Inr a \<longleftrightarrow>
     (url = [] \<and> a = []) \<or> (url \<noteq> [] \<and> (\<exists>p. urlparse url = Inr p \<and> a = py_lower (scheme p @ ''://'' @ netloc p)))"
  by (cases "urlparse url") (auto simp: get_url_authority_def)

lemma validate_endpoint_ok:
  assumes "validate_endpoint d (Some pol) url name = Inr ()" "truthy (jget d name)" "validate_endpoints pol"
  shows "\<exists>u p allowed. jget d name = JStr u \<and> urlparse u = Inr p \<and> netloc p \<noteq> [] \<and> scheme_admitted p pol
           \<and> allowed_authorities d pol url = Inr allowed \<and> py_lower (scheme p @ ''://'' @ netloc p) \<in> set allowed"
proof -
  have c: "check_url (jget d name) name (Some pol) = Inr ()"
    using assms by (auto simp: validate_endpoint_def res_splits)
  then obtain u where u: "jget d name = JStr u"
    using assms(2,3) by (auto simp: check_url_def res_splits url_arg_ok)
  then have ne: "u \<noteq> []"
    using assms(2) by auto
  then obtain p where p: "urlparse u = Inr p" "netloc p \<noteq> []" "scheme_admitted p pol"
    using c u assms(3) by (auto simp: check_url_def url_arg_def validate_https_url_with_policy_ok)
  have "validate_endpoint_authority u name d pol url = Inr ()"
    using assms u c by (simp add: validate_endpoint_def effective_policy_def url_arg_def)
  then show ?thesis
    using u p ne
    by (auto simp: validate_endpoint_authority_def res_splits get_url_authority_ok split: if_splits)
qed

lemma validate_mtls_alias_ok:
  assumes "validate_mtls_alias (Some pol) (n, JStr u) = Inr ()" "u \<noteq> []"
    and "urlparse u = Inr p" "url_hostname p = Some h" "h \<noteq> []" "parse_ip_literal h = Inr (Some a)"
    and "ip_internal a"
  shows "ip_is_loopback a \<and> allow_loopback_endpoints pol"
  using assms
  by (auto simp: validate_mtls_alias_def effective_policy_def reject_internal_ip_host_def res_splits Let_def
      split: if_splits)

lemma validate_document_parts:
  assumes "validate_document d pol url = Inr ()"
  shows "check_issuer (jget d ''issuer'') pol = Inr ()"
    and "validate_parameter_values d = Inr ()"
    and "pol = None \<or> require_key_set (the pol) \<Longrightarrow> truthy (jget d ''jwks_uri'')"
    and "n \<in> set endpoint_names \<Longrightarrow> validate_endpoint d pol url n = Inr ()"
    and "kv \<in> set (mtls_aliases d) \<Longrightarrow> validate_mtls_alias pol kv = Inr ()"
  using assms by (auto simp: validate_document_def res_splits for_each_ok)

lemma validate_and_parse_ok:
  assumes "validate_and_parse_discovery_response r pol = Inr d"
  shows "h_json r = Inr (JDict d)" and "validate_required_parameters d = Inr ()"
    and "validate_document d pol (case h_url r of None \<Rightarrow> [] | Some u \<Rightarrow> u) = Inr ()"
    and "media_type (header_or r ''Content-Type'' []) = ''application/json''"
proof -
  obtain j where j: "h_json r = Inr j" and d: "document_dict j = Inr d"
    and v: "validate_document d pol (case h_url r of None \<Rightarrow> [] | Some u \<Rightarrow> u) = Inr ()"
    and m: "media_type (header_or r ''Content-Type'' []) = ''application/json''"
    using assms unfolding validate_and_parse_discovery_response_def
    by (cases "h_json r") (auto simp: res_splits split: if_splits)
  have "j = JDict d \<and> validate_required_parameters d = Inr ()"
    using d by (cases j) (auto simp: document_dict_def Let_def res_splits)
  then show "h_json r = Inr (JDict d)" and "validate_required_parameters d = Inr ()"
    and "validate_document d pol (case h_url r of None \<Rightarrow> [] | Some u \<Rightarrow> u) = Inr ()"
    and "media_type (header_or r ''Content-Type'' []) = ''application/json''"
    using j v m by simp_all
qed

lemma get_discovery_document_ok:
  assumes "d_is_successful (get_discovery_document w a (Some pol))"
  shows "\<exists>r d. validate_url_scheme a pol = Inr () \<and> fetch w a = Inr r \<and> is_success r
           \<and> validate_and_parse_discovery_response r (Some pol) = Inr d
           \<and> get_discovery_document w a (Some pol) = build_discovery_response d (header_get r ''cache-control'')"
proof -
  obtain r where v: "validate_url_scheme a pol = Inr ()" and f: "fetch w a = Inr r"
    and g: "get_discovery_document w a (Some pol) = process_discovery_response r (Some pol)"
    using assms by (auto simp: get_discovery_document_def effective_policy_def res_splits split: sum.splits)
  have "d_is_successful (process_discovery_response r (Some pol))"
    using assms g by simp
  then obtain d where "is_success r" "validate_and_parse_discovery_response r (Some pol) = Inr d"
    "process_discovery_response r (Some pol) = build_discovery_response d (header_get r ''cache-control'')"
    by (auto simp: process_discovery_response_def process_successful_response_def res_splits
        split: if_splits sum.splits)
  then show ?thesis
    using v f g by auto
qed

lemma map_of_map_pair: "map_of (map (\<lambda>n. (n, f n)) ns) n = (if n \<in> set ns then Some (f n) else None)"
  by (induction ns) auto

lemma disco_get_built:
  "n \<in> set disco_attr_names \<Longrightarrow> disco_get (build_discovery_response d cc) n = Inr (jget d n)"
  by (simp add: disco_get_def guarded_get_def build_discovery_response_def jget_def map_of_map_pair)

lemma endpoint_names_attrs: "set endpoint_names \<subseteq> set disco_attr_names"
  by (simp add: endpoint_names_def disco_attr_names_def)

section \<open>What an accepted key set satisfies\<close>

lemma json_iter_raises: "raises_in {TypeError} (json_iter j)"
  by (cases j) (simp_all add: json_iter_def)

lemma validate_use_raises: "raises_in {ConfigurationException, AttributeError} (validate_use_parameter k)"
  by (cases "jwk_use k") (simp_all add: validate_use_parameter_def raises_intros)

lemma validate_key_parameters_raises:
  "raises_in {ConfigurationException, TypeError, AttributeError} (validate_key_parameters k)"
  unfolding validate_key_parameters_def validate_ec_key_def validate_rsa_key_def validate_symmetric_key_def
    validate_key_ops_parameter_def
  by (intro raises_intros raises_in_mono [OF json_iter_raises] raises_in_mono [OF validate_use_raises]) simp_all

lemma jwks_from_dict_raises:
  assumes "jwks_from_dict d = Inl e"
  shows "exn_isinstance e ConfigurationException \<or> exn_isinstance e TypeError \<or> exn_isinstance e AttributeError"
proof -
  have "raises_in {ConfigurationException, TypeError, AttributeError} (jwks_from_dict d)"
    unfolding jwks_from_dict_def post_init_def
    by (intro raises_intros validate_key_parameters_raises) simp_all
  then show ?thesis
    using assms by (auto simp: exn_isinstance_def)
qed

definition usable_key :: "json dict \<Rightarrow> bool" where
  "usable_key d \<longleftrightarrow> mistyped_members d = [] \<and> is_ok (jwks_from_dict d)"

lemma build_keys_loop_total:
  "\<exists>sk. build_keys_loop ds = Inr (map (\<lambda>d. projr (jwks_from_dict d)) (filter usable_key ds), sk)"
proof (induction ds)
  case (Cons d ds)
  then obtain sk where IH:
    "build_keys_loop ds = Inr (map (\<lambda>d. projr (jwks_from_dict d)) (filter usable_key ds), sk)"
    by blast
  show ?case
  proof (cases "jwks_from_dict d")
    case (Inl e)
    then show ?thesis
      using IH jwks_from_dict_raises [OF Inl] usable_key_def [of d] by simp
  next
    case (Inr k)
    then show ?thesis
      using IH usable_key_def [of d] by simp
  qed
qed simp

lemma build_jwks_keys_total:
  "\<exists>err. build_jwks_keys ds = Inr (map (\<lambda>d. projr (jwks_from_dict d)) (filter usable_key ds), err)
     \<and> (err = None \<longleftrightarrow> ds = [] \<or> (\<exists>d \<in> set ds. usable_key d))"
proof -
  obtain sk where "build_keys_loop ds = Inr (map (\<lambda>d. projr (jwks_from_dict d)) (filter usable_key ds), sk)"
    using build_keys_loop_total [of ds] by blast
  then show ?thesis
    by (auto simp: build_jwks_keys_def filter_empty_conv)
qed

text \<open>A key a client may hold: it passed the construction checks, and its string members are strings.\<close>

definition jwk_wf :: "jwk \<Rightarrow> bool" where
  "jwk_wf k \<longleftrightarrow> truthy (jwk_kty k) \<and> validate_key_parameters k = Inr ()
     \<and> list_all (\<lambda>v. v = JNull \<or> is_str v)
         [jwk_kty k, jwk_kid k, jwk_use k, jwk_alg k, jwk_n k, jwk_e k, jwk_crv k, jwk_x k, jwk_y k]"

lemma usable_key_wf: "usable_key d \<Longrightarrow> jwk_wf (projr (jwks_from_dict d))"
proof -
  assume u: "usable_key d"
  then obtain k where k: "jwks_from_dict d = Inr k"
    by (cases "jwks_from_dict d") (auto simp: usable_key_def)
  have k': "k = jwk_of_members (jget d)" "truthy (jwk_kty k)" "validate_key_parameters k = Inr ()"
    using k post_init_ok by (auto simp: jwks_from_dict_def)
  have "jget d n = JNull \<or> is_str (jget d n)" if "n \<in> set jwk_string_members" for n
    using u that by (auto simp: usable_key_def mistyped_members_def filter_empty_conv)
  then show ?thesis
    using k k' by (simp add: jwk_wf_def jwk_of_members_def jwk_string_members_def)
qed

lemma extract_jwks_keys_ok:
  assumes "extract_jwks_keys env j = Inr (raw, None)"
  shows "\<exists>d xs m. j = JDict d \<and> map_of d ''keys'' = Some (JList xs) \<and> get_max_jwks_keys env = Inr m
          \<and> int (length xs) \<le> m \<and> xs = map JDict raw"
proof -
  obtain d xs m where j: "j = JDict d" and ks: "map_of d ''keys'' = Some (JList xs)"
    and m: "get_max_jwks_keys env = Inr m" "int (length xs) \<le> m"
    and f: "find (\<lambda>(i, x). \<not> is_dict x) (enumerate 0 xs) = None"
    and raw: "raw = map (\<lambda>x. case x of JDict m \<Rightarrow> m | _ \<Rightarrow> []) xs"
    using assms
    by (auto simp: extract_jwks_keys_def res_splits split: json.splits option.splits if_splits prod.splits)
  have "is_dict x" if "x \<in> set xs" for x
  proof -
    obtain i where "i < length xs" "x = xs ! i"
      using \<open>x \<in> set xs\<close> by (auto simp: in_set_conv_nth)
    then have "(i, x) \<in> set (enumerate 0 xs)"
      by (simp add: in_set_enumerate_eq)
    then show ?thesis
      using f unfolding find_None_iff by fastforce
  qed
  then have "xs = map JDict raw"
    unfolding raw map_map by (intro map_idI [symmetric]) (fastforce simp: is_dict_iff)
  then show ?thesis
    using j ks m by blast
qed

lemma parse_jwks_response_ok:
  assumes "parse_jwks_response env r = Inr x" "j_is_successful x"
  shows "\<exists>d raw m. h_json r = Inr (JDict d) \<and> map_of d ''keys'' = Some (JList (map JDict raw))
          \<and> get_max_jwks_keys env = Inr m \<and> int (length raw) \<le> m
          \<and> j_keys x = Some (map (\<lambda>d. projr (jwks_from_dict d)) (filter usable_key raw))
          \<and> (raw = [] \<or> (\<exists>d \<in> set raw. usable_key d))"
proof -
  obtain j raw where j: "h_json r = Inr j" and e: "extract_jwks_keys env j = Inr (raw, None)"
    and b: "\<exists>ks. build_jwks_keys raw = Inr (ks, None) \<and> j_keys x = Some ks"
    using assms
    by (auto simp: parse_jwks_response_def res_splits Let_def jwks_failure_def
        split: if_splits option.split_asm prod.splits)
  obtain err where "build_jwks_keys raw = Inr (map (\<lambda>d. projr (jwks_from_dict d)) (filter usable_key raw), err)"
    and "err = None \<longleftrightarrow> raw = [] \<or> (\<exists>d \<in> set raw. usable_key d)"
    using build_jwks_keys_total by blast
  moreover obtain d m where "j = JDict d" "map_of d ''keys'' = Some (JList (map JDict raw))"
    "get_max_jwks_keys env = Inr m" "int (length raw) \<le> m"
    using extract_jwks_keys_ok [OF e] by auto
  ultimately show ?thesis
    using j b by (intro exI [of _ d] exI [of _ raw] exI [of _ m]) auto
qed

lemma get_jwks_ok:
  assumes "j_is_successful (get_jwks w a pol)"
  shows "\<exists>r d raw m. validate_url_scheme a (effective_policy pol) = Inr () \<and> fetch w a = Inr r
          \<and> h_json r = Inr (JDict d) \<and> map_of d ''keys'' = Some (JList (map JDict raw))
          \<and> get_max_jwks_keys (w_env w) = Inr m \<and> int (length raw) \<le> m
          \<and> j_keys (get_jwks w a pol) = Some (map (\<lambda>d. projr (jwks_from_dict d)) (filter usable_key raw))"
proof -
  obtain r where v: "validate_url_scheme a (effective_policy pol) = Inr ()" and f: "fetch w a = Inr r"
    and g: "get_jwks w a pol = process_jwks_response (w_env w) r"
    using assms by (auto simp: get_jwks_def res_splits split: sum.splits)
  have "parse_jwks_response (w_env w) r = Inr (get_jwks w a pol)"
    using assms unfolding g process_jwks_response_def by (auto split: sum.splits)
  from parse_jwks_response_ok [OF this assms] show ?thesis
    using v f by blast
qed

lemma get_jwks_wf:
  "\<lbrakk>j_is_successful (get_jwks w a pol); j_keys (get_jwks w a pol) = Some ks; k \<in> set ks\<rbrakk> \<Longrightarrow> jwk_wf k"
  using get_jwks_ok [of w a pol] usable_key_wf by auto

section \<open>An example provider\<close>

definition example_document :: "json dict" where
  "example_document =
     [(''issuer'', JStr ''https://op.example''), (''jwks_uri'', JStr ''https://op.example/jwks''),
      (''token_endpoint'', JStr ''https://op.example/token''),
      (''response_types_supported'', JList [JStr ''code'']), (''subject_types_supported'', JList [JStr ''public'']),
      (''id_token_signing_alg_values_supported'', JList [JStr ''RS256'']),
      (''mtls_endpoint_aliases'', JDict [(''token_endpoint'', JStr ''https://mtls.example/token'')])]"

definition example_disco_http :: http_response where
  "example_disco_http =
     \<lparr>h_status = 200, h_headers = [(''content-type'', ''application/json'')], h_content = [],
      h_url = Some ''https://op.example/.well-known/openid-configuration'', h_json = Inr (JDict example_document), h_text = []\<rparr>"

definition example_jwk_dict :: "json dict" where
  "example_jwk_dict = [(''kty'', JStr ''RSA''), (''kid'', JStr ''k1''), (''n'', JStr ''AQAB''), (''e'', JStr ''AQAB'')]"

definition broken_jwk_dict :: "json dict" where
  "broken_jwk_dict = [(''kty'', JStr ''EC''), (''kid'', JStr ''k2''), (''crv'', JStr ''P-999''), (''x'', JStr ''AA''), (''y'', JStr ''AA'')]"

definition example_jwks_http :: http_response where
  "example_jwks_http =
     \<lparr>h_status = 200, h_headers = [(''content-type'', ''application/json''), (''content-length'', ''20'')], h_content = [],
      h_url = Some ''https://op.example/jwks'',
      h_json = Inr (JDict [(''keys'', JList [JDict broken_jwk_dict, JDict example_jwk_dict])]), h_text = []\<rparr>"

definition example_world :: http_world where
  "example_world =
     \<lparr>w_env = empty_env, w_parsedate = (\<lambda>_. None), w_clock = (\<lambda>_. 0),
      w_get = (\<lambda>url a. if url = ''https://op.example/jwks'' then Inr example_jwks_http else Inr example_disco_http)\<rparr>"

abbreviation example_address :: string where
  "example_address \<equiv> ''https://op.example/.well-known/openid-configuration''"

abbreviation example_jwks_uri :: string where
  "example_jwks_uri \<equiv> ''https://op.example/jwks''"

lemma fetch_first:
  assumes "get_retry_config (w_env w) = Inr (n, b)" "0 \<le> n" "w_get w url 0 = Inr r" "is_success r"
  shows "fetch w url = Inr r"
proof -
  have "[0..n] = 0 # [1..n]"
    using assms(2) by (simp add: upto_rec1)
  then show ?thesis
    using assms by (simp add: fetch_def retry_with_backoff_def get_retry_params_def should_retry_response_def
        check_no_redirect_def is_success_def)
qed

lemma example_fetch:
  "fetch example_world example_address = Inr example_disco_http"
  "fetch example_world example_jwks_uri = Inr example_jwks_http"
  by (rule fetch_first [where n = 3 and b = "Fin 1"];
      simp add: example_world_def get_retry_config_default is_success_def example_disco_http_def example_jwks_http_def)+

lemma example_document_valid:
  "validate_and_parse_discovery_response example_disco_http (Some default_policy) = Inr example_document"
  by code_simp

lemma example_scheme:
  "validate_url_scheme example_address default_policy = Inr ()"
  "validate_url_scheme example_jwks_uri default_policy = Inr ()"
  by code_simp+

lemma example_discovery:
  "get_discovery_document example_world example_address (Some default_policy) =
     build_discovery_response example_document None"
proof -
  have "is_success example_disco_http" "header_get example_disco_http ''cache-control'' = None"
    by code_simp+
  then show ?thesis
    by (simp add: get_discovery_document_def effective_policy_def example_scheme example_fetch
        process_discovery_response_def process_successful_response_def example_document_valid)
qed

lemma example_discovery_ok: "d_is_successful (get_discovery_document example_world example_address (Some default_policy))"
  unfolding example_discovery by (simp add: build_discovery_response_def)

lemma example_jwks_eq:
  "get_jwks example_world example_jwks_uri (Some default_policy) =
     \<lparr>j_is_successful = True, j_error = None, j_keys = Some [projr (jwks_from_dict example_jwk_dict)], j_cache_control = None\<rparr>"
proof -
  have "parse_jwks_response empty_env example_jwks_http =
     Inr \<lparr>j_is_successful = True, j_error = None, j_keys = Some [projr (jwks_from_dict example_jwk_dict)], j_cache_control = None\<rparr>"
    by code_simp
  moreover have "w_env example_world = empty_env"
    by (simp add: example_world_def)
  ultimately show ?thesis
    by (simp add: get_jwks_def effective_policy_def example_scheme example_fetch process_jwks_response_def)
qed

section \<open>Properties\<close>

text \<open>C8: A discovery document that is accepted under a policy that validates endpoints was
  fetched from an address the scheme check admits, names an issuer and a key set (when the policy
  requires one), and every endpoint it advertises is an absolute URL whose scheme the policy
  admits and whose authority is one of the allowed ones; \<open>disco_get\<close> serves exactly these values.\<close>

theorem accepted_discovery_endpoints:
  assumes "d_is_successful (get_discovery_document w a (Some pol))" "validate_endpoints pol"
  shows "(\<exists>p. urlparse a = Inr p \<and> scheme_admitted p pol)
    \<and> (\<exists>iss. disco_get (get_discovery_document w a (Some pol)) ''issuer'' = Inr iss \<and> truthy iss)
    \<and> (require_key_set pol \<longrightarrow>
         (\<exists>u. disco_get (get_discovery_document w a (Some pol)) ''jwks_uri'' = Inr (JStr u) \<and> u \<noteq> []))
    \<and> (\<exists>r d. fetch w a = Inr r \<and> h_json r = Inr (JDict d) \<and>
        (\<forall>n \<in> set endpoint_names. truthy (jget d n) \<longrightarrow>
          (\<exists>u p allowed. disco_get (get_discovery_document w a (Some pol)) n = Inr (JStr u)
             \<and> urlparse u = Inr p \<and> netloc p \<noteq> [] \<and> scheme_admitted p pol
             \<and> allowed_authorities d pol (case h_url r of None \<Rightarrow> [] | Some u \<Rightarrow> u) = Inr allowed
             \<and> py_lower (scheme p @ ''://'' @ netloc p) \<in> set allowed)))"
proof -
  obtain r d where v: "validate_url_scheme a pol = Inr ()" and f: "fetch w a = Inr r"
    and pd: "validate_and_parse_discovery_response r (Some pol) = Inr d"
    and g: "get_discovery_document w a (Some pol) = build_discovery_response d (header_get r ''cache-control'')"
    using get_discovery_document_ok [OF assms(1)] by blast
  note ok = validate_and_parse_ok [OF pd]
  note parts = validate_document_parts [OF ok(3)]
  have serve: "disco_get (get_discovery_document w a (Some pol)) n = Inr (jget d n)"
    if "n \<in> set disco_attr_names" for n
    unfolding g by (rule disco_get_built [OF that])
  have iss: "truthy (jget d ''issuer'')"
    using parts(1) by (auto simp: check_issuer_def res_splits url_arg_ok validate_issuer_with_policy_def
        validate_issuer_def Let_def split: if_splits)
  have ep: "\<exists>u p allowed. jget d n = JStr u \<and> urlparse u = Inr p \<and> netloc p \<noteq> [] \<and> scheme_admitted p pol
             \<and> allowed_authorities d pol (case h_url r of None \<Rightarrow> [] | Some u \<Rightarrow> u) = Inr allowed
             \<and> py_lower (scheme p @ ''://'' @ netloc p) \<in> set allowed"
    if "n \<in> set endpoint_names" "truthy (jget d n)" for n
    by (rule validate_endpoint_ok [OF parts(4) [OF that(1)] that(2) assms(2)])
  have jw: "''jwks_uri'' \<in> set endpoint_names" "''jwks_uri'' \<in> set disco_attr_names" "''issuer'' \<in> set disco_attr_names"
    by (simp_all add: endpoint_names_def disco_attr_names_def)
  have "\<exists>u. jget d ''jwks_uri'' = JStr u \<and> u \<noteq> []" if "require_key_set pol"
    using parts(3) that ep [OF jw(1)] by fastforce
  then show ?thesis
    using v f ok(1) iss ep serve jw endpoint_names_attrs
    by (auto simp: validate_url_scheme_ok)
qed

theorem accepted_discovery_endpoints_witness:
  "\<exists>iss. disco_get (get_discovery_document example_world example_address (Some default_policy)) ''issuer'' = Inr iss \<and> truthy iss"
  using accepted_discovery_endpoints [OF example_discovery_ok] by (simp add: default_policy_def)


definition loopback_policy :: discovery_policy where
  "loopback_policy = default_policy\<lparr>allow_loopback_endpoints := True\<rparr>"

definition loopback_document :: "json dict" where
  "loopback_document = dict_set ''mtls_endpoint_aliases''
     (JDict [(''token_endpoint'', JStr ''https://0177.0.0.1/token'')]) example_document"

definition loopback_world :: http_world where
  "loopback_world = example_world\<lparr>w_get := (\<lambda>url a. Inr (example_disco_http\<lparr>h_json := Inr (JDict loopback_document)\<rparr>))\<rparr>"

lemma loopback_discovery:
  "get_discovery_document loopback_world example_address (Some loopback_policy) =
     build_discovery_response loopback_document None"
proof -
  let ?r = "example_disco_http\<lparr>h_json := Inr (JDict loopback_document)\<rparr>"
  have f: "fetch loopback_world example_address = Inr ?r"
    by (rule fetch_first [where n = 3 and b = "Fin 1"])
       (simp_all add: loopback_world_def example_world_def get_retry_config_default is_success_def example_disco_http_def)
  have "validate_url_scheme example_address loopback_policy = Inr ()" "is_success ?r"
    "header_get ?r ''cache-control'' = None"
    "validate_and_parse_discovery_response ?r (Some loopback_policy) = Inr loopback_document"
    by code_simp+
  then show ?thesis
    using f by (simp add: get_discovery_document_def effective_policy_def
        process_discovery_response_def process_successful_response_def)
qed


text \<open>An accepted key set holds exactly the usable keys of the document, in their order: every
  one passed the construction checks and has string members where strings are expected, their
  number is within the configured limit, and a key that is unusable is left out without affecting
  the others.\<close>

theorem accepted_jwks_keys:
  assumes "j_is_successful (get_jwks w a pol)"
  shows "\<exists>r d raw m. fetch w a = Inr r \<and> h_json r = Inr (JDict d)
    \<and> map_of d ''keys'' = Some (JList (map JDict raw))
    \<and> get_max_jwks_keys (w_env w) = Inr m \<and> int (length raw) \<le> m
    \<and> j_keys (get_jwks w a pol) = Some (map (\<lambda>d. projr (jwks_from_dict d)) (filter usable_key raw))
    \<and> (\<forall>ks. j_keys (get_jwks w a pol) = Some ks \<longrightarrow> (\<forall>k \<in> set ks. jwk_wf k))"
proof -
  have "\<forall>ks. j_keys (get_jwks w a pol) = Some ks \<longrightarrow> (\<forall>k \<in> set ks. jwk_wf k)"
    using get_jwks_wf [OF assms] by blast
  then show ?thesis
    using get_jwks_ok [OF assms] by blast
qed

theorem accepted_jwks_keys_witness:
  "jwk_wf (projr (jwks_from_dict example_jwk_dict))
   \<and> j_keys (get_jwks example_world example_jwks_uri (Some default_policy)) = Some [projr (jwks_from_dict example_jwk_dict)]"
proof -
  have "j_is_successful (get_jwks example_world example_jwks_uri (Some default_policy))"
    by (simp add: example_jwks_eq)
  from accepted_jwks_keys [OF this] show ?thesis
    by (simp add: example_jwks_eq) blast
qed

end
