(* ===== verification/Key_Selection.thy ===== *)
theory Key_Selection
  imports Response_Processors
begin

text \<open>
  \<open>core/parsers.py\<close>: the choice of the verification key from a key set and the header of a token.
  The header is read by PyJWT (\<open>get_unverified_header\<close>), a parameter that returns the header as a
  dictionary; \<open>kid\<close> and \<open>alg\<close> are its values, of any JSON type.
\<close>

section \<open>Algorithms and key types\<close>

definition ALG_TO_KTY :: "string dict" where
  "ALG_TO_KTY =
     [(''RS256'', ''RSA''), (''RS384'', ''RSA''), (''RS512'', ''RSA''), (''PS256'', ''RSA''), (''PS384'', ''RSA''),
      (''PS512'', ''RSA''), (''ES256'', ''EC''), (''ES384'', ''EC''), (''ES512'', ''EC''), (''ES256K'', ''EC''),
      (''EdDSA'', ''OKP''), (''Ed25519'', ''OKP''), (''Ed448'', ''OKP''),
      (''HS256'', ''oct''), (''HS384'', ''oct''), (''HS512'', ''oct'')]"

definition reject_non_string_alg :: "json \<Rightarrow> unit res" where
  "reject_non_string_alg alg =
     guard_raise (alg \<noteq> JNull \<and> \<not> is_str alg)
       (token_exn TokenValidationException ''Invalid 'alg' header: expected a string'' (Some ''header'')
          [(''alg_type'', JStr (type_name alg))])"

definition alg_is_none :: "string \<Rightarrow> bool" where
  "alg_is_none a = (py_lower a = ''none'')"

definition none_alg_exn :: "json dict \<Rightarrow> exn" where
  "none_alg_exn det =
     token_exn TokenValidationException ''Algorithm 'none' is not permitted for signed-token validation''
       (Some ''header'') det"

text \<open>The string a header algorithm is once it passed the type check; \<open>None\<close> reads as empty.\<close>

definition alg_str :: "json \<Rightarrow> string" where
  "alg_str alg = (case alg of JStr a \<Rightarrow> a | _ \<Rightarrow> [])"

definition validate_key_alg_consistency :: "jwk \<Rightarrow> json \<Rightarrow> unit res" where
  "validate_key_alg_consistency k alg =
     bnd (reject_non_string_alg alg) (\<lambda>_.
       let a = alg_str alg in
       if a = [] then Inr ()
       else if alg_is_none a then Inl (none_alg_exn [(''kid'', jwk_kid k), (''alg'', JStr a)])
       else case map_of ALG_TO_KTY a of
         Some kty \<Rightarrow>
           if jwk_kty k \<noteq> JStr kty
           then Inl (token_exn TokenValidationException
                  (''Key type '' @ sq (fmt_json (jwk_kty k)) @ '' is incompatible with algorithm '' @ sq a
                   @ '' (expected key type '' @ sq kty @ '')'') (Some ''header'')
                  [(''kid'', jwk_kid k), (''kty'', jwk_kty k), (''alg'', JStr a)])
           else guard_raise (truthy (jwk_alg k) \<and> jwk_alg k \<noteq> JStr a)
                  (token_exn TokenValidationException
                     (''Key algorithm '' @ sq (fmt_json (jwk_alg k)) @ '' does not match JWT algorithm '' @ sq a)
                     (Some ''header'') [(''kid'', jwk_kid k), (''key_alg'', jwk_alg k), (''jwt_alg'', JStr a)])
       | None \<Rightarrow>
           guard_raise (truthy (jwk_alg k) \<and> jwk_alg k \<noteq> JStr a)
             (token_exn TokenValidationException
                (''Key algorithm '' @ sq (fmt_json (jwk_alg k)) @ '' does not match JWT algorithm '' @ sq a)
                (Some ''header'') [(''kid'', jwk_kid k), (''key_alg'', jwk_alg k), (''jwt_alg'', JStr a)]))"

section \<open>Header fields\<close>

type_synonym header_reader = "string \<Rightarrow> json dict res"

definition extract_kid_from_jwt :: "header_reader \<Rightarrow> string \<Rightarrow> json res" where
  "extract_kid_from_jwt hdr jwt = bnd (hdr jwt) (\<lambda>h. Inr (jget h ''kid''))"

definition extract_jwt_header_fields :: "header_reader \<Rightarrow> string \<Rightarrow> (json \<times> json) res" where
  "extract_jwt_header_fields hdr jwt = bnd (hdr jwt) (\<lambda>h. Inr (jget h ''kid'', jget h ''alg''))"

section \<open>Selection\<close>

definition or_all :: "'a list \<Rightarrow> 'a list \<Rightarrow> 'a list" where
  "or_all xs ys = (if xs = [] then ys else xs)"

definition no_kid_candidates :: "jwk list \<Rightarrow> json \<Rightarrow> jwk list res" where
  "no_kid_candidates keys alg =
     bnd (reject_non_string_alg alg) (\<lambda>_.
       let a = alg_str alg in
       if alg_is_none a then Inl (none_alg_exn [(''alg'', JStr a)])
       else
         let sig = or_all (filter (\<lambda>k. jwk_use k = JNull \<or> jwk_use k = JStr ''sig'') keys) keys in
         if 1 < length sig \<and> a \<noteq> []
         then
           let by_alg = or_all (filter (\<lambda>k. jwk_alg k = JNull \<or> jwk_alg k = JStr a) sig) sig in
           Inr (case map_of ALG_TO_KTY a of None \<Rightarrow> by_alg
                | Some kty \<Rightarrow> or_all (filter (\<lambda>k. jwk_kty k = JStr kty) by_alg) by_alg)
         else Inr sig)"

definition ambiguous_key_exn :: "jwk list \<Rightarrow> exn" where
  "ambiguous_key_exn ks =
     token_exn TokenValidationException
       (''JWT has no kid header and JWKS contains multiple signing keys; ''
        @ ''cannot determine which key to use'') (Some ''header'')
       [(''available_kids'', JList (filter truthy (map jwk_kid ks))), (''key_count'', JInt (int (length ks)))]"

definition no_matching_kid_exn :: "json \<Rightarrow> jwk list \<Rightarrow> exn" where
  "no_matching_kid_exn kid keys =
     token_exn TokenValidationException (''No matching kid found: '' @ fmt_json kid) (Some ''header'')
       [(''kid'', kid), (''available_kids'', JList (filter truthy (map jwk_kid keys)))]"

text \<open>The key the header designates, before the consistency check.\<close>

definition designated_key :: "json \<Rightarrow> jwk list \<Rightarrow> json \<Rightarrow> jwk res" where
  "designated_key kid keys alg =
     (if kid = JNull
      then bnd (no_kid_candidates keys alg) (\<lambda>sig.
             case sig of [k] \<Rightarrow> Inr k | _ \<Rightarrow> Inl (ambiguous_key_exn sig))
      else case filter (\<lambda>k. py_eq (jwk_kid k) kid) keys of
             [] \<Rightarrow> Inl (no_matching_kid_exn kid keys)
           | k # _ \<Rightarrow> Inr k)"

text \<open>\<open>key.alg if key.alg else (jwt_alg or "RS256")\<close>.\<close>

definition resolved_alg :: "jwk \<Rightarrow> json \<Rightarrow> json" where
  "resolved_alg k alg =
     (if truthy (jwk_alg k) then jwk_alg k else if truthy alg then alg else JStr ''RS256'')"

definition find_key_by_kid :: "json \<Rightarrow> jwk list \<Rightarrow> json \<Rightarrow> (json dict \<times> json) res" where
  "find_key_by_kid kid keys alg =
     (if keys = [] then Inl (raise_cls TokenValidationException ''No keys available in JWKS response'')
      else bnd (designated_key kid keys alg) (\<lambda>k.
        bnd (validate_key_alg_consistency k alg) (\<lambda>_. Inr (as_dict k, resolved_alg k alg))))"

definition get_public_key_from_jwk :: "header_reader \<Rightarrow> string \<Rightarrow> jwk list \<Rightarrow> jwk res" where
  "get_public_key_from_jwk hdr jwt keys =
     bnd (hdr jwt) (\<lambda>h.
       let kid = jget h ''kid''; alg = jget h ''alg'' in
       bnd (designated_key kid keys alg) (\<lambda>k.
         bnd (validate_key_alg_consistency k alg) (\<lambda>_.
           Inr (if truthy (jwk_alg k) then k else k\<lparr>jwk_alg := alg\<rparr>))))"

section \<open>What a selected key satisfies\<close>

lemma reject_non_string_alg_ok: "reject_non_string_alg alg = Inr u \<longleftrightarrow> alg = JNull \<or> is_str alg"
  by (auto simp: reject_non_string_alg_def)

lemma validate_key_alg_consistency_ok:
  "validate_key_alg_consistency k alg = Inr () \<longleftrightarrow>
     alg = JNull \<or> alg = JStr [] \<or>
     (\<exists>a. alg = JStr a \<and> a \<noteq> [] \<and> \<not> alg_is_none a
        \<and> (\<forall>kty. map_of ALG_TO_KTY a = Some kty \<longrightarrow> jwk_kty k = JStr kty)
        \<and> (truthy (jwk_alg k) \<longrightarrow> jwk_alg k = JStr a))"
  by (cases alg)
     (auto simp: validate_key_alg_consistency_def reject_non_string_alg_def alg_str_def Let_def guard_raise_def
       split: option.splits)

lemma or_all_subset: "set xs \<subseteq> set ys \<Longrightarrow> set (or_all xs ys) \<subseteq> set ys"
  by (simp add: or_all_def)

lemma or_all_filter_subset: "set (or_all (filter P ys) ys) \<subseteq> set ys"
  by (rule or_all_subset) auto

lemma no_kid_candidates_subset:
  assumes "no_kid_candidates keys alg = Inr sig"
  shows "set sig \<subseteq> set keys"
proof -
  let ?s = "or_all (filter (\<lambda>k. jwk_use k = JNull \<or> jwk_use k = JStr ''sig'') keys) keys"
  let ?b = "or_all (filter (\<lambda>k. jwk_alg k = JNull \<or> jwk_alg k = JStr (alg_str alg)) ?s) ?s"
  have s: "set ?s \<subseteq> set keys" and b: "set ?b \<subseteq> set ?s"
    by (rule or_all_filter_subset)+
  have "sig = ?s \<or> sig = ?b \<or> (\<exists>P. sig = or_all (filter P ?b) ?b)"
    using assms unfolding no_kid_candidates_def
    by (auto simp: res_splits Let_def split: if_splits option.splits)
  then show ?thesis
    using s b or_all_filter_subset [where ys = ?b] by blast
qed

lemma no_kid_candidates_not_none:
  "no_kid_candidates keys alg = Inr sig \<Longrightarrow> \<not> alg_is_none (alg_str alg)"
  by (auto simp: no_kid_candidates_def res_splits Let_def split: if_splits)

lemma designated_key_member:
  assumes "designated_key kid keys alg = Inr k"
  shows "k \<in> set keys" and "kid \<noteq> JNull \<Longrightarrow> py_eq (jwk_kid k) kid"
proof -
  show "k \<in> set keys"
  proof (cases "kid = JNull")
    case True
    then obtain sig where sig: "no_kid_candidates keys alg = Inr sig"
      and k: "(case sig of [k] \<Rightarrow> Inr k | _ \<Rightarrow> Inl (ambiguous_key_exn sig)) = Inr k"
      using assms by (cases "no_kid_candidates keys alg") (auto simp: designated_key_def)
    from k have "sig = [k]"
      by (cases sig rule: list.exhaust; cases "tl sig") auto
    then show ?thesis
      using no_kid_candidates_subset [OF sig] by simp
  next
    case False
    then show ?thesis
      using assms by (auto simp: designated_key_def filter_eq_Cons_iff split: list.splits)
  qed
  show "py_eq (jwk_kid k) kid" if "kid \<noteq> JNull"
    using assms that by (auto simp: designated_key_def filter_eq_Cons_iff split: list.splits)
qed

lemma find_key_by_kid_ok:
  "find_key_by_kid kid keys alg = Inr (d, a) \<longleftrightarrow>
     keys \<noteq> [] \<and> (\<exists>k. designated_key kid keys alg = Inr k \<and> validate_key_alg_consistency k alg = Inr ()
       \<and> d = as_dict k \<and> a = resolved_alg k alg)"
  by (auto simp: find_key_by_kid_def res_splits)

lemma find_key_by_kid_raises: "raises_in {TokenValidationException} (find_key_by_kid kid keys alg)"
proof -
  have n: "raises_in {TokenValidationException} (no_kid_candidates keys alg)"
    unfolding no_kid_candidates_def reject_non_string_alg_def Let_def
    by (intro raises_intros) (simp_all add: none_alg_exn_def)
  have d: "raises_in {TokenValidationException} (designated_key kid keys alg)"
    unfolding designated_key_def
    by (intro raises_intros n; auto split: list.split simp: no_matching_kid_exn_def ambiguous_key_exn_def)
  have c: "raises_in {TokenValidationException} (validate_key_alg_consistency k alg)" for k
    unfolding validate_key_alg_consistency_def reject_non_string_alg_def Let_def
    by (intro raises_intros; auto simp: none_alg_exn_def guard_raise_def split: option.split)
  show ?thesis
    unfolding find_key_by_kid_def by (intro raises_intros d c) simp_all
qed

text \<open>With a key identifier, keys of other identifiers do not matter, wherever they stand.\<close>

lemma designated_key_filter:
  assumes "kid \<noteq> JNull" "filter (\<lambda>k. py_eq (jwk_kid k) kid) ks = filter (\<lambda>k. py_eq (jwk_kid k) kid) ks'"
    and "designated_key kid ks alg = Inr k"
  shows "designated_key kid ks' alg = Inr k"
  using assms by (auto simp: designated_key_def split: list.splits)

section \<open>Properties\<close>

definition rsa_key :: "string \<Rightarrow> jwk" where
  "rsa_key kid = projr (jwks_from_dict [(''kty'', JStr ''RSA''), (''kid'', JStr kid), (''n'', JStr ''AQAB''), (''e'', JStr ''AQAB'')])"

text \<open>C10: The key \<open>find_key_by_kid\<close> returns is a key of the set, with the identifier the token names;
  a token that names an algorithm is verified with that algorithm, never with \<open>none\<close>, and only
  with a key of the type the algorithm needs: a symmetric algorithm never meets an RSA, EC or OKP
  key.\<close>

theorem selected_key_matches_header:
  assumes "find_key_by_kid kid keys alg = Inr (d, a)"
  shows "\<exists>k \<in> set keys. d = as_dict k \<and> (kid \<noteq> JNull \<longrightarrow> py_eq (jwk_kid k) kid)
    \<and> (alg = JNull \<or> is_str alg)
    \<and> (truthy alg \<longrightarrow> a = alg \<and> (\<exists>s. alg = JStr s \<and> py_lower s \<noteq> ''none''
         \<and> (\<forall>kty. map_of ALG_TO_KTY s = Some kty \<longrightarrow> jwk_kty k = JStr kty)))
    \<and> (\<not> truthy alg \<longrightarrow> a = (if truthy (jwk_alg k) then jwk_alg k else JStr ''RS256''))"
proof -
  obtain k where k: "designated_key kid keys alg = Inr k" "validate_key_alg_consistency k alg = Inr ()"
    "d = as_dict k" "a = resolved_alg k alg"
    using assms by (auto simp: find_key_by_kid_ok)
  show ?thesis
  proof (intro bexI [of _ k] conjI)
    show "k \<in> set keys" and "kid \<noteq> JNull \<longrightarrow> py_eq (jwk_kid k) kid"
      using designated_key_member [OF k(1)] by simp_all
    show "d = as_dict k" by (rule k(3))
    show "alg = JNull \<or> is_str alg"
      using k(2) by (auto simp: validate_key_alg_consistency_ok)
    show "truthy alg \<longrightarrow> a = alg \<and> (\<exists>s. alg = JStr s \<and> py_lower s \<noteq> ''none''
         \<and> (\<forall>kty. map_of ALG_TO_KTY s = Some kty \<longrightarrow> jwk_kty k = JStr kty))"
      using k(2,4) by (auto simp: validate_key_alg_consistency_ok resolved_alg_def alg_is_none_def)
    show "\<not> truthy alg \<longrightarrow> a = (if truthy (jwk_alg k) then jwk_alg k else JStr ''RS256'')"
      using k(4) by (simp add: resolved_alg_def)
  qed
qed

theorem selected_key_matches_header_witness:
  "\<exists>k \<in> set [rsa_key ''a'', rsa_key ''b'']. as_dict (rsa_key ''b'') = as_dict k
     \<and> (JStr ''b'' \<noteq> JNull \<longrightarrow> py_eq (jwk_kid k) (JStr ''b''))"
proof -
  have "find_key_by_kid (JStr ''b'') [rsa_key ''a'', rsa_key ''b''] (JStr ''PS256'') = Inr (as_dict (rsa_key ''b''), JStr ''PS256'')"
    by code_simp
  from selected_key_matches_header [OF this] show ?thesis
    by blast
qed

text \<open>A token whose \<open>kid\<close> is in the set gets the first key with that \<open>kid\<close>, provided the key fits
  the algorithm, whatever other keys the set holds; when no key has the \<open>kid\<close>, the lookup raises
  the no-matching-kid error, and no lookup raises anything but a token-validation error.\<close>

theorem kid_lookup_complete:
  assumes "kid \<noteq> JNull"
  shows "((\<forall>k \<in> set front. \<not> py_eq (jwk_kid k) kid) \<and> py_eq (jwk_kid k) kid
        \<and> validate_key_alg_consistency k alg = Inr () \<longrightarrow>
        find_key_by_kid kid (front @ k # rest) alg = Inr (as_dict k, resolved_alg k alg))
    \<and> (keys \<noteq> [] \<and> (\<forall>k \<in> set keys. \<not> py_eq (jwk_kid k) kid) \<longrightarrow>
        find_key_by_kid kid keys alg = Inl (no_matching_kid_exn kid keys))
    \<and> (\<forall>e. find_key_by_kid kid keys alg = Inl e \<longrightarrow> exn_class e = TokenValidationException)"
  using assms find_key_by_kid_raises [of kid keys alg]
  by (auto simp: find_key_by_kid_def designated_key_def filter_empty_conv)

theorem kid_lookup_complete_witness:
  "find_key_by_kid (JStr ''b'') ([rsa_key ''a''] @ rsa_key ''b'' # [rsa_key ''c'']) (JStr ''RS256'') =
     Inr (as_dict (rsa_key ''b''), resolved_alg (rsa_key ''b'') (JStr ''RS256''))"
proof -
  have "(\<forall>k \<in> set [rsa_key ''a'']. \<not> py_eq (jwk_kid k) (JStr ''b'')) \<and> py_eq (jwk_kid (rsa_key ''b'')) (JStr ''b'')
      \<and> validate_key_alg_consistency (rsa_key ''b'') (JStr ''RS256'') = Inr ()"
    by code_simp
  then show ?thesis
    using kid_lookup_complete [of "JStr ''b''" "[rsa_key ''a'']" "rsa_key ''b''" "JStr ''RS256''" "[rsa_key ''c'']"]
    by simp
qed

end
