(* ===== verification/Token_Logic.thy ===== *)
theory Token_Logic
  imports Key_Selection
begin

text \<open>
  \<open>core/jwt_helpers.py\<close>, \<open>core/token_validation_logic.py\<close>, \<open>TokenValidationConfig\<close> of
  \<open>core/models.py\<close> and \<open>validate_token_config\<close> of \<open>core/validators.py\<close>: what surrounds the decoding
  of a token. PyJWT is a parameter: reading the header, building a verification key from a JWK
  (\<open>PyJWK\<close>) and \<open>decode\<close>, whose exceptions the code maps to its own.

  Issuer values are JSON values: the configured issuer is absent, a string or a list, the issuer
  of a discovery document whatever the document has.
\<close>

section \<open>Configuration\<close>

text \<open>\<open>KeyOther\<close> is a key of a type the code does not accept, named by that type.\<close>

datatype verification_key = KeyDict "json dict" | KeyJwk jwk | KeyOther string

record token_validation_config =
  perform_disco :: bool
  cfg_key :: "verification_key option"
  audience :: "string option"
  algorithms :: "json list option"
  cfg_issuer :: json
  subject :: "string option"
  options :: "json dict option"
  claims_validator :: "(json dict \<Rightarrow> unit res) option"
  cfg_require_https :: bool
  leeway :: json
  allowed_issuers :: "string list option"
  cfg_discovery_policy :: "discovery_policy option"

definition key_truthy :: "verification_key option \<Rightarrow> bool" where
  "key_truthy k = (case k of None \<Rightarrow> False | Some (KeyDict d) \<Rightarrow> d \<noteq> [] | Some _ \<Rightarrow> True)"

definition algs_truthy :: "json list option \<Rightarrow> bool" where
  "algs_truthy a = (case a of None \<Rightarrow> False | Some xs \<Rightarrow> xs \<noteq> [])"

text \<open>\<open>TokenValidationConfig(perform_disco=...)\<close>, the other arguments at their defaults.\<close>

definition default_config :: "bool \<Rightarrow> token_validation_config" where
  "default_config disco =
     \<lparr>perform_disco = disco, cfg_key = None, audience = None, algorithms = None, cfg_issuer = JNull, subject = None,
      options = None, claims_validator = None, cfg_require_https = True, leeway = JNull, allowed_issuers = None,
      cfg_discovery_policy = None\<rparr>"

abbreviation config_exn :: "string \<Rightarrow> exn" where
  "config_exn msg \<equiv> raise_cls ConfigurationException msg"

definition validate_leeway :: "json \<Rightarrow> unit res" where
  "validate_leeway l =
     (case l of
        JNull \<Rightarrow> Inr ()
      | JBool _ \<Rightarrow> Inl (config_exn ''leeway must be a number, not a boolean'')
      | _ \<Rightarrow>
          (case json_number l of
             None \<Rightarrow> Inl (config_exn ''leeway must be a number'')
           | Some f \<Rightarrow>
               if pf_less f (Fin 0) then Inl (config_exn ''leeway must be non-negative'')
               else guard_raise (\<not> pf_isfinite f) (config_exn ''leeway must be a finite number'')))"

definition validate_issuer_list :: "json \<Rightarrow> unit res" where
  "validate_issuer_list iss =
     (case iss of
        JList xs \<Rightarrow>
          if xs = []
          then Inl (config_exn ''issuer must not be an empty list; omit or set to None to skip issuer validation'')
          else guard_raise (\<not> list_all (\<lambda>i. is_str i \<and> truthy i) xs)
                 (config_exn ''issuer list must contain only non-empty strings'')
      | _ \<Rightarrow> Inr ())"

definition validate_token_config :: "token_validation_config \<Rightarrow> unit res" where
  "validate_token_config c =
     bnd (validate_issuer_list (cfg_issuer c)) (\<lambda>_.
       bnd (validate_leeway (leeway c)) (\<lambda>_.
         if perform_disco c then Inr ()
         else guard_raise (\<not> key_truthy (cfg_key c) \<and> \<not> algs_truthy (algorithms c))
                (config_exn (''TokenValidationConfig.key and TokenValidationConfig.algorithms are required ''
                             @ ''if perform_disco is False''))))"

section \<open>Decoding\<close>

text \<open>The keyword arguments of \<open>jwt.decode\<close>.\<close>

record decode_args =
  da_audience :: "string option"
  da_algorithms :: "json list"
  da_issuer :: json
  da_options :: "json dict option"
  da_leeway :: json

record 'pk jwt_lib =
  jl_header :: header_reader
  jl_pyjwk :: "json dict \<Rightarrow> json \<Rightarrow> 'pk res"
  jl_decode :: "string \<Rightarrow> 'pk \<Rightarrow> decode_args \<Rightarrow> json dict res"

text \<open>
  The enforced options. The source keeps them in a set; the order here only decides which of
  several disabled ones the message names.
\<close>

definition ENFORCED_VERIFICATION_OPTIONS :: "string list" where
  "ENFORCED_VERIFICATION_OPTIONS = [''verify_signature'', ''verify_exp'', ''verify_nbf'', ''verify_iat'']"

definition disabled_option :: "json dict \<Rightarrow> string \<Rightarrow> bool" where
  "disabled_option opts n = (case map_of opts n of None \<Rightarrow> False | Some v \<Rightarrow> \<not> truthy v)"

definition sanitize_options :: "json dict option \<Rightarrow> json dict option res" where
  "sanitize_options opts =
     (case opts of None \<Rightarrow> Inr None
      | Some d \<Rightarrow>
          (case find (disabled_option d) ENFORCED_VERIFICATION_OPTIONS of
             Some n \<Rightarrow> Inl (config_exn (''Security option '' @ sq n @ '' cannot be disabled. JWT ''
                              @ drop 7 n @ '' verification is always enforced.''))
           | None \<Rightarrow> Inr (Some d)))"

definition normalize_verification_key :: "verification_key \<Rightarrow> json dict res" where
  "normalize_verification_key k =
     (case k of
        KeyJwk j \<Rightarrow> Inr (as_dict j)
      | KeyDict d \<Rightarrow> Inr (filter (\<lambda>kv. snd kv \<noteq> JNull) d)
      | KeyOther t \<Rightarrow> Inl (config_exn (''Verification key must be a JsonWebKey or a JWK dict, got '' @ t)))"

definition decode_jwt ::
  "'pk jwt_lib \<Rightarrow> string \<Rightarrow> json dict \<Rightarrow> json list \<Rightarrow> string option \<Rightarrow> json \<Rightarrow> json dict option \<Rightarrow> json \<Rightarrow> json dict res" where
  "decode_jwt lib jwt key algs aud iss opts lee =
     bnd (jl_pyjwk lib key (if algs = [] then JNull else hd algs)) (\<lambda>pk.
       jl_decode lib jwt pk
         \<lparr>da_audience = aud, da_algorithms = algs, da_issuer = iss, da_options = opts,
          da_leeway = (if lee = JNull then JInt 0 else lee)\<rparr>)"

text \<open>The \<open>except\<close> clauses of \<open>decode_and_validate_jwt\<close>, first match first.\<close>

definition translate_jwt_error :: "exn \<Rightarrow> exn" where
  "translate_jwt_error e =
     (let det = [(''error'', JStr (exn_message e))] in
      if exn_isinstance e TokenValidationException then e
      else if exn_isinstance e JwtExpiredSignatureError then payload_exn TokenExpiredException ''Token has expired'' det
      else if exn_isinstance e JwtInvalidAudienceError then payload_exn InvalidAudienceException ''Invalid audience'' det
      else if exn_isinstance e JwtInvalidIssuerError then payload_exn InvalidIssuerException ''Invalid issuer'' det
      else if exn_isinstance e JwtInvalidSignatureError then signature_exn ''Invalid signature'' det
      else if exn_isinstance e JwtInvalidTokenError
      then token_exn TokenValidationException (''Invalid token: '' @ exn_message e) None det
      else e)"

definition decode_and_validate_jwt ::
  "'pk jwt_lib \<Rightarrow> string \<Rightarrow> verification_key \<Rightarrow> json list \<Rightarrow> string option \<Rightarrow> json \<Rightarrow> json dict option \<Rightarrow> json
   \<Rightarrow> string option \<Rightarrow> json dict res" where
  "decode_and_validate_jwt lib jwt key algs aud iss opts lee sub =
     map_sum translate_jwt_error id
       (if algs = [] then Inl (config_exn ''algorithms must not be empty'')
        else if iss = JList []
        then Inl (config_exn ''issuer must not be an empty list; omit or set to None to skip issuer validation'')
        else bnd (sanitize_options opts) (\<lambda>opts'.
          bnd (normalize_verification_key key) (\<lambda>key'.
            bnd (decode_jwt lib jwt key' algs aud iss opts' lee) (\<lambda>decoded.
              if sub \<noteq> None \<and> jget decoded ''sub'' \<noteq> jopt sub
              then Inl (token_exn TokenValidationException
                          ''Invalid subject: token sub does not match expected value'' (Some ''payload'') [])
              else Inr decoded))))"

section \<open>The validation steps\<close>

definition validate_disco_response :: "disco_response \<Rightarrow> unit res" where
  "validate_disco_response r =
     (if d_is_successful r then Inr ()
      else bnd (disco_get_error r) (\<lambda>err.
        Inl (raise_cls TokenValidationException (opt_or err ''Discovery document request failed''))))"

definition validate_jwks_uri :: "disco_response \<Rightarrow> json res" where
  "validate_jwks_uri r =
     bnd (disco_get r ''jwks_uri'') (\<lambda>u.
       if \<not> truthy u then Inl (config_exn ''Discovery document missing jwks_uri'') else Inr u)"

definition validate_jwks_response :: "jwks_response \<Rightarrow> unit res" where
  "validate_jwks_response r =
     (if \<not> j_is_successful r
      then bnd (jwks_get_error r) (\<lambda>err.
             Inl (raise_cls TokenValidationException (opt_or err ''JWKS request failed'')))
      else bnd (jwks_get_keys r) (\<lambda>ks.
             guard_raise (ks = None \<or> ks = Some [])
               (raise_cls TokenValidationException ''No keys available in JWKS response'')))"

definition validate_config_for_manual_validation :: "token_validation_config \<Rightarrow> unit res" where
  "validate_config_for_manual_validation c =
     bnd (guard_raise (\<not> key_truthy (cfg_key c)) (config_exn ''TokenValidationConfig.key is required'')) (\<lambda>_.
       guard_raise (\<not> algs_truthy (algorithms c)) (config_exn ''TokenValidationConfig.algorithms is required''))"

text \<open>A list or a dictionary cannot be tested against a set.\<close>

definition unhashable :: "json \<Rightarrow> bool" where
  "unhashable j \<longleftrightarrow> is_list j \<or> is_dict j"

definition issuer_candidates :: "json \<Rightarrow> json list res" where
  "issuer_candidates eff =
     (case eff of JStr _ \<Rightarrow> Inr [eff] | _ \<Rightarrow> if truthy eff then json_iter eff else Inr [])"

definition enforce_allowed_issuers :: "json \<Rightarrow> string list \<Rightarrow> unit res" where
  "enforce_allowed_issuers eff allowed =
     bnd (issuer_candidates eff) (\<lambda>cands.
       if cands = []
       then Inl (payload_exn InvalidIssuerException
              (''allowed_issuers is configured but no issuer was resolved to check against; ''
               @ ''refusing to validate without a pinned issuer'')
              [(''allowed_issuers'', JList (map JStr (sort (remdups allowed))))])
       else for_each (\<lambda>i.
              if unhashable i then Inl (raise_cls TypeError (''unhashable type: '' @ sq (type_name i)))
              else guard_raise (\<not> json_in i allowed)
                     (payload_exn InvalidIssuerException
                        (''Issuer '' @ sq (fmt_json i) @ '' is not in the configured allowed_issuers'')
                        [(''issuer'', i), (''allowed_issuers'', JList (map JStr (sort (remdups allowed))))])) cands)"

definition effective_issuer :: "token_validation_config \<Rightarrow> json \<Rightarrow> json" where
  "effective_issuer c iss = (if iss = JNull then cfg_issuer c else iss)"

definition decode_with_config :: "'pk jwt_lib \<Rightarrow> string \<Rightarrow> token_validation_config \<Rightarrow> json \<Rightarrow> json dict res" where
  "decode_with_config lib jwt c iss =
     (if \<not> key_truthy (cfg_key c) \<or> \<not> algs_truthy (algorithms c)
      then Inl (config_exn ''Token validation configuration must have key and algorithms set'')
      else bnd (case allowed_issuers c of None \<Rightarrow> Inr ()
                | Some al \<Rightarrow> enforce_allowed_issuers (effective_issuer c iss) al) (\<lambda>_.
        decode_and_validate_jwt lib jwt (the (cfg_key c)) (the (algorithms c)) (audience c)
          (effective_issuer c iss) (options c) (leeway c) (subject c)))"

text \<open>Any exception of the injected validator rejects; the library's own pass unchanged.\<close>

definition validate_claims :: "json dict \<Rightarrow> token_validation_config \<Rightarrow> unit res" where
  "validate_claims decoded c =
     (case claims_validator c of None \<Rightarrow> Inr ()
      | Some f \<Rightarrow>
          (case f decoded of Inr u \<Rightarrow> Inr ()
           | Inl e \<Rightarrow>
               if exn_isinstance e TokenValidationException then Inl e
               else Inl (token_exn TokenValidationException (''Claims validation failed: '' @ exn_message e)
                           (Some ''payload'') [(''error'', JStr (exn_message e))])))"

definition json_mem :: "json \<Rightarrow> json list \<Rightarrow> bool" where
  "json_mem j xs = list_ex (\<lambda>x. py_eq x j) xs"

definition build_resolved_config ::
  "token_validation_config \<Rightarrow> json dict \<Rightarrow> json \<Rightarrow> token_validation_config res" where
  "build_resolved_config c key alg =
     (if algorithms c \<noteq> None \<and> \<not> json_mem alg (the (algorithms c))
      then Inl (token_exn TokenValidationException
             (''Algorithm '' @ sq (fmt_json alg) @ '' is not in the allowed algorithms'') (Some ''header'')
             [(''alg'', alg), (''allowed'', JList (the (algorithms c)))])
      else Inr (c\<lparr>cfg_key := Some (KeyDict key), algorithms := Some [alg]\<rparr>))"

section \<open>Facts\<close>

lemma validate_jwks_response_ok:
  "validate_jwks_response r = Inr () \<longleftrightarrow> j_is_successful r \<and> (\<exists>k ks. j_keys r = Some (k # ks))"
  by (cases "j_keys r")
     (auto simp: validate_jwks_response_def jwks_get_error_def jwks_get_keys_def guarded_get_def error_fields_def
       neq_Nil_conv)

lemma validate_jwks_uri_ok:
  "validate_jwks_uri r = Inr u \<longleftrightarrow> d_is_successful r \<and> u = jget (d_attrs r) ''jwks_uri'' \<and> truthy u"
  by (auto simp: validate_jwks_uri_def disco_get_def guarded_get_def disco_attr_names_def res_splits)

lemma validate_disco_response_ok: "validate_disco_response r = Inr () \<longleftrightarrow> d_is_successful r"
  by (simp add: validate_disco_response_def disco_get_error_def guarded_get_def error_fields_def
      disco_attr_names_def)

lemma sanitize_options_ok:
  "sanitize_options opts = Inr opts' \<longleftrightarrow>
     opts' = opts \<and> (\<forall>d. opts = Some d \<longrightarrow> (\<forall>n \<in> set ENFORCED_VERIFICATION_OPTIONS. \<not> disabled_option d n))"
  by (cases opts) (auto simp: sanitize_options_def find_None_iff find_Some_iff split: option.splits)

lemma normalize_key_no_null:
  "\<lbrakk>normalize_verification_key k = Inr d; (n, v) \<in> set d\<rbrakk> \<Longrightarrow> v \<noteq> JNull"
  by (auto simp: normalize_verification_key_def split: verification_key.splits dest: as_dict_no_null)

lemma enforce_allowed_issuers_ok:
  "enforce_allowed_issuers eff allowed = Inr () \<longleftrightarrow>
     (\<exists>cands. issuer_candidates eff = Inr cands \<and> cands \<noteq> [] \<and> (\<forall>i \<in> set cands. json_in i allowed))"
proof (cases "issuer_candidates eff")
  case (Inr cands)
  have "json_in i allowed \<Longrightarrow> \<not> unhashable i" for i
    by (auto simp: json_in_def unhashable_def)
  then show ?thesis
    using Inr by (auto simp: enforce_allowed_issuers_def for_each_ok guard_raise_def)
qed (simp add: enforce_allowed_issuers_def)

lemma decode_and_validate_jwt_ok:
  assumes "decode_and_validate_jwt lib jwt key algs aud iss opts lee sub = Inr claims"
  shows "\<exists>key' pk. algs \<noteq> [] \<and> iss \<noteq> JList [] \<and> sanitize_options opts = Inr opts
     \<and> normalize_verification_key key = Inr key' \<and> jl_pyjwk lib key' (hd algs) = Inr pk
     \<and> jl_decode lib jwt pk \<lparr>da_audience = aud, da_algorithms = algs, da_issuer = iss, da_options = opts,
          da_leeway = (if lee = JNull then JInt 0 else lee)\<rparr> = Inr claims
     \<and> (\<forall>s. sub = Some s \<longrightarrow> jget claims ''sub'' = JStr s)"
proof -
  obtain opts' key' where a: "algs \<noteq> []" "iss \<noteq> JList []" "sanitize_options opts = Inr opts'"
    "normalize_verification_key key = Inr key'" "decode_jwt lib jwt key' algs aud iss opts' lee = Inr claims"
    "sub \<noteq> None \<longrightarrow> jget claims ''sub'' = jopt sub"
    using assms unfolding decode_and_validate_jwt_def
    by (auto simp: map_sum_def res_splits split: sum.splits if_splits)
  moreover from a(3) have "opts' = opts"
    by (simp add: sanitize_options_ok)
  ultimately show ?thesis
    by (auto simp: decode_jwt_def res_splits jopt_def)
qed

lemma decode_with_config_ok:
  assumes "decode_with_config lib jwt c iss = Inr claims"
  shows "\<exists>key algs. cfg_key c = Some key \<and> algorithms c = Some algs \<and> algs \<noteq> []
     \<and> (\<forall>al. allowed_issuers c = Some al \<longrightarrow> enforce_allowed_issuers (effective_issuer c iss) al = Inr ())
     \<and> decode_and_validate_jwt lib jwt key algs (audience c) (effective_issuer c iss) (options c) (leeway c)
         (subject c) = Inr claims"
  using assms unfolding decode_with_config_def key_truthy_def algs_truthy_def
  by (auto simp: res_splits split: if_splits option.splits)

lemma build_resolved_config_ok:
  "build_resolved_config c key alg = Inr c' \<longleftrightarrow>
     (\<forall>al. algorithms c = Some al \<longrightarrow> json_mem alg al) \<and> c' = c\<lparr>cfg_key := Some (KeyDict key), algorithms := Some [alg]\<rparr>"
  by (auto simp: build_resolved_config_def)

lemma translate_jwt_error_class:
  "exn_class (translate_jwt_error e) =
     (if exn_isinstance e JwtInvalidTokenError
      then if exn_class e = JwtExpiredSignatureError then TokenExpiredException
           else if exn_class e = JwtInvalidAudienceError then InvalidAudienceException
           else if exn_class e = JwtInvalidIssuerError then InvalidIssuerException
           else if exn_class e = JwtInvalidSignatureError then SignatureVerificationException
           else TokenValidationException
      else exn_class e)"
  by (simp add: translate_jwt_error_def exn_isinstance_def Let_def)

section \<open>Properties\<close>

text \<open>C11: Whatever the caller passes, no token is decoded with a core check turned off: the options
  that reach PyJWT never disable the signature, \<open>exp\<close>, \<open>nbf\<close> or \<open>iat\<close> check, there is at least one
  algorithm, the issuer is not an empty list, the key that reaches PyJWT has no null member (so
  it is not taken for a private key), and the subject is the expected one.\<close>

theorem decode_enforces_core_checks:
  assumes "decode_and_validate_jwt lib jwt key algs aud iss opts lee sub = Inr claims"
  shows "algs \<noteq> [] \<and> iss \<noteq> JList []
    \<and> (\<forall>d n. opts = Some d \<and> n \<in> set ENFORCED_VERIFICATION_OPTIONS \<longrightarrow> \<not> disabled_option d n)
    \<and> (\<exists>key' pk. jl_pyjwk lib key' (hd algs) = Inr pk \<and> (\<forall>n v. (n, v) \<in> set key' \<longrightarrow> v \<noteq> JNull)
         \<and> jl_decode lib jwt pk \<lparr>da_audience = aud, da_algorithms = algs, da_issuer = iss, da_options = opts,
              da_leeway = (if lee = JNull then JInt 0 else lee)\<rparr> = Inr claims)
    \<and> (\<forall>s. sub = Some s \<longrightarrow> jget claims ''sub'' = JStr s)"
  using decode_and_validate_jwt_ok [OF assms] normalize_key_no_null
  by (fastforce simp: sanitize_options_ok)

text \<open>
  A decoder for the witnesses: it accepts every token and returns fixed claims. The header of the
  token ''forged'' names a key that is in no key set.
\<close>

definition example_claims :: "json dict" where
  "example_claims = [(''iss'', JStr ''https://op.example''), (''sub'', JStr ''alice''), (''aud'', JStr ''rp''),
     (''nonce'', JStr ''n-0S6''), (''auth_time'', JInt 1000)]"

definition example_lib :: "unit jwt_lib" where
  "example_lib =
     \<lparr>jl_header = (\<lambda>jwt. Inr [(''alg'', JStr ''RS256''), (''kid'', JStr (if jwt = ''forged'' then ''zz'' else ''k1''))]),
      jl_pyjwk = (\<lambda>_ _. Inr ()), jl_decode = (\<lambda>_ _ _. Inr example_claims)\<rparr>"

theorem decode_enforces_core_checks_witness:
  "\<not> disabled_option [(''require'', JList [JStr ''sub''])] ''verify_exp''"
proof -
  have "decode_and_validate_jwt example_lib ''t'' (KeyJwk (rsa_key ''k1'')) [JStr ''RS256''] None JNull
      (Some [(''require'', JList [JStr ''sub''])]) JNull (Some ''alice'') = Inr example_claims"
    by code_simp
  from decode_enforces_core_checks [OF this] show ?thesis
    by (simp add: ENFORCED_VERIFICATION_OPTIONS_def)
qed

text \<open>With an issuer allow-list configured, a token is decoded only when there is an issuer to
  check and every issuer the token may come from is on the list: the issuer of the discovery
  document when there is one, else the configured one. Without anything to check the validation
  is refused.\<close>

theorem allowed_issuers_enforced:
  assumes "decode_with_config lib jwt c iss = Inr claims" "allowed_issuers c = Some al"
  shows "\<exists>cands. issuer_candidates (effective_issuer c iss) = Inr cands \<and> cands \<noteq> []
    \<and> (\<forall>i \<in> set cands. \<exists>s \<in> set al. i = JStr s)
    \<and> (iss \<noteq> JNull \<longrightarrow> effective_issuer c iss = iss)"
  using decode_with_config_ok [OF assms(1)] assms(2)
  by (auto simp: enforce_allowed_issuers_ok json_in_def effective_issuer_def)

definition pinned_config :: token_validation_config where
  "pinned_config = (default_config True)\<lparr>cfg_key := Some (KeyJwk (rsa_key ''k1'')), algorithms := Some [JStr ''RS256''],
     allowed_issuers := Some [''https://op.example'']\<rparr>"

theorem allowed_issuers_enforced_witness:
  "\<exists>cands. issuer_candidates (effective_issuer pinned_config (JStr ''https://op.example'')) = Inr cands \<and> cands \<noteq> []"
proof -
  have "decode_with_config example_lib ''t'' pinned_config (JStr ''https://op.example'') = Inr example_claims"
    by code_simp
  moreover have "allowed_issuers pinned_config = Some [''https://op.example'']"
    by (simp add: pinned_config_def)
  ultimately show ?thesis
    using allowed_issuers_enforced by blast
qed

text \<open>A key that \<open>get_jwks\<close> or \<open>jwks_from_dict\<close> built survives the round trip through its
  dictionary form unchanged, and passing the typed key or its dictionary form to the decoder
  gives PyJWT the same mapping.\<close>

theorem jwk_dict_roundtrip:
  assumes "jwks_from_dict d = Inr k"
  shows "jwks_from_dict (as_dict k) = Inr k
    \<and> normalize_verification_key (KeyJwk k) = normalize_verification_key (KeyDict (as_dict k))"
proof -
  have k: "truthy (jwk_kty k)" "validate_key_parameters k = Inr ()"
    using assms post_init_ok by (auto simp: jwks_from_dict_def)
  have "filter (\<lambda>kv. snd kv \<noteq> JNull) (as_dict k) = as_dict k"
    by (simp add: as_dict_def)
  then show ?thesis
    using k jwk_of_members_as_dict [OF k(1)]
    by (simp add: normalize_verification_key_def jwks_from_dict_def post_init_def)
qed

theorem jwk_dict_roundtrip_witness:
  "jwks_from_dict (as_dict (projr (jwks_from_dict example_jwk_dict))) = Inr (projr (jwks_from_dict example_jwk_dict))"
proof -
  have "jwks_from_dict example_jwk_dict = Inr (projr (jwks_from_dict example_jwk_dict))"
    by code_simp
  from jwk_dict_roundtrip [OF this] show ?thesis by blast
qed

end
