(* ===== verification/Token_Validation.thy ===== *)
theory Token_Validation
  imports Token_Logic
begin

text \<open>
  \<open>sync/token_validation.py\<close>: token validation over the process-wide discovery and JWKS caches and
  the kid-miss cooldown. The module-level variables are the fields of \<open>tv_state\<close>; every function
  is a computation on it. One call runs at a time here: the locks of the source serialise the
  critical sections, and what a second thread could interleave is not part of this theory.

  The clock and the network are parameters: \<open>clock n\<close> is the \<open>n\<close>-th reading of
  \<open>time.monotonic()\<close>, \<open>worlds n\<close> is the outside as the \<open>n\<close>-th fetch sees it. The state counts the
  readings and keeps the fetches made, newest first.
\<close>

section \<open>State\<close>

datatype fetch_event =
    DiscoFetch string
  | JwksFetch string
  | JwksRefresh string rat

record tv_state =
  disco_cache :: "((string \<times> policy_key) \<times> disco_entry) list"
  jwks_cache :: "jwks_entry dict"
  kid_miss_last_attempt :: "rat dict"
  warning_emitted :: bool
  ticks :: nat
  fetch_log :: "fetch_event list"

definition tv_init :: tv_state where
  "tv_init = \<lparr>disco_cache = [], jwks_cache = [], kid_miss_last_attempt = [], warning_emitted = False,
              ticks = 0, fetch_log = []\<rparr>"

record 'pk tv_env =
  te_settings :: cache_settings
  te_clock :: "nat \<Rightarrow> rat"
  te_worlds :: "nat \<Rightarrow> http_world"
  te_lib :: "'pk jwt_lib"

type_synonym 'a tvm = "(tv_state, exn, 'a) stm"

definition monotonic :: "'pk tv_env \<Rightarrow> rat tvm" where
  "monotonic env s = (Inr (te_clock env (ticks s)), s\<lparr>ticks := Suc (ticks s)\<rparr>)"

text \<open>The world the next fetch sees, and the note that it was made.\<close>

definition next_world :: "'pk tv_env \<Rightarrow> fetch_event \<Rightarrow> http_world tvm" where
  "next_world env ev s =
     (Inr (te_worlds env (length (fetch_log s))), s\<lparr>fetch_log := ev # fetch_log s\<rparr>)"

section \<open>Discovery documents\<close>

text \<open>
  The read of a cache on the hot path: a fresh entry is touched and returned. The age is read from
  the clock only when there is an entry.
\<close>

definition disco_hit :: "'pk tv_env \<Rightarrow> string \<times> policy_key \<Rightarrow> disco_response option tvm" where
  "disco_hit env key =
     sbnd (sget (\<lambda>s. map_of (disco_cache s) key)) (\<lambda>entry.
       case entry of None \<Rightarrow> sret None
       | Some e \<Rightarrow> sbnd (monotonic env) (\<lambda>now.
           if is_cache_expired now e then sret None
           else sbnd (supd (\<lambda>s. s\<lparr>disco_cache := touch_cache_entry key (disco_cache s)\<rparr>))
                  (\<lambda>_. sret (Some (e_response e)))))"

text \<open>The fetch and the write of its outcome, inside the fetch lock.\<close>

definition fetch_disco :: "'pk tv_env \<Rightarrow> string \<Rightarrow> discovery_policy \<Rightarrow> disco_response tvm" where
  "fetch_disco env a pol =
     sbnd (next_world env (DiscoFetch a)) (\<lambda>w.
       let r = get_discovery_document w a (Some pol) in
       sbnd (monotonic env) (\<lambda>now.
         sbnd (supd (\<lambda>s. s\<lparr>disco_cache :=
                 apply_disco_cache_outcome (te_settings env) (a, cache_key pol) r now (disco_cache s)\<rparr>))
           (\<lambda>_. sret r)))"

text \<open>The lookup is made twice: before the fetch lock is taken and again under it.\<close>

definition get_disco_response ::
  "'pk tv_env \<Rightarrow> string option \<Rightarrow> discovery_policy \<Rightarrow> disco_response tvm" where
  "get_disco_response env addr pol =
     (case addr of
        None \<Rightarrow> slift (Inl (config_exn ''disco_doc_address is required when perform_disco is True''))
      | Some a \<Rightarrow>
          let key = (a, cache_key pol) in
          or_else (disco_hit env key) (or_else (disco_hit env key) (fetch_disco env a pol)))"

definition clear_discovery_cache :: "unit tvm" where
  "clear_discovery_cache = supd (\<lambda>s. s\<lparr>disco_cache := clear_cache_locked (disco_cache s)\<rparr>)"

section \<open>Key sets\<close>

definition jwks_hit :: "'pk tv_env \<Rightarrow> string \<Rightarrow> jwks_response option tvm" where
  "jwks_hit env uri =
     sbnd (sget (\<lambda>s. map_of (jwks_cache s) uri)) (\<lambda>entry.
       case entry of None \<Rightarrow> sret None
       | Some e \<Rightarrow> sbnd (monotonic env) (\<lambda>now.
           if is_cache_expired now e then sret None
           else sbnd (supd (\<lambda>s. s\<lparr>jwks_cache := touch_cache_entry uri (jwks_cache s)\<rparr>))
                  (\<lambda>_. sret (Some (e_response e)))))"

definition apply_jwks_outcome :: "'pk tv_env \<Rightarrow> string \<Rightarrow> jwks_response \<Rightarrow> rat \<Rightarrow> tv_state \<Rightarrow> tv_state" where
  "apply_jwks_outcome env uri r now s =
     (case apply_jwks_cache_outcome (te_settings env) uri r now (jwks_cache s, kid_miss_last_attempt s) of
        (c, cd) \<Rightarrow> s\<lparr>jwks_cache := c, kid_miss_last_attempt := cd\<rparr>)"

definition fetch_jwks :: "'pk tv_env \<Rightarrow> string \<Rightarrow> discovery_policy \<Rightarrow> jwks_response tvm" where
  "fetch_jwks env uri pol =
     sbnd (next_world env (JwksFetch uri)) (\<lambda>w.
       let r = get_jwks w uri (Some pol) in
       sbnd (monotonic env) (\<lambda>now.
         sbnd (supd (apply_jwks_outcome env uri r now)) (\<lambda>_. sret r)))"

definition get_cached_jwks :: "'pk tv_env \<Rightarrow> string \<Rightarrow> discovery_policy \<Rightarrow> jwks_response tvm" where
  "get_cached_jwks env uri pol =
     or_else (jwks_hit env uri) (or_else (jwks_hit env uri) (fetch_jwks env uri pol))"

text \<open>The entry kept when a refresh was successful but empty.\<close>

definition retained_response :: "string \<Rightarrow> jwks_response \<Rightarrow> jwks_response option tvm" where
  "retained_response uri r =
     (if j_is_successful r \<and> (j_keys r = None \<or> j_keys r = Some [])
      then sbnd (sget (\<lambda>s. map_of (jwks_cache s) uri)) (\<lambda>entry.
             case entry of None \<Rightarrow> sret None
             | Some e \<Rightarrow> sbnd (slift (jwks_get_keys (e_response e))) (\<lambda>ks.
                 if ks = None \<or> ks = Some [] then sret None else sret (Some (e_response e))))
      else sret None)"

definition refresh_jwks :: "'pk tv_env \<Rightarrow> string \<Rightarrow> discovery_policy \<Rightarrow> (jwks_response \<times> bool) tvm" where
  "refresh_jwks env uri pol =
     sbnd (monotonic env) (\<lambda>request_time.
       sbnd (sget (\<lambda>s. map_of (jwks_cache s) uri)) (\<lambda>entry.
         if (case entry of None \<Rightarrow> False | Some e \<Rightarrow> e_cached_at e \<ge> request_time)
         then sret (e_response (the entry), False)
         else
           sbnd (next_world env (JwksRefresh uri request_time)) (\<lambda>w.
             let r = get_jwks w uri (Some pol) in
             sbnd (monotonic env) (\<lambda>now.
               sbnd (supd (apply_jwks_outcome env uri r now)) (\<lambda>_.
                 sbnd (retained_response uri r) (\<lambda>retained.
                   case retained of Some old \<Rightarrow> sret (old, True) | None \<Rightarrow> sret (r, False)))))))"

definition clear_jwks_cache :: "unit tvm" where
  "clear_jwks_cache =
     supd (\<lambda>s. s\<lparr>jwks_cache := clear_cache_locked (jwks_cache s), kid_miss_last_attempt := []\<rparr>)"

section \<open>Key resolution\<close>

definition maybe_warn_injected_http_client :: "unit tvm" where
  "maybe_warn_injected_http_client = supd (\<lambda>s. s\<lparr>warning_emitted := True\<rparr>)"

definition reset_injected_http_client_warning_for_testing :: "unit tvm" where
  "reset_injected_http_client_warning_for_testing = supd (\<lambda>s. s\<lparr>warning_emitted := False\<rparr>)"

definition keys_or_empty :: "jwks_response \<Rightarrow> jwk list res" where
  "keys_or_empty r = bnd (jwks_get_keys r) (\<lambda>ks. Inr (case ks of None \<Rightarrow> [] | Some l \<Rightarrow> l))"

definition has_kid :: "json \<Rightarrow> jwk list \<Rightarrow> bool" where
  "has_kid kid ks = list_ex (\<lambda>k. py_eq (jwk_kid k) kid) ks"

text \<open>
  A \<open>jwks_uri\<close> that is not a string: a list or dictionary cannot be a cache key; any other value
  fails the scheme check inside \<open>get_jwks\<close>, whose failed response is then rejected.
\<close>

definition jwks_uri_arg :: "bool \<Rightarrow> json \<Rightarrow> string res" where
  "jwks_uri_arg cached u =
     (case u of JStr s \<Rightarrow> Inr s
      | _ \<Rightarrow>
          if cached \<and> unhashable u then Inl (raise_cls TypeError (''unhashable type: '' @ sq (type_name u)))
          else Inl (raise_cls TokenValidationException
                 (''Unhandled exception during JWKS request: '' @ sq (type_name u)
                  @ '' object has no attribute '' @ sq ''decode'')))"

text \<open>The stamp after a kid-miss refresh that reached the provider.\<close>

definition stamp :: "'pk tv_env \<Rightarrow> string \<Rightarrow> unit tvm" where
  "stamp env uri =
     sbnd (monotonic env) (\<lambda>now.
       supd (\<lambda>s. s\<lparr>kid_miss_last_attempt := dict_set uri now (kid_miss_last_attempt s)\<rparr>))"

definition unstamp :: "string \<Rightarrow> unit tvm" where
  "unstamp uri = supd (\<lambda>s. s\<lparr>kid_miss_last_attempt := dict_pop uri (kid_miss_last_attempt s)\<rparr>)"

definition may_refresh :: "'pk tv_env \<Rightarrow> string \<Rightarrow> bool \<Rightarrow> bool tvm" where
  "may_refresh env uri has_cached_keys =
     sbnd (monotonic env) (\<lambda>now.
       sget (\<lambda>s. should_attempt_kid_miss_refresh (te_settings env) (kid_miss_last_attempt s) uri has_cached_keys now))"

text \<open>The kid-miss branch: the response the lookup goes on with.\<close>

definition kid_miss_refresh ::
  "'pk tv_env \<Rightarrow> string \<Rightarrow> discovery_policy \<Rightarrow> json \<Rightarrow> jwks_response \<Rightarrow> jwks_response tvm" where
  "kid_miss_refresh env uri pol kid cached =
     sbnd (slift (keys_or_empty cached)) (\<lambda>cached_keys.
       sbnd (may_refresh env uri (cached_keys \<noteq> [])) (\<lambda>go.
         if \<not> go then sret cached
         else sbnd (refresh_jwks env uri pol) (\<lambda>(r, from_retained).
           sbnd (if j_is_successful r
                 then sbnd (slift (keys_or_empty r)) (\<lambda>refreshed.
                        if from_retained then sret ()
                        else if has_kid kid refreshed then unstamp uri else stamp env uri)
                 else sret ()) (\<lambda>_.
             sbnd (slift (validate_jwks_response r)) (\<lambda>_. sret r)))))"

definition select_key :: "'pk tv_env \<Rightarrow> json \<Rightarrow> json \<Rightarrow> jwks_response \<Rightarrow> (json dict \<times> json) tvm" where
  "select_key env kid alg r =
     sbnd (slift (keys_or_empty r)) (\<lambda>ks. slift (find_key_by_kid kid ks alg))"

definition discover_injected ::
  "'pk tv_env \<Rightarrow> string \<Rightarrow> string option \<Rightarrow> discovery_policy \<Rightarrow> (json dict \<times> json \<times> disco_response) tvm" where
  "discover_injected env jwt addr pol =
     sbnd maybe_warn_injected_http_client (\<lambda>_.
       case addr of
         None \<Rightarrow> slift (Inl (config_exn ''disco_doc_address is required when perform_disco is True''))
       | Some a \<Rightarrow>
           sbnd (next_world env (DiscoFetch a)) (\<lambda>w.
             let d = get_discovery_document w a (Some pol) in
             sbnd (slift (bnd (validate_disco_response d) (\<lambda>_. bnd (validate_jwks_uri d) (jwks_uri_arg False)))) (\<lambda>uri.
               sbnd (next_world env (JwksFetch uri)) (\<lambda>w'.
                 let r = get_jwks w' uri (Some pol) in
                 sbnd (slift (validate_jwks_response r)) (\<lambda>_.
                   sbnd (slift (extract_jwt_header_fields (jl_header (te_lib env)) jwt)) (\<lambda>(kid, alg).
                     sbnd (select_key env kid alg r) (\<lambda>(key, a). sret (key, a, d))))))))"

definition discover_cached ::
  "'pk tv_env \<Rightarrow> string \<Rightarrow> string option \<Rightarrow> discovery_policy \<Rightarrow> (json dict \<times> json \<times> disco_response) tvm" where
  "discover_cached env jwt addr pol =
     sbnd (get_disco_response env addr pol) (\<lambda>d.
       sbnd (slift (bnd (validate_disco_response d) (\<lambda>_. bnd (validate_jwks_uri d) (jwks_uri_arg True)))) (\<lambda>uri.
         sbnd (get_cached_jwks env uri pol) (\<lambda>r.
           sbnd (slift (validate_jwks_response r)) (\<lambda>_.
             sbnd (slift (extract_jwt_header_fields (jl_header (te_lib env)) jwt)) (\<lambda>(kid, alg).
               sbnd (slift (keys_or_empty r)) (\<lambda>cached_keys.
                 sbnd (if kid \<noteq> JNull \<and> \<not> has_kid kid cached_keys
                       then kid_miss_refresh env uri pol kid r else sret r) (\<lambda>r'.
                   sbnd (select_key env kid alg r') (\<lambda>(key, a). sret (key, a, d)))))))))"

definition discover_and_resolve_key ::
  "'pk tv_env \<Rightarrow> string \<Rightarrow> string option \<Rightarrow> bool \<Rightarrow> discovery_policy \<Rightarrow> (json dict \<times> json \<times> disco_response) tvm" where
  "discover_and_resolve_key env jwt addr injected pol =
     (if injected then discover_injected env jwt addr pol else discover_cached env jwt addr pol)"

section \<open>Validation\<close>

text \<open>The chain after a refresh: header, key, resolved configuration, decode.\<close>

definition decode_with_keys ::
  "'pk tv_env \<Rightarrow> string \<Rightarrow> token_validation_config \<Rightarrow> disco_response \<Rightarrow> jwks_response \<Rightarrow> json dict tvm" where
  "decode_with_keys env jwt c d r =
     sbnd (slift (extract_jwt_header_fields (jl_header (te_lib env)) jwt)) (\<lambda>(kid, alg).
       sbnd (select_key env kid alg r) (\<lambda>(key, a).
         sbnd (slift (build_resolved_config c key a)) (\<lambda>c'.
           sbnd (slift (disco_get d ''issuer'')) (\<lambda>iss.
             slift (decode_with_config (te_lib env) jwt c' iss)))))"

definition retry_with_refreshed_jwks ::
  "'pk tv_env \<Rightarrow> string \<Rightarrow> token_validation_config \<Rightarrow> disco_response \<Rightarrow> bool \<Rightarrow> json dict tvm" where
  "retry_with_refreshed_jwks env jwt c d injected =
     sbnd (slift (bnd (validate_jwks_uri d) (jwks_uri_arg (\<not> injected)))) (\<lambda>uri.
       let pol = resolve_discovery_policy (cfg_discovery_policy c) (cfg_require_https c) in
       if injected
       then sbnd (next_world env (JwksFetch uri)) (\<lambda>w.
              let r = get_jwks w uri (Some pol) in
              sbnd (slift (validate_jwks_response r)) (\<lambda>_. decode_with_keys env jwt c d r))
       else
         sbnd (may_refresh env uri True) (\<lambda>go.
           if \<not> go
           then slift (Inl (signature_exn ''Signature verification failed; refresh cooldown active'' []))
           else
             sbnd (refresh_jwks env uri pol) (\<lambda>(r, from_retained).
               sbnd (slift (validate_jwks_response r)) (\<lambda>_.
                 sbnd (scatch (decode_with_keys env jwt c d r)
                         (\<lambda>e. sbnd (if from_retained then sret () else stamp env uri) (\<lambda>_. slift (Inl e)))) (\<lambda>decoded.
                   sbnd (if from_retained then sret () else unstamp uri) (\<lambda>_. sret decoded))))))"

definition validate_with_discovery ::
  "'pk tv_env \<Rightarrow> string \<Rightarrow> token_validation_config \<Rightarrow> string option \<Rightarrow> bool \<Rightarrow> json dict tvm" where
  "validate_with_discovery env jwt c addr injected =
     sbnd (discover_and_resolve_key env jwt addr injected
             (resolve_discovery_policy (cfg_discovery_policy c) (cfg_require_https c))) (\<lambda>(key, alg, d).
       sbnd (slift (build_resolved_config c key alg)) (\<lambda>c'.
         scatch (sbnd (slift (disco_get d ''issuer'')) (\<lambda>iss. slift (decode_with_config (te_lib env) jwt c' iss)))
           (\<lambda>e. if exn_isinstance e SignatureVerificationException
                then retry_with_refreshed_jwks env jwt c d injected else slift (Inl e))))"

definition validate_token ::
  "'pk tv_env \<Rightarrow> string \<Rightarrow> token_validation_config \<Rightarrow> string option \<Rightarrow> bool \<Rightarrow> json dict tvm" where
  "validate_token env jwt c addr injected =
     sbnd (slift (validate_token_config c)) (\<lambda>_.
       sbnd (if perform_disco c then validate_with_discovery env jwt c addr injected
             else slift (bnd (validate_config_for_manual_validation c)
                           (\<lambda>_. decode_with_config (te_lib env) jwt c JNull))) (\<lambda>decoded.
         sbnd (slift (validate_claims decoded c)) (\<lambda>_. sret decoded)))"

section \<open>Where responses come from\<close>

definition disco_from :: "'pk tv_env \<Rightarrow> string \<Rightarrow> discovery_policy \<Rightarrow> disco_response \<Rightarrow> bool" where
  "disco_from env a pol d \<longleftrightarrow> (\<exists>n. d = get_discovery_document (te_worlds env n) a (Some pol))"

definition jwks_from :: "'pk tv_env \<Rightarrow> string \<Rightarrow> jwks_response \<Rightarrow> bool" where
  "jwks_from env uri r \<longleftrightarrow> (\<exists>n pol. r = get_jwks (te_worlds env n) uri (Some pol))"

definition has_keys :: "jwks_response \<Rightarrow> bool" where
  "has_keys r \<longleftrightarrow> j_is_successful r \<and> j_keys r \<noteq> None \<and> j_keys r \<noteq> Some []"

definition ttl_ok :: "'r cache_entry \<Rightarrow> bool" where
  "ttl_ok e \<longleftrightarrow> 60 \<le> e_ttl e \<and> e_ttl e \<le> 86400"

definition disco_entry_ok :: "'pk tv_env \<Rightarrow> (string \<times> policy_key) \<times> disco_entry \<Rightarrow> bool" where
  "disco_entry_ok env x \<longleftrightarrow> (case x of ((a, pk), e) \<Rightarrow>
     (\<exists>pol. cache_key pol = pk \<and> disco_from env a pol (e_response e))
     \<and> d_is_successful (e_response e) \<and> \<not> is_uncacheable (d_cache_control (e_response e)) \<and> ttl_ok e)"

definition jwks_entry_ok :: "'pk tv_env \<Rightarrow> string \<times> jwks_entry \<Rightarrow> bool" where
  "jwks_entry_ok env x \<longleftrightarrow> (case x of (uri, e) \<Rightarrow>
     jwks_from env uri (e_response e) \<and> has_keys (e_response e) \<and> ttl_ok e)"

text \<open>
  The invariant of the process state: both caches are dictionaries within the configured size,
  every entry came from the provider under its own key and is worth serving, and every cooldown
  stamp belongs to a cached key set.
\<close>

definition tv_inv :: "'pk tv_env \<Rightarrow> tv_state \<Rightarrow> bool" where
  "tv_inv env s \<longleftrightarrow>
     cache_ok (s_max_entries (te_settings env)) (disco_cache s)
     \<and> cache_ok (s_max_entries (te_settings env)) (jwks_cache s)
     \<and> stamps_ok (jwks_cache s) (kid_miss_last_attempt s)
     \<and> (\<forall>x \<in> set (disco_cache s). disco_entry_ok env x)
     \<and> (\<forall>x \<in> set (jwks_cache s). jwks_entry_ok env x)"

abbreviation jwks_cached :: "string \<Rightarrow> tv_state \<Rightarrow> bool" where
  "jwks_cached uri s \<equiv> uri \<in> fst ` set (jwks_cache s)"

abbreviation tv_inv_at :: "'pk tv_env \<Rightarrow> string \<Rightarrow> tv_state \<Rightarrow> bool" where
  "tv_inv_at env uri s \<equiv> tv_inv env s \<and> jwks_cached uri s"

lemma tv_inv_init: "settings_ok (te_settings env) \<Longrightarrow> tv_inv env tv_init"
  by (simp add: tv_inv_def tv_init_def cache_ok_def stamps_ok_def dict_ok_def settings_ok_def)

lemma tv_inv_aux [simp]:
  "tv_inv env (s\<lparr>ticks := n\<rparr>) = tv_inv env s" "tv_inv env (s\<lparr>fetch_log := l\<rparr>) = tv_inv env s"
  "tv_inv env (s\<lparr>warning_emitted := b\<rparr>) = tv_inv env s"
  by (simp_all add: tv_inv_def)

lemma disco_get_jwks_uri_attr: "''jwks_uri'' \<in> set disco_attr_names"
  by (simp add: disco_attr_names_def)

section \<open>The cache operations keep the invariant\<close>

lemma triple_monotonic:
  "(\<And>s. P s \<Longrightarrow> Q (te_clock env (ticks s)) (s\<lparr>ticks := Suc (ticks s)\<rparr>)) \<Longrightarrow> triple P (monotonic env) Q E"
  by (simp add: triple_def monotonic_def)

lemma triple_next_world:
  "(\<And>s. P s \<Longrightarrow> Q (te_worlds env (length (fetch_log s))) (s\<lparr>fetch_log := ev # fetch_log s\<rparr>)) \<Longrightarrow>
     triple P (next_world env ev) Q E"
  by (simp add: triple_def next_world_def)

lemma settings_max_pos: "settings_ok st \<Longrightarrow> 1 \<le> s_max_entries st"
  by (simp add: settings_ok_def)

lemma tv_inv_touch_disco:
  assumes "tv_inv env s" "disco_cache s' = touch_cache_entry k (disco_cache s)" "jwks_cache s' = jwks_cache s"
    "kid_miss_last_attempt s' = kid_miss_last_attempt s"
  shows "tv_inv env s'"
  using assms(1) unfolding tv_inv_def assms(2-4) by (elim conjE, intro conjI cache_ok_touch touch_cache_all)

lemma tv_inv_touch_jwks:
  assumes "tv_inv env s" "jwks_cache s' = touch_cache_entry k (jwks_cache s)" "disco_cache s' = disco_cache s"
    "kid_miss_last_attempt s' = kid_miss_last_attempt s"
  shows "tv_inv env s'"
  using assms(1) unfolding tv_inv_def assms(2-4)
  by (elim conjE, intro conjI cache_ok_touch touch_cache_all stamps_ok_touch)

lemma tv_inv_disco_outcome:
  assumes "settings_ok (te_settings env)" "tv_inv env s" "disco_from env a pol r"
  shows "tv_inv env (s\<lparr>disco_cache := apply_disco_cache_outcome (te_settings env) (a, cache_key pol) r now (disco_cache s)\<rparr>)"
proof (cases rule: apply_disco_outcome_cases
    [where st = "te_settings env" and k = "(a, cache_key pol)" and r = r and now = now and c = "disco_cache s"])
  case retain
  then show ?thesis using assms(2) by simp
next
  case drop
  have "length (dict_pop (a, cache_key pol) (disco_cache s)) \<le> length (disco_cache s)"
    by (rule length_delete_le)
  then show ?thesis
    using assms(2) drop by (auto simp: tv_inv_def cache_ok_def set_dict_pop)
next
  case store
  let ?e = "\<lparr>e_response = r, e_cached_at = now, e_ttl = resolve_disco_ttl (te_settings env) (d_cache_control r)\<rparr>"
  have e: "disco_entry_ok env ((a, cache_key pol), ?e)"
    using store assms(1,3) resolve_ttl_bounds [OF assms(1)] by (auto simp: disco_entry_ok_def ttl_ok_def)
  note m = settings_max_pos [OF assms(1)]
  show ?thesis
    using assms(2) m cache_store_all [where P = "disco_entry_ok env", OF m e, of "disco_cache s"]
    by (simp add: store(1) tv_inv_def cache_ok_store)
qed

lemma apply_jwks_outcome_inv:
  assumes "settings_ok (te_settings env)" "tv_inv env s" "jwks_from env uri r"
  shows "tv_inv env (apply_jwks_outcome env uri r now s)"
    and "jwks_cached uri s \<or> has_keys r \<Longrightarrow> jwks_cached uri (apply_jwks_outcome env uri r now s)"
proof -
  let ?s' = "apply_jwks_outcome env uri r now s"
  let ?e = "\<lparr>e_response = r, e_cached_at = now, e_ttl = resolve_ttl (te_settings env) (j_cache_control r)\<rparr>"
  note m = settings_max_pos [OF assms(1)]
  have "tv_inv env ?s' \<and> (jwks_cached uri s \<or> has_keys r \<longrightarrow> jwks_cached uri ?s')"
  proof (cases rule: apply_jwks_outcome_cases [where st = "te_settings env" and uri = uri and r = r
        and now = now and c = "jwks_cache s" and cd = "kid_miss_last_attempt s"])
    case retain
    then show ?thesis
      using assms(2) by (auto simp: apply_jwks_outcome_def has_keys_def)
  next
    case store
    have e: "jwks_entry_ok env (uri, ?e)"
      using store assms(3) resolve_ttl_bounds [OF assms(1)] by (auto simp: jwks_entry_ok_def ttl_ok_def has_keys_def)
    have "map_of (fst (cache_store (s_max_entries (te_settings env)) uri ?e (jwks_cache s))) uri = Some ?e"
      using cache.find_store_same [of "jwks_cache s" "s_max_entries (te_settings env)" uri ?e] assms(2) m
      by (simp add: tv_inv_def cache_ok_def)
    then have "uri \<in> fst ` set (fst (cache_store (s_max_entries (te_settings env)) uri ?e (jwks_cache s)))"
      by (auto dest: map_of_SomeD intro: rev_image_eqI)
    moreover have "tv_inv env ?s'"
      using assms(2) m e cache_store_all [where P = "jwks_entry_ok env", OF m e, of "jwks_cache s"]
      by (simp add: apply_jwks_outcome_def store Let_def tv_inv_def cache_ok_store stamps_ok_store)
    ultimately show ?thesis
      by (simp add: apply_jwks_outcome_def store Let_def)
  qed
  then show "tv_inv env ?s'" and "jwks_cached uri s \<or> has_keys r \<Longrightarrow> jwks_cached uri ?s'"
    by auto
qed

lemma disco_hit_eq:
  "disco_hit env key s =
     (case map_of (disco_cache s) key of None \<Rightarrow> (Inr None, s)
      | Some e \<Rightarrow>
          let s' = s\<lparr>ticks := Suc (ticks s)\<rparr> in
          if is_cache_expired (te_clock env (ticks s)) e then (Inr None, s')
          else (Inr (Some (e_response e)), s'\<lparr>disco_cache := touch_cache_entry key (disco_cache s)\<rparr>))"
  by (simp add: disco_hit_def sbnd_def stm_simps monotonic_def Let_def split: option.split)

lemma jwks_hit_eq:
  "jwks_hit env uri s =
     (case map_of (jwks_cache s) uri of None \<Rightarrow> (Inr None, s)
      | Some e \<Rightarrow>
          let s' = s\<lparr>ticks := Suc (ticks s)\<rparr> in
          if is_cache_expired (te_clock env (ticks s)) e then (Inr None, s')
          else (Inr (Some (e_response e)), s'\<lparr>jwks_cache := touch_cache_entry uri (jwks_cache s)\<rparr>))"
  by (simp add: jwks_hit_def sbnd_def stm_simps monotonic_def Let_def split: option.split)

lemma disco_entry_from:
  "\<lbrakk>tv_inv env s; map_of (disco_cache s) (a, cache_key pol) = Some e\<rbrakk> \<Longrightarrow> disco_from env a pol (e_response e)"
  by (drule map_of_SomeD) (auto simp: tv_inv_def disco_entry_ok_def cache_key_inj)

lemma jwks_entry_from:
  "\<lbrakk>tv_inv env s; map_of (jwks_cache s) uri = Some e\<rbrakk> \<Longrightarrow>
     jwks_from env uri (e_response e) \<and> has_keys (e_response e) \<and> jwks_cached uri s"
  by (drule map_of_SomeD) (auto simp: tv_inv_def jwks_entry_ok_def intro: rev_image_eqI)

lemma disco_hit_inv:
  "triple (tv_inv env) (disco_hit env (a, cache_key pol))
     (\<lambda>hit s. case hit of Some r \<Rightarrow> tv_inv env s \<and> disco_from env a pol r | None \<Rightarrow> tv_inv env s) (\<lambda>_. tv_inv env)"
  by (rule tripleI)
     (auto simp: disco_hit_eq Let_def disco_entry_from split: option.splits if_splits
       intro: tv_inv_touch_disco)

lemma jwks_hit_inv:
  "triple (tv_inv env) (jwks_hit env uri)
     (\<lambda>hit s. case hit of Some r \<Rightarrow> tv_inv_at env uri s \<and> jwks_from env uri r | None \<Rightarrow> tv_inv env s) (\<lambda>_. tv_inv env)"
  by (rule tripleI)
     (auto simp: jwks_hit_eq Let_def jwks_entry_from touch_cache_keys split: option.splits if_splits
       intro: tv_inv_touch_jwks)

lemma fetch_disco_eq:
  "fetch_disco env a pol s =
     (let r = get_discovery_document (te_worlds env (length (fetch_log s))) a (Some pol);
          now = te_clock env (ticks s) in
      (Inr r, s\<lparr>fetch_log := DiscoFetch a # fetch_log s, ticks := Suc (ticks s),
               disco_cache := apply_disco_cache_outcome (te_settings env) (a, cache_key pol) r now (disco_cache s)\<rparr>))"
  by (simp add: fetch_disco_def sbnd_def stm_simps monotonic_def next_world_def Let_def)

lemma fetch_jwks_eq:
  "fetch_jwks env uri pol s =
     (let r = get_jwks (te_worlds env (length (fetch_log s))) uri (Some pol) in
      (Inr r, apply_jwks_outcome env uri r (te_clock env (ticks s))
                (s\<lparr>fetch_log := JwksFetch uri # fetch_log s, ticks := Suc (ticks s)\<rparr>)))"
  by (simp add: fetch_jwks_def sbnd_def stm_simps monotonic_def next_world_def Let_def)

lemma disco_from_world [simp]: "disco_from env a pol (get_discovery_document (te_worlds env n) a (Some pol))"
  by (auto simp: disco_from_def)

lemma jwks_from_world [simp]: "jwks_from env uri (get_jwks (te_worlds env n) uri (Some pol))"
  by (auto simp: jwks_from_def)

lemma fetch_disco_inv:
  assumes "settings_ok (te_settings env)"
  shows "triple (tv_inv env) (fetch_disco env a pol) (\<lambda>d s. tv_inv env s \<and> disco_from env a pol d) (\<lambda>_. tv_inv env)"
proof (rule tripleI)
  fix s d s'
  assume s: "tv_inv env s" and f: "fetch_disco env a pol s = (Inr d, s')"
  let ?s = "s\<lparr>fetch_log := DiscoFetch a # fetch_log s, ticks := Suc (ticks s)\<rparr>"
  have "tv_inv env ?s"
    using s by simp
  from tv_inv_disco_outcome [OF assms this, of a pol d "te_clock env (ticks s)"]
  show "tv_inv env s' \<and> disco_from env a pol d"
    using f by (auto simp: fetch_disco_eq Let_def)
qed (simp add: fetch_disco_eq Let_def)

lemma fetch_jwks_inv:
  assumes "settings_ok (te_settings env)"
  shows "triple (tv_inv env) (fetch_jwks env uri pol)
           (\<lambda>r s. tv_inv env s \<and> jwks_from env uri r \<and> (has_keys r \<longrightarrow> jwks_cached uri s)) (\<lambda>_. tv_inv env)"
  by (rule tripleI) (auto simp: fetch_jwks_eq Let_def apply_jwks_outcome_inv [OF assms])

lemma get_disco_response_inv:
  assumes "settings_ok (te_settings env)"
  shows "triple (tv_inv env) (get_disco_response env (Some a) pol)
           (\<lambda>d s. tv_inv env s \<and> disco_from env a pol d) (\<lambda>_. tv_inv env)"
  unfolding get_disco_response_def option.case Let_def
  by (rule triple_or_else [OF disco_hit_inv triple_or_else [OF disco_hit_inv fetch_disco_inv [OF assms]]])

lemma get_cached_jwks_inv:
  assumes "settings_ok (te_settings env)"
  shows "triple (tv_inv env) (get_cached_jwks env uri pol)
           (\<lambda>r s. tv_inv env s \<and> jwks_from env uri r \<and> (has_keys r \<longrightarrow> jwks_cached uri s)) (\<lambda>_. tv_inv env)"
proof -
  have hit: "triple (tv_inv env) (jwks_hit env uri)
      (\<lambda>hit s. case hit of Some r \<Rightarrow> tv_inv env s \<and> jwks_from env uri r \<and> (has_keys r \<longrightarrow> jwks_cached uri s)
        | None \<Rightarrow> tv_inv env s) (\<lambda>_. tv_inv env)"
    by (rule triple_conseq [OF jwks_hit_inv]) (auto split: option.splits)
  show ?thesis
    unfolding get_cached_jwks_def by (rule triple_or_else [OF hit triple_or_else [OF hit fetch_jwks_inv [OF assms]]])
qed

section \<open>Refresh and selection\<close>

lemma retained_response_eq:
  "tv_inv env s \<Longrightarrow> retained_response uri r s =
     (Inr (if j_is_successful r \<and> \<not> has_keys r then map_option e_response (map_of (jwks_cache s) uri) else None), s)"
  by (auto simp: retained_response_def has_keys_def sbnd_def stm_simps jwks_get_keys_def guarded_get_def
      split: option.split dest: jwks_entry_from)

lemma refresh_jwks_inv:
  assumes "settings_ok (te_settings env)"
  shows "triple (tv_inv_at env uri) (refresh_jwks env uri pol)
           (\<lambda>x s. tv_inv_at env uri s \<and> jwks_from env uri (fst x)) (\<lambda>_. tv_inv_at env uri)"
proof -
  let ?I = "tv_inv_at env uri"
  have ret: "triple ?I (retained_response uri r)
      (\<lambda>h s. ?I s \<and> (\<forall>old. h = Some old \<longrightarrow> jwks_from env uri old)) (\<lambda>_. ?I)" for r
    by (rule tripleI) (auto simp: retained_response_eq dest: jwks_entry_from split: if_splits)
  have fetch: "triple ?I (sbnd (next_world env (JwksRefresh uri t)) (\<lambda>w.
             let r = get_jwks w uri (Some pol) in
             sbnd (monotonic env) (\<lambda>now.
               sbnd (supd (apply_jwks_outcome env uri r now)) (\<lambda>_.
                 sbnd (retained_response uri r) (\<lambda>retained.
                   case retained of Some old \<Rightarrow> sret (old, True) | None \<Rightarrow> sret (r, False))))))
      (\<lambda>x s. ?I s \<and> jwks_from env uri (fst x)) (\<lambda>_. ?I)" for t
    unfolding Let_def
    by (rule triple_sbnd [where R = "\<lambda>w s. ?I s \<and> jwks_from env uri (get_jwks w uri (Some pol))"],
        rule triple_next_world, force, rule triple_pre,
        rule triple_sbnd [where R = "\<lambda>_. ?I"], rule triple_monotonic, force,
        rule triple_sbnd [where R = "\<lambda>_. ?I"], rule triple_supd,
        use apply_jwks_outcome_inv [OF assms] in blast,
        rule triple_sbnd [OF ret], rule triple_option)
       (auto intro: triple_sret)
  show ?thesis
    unfolding refresh_jwks_def
    by (rule triple_sbnd [where R = "\<lambda>_. ?I"], rule triple_monotonic, force,
        rule triple_sbnd [where R = "\<lambda>entry s. ?I s \<and> (\<forall>e. entry = Some e \<longrightarrow> jwks_from env uri (e_response e))"],
        rule triple_sget, use jwks_entry_from in blast, rule triple_if)
       (auto intro!: triple_sret triple_conseq [OF fetch] split: option.splits)
qed

lemma stamp_inv: "keeps (tv_inv_at env uri) (stamp env uri)"
proof (rule tripleI)
  fix s x s'
  assume s: "tv_inv_at env uri s" and "stamp env uri s = (Inr x, s')"
  then have s': "s' = s\<lparr>ticks := Suc (ticks s),
      kid_miss_last_attempt := dict_set uri (te_clock env (ticks s)) (kid_miss_last_attempt s)\<rparr>"
    by (simp add: stamp_def sbnd_def monotonic_def supd_def)
  then show "tv_inv_at env uri s'"
    using s by (auto simp: tv_inv_def stamps_ok_def dom_update)
qed (simp add: stamp_def sbnd_def monotonic_def supd_def)

lemma unstamp_inv: "keeps (tv_inv_at env uri) (unstamp uri)"
  unfolding unstamp_def
  by (rule triple_supd) (auto simp: tv_inv_def stamps_ok_def set_dict_pop)

lemma may_refresh_inv: "keeps (tv_inv_at env uri) (may_refresh env uri b)"
  unfolding may_refresh_def
  by (intro keeps_sbnd keeps_pure triple_monotonic) force

lemma kid_miss_refresh_inv:
  assumes "settings_ok (te_settings env)" "jwks_from env uri cached"
  shows "triple (tv_inv_at env uri) (kid_miss_refresh env uri pol kid cached)
           (\<lambda>r s. tv_inv_at env uri s \<and> jwks_from env uri r) (\<lambda>_. tv_inv_at env uri)"
proof -
  let ?I = "tv_inv_at env uri"
  have book: "keeps ?I (if j_is_successful r
                 then sbnd (slift (keys_or_empty r)) (\<lambda>refreshed.
                        if from_retained then sret ()
                        else if has_kid kid refreshed then unstamp uri else stamp env uri)
                 else sret ())" for r from_retained
    by (intro triple_intros stamp_inv unstamp_inv)
  show ?thesis
    unfolding kid_miss_refresh_def
    by (rule triple_sbnd [OF keeps_pure(2)], rule triple_sbnd [OF may_refresh_inv], rule triple_if,
        rule triple_sret, use assms(2) in blast,
        rule triple_sbnd [OF refresh_jwks_inv [OF assms(1)]], rule triple_pre, rule triple_pair,
        rule triple_sbnd [OF book], rule triple_sbnd [OF keeps_pure(2)], rule triple_sret)
       simp
qed

text \<open>
  Where the verification key of a call comes from: a key set the provider served at the
  \<open>jwks_uri\<close> of the discovery document, and the selection for the token's header.
\<close>

definition key_from ::
  "'pk tv_env \<Rightarrow> string \<Rightarrow> disco_response \<Rightarrow> json dict \<Rightarrow> json \<Rightarrow> bool" where
  "key_from env jwt d key a \<longleftrightarrow>
     (\<exists>uri r ks kid alg. jget (d_attrs d) ''jwks_uri'' = JStr uri \<and> jwks_from env uri r \<and> has_keys r
        \<and> j_keys r = Some ks \<and> extract_jwt_header_fields (jl_header (te_lib env)) jwt = Inr (kid, alg)
        \<and> find_key_by_kid kid ks alg = Inr (key, a))"

lemma select_key_from:
  assumes "jget (d_attrs d) ''jwks_uri'' = JStr uri" "jwks_from env uri r"
    and "extract_jwt_header_fields (jl_header (te_lib env)) jwt = Inr (kid, alg)"
  shows "triple P (select_key env kid alg r) (\<lambda>x s. P s \<and> key_from env jwt d (fst x) (snd x)) (\<lambda>_. P)"
proof (rule tripleI)
  fix s x s'
  assume s: "P s" and r: "select_key env kid alg r s = (Inr x, s')"
  obtain ks where ks: "j_is_successful r" "ks = (case j_keys r of None \<Rightarrow> [] | Some l \<Rightarrow> l)"
    and x: "find_key_by_kid kid ks alg = Inr x" and s': "s' = s"
    using r by (auto simp: select_key_def sbnd_def slift_def keys_or_empty_def jwks_get_keys_def
        guarded_get_def split: sum.splits prod.splits if_splits)
  have "ks \<noteq> []"
    using x by (auto simp: find_key_by_kid_def)
  then have "has_keys r" "j_keys r = Some ks"
    using ks by (auto simp: has_keys_def split: option.splits)
  then have "key_from env jwt d (fst x) (snd x)"
    unfolding key_from_def using assms x by fastforce
  then show "P s' \<and> key_from env jwt d (fst x) (snd x)"
    using s s' by simp
next
  fix s e s'
  assume "P s" "select_key env kid alg r s = (Inl e, s')"
  then show "P s'"
    by (auto simp: select_key_def sbnd_def slift_def split: sum.splits prod.splits)
qed

section \<open>The invariant and the origin of the claims\<close>

text \<open>
  A discovery document as a caller under \<open>pol\<close> may use it, and the facts that hold when the key
  of a call has been resolved.
\<close>

definition resolved ::
  "'pk tv_env \<Rightarrow> string \<Rightarrow> string option \<Rightarrow> discovery_policy \<Rightarrow> json dict \<times> json \<times> disco_response \<Rightarrow> bool" where
  "resolved env jwt addr pol x \<longleftrightarrow> (case x of (key, a, d) \<Rightarrow>
     (\<exists>ad. addr = Some ad \<and> disco_from env ad pol d) \<and> d_is_successful d \<and> key_from env jwt d key a)"

definition uri_cached :: "disco_response \<Rightarrow> tv_state \<Rightarrow> bool" where
  "uri_cached d s \<longleftrightarrow> (\<forall>uri. jget (d_attrs d) ''jwks_uri'' = JStr uri \<longrightarrow> jwks_cached uri s)"

lemma jwks_uri_arg_ok: "jwks_uri_arg b u = Inr s \<longleftrightarrow> u = JStr s"
  by (cases u) (auto simp: jwks_uri_arg_def)

lemma uri_checks_ok:
  "bnd (validate_disco_response d) (\<lambda>_. bnd (validate_jwks_uri d) (jwks_uri_arg b)) = Inr uri \<longleftrightarrow>
     d_is_successful d \<and> jget (d_attrs d) ''jwks_uri'' = JStr uri \<and> uri \<noteq> []"
  by (auto simp: res_splits validate_disco_response_ok validate_jwks_uri_ok jwks_uri_arg_ok)

lemma retry_uri_ok:
  "bnd (validate_jwks_uri d) (jwks_uri_arg b) = Inr uri \<longleftrightarrow>
     d_is_successful d \<and> jget (d_attrs d) ''jwks_uri'' = JStr uri \<and> uri \<noteq> []"
  by (auto simp: res_splits validate_jwks_uri_ok jwks_uri_arg_ok)

lemma discover_cached_inv:
  assumes "settings_ok (te_settings env)"
  shows "triple (tv_inv env) (discover_cached env jwt addr pol)
           (\<lambda>x s. (tv_inv env s \<and> uri_cached (snd (snd x)) s) \<and> resolved env jwt addr pol x) (\<lambda>_. tv_inv env)"
proof (cases addr)
  case None
  then show ?thesis
    by (simp add: triple_def discover_cached_def get_disco_response_def sbnd_def slift_def)
next
  case (Some a)
  let ?d = "\<lambda>d uri. disco_from env a pol d \<and> d_is_successful d \<and> jget (d_attrs d) ''jwks_uri'' = JStr uri"
  have "triple (tv_inv env) (discover_cached env jwt (Some a) pol)
           (\<lambda>x s. (tv_inv env s \<and> uri_cached (snd (snd x)) s) \<and> resolved env jwt (Some a) pol x) (\<lambda>_. tv_inv env)"
    unfolding discover_cached_def
    apply (rule triple_sbnd [OF get_disco_response_inv [OF assms]], rule triple_pre)
    subgoal for d
      apply (rule triple_sbnd [where R = "\<lambda>uri s. tv_inv env s \<and> ?d d uri"], rule triple_slift)
        apply (simp add: uri_checks_ok, simp)
      apply (rule triple_pre, rule triple_sbnd [OF get_cached_jwks_inv [OF assms]])
      subgoal for uri r
        apply (rule triple_sbnd [where R = "\<lambda>_ s. tv_inv_at env uri s \<and> jwks_from env uri r"], rule triple_slift)
          apply (auto simp: validate_jwks_response_ok has_keys_def)[2]
        apply (rule triple_pre,
            rule triple_sbnd [where R = "\<lambda>x s. tv_inv_at env uri s \<and>
              extract_jwt_header_fields (jl_header (te_lib env)) jwt = Inr x"], rule triple_slift)
          apply (simp, simp)
        apply (rule triple_pre, rule triple_pair)
        subgoal for x kid alg
          apply (rule triple_conseq [where P = "tv_inv_at env uri" and E = "\<lambda>_. tv_inv_at env uri"
              and Q = "\<lambda>x s. tv_inv_at env uri s \<and> resolved env jwt (Some a) pol x \<and> snd (snd x) = d"])
             apply (rule triple_sbnd [OF keeps_pure(2)],
              rule triple_sbnd [where R = "\<lambda>r s. tv_inv_at env uri s \<and> jwks_from env uri r"])
              apply (rule triple_if, rule kid_miss_refresh_inv [OF assms], assumption, rule triple_sret, simp)
             apply (rule triple_pre,
              rule triple_sbnd [OF select_key_from [where P = "tv_inv_at env uri" and d = d and uri = uri and jwt = jwt]])
                apply (simp, simp, simp)
             apply (rule triple_pre, rule triple_pair, rule triple_sret, force simp: resolved_def)
            apply (auto simp: uri_cached_def)
          done
        done
      done
    done
  then show ?thesis
    using Some by simp
qed

lemma discover_injected_inv:
  "triple (tv_inv env) (discover_injected env jwt addr pol)
     (\<lambda>x s. tv_inv env s \<and> resolved env jwt addr pol x) (\<lambda>_. tv_inv env)"
proof (cases addr)
  case None
  then show ?thesis
    by (simp add: triple_def discover_injected_def maybe_warn_injected_http_client_def sbnd_def slift_def supd_def)
next
  case (Some a)
  let ?I = "tv_inv env"
  let ?d = "\<lambda>d uri. disco_from env a pol d \<and> d_is_successful d \<and> jget (d_attrs d) ''jwks_uri'' = JStr uri"
  have "triple ?I (discover_injected env jwt (Some a) pol)
     (\<lambda>x s. ?I s \<and> resolved env jwt (Some a) pol x) (\<lambda>_. ?I)"
    unfolding discover_injected_def option.case Let_def
    apply (rule triple_sbnd [where R = "\<lambda>_. ?I"])
     apply (simp add: triple_def maybe_warn_injected_http_client_def supd_def)
    apply (rule triple_sbnd [where R = "\<lambda>w s. ?I s \<and> disco_from env a pol (get_discovery_document w a (Some pol))"],
        rule triple_next_world, simp, rule triple_pre)
    subgoal for _ w
      apply (rule triple_sbnd [where R = "\<lambda>uri s. ?I s \<and> ?d (get_discovery_document w a (Some pol)) uri"],
          rule triple_slift)
        apply (simp add: uri_checks_ok, simp)
      apply (rule triple_pre)
      subgoal for uri
        apply (rule triple_sbnd [where R = "\<lambda>w' s. ?I s \<and> jwks_from env uri (get_jwks w' uri (Some pol))"],
            rule triple_next_world, simp, rule triple_pre, rule triple_sbnd [OF keeps_pure(2)],
            rule triple_sbnd [where R = "\<lambda>x s. ?I s \<and>
              extract_jwt_header_fields (jl_header (te_lib env)) jwt = Inr x"], rule triple_slift)
          apply (simp, simp)
        apply (rule triple_pre, rule triple_pair, 
            rule triple_sbnd [OF select_key_from [where P = ?I and uri = uri and jwt = jwt
                and d = "get_discovery_document w a (Some pol)"]])
           apply (simp, simp, simp)
        apply (rule triple_pre, rule triple_pair, rule triple_sret, force simp: resolved_def)
        done
      done
    done
  then show ?thesis
    using Some by simp
qed

text \<open>What a returned set of claims went through after the key was resolved.\<close>

definition decoded_under ::
  "'pk tv_env \<Rightarrow> string \<Rightarrow> token_validation_config \<Rightarrow> disco_response \<Rightarrow> json dict \<Rightarrow> bool" where
  "decoded_under env jwt c d claims \<longleftrightarrow>
     (\<exists>key a c'. key_from env jwt d key a \<and> build_resolved_config c key a = Inr c'
        \<and> decode_with_config (te_lib env) jwt c' (jget (d_attrs d) ''issuer'') = Inr claims)"

lemma decode_with_keys_from:
  assumes "jget (d_attrs d) ''jwks_uri'' = JStr uri" "jwks_from env uri r" "d_is_successful d"
  shows "triple P (decode_with_keys env jwt c d r) (\<lambda>claims s. P s \<and> decoded_under env jwt c d claims) (\<lambda>_. P)"
  unfolding decode_with_keys_def
  apply (rule triple_sbnd [where R = "\<lambda>x s. P s \<and>
      extract_jwt_header_fields (jl_header (te_lib env)) jwt = Inr x"], rule triple_slift)
    apply (simp, simp)
  apply (rule triple_pre, rule triple_pair, rule triple_sbnd [OF select_key_from [where P = P, OF assms(1,2)]])
   apply simp
  apply (rule triple_pre, rule triple_pair)
  subgoal for _ kid alg _ key a
    apply (rule triple_sbnd [where R = "\<lambda>c' s. P s \<and> build_resolved_config c key a = Inr c'"], rule triple_slift)
      apply (simp, simp)
    apply (rule triple_pre, rule triple_sbnd [where R = "\<lambda>iss s. P s \<and> iss = jget (d_attrs d) ''issuer''"],
        rule triple_slift)
      apply (simp add: disco_get_def guarded_get_def assms(3) disco_attr_names_def, simp)
    apply (rule triple_pre, rule triple_slift)
     apply (auto simp: decoded_under_def)
    done
  done

lemma retry_inv:
  assumes "settings_ok (te_settings env)"
  shows "triple (\<lambda>s. tv_inv env s \<and> (\<not> injected \<longrightarrow> uri_cached d s))
           (retry_with_refreshed_jwks env jwt c d injected)
           (\<lambda>claims s. tv_inv env s \<and> decoded_under env jwt c d claims) (\<lambda>_. tv_inv env)"
proof -
  let ?pol = "resolve_discovery_policy (cfg_discovery_policy c) (cfg_require_https c)"
  show ?thesis
    unfolding retry_with_refreshed_jwks_def Let_def
    apply (rule triple_sbnd [where R = "\<lambda>uri s. (tv_inv env s \<and> (\<not> injected \<longrightarrow> jwks_cached uri s))
        \<and> d_is_successful d \<and> jget (d_attrs d) ''jwks_uri'' = JStr uri"], rule triple_slift)
      apply (simp add: retry_uri_ok uri_cached_def, simp)
    apply (rule triple_pre, rule triple_if)
    subgoal for uri
      apply (rule triple_sbnd [where R = "\<lambda>w s. tv_inv env s \<and> jwks_from env uri (get_jwks w uri (Some ?pol))"],
          rule triple_next_world, simp, rule triple_pre, rule triple_sbnd [OF keeps_pure(2)])
      apply (rule decode_with_keys_from; simp)
      done
    subgoal for uri
      apply (rule triple_conseq [where P = "tv_inv_at env uri" and E = "\<lambda>_. tv_inv_at env uri"
          and Q = "\<lambda>claims s. tv_inv_at env uri s \<and> decoded_under env jwt c d claims"])
         apply (rule triple_sbnd [OF may_refresh_inv], rule triple_if, rule triple_slift, simp, simp)
         apply (rule triple_sbnd [OF refresh_jwks_inv [OF assms]], rule triple_pre, rule triple_pair,
          rule triple_sbnd [OF keeps_pure(2)])
      subgoal for _ _ r ret
        apply (rule triple_sbnd [where R = "\<lambda>claims s. tv_inv_at env uri s \<and> decoded_under env jwt c d claims"])
         apply (rule triple_scatch, rule decode_with_keys_from, simp, simp, simp)
         apply (rule triple_sbnd [where R = "\<lambda>_. tv_inv_at env uri"], intro triple_if keeps_pure stamp_inv,
            rule triple_slift, simp, simp)
        apply (rule triple_pre,
            rule triple_sbnd [where R = "\<lambda>_. tv_inv_at env uri"], intro triple_if keeps_pure unstamp_inv,
            rule triple_sret, simp)
        done
        apply auto
      done
    done
qed

lemma validate_with_discovery_inv:
  assumes "settings_ok (te_settings env)"
  shows "triple (tv_inv env) (validate_with_discovery env jwt c addr injected)
           (\<lambda>claims s. tv_inv env s \<and> (\<exists>a d. addr = Some a \<and> d_is_successful d
              \<and> disco_from env a (resolve_discovery_policy (cfg_discovery_policy c) (cfg_require_https c)) d
              \<and> decoded_under env jwt c d claims)) (\<lambda>_. tv_inv env)"
proof -
  let ?pol = "resolve_discovery_policy (cfg_discovery_policy c) (cfg_require_https c)"
  let ?J = "\<lambda>d s. tv_inv env s \<and> (\<not> injected \<longrightarrow> uri_cached d s)"
  have disc: "triple (tv_inv env) (discover_and_resolve_key env jwt addr injected ?pol)
      (\<lambda>x s. ?J (snd (snd x)) s \<and> resolved env jwt addr ?pol x) (\<lambda>_. tv_inv env)"
    unfolding discover_and_resolve_key_def
    by (rule triple_if)
       (auto intro: triple_conseq [OF discover_injected_inv] triple_conseq [OF discover_cached_inv [OF assms]])
  show ?thesis
    unfolding validate_with_discovery_def
    apply (rule triple_sbnd [OF disc], rule triple_pre, rule triple_pair, rule triple_pair)
    subgoal for x key y a d
      apply (rule triple_sbnd [where R = "\<lambda>c' s. ?J d s \<and> build_resolved_config c key a = Inr c'"], rule triple_slift)
        apply (simp, simp)
      apply (rule triple_pre)
      apply (rule triple_conseq [where P = "?J d" and E = "\<lambda>_. tv_inv env"
          and Q = "\<lambda>claims s. tv_inv env s \<and> decoded_under env jwt c d claims"])
         apply (rule triple_scatch [where R = "\<lambda>_. ?J d"])
          apply (rule triple_sbnd [where R = "\<lambda>iss s. ?J d s \<and> iss = jget (d_attrs d) ''issuer''"], rule triple_slift)
            apply (simp add: disco_get_def guarded_get_def resolved_def disco_attr_names_def, simp)
          apply (rule triple_pre, rule triple_slift)
           apply (force simp: decoded_under_def resolved_def, simp)
         apply (rule triple_if, rule retry_inv [OF assms], rule triple_slift, simp, simp)
        apply (auto simp: resolved_def)
      done
    done
qed

text \<open>
  The triple of \<open>validate_token\<close>: the invariant is kept on every path, and the claims it returns
  have gone through every check.
\<close>

definition accepted ::
  "'pk tv_env \<Rightarrow> string \<Rightarrow> token_validation_config \<Rightarrow> string option \<Rightarrow> json dict \<Rightarrow> bool" where
  "accepted env jwt c addr claims \<longleftrightarrow>
     validate_token_config c = Inr () \<and> validate_claims claims c = Inr ()
     \<and> (if perform_disco c
        then (\<exists>a d. addr = Some a \<and> d_is_successful d
              \<and> disco_from env a (resolve_discovery_policy (cfg_discovery_policy c) (cfg_require_https c)) d
              \<and> decoded_under env jwt c d claims)
        else decode_with_config (te_lib env) jwt c JNull = Inr claims)"

lemma validate_token_triple:
  assumes "settings_ok (te_settings env)"
  shows "triple (tv_inv env) (validate_token env jwt c addr injected)
           (\<lambda>claims s. tv_inv env s \<and> accepted env jwt c addr claims) (\<lambda>_. tv_inv env)"
  unfolding validate_token_def
  apply (rule triple_sbnd [where R = "\<lambda>_ s. tv_inv env s \<and> validate_token_config c = Inr ()"], rule triple_slift)
    apply (simp, simp)
  apply (rule triple_pre)
  apply (rule triple_sbnd [where R = "\<lambda>claims s. tv_inv env s \<and>
        (if perform_disco c
        then (\<exists>a d. addr = Some a \<and> d_is_successful d
              \<and> disco_from env a (resolve_discovery_policy (cfg_discovery_policy c) (cfg_require_https c)) d
              \<and> decoded_under env jwt c d claims)
        else decode_with_config (te_lib env) jwt c JNull = Inr claims)"])
   apply (rule triple_if)
    apply (rule triple_conseq [OF validate_with_discovery_inv [OF assms]], simp_all)[1]
   apply (rule triple_slift, auto simp: res_splits)[1]
  apply (rule triple_pre)
  apply (rule triple_sbnd [where R = "\<lambda>_ s. tv_inv env s \<and> validate_claims x c = Inr ()" for x], rule triple_slift)
    apply (simp, simp)
  apply (rule triple_pre, rule triple_sret, simp add: accepted_def)
  done

section \<open>The cooldown\<close>

definition forced_refreshes :: "string \<Rightarrow> tv_state \<Rightarrow> fetch_event list" where
  "forced_refreshes uri s =
     filter (\<lambda>ev. case ev of JwksRefresh u _ \<Rightarrow> u = uri | _ \<Rightarrow> False) (fetch_log s)"

text \<open>No forced refresh of \<open>uri\<close> since the log was \<open>L\<close>; and the stamp that keeps it so.\<close>

definition unrefreshed :: "string \<Rightarrow> fetch_event list \<Rightarrow> tv_state \<Rightarrow> bool" where
  "unrefreshed uri L s \<longleftrightarrow> forced_refreshes uri s = L"

definition stamped :: "string \<Rightarrow> fetch_event list \<Rightarrow> rat \<Rightarrow> tv_state \<Rightarrow> bool" where
  "stamped uri L t s \<longleftrightarrow> unrefreshed uri L s \<and> map_of (kid_miss_last_attempt s) uri = Some t \<and> dict_ok (jwks_cache s)"

lemma unrefreshed_upd [simp]:
  "unrefreshed uri L (s\<lparr>ticks := n\<rparr>) = unrefreshed uri L s"
  "unrefreshed uri L (s\<lparr>disco_cache := dc\<rparr>) = unrefreshed uri L s"
  "unrefreshed uri L (s\<lparr>jwks_cache := jc\<rparr>) = unrefreshed uri L s"
  "unrefreshed uri L (s\<lparr>kid_miss_last_attempt := cd\<rparr>) = unrefreshed uri L s"
  "unrefreshed uri L (s\<lparr>warning_emitted := b\<rparr>) = unrefreshed uri L s"
  "unrefreshed uri L (s\<lparr>fetch_log := DiscoFetch a # fetch_log s\<rparr>) = unrefreshed uri L s"
  "unrefreshed uri L (s\<lparr>fetch_log := JwksFetch u # fetch_log s\<rparr>) = unrefreshed uri L s"
  "u \<noteq> uri \<Longrightarrow> unrefreshed uri L (s\<lparr>fetch_log := JwksRefresh u t # fetch_log s\<rparr>) = unrefreshed uri L s"
  by (simp_all add: unrefreshed_def forced_refreshes_def)

lemma stamped_upd [simp]:
  "stamped uri L t (s\<lparr>ticks := n\<rparr>) = stamped uri L t s"
  "stamped uri L t (s\<lparr>disco_cache := dc\<rparr>) = stamped uri L t s"
  "stamped uri L t (s\<lparr>fetch_log := DiscoFetch a # fetch_log s\<rparr>) = stamped uri L t s"
  "stamped uri L t (s\<lparr>fetch_log := JwksFetch u # fetch_log s\<rparr>) = stamped uri L t s"
  by (simp_all add: stamped_def)

lemma unrefreshed_outcome [simp]: "unrefreshed uri L (apply_jwks_outcome env u r now s) = unrefreshed uri L s"
  by (simp add: apply_jwks_outcome_def split: prod.split)

lemma own_stamp_not_evicted:
  assumes "dict_ok c" "1 \<le> m"
  shows "k \<notin> set (snd (cache_store m k e c))"
proof -
  let ?c = "dict_pop k c @ [(k, e)]" and ?j = "Suc (length (dict_pop k c)) - nat m"
  have "take ?j ?c = take ?j (dict_pop k c)"
    using assms(2) by simp
  then show ?thesis
    using assms set_take_subset [of ?j "dict_pop k c"]
    by (auto simp: cache_store_def enforce_size_limit_closed set_dict_pop)
qed

lemma stamped_outcome:
  assumes "settings_ok (te_settings env)" "stamped uri L t s"
  shows "stamped uri L t (apply_jwks_outcome env uri r now s)"
proof (cases rule: apply_jwks_outcome_cases [where st = "te_settings env" and uri = uri and r = r
      and now = now and c = "jwks_cache s" and cd = "kid_miss_last_attempt s"])
  case retain
  then show ?thesis using assms(2) by (simp add: apply_jwks_outcome_def)
next
  case store
  then show ?thesis
    using assms(2) settings_max_pos [OF assms(1)]
    by (simp add: apply_jwks_outcome_def Let_def stamped_def drop_cooldowns_get own_stamp_not_evicted dict_ok_store)
qed

lemma stamped_touch: "stamped uri L t s \<Longrightarrow> stamped uri L t (s\<lparr>jwks_cache := touch_cache_entry u (jwks_cache s)\<rparr>)"
  by (simp add: stamped_def dict_ok_touch)

lemma stamped_fetches:
  assumes "settings_ok (te_settings env)"
  shows "keeps (stamped uri L t) (disco_hit env key)" "keeps (stamped uri L t) (fetch_disco env a pol)"
    "keeps (stamped uri L t) (jwks_hit env uri)" "keeps (stamped uri L t) (fetch_jwks env uri pol)"
proof -
  show "keeps (stamped uri L t) (disco_hit env key)" "keeps (stamped uri L t) (jwks_hit env uri)"
    by (rule tripleI; auto simp: disco_hit_eq jwks_hit_eq Let_def split: option.splits if_splits
        intro: stamped_touch [of _ _ _ "s\<lparr>ticks := n\<rparr>" for s n, simplified])+
  show "keeps (stamped uri L t) (fetch_disco env a pol)"
    by (rule tripleI; auto simp: fetch_disco_eq Let_def)
  show "keeps (stamped uri L t) (fetch_jwks env uri pol)"
    by (rule tripleI; auto simp: fetch_jwks_eq Let_def intro!: stamped_outcome [OF assms])
qed

lemma keeps_or_else: "\<lbrakk>keeps P hit; keeps P m\<rbrakk> \<Longrightarrow> keeps P (or_else hit m)"
  unfolding or_else_def by (intro triple_intros)

lemma stamped_get_disco:
  "settings_ok (te_settings env) \<Longrightarrow> keeps (stamped uri L t) (get_disco_response env addr pol)"
  unfolding get_disco_response_def Let_def
  by (intro triple_intros keeps_or_else stamped_fetches)

lemma stamped_get_jwks:
  "settings_ok (te_settings env) \<Longrightarrow> keeps (stamped uri L t) (get_cached_jwks env uri pol)"
  unfolding get_cached_jwks_def by (intro keeps_or_else stamped_fetches)

text \<open>While the cooldown runs, a refresh is not attempted when there are cached keys.\<close>

definition cooling :: "'pk tv_env \<Rightarrow> rat \<Rightarrow> bool" where
  "cooling env t \<longleftrightarrow> (\<forall>n. te_clock env n - t < s_cooldown (te_settings env))"

lemma may_refresh_cooling:
  "cooling env t \<Longrightarrow> triple (stamped uri L t) (may_refresh env uri True) (\<lambda>go s. stamped uri L t s \<and> \<not> go) (\<lambda>_. stamped uri L t)"
  unfolding may_refresh_def
  by (rule triple_sbnd [where R = "\<lambda>now s. stamped uri L t s \<and> now - t < s_cooldown (te_settings env)"],
      rule triple_monotonic, simp add: cooling_def, rule triple_sget)
     (auto simp: should_attempt_kid_miss_refresh_def stamped_def)

lemma kid_miss_cooling:
  assumes "cooling env t" "validate_jwks_response cached = Inr ()"
  shows "keeps (stamped uri L t) (kid_miss_refresh env uri pol kid cached)"
proof -
  have ks: "\<exists>k l. keys_or_empty cached = Inr (k # l)"
    using assms(2) by (auto simp: validate_jwks_response_ok keys_or_empty_def jwks_get_keys_def guarded_get_def)
  show ?thesis
    unfolding kid_miss_refresh_def
    apply (rule triple_sbnd [where R = "\<lambda>ks s. stamped uri L t s \<and> (ks \<noteq> []) = True"], rule triple_slift)
      apply (use ks in auto)[2]
    apply (rule triple_pre, simp only:)
    apply (rule triple_sbnd [OF may_refresh_cooling [OF assms(1)]], rule triple_pre, simp)
    apply (rule triple_sret, simp)
    done
qed

lemmas log_defs = next_world_def monotonic_def supd_def

lemma unrefreshed_ops:
  "keeps (unrefreshed uri L) (monotonic env)"
  "keeps (unrefreshed uri L) (next_world env (DiscoFetch a))"
  "keeps (unrefreshed uri L) (next_world env (JwksFetch u))"
  "u \<noteq> uri \<Longrightarrow> keeps (unrefreshed uri L) (next_world env (JwksRefresh u t))"
  "keeps (unrefreshed uri L) (disco_hit env key)" "keeps (unrefreshed uri L) (jwks_hit env u)"
  "keeps (unrefreshed uri L) (supd (apply_jwks_outcome env u r now))"
  "keeps (unrefreshed uri L) (supd (\<lambda>s. s\<lparr>disco_cache := f s\<rparr>))"
  "keeps (unrefreshed uri L) (supd (\<lambda>s. s\<lparr>kid_miss_last_attempt := g s\<rparr>))"
  "keeps (unrefreshed uri L) (supd (\<lambda>s. s\<lparr>warning_emitted := b\<rparr>))"
  by (simp_all add: triple_def log_defs disco_hit_eq jwks_hit_eq Let_def split: option.split)

lemma unrefreshed_refresh: "u \<noteq> uri \<Longrightarrow> keeps (unrefreshed uri L) (refresh_jwks env u pol)"
  unfolding refresh_jwks_def retained_response_def Let_def
  by (intro triple_intros unrefreshed_ops)

lemma unrefreshed_get_jwks: "keeps (unrefreshed uri L) (get_cached_jwks env u pol)"
  unfolding get_cached_jwks_def fetch_jwks_def Let_def by (intro triple_intros keeps_or_else unrefreshed_ops)

lemma unrefreshed_kid_miss: "u \<noteq> uri \<Longrightarrow> keeps (unrefreshed uri L) (kid_miss_refresh env u pol kid cached)"
  unfolding kid_miss_refresh_def may_refresh_def stamp_def unstamp_def
  by (intro triple_intros unrefreshed_ops unrefreshed_refresh)

lemma unrefreshed_decode: "keeps (unrefreshed uri L) (decode_with_keys env jwt c d r)"
  unfolding decode_with_keys_def select_key_def by (intro triple_intros)

lemma unrefreshed_injected: "keeps (unrefreshed uri L) (discover_injected env jwt addr pol)"
  unfolding discover_injected_def maybe_warn_injected_http_client_def select_key_def Let_def
  by (intro triple_intros unrefreshed_ops)

text \<open>
  During the cooldown of \<open>uri\<close>: a call that resolves to another key set does not refresh \<open>uri\<close>, and
  a call that resolves to \<open>uri\<close> finds the gate closed.
\<close>

definition held :: "string \<Rightarrow> fetch_event list \<Rightarrow> rat \<Rightarrow> disco_response \<Rightarrow> tv_state \<Rightarrow> bool" where
  "held uri L t d s \<longleftrightarrow> unrefreshed uri L s \<and> (jget (d_attrs d) ''jwks_uri'' = JStr uri \<longrightarrow> stamped uri L t s)"

lemma stamped_unrefreshed: "stamped uri L t s \<Longrightarrow> unrefreshed uri L s"
  by (simp add: stamped_def)

lemma held_keeps:
  assumes "jget (d_attrs d) ''jwks_uri'' = JStr u"
    and "u = uri \<Longrightarrow> keeps (stamped uri L t) m" and "u \<noteq> uri \<Longrightarrow> keeps (unrefreshed uri L) m"
  shows "triple (held uri L t d) m (\<lambda>_. held uri L t d) (\<lambda>_. unrefreshed uri L)"
proof (cases "u = uri")
  case True
  show ?thesis
    by (rule triple_conseq [OF assms(2) [OF True]]) (auto simp: held_def assms(1) True stamped_unrefreshed)
next
  case False
  show ?thesis
    by (rule triple_conseq [OF assms(3) [OF False]]) (auto simp: held_def assms(1) False)
qed

lemma held_pure:
  "triple (held uri L t d) (slift r) (\<lambda>x s. held uri L t d s \<and> r = Inr x) (\<lambda>_. unrefreshed uri L)"
  by (rule triple_slift) (simp_all add: held_def)

lemma held_select:
  "triple (held uri L t d) (select_key env kid alg r) (\<lambda>_. held uri L t d) (\<lambda>_. unrefreshed uri L)"
  unfolding select_key_def
  by (rule triple_sbnd [where R = "\<lambda>_. held uri L t d"]; rule triple_slift; simp add: held_def)

lemma held_resolve:
  assumes "settings_ok (te_settings env)" "cooling env t" "jget (d_attrs d) ''jwks_uri'' = JStr u"
  shows "triple (held uri L t d)
     (sbnd (get_cached_jwks env u pol) (\<lambda>r.
       sbnd (slift (validate_jwks_response r)) (\<lambda>_.
         sbnd (slift (extract_jwt_header_fields (jl_header (te_lib env)) jwt)) (\<lambda>(kid, alg).
           sbnd (slift (keys_or_empty r)) (\<lambda>cached_keys.
             sbnd (if kid \<noteq> JNull \<and> \<not> has_kid kid cached_keys
                   then kid_miss_refresh env u pol kid r else sret r) (\<lambda>r'.
               sbnd (select_key env kid alg r') (\<lambda>(key, a). sret (key, a, d))))))))
     (\<lambda>x. held uri L t (snd (snd x))) (\<lambda>_. unrefreshed uri L)"
proof -
  have jwks: "triple (held uri L t d) (get_cached_jwks env u pol) (\<lambda>_. held uri L t d) (\<lambda>_. unrefreshed uri L)"
    by (rule held_keeps [OF assms(3)]) (use stamped_get_jwks [OF assms(1)] unrefreshed_get_jwks in auto)
  have miss: "triple (held uri L t d) (kid_miss_refresh env u pol kid r) (\<lambda>_. held uri L t d) (\<lambda>_. unrefreshed uri L)"
    if "validate_jwks_response r = Inr ()" for r kid
    by (rule held_keeps [OF assms(3)]) (use kid_miss_cooling [OF assms(2) that] unrefreshed_kid_miss in auto)
  show ?thesis
    by (rule triple_sbnd [OF jwks], rule triple_sbnd [OF held_pure], rule triple_pre,
        rule triple_sbnd [OF held_pure], rule triple_pre, rule triple_pair, rule triple_sbnd [OF held_pure],
        rule triple_pre, rule triple_sbnd [where R = "\<lambda>_. held uri L t d"], rule triple_if, rule miss, simp,
        rule triple_sret, assumption, rule triple_sbnd [OF held_select], rule triple_pair, rule triple_sret)
       simp
qed

lemma discover_cached_cooling:
  assumes "settings_ok (te_settings env)" "cooling env t"
  shows "triple (stamped uri L t) (discover_cached env jwt addr pol)
           (\<lambda>x. held uri L t (snd (snd x))) (\<lambda>_. unrefreshed uri L)"
proof -
  have disco: "triple (stamped uri L t) (get_disco_response env addr pol) (\<lambda>d. held uri L t d) (\<lambda>_. unrefreshed uri L)"
    by (rule triple_conseq [OF stamped_get_disco [OF assms(1)]]) (auto simp: held_def stamped_unrefreshed)
  show ?thesis
    unfolding discover_cached_def
    by (rule triple_sbnd [OF disco], rule triple_sbnd [OF held_pure], rule triple_pre, rule held_resolve [OF assms])
       (simp add: uri_checks_ok)
qed

lemma retry_cooling:
  assumes "cooling env t"
  shows "triple (\<lambda>s. unrefreshed uri L s \<and> (\<not> injected \<longrightarrow> held uri L t d s))
           (retry_with_refreshed_jwks env jwt c d injected) (\<lambda>_. unrefreshed uri L) (\<lambda>_. unrefreshed uri L)"
proof (cases injected)
  case True
  have "keeps (unrefreshed uri L) (retry_with_refreshed_jwks env jwt c d True)"
    unfolding retry_with_refreshed_jwks_def Let_def
    by (intro triple_intros unrefreshed_ops unrefreshed_decode) simp_all
  then show ?thesis
    using True by simp
next
  case False
  have closed: "triple (stamped uri L t) (sbnd (may_refresh env uri True) (\<lambda>go. if \<not> go then slift (Inl e) else m))
      (\<lambda>_. unrefreshed uri L) (\<lambda>_. unrefreshed uri L)" for e and m :: "json dict tvm"
    by (rule triple_sbnd [OF triple_conseq [OF may_refresh_cooling [OF assms]]], assumption, assumption,
        simp add: stamped_unrefreshed, rule triple_pre, simp, rule triple_slift)
       (simp_all add: stamped_unrefreshed)
  have rest: "keeps (unrefreshed uri L) (sbnd (may_refresh env u True) (\<lambda>go.
           if \<not> go then slift (Inl e)
           else
             sbnd (refresh_jwks env u pol) (\<lambda>(r, from_retained).
               sbnd (slift (validate_jwks_response r)) (\<lambda>_.
                 sbnd (scatch (decode_with_keys env jwt c d r)
                         (\<lambda>e. sbnd (if from_retained then sret () else stamp env u) (\<lambda>_. slift (Inl e)))) (\<lambda>decoded.
                   sbnd (if from_retained then sret () else unstamp u) (\<lambda>_. sret decoded))))))"
    if "u \<noteq> uri" for u e pol
    unfolding may_refresh_def stamp_def unstamp_def
    by (intro triple_intros unrefreshed_ops unrefreshed_refresh unrefreshed_decode that)
  have "triple (held uri L t d) (retry_with_refreshed_jwks env jwt c d False)
      (\<lambda>_. unrefreshed uri L) (\<lambda>_. unrefreshed uri L)"
    unfolding retry_with_refreshed_jwks_def Let_def if_False
    apply (rule triple_sbnd [OF held_pure], rule triple_pre)
    subgoal for u
      by (cases "u = uri")
         (auto simp: retry_uri_ok held_def stamped_unrefreshed intro: triple_conseq [OF closed] triple_conseq [OF rest])
    done
  then show ?thesis
    using False by (simp add: triple_def)
qed

lemma validate_token_cooling:
  assumes "settings_ok (te_settings env)" "cooling env t"
  shows "triple (stamped uri L t) (validate_token env jwt c addr injected)
           (\<lambda>_. unrefreshed uri L) (\<lambda>_. unrefreshed uri L)"
proof -
  let ?pol = "resolve_discovery_policy (cfg_discovery_policy c) (cfg_require_https c)"
  let ?J = "\<lambda>d s. unrefreshed uri L s \<and> (\<not> injected \<longrightarrow> held uri L t d s)"
  have disc: "triple (stamped uri L t) (discover_and_resolve_key env jwt addr injected ?pol)
      (\<lambda>x. ?J (snd (snd x))) (\<lambda>_. unrefreshed uri L)"
    unfolding discover_and_resolve_key_def
    by (rule triple_if, rule triple_conseq [OF unrefreshed_injected [where uri = uri and L = L]],
        simp add: stamped_unrefreshed, simp, simp,
        rule triple_conseq [OF discover_cached_cooling [OF assms, where uri = uri and L = L]])
       (auto simp: held_def)
  have wd: "triple (stamped uri L t) (validate_with_discovery env jwt c addr injected)
      (\<lambda>_. unrefreshed uri L) (\<lambda>_. unrefreshed uri L)"
    unfolding validate_with_discovery_def
    apply (rule triple_sbnd [OF disc], rule triple_pair, rule triple_pair)
    subgoal for x key y a d
      by (rule triple_sbnd [where R = "\<lambda>_. ?J d"], rule triple_slift, simp, simp,
          rule triple_scatch [where R = "\<lambda>_. ?J d"],
          rule triple_sbnd [where R = "\<lambda>_. ?J d"], rule triple_slift, simp, simp, rule triple_slift, simp, simp,
          rule triple_if, rule retry_cooling [OF assms(2)], rule triple_slift)
         simp_all
    done
  show ?thesis
    unfolding validate_token_def
    by (rule triple_sbnd [where R = "\<lambda>_. stamped uri L t"], rule triple_slift, simp, simp add: stamped_unrefreshed,
        rule triple_sbnd [where R = "\<lambda>_. unrefreshed uri L"], rule triple_if, rule wd, rule triple_slift,
        simp add: stamped_unrefreshed, simp add: stamped_unrefreshed, intro triple_intros)
qed

section \<open>A call depends on the clock only where it reads it\<close>

text \<open>
  \<open>reads_only f g m m'\<close>: \<open>m'\<close>, the computation \<open>m\<close> with the clock \<open>g\<close> in place of \<open>f\<close>, does what \<open>m\<close>
  does as soon as the two clocks agree on the readings \<open>m\<close> takes.
\<close>

definition reads_only :: "(nat \<Rightarrow> rat) \<Rightarrow> (nat \<Rightarrow> rat) \<Rightarrow> 'a tvm \<Rightarrow> 'a tvm \<Rightarrow> bool" where
  "reads_only f g m m' \<longleftrightarrow> (\<forall>s. ticks s \<le> ticks (snd (m s))
     \<and> ((\<forall>n. ticks s \<le> n \<and> n < ticks (snd (m s)) \<longrightarrow> f n = g n) \<longrightarrow> m' s = m s))"

named_theorems reads_intros \<open>rules for the readings of the clock\<close>

lemma reads_pure [reads_intros]:
  "reads_only f g (sret x) (sret x)" "reads_only f g (slift r) (slift r)" "reads_only f g (sget h) (sget h)"
  by (simp_all add: reads_only_def stm_simps)

lemma reads_supd: "(\<And>s. ticks (h s) = ticks s) \<Longrightarrow> reads_only f g (supd h) (supd h)"
  by (simp add: reads_only_def stm_simps)

lemma reads_sbnd [reads_intros]:
  assumes "reads_only f g m m'" "\<And>x. reads_only f g (k x) (k' x)"
  shows "reads_only f g (sbnd m k) (sbnd m' k')"
  unfolding reads_only_def
proof (intro allI)
  fix s
  obtain v s1 where m: "m s = (v, s1)" by (cases "m s")
  show "ticks s \<le> ticks (snd (sbnd m k s)) \<and>
    ((\<forall>n. ticks s \<le> n \<and> n < ticks (snd (sbnd m k s)) \<longrightarrow> f n = g n) \<longrightarrow> sbnd m' k' s = sbnd m k s)"
  proof (cases v)
    case (Inl e)
    then show ?thesis using assms(1) m by (auto simp: reads_only_def sbnd_def dest!: spec [of _ s])
  next
    case (Inr x)
    have 1: "ticks s \<le> ticks s1" "(\<forall>n. ticks s \<le> n \<and> n < ticks s1 \<longrightarrow> f n = g n) \<longrightarrow> m' s = m s"
      using assms(1) m by (auto simp: reads_only_def dest!: spec [of _ s])
    have 2: "ticks s1 \<le> ticks (snd (k x s1))"
      "(\<forall>n. ticks s1 \<le> n \<and> n < ticks (snd (k x s1)) \<longrightarrow> f n = g n) \<longrightarrow> k' x s1 = k x s1"
      using assms(2) [of x] by (auto simp: reads_only_def dest!: spec [of _ s1])
    show ?thesis
      using 1 2 by (auto simp: sbnd_def m Inr)
  qed
qed

lemma reads_scatch [reads_intros]:
  assumes "reads_only f g m m'" "\<And>e. reads_only f g (h e) (h' e)"
  shows "reads_only f g (scatch m h) (scatch m' h')"
  unfolding reads_only_def
proof (intro allI)
  fix s
  obtain v s1 where m: "m s = (v, s1)" by (cases "m s")
  show "ticks s \<le> ticks (snd (scatch m h s)) \<and>
    ((\<forall>n. ticks s \<le> n \<and> n < ticks (snd (scatch m h s)) \<longrightarrow> f n = g n) \<longrightarrow> scatch m' h' s = scatch m h s)"
  proof (cases v)
    case (Inr x)
    then show ?thesis using assms(1) m by (auto simp: reads_only_def scatch_def dest!: spec [of _ s])
  next
    case (Inl e)
    have 1: "ticks s \<le> ticks s1" "(\<forall>n. ticks s \<le> n \<and> n < ticks s1 \<longrightarrow> f n = g n) \<longrightarrow> m' s = m s"
      using assms(1) m by (auto simp: reads_only_def dest!: spec [of _ s])
    have 2: "ticks s1 \<le> ticks (snd (h e s1))"
      "(\<forall>n. ticks s1 \<le> n \<and> n < ticks (snd (h e s1)) \<longrightarrow> f n = g n) \<longrightarrow> h' e s1 = h e s1"
      using assms(2) [of e] by (auto simp: reads_only_def dest!: spec [of _ s1])
    show ?thesis
      using 1 2 by (auto simp: scatch_def m Inl)
  qed
qed

lemma reads_branches [reads_intros]:
  "\<lbrakk>b \<Longrightarrow> reads_only f g m m'; \<not> b \<Longrightarrow> reads_only f g k k'\<rbrakk> \<Longrightarrow>
     reads_only f g (if b then m else k) (if b then m' else k')"
  "\<lbrakk>v = None \<Longrightarrow> reads_only f g m m'; \<And>x. v = Some x \<Longrightarrow> reads_only f g (h x) (h' x)\<rbrakk> \<Longrightarrow>
     reads_only f g (case v of None \<Rightarrow> m | Some x \<Rightarrow> h x) (case v of None \<Rightarrow> m' | Some x \<Rightarrow> h' x)"
  "\<lbrakk>\<And>x y. p = (x, y) \<Longrightarrow> reads_only f g (q x y) (q' x y)\<rbrakk> \<Longrightarrow>
     reads_only f g (case p of (x, y) \<Rightarrow> q x y) (case p of (x, y) \<Rightarrow> q' x y)"
  by (auto split: option.split prod.split)

abbreviation with_clock :: "'pk tv_env \<Rightarrow> (nat \<Rightarrow> rat) \<Rightarrow> 'pk tv_env" where
  "with_clock env g \<equiv> env\<lparr>te_clock := g\<rparr>"

lemma reads_ops [reads_intros]:
  "reads_only (te_clock env) g (monotonic env) (monotonic (with_clock env g))"
  "reads_only f g (next_world env ev) (next_world (with_clock env g) ev)"
  by (simp_all add: reads_only_def monotonic_def next_world_def)

lemma apply_jwks_outcome_clock: "apply_jwks_outcome (with_clock env g) = apply_jwks_outcome env"
  by (intro ext) (simp add: apply_jwks_outcome_def)

lemma apply_jwks_outcome_ticks: "ticks (apply_jwks_outcome env uri r now s) = ticks s"
  by (simp add: apply_jwks_outcome_def split: prod.split)

lemma with_clock_sel:
  "te_settings (with_clock env g) = te_settings env" "te_worlds (with_clock env g) = te_worlds env"
  "te_lib (with_clock env g) = te_lib env"
  by simp_all

lemma reads_writes [reads_intros]:
  "reads_only f g (supd (apply_jwks_outcome env uri r now)) (supd (apply_jwks_outcome env uri r now))"
  "reads_only f g (supd (\<lambda>s. s\<lparr>disco_cache := dc s\<rparr>)) (supd (\<lambda>s. s\<lparr>disco_cache := dc s\<rparr>))"
  "reads_only f g (supd (\<lambda>s. s\<lparr>jwks_cache := jc s\<rparr>)) (supd (\<lambda>s. s\<lparr>jwks_cache := jc s\<rparr>))"
  "reads_only f g (supd (\<lambda>s. s\<lparr>kid_miss_last_attempt := kc s\<rparr>)) (supd (\<lambda>s. s\<lparr>kid_miss_last_attempt := kc s\<rparr>))"
  "reads_only f g (supd (\<lambda>s. s\<lparr>warning_emitted := b\<rparr>)) (supd (\<lambda>s. s\<lparr>warning_emitted := b\<rparr>))"
  by (rule reads_supd, simp add: apply_jwks_outcome_ticks)+

lemmas reads_defs = Let_def apply_jwks_outcome_clock with_clock_sel or_else_def disco_hit_def fetch_disco_def
  jwks_hit_def fetch_jwks_def retained_response_def may_refresh_def stamp_def unstamp_def select_key_def
  maybe_warn_injected_http_client_def decode_with_keys_def

lemma reads_fetches [reads_intros]:
  "reads_only (te_clock env) g (get_disco_response env addr pol) (get_disco_response (with_clock env g) addr pol)"
  "reads_only (te_clock env) g (get_cached_jwks env uri pol) (get_cached_jwks (with_clock env g) uri pol)"
  "reads_only (te_clock env) g (refresh_jwks env uri pol) (refresh_jwks (with_clock env g) uri pol)"
  unfolding get_disco_response_def get_cached_jwks_def refresh_jwks_def reads_defs by (intro reads_intros)+

lemma reads_resolve [reads_intros]:
  "reads_only (te_clock env) g (kid_miss_refresh env uri pol kid r) (kid_miss_refresh (with_clock env g) uri pol kid r)"
  "reads_only (te_clock env) g (discover_injected env jwt addr pol) (discover_injected (with_clock env g) jwt addr pol)"
  "reads_only (te_clock env) g (retry_with_refreshed_jwks env jwt c d injected)
     (retry_with_refreshed_jwks (with_clock env g) jwt c d injected)"
  unfolding kid_miss_refresh_def discover_injected_def retry_with_refreshed_jwks_def reads_defs
  by (intro reads_intros)+

lemma reads_discover [reads_intros]:
  "reads_only (te_clock env) g (discover_cached env jwt addr pol) (discover_cached (with_clock env g) jwt addr pol)"
  unfolding discover_cached_def reads_defs by (intro reads_intros)

lemma reads_validate_token:
  "reads_only (te_clock env) g (validate_token env jwt c addr injected) (validate_token (with_clock env g) jwt c addr injected)"
  unfolding validate_token_def validate_with_discovery_def discover_and_resolve_key_def reads_defs
  by (intro reads_intros)

lemma validate_token_clock:
  "\<forall>n. ticks s \<le> n \<and> n < ticks (snd (validate_token env jwt c addr injected s)) \<longrightarrow> te_clock env n = g n \<Longrightarrow>
     validate_token (with_clock env g) jwt c addr injected s = validate_token env jwt c addr injected s"
  using reads_validate_token unfolding reads_only_def by blast

section \<open>Reachable states\<close>

text \<open>The public operations of the module, one call after the other.\<close>

inductive tv_step :: "'pk tv_env \<Rightarrow> tv_state \<Rightarrow> tv_state \<Rightarrow> bool" for env where
  validate: "tv_step env s (snd (validate_token env jwt c addr injected s))"
| clear_disco: "tv_step env s (snd (clear_discovery_cache s))"
| clear_jwks: "tv_step env s (snd (clear_jwks_cache s))"
| reset_warning: "tv_step env s (snd (reset_injected_http_client_warning_for_testing s))"

inductive_cases tv_stepE: "tv_step env s s'"

inductive tv_reachable :: "'pk tv_env \<Rightarrow> tv_state \<Rightarrow> bool" for env where
  init: "tv_reachable env tv_init"
| step: "\<lbrakk>tv_reachable env s; tv_step env s s'\<rbrakk> \<Longrightarrow> tv_reachable env s'"

lemma validate_token_inv:
  "settings_ok (te_settings env) \<Longrightarrow> keeps (tv_inv env) (validate_token env jwt c addr injected)"
  by (rule triple_conseq [OF validate_token_triple]) auto

lemma tv_step_inv:
  assumes "settings_ok (te_settings env)" "tv_step env s s'" "tv_inv env s"
  shows "tv_inv env s'"
  using assms(2,3)
proof (cases rule: tv_step.cases)
  case (validate jwt c addr injected)
  then show ?thesis
    using keepsD [OF validate_token_inv [OF assms(1)] assms(3)] by simp
qed (use settings_max_pos [OF assms(1)] in \<open>auto simp: tv_inv_def clear_discovery_cache_def clear_jwks_cache_def
      reset_injected_http_client_warning_for_testing_def supd_def clear_cache_locked_def cache_ok_def stamps_ok_def
      dict_ok_def\<close>)

lemma tv_reachable_inv: "\<lbrakk>settings_ok (te_settings env); tv_reachable env s\<rbrakk> \<Longrightarrow> tv_inv env s"
proof -
  assume ok: "settings_ok (te_settings env)" and "tv_reachable env s"
  from this(2) show "tv_inv env s"
    by (induction rule: tv_reachable.induct) (auto intro: tv_inv_init [OF ok] tv_step_inv [OF ok])
qed

section \<open>Properties\<close>

definition example_env :: "unit tv_env" where
  "example_env =
     \<lparr>te_settings = \<lparr>s_env_ttl = 86400, s_disco_env_ttl = 3600, s_cooldown = 5, s_max_entries = 2\<rparr>,
      te_clock = (\<lambda>n. of_nat n), te_worlds = (\<lambda>_. example_world), te_lib = example_lib\<rparr>"

lemma example_env_settings: "settings_ok (te_settings example_env)"
  by (simp add: example_env_def settings_ok_def)

lemma example_policy: "resolve_discovery_policy None True = default_policy"
  by (simp add: resolve_discovery_policy_def default_policy_def)

definition example_state :: tv_state where
  "example_state = snd (validate_token example_env ''token'' (default_config True) (Some example_address) False tv_init)"

lemma get_disco_miss:
  "map_of (disco_cache s) (a, cache_key pol) = None \<Longrightarrow> get_disco_response env (Some a) pol s = fetch_disco env a pol s"
  by (simp add: get_disco_response_def or_else_def sbnd_def disco_hit_eq Let_def)

lemma get_jwks_miss:
  "map_of (jwks_cache s) uri = None \<Longrightarrow> get_cached_jwks env uri pol s = fetch_jwks env uri pol s"
  by (simp add: get_cached_jwks_def or_else_def sbnd_def jwks_hit_eq)

lemma example_env_sel [simp]:
  "te_worlds example_env n = example_world" "te_lib example_env = example_lib"
  by (simp_all add: example_env_def)

lemma example_resolve:
  "bnd (validate_disco_response (build_discovery_response example_document None))
     (\<lambda>_. bnd (validate_jwks_uri (build_discovery_response example_document None)) (jwks_uri_arg True)) = Inr example_jwks_uri"
  "disco_get (build_discovery_response example_document None) ''issuer'' = Inr (JStr ''https://op.example'')"
  "extract_jwt_header_fields (jl_header example_lib) ''token'' = Inr (JStr ''k1'', JStr ''RS256'')"
  "has_kid (JStr ''k1'') [projr (jwks_from_dict example_jwk_dict)]"
  "find_key_by_kid (JStr ''k1'') [projr (jwks_from_dict example_jwk_dict)] (JStr ''RS256'') = Inr (example_jwk_dict, JStr ''RS256'')"
  "decode_with_config example_lib ''token''
     ((default_config True)\<lparr>cfg_key := Some (KeyDict example_jwk_dict), algorithms := Some [JStr ''RS256'']\<rparr>)
     (JStr ''https://op.example'') = Inr example_claims"
  by code_simp+

lemma example_config:
  "build_resolved_config (default_config True) key a =
     Inr ((default_config True)\<lparr>cfg_key := Some (KeyDict key), algorithms := Some [a]\<rparr>)"
  "validate_token_config (default_config True) = Inr ()" "perform_disco (default_config True)"
  "resolve_discovery_policy (cfg_discovery_policy (default_config True)) (cfg_require_https (default_config True)) = default_policy"
  "validate_claims cl (default_config True) = Inr ()"
  by (simp_all add: build_resolved_config_def default_config_def validate_token_config_def validate_issuer_list_def validate_leeway_def
      example_policy validate_claims_def)

lemma example_run:
  "validate_token example_env ''token'' (default_config True) (Some example_address) False tv_init = (Inr example_claims, example_state)"
proof -
  let ?r = "\<lparr>j_is_successful = True, j_error = None, j_keys = Some [projr (jwks_from_dict example_jwk_dict)], j_cache_control = None\<rparr>"
  have v: "validate_jwks_response ?r = Inr ()" "keys_or_empty ?r = Inr [projr (jwks_from_dict example_jwk_dict)]"
    by (simp_all add: validate_jwks_response_def jwks_get_keys_def guarded_get_def keys_or_empty_def)
  have "fst (discover_cached example_env ''token'' (Some example_address) default_policy tv_init) =
      Inr (example_jwk_dict, JStr ''RS256'', build_discovery_response example_document None)"
    by (simp add: discover_cached_def sbnd_def get_disco_miss tv_init_def fetch_disco_eq example_discovery slift_def
        example_resolve Let_def get_jwks_miss fetch_jwks_eq example_jwks_eq v select_key_def sret_def)
  then have "fst (validate_token example_env ''token'' (default_config True) (Some example_address) False tv_init) = Inr example_claims"
    by (cases "discover_cached example_env ''token'' (Some example_address) default_policy tv_init")
       (simp add: validate_token_def example_config sbnd_def slift_def validate_with_discovery_def
        discover_and_resolve_key_def scatch_def example_resolve sret_def)
  then show ?thesis
    unfolding example_state_def by (simp add: prod_eq_iff)
qed

lemma disco_from_issuer:
  assumes "disco_from env a pol d" "d_is_successful d"
  shows "jget (d_attrs d) ''issuer'' \<noteq> JNull"
proof -
  obtain n where d: "d = get_discovery_document (te_worlds env n) a (Some pol)"
    using assms(1) by (auto simp: disco_from_def)
  obtain r doc cc where p: "validate_and_parse_discovery_response r (Some pol) = Inr doc"
    and b: "d = build_discovery_response doc cc"
    using get_discovery_document_ok assms(2) unfolding d by blast
  have "jget doc ''issuer'' \<noteq> JNull"
    using validate_and_parse_ok(2) [OF p]
    by (simp add: validate_required_parameters_def required_params_def Let_def split: if_splits)
  then show ?thesis
    unfolding b by (simp add: build_discovery_response_def jget_def map_of_map_pair disco_attr_names_def)
qed

text \<open>C1: Claims returned in discovery mode come out of \<open>jwt.decode\<close> called with a key that the
  provider served at the \<open>jwks_uri\<close> of a discovery document admitted under exactly the caller's
  policy, the key the token's header designates, of the type its algorithm needs, with only that
  algorithm allowed and the issuer of the document expected; the caller's algorithm list, issuer
  allow-list, subject and claims validator have all been applied. This holds on the cached path, on
  the injected-client path and after a retry with refreshed keys, from every reachable state.\<close>

theorem validate_token_sound:
  assumes "settings_ok (te_settings env)" "tv_reachable env s" "perform_disco c"
    and "validate_token env jwt c addr injected s = (Inr claims, s')"
  shows "\<exists>a d uri r ks k kid alg pk.
    addr = Some a
    \<and> disco_from env a (resolve_discovery_policy (cfg_discovery_policy c) (cfg_require_https c)) d \<and> d_is_successful d
    \<and> jget (d_attrs d) ''jwks_uri'' = JStr uri \<and> jwks_from env uri r \<and> j_is_successful r \<and> j_keys r = Some ks
    \<and> k \<in> set ks \<and> extract_jwt_header_fields (jl_header (te_lib env)) jwt = Inr (kid, alg)
    \<and> (kid \<noteq> JNull \<longrightarrow> py_eq (jwk_kid k) kid) \<and> validate_key_alg_consistency k alg = Inr ()
    \<and> (\<forall>al. algorithms c = Some al \<longrightarrow> json_mem (resolved_alg k alg) al)
    \<and> (\<forall>al. allowed_issuers c = Some al \<longrightarrow> enforce_allowed_issuers (jget (d_attrs d) ''issuer'') al = Inr ())
    \<and> jl_pyjwk (te_lib env) (as_dict k) (resolved_alg k alg) = Inr pk
    \<and> jl_decode (te_lib env) jwt pk
        \<lparr>da_audience = audience c, da_algorithms = [resolved_alg k alg], da_issuer = jget (d_attrs d) ''issuer'',
         da_options = options c, da_leeway = (if leeway c = JNull then JInt 0 else leeway c)\<rparr> = Inr claims
    \<and> (\<forall>s. subject c = Some s \<longrightarrow> jget claims ''sub'' = JStr s) \<and> validate_claims claims c = Inr ()"
proof -
  let ?pol = "resolve_discovery_policy (cfg_discovery_policy c) (cfg_require_https c)"
  have "accepted env jwt c addr claims"
    using triple_Inr [OF validate_token_triple [OF assms(1)] tv_reachable_inv [OF assms(1,2)] assms(4)] by simp
  then obtain a d key al c' where a: "addr = Some a" "disco_from env a ?pol d" "d_is_successful d"
    and kf: "key_from env jwt d key al" and c': "build_resolved_config c key al = Inr c'"
    and dec: "decode_with_config (te_lib env) jwt c' (jget (d_attrs d) ''issuer'') = Inr claims"
    and vc: "validate_claims claims c = Inr ()"
    using assms(3) by (auto simp: accepted_def decoded_under_def)
  obtain uri r ks kid alg where u: "jget (d_attrs d) ''jwks_uri'' = JStr uri" "jwks_from env uri r" "has_keys r"
    "j_keys r = Some ks" "extract_jwt_header_fields (jl_header (te_lib env)) jwt = Inr (kid, alg)"
    and fk: "find_key_by_kid kid ks alg = Inr (key, al)"
    using kf unfolding key_from_def by blast
  obtain k where k: "designated_key kid ks alg = Inr k" "validate_key_alg_consistency k alg = Inr ()"
    "key = as_dict k" "al = resolved_alg k alg"
    using fk by (auto simp: find_key_by_kid_ok)
  have norm: "normalize_verification_key (KeyDict (as_dict k)) = Inr (as_dict k)"
    by (simp add: normalize_verification_key_def as_dict_def)
  have iss: "effective_issuer c' (jget (d_attrs d) ''issuer'') = jget (d_attrs d) ''issuer''"
    using disco_from_issuer [OF a(2,3)] by (simp add: effective_issuer_def)
  have cfg: "cfg_key c' = Some (KeyDict key)" "algorithms c' = Some [al]" "audience c' = audience c"
    "options c' = options c" "leeway c' = leeway c" "subject c' = subject c" "allowed_issuers c' = allowed_issuers c"
    and alg_ok: "\<forall>l. algorithms c = Some l \<longrightarrow> json_mem al l"
    using c' by (auto simp: build_resolved_config_ok)
  have allow: "\<forall>l. allowed_issuers c = Some l \<longrightarrow> enforce_allowed_issuers (jget (d_attrs d) ''issuer'') l = Inr ()"
    and dv: "decode_and_validate_jwt (te_lib env) jwt (KeyDict key) [al] (audience c) (jget (d_attrs d) ''issuer'')
       (options c) (leeway c) (subject c) = Inr claims"
    using decode_with_config_ok [OF dec] by (auto simp: cfg iss)
  obtain pk where "jl_pyjwk (te_lib env) (as_dict k) al = Inr pk"
    "jl_decode (te_lib env) jwt pk \<lparr>da_audience = audience c, da_algorithms = [al], da_issuer = jget (d_attrs d) ''issuer'',
       da_options = options c, da_leeway = (if leeway c = JNull then JInt 0 else leeway c)\<rparr> = Inr claims"
    "\<forall>s. subject c = Some s \<longrightarrow> jget claims ''sub'' = JStr s"
    using decode_and_validate_jwt_ok [OF dv] norm k(3) by auto
  then show ?thesis
    using a u k alg_ok allow vc designated_key_member [OF k(1)]
    by (intro exI [of _ a] exI [of _ d] exI [of _ uri] exI [of _ r] exI [of _ ks] exI [of _ k] exI [of _ kid]
        exI [of _ alg] exI [of _ pk]) (auto simp: has_keys_def)
qed

theorem validate_token_sound_witness:
  "\<exists>d. disco_from example_env example_address default_policy d \<and> d_is_successful d"
  using validate_token_sound [OF example_env_settings tv_reachable.init _ example_run] example_config by auto

text \<open>C5: In every reachable state both caches are dictionaries of at most the configured number of
  entries; a cached key set has at least one key and came from a fetch of its own address; a
  cached discovery document was admitted under the policy of its key and was allowed to be cached;
  every lifetime is between a minute and a day; and there is no cooldown stamp without a cached
  key set, so the stamps are bounded as well.\<close>

theorem reachable_caches_sound:
  assumes "settings_ok (te_settings env)" "tv_reachable env s"
  shows "int (length (jwks_cache s)) \<le> s_max_entries (te_settings env)
    \<and> int (length (disco_cache s)) \<le> s_max_entries (te_settings env)
    \<and> int (length (kid_miss_last_attempt s)) \<le> s_max_entries (te_settings env)
    \<and> dict_ok (jwks_cache s) \<and> dict_ok (disco_cache s)
    \<and> set (dict_keys (kid_miss_last_attempt s)) \<subseteq> set (dict_keys (jwks_cache s))
    \<and> (\<forall>(uri, e) \<in> set (jwks_cache s). jwks_from env uri (e_response e) \<and> has_keys (e_response e)
         \<and> 60 \<le> e_ttl e \<and> e_ttl e \<le> 86400)
    \<and> (\<forall>((a, pk), e) \<in> set (disco_cache s).
         (\<exists>pol. cache_key pol = pk \<and> disco_from env a pol (e_response e)) \<and> d_is_successful (e_response e)
         \<and> \<not> is_uncacheable (d_cache_control (e_response e)) \<and> 60 \<le> e_ttl e \<and> e_ttl e \<le> 86400)"
proof -
  have inv: "tv_inv env s"
    by (rule tv_reachable_inv [OF assms])
  have st: "stamps_ok (jwks_cache s) (kid_miss_last_attempt s)"
    using inv by (simp add: tv_inv_def)
  have "length (dict_keys (kid_miss_last_attempt s)) \<le> length (dict_keys (jwks_cache s))"
    using st inv card_mono [of "set (dict_keys (jwks_cache s))" "set (dict_keys (kid_miss_last_attempt s))"]
    unfolding stamps_ok_def tv_inv_def cache_ok_def dict_ok_def by (metis List.finite_set distinct_card)
  then show ?thesis
    using inv st
    by (auto simp: tv_inv_def cache_ok_def stamps_ok_def jwks_entry_ok_def disco_entry_ok_def ttl_ok_def)
qed

theorem reachable_caches_sound_witness:
  "int (length (jwks_cache example_state)) \<le> 2"
proof -
  have "tv_step example_env tv_init example_state"
    unfolding example_state_def by (rule tv_step.validate)
  then have "tv_reachable example_env example_state"
    by (rule tv_reachable.step [OF tv_reachable.init])
  from reachable_caches_sound [OF example_env_settings this] show ?thesis
    by (simp add: example_env_def)
qed

text \<open>C7: The discovery cache never crosses policies: the document a caller gets for an address under
  a policy, fresh or cached, was fetched from that address and validated under exactly that
  policy, in every reachable state.\<close>

theorem discovery_cache_respects_policy:
  assumes "settings_ok (te_settings env)" "tv_reachable env s"
    and "get_disco_response env (Some a) pol s = (Inr d, s')"
  shows "\<exists>n. d = get_discovery_document (te_worlds env n) a (Some pol)"
  using triple_Inr [OF get_disco_response_inv [OF assms(1)] tv_reachable_inv [OF assms(1,2)] assms(3)]
  by (simp add: disco_from_def)

theorem discovery_cache_respects_policy_witness:
  "\<exists>n. build_discovery_response example_document None =
     get_discovery_document (te_worlds example_env n) example_address (Some default_policy)"
proof -
  have "\<exists>s'. get_disco_response example_env (Some example_address) default_policy tv_init =
      (Inr (build_discovery_response example_document None), s')"
    by (simp add: get_disco_miss tv_init_def fetch_disco_eq example_discovery Let_def)
  then show ?thesis
    using discovery_cache_respects_policy [OF example_env_settings tv_reachable.init] by blast
qed


text \<open>A provider under attack: the clock advances strictly and stays below one second.\<close>

definition attack_env :: "unit tv_env" where
  "attack_env = example_env\<lparr>te_clock := (\<lambda>n. 1 - 1 / (of_nat n + 1))\<rparr>"

definition attack_state :: tv_state where
  "attack_state = snd (validate_token attack_env ''forged'' (default_config True) (Some example_address) False tv_init)"

lemma forged_header: "extract_jwt_header_fields (jl_header example_lib) ''forged'' = Inr (JStr ''zz'', JStr ''RS256'')"
  "\<not> has_kid (JStr ''zz'') [projr (jwks_from_dict example_jwk_dict)]"
  "find_key_by_kid (JStr ''zz'') [projr (jwks_from_dict example_jwk_dict)] (JStr ''RS256'') =
     Inl (no_matching_kid_exn (JStr ''zz'') [projr (jwks_from_dict example_jwk_dict)])"
  by code_simp+

lemma attack_env_sel [simp]:
  "te_worlds attack_env n = example_world" "te_lib attack_env = example_lib"
  "te_settings attack_env = te_settings example_env" "te_clock attack_env n = 1 - 1 / (of_nat n + 1)"
  by (simp_all add: attack_env_def)

lemma attack_stamp: "map_of (kid_miss_last_attempt attack_state) example_jwks_uri = Some (1 - 1 / 6)"
proof -
  let ?r = "\<lparr>j_is_successful = True, j_error = None, j_keys = Some [projr (jwks_from_dict example_jwk_dict)], j_cache_control = None\<rparr>"
  have v: "validate_jwks_response ?r = Inr ()" "keys_or_empty ?r = Inr [projr (jwks_from_dict example_jwk_dict)]"
    by (simp_all add: validate_jwks_response_def jwks_get_keys_def guarded_get_def keys_or_empty_def)
  have o: "apply_jwks_outcome attack_env example_jwks_uri ?r now s =
      s\<lparr>jwks_cache := [(example_jwks_uri, \<lparr>e_response = ?r, e_cached_at = now, e_ttl = 86400\<rparr>)],
        kid_miss_last_attempt := []\<rparr>"
    if "jwks_cache s = [] \<or> (\<exists>e. jwks_cache s = [(example_jwks_uri, e)])" "kid_miss_last_attempt s = []" for s now
    using that by (auto simp: apply_jwks_outcome_def apply_jwks_cache_outcome_def is_uncacheable_for_jwks_def
        example_env_def cache_store_def resolve_ttl_def parse_max_age_def drop_cooldowns_def)
  show ?thesis
    unfolding attack_state_def validate_token_def validate_with_discovery_def discover_and_resolve_key_def
    by (simp add: discover_cached_def sbnd_def get_disco_miss tv_init_def fetch_disco_eq example_discovery slift_def
        example_resolve example_config forged_header Let_def get_jwks_miss fetch_jwks_eq example_jwks_eq v o
        kid_miss_refresh_def may_refresh_def monotonic_def sget_def should_attempt_kid_miss_refresh_def
        refresh_jwks_def next_world_def supd_def retained_response_def sret_def stamp_def select_key_def)
qed


end
