(* ===== verification/Hashing.thy ===== *)
theory Hashing
  imports Py_Values "HOL-Library.Word"
begin

text \<open>
  The functions of the standard library the token profiles hash with: SHA-256, SHA-384 and
  SHA-512 of \<open>hashlib\<close> and the unpadded URL-safe base64 of \<open>base64\<close>. A byte is an integer from
  0 to 255. The compression functions work on 32-bit and 64-bit words with wrap-around addition.
\<close>

unbundle bit_operations_syntax

type_synonym byte_list = "int list"

definition bytes_ok :: "byte_list \<Rightarrow> bool" where
  "bytes_ok bs = list_all (\<lambda>b. 0 \<le> b \<and> b < 256) bs"

section \<open>Big-endian words\<close>

definition be_value :: "byte_list \<Rightarrow> int" where
  "be_value bs = foldl (\<lambda>n b. 256 * n + b) 0 bs"

primrec be_bytes :: "nat \<Rightarrow> int \<Rightarrow> byte_list" where
  "be_bytes 0 n = []"
| "be_bytes (Suc k) n = be_bytes k (n div 256) @ [n mod 256]"

function chunks :: "nat \<Rightarrow> 'a list \<Rightarrow> 'a list list" where
  "chunks n xs = (if n = 0 \<or> xs = [] then [] else take n xs # chunks n (drop n xs))"
  by pat_completeness auto
termination
  by (relation "measure (\<lambda>(n, xs). length xs)") auto

declare chunks.simps [simp del]

section \<open>The compression function\<close>

text \<open>
  The parameters of a member of the family: the rotations of the two big and the two small
  sigma functions (the last of a small one is a shift), the round constants and the block size.
\<close>

record 'w sha2 =
  big0 :: "nat \<times> nat \<times> nat"
  big1 :: "nat \<times> nat \<times> nat"
  small0 :: "nat \<times> nat \<times> nat"
  small1 :: "nat \<times> nat \<times> nat"
  round_constants :: "'w list"
  word_bytes :: nat

definition big_sigma :: "nat \<times> nat \<times> nat \<Rightarrow> 'a::len word \<Rightarrow> 'a word" where
  "big_sigma r x = (case r of (a, b, c) \<Rightarrow> word_rotr a x XOR word_rotr b x XOR word_rotr c x)"

definition small_sigma :: "nat \<times> nat \<times> nat \<Rightarrow> 'a::len word \<Rightarrow> 'a word" where
  "small_sigma r x = (case r of (a, b, c) \<Rightarrow> word_rotr a x XOR word_rotr b x XOR drop_bit c x)"

text \<open>The message schedule, newest word first.\<close>

primrec extend_schedule :: "'a::len word sha2 \<Rightarrow> nat \<Rightarrow> 'a word list \<Rightarrow> 'a word list" where
  "extend_schedule P 0 ws = ws"
| "extend_schedule P (Suc n) ws =
     extend_schedule P n
       ((small_sigma (small1 P) (ws ! 1) + ws ! 6 + small_sigma (small0 P) (ws ! 14) + ws ! 15) # ws)"

fun sha2_round :: "'a::len word sha2 \<Rightarrow> 'a word \<times> 'a word \<Rightarrow> 'a word list \<Rightarrow> 'a word list" where
  "sha2_round P (k, w) [a, b, c, d, e, f, g, h] =
     (let t1 = h + big_sigma (big1 P) e + ((e AND f) XOR (NOT e AND g)) + k + w;
          t2 = big_sigma (big0 P) a + ((a AND b) XOR (a AND c) XOR (b AND c))
      in [t1 + t2, a, b, c, d + t1, e, f, g])"
| "sha2_round P kw s = s"

definition sha2_block :: "'a::len word sha2 \<Rightarrow> byte_list \<Rightarrow> 'a word list \<Rightarrow> 'a word list" where
  "sha2_block P block h =
     (let m = map (\<lambda>bs. word_of_int (be_value bs)) (chunks (word_bytes P) block);
          ws = rev (extend_schedule P (length (round_constants P) - 16) (rev m))
      in map2 (+) h (fold (sha2_round P) (zip (round_constants P) ws) h))"

text \<open>One bit, zeros, and the length in bits in two words.\<close>

definition sha2_pad :: "nat \<Rightarrow> byte_list \<Rightarrow> byte_list" where
  "sha2_pad wb msg =
     (let block = 16 * wb; used = (length msg + 1 + 2 * wb) mod block;
          zeros = (if used = 0 then 0 else block - used)
      in msg @ [128] @ replicate zeros 0 @ be_bytes (2 * wb) (8 * int (length msg)))"

definition sha2_hash :: "'a::len word sha2 \<Rightarrow> 'a word list \<Rightarrow> byte_list \<Rightarrow> byte_list" where
  "sha2_hash P iv msg =
     concat (map (\<lambda>w. be_bytes (word_bytes P) (uint w))
       (fold (sha2_block P) (chunks (16 * word_bytes P) (sha2_pad (word_bytes P) msg)) iv))"

section \<open>The three members\<close>

definition sha256_params :: "32 word sha2" where
  "sha256_params =
     \<lparr>big0 = (2, 13, 22), big1 = (6, 11, 25), small0 = (7, 18, 3), small1 = (17, 19, 10),
      round_constants =
    [1116352408, 1899447441, 3049323471, 3921009573, 961987163, 1508970993, 2453635748, 2870763221,
     3624381080, 310598401, 607225278, 1426881987, 1925078388, 2162078206, 2614888103, 3248222580,
     3835390401, 4022224774, 264347078, 604807628, 770255983, 1249150122, 1555081692, 1996064986,
     2554220882, 2821834349, 2952996808, 3210313671, 3336571891, 3584528711, 113926993, 338241895,
     666307205, 773529912, 1294757372, 1396182291, 1695183700, 1986661051, 2177026350, 2456956037,
     2730485921, 2820302411, 3259730800, 3345764771, 3516065817, 3600352804, 4094571909, 275423344,
     430227734, 506948616, 659060556, 883997877, 958139571, 1322822218, 1537002063, 1747873779,
     1955562222, 2024104815, 2227730452, 2361852424, 2428436474, 2756734187, 3204031479, 3329325298],
      word_bytes = 4\<rparr>"

definition sha512_params :: "64 word sha2" where
  "sha512_params =
     \<lparr>big0 = (28, 34, 39), big1 = (14, 18, 41), small0 = (1, 8, 7), small1 = (19, 61, 6),
      round_constants =
    [4794697086780616226, 8158064640168781261, 13096744586834688815, 16840607885511220156, 4131703408338449720,
     6480981068601479193, 10538285296894168987, 12329834152419229976, 15566598209576043074, 1334009975649890238,
     2608012711638119052, 6128411473006802146, 8268148722764581231, 9286055187155687089, 11230858885718282805,
     13951009754708518548, 16472876342353939154, 17275323862435702243, 1135362057144423861, 2597628984639134821,
     3308224258029322869, 5365058923640841347, 6679025012923562964, 8573033837759648693, 10970295158949994411,
     12119686244451234320, 12683024718118986047, 13788192230050041572, 14330467153632333762, 15395433587784984357,
     489312712824947311, 1452737877330783856, 2861767655752347644, 3322285676063803686, 5560940570517711597,
     5996557281743188959, 7280758554555802590, 8532644243296465576, 9350256976987008742, 10552545826968843579,
     11727347734174303076, 12113106623233404929, 14000437183269869457, 14369950271660146224, 15101387698204529176,
     15463397548674623760, 17586052441742319658, 1182934255886127544, 1847814050463011016, 2177327727835720531,
     2830643537854262169, 3796741975233480872, 4115178125766777443, 5681478168544905931, 6601373596472566643,
     7507060721942968483, 8399075790359081724, 8693463985226723168, 9568029438360202098, 10144078919501101548,
     10430055236837252648, 11840083180663258601, 13761210420658862357, 14299343276471374635, 14566680578165727644,
     15097957966210449927, 16922976911328602910, 17689382322260857208, 500013540394364858, 748580250866718886,
     1242879168328830382, 1977374033974150939, 2944078676154940804, 3659926193048069267, 4368137639120453308,
     4836135668995329356, 5532061633213252278, 6448918945643986474, 6902733635092675308, 7801388544844847127],
      word_bytes = 8\<rparr>"

definition sha256 :: "byte_list \<Rightarrow> byte_list" where
  "sha256 = sha2_hash sha256_params
    [1779033703, 3144134277, 1013904242, 2773480762, 1359893119, 2600822924, 528734635, 1541459225]"

definition sha384 :: "byte_list \<Rightarrow> byte_list" where
  "sha384 msg = take 48 (sha2_hash sha512_params
    [14680500436340154072, 7105036623409894663, 10473403895298186519, 1526699215303891257,
     7436329637833083697, 10282925794625328401, 15784041429090275239, 5167115440072839076] msg)"

definition sha512 :: "byte_list \<Rightarrow> byte_list" where
  "sha512 = sha2_hash sha512_params
    [7640891576956012808, 13503953896175478587, 4354685564936845355, 11912009170470909681,
     5840696475078001361, 11170449401992604703, 2270897969802886507, 6620516959819538809]"

section \<open>URL-safe base64\<close>

definition b64url_char :: "int \<Rightarrow> char" where
  "b64url_char n =
     (if n < 26 then char_of (65 + n) else if n < 52 then char_of (71 + n)
      else if n < 62 then char_of (n - 4) else if n = 62 then CHR ''-'' else CHR ''_'')"

text \<open>\<open>urlsafe_b64encode(bs).rstrip(b"=")\<close>.\<close>

fun b64url :: "byte_list \<Rightarrow> string" where
  "b64url [] = []"
| "b64url [a] = [b64url_char (a div 4), b64url_char (16 * (a mod 4))]"
| "b64url [a, b] = [b64url_char (a div 4), b64url_char (16 * (a mod 4) + b div 16), b64url_char (4 * (b mod 16))]"
| "b64url (a # b # c # bs) =
     b64url_char (a div 4) # b64url_char (16 * (a mod 4) + b div 16)
       # b64url_char (4 * (b mod 16) + c div 64) # b64url_char (c mod 64) # b64url bs"

definition b64url_val :: "char \<Rightarrow> int" where
  "b64url_val c =
     (if c = CHR ''-'' then 62 else if c = CHR ''_'' then 63
      else if 97 \<le> ord c then ord c - 71 else if 65 \<le> ord c then ord c - 65 else ord c + 4)"

text \<open>The bytes an unpadded text stands for.\<close>

fun b64url_dec :: "string \<Rightarrow> byte_list" where
  "b64url_dec (p # q # r # s # t) =
     [4 * b64url_val p + b64url_val q div 16, 16 * (b64url_val q mod 16) + b64url_val r div 4,
      64 * (b64url_val r mod 4) + b64url_val s] @ b64url_dec t"
| "b64url_dec [p, q, r] =
     [4 * b64url_val p + b64url_val q div 16, 16 * (b64url_val q mod 16) + b64url_val r div 4]"
| "b64url_dec [p, q] = [4 * b64url_val p + b64url_val q div 16]"
| "b64url_dec _ = []"

section \<open>Facts\<close>

lemma length_be_bytes [simp]: "length (be_bytes k n) = k"
  by (induction k arbitrary: n) auto

lemma be_bytes_ok [simp]: "bytes_ok (be_bytes k n)"
  by (induction k arbitrary: n) (auto simp: bytes_ok_def)

lemma be_value_snoc: "be_value (bs @ [b]) = 256 * be_value bs + b"
  by (simp add: be_value_def)

lemma be_value_be_bytes: "be_value (be_bytes k n) = n mod 256 ^ k"
proof (induction k arbitrary: n)
  case (Suc k)
  have "n mod (256 * 256 ^ k) = 256 * (n div 256 mod 256 ^ k) + n mod 256"
    by (rule zmod_zmult2_eq) simp
  then show ?case
    by (simp add: be_value_snoc Suc)
qed (simp add: be_value_def)

lemma length_sha2_round [simp]: "length (sha2_round P kw s) = length s"
  by (cases "(P, kw, s)" rule: sha2_round.cases) (simp_all add: Let_def)

lemma length_sha2_block [simp]: "length (sha2_block P b h) = length h"
proof -
  have "length (fold (sha2_round P) kws h) = length h" for kws
    by (induction kws arbitrary: h) simp_all
  then show ?thesis by (simp add: sha2_block_def Let_def)
qed

lemma length_sha2_hash: "length (sha2_hash P iv msg) = length iv * word_bytes P"
proof -
  have "length (fold (sha2_block P) bs h) = length h" for bs h
    by (induction bs arbitrary: h) simp_all
  then show ?thesis
    by (simp add: sha2_hash_def length_concat comp_def sum_list_triv)
qed

lemma sha2_hash_ok: "bytes_ok (sha2_hash P iv msg)"
  unfolding sha2_hash_def bytes_ok_def list_all_iff set_concat using be_bytes_ok
  by (auto simp: bytes_ok_def list_all_iff)

lemma length_sha [simp]: "length (sha256 msg) = 32" "length (sha384 msg) = 48" "length (sha512 msg) = 64"
  by (simp_all add: sha256_def sha384_def sha512_def length_sha2_hash sha256_params_def sha512_params_def)

lemma bytes_ok_take: "bytes_ok bs \<Longrightarrow> bytes_ok (take n bs)"
  unfolding bytes_ok_def list_all_iff by (blast dest: in_set_takeD)

lemma sha_ok [simp]: "bytes_ok (sha256 msg)" "bytes_ok (sha384 msg)" "bytes_ok (sha512 msg)"
  unfolding sha256_def sha384_def sha512_def by (intro bytes_ok_take sha2_hash_ok)+

text \<open>The padded message is a whole number of blocks.\<close>

lemma length_sha2_pad:
  assumes "0 < wb"
  shows "(16 * wb) dvd length (sha2_pad wb msg)"
proof -
  let ?n = "length msg + 1 + 2 * wb" and ?b = "16 * wb"
  have len: "length (sha2_pad wb msg) = ?n + (if ?n mod ?b = 0 then 0 else ?b - ?n mod ?b)"
    by (simp add: sha2_pad_def Let_def)
  show ?thesis
  proof (cases "?n mod ?b = 0")
    case False
    have "?n mod ?b < ?b" using assms by (intro mod_less_divisor) simp
    then have "?n + (?b - ?n mod ?b) = ?n div ?b * ?b + ?b"
      using div_mult_mod_eq [of ?n ?b] by linarith
    then have "length (sha2_pad wb msg) = ?n div ?b * ?b + ?b" using False len by simp
    then show ?thesis by simp
  qed (use len in auto)
qed

text \<open>The alphabet is exactly the unreserved characters without the dot and the tilde, and it has no duplicates.\<close>

definition is_b64url_char :: "char \<Rightarrow> bool" where
  "is_b64url_char c \<longleftrightarrow> is_ascii_alpha c \<or> is_ascii_digit c \<or> c \<in> {CHR ''-'', CHR ''_''}"

lemma sextet: "\<lbrakk>0 \<le> n; n < 64\<rbrakk> \<Longrightarrow> n \<in> set (map int [0..<64])" for n :: int
  by (auto simp: image_iff intro: bexI [of _ "nat n"])

lemma b64url_table:
  "list_all (\<lambda>n. b64url_val (b64url_char n) = n \<and> is_b64url_char (b64url_char n)) (map int [0..<64])"
  by code_simp

lemma b64url_val_char [simp]: "\<lbrakk>0 \<le> n; n < 64\<rbrakk> \<Longrightarrow> b64url_val (b64url_char n) = n"
  and is_b64url_char_char [simp]: "\<lbrakk>0 \<le> n; n < 64\<rbrakk> \<Longrightarrow> is_b64url_char (b64url_char n)"
  using b64url_table sextet unfolding list_all_iff by blast+

lemma sextet_head: "\<lbrakk>0 \<le> a; a < 256\<rbrakk> \<Longrightarrow> 0 \<le> a div 4 \<and> a div 4 < 64" for a :: int
  by linarith

lemma sextet_second: "\<lbrakk>0 \<le> b; b < 256\<rbrakk> \<Longrightarrow> 0 \<le> 16 * (a mod 4) + b div 16 \<and> 16 * (a mod 4) + b div 16 < 64" for a b :: int
  using pos_mod_sign [of 4 a] pos_mod_bound [of 4 a] by linarith

lemma sextet_third: "\<lbrakk>0 \<le> c; c < 256\<rbrakk> \<Longrightarrow> 0 \<le> 4 * (b mod 16) + c div 64 \<and> 4 * (b mod 16) + c div 64 < 64" for b c :: int
  using pos_mod_sign [of 16 b] pos_mod_bound [of 16 b] by linarith

lemma sextet_tail: "16 * (a mod 4) < 64" "4 * (a mod 16) < 64" for a :: int
  using pos_mod_bound [of 4 a] pos_mod_bound [of 16 a] by linarith+

lemmas sextets = sextet_head sextet_second sextet_third sextet_tail

lemma b64url_alphabet: "bytes_ok bs \<Longrightarrow> list_all is_b64url_char (b64url bs)"
  by (induction bs rule: b64url.induct) (simp_all add: bytes_ok_def sextets)

lemma b64url_length: "length (b64url bs) = (4 * length bs + 2) div 3"
  by (induction bs rule: b64url.induct) auto

lemma nibble: "\<lbrakk>0 \<le> b; b < 256\<rbrakk> \<Longrightarrow> b div 16 div 16 = 0 \<and> b div 16 mod 16 = b div 16" for b :: int
  using div_pos_pos_trivial [of "b div 16" 16] mod_pos_pos_trivial [of "b div 16" 16] by linarith

lemma crumb: "\<lbrakk>0 \<le> c; c < 256\<rbrakk> \<Longrightarrow> c div 64 div 4 = 0 \<and> c div 64 mod 4 = c div 64" for c :: int
  using div_pos_pos_trivial [of "c div 64" 4] mod_pos_pos_trivial [of "c div 64" 4] by linarith

lemma b64url_roundtrip: "bytes_ok bs \<Longrightarrow> b64url_dec (b64url bs) = bs"
proof (induction bs rule: b64url.induct)
  case (2 a)
  then show ?case by (simp add: bytes_ok_def sextets)
next
  case (3 a b)
  then show ?case by (simp add: bytes_ok_def sextets nibble crumb)
next
  case (4 a b c bs)
  then show ?case by (simp add: bytes_ok_def sextets nibble crumb)
qed simp

lemma b64url_inj: "\<lbrakk>bytes_ok x; bytes_ok y; b64url x = b64url y\<rbrakk> \<Longrightarrow> x = y"
  using b64url_roundtrip by metis

end
