(* ===== verification/Token_Profiles.thy ===== *)
theory Token_Profiles
  imports Token_Validation Hashing
begin

text \<open>
  The token profiles on top of \<open>validate_token\<close>: the composable claims validators of
  \<open>core/claims_validation.py\<close>, the ID token rules of \<open>core/id_token_logic.py\<close> and the logout token
  rules of \<open>core/logout_logic.py\<close>, with their entry points in \<open>sync/id_token.py\<close> and
  \<open>sync/logout.py\<close>. The wall clock \<open>time.time()\<close> is a parameter.
\<close>

section \<open>Showing a value with repr\<close>

definition hex_lower :: "int \<Rightarrow> char" where
  "hex_lower n = (if n < 10 then char_of (48 + n) else char_of (87 + n))"

definition repr_char :: "char \<Rightarrow> char \<Rightarrow> string" where
  "repr_char q c =
     (if c = q \<or> c = CHR 0x5C then [CHR 0x5C, c]
      else if ord c = 9 then [CHR 0x5C, CHR ''t''] else if ord c = 10 then [CHR 0x5C, CHR ''n'']
      else if ord c = 13 then [CHR 0x5C, CHR ''r'']
      else if ord c < 32 \<or> (127 \<le> ord c \<and> ord c \<le> 160) \<or> ord c = 173
      then [CHR 0x5C, CHR ''x'', hex_lower (ord c div 16), hex_lower (ord c mod 16)]
      else [c])"

text \<open>Single quotes unless the text has a single and no double one.\<close>

definition py_repr_str :: "string \<Rightarrow> string" where
  "py_repr_str s =
     (let q = (if CHR 0x27 \<in> set s \<and> CHR 0x22 \<notin> set s then CHR 0x22 else CHR 0x27)
      in q # concat (map (repr_char q) s) @ [q])"

definition py_repr :: "json \<Rightarrow> string" where
  "py_repr j = (case j of JStr s \<Rightarrow> py_repr_str s | _ \<Rightarrow> fmt_json j)"

section \<open>Claims validators\<close>

type_synonym claims_check = "json dict \<Rightarrow> unit res"

fun validate_any :: "claims_check list \<Rightarrow> json dict \<Rightarrow> string list \<Rightarrow> unit res" where
  "validate_any [] claims reasons =
     Inl (claims_validation_exn (''no validator accepted the claims: '' @ py_join ''; '' reasons) None)"
| "validate_any (v # vs) claims reasons =
     (case v claims of
        Inr _ \<Rightarrow> Inr ()
      | Inl e \<Rightarrow> if exn_isinstance e ClaimsValidationError
                 then validate_any vs claims (reasons @ [exn_reason e]) else Inl e)"

definition combine_claims_validators :: "claims_check list \<Rightarrow> string \<Rightarrow> claims_check res" where
  "combine_claims_validators members require =
     (if require \<notin> {''all'', ''any''}
      then Inl (raise_cls ValueError (''require must be 'all' or 'any', got '' @ py_repr_str require))
      else if require = ''any'' \<and> members = []
      then Inl (raise_cls ValueError
             (''combine_claims_validators(require='any') needs at least one ''
              @ ''validator; an empty any-of set rejects every token.''))
      else Inr (\<lambda>claims. if require = ''all'' then for_each (\<lambda>v. v claims) members
                         else validate_any members claims []))"

definition claim_missing :: "json dict \<Rightarrow> string \<Rightarrow> bool" where
  "claim_missing claims name = (jget claims name = JNull)"

definition require_claims :: "string list \<Rightarrow> claims_check res" where
  "require_claims names =
     (if names = [] then Inl (raise_cls ValueError ''require_claims needs at least one claim name'')
      else Inr (\<lambda>claims. for_each (\<lambda>name. guard_raise (claim_missing claims name)
             (claims_validation_exn (''required claim '' @ py_repr_str name @ '' is missing'') (Some name))) names))"

definition require_claim_value :: "string \<Rightarrow> json \<Rightarrow> claims_check" where
  "require_claim_value name value claims =
     guard_raise (\<not> has_key claims name \<or> \<not> py_eq (jget claims name) value)
       (claims_validation_exn (''claim '' @ py_repr_str name @ '' must equal '' @ py_repr value) (Some name))"

text \<open>A list contributes its strings only; every other shape grants nothing.\<close>

definition str_items :: "json list \<Rightarrow> string list" where
  "str_items xs = concat (map (\<lambda>j. case j of JStr s \<Rightarrow> [s] | _ \<Rightarrow> []) xs)"

definition granted_scopes :: "json dict \<Rightarrow> string list" where
  "granted_scopes claims =
     (let raw = jget claims ''scope'';
          raw' = (if raw = JNull \<or> raw = JStr [] then jget claims ''scp'' else raw)
      in case raw' of JStr s \<Rightarrow> py_split_ws s | JList xs \<Rightarrow> str_items xs | _ \<Rightarrow> [])"

definition require_scopes :: "string list \<Rightarrow> claims_check res" where
  "require_scopes scopes =
     (if scopes = [] then Inl (raise_cls ValueError ''require_scopes needs at least one scope'')
      else Inr (\<lambda>claims.
        let granted = granted_scopes claims;
            missing = filter (\<lambda>s. s \<notin> set granted) scopes
        in guard_raise (missing \<noteq> [])
             (claims_validation_exn (''missing required scope(s): '' @ py_join '', '' missing) (Some ''scope''))))"

section \<open>ID tokens\<close>

definition id_token_exn :: "string \<Rightarrow> string \<Rightarrow> exn" where
  "id_token_exn msg part = token_exn IdTokenValidationException msg (Some part) []"

definition EDDSA_ALGS :: "string list" where
  "EDDSA_ALGS = [''EdDSA'', ''Ed25519'']"

definition hash_for_alg :: "json \<Rightarrow> (byte_list \<Rightarrow> byte_list) res" where
  "hash_for_alg alg =
     (if \<not> truthy alg
      then Inl (id_token_exn ''ID token header 'alg' is required to validate at_hash/c_hash'' ''header'')
      else case alg of
        JStr a \<Rightarrow>
          (let n = py_strip a in
           if n \<in> set EDDSA_ALGS then Inr sha512
           else if py_endswith n ''256'' then Inr sha256
           else if py_endswith n ''384'' then Inr sha384
           else if py_endswith n ''512'' then Inr sha512
           else Inl (id_token_exn (''Unsupported ID token 'alg' '' @ py_repr_str a
                       @ '' for at_hash/c_hash validation'') ''header''))
      | _ \<Rightarrow> Inl (raise_cls AttributeError (sq (type_name alg) @ '' object has no attribute '' @ sq ''strip'')))"

definition left_half_hash :: "string \<Rightarrow> json \<Rightarrow> string \<Rightarrow> string res" where
  "left_half_hash value alg field =
     bnd (hash_for_alg alg) (\<lambda>hasher.
       if \<not> py_isascii value
       then Inl (id_token_exn (''ID token '' @ field @ '' must be ASCII to compute its at_hash/c_hash'') ''payload'')
       else let digest = hasher (map ord value)
            in Inr (b64url (take (length digest div 2) digest)))"

text \<open>\<open>hmac.compare_digest\<close> on two \<open>str\<close> accepts ASCII only.\<close>

definition compare_digest :: "string \<Rightarrow> string \<Rightarrow> bool res" where
  "compare_digest a b =
     (if py_isascii a \<and> py_isascii b then Inr (a = b)
      else Inl (raise_cls TypeError ''comparing strings with non-ASCII characters is not supported''))"

definition hashes_equal :: "string \<Rightarrow> string \<Rightarrow> string \<Rightarrow> bool res" where
  "hashes_equal a b field =
     (case compare_digest a b of
        Inr r \<Rightarrow> Inr r
      | Inl e \<Rightarrow>
          if exn_isinstance e TypeError
          then Inl (id_token_exn (''ID token '' @ field @ '' comparison requires ASCII values'') ''payload'')
          else Inl e)"

record id_token_checks =
  it_client_id :: "string option"
  it_nonce :: "string option"
  it_access_token :: "string option"
  it_code :: "string option"
  it_max_age :: "int option"
  it_leeway :: json
  it_now :: rat

definition check_sub :: "json dict \<Rightarrow> unit res" where
  "check_sub claims =
     guard_raise (\<not> truthy (jget claims ''sub''))
       (id_token_exn ''ID token missing required 'sub' claim'' ''payload'')"

definition check_azp :: "json dict \<Rightarrow> string option \<Rightarrow> unit res" where
  "check_azp claims client_id =
     (let azp = jget claims ''azp'' in
      if (case jget claims ''aud'' of JList xs \<Rightarrow> 1 < length xs | _ \<Rightarrow> False) \<and> \<not> truthy azp
      then Inl (id_token_exn ''ID token with multiple audiences must contain an 'azp' claim'' ''payload'')
      else guard_raise (azp \<noteq> JNull \<and> client_id \<noteq> None \<and> azp \<noteq> jopt client_id)
             (id_token_exn ''ID token 'azp' claim does not match the configured client_id'' ''payload''))"

text \<open>A claim that must be a string equal to an expected text.\<close>

definition check_bound_claim :: "json dict \<Rightarrow> string \<Rightarrow> string \<Rightarrow> string \<Rightarrow> unit res" where
  "check_bound_claim claims name expected msg =
     (case jget claims name of
        JStr s \<Rightarrow> bnd (hashes_equal s expected (sq name)) (\<lambda>eq. guard_raise (\<not> eq) (id_token_exn msg ''payload''))
      | _ \<Rightarrow> Inl (id_token_exn msg ''payload''))"

definition check_nonce :: "json dict \<Rightarrow> string option \<Rightarrow> unit res" where
  "check_nonce claims nonce =
     (case nonce of None \<Rightarrow> Inr ()
      | Some n \<Rightarrow> check_bound_claim claims ''nonce'' n ''ID token 'nonce' claim does not match the expected value'')"

text \<open>A number as an operand of float arithmetic: a large integer does not convert.\<close>

definition to_float :: "json \<Rightarrow> pyfloat res" where
  "to_float j =
     (case json_num j of
        None \<Rightarrow> Inl (raise_cls TypeError ''unsupported operand type(s)'')
      | Some (Fin q) \<Rightarrow>
          if float_overflow \<le> \<bar>q\<bar> then Inl (raise_cls OverflowError ''int too large to convert to float'')
          else Inr (Fin q)
      | Some f \<Rightarrow> Inr f)"

fun pf_sub :: "pyfloat \<Rightarrow> pyfloat \<Rightarrow> pyfloat" where
  "pf_sub (Fin a) (Fin b) = float_of_rat (a - b)"
| "pf_sub (Fin a) PosInf = NegInf"
| "pf_sub (Fin a) NegInf = PosInf"
| "pf_sub _ _ = NaN"

text \<open>\<open>max_age + leeway\<close>: an integer sum is exact, a float makes it a float sum.\<close>

definition age_limit :: "int \<Rightarrow> json \<Rightarrow> pyfloat res" where
  "age_limit max_age lee =
     (case lee of
        JFloat f \<Rightarrow> bnd (to_float (JInt max_age)) (\<lambda>m.
          Inr (case (m, f) of (Fin a, Fin b) \<Rightarrow> float_of_rat (a + b) | (_, g) \<Rightarrow> g))
      | _ \<Rightarrow> (case json_num lee of Some (Fin q) \<Rightarrow> Inr (Fin (of_int max_age + q))
              | _ \<Rightarrow> Inl (raise_cls TypeError ''unsupported operand type(s)'')))"

definition check_auth_time :: "json dict \<Rightarrow> int option \<Rightarrow> json \<Rightarrow> rat \<Rightarrow> unit res" where
  "check_auth_time claims max_age lee now =
     (case max_age of None \<Rightarrow> Inr ()
      | Some m \<Rightarrow>
          let auth_time = jget claims ''auth_time'' in
          if json_number auth_time = None
          then Inl (id_token_exn ''ID token missing required numeric 'auth_time' claim for max_age check'' ''payload'')
          else bnd (to_float auth_time) (\<lambda>t.
            bnd (age_limit m lee) (\<lambda>limit.
              guard_raise (pf_less limit (pf_sub (Fin now) t))
                (id_token_exn ''ID token 'auth_time' is older than the permitted max_age'' ''payload''))))"

definition check_token_hash :: "json dict \<Rightarrow> json \<Rightarrow> string option \<Rightarrow> string \<Rightarrow> string \<Rightarrow> string \<Rightarrow> unit res" where
  "check_token_hash claims alg value field name msg =
     (case value of None \<Rightarrow> Inr ()
      | Some v \<Rightarrow> bnd (left_half_hash v alg field) (\<lambda>expected. check_bound_claim claims name expected msg))"

definition validate_id_token_claims :: "json dict \<Rightarrow> json \<Rightarrow> id_token_checks \<Rightarrow> unit res" where
  "validate_id_token_claims claims header_alg k =
     bnd (check_sub claims) (\<lambda>_.
       bnd (check_azp claims (it_client_id k)) (\<lambda>_.
         bnd (check_nonce claims (it_nonce k)) (\<lambda>_.
           bnd (check_auth_time claims (it_max_age k) (it_leeway k) (it_now k)) (\<lambda>_.
             bnd (check_token_hash claims header_alg (it_access_token k) ''access_token'' ''at_hash''
                    ''ID token 'at_hash' claim does not match the access token'') (\<lambda>_.
               check_token_hash claims header_alg (it_code k) ''code'' ''c_hash''
                 ''ID token 'c_hash' claim does not match the authorization code'')))))"

text \<open>
  \<open>sync/id_token.py\<close>: the relying party's bindings are in \<open>k\<close>; client and leeway come from the
  validation configuration.
\<close>

definition validate_id_token ::
  "'pk tv_env \<Rightarrow> string \<Rightarrow> token_validation_config \<Rightarrow> string option \<Rightarrow> bool \<Rightarrow> id_token_checks \<Rightarrow> json dict tvm" where
  "validate_id_token env id_token c addr injected k =
     sbnd (validate_token env id_token c addr injected) (\<lambda>claims.
       sbnd (slift (extract_jwt_header_fields (jl_header (te_lib env)) id_token)) (\<lambda>(kid, alg).
         sbnd (slift (validate_id_token_claims claims alg
                 (k\<lparr>it_client_id := audience c,
                    it_leeway := (if truthy (leeway c) then leeway c else JFloat (Fin 0))\<rparr>))) (\<lambda>_.
           sret claims)))"

section \<open>Logout tokens\<close>

definition logout_token_exn :: "string \<Rightarrow> exn" where
  "logout_token_exn msg = token_exn LogoutTokenValidationException msg (Some ''payload'') []"

definition BACKCHANNEL_LOGOUT_EVENT :: string where
  "BACKCHANNEL_LOGOUT_EVENT = ''http://schemas.openid.net/event/backchannel-logout''"

definition LOGOUT_REQUIRED_CLAIMS :: "string list" where
  "LOGOUT_REQUIRED_CLAIMS = [''iss'', ''aud'', ''iat'', ''jti'', ''events'']"

definition validate_logout_token_claims :: "json dict \<Rightarrow> unit res" where
  "validate_logout_token_claims claims =
     bnd (for_each (\<lambda>n. guard_raise (\<not> has_key claims n)
            (logout_token_exn (''Logout token missing required '' @ sq n @ '' claim''))) LOGOUT_REQUIRED_CLAIMS) (\<lambda>_.
       bnd (guard_raise (has_key claims ''nonce'')
              (logout_token_exn ''Logout token must not contain a 'nonce' claim'')) (\<lambda>_.
         bnd (guard_raise (jget claims ''sub'' = JNull \<and> jget claims ''sid'' = JNull)
                (logout_token_exn (''Logout token must contain at least one of 'sub' or '' @ sq ''sid''))) (\<lambda>_.
           case jget claims ''events'' of
             JDict ev \<Rightarrow> guard_raise (\<not> has_key ev BACKCHANNEL_LOGOUT_EVENT)
               (logout_token_exn (''Logout token 'events' claim must contain the ''
                  @ sq BACKCHANNEL_LOGOUT_EVENT @ '' member''))
           | _ \<Rightarrow> Inl (logout_token_exn ''Logout token 'events' claim must be a JSON object''))))"

definition validate_logout_token ::
  "'pk tv_env \<Rightarrow> string \<Rightarrow> token_validation_config \<Rightarrow> string option \<Rightarrow> bool \<Rightarrow> json dict tvm" where
  "validate_logout_token env logout_token c addr injected =
     sbnd (validate_token env logout_token c addr injected) (\<lambda>claims.
       sbnd (slift (validate_logout_token_claims claims)) (\<lambda>_. sret claims))"

section \<open>Facts\<close>

lemma compare_digest_ok [simp]: "compare_digest a b = Inr r \<longleftrightarrow> py_isascii a \<and> py_isascii b \<and> r = (a = b)"
  by (auto simp: compare_digest_def)

lemma hashes_equal_ok: "hashes_equal a b f = Inr r \<longleftrightarrow> py_isascii a \<and> py_isascii b \<and> r = (a = b)"
  by (auto simp: hashes_equal_def compare_digest_def exn_isinstance_def)

lemma check_bound_claim_ok: "check_bound_claim claims n x msg = Inr () \<longleftrightarrow> jget claims n = JStr x \<and> py_isascii x"
  by (auto simp: check_bound_claim_def hashes_equal_ok res_splits split: json.splits)

lemma check_nonce_ok: "check_nonce claims nonce = Inr () \<longleftrightarrow> (\<forall>n. nonce = Some n \<longrightarrow> jget claims ''nonce'' = JStr n \<and> py_isascii n)"
  by (cases nonce) (simp_all add: check_nonce_def check_bound_claim_ok)

lemma check_azp_ok:
  "check_azp claims cid = Inr () \<longleftrightarrow>
     (\<forall>xs. jget claims ''aud'' = JList xs \<and> 1 < length xs \<longrightarrow> truthy (jget claims ''azp''))
     \<and> (\<forall>c. cid = Some c \<and> jget claims ''azp'' \<noteq> JNull \<longrightarrow> jget claims ''azp'' = JStr c)"
  by (cases "jget claims ''aud''"; cases cid) (auto simp: check_azp_def Let_def jopt_def)

lemma hash_for_alg_ok: "hash_for_alg alg = Inr f \<Longrightarrow> f = sha256 \<or> f = sha384 \<or> f = sha512"
  by (auto simp: hash_for_alg_def Let_def split: json.splits if_splits)

lemma b64url_isascii: "bytes_ok bs \<Longrightarrow> py_isascii (b64url bs)"
proof -
  have "is_b64url_char c \<Longrightarrow> ord c < 128" for c
    by (auto simp: is_b64url_char_def is_ascii_alpha_def is_ascii_digit_def)
  then show "bytes_ok bs \<Longrightarrow> py_isascii (b64url bs)"
    using b64url_alphabet [of bs] by (auto simp: py_isascii_def list_all_iff)
qed

lemma left_half_hash_ok:
  assumes "left_half_hash v alg f = Inr h"
  shows "\<exists>hash. hash_for_alg alg = Inr hash \<and> py_isascii v \<and> bytes_ok (hash (map ord v))
     \<and> h = b64url (take (length (hash (map ord v)) div 2) (hash (map ord v)))"
  using assms hash_for_alg_ok [of alg]
  by (auto simp: left_half_hash_def Let_def res_splits split: if_splits)

lemma check_token_hash_ok:
  "check_token_hash claims alg v f n msg = Inr () \<longleftrightarrow>
     (\<forall>t. v = Some t \<longrightarrow> (\<exists>h. left_half_hash t alg f = Inr h \<and> jget claims n = JStr h))"
proof -
  have "left_half_hash t alg f = Inr h \<Longrightarrow> py_isascii h" for t h
    using left_half_hash_ok [of t alg f h] by (auto intro: b64url_isascii bytes_ok_take)
  then show ?thesis
    by (cases v) (auto simp: check_token_hash_def check_bound_claim_ok res_splits)
qed

lemma validate_id_token_claims_ok:
  "validate_id_token_claims claims alg k = Inr () \<longleftrightarrow>
     check_sub claims = Inr () \<and> check_azp claims (it_client_id k) = Inr () \<and> check_nonce claims (it_nonce k) = Inr ()
     \<and> check_auth_time claims (it_max_age k) (it_leeway k) (it_now k) = Inr ()
     \<and> check_token_hash claims alg (it_access_token k) ''access_token'' ''at_hash''
          ''ID token 'at_hash' claim does not match the access token'' = Inr ()
     \<and> check_token_hash claims alg (it_code k) ''code'' ''c_hash''
          ''ID token 'c_hash' claim does not match the authorization code'' = Inr ()"
  by (auto simp: validate_id_token_claims_def res_splits)

text \<open>The seconds of leeway a valid configuration allows.\<close>

definition leeway_secs :: "json \<Rightarrow> rat" where
  "leeway_secs l = (case json_num l of Some (Fin q) \<Rightarrow> q | _ \<Rightarrow> 0)"

lemma validate_leeway_ok:
  assumes "validate_leeway l = Inr ()"
  shows "l = JNull \<or> (\<exists>i. l = JInt i \<and> 0 \<le> i) \<or> (\<exists>q. l = JFloat (Fin q) \<and> 0 \<le> q)"
proof (cases l)
  case (JFloat f)
  with assms show ?thesis
    by (cases f) (auto simp: validate_leeway_def json_number_def pf_isfinite_def split: if_splits)
qed (use assms in \<open>auto simp: validate_leeway_def json_number_def split: if_splits\<close>)

lemma leeway_secs_nonneg: "validate_leeway l = Inr () \<Longrightarrow> 0 \<le> leeway_secs l"
  using validate_leeway_ok [of l] by (auto simp: leeway_secs_def json_num_def)

lemma age_limit_leeway:
  assumes "validate_leeway l = Inr ()" "0 \<le> m" "of_int m + leeway_secs l < float_overflow"
    "age_limit m (if truthy l then l else JFloat (Fin 0)) = Inr limit"
  shows "limit = Fin (of_int m + leeway_secs l)"
proof -
  have "0 < float_overflow" by (simp add: float_overflow_def)
  then have "- float_overflow < of_int m + q" if "0 \<le> q" for q :: rat
    using that assms(2) by linarith
  then show ?thesis
    using assms(2-4) validate_leeway_ok [OF assms(1)]
    by (auto simp: age_limit_def to_float_def json_num_def leeway_secs_def float_of_rat_def res_splits
        split: if_splits)
qed

lemma check_auth_time_ok:
  assumes "check_auth_time claims (Some m) (if truthy l then l else JFloat (Fin 0)) now = Inr ()"
    and "validate_leeway l = Inr ()" "0 \<le> m" "of_int m + leeway_secs l < float_overflow"
  shows "\<exists>t. json_number (jget claims ''auth_time'') = Some t \<and> (\<forall>q. t = Fin q \<longrightarrow> now - q \<le> of_int m + leeway_secs l)"
proof -
  obtain t t' limit where t: "json_number (jget claims ''auth_time'') = Some t"
    "to_float (jget claims ''auth_time'') = Inr t'" "age_limit m (if truthy l then l else JFloat (Fin 0)) = Inr limit"
    "\<not> pf_less limit (pf_sub (Fin now) t')"
    using assms(1) by (auto simp: check_auth_time_def Let_def res_splits split: if_splits)
  have lim: "limit = Fin (of_int m + leeway_secs l)"
    by (rule age_limit_leeway [OF assms(2-4) t(3)])
  have "now - q \<le> of_int m + leeway_secs l" if "t = Fin q" for q
  proof -
    have "t' = Fin q"
      using t(1,2) that by (auto simp: json_number_def to_float_def json_num_def split: json.splits if_splits)
    then have "\<not> pf_less (Fin (of_int m + leeway_secs l)) (float_of_rat (now - q))"
      using t(4) lim by simp
    moreover have "0 < float_overflow" by (simp add: float_overflow_def)
    ultimately show ?thesis
      using assms(3) leeway_secs_nonneg [OF assms(2)] by (auto simp: float_of_rat_def not_less split: if_splits)
  qed
  then show ?thesis
    using t(1) by blast
qed

lemma validate_token_leeway:
  assumes "validate_token env jwt c addr injected s = (Inr claims, s')"
  shows "validate_leeway (leeway c) = Inr ()"
proof (rule ccontr)
  assume "validate_leeway (leeway c) \<noteq> Inr ()"
  then have "\<exists>e. validate_token_config c = Inl e"
    by (cases "validate_issuer_list (cfg_issuer c)"; cases "validate_leeway (leeway c)")
       (auto simp: validate_token_config_def)
  then show False
    using assms by (auto simp: validate_token_def sbnd_def slift_def)
qed

lemma validate_id_token_ok:
  assumes "validate_id_token env jwt c addr injected k s = (Inr claims, s')"
  shows "\<exists>kid alg. validate_token env jwt c addr injected s = (Inr claims, s')
     \<and> extract_jwt_header_fields (jl_header (te_lib env)) jwt = Inr (kid, alg)
     \<and> validate_id_token_claims claims alg (k\<lparr>it_client_id := audience c,
          it_leeway := (if truthy (leeway c) then leeway c else JFloat (Fin 0))\<rparr>) = Inr ()"
  using assms
  by (auto simp: validate_id_token_def sbnd_def slift_def sret_def split: prod.splits sum.splits)

section \<open>Properties\<close>


definition example_checks :: id_token_checks where
  "example_checks = \<lparr>it_client_id = None, it_nonce = Some ''n-0S6'', it_access_token = None, it_code = None,
     it_max_age = Some 600, it_leeway = JNull, it_now = 1500\<rparr>"

lemma default_config_sel: "audience (default_config b) = None" "leeway (default_config b) = JNull"
  by (simp_all add: default_config_def)

lemma example_id_token_run:
  "validate_id_token example_env ''token'' (default_config True) (Some example_address) False example_checks tv_init =
     (Inr example_claims, example_state)"
proof -
  have "validate_id_token_claims example_claims (JStr ''RS256'')
      (example_checks\<lparr>it_client_id := None, it_leeway := JFloat (Fin 0)\<rparr>) = Inr ()"
    using float_overflow_large
    by (simp add: validate_id_token_claims_ok check_azp_ok check_nonce_ok check_token_hash_ok check_sub_def
        example_checks_def example_claims_def jget_def py_isascii_def check_auth_time_def to_float_def json_num_def
        json_number_def age_limit_def float_of_rat_small)
  moreover have "extract_jwt_header_fields (jl_header (te_lib example_env)) ''token'' = Inr (JStr ''k1'', JStr ''RS256'')"
    by (simp add: example_env_def) code_simp
  ultimately show ?thesis
    by (simp add: validate_id_token_def sbnd_def example_run slift_def sret_def default_config_sel)
qed


text \<open>The hash of the signature algorithms of JOSE, as OpenID Connect Core 3.3.2.11 prescribes it.\<close>

definition JOSE_HASHES :: "(string \<times> (byte_list \<Rightarrow> byte_list)) list" where
  "JOSE_HASHES =
     [(''HS256'', sha256), (''RS256'', sha256), (''ES256'', sha256), (''PS256'', sha256),
      (''HS384'', sha384), (''RS384'', sha384), (''ES384'', sha384), (''PS384'', sha384),
      (''HS512'', sha512), (''RS512'', sha512), (''ES512'', sha512), (''PS512'', sha512),
      (''EdDSA'', sha512), (''Ed25519'', sha512)]"

lemma jose_strip: "list_all (\<lambda>a. py_strip a = a \<and> a \<noteq> []) (map fst JOSE_HASHES)"
  by (simp add: JOSE_HASHES_def) code_simp

lemma jose_hash: "(a, hash) \<in> set JOSE_HASHES \<Longrightarrow> hash_for_alg (JStr a) = Inr hash"
  using jose_strip
  by (auto simp: JOSE_HASHES_def hash_for_alg_def EDDSA_ALGS_def Let_def py_endswith_def py_startswith_def)

text \<open>C15: The \<open>at_hash\<close> and \<open>c_hash\<close> checks accept a token exactly when the claim is the unpadded
  base64url text of the left half of the digest of the ASCII token, under the hash that belongs to
  the signature algorithm; decoding the claim gives those bytes back, so two tokens with different
  half digests never share an accepted claim. The claim has 22, 32 or 43 characters.\<close>

theorem token_hash_binding:
  assumes "(alg, hash) \<in> set JOSE_HASHES"
  shows "check_token_hash claims (JStr alg) (Some v) field name msg = Inr () \<longleftrightarrow>
     py_isascii v \<and> (\<exists>h. jget claims name = JStr h \<and> h = b64url (take (length (hash (map ord v)) div 2) (hash (map ord v)))
       \<and> b64url_dec h = take (length (hash (map ord v)) div 2) (hash (map ord v)) \<and> length h \<in> {22, 32, 43})"
proof -
  note hash = hash_for_alg_ok [OF jose_hash [OF assms]]
  let ?half = "take (length (hash (map ord v)) div 2) (hash (map ord v))"
  have "bytes_ok ?half" "length (b64url ?half) \<in> {22, 32, 43}"
    using hash by (auto simp: b64url_length intro!: bytes_ok_take)
  then show ?thesis
    by (auto simp: check_token_hash_ok left_half_hash_def jose_hash [OF assms] Let_def b64url_roundtrip)
qed

theorem token_hash_binding_witness:
  "check_token_hash [(''at_hash'', JStr ''x'')] (JStr ''RS256'') (Some ''token'') ''access_token'' ''at_hash'' ''m'' \<noteq> Inr ()"
proof -
  have "(''RS256'', sha256) \<in> set JOSE_HASHES"
    by (simp add: JOSE_HASHES_def)
  from token_hash_binding [OF this, of "[(''at_hash'', JStr ''x'')]" "''token''" "''access_token''" "''at_hash''" "''m''"]
  show ?thesis by (auto simp: jget_def)
qed

section \<open>Which exceptions the profile rules raise\<close>

lemma raises_bound_claim: "raises_in {IdTokenValidationException} (check_bound_claim claims n x msg)"
  by (auto simp: check_bound_claim_def hashes_equal_def compare_digest_def id_token_exn_def exn_isinstance_def
      intro!: raises_in_bnd raises_in_guard split: json.split)

lemma raises_left_half:
  "is_str alg \<or> alg = JNull \<Longrightarrow> raises_in {IdTokenValidationException} (left_half_hash v alg f)"
  by (cases alg)
     (auto simp: left_half_hash_def hash_for_alg_def id_token_exn_def Let_def intro!: raises_in_bnd)

lemma raises_auth_time:
  assumes "validate_leeway l = Inr ()" "\<forall>i. jget claims ''auth_time'' = JInt i \<longrightarrow> \<bar>of_int i\<bar> < float_overflow"
    "\<forall>q. jget claims ''auth_time'' = JFloat (Fin q) \<longrightarrow> \<bar>q\<bar> < float_overflow"
    "\<forall>m. max_age = Some m \<longrightarrow> \<bar>of_int m\<bar> < float_overflow"
  shows "raises_in {IdTokenValidationException}
     (check_auth_time claims max_age (if truthy l then l else JFloat (Fin 0)) now)"
proof (cases max_age)
  case (Some m)
  have "\<exists>lim. age_limit m (if truthy l then l else JFloat (Fin 0)) = Inr lim"
    using validate_leeway_ok [OF assms(1)] assms(4) Some
    by (auto simp: age_limit_def to_float_def json_num_def)
  moreover have "\<exists>t. to_float (jget claims ''auth_time'') = Inr t"
    if "json_number (jget claims ''auth_time'') \<noteq> None"
  proof (cases "jget claims ''auth_time''")
    case (JFloat f)
    then show ?thesis
      using assms(3) by (cases f) (auto simp: to_float_def json_num_def)
  qed (use that assms(2) in \<open>auto simp: to_float_def json_num_def json_number_def\<close>)
  ultimately show ?thesis
    using Some by (auto simp: check_auth_time_def Let_def id_token_exn_def guard_raise_def)
qed (simp add: check_auth_time_def)

text \<open>C16: With the header algorithm a string or absent, as every accepted token has it, a valid leeway
  and time stamps in the range of a float, a violated ID token rule raises
  \<open>IdTokenValidationException\<close> and nothing else: non-ASCII tokens, claims of the wrong type and
  unknown algorithms all fail closed under that one class.\<close>

theorem id_token_rule_errors:
  assumes "is_str alg \<or> alg = JNull" "validate_leeway l = Inr ()"
    and "it_leeway k = (if truthy l then l else JFloat (Fin 0))"
    and "\<forall>i. jget claims ''auth_time'' = JInt i \<longrightarrow> \<bar>of_int i\<bar> < float_overflow"
    and "\<forall>q. jget claims ''auth_time'' = JFloat (Fin q) \<longrightarrow> \<bar>q\<bar> < float_overflow"
    and "\<forall>m. it_max_age k = Some m \<longrightarrow> \<bar>of_int m\<bar> < float_overflow"
    and "validate_id_token_claims claims alg k = Inl e"
  shows "exn_class e = IdTokenValidationException"
proof -
  have hash: "raises_in {IdTokenValidationException} (check_token_hash claims alg v f n msg)" for v f n msg
    by (cases v) (auto simp: check_token_hash_def intro!: raises_in_bnd raises_left_half [OF assms(1)] raises_bound_claim)
  have "raises_in {IdTokenValidationException} (check_nonce claims (it_nonce k))"
    by (cases "it_nonce k") (simp_all add: check_nonce_def raises_bound_claim)
  moreover have "raises_in {IdTokenValidationException} (check_azp claims (it_client_id k))"
    "raises_in {IdTokenValidationException} (check_sub claims)"
    by (simp_all add: check_azp_def check_sub_def Let_def id_token_exn_def guard_raise_def)
  ultimately have "raises_in {IdTokenValidationException} (validate_id_token_claims claims alg k)"
    unfolding validate_id_token_claims_def
    using raises_auth_time [OF assms(2,4,5,6), of "it_now k"] assms(3) hash by (auto intro!: raises_in_bnd)
  then show ?thesis
    using assms(7) by simp
qed

theorem id_token_rule_errors_witness:
  "\<exists>e. validate_id_token_claims [] JNull (example_checks\<lparr>it_leeway := JFloat (Fin 0)\<rparr>) = Inl e
     \<and> exn_class e = IdTokenValidationException"
proof -
  let ?k = "example_checks\<lparr>it_leeway := JFloat (Fin 0)\<rparr>"
  have "\<exists>e. validate_id_token_claims [] JNull ?k = Inl e"
    by (simp add: validate_id_token_claims_def check_sub_def jget_def)
  then obtain e where e: "validate_id_token_claims [] JNull ?k = Inl e" by blast
  have "exn_class e = IdTokenValidationException"
    by (rule id_token_rule_errors [where l = JNull, OF _ _ _ _ _ _ e])
       (use float_overflow_large in \<open>auto simp: validate_leeway_def jget_def example_checks_def\<close>)
  then show ?thesis using e by blast
qed

section \<open>Claims validators and logout tokens\<close>

text \<open>A rejection is clean when it is a \<open>ClaimsValidationError\<close>; any other exception ends the search.\<close>

definition clean_reject :: "json dict \<Rightarrow> claims_check \<Rightarrow> bool" where
  "clean_reject claims v \<longleftrightarrow> (\<exists>e. v claims = Inl e \<and> exn_class e = ClaimsValidationError)"

definition any_accepts :: "json dict \<Rightarrow> claims_check list \<Rightarrow> bool" where
  "any_accepts claims vs \<longleftrightarrow>
     (\<exists>i < length vs. (vs ! i) claims = Inr () \<and> (\<forall>j < i. clean_reject claims (vs ! j)))"

lemma any_accepts_simps [simp]:
  "\<not> any_accepts claims []"
  "any_accepts claims (v # vs) \<longleftrightarrow> v claims = Inr () \<or> clean_reject claims v \<and> any_accepts claims vs"
  unfolding any_accepts_def by (simp_all add: Ex_less_Suc2 All_less_Suc2) blast

lemma validate_any_ok: "validate_any vs claims rs = Inr () \<longleftrightarrow> any_accepts claims vs"
  by (induction vs arbitrary: rs) (auto simp: exn_isinstance_def clean_reject_def split: sum.splits)

lemma validate_any_all_reject:
  "\<forall>v \<in> set vs. clean_reject claims v \<Longrightarrow>
     validate_any vs claims rs = Inl (claims_validation_exn (''no validator accepted the claims: ''
       @ py_join ''; '' (rs @ map (\<lambda>v. exn_reason (projl (v claims))) vs)) None)"
  by (induction vs arbitrary: rs) (auto simp: clean_reject_def exn_isinstance_def)

text \<open>A combined validator accepts exactly what it promises: with \<open>all\<close> the claims every member
  accepts; with \<open>any\<close> the claims some member accepts after clean rejections only, and when every
  member rejects cleanly the rejection is a \<open>ClaimsValidationError\<close> that lists the reasons in
  order. A combination that could never accept is refused when it is built.\<close>

theorem combined_validator_semantics:
  assumes "combine_claims_validators vs req = Inr f"
  shows "(req = ''all'' \<longrightarrow> (f claims = Inr () \<longleftrightarrow> (\<forall>v \<in> set vs. v claims = Inr ())))
    \<and> (req \<noteq> ''all'' \<longrightarrow> req = ''any'' \<and> vs \<noteq> []
         \<and> (f claims = Inr () \<longleftrightarrow>
              (\<exists>i < length vs. (vs ! i) claims = Inr () \<and> (\<forall>j < i. clean_reject claims (vs ! j))))
         \<and> ((\<forall>v \<in> set vs. clean_reject claims v) \<longrightarrow>
              f claims = Inl (claims_validation_exn (''no validator accepted the claims: ''
                @ py_join ''; '' (map (\<lambda>v. exn_reason (projl (v claims))) vs)) None)))"
  using assms unfolding any_accepts_def [symmetric]
  by (auto simp: combine_claims_validators_def for_each_ok validate_any_ok validate_any_all_reject split: if_splits)

text \<open>Two ready-made validators: a required claim and a required value.\<close>

theorem combined_validator_semantics_witness:
  "\<exists>f. combine_claims_validators [require_claim_value ''tenant'' (JStr ''a''), require_claim_value ''tenant'' (JStr ''b'')]
         ''any'' = Inr f \<and> f [(''tenant'', JStr ''b'')] = Inr ()"
proof -
  let ?vs = "[require_claim_value ''tenant'' (JStr ''a''), require_claim_value ''tenant'' (JStr ''b'')]"
    and ?claims = "[(''tenant'', JStr ''b'')]"
  obtain f where f: "combine_claims_validators ?vs ''any'' = Inr f"
    by (simp add: combine_claims_validators_def)
  have "clean_reject ?claims (require_claim_value ''tenant'' (JStr ''a''))"
    "require_claim_value ''tenant'' (JStr ''b'') ?claims = Inr ()"
    by (simp_all add: clean_reject_def require_claim_value_def has_key_def jget_def)
  then have "any_accepts ?claims ?vs" by simp
  then show ?thesis
    using combined_validator_semantics [OF f, of ?claims] f by (auto simp: any_accepts_def)
qed

lemma str_items_iff: "s \<in> set (str_items xs) \<longleftrightarrow> JStr s \<in> set xs"
  by (force simp: str_items_def split: json.splits)

text \<open>The scope validator accepts exactly the claims that grant every required scope, where the
  granted scopes are the words of \<open>scope\<close>, or, when that is absent, null or empty, the words or the
  string items of \<open>scp\<close>. A scope claim of any other type grants nothing.\<close>

theorem require_scopes_semantics:
  assumes "require_scopes scopes = Inr f"
  shows "f claims = Inr () \<longleftrightarrow>
     (\<forall>s \<in> set scopes.
        case (if jget claims ''scope'' \<in> {JNull, JStr []} then jget claims ''scp'' else jget claims ''scope'') of
          JStr w \<Rightarrow> s \<in> set (py_split_ws w) | JList xs \<Rightarrow> JStr s \<in> set xs | _ \<Rightarrow> False)"
proof -
  have "s \<in> set (granted_scopes claims) \<longleftrightarrow>
      (case (if jget claims ''scope'' \<in> {JNull, JStr []} then jget claims ''scp'' else jget claims ''scope'') of
         JStr w \<Rightarrow> s \<in> set (py_split_ws w) | JList xs \<Rightarrow> JStr s \<in> set xs | _ \<Rightarrow> False)" for s
    by (auto simp: granted_scopes_def Let_def str_items_iff split: json.splits)
  then show ?thesis
    using assms by (auto simp: require_scopes_def Let_def filter_empty_conv split: if_splits)
qed

theorem require_scopes_semantics_witness:
  "\<exists>f. require_scopes [''read''] = Inr f \<and> f [(''scope'', JStr []), (''scp'', JList [JInt 1, JStr ''read''])] = Inr ()"
proof -
  obtain f where f: "require_scopes [''read''] = Inr f"
    by (simp add: require_scopes_def)
  then show ?thesis
    using require_scopes_semantics [OF f, of "[(''scope'', JStr []), (''scp'', JList [JInt 1, JStr ''read''])]"]
    by (simp add: jget_def)
qed

lemma logout_rules:
  "validate_logout_token_claims claims = Inr () \<longleftrightarrow>
     (\<forall>n \<in> {''iss'', ''aud'', ''iat'', ''jti'', ''events''}. has_key claims n) \<and> \<not> has_key claims ''nonce''
     \<and> (jget claims ''sub'' \<noteq> JNull \<or> jget claims ''sid'' \<noteq> JNull)
     \<and> (\<exists>ev. jget claims ''events'' = JDict ev \<and> has_key ev BACKCHANNEL_LOGOUT_EVENT)"
  by (cases "jget claims ''events''")
     (auto simp: validate_logout_token_claims_def for_each_ok LOGOUT_REQUIRED_CLAIMS_def res_splits)

text \<open>C17: Tokens of one profile cannot be used as the other. An accepted logout token has the five
  mandatory claims, the logout event, a subject or a session and no nonce; claims with these
  properties are rejected as an ID token by every relying party that sent a nonce, with an
  \<open>IdTokenValidationException\<close>.\<close>

theorem logout_token_not_id_token:
  assumes "validate_logout_token env jwt c addr injected s = (Inr claims, s')"
  shows "validate_token env jwt c addr injected s = (Inr claims, s')
    \<and> (\<forall>n \<in> {''iss'', ''aud'', ''iat'', ''jti'', ''events''}. has_key claims n) \<and> \<not> has_key claims ''nonce''
    \<and> (jget claims ''sub'' \<noteq> JNull \<or> jget claims ''sid'' \<noteq> JNull)
    \<and> (\<exists>ev. jget claims ''events'' = JDict ev \<and> has_key ev BACKCHANNEL_LOGOUT_EVENT)
    \<and> (\<forall>alg k. it_nonce k \<noteq> None \<longrightarrow>
         (\<exists>e. validate_id_token_claims claims alg k = Inl e \<and> exn_class e = IdTokenValidationException))"
proof -
  have v: "validate_token env jwt c addr injected s = (Inr claims, s')" and r: "validate_logout_token_claims claims = Inr ()"
    using assms by (auto simp: validate_logout_token_def sbnd_def slift_def sret_def split: prod.splits sum.splits)
  have nn: "jget claims ''nonce'' = JNull"
    using r by (auto simp: logout_rules has_key_def jget_def)
  have "\<exists>e. validate_id_token_claims claims alg k = Inl e \<and> exn_class e = IdTokenValidationException"
    if nonce: "it_nonce k \<noteq> None" for alg k
  proof -
    obtain n where n: "it_nonce k = Some n" using nonce by blast
    have "check_nonce claims (it_nonce k) =
        Inl (id_token_exn ''ID token 'nonce' claim does not match the expected value'' ''payload'')"
      by (simp add: n check_nonce_def check_bound_claim_def nn)
    then show ?thesis
      by (cases "check_sub claims"; cases "check_azp claims (it_client_id k)")
         (auto simp: validate_id_token_claims_def check_sub_def check_azp_def id_token_exn_def Let_def split: if_splits)
  qed
  then have "\<forall>alg k. it_nonce k \<noteq> None \<longrightarrow>
      (\<exists>e. validate_id_token_claims claims alg k = Inl e \<and> exn_class e = IdTokenValidationException)"
    by simp
  then show ?thesis
    using r [unfolded logout_rules] by (elim conjE) (intro conjI v, assumption+)
qed

definition logout_claims :: "json dict" where
  "logout_claims = [(''iss'', JStr ''https://op.example''), (''aud'', JStr ''rp''), (''iat'', JInt 1), (''jti'', JStr ''j''),
     (''sid'', JStr ''s1''), (''events'', JDict [(BACKCHANNEL_LOGOUT_EVENT, JDict [])])]"

definition logout_env :: "unit tv_env" where
  "logout_env = example_env\<lparr>te_lib := example_lib\<lparr>jl_decode := \<lambda>_ _ _. Inr logout_claims\<rparr>\<rparr>"

definition manual_config :: token_validation_config where
  "manual_config = (default_config False)\<lparr>cfg_key := Some (KeyJwk (rsa_key ''k1'')), algorithms := Some [JStr ''RS256'']\<rparr>"

lemma logout_run: "validate_logout_token logout_env ''t'' manual_config None False tv_init = (Inr logout_claims, tv_init)"
proof -
  have c: "perform_disco manual_config = False" "claims_validator manual_config = None"
    by (simp_all add: manual_config_def default_config_def)
  have "validate_token_config manual_config = Inr ()" "validate_config_for_manual_validation manual_config = Inr ()"
    "decode_with_config (example_lib\<lparr>jl_decode := \<lambda>_ _ _. Inr logout_claims\<rparr>) ''t'' manual_config JNull = Inr logout_claims"
    "validate_logout_token_claims logout_claims = Inr ()"
    by code_simp+
  then show ?thesis
    by (simp add: validate_logout_token_def validate_token_def sbnd_def slift_def sret_def c validate_claims_def logout_env_def)
qed

theorem logout_token_not_id_token_witness:
  "\<exists>e. validate_id_token_claims logout_claims (JStr ''RS256'') example_checks = Inl e
     \<and> exn_class e = IdTokenValidationException"
proof -
  have "it_nonce example_checks \<noteq> None" by (simp add: example_checks_def)
  then show ?thesis
    using logout_token_not_id_token [OF logout_run] by blast
qed

text \<open>A time stamp that is not a number passes the freshness check: every comparison with it is false.\<close>

theorem nan_auth_time_accepted:
  "\<bar>of_int m\<bar> < float_overflow \<Longrightarrow> check_auth_time [(''auth_time'', JFloat NaN)] (Some m) (JFloat (Fin 0)) now = Inr ()"
  by (simp add: check_auth_time_def jget_def json_number_def to_float_def json_num_def age_limit_def)

end
