(* ===== verification/Authorize.thy ===== *)
theory Authorize
  imports Token_Profiles
begin

text \<open>
  Authorization requests and callbacks: the URL builders of \<open>core/authorize_url.py\<close> and
  \<open>core/logout_logic.py\<close>, the callback parser of \<open>core/authorize_response.py\<close> and the state and
  issuer checks of \<open>core/state_validation.py\<close>. A field of a parsed callback is a JSON value, since
  the same class also carries the claims of a JARM response.
\<close>

section \<open>Building the URLs\<close>

text \<open>Both builders first cut a fragment off the endpoint.\<close>

definition strip_fragment :: "string \<Rightarrow> (string \<times> parse_result) res" where
  "strip_fragment ep =
     bnd (urlparse ep) (\<lambda>p.
       if fragment p \<noteq> []
       then let ep' = fst (py_partition (CHR ''#'') ep) in bnd (urlparse ep') (\<lambda>p'. Inr (ep', p'))
       else Inr (ep, p))"

definition add_param :: "string \<Rightarrow> string option \<Rightarrow> string dict \<Rightarrow> string dict" where
  "add_param k v d = (case v of None \<Rightarrow> d | Some x \<Rightarrow> dict_set k x d)"

definition dict_update :: "'v dict \<Rightarrow> 'v dict \<Rightarrow> 'v dict" where
  "dict_update d extra = fold (\<lambda>(k, v). dict_set k v) extra d"

definition collisions :: "string list \<Rightarrow> string dict \<Rightarrow> string list" where
  "collisions reserved extra = sort (filter (\<lambda>k. k \<in> set (dict_keys extra)) reserved)"

definition RESERVED_PARAMS :: "string list" where
  "RESERVED_PARAMS = [''client_id'', ''redirect_uri'', ''scope'', ''response_type'', ''state'', ''nonce'',
     ''code_challenge'', ''code_challenge_method'']"

record auth_request =
  ar_endpoint :: string
  ar_client_id :: string
  ar_redirect_uri :: string
  ar_scope :: string
  ar_response_type :: string
  ar_state :: "string option"
  ar_nonce :: "string option"
  ar_code_challenge :: "string option"
  ar_code_challenge_method :: "string option"
  ar_extra :: "string dict"

definition authorization_params :: "auth_request \<Rightarrow> string dict" where
  "authorization_params r =
     dict_update
       (add_param ''code_challenge_method'' (ar_code_challenge_method r)
         (add_param ''code_challenge'' (ar_code_challenge r)
           (add_param ''nonce'' (ar_nonce r)
             (add_param ''state'' (ar_state r)
               [(''client_id'', ar_client_id r), (''redirect_uri'', ar_redirect_uri r), (''scope'', ar_scope r),
                (''response_type'', ar_response_type r)]))))
       (ar_extra r)"

definition build_authorization_url :: "auth_request \<Rightarrow> string res" where
  "build_authorization_url r =
     (if py_strip (ar_endpoint r) = [] then Inl (raise_cls ValueError ''authorization_endpoint must not be empty'')
      else if collisions RESERVED_PARAMS (ar_extra r) \<noteq> []
      then Inl (raise_cls ValueError (''extra_params must not override reserved OAuth parameters: ''
             @ py_join '', '' (collisions RESERVED_PARAMS (ar_extra r))))
      else if (ar_code_challenge r = None) \<noteq> (ar_code_challenge_method r = None)
      then Inl (raise_cls ValueError (''code_challenge and code_challenge_method must both be provided ''
             @ ''or both be omitted (RFC 7636 '' @ [CHR 0xA7] @ ''4.3)''))
      else if ar_code_challenge_method r \<notin> {None, Some ''S256'', Some ''plain''}
      then Inl (raise_cls ValueError (''code_challenge_method must be 'S256' or 'plain', got ''
             @ sq (the (ar_code_challenge_method r))))
      else bnd (strip_fragment (ar_endpoint r)) (\<lambda>(ep, p).
        Inr (ep @ (if query p \<noteq> [] then ''&'' else ''?'') @ urlencode (authorization_params r))))"

definition RESERVED_END_SESSION_PARAMS :: "string list" where
  "RESERVED_END_SESSION_PARAMS = [''id_token_hint'', ''logout_hint'', ''client_id'', ''post_logout_redirect_uri'',
     ''state'', ''ui_locales'']"

record end_session_request =
  es_endpoint :: string
  es_id_token_hint :: "string option"
  es_client_id :: "string option"
  es_post_logout_redirect_uri :: "string option"
  es_state :: "string option"
  es_logout_hint :: "string option"
  es_ui_locales :: "string option"
  es_extra :: "string dict"

definition end_session_params :: "end_session_request \<Rightarrow> string dict" where
  "end_session_params r =
     dict_update
       (add_param ''ui_locales'' (es_ui_locales r)
         (add_param ''state'' (es_state r)
           (add_param ''post_logout_redirect_uri'' (es_post_logout_redirect_uri r)
             (add_param ''client_id'' (es_client_id r)
               (add_param ''logout_hint'' (es_logout_hint r)
                 (add_param ''id_token_hint'' (es_id_token_hint r) []))))))
       (es_extra r)"

definition build_end_session_url :: "end_session_request \<Rightarrow> string res" where
  "build_end_session_url r =
     (if py_strip (es_endpoint r) = [] then Inl (raise_cls ValueError ''end_session_endpoint must not be empty'')
      else if collisions RESERVED_END_SESSION_PARAMS (es_extra r) \<noteq> []
      then Inl (raise_cls ValueError (''extra_params must not override reserved RP-Initiated Logout parameters: ''
             @ py_join '', '' (collisions RESERVED_END_SESSION_PARAMS (es_extra r))))
      else bnd (strip_fragment (es_endpoint r)) (\<lambda>(ep, p).
        let params = end_session_params r; qs = urlencode params in
        if params = [] then Inr ep
        else if py_endswith ep ''?'' \<or> py_endswith ep ''&'' then Inr (ep @ qs)
        else Inr (ep @ (if query p \<noteq> [] then ''&'' else ''?'') @ qs)))"

definition validate_post_logout_state :: "string option \<Rightarrow> string option \<Rightarrow> unit res" where
  "validate_post_logout_state expected returned =
     (if \<not> opt_truthy expected
      then Inl (raise_cls LogoutStateValidationException
             ''Expected logout state is missing or empty (session may have expired)'')
      else if \<not> opt_truthy returned
      then Inl (raise_cls LogoutStateValidationException ''State parameter not present in post-logout redirect'')
      else bnd (compare_digest (the returned) (the expected)) (\<lambda>eq.
        guard_raise (\<not> eq) (raise_cls LogoutStateValidationException ''State parameter does not match expected value'')))"

section \<open>Callbacks\<close>

record callback_response =
  cb_is_successful :: bool
  cb_raw :: string
  cb_values :: "string dict"
  cb_fields :: "json dict"

definition callback_guarded :: "string list" where
  "callback_guarded = [''code'', ''access_token'', ''identity_token'', ''token_type'', ''expires_in'', ''scope'',
     ''refresh_token'', ''session_state'', ''issuer'']"

text \<open>An error text for the messages of the guard.\<close>

definition error_text :: "json \<Rightarrow> string option" where
  "error_text j = (case j of JNull \<Rightarrow> None | _ \<Rightarrow> Some (fmt_json j))"

definition cb_get :: "callback_response \<Rightarrow> string \<Rightarrow> json res" where
  "cb_get r name =
     guarded_get callback_guarded (cb_is_successful r) (error_text (jget (cb_fields r) ''error'')) name
       (jget (cb_fields r) name)"

definition PARAM_TO_FIELD :: "(string \<times> string) list" where
  "PARAM_TO_FIELD =
     [(''code'', ''code''), (''access_token'', ''access_token''), (''id_token'', ''identity_token''),
      (''token_type'', ''token_type''), (''expires_in'', ''expires_in''), (''scope'', ''scope''),
      (''refresh_token'', ''refresh_token''), (''state'', ''state''), (''session_state'', ''session_state''),
      (''iss'', ''issuer''), (''error'', ''error''), (''error_description'', ''error_description'')]"

text \<open>
  \<open>int(v)\<close> with \<open>ValueError\<close> and \<open>TypeError\<close> suppressed (\<open>None\<close>); the \<open>OverflowError\<close> of an
  infinity is not suppressed.
\<close>

definition suppressed_int :: "json \<Rightarrow> int option res" where
  "suppressed_int j =
     (case j of
        JStr s \<Rightarrow> Inr (py_int s)
      | JInt i \<Rightarrow> Inr (Some i)
      | JBool b \<Rightarrow> Inr (Some (if b then 1 else 0))
      | JFloat (Fin q) \<Rightarrow> Inr (Some (if 0 \<le> q then \<lfloor>q\<rfloor> else \<lceil>q\<rceil>))
      | JFloat NaN \<Rightarrow> Inr None
      | JFloat _ \<Rightarrow> Inl (raise_cls OverflowError ''cannot convert float infinity to integer'')
      | _ \<Rightarrow> Inr None)"

fun map_params_loop :: "(string \<times> string) list \<Rightarrow> json dict \<Rightarrow> json dict \<Rightarrow> json dict res" where
  "map_params_loop [] values acc = Inr acc"
| "map_params_loop ((param, field) # ps) values acc =
     (case map_of values param of
        None \<Rightarrow> map_params_loop ps values acc
      | Some v \<Rightarrow>
          if field = ''expires_in''
          then bnd (suppressed_int v) (\<lambda>i.
                 map_params_loop ps values (case i of None \<Rightarrow> acc | Some n \<Rightarrow> acc @ [(field, JInt n)]))
          else map_params_loop ps values (acc @ [(field, v)]))"

definition map_params_to_fields :: "json dict \<Rightarrow> json dict res" where
  "map_params_to_fields values = map_params_loop PARAM_TO_FIELD values []"

definition callback_exn :: "string \<Rightarrow> exn" where
  "callback_exn msg = raise_cls AuthorizeCallbackException msg"

definition first_values :: "string list dict \<Rightarrow> string dict" where
  "first_values d = map (\<lambda>(k, vs). (k, hd vs)) d"

definition parse_authorize_callback_response :: "string \<Rightarrow> callback_response res" where
  "parse_authorize_callback_response uri =
     (if py_strip uri = [] then Inl (callback_exn ''redirect_uri must be a non-empty string'')
      else bnd (urlparse uri) (\<lambda>p.
        if scheme p \<notin> {[], ''https'', ''http''}
        then Inl (callback_exn (''redirect_uri scheme must be http or https, got '' @ sq (scheme p)))
        else
          let values = first_values (parse_qs (if fragment p \<noteq> [] then fragment p else query p)) in
          if values = [] then Inl (callback_exn ''redirect_uri contains no callback parameters'')
          else bnd (map_params_to_fields (map (\<lambda>(k, v). (k, JStr v)) values)) (\<lambda>fields.
            if fields = [] then Inl (callback_exn ''redirect_uri contains no recognized OAuth callback parameters'')
            else Inr \<lparr>cb_is_successful = \<not> has_key fields ''error'', cb_raw = uri, cb_values = values, cb_fields = fields\<rparr>)))"

text \<open>\<open>__repr__\<close>: the fields in declaration order, the sensitive ones redacted.\<close>

definition SENSITIVE_FIELDS :: "string list" where
  "SENSITIVE_FIELDS = [''raw'', ''access_token'', ''code'', ''identity_token'', ''refresh_token'']"

definition repr_part :: "string \<Rightarrow> json \<Rightarrow> string" where
  "repr_part name v =
     (if name \<in> set SENSITIVE_FIELDS \<and> v \<noteq> JNull then name @ ''='' @ sq ''[REDACTED]''
      else if name = ''values'' then ''values={...}''
      else name @ ''='' @ py_repr v)"

definition callback_field_order :: "string list" where
  "callback_field_order = [''code'', ''access_token'', ''identity_token'', ''token_type'', ''expires_in'', ''scope'',
     ''refresh_token'', ''state'', ''session_state'', ''issuer'', ''error'', ''error_description'']"

definition callback_repr :: "callback_response \<Rightarrow> string" where
  "callback_repr r =
     ''AuthorizeCallbackResponse('' @ py_join '', ''
       ([repr_part ''is_successful'' (JBool (cb_is_successful r)), repr_part ''raw'' (JStr (cb_raw r)),
         repr_part ''values'' JNull]
        @ map (\<lambda>n. repr_part n (jget (cb_fields r) n)) callback_field_order) @ '')''"

section \<open>State and issuer checks\<close>

datatype callback_verdict =
    SUCCESS
  | STATE_MISMATCH
  | MISSING_STATE
  | ERROR_RESPONSE
  | ISSUER_MISMATCH
  | MISSING_ISSUER

record state_result =
  sv_is_valid :: bool
  sv_result :: callback_verdict
  sv_error :: json
  sv_error_description :: json

definition sv_failure :: "callback_verdict \<Rightarrow> string \<Rightarrow> string \<Rightarrow> state_result" where
  "sv_failure v err desc = \<lparr>sv_is_valid = False, sv_result = v, sv_error = JStr err, sv_error_description = JStr desc\<rparr>"

definition sv_success :: state_result where
  "sv_success = \<lparr>sv_is_valid = True, sv_result = SUCCESS, sv_error = JNull, sv_error_description = JNull\<rparr>"

definition sv_error_response :: "callback_response \<Rightarrow> state_result res" where
  "sv_error_response r =
     bnd (cb_get r ''error'') (\<lambda>err. bnd (cb_get r ''error_description'') (\<lambda>desc.
       Inr \<lparr>sv_is_valid = False, sv_result = ERROR_RESPONSE, sv_error = err, sv_error_description = desc\<rparr>))"

definition validate_authorize_callback_state :: "callback_response \<Rightarrow> string option \<Rightarrow> state_result res" where
  "validate_authorize_callback_state r expected =
     (if \<not> cb_is_successful r then sv_error_response r
      else if \<not> opt_truthy expected
      then Inr (sv_failure MISSING_STATE ''missing_state'' ''Expected state is missing or empty (session may have expired)'')
      else bnd (cb_get r ''state'') (\<lambda>st.
        if \<not> truthy st then Inr (sv_failure MISSING_STATE ''missing_state'' ''State parameter not present in callback'')
        else bnd (case st of JStr s \<Rightarrow> compare_digest s (the expected)
                  | _ \<Rightarrow> Inl (raise_cls TypeError
                         (''unsupported operand types(s) or combination of types: '' @ sq (type_name st) @ '' and '' @ sq ''str''))) (\<lambda>eq.
          if \<not> eq then Inr (sv_failure STATE_MISMATCH ''state_mismatch'' ''State parameter does not match expected value'')
          else Inr sv_success)))"

definition validate_authorize_callback_issuer ::
  "callback_response \<Rightarrow> string option \<Rightarrow> bool \<Rightarrow> bool \<Rightarrow> state_result res" where
  "validate_authorize_callback_issuer r expected iss_parameter_supported require =
     (if \<not> cb_is_successful r then sv_error_response r
      else bnd (cb_get r ''issuer'') (\<lambda>iss.
        if iss \<noteq> JNull
        then Inr (if \<not> opt_truthy expected \<or> iss \<noteq> jopt expected
                  then sv_failure ISSUER_MISMATCH ''issuer_mismatch''
                         (''Authorization response issuer does not match expected '' @ ''issuer (possible mix-up attack)'')
                  else sv_success)
        else if iss_parameter_supported \<or> require
        then Inr (sv_failure MISSING_ISSUER ''missing_issuer''
                    (''Issuer (iss) parameter not present in callback but is required (advertised by the ''
                     @ ''authorization server or explicitly required by the client)''))
        else Inr sv_success))"

section \<open>Query strings\<close>

text \<open>What an encoded name or value cannot contain.\<close>

definition qs_char :: "char \<Rightarrow> bool" where
  "qs_char c \<longleftrightarrow> is_unreserved c \<or> c \<in> {CHR ''%'', CHR ''+'', CHR ''='', CHR ''&''}"

lemma quote_char_chars: "d \<in> set (quote_char c) \<Longrightarrow> is_unreserved d \<or> d = CHR ''%''"
proof -
  have hex: "is_unreserved (hex_upper n)" if "0 \<le> n" "n < 16" for n
    using that by (auto simp: hex_upper_def is_unreserved_def is_ascii_digit_def is_ascii_alpha_def)
  have "d \<in> set (pct_byte b) \<Longrightarrow> is_unreserved d \<or> d = CHR ''%''" if "0 \<le> b" "b < 256" for b
  proof -
    have "0 \<le> b div 16 \<and> b div 16 < 16" using that by linarith
    then show "d \<in> set (pct_byte b) \<Longrightarrow> is_unreserved d \<or> d = CHR ''%''"
      using hex [of "b div 16"] hex [of "b mod 16"] by (auto simp: pct_byte_def)
  qed
  then show "d \<in> set (quote_char c) \<Longrightarrow> is_unreserved d \<or> d = CHR ''%''"
    using utf8_bytes_range [of _ c] by (auto simp: quote_char_def split: if_splits)
qed

lemma quote_plus_chars:
  "d \<in> set (quote_plus s) \<Longrightarrow> is_unreserved d \<or> d = CHR ''%'' \<or> d = CHR ''+''"
  using quote_char_chars by (auto simp: quote_plus_def split: if_splits)

lemma unreserved_plain:
  "is_unreserved c \<Longrightarrow> c \<notin> {CHR ''&'', CHR ''='', CHR ''#'', CHR ''?'', CHR '':'', CHR ''/''} \<and> 32 < ord c"
  by (auto simp: is_unreserved_def is_ascii_alpha_def is_ascii_digit_def)

lemma quote_plus_plain: "CHR ''&'' \<notin> set (quote_plus s)" "CHR ''='' \<notin> set (quote_plus s)"
  using quote_plus_chars unreserved_plain by blast+

lemma set_py_join: "set (py_join sep ss) \<subseteq> set sep \<union> \<Union> (set ` set ss)"
  by (induction sep ss rule: py_join.induct) auto

lemma urlencode_chars: "c \<in> set (urlencode d) \<Longrightarrow> qs_char c"
  using set_py_join [of "''&''" "map (\<lambda>(k, v). quote_plus k @ ''='' @ quote_plus v) d"] quote_plus_chars
  unfolding urlencode_def qs_char_def by fastforce

lemma qs_char_plain: "qs_char c \<Longrightarrow> c \<notin> {CHR ''#'', CHR ''?'', CHR '':'', CHR ''/''} \<and> 32 < ord c"
  using unreserved_plain by (auto simp: qs_char_def)

text \<open>Splitting is the inverse of joining pieces without the separator.\<close>

lemma py_split_append: "py_split d (a @ d # b) = py_split d a @ py_split d b"
proof (induction a)
  case (Cons c a)
  obtain p ps where "py_split d a = p # ps"
    using py_split_nonempty by (cases "py_split d a") auto
  with Cons show ?case by auto
qed simp

lemma py_split_join:
  "\<lbrakk>ss \<noteq> []; \<forall>s \<in> set ss. d \<notin> set s\<rbrakk> \<Longrightarrow> py_split d (py_join [d] ss) = ss"
proof (induction "[d]" ss rule: py_join.induct)
  case (2 s)
  then show ?case by (simp add: py_split_single)
next
  case (3 s t ss)
  then show ?case by (simp add: py_split_append py_split_single)
qed simp

lemma py_partition_first:
  "d \<notin> set a \<Longrightarrow> py_partition d (a @ d # b) = (a, True, b)"
  by (induction a) (auto simp: py_partition_def)

lemma parse_piece:
  "(let (k, _, v) = py_partition (CHR ''='') (quote_plus k @ ''='' @ quote_plus v) in (unquote_plus k, unquote_plus v)) = (k, v)"
  using py_partition_first [OF quote_plus_plain(2) [of k]] by (simp add: unquote_quote_plus)

lemma urlencode_split:
  "d \<noteq> [] \<Longrightarrow> py_split (CHR ''&'') (urlencode d) = map (\<lambda>(k, v). quote_plus k @ ''='' @ quote_plus v) d"
  unfolding urlencode_def by (rule py_split_join) (auto simp: quote_plus_plain)

lemma parse_urlencode: "d \<noteq> [] \<Longrightarrow> parse_qsl (urlencode d) = d"
proof -
  assume "d \<noteq> []"
  have "filter (\<lambda>piece. piece \<noteq> []) (map (\<lambda>(k, v). quote_plus k @ ''='' @ quote_plus v) d)
      = map (\<lambda>(k, v). quote_plus k @ ''='' @ quote_plus v) d"
    by (rule filter_True) auto
  then show ?thesis
    using urlencode_split [OF \<open>d \<noteq> []\<close>] parse_piece
    by (simp add: parse_qsl_def comp_def case_prod_beta' del: append.simps)
qed

lemma parse_qsl_append: "parse_qsl (a @ CHR ''&'' # b) = parse_qsl a @ parse_qsl b"
  by (simp add: parse_qsl_def py_split_append)

section \<open>A URL with a query appended\<close>

text \<open>
  Appending \<open>?qs\<close> or \<open>&qs\<close> to a URL without fragment changes its query and nothing else. The
  lemmas follow the steps of \<open>urlparse\<close>.
\<close>

lemma dropWhile_append_stop: "\<not> P c \<Longrightarrow> dropWhile P (a @ c # t) = dropWhile P a @ c # t"
  by (induction a) auto

lemma clean_url_append:
  assumes "32 < ord c" "\<forall>x \<in> set t. 32 < ord x"
  shows "clean_url (a @ c # t) = clean_url a @ c # t"
proof -
  have "filter (\<lambda>x. ord x \<notin> {9, 10, 13}) (c # t) = c # t"
    using assms by (intro filter_True) auto
  moreover have "dropWhile is_c0_or_space (a @ c # t) = dropWhile is_c0_or_space a @ c # t"
    using assms(1) by (intro dropWhile_append_stop) (simp add: is_c0_or_space_def)
  ultimately show ?thesis
    unfolding clean_url_def by (simp del: filter.simps)
qed

lemma set_clean_url: "set (clean_url a) \<subseteq> set a"
  unfolding clean_url_def by (auto dest: set_dropWhileD)

lemma py_partition_append:
  "d \<in> set a \<Longrightarrow> py_partition d (a @ t) = (case py_partition d a of (x, _, y) \<Rightarrow> (x, True, y @ t))"
  by (induction a) (auto simp: py_partition_def)

lemma py_partition_none: "d \<notin> set a \<Longrightarrow> py_partition d a = (a, False, [])"
  by (induction a) (auto simp: py_partition_def)

lemma split_scheme_append:
  assumes "CHR '':'' \<notin> set t"
  shows "split_scheme (a @ t) = (fst (split_scheme a), snd (split_scheme a) @ t)"
proof (cases "CHR '':'' \<in> set a")
  case True
  moreover obtain x y where "py_partition (CHR '':'') a = (x, True, y)"
    using True by (simp add: py_partition_def)
  ultimately show ?thesis by (simp add: split_scheme_def py_partition_append)
qed (use assms in \<open>simp add: split_scheme_def py_partition_none\<close>)

lemma split_netloc_append:
  assumes "c \<noteq> CHR ''/''" "is_netloc_end c \<or> (\<exists>x \<in> set (snd (split_netloc a)). is_netloc_end x)"
  shows "split_netloc (a @ c # t) = (fst (split_netloc a), snd (split_netloc a) @ c # t)"
proof (cases "take 2 a = ''//''")
  case True
  then have len: "2 \<le> length a"
    by (metis One_nat_def Suc_1 length_Cons length_take list.size(3) min.cobounded1)
  have t2: "take 2 (a @ c # t) = ''//''" "drop 2 (a @ c # t) = drop 2 a @ c # t"
    using True len by simp_all
  show ?thesis
  proof (cases "\<exists>x \<in> set (drop 2 a). is_netloc_end x")
    case True
    then obtain x where "x \<in> set (drop 2 a)" "is_netloc_end x" by blast
    then show ?thesis
      using t2 \<open>take 2 a = ''//''\<close> takeWhile_append1 [of x "drop 2 a" "\<lambda>c. \<not> is_netloc_end c"]
        dropWhile_append1 [of x "drop 2 a" "\<lambda>c. \<not> is_netloc_end c"]
      by (simp add: split_netloc_def)
  next
    case False
    then have "is_netloc_end c"
      using assms(2) \<open>take 2 a = ''//''\<close> by (auto simp: split_netloc_def dest: set_dropWhileD)
    moreover have whole: "takeWhile (\<lambda>c. \<not> is_netloc_end c) (drop 2 a) = drop 2 a"
      using False by (simp add: takeWhile_eq_all_conv)
    ultimately show ?thesis
      using False t2 \<open>take 2 a = ''//''\<close> by (simp add: split_netloc_def) (rule whole [symmetric])
  qed
next
  case False
  have "take 2 (a @ c # t) \<noteq> ''//''"
  proof (cases a)
    case (Cons x b)
    then show ?thesis
      using False assms(1) by (cases b) (auto simp: take_Cons')
  qed (use assms(1) in \<open>simp add: numeral_2_eq_2\<close>)
  then show ?thesis
    using False by (simp add: split_netloc_def)
qed

lemma split_suffix: "set (snd (split_scheme a)) \<subseteq> set a" "set (snd (split_netloc a)) \<subseteq> set a"
  by (auto simp: split_scheme_def split_netloc_def py_partition_def Let_def split: if_splits
      dest: set_dropWhileD in_set_dropD)

lemma urlparse_append:
  assumes "urlparse b = Inr p" "CHR ''#'' \<notin> set b" "\<forall>x \<in> set t. qs_char x"
    and "(c = CHR ''?'' \<and> CHR ''?'' \<notin> set b \<and> q = t) \<or> (c = CHR ''&'' \<and> query p \<noteq> [] \<and> q = query p @ c # t)"
  shows "urlparse (b @ c # t) = Inr (p\<lparr>query := q\<rparr>)" and "fragment p = []"
proof -
  obtain sch r1 where 1: "split_scheme (clean_url b) = (sch, r1)" by (cases "split_scheme (clean_url b)")
  obtain loc r2 where 2: "split_netloc r1 = (loc, r2)" by (cases "split_netloc r1")
  have sub: "set r2 \<subseteq> set b"
    using split_suffix(1) [of "clean_url b"] split_suffix(2) [of r1] set_clean_url [of b] 1 2 by auto
  then have h: "CHR ''#'' \<notin> set r2" using assms(2) by blast
  obtain r4 f qry where 3: "py_partition (CHR ''?'') r2 = (r4, f, qry)" by (cases "py_partition (CHR ''?'') r2")
  obtain pth prm where 4: "(if sch \<in> set uses_params then split_params r4 else (r4, [])) = (pth, prm)"
    by (cases "if sch \<in> set uses_params then split_params r4 else (r4, [])")
  have p: "netloc_ok loc" "p = \<lparr>scheme = sch, netloc = loc, path = pth, params = prm, query = qry, fragment = []\<rparr>"
    using assms(1) 1 2 3 4 h by (auto simp: urlparse_def py_partition_none split: if_splits)
  show "fragment p = []" by (simp add: p)
  have t: "\<forall>x \<in> set t. 32 < ord x" "CHR '':'' \<notin> set (c # t)" "CHR ''#'' \<notin> set (c # t)" "32 < ord c" "c \<noteq> CHR ''/''"
  proof -
    have c: "c = CHR ''?'' \<or> c = CHR ''&''" using assms(4) by blast
    have "CHR '':'' \<notin> set t" "CHR ''#'' \<notin> set t" using assms(3) qs_char_plain by blast+
    with c show "CHR '':'' \<notin> set (c # t)" "CHR ''#'' \<notin> set (c # t)" "32 < ord c" "c \<noteq> CHR ''/''" by auto
    show "\<forall>x \<in> set t. 32 < ord x" using assms(3) qs_char_plain by blast
  qed
  have q: "CHR ''?'' \<in> set r2" if "c = CHR ''&''"
    using assms(4) that 3 p(2) by (cases "CHR ''?'' \<in> set r2") (simp_all add: py_partition_none)
  have net: "is_netloc_end c \<or> (\<exists>x \<in> set (snd (split_netloc r1)). is_netloc_end x)"
    using q assms(4) 2 by (auto simp: is_netloc_end_def)
  have "split_scheme (clean_url (b @ c # t)) = (sch, r1 @ c # t)"
    using split_scheme_append [OF t(2), of "clean_url b"] clean_url_append [OF t(4,1)] 1 by simp
  moreover have "split_netloc (r1 @ c # t) = (loc, r2 @ c # t)"
    using split_netloc_append [OF t(5) net] 2 by simp
  moreover have "py_partition (CHR ''#'') (r2 @ c # t) = (r2 @ c # t, False, [])"
    using h t(3) by (intro py_partition_none) auto
  moreover have "py_partition (CHR ''?'') (r2 @ c # t) = (r4, True, q)"
  proof (cases "c = CHR ''?''")
    case True
    then have "CHR ''?'' \<notin> set r2" "q = t" using assms(4) sub by auto
    then show ?thesis using True 3 py_partition_first [of "CHR ''?''" r2 t] py_partition_none [of "CHR ''?''" r2] by simp
  next
    case False
    then have "c = CHR ''&''" "q = qry @ c # t" using assms(4) p(2) by auto
    then show ?thesis using py_partition_append [OF q] 3 by simp
  qed
  ultimately show "urlparse (b @ c # t) = Inr (p\<lparr>query := q\<rparr>)"
    using 4 p by (auto simp: urlparse_def)
qed

lemma strip_fragment_ok:
  assumes "strip_fragment ep = Inr (b, p)"
  shows "urlparse b = Inr p"
  using assms by (auto simp: strip_fragment_def Let_def res_splits split: if_splits)

lemma url_with_params:
  assumes "strip_fragment ep = Inr (b, p)" "CHR ''#'' \<notin> set b" "query p = [] \<longrightarrow> CHR ''?'' \<notin> set b" "d \<noteq> []"
  shows "\<exists>p'. urlparse (b @ (if query p \<noteq> [] then ''&'' else ''?'') @ urlencode d) = Inr p'
     \<and> parse_qsl (query p') = parse_qsl (query p) @ d \<and> fragment p' = []
     \<and> (scheme p', netloc p', path p', params p') = (scheme p, netloc p, path p, params p)"
proof -
  let ?c = "if query p \<noteq> [] then CHR ''&'' else CHR ''?''"
  let ?q = "if query p \<noteq> [] then query p @ ?c # urlencode d else urlencode d"
  have t: "\<forall>x \<in> set (urlencode d). qs_char x"
    using urlencode_chars by blast
  have "urlparse (b @ ?c # urlencode d) = Inr (p\<lparr>query := ?q\<rparr>)" "fragment p = []"
  proof -
    have "(?c = CHR ''?'' \<and> CHR ''?'' \<notin> set b \<and> ?q = urlencode d) \<or> (?c = CHR ''&'' \<and> query p \<noteq> [] \<and> ?q = query p @ ?c # urlencode d)"
      using assms(3) by (cases "query p = []") simp_all
    from urlparse_append [OF strip_fragment_ok [OF assms(1)] assms(2) t this]
    show "urlparse (b @ ?c # urlencode d) = Inr (p\<lparr>query := ?q\<rparr>)" "fragment p = []" .
  qed
  moreover have "parse_qsl ?q = parse_qsl (query p) @ d"
    using parse_urlencode [OF assms(4)] by (cases "query p = []") (simp_all add: parse_qsl_append, simp add: parse_qsl_def)
  ultimately show ?thesis
    by (intro exI [of _ "p\<lparr>query := ?q\<rparr>"]) (auto split: if_splits)
qed

section \<open>The parameters of a request\<close>

lemma add_param_get: "map_of (add_param k v d) k' = (if k' = k \<and> v \<noteq> None then v else map_of d k')"
  by (auto simp: add_param_def dict_get_set split: option.splits)

lemma dict_ok_add_param [simp]: "dict_ok d \<Longrightarrow> dict_ok (add_param k v d)"
  by (auto simp: add_param_def split: option.splits)

lemma dict_update_get_other: "k \<notin> set (dict_keys extra) \<Longrightarrow> map_of (dict_update d extra) k = map_of d k"
  unfolding dict_update_def by (induction extra arbitrary: d) (auto simp: dict_get_set split: prod.splits)

lemma dict_update_get: "dict_ok extra \<Longrightarrow> map_of (dict_update d extra) k = (case map_of extra k of None \<Rightarrow> map_of d k | v \<Rightarrow> v)"
proof (induction extra arbitrary: d)
  case (Cons kv extra)
  then have "map_of extra (fst kv) = None" "dict_ok extra"
    by (simp_all add: dict_ok_def map_of_eq_None_iff)
  with Cons.IH [of "dict_set (fst kv) (snd kv) d"] show ?case
    by (auto simp: dict_update_def dict_get_set case_prod_beta split: option.splits)
qed (simp add: dict_update_def)

lemma dict_ok_update [simp]: "dict_ok d \<Longrightarrow> dict_ok (dict_update d extra)"
  unfolding dict_update_def by (induction extra arbitrary: d) auto

lemma dict_set_nonempty [simp]: "dict_set k v d \<noteq> []"
  by (cases d) auto

lemma dict_update_nonempty: "d \<noteq> [] \<Longrightarrow> dict_update d extra \<noteq> []"
  unfolding dict_update_def by (induction extra arbitrary: d) (simp_all add: case_prod_beta)

lemma collisions_none: "collisions reserved extra = [] \<longleftrightarrow> set reserved \<inter> set (dict_keys extra) = {}"
proof -
  have "collisions reserved extra = [] \<longleftrightarrow> set (collisions reserved extra) = {}" by simp
  also have "set (collisions reserved extra) = set reserved \<inter> set (dict_keys extra)"
    by (auto simp: collisions_def)
  finally show ?thesis .
qed

lemma add_param_nonempty: "d \<noteq> [] \<Longrightarrow> add_param k v d \<noteq> []"
  by (cases d) (auto simp: add_param_def split: option.splits)

lemma authorization_params_ok: "dict_ok (authorization_params r)" "authorization_params r \<noteq> []"
  unfolding authorization_params_def
  by (simp add: dict_ok_def [of "[_, _, _, _]"]) (intro dict_update_nonempty add_param_nonempty, simp)

lemma authorization_params_get:
  assumes "set RESERVED_PARAMS \<inter> set (dict_keys (ar_extra r)) = {}"
  shows "map_of (authorization_params r) ''client_id'' = Some (ar_client_id r)"
    "map_of (authorization_params r) ''redirect_uri'' = Some (ar_redirect_uri r)"
    "map_of (authorization_params r) ''scope'' = Some (ar_scope r)"
    "map_of (authorization_params r) ''response_type'' = Some (ar_response_type r)"
    "map_of (authorization_params r) ''state'' = ar_state r"
    "map_of (authorization_params r) ''nonce'' = ar_nonce r"
    "map_of (authorization_params r) ''code_challenge'' = ar_code_challenge r"
    "map_of (authorization_params r) ''code_challenge_method'' = ar_code_challenge_method r"
  using assms
  by (auto simp: RESERVED_PARAMS_def authorization_params_def dict_update_get_other add_param_get)

lemma build_authorization_url_ok:
  assumes "build_authorization_url r = Inr url"
  shows "\<exists>b p. strip_fragment (ar_endpoint r) = Inr (b, p)
    \<and> url = b @ (if query p \<noteq> [] then ''&'' else ''?'') @ urlencode (authorization_params r)
    \<and> set RESERVED_PARAMS \<inter> set (dict_keys (ar_extra r)) = {}
    \<and> (ar_code_challenge r = None \<longleftrightarrow> ar_code_challenge_method r = None)
    \<and> ar_code_challenge_method r \<in> {None, Some ''S256'', Some ''plain''}"
  using assms by (auto simp: build_authorization_url_def res_splits collisions_none split: if_splits)

section \<open>The fields of a callback\<close>

lemma dict_set_fresh: "k \<notin> set (dict_keys d) \<Longrightarrow> dict_set k v d = d @ [(k, v)]"
  by (induction d) auto

lemma fold_qs_add:
  "\<lbrakk>dict_ok d; set (dict_keys acc) \<inter> set (dict_keys d) = {}\<rbrakk> \<Longrightarrow>
     fold qs_add d acc = acc @ map (\<lambda>(k, v). (k, [v])) d"
proof (induction d arbitrary: acc)
  case (Cons kv d)
  have none: "map_of acc (fst kv) = None" "fst kv \<notin> set (dict_keys acc)"
    using Cons.prems(2) by (auto simp: map_of_eq_None_iff)
  then have "qs_add kv acc = acc @ [(fst kv, [snd kv])]"
    unfolding qs_add_def by (simp add: dict_set_fresh)
  moreover have "dict_ok d" "set (dict_keys (acc @ [(fst kv, [snd kv])])) \<inter> set (dict_keys d) = {}"
    using Cons.prems by (auto simp: dict_ok_def)
  ultimately show ?case
    using Cons.IH by (simp add: case_prod_beta)
qed simp

lemma first_values_urlencode: "\<lbrakk>dict_ok d; d \<noteq> []\<rbrakk> \<Longrightarrow> first_values (parse_qs (urlencode d)) = d"
  by (simp add: parse_qs_def parse_urlencode fold_qs_add first_values_def comp_def case_prod_beta)

definition field_value :: "json dict \<Rightarrow> string \<Rightarrow> string \<Rightarrow> json option" where
  "field_value values field param =
     (case map_of values param of None \<Rightarrow> None
      | Some v \<Rightarrow> if field = ''expires_in''
                 then (case suppressed_int v of Inr (Some n) \<Rightarrow> Some (JInt n) | _ \<Rightarrow> None) else Some v)"

lemma map_params_loop_get:
  assumes "map_params_loop ps vals acc = Inr res" "distinct (map snd ps)" "set (map snd ps) \<inter> set (dict_keys acc) = {}"
  shows "map_of res f = (case map_of (map prod.swap ps) f of None \<Rightarrow> map_of acc f | Some param \<Rightarrow> field_value vals f param)"
  using assms
proof (induction ps vals acc arbitrary: res rule: map_params_loop.induct)
  case (2 param field ps vals acc)
  have fresh: "field \<notin> set (dict_keys acc)" "field \<notin> set (map snd ps)" "map_of acc field = None"
    using "2.prems"(2,3) by (auto simp: map_of_eq_None_iff)
  have none: "map_of (map prod.swap ps) field = None"
    using fresh(2) by (force simp: map_of_eq_None_iff)
  let ?new = "field_value vals field param"
  let ?acc = "case ?new of None \<Rightarrow> acc | Some v \<Rightarrow> acc @ [(field, v)]"
  have loop: "map_params_loop ps vals ?acc = Inr res"
    using "2.prems"(1) by (auto simp: field_value_def res_splits split: option.splits if_splits)
  have "map_of res f = (case map_of (map prod.swap ps) f of None \<Rightarrow> map_of ?acc f | Some p \<Rightarrow> field_value vals f p)"
  proof (cases "map_of vals param")
    case None
    then have none: "field_value vals field param = None" by (simp add: field_value_def)
    show ?thesis
      using "2.IH"(1) [OF None] loop "2.prems"(2,3) by (simp add: none split: option.split)
  next
    case (Some v)
    have disj: "set (map snd ps) \<inter> set (dict_keys ?acc) = {}" "distinct (map snd ps)"
      using "2.prems"(2,3) by (auto split: option.splits)
    show ?thesis
    proof (cases "field = ''expires_in''")
      case True
      then obtain i where i: "suppressed_int v = Inr i"
        using "2.prems"(1) Some by (auto simp: res_splits)
      have acc: "?acc = (case i of None \<Rightarrow> acc | Some n \<Rightarrow> acc @ [(field, JInt n)])"
        using Some True i by (auto simp: field_value_def split: option.splits)
      show ?thesis
        using "2.IH"(2) [OF Some True i] loop disj unfolding acc by blast
    next
      case False
      then have acc: "?acc = acc @ [(field, v)]" by (simp add: field_value_def Some)
      show ?thesis
        using "2.IH"(3) [OF Some False] loop disj unfolding acc by blast
    qed
  qed
  then show ?case
    using none fresh by (auto simp: map_add_def split: option.splits)
qed simp

lemma map_params_get:
  assumes "map_params_to_fields values = Inr res" "(param, field) \<in> set PARAM_TO_FIELD"
  shows "map_of res field = field_value values field param"
proof -
  have d: "distinct (map snd PARAM_TO_FIELD)" by (simp add: PARAM_TO_FIELD_def)
  then have "map_of (map prod.swap PARAM_TO_FIELD) field = Some param"
    using assms(2) by (intro map_of_is_SomeI) (auto simp: comp_def)
  then show ?thesis
    using map_params_loop_get [OF assms(1) [unfolded map_params_to_fields_def] d] by simp
qed

lemma map_params_strings:
  assumes "\<forall>k v. map_of vals k = Some v \<longrightarrow> is_str v"
  shows "\<exists>res. map_params_loop ps vals acc = Inr res"
proof (induction ps arbitrary: acc)
  case (Cons pf ps)
  obtain param field where pf: "pf = (param, field)" by (cases pf)
  show ?case
  proof (cases "map_of vals param")
    case (Some v)
    then obtain t where "v = JStr t" using assms is_str_iff by blast
    then show ?thesis using Cons Some pf by (simp add: suppressed_int_def)
  qed (use Cons pf in simp)
qed simp

lemma map_of_JStr: "map_of (map (\<lambda>(k, v). (k, JStr v)) d) k = map_option JStr (map_of d k)"
  by (induction d) auto

lemma py_strip_Nil_iff: "py_strip s = [] \<longleftrightarrow> (\<forall>c \<in> set s. py_isspace c)"
proof -
  have "py_strip s = [] \<longleftrightarrow> (\<forall>c \<in> set (dropWhile py_isspace s). py_isspace c)"
    by (simp add: py_strip_def)
  also have "\<dots> \<longleftrightarrow> (\<forall>c \<in> set s. py_isspace c)"
    by (induction s) auto
  finally show ?thesis .
qed

section \<open>Properties\<close>

text \<open>C18: The authorization server reads from the URL exactly what was asked for: parsing the built URL
  gives the endpoint's own query parameters followed by the request's parameters in order, every
  reserved name with the value of the request, at the endpoint's scheme, host and path and without a
  fragment. The endpoint must not end in a bare question mark or number sign. A PKCE challenge is
  always accompanied by one of the two methods.\<close>

theorem authorization_url_roundtrip:
  assumes "build_authorization_url r = Inr url" "strip_fragment (ar_endpoint r) = Inr (b, p)"
    and "CHR ''#'' \<notin> set b" "query p = [] \<longrightarrow> CHR ''?'' \<notin> set b"
  shows "\<exists>p'. urlparse url = Inr p' \<and> parse_qsl (query p') = parse_qsl (query p) @ authorization_params r
    \<and> fragment p' = [] \<and> (scheme p', netloc p', path p', params p') = (scheme p, netloc p, path p, params p)
    \<and> dict_ok (authorization_params r)
    \<and> map_of (authorization_params r) ''client_id'' = Some (ar_client_id r)
    \<and> map_of (authorization_params r) ''redirect_uri'' = Some (ar_redirect_uri r)
    \<and> map_of (authorization_params r) ''scope'' = Some (ar_scope r)
    \<and> map_of (authorization_params r) ''response_type'' = Some (ar_response_type r)
    \<and> map_of (authorization_params r) ''state'' = ar_state r \<and> map_of (authorization_params r) ''nonce'' = ar_nonce r
    \<and> map_of (authorization_params r) ''code_challenge'' = ar_code_challenge r
    \<and> map_of (authorization_params r) ''code_challenge_method'' = ar_code_challenge_method r
    \<and> (ar_code_challenge r \<noteq> None \<longrightarrow> ar_code_challenge_method r \<in> {Some ''S256'', Some ''plain''})"
proof -
  have u: "url = b @ (if query p \<noteq> [] then ''&'' else ''?'') @ urlencode (authorization_params r)"
    and g: "set RESERVED_PARAMS \<inter> set (dict_keys (ar_extra r)) = {}"
    and c: "ar_code_challenge r \<noteq> None \<longrightarrow> ar_code_challenge_method r \<in> {Some ''S256'', Some ''plain''}"
    using build_authorization_url_ok [OF assms(1)] assms(2) by auto
  show ?thesis
    using url_with_params [OF assms(2-4) authorization_params_ok(2)] authorization_params_get [OF g]
      authorization_params_ok(1) c unfolding u by metis
qed

definition example_auth_request :: auth_request where
  "example_auth_request =
     \<lparr>ar_endpoint = ''https://op.example/authorize?tenant=a#x'', ar_client_id = ''rp'', ar_redirect_uri = ''https://rp.example/cb'',
      ar_scope = ''openid email'', ar_response_type = ''code'', ar_state = Some ''s t+1'', ar_nonce = None,
      ar_code_challenge = Some ''c'', ar_code_challenge_method = Some ''S256'', ar_extra = [(''prompt'', ''login'')]\<rparr>"

theorem authorization_url_roundtrip_witness:
  "map_of (authorization_params example_auth_request) ''state'' = Some ''s t+1''"
proof -
  obtain url where u: "build_authorization_url example_auth_request = Inr url"
  proof -
    have "is_ok (build_authorization_url example_auth_request)" by code_simp
    then show ?thesis using that by (cases "build_authorization_url example_auth_request") auto
  qed
  obtain b p where b: "strip_fragment (ar_endpoint example_auth_request) = Inr (b, p)"
  proof -
    have "is_ok (strip_fragment (ar_endpoint example_auth_request))" by code_simp
    then show ?thesis using that by (cases "strip_fragment (ar_endpoint example_auth_request)") auto
  qed
  have "(case strip_fragment (ar_endpoint example_auth_request) of Inl _ \<Rightarrow> False
      | Inr (b, p) \<Rightarrow> CHR ''#'' \<notin> set b \<and> query p \<noteq> [])" by code_simp
  then have "CHR ''#'' \<notin> set b" "query p \<noteq> []" by (simp_all add: b)
  then show ?thesis
    using authorization_url_roundtrip [OF u b] by (auto simp: example_auth_request_def)
qed

text \<open>C19: A callback carries what the server put into it: for a redirect URI without query and fragment
  and any set of response parameters with at least one of the recognised ones, the parsed response
  has exactly those values, every recognised parameter in its field, and is successful unless there
  is an \<open>error\<close> parameter. Names and values may contain any characters.\<close>

theorem callback_roundtrip:
  assumes "urlparse b = Inr p" "CHR ''#'' \<notin> set b" "CHR ''?'' \<notin> set b" "scheme p \<in> {[], ''https'', ''http''}"
    and "dict_ok d" "(param, field) \<in> set PARAM_TO_FIELD" "field \<noteq> ''expires_in''" "param \<in> set (dict_keys d)"
  shows "\<exists>r. parse_authorize_callback_response (b @ ''?'' @ urlencode d) = Inr r
    \<and> cb_values r = d \<and> cb_is_successful r = (''error'' \<notin> set (dict_keys d))
    \<and> (\<forall>(prm, f) \<in> set PARAM_TO_FIELD. f \<noteq> ''expires_in'' \<longrightarrow> jget (cb_fields r) f = jopt (map_of d prm))"
proof -
  let ?url = "b @ ''?'' @ urlencode d" and ?vals = "map (\<lambda>(k, v). (k, JStr v)) d"
  have ne: "d \<noteq> []" using assms(8) by auto
  have t: "\<forall>x \<in> set (urlencode d). qs_char x" using urlencode_chars by blast
  have up: "urlparse ?url = Inr (p\<lparr>query := urlencode d\<rparr>)" and fr: "fragment p = []"
    using urlparse_append [OF assms(1,2) t, of "CHR ''?''" "urlencode d"] assms(3) by auto
  have sp: "py_strip ?url \<noteq> []"
    unfolding py_strip_Nil_iff by (auto simp: py_isspace_def intro: bexI [of _ "CHR ''?''"])
  obtain fields where f: "map_params_to_fields ?vals = Inr fields"
  proof -
    have "\<forall>k v. map_of ?vals k = Some v \<longrightarrow> is_str v"
      by (auto simp: map_of_JStr)
    from map_params_strings [where vals = ?vals and ps = PARAM_TO_FIELD and acc = "[]", OF this] show ?thesis
      using that by (auto simp: map_params_to_fields_def)
  qed
  have get: "map_of fields g = map_option JStr (map_of d prm)" if "(prm, g) \<in> set PARAM_TO_FIELD" "g \<noteq> ''expires_in''" for prm g
    using map_params_get [OF f that(1)] that(2) by (auto simp: field_value_def map_of_JStr split: option.split)
  have "fields \<noteq> []"
    using get [OF assms(6,7)] assms(8) by (force simp: map_of_eq_None_iff)
  moreover have "has_key fields ''error'' \<longleftrightarrow> ''error'' \<in> set (dict_keys d)"
    using get [of "''error''" "''error''"] by (auto simp: has_key_def PARAM_TO_FIELD_def map_of_eq_None_iff)
  moreover have "jget fields g = jopt (map_of d prm)" if "(prm, g) \<in> set PARAM_TO_FIELD" "g \<noteq> ''expires_in''" for prm g
    using get [OF that] by (simp add: jget_def jopt_def split: option.split)
  ultimately show ?thesis
    using up fr sp f ne assms(4)
    by (auto simp: parse_authorize_callback_response_def first_values_urlencode [OF assms(5) ne] Let_def)
qed

theorem callback_roundtrip_witness:
  "\<exists>r. parse_authorize_callback_response (''https://rp.example/cb'' @ ''?'' @ urlencode [(''code'', ''a b&c''), (''state'', ''s t+1'')]) = Inr r
     \<and> cb_is_successful r \<and> jget (cb_fields r) ''state'' = JStr ''s t+1''"
proof -
  let ?d = "[(''code'', ''a b&c''), (''state'', ''s t+1'')]" and ?p = "projr (urlparse ''https://rp.example/cb'')"
  have u: "urlparse ''https://rp.example/cb'' = Inr ?p" and sc: "scheme ?p \<in> {[], ''https'', ''http''}"
  proof -
    have ok: "(case urlparse ''https://rp.example/cb'' of Inl _ \<Rightarrow> False | Inr p \<Rightarrow> scheme p = ''https'')" by code_simp
    then show "urlparse ''https://rp.example/cb'' = Inr ?p" by (cases "urlparse ''https://rp.example/cb''") simp_all
    from ok show "scheme ?p \<in> {[], ''https'', ''http''}" by (cases "urlparse ''https://rp.example/cb''") simp_all
  qed
  obtain r where r: "parse_authorize_callback_response (''https://rp.example/cb'' @ ''?'' @ urlencode ?d) = Inr r"
    "cb_is_successful r = (''error'' \<notin> set (dict_keys ?d))"
    "\<forall>(prm, f) \<in> set PARAM_TO_FIELD. f \<noteq> ''expires_in'' \<longrightarrow> jget (cb_fields r) f = jopt (map_of ?d prm)"
    using callback_roundtrip [OF u _ _ sc, of ?d "''code''" "''code''"] by (auto simp: PARAM_TO_FIELD_def dict_ok_def)
  have "(''state'', ''state'') \<in> set PARAM_TO_FIELD" by (simp add: PARAM_TO_FIELD_def)
  then have "jget (cb_fields r) ''state'' = JStr ''s t+1''"
    using r(3) by (fastforce simp: jopt_def)
  then show ?thesis using r(1,2) by simp
qed

lemma cb_get_ok:
  "cb_is_successful r \<Longrightarrow> cb_get r ''state'' = Inr (jget (cb_fields r) ''state'')"
  "cb_is_successful r \<Longrightarrow> cb_get r ''issuer'' = Inr (jget (cb_fields r) ''issuer'')"
  "\<not> cb_is_successful r \<Longrightarrow> cb_get r ''error'' = Inr (jget (cb_fields r) ''error'')"
  "\<not> cb_is_successful r \<Longrightarrow> cb_get r ''error_description'' = Inr (jget (cb_fields r) ''error_description'')"
  by (simp_all add: cb_get_def guarded_get_def callback_guarded_def error_fields_def)

text \<open>A callback passes the state check exactly when the server reported success and echoed the
  non-empty ASCII state the client stored, and it passes the issuer check exactly when the server
  reported success and either named the expected issuer or, where the parameter is neither
  advertised nor required, named none. An issuer that is present is never ignored, whatever the
  metadata says.\<close>

theorem callback_checks_exact:
  "((\<exists>v. validate_authorize_callback_state r expected = Inr v \<and> sv_is_valid v) \<longleftrightarrow>
      cb_is_successful r \<and> (\<exists>s. expected = Some s \<and> s \<noteq> [] \<and> py_isascii s \<and> jget (cb_fields r) ''state'' = JStr s))
   \<and> ((\<exists>v. validate_authorize_callback_issuer r iss supported require = Inr v \<and> sv_is_valid v) \<longleftrightarrow>
      cb_is_successful r
      \<and> (jget (cb_fields r) ''issuer'' = JNull \<and> \<not> supported \<and> \<not> require
         \<or> (\<exists>i. iss = Some i \<and> i \<noteq> [] \<and> jget (cb_fields r) ''issuer'' = JStr i)))"
proof (cases "cb_is_successful r")
  case True
  have "(\<exists>v. validate_authorize_callback_state r expected = Inr v \<and> sv_is_valid v) \<longleftrightarrow>
      (\<exists>s. expected = Some s \<and> s \<noteq> [] \<and> py_isascii s \<and> jget (cb_fields r) ''state'' = JStr s)"
    using True by (cases expected; cases "jget (cb_fields r) ''state''")
      (auto simp: validate_authorize_callback_state_def cb_get_ok sv_failure_def sv_success_def res_splits)
  moreover have "(\<exists>v. validate_authorize_callback_issuer r iss supported require = Inr v \<and> sv_is_valid v) \<longleftrightarrow>
      (jget (cb_fields r) ''issuer'' = JNull \<and> \<not> supported \<and> \<not> require
         \<or> (\<exists>i. iss = Some i \<and> i \<noteq> [] \<and> jget (cb_fields r) ''issuer'' = JStr i))"
    using True by (cases iss)
      (auto simp: validate_authorize_callback_issuer_def cb_get_ok sv_failure_def sv_success_def jopt_def)
  ultimately show ?thesis using True by simp
next
  case False
  then show ?thesis
    by (simp add: validate_authorize_callback_state_def validate_authorize_callback_issuer_def sv_error_response_def cb_get_ok)
qed

text \<open>The representation of a callback reveals no credential: two responses that agree on the public
  fields and on which of the sensitive ones are present print the same text, whatever code, tokens,
  raw URL and raw values they hold.\<close>

theorem callback_repr_redacts:
  assumes "cb_is_successful r = cb_is_successful r'"
    and "\<forall>n. n \<notin> {''access_token'', ''code'', ''identity_token'', ''refresh_token''} \<longrightarrow>
           jget (cb_fields r) n = jget (cb_fields r') n"
    and "\<forall>n. (jget (cb_fields r) n = JNull) = (jget (cb_fields r') n = JNull)"
  shows "callback_repr r = callback_repr r'"
proof -
  let ?S = "{''access_token'', ''code'', ''identity_token'', ''refresh_token''}"
  have sens: "n \<in> ?S \<Longrightarrow> n \<in> set SENSITIVE_FIELDS" for n
    by (auto simp: SENSITIVE_FIELDS_def)
  have "repr_part n (jget (cb_fields r) n) = repr_part n (jget (cb_fields r') n)" for n
  proof (cases "n \<in> ?S \<and> jget (cb_fields r) n \<noteq> JNull")
    case True
    then have "n \<in> set SENSITIVE_FIELDS" "jget (cb_fields r) n \<noteq> JNull" "jget (cb_fields r') n \<noteq> JNull"
      using sens assms(3) by blast+
    then show ?thesis by (simp only: repr_part_def simp_thms if_True)
  next
    case False
    then have "jget (cb_fields r) n = jget (cb_fields r') n"
      using assms(2,3) by metis
    then show ?thesis by (simp only:)
  qed
  moreover have "repr_part ''raw'' (JStr (cb_raw r)) = repr_part ''raw'' (JStr (cb_raw r'))"
    by (simp add: repr_part_def SENSITIVE_FIELDS_def)
  ultimately show ?thesis
    using assms(1) by (simp add: callback_repr_def)
qed

theorem callback_repr_redacts_witness:
  "callback_repr \<lparr>cb_is_successful = True, cb_raw = ''u?code=secret'', cb_values = [(''code'', ''secret'')], cb_fields = [(''code'', JStr ''secret'')]\<rparr>
   = callback_repr \<lparr>cb_is_successful = True, cb_raw = [], cb_values = [], cb_fields = [(''code'', JStr ''x'')]\<rparr>"
  by (rule callback_repr_redacts) (simp_all add: jget_def)

section \<open>Where the code departs from its documentation\<close>

text \<open>
  A bare question mark at the end of the endpoint corrupts the name of the first parameter, and a bare
  number sign puts all parameters into the fragment.
\<close>

theorem bare_separator_endpoints:
  "(case build_authorization_url (example_auth_request\<lparr>ar_endpoint := ''https://op.example/authorize?''\<rparr>) of
      Inl _ \<Rightarrow> False | Inr url \<Rightarrow> (case urlparse url of Inl _ \<Rightarrow> False
        | Inr p \<Rightarrow> map_of (parse_qsl (query p)) ''client_id'' = None \<and> map_of (parse_qsl (query p)) ''?client_id'' = Some ''rp''))
   \<and> (case build_authorization_url (example_auth_request\<lparr>ar_endpoint := ''https://op.example/authorize#''\<rparr>) of
      Inl _ \<Rightarrow> False | Inr url \<Rightarrow> (case urlparse url of Inl _ \<Rightarrow> False | Inr p \<Rightarrow> query p = []))"
  by code_simp

text \<open>A state with a character outside ASCII raises instead of being reported as a mismatch.\<close>

theorem non_ascii_state_raises:
  "validate_authorize_callback_state \<lparr>cb_is_successful = True, cb_raw = [], cb_values = [], cb_fields = [(''state'', JStr [CHR 0xE9])]\<rparr> (Some ''s'')
     = Inl (raise_cls TypeError ''comparing strings with non-ASCII characters is not supported'')
   \<and> validate_post_logout_state (Some ''s'') (Some [CHR 0xE9])
     = Inl (raise_cls TypeError ''comparing strings with non-ASCII characters is not supported'')"
  by (simp add: validate_authorize_callback_state_def cb_get_ok jget_def compare_digest_def py_isascii_def
      validate_post_logout_state_def)

end
