(* ===== verification/Jarm.thy ===== *)
theory Jarm
  imports Authorize
begin

text \<open>
  JWT-secured authorization responses: \<open>core/jarm.py\<close> and its orchestration in \<open>sync/jarm.py\<close>.
  The signing algorithms a provider advertises are a JSON value as the discovery document has it.
  The outside as the discovery and the key set fetch see it is a parameter of each fetch.
\<close>

section \<open>The response parameter\<close>

definition jarm_exn :: "string \<Rightarrow> exn" where
  "jarm_exn msg = raise_cls JarmValidationException msg"

definition JARM_RESPONSE_PARAM :: string where
  "JARM_RESPONSE_PARAM = ''response''"

definition extract_response_param :: "string \<Rightarrow> string option res" where
  "extract_response_param s =
     (case map_of (parse_qs s) JARM_RESPONSE_PARAM of
        None \<Rightarrow> Inr None
      | Some vs \<Rightarrow>
          if vs = [] then Inr None
          else if 1 < length vs
          then Inl (jarm_exn (''callback carries multiple 'response' parameters; refusing to resolve ''
                 @ ''JARM parameter pollution by position''))
          else Inr (Some (hd vs)))"

text \<open>The fragment is read before the query; an empty one is skipped.\<close>

fun jarm_param_in :: "string list \<Rightarrow> bool" where
  "jarm_param_in [] = False"
| "jarm_param_in (s # ss) =
     (if s = [] then jarm_param_in ss
      else case extract_response_param s of
        Inl _ \<Rightarrow> True
      | Inr v \<Rightarrow> if opt_truthy v then True else jarm_param_in ss)"

definition is_jarm_response :: "string \<Rightarrow> bool res" where
  "is_jarm_response uri =
     (if py_strip uri = [] then Inr False
      else bnd (urlparse uri) (\<lambda>p. Inr (jarm_param_in [fragment p, query p])))"

fun extract_jarm_loop :: "string list \<Rightarrow> string res" where
  "extract_jarm_loop [] = Inl (jarm_exn ''redirect_uri contains no JARM 'response' parameter'')"
| "extract_jarm_loop (s # ss) =
     (if s = [] then extract_jarm_loop ss
      else bnd (extract_response_param s) (\<lambda>v. if opt_truthy v then Inr (the v) else extract_jarm_loop ss))"

definition extract_jarm_response_jwt :: "string \<Rightarrow> string res" where
  "extract_jarm_response_jwt uri =
     (if py_strip uri = [] then Inl (jarm_exn ''redirect_uri must be a non-empty string'')
      else bnd (urlparse uri) (\<lambda>p. extract_jarm_loop [fragment p, query p]))"

section \<open>The algorithm\<close>

text \<open>\<open>alg in allowed\<close> for the values a discovery document may hold.\<close>

definition json_contains :: "json \<Rightarrow> string \<Rightarrow> bool res" where
  "json_contains c s =
     (case c of
        JStr t \<Rightarrow> Inr (py_contains s t)
      | JList xs \<Rightarrow> Inr (json_mem (JStr s) xs)
      | JDict d \<Rightarrow> Inr (has_key d s)
      | _ \<Rightarrow> Inl (raise_cls TypeError (''argument of type '' @ sq (type_name c) @ '' is not iterable'')))"

text \<open>
  \<open>sorted(allowed)\<close> in the message raises for values that do not compare. Two values compare when both
  are numbers, both strings, or both lists that compare at their first difference.
\<close>

function py_comparable :: "json \<Rightarrow> json \<Rightarrow> bool" where
  "py_comparable x y =
     (case (x, y) of
        (JStr _, JStr _) \<Rightarrow> True
      | (JList xs, JList ys) \<Rightarrow>
          (case find (\<lambda>(a, b). \<not> py_eq a b) (zip xs ys) of None \<Rightarrow> True | Some (a, b) \<Rightarrow> py_comparable a b)
      | _ \<Rightarrow> json_num x \<noteq> None \<and> json_num y \<noteq> None)"
  by pat_completeness auto
termination
  by (relation "measure (\<lambda>(x, _). size x)")
     (auto simp: find_Some_iff less_Suc_eq_le intro!: size_list_member [OF nth_mem])

declare py_comparable.simps [simp del]

definition sortable :: "json \<Rightarrow> bool" where
  "sortable c = (case c of JList xs \<Rightarrow> list_all (\<lambda>i. list_all (\<lambda>j. i = j \<or> py_comparable (xs ! i) (xs ! j)) [0..<length xs]) [0..<length xs]
                 | _ \<Rightarrow> True)"

definition select_jarm_algorithm :: "json \<Rightarrow> json \<Rightarrow> string res" where
  "select_jarm_algorithm header_alg allowed =
     (case header_alg of
        JStr a \<Rightarrow>
          if a = [] then Inl (jarm_exn ''JARM response JWT header has no 'alg' value'')
          else
            let alg = py_strip a in
            if py_lower alg = ''none''
            then Inl (jarm_exn ''JARM response JWT uses 'alg=none'; an unsigned response is not permitted'')
            else if py_startswith (py_upper alg) ''HS''
            then Inl (jarm_exn (''JARM response JWT uses symmetric algorithm '' @ sq alg
                   @ ''; only asymmetric signatures are permitted''))
            else if \<not> truthy allowed
            then Inl (jarm_exn (''No allowed JARM signing algorithms configured ''
                   @ ''(authorization_signing_alg_values_supported is required)''))
            else bnd (json_contains allowed alg) (\<lambda>ok.
              if ok then Inr alg
              else if \<not> sortable allowed then Inl (raise_cls TypeError ''values do not support ordering'')
              else Inl (jarm_exn (''JARM response JWT algorithm '' @ sq alg @ '' is not in the allowed set '' @ fmt_json allowed)))
      | _ \<Rightarrow> Inl (jarm_exn ''JARM response JWT header has no 'alg' value''))"

definition extract_jarm_header :: "header_reader \<Rightarrow> string \<Rightarrow> (json \<times> json) res" where
  "extract_jarm_header hdr jwt =
     (case extract_jwt_header_fields hdr jwt of
        Inr r \<Rightarrow> Inr r
      | Inl e \<Rightarrow> if exn_isinstance e PyJWTError
                 then Inl (jarm_exn ''JARM 'response' value is not a well-formed JWT'') else Inl e)"

section \<open>The claims\<close>

definition JARM_REQUIRED_CLAIMS :: "string list" where
  "JARM_REQUIRED_CLAIMS = [''iss'', ''aud'', ''exp'']"

definition decode_jarm_claims ::
  "'pk jwt_lib \<Rightarrow> string \<Rightarrow> json dict \<Rightarrow> json list \<Rightarrow> json \<Rightarrow> string option \<Rightarrow> json \<Rightarrow> json dict res" where
  "decode_jarm_claims lib jwt key algs issuer aud lee =
     bnd (decode_and_validate_jwt lib jwt (KeyDict key) algs aud issuer None lee None) (\<lambda>claims.
       let missing = filter (\<lambda>c. \<not> has_key claims c) JARM_REQUIRED_CLAIMS in
       if missing \<noteq> []
       then Inl (jarm_exn (''JARM response JWT is missing mandatory claim(s): '' @ py_join '', '' missing))
       else Inr claims)"

text \<open>The parameters are visited in the order of the table; the source iterates over a set of them.\<close>

definition jarm_values :: "json dict \<Rightarrow> string dict" where
  "jarm_values claims =
     map (\<lambda>p. (p, fmt_json (jget claims p))) (filter (\<lambda>p. jget claims p \<noteq> JNull) (map fst PARAM_TO_FIELD))"

definition build_authorize_response_from_claims :: "json dict \<Rightarrow> string \<Rightarrow> callback_response res" where
  "build_authorize_response_from_claims claims raw =
     bnd (map_params_to_fields claims) (\<lambda>fields.
       if fields = []
       then Inl (jarm_exn ''JARM response JWT contains no recognized authorization-response claims'')
       else Inr \<lparr>cb_is_successful = \<not> has_key (jarm_values claims) ''error'', cb_raw = raw, cb_values = jarm_values claims,
                 cb_fields = fields\<rparr>)"

section \<open>Orchestration\<close>

record jarm_request =
  jr_client_id :: string
  jr_disco_doc_address :: "string option"
  jr_issuer :: "string option"
  jr_jwks :: "jwks_response option"
  jr_algorithms :: "string list option"
  jr_require_https :: bool
  jr_leeway :: json
  jr_is_jwt :: bool

text \<open>\<open>a or b\<close> for the override of an advertised value.\<close>

definition jarm_algs :: "string list option \<Rightarrow> json \<Rightarrow> json" where
  "jarm_algs algs advertised =
     (case algs of Some (a # as) \<Rightarrow> JList (map JStr (a # as)) | _ \<Rightarrow> advertised)"

definition resolve_jarm_context ::
  "http_world \<Rightarrow> http_world \<Rightarrow> jarm_request \<Rightarrow> (json \<times> json \<times> jwks_response) res" where
  "resolve_jarm_context w w' q =
     (case (jr_issuer q, jr_jwks q, jr_algorithms q) of
        (Some iss, Some ks, Some algs) \<Rightarrow>
          bnd (validate_jwks_response ks) (\<lambda>_. Inr (JStr iss, JList (map JStr algs), ks))
      | _ \<Rightarrow>
          (case jr_disco_doc_address q of
             None \<Rightarrow> Inl (config_exn (''disco_doc_address is required for JARM processing unless issuer, ''
                        @ ''jwks, and algorithms are all supplied (offline mode)''))
           | Some a \<Rightarrow>
               let pol = default_policy\<lparr>require_https := jr_require_https q\<rparr>;
                   d = get_discovery_document w a (Some pol) in
               bnd (validate_disco_response d) (\<lambda>_.
                 bnd (if opt_truthy (jr_issuer q) then Inr (jopt (jr_issuer q)) else disco_get d ''issuer'') (\<lambda>iss.
                   if \<not> truthy iss
                   then Inl (config_exn ''Discovery document does not advertise an issuer; cannot validate JARM'')
                   else bnd (case jr_algorithms q of Some (x # xs) \<Rightarrow> Inr JNull
                             | _ \<Rightarrow> disco_get d ''authorization_signing_alg_values_supported'') (\<lambda>adv.
                     bnd (bnd (validate_jwks_uri d) (jwks_uri_arg False)) (\<lambda>uri.
                       let ks = get_jwks w' uri (Some pol) in
                       bnd (validate_jwks_response ks) (\<lambda>_. Inr (iss, jarm_algs (jr_algorithms q) adv, ks))))))))"

definition process_jarm_response ::
  "'pk jwt_lib \<Rightarrow> http_world \<Rightarrow> http_world \<Rightarrow> string \<Rightarrow> jarm_request \<Rightarrow> callback_response res" where
  "process_jarm_response lib w w' response q =
     bnd (if jr_is_jwt q then Inr response else extract_jarm_response_jwt response) (\<lambda>jwt.
       bnd (resolve_jarm_context w w' q) (\<lambda>(issuer, allowed, ks).
         bnd (extract_jarm_header (jl_header lib) jwt) (\<lambda>(kid, header_alg).
           bnd (select_jarm_algorithm header_alg allowed) (\<lambda>alg.
             bnd (keys_or_empty ks) (\<lambda>keys.
               bnd (find_key_by_kid kid keys (JStr alg)) (\<lambda>(key, _).
                 bnd (decode_jarm_claims lib jwt key [JStr alg] issuer (Some (jr_client_id q)) (jr_leeway q)) (\<lambda>claims.
                   build_authorize_response_from_claims claims jwt)))))))"

section \<open>Facts\<close>

lemma select_jarm_ok:
  assumes "select_jarm_algorithm h allowed = Inr alg"
  shows "\<exists>a. h = JStr a \<and> alg = py_strip a \<and> py_lower alg \<noteq> ''none'' \<and> \<not> py_startswith (py_upper alg) ''HS''
     \<and> truthy allowed \<and> json_contains allowed alg = Inr True"
  using assms by (auto simp: select_jarm_algorithm_def Let_def res_splits split: json.splits if_splits)

lemma decode_jarm_ok:
  assumes "decode_jarm_claims lib jwt key algs issuer aud lee = Inr claims"
  shows "decode_and_validate_jwt lib jwt (KeyDict key) algs aud issuer None lee None = Inr claims
     \<and> (\<forall>c \<in> {''iss'', ''aud'', ''exp''}. has_key claims c)"
  using assms by (auto simp: decode_jarm_claims_def Let_def res_splits JARM_REQUIRED_CLAIMS_def split: if_splits)

lemma resolve_jarm_ok:
  assumes "resolve_jarm_context w w' q = Inr (iss, allowed, ks)"
  shows "validate_jwks_response ks = Inr ()
     \<and> (jr_issuer q \<noteq> None \<and> jr_jwks q = Some ks \<and> iss = jopt (jr_issuer q)
        \<or> (\<exists>a d uri. jr_disco_doc_address q = Some a
             \<and> d = get_discovery_document w a (Some (default_policy\<lparr>require_https := jr_require_https q\<rparr>))
             \<and> d_is_successful d \<and> truthy iss
             \<and> (iss = jget (d_attrs d) ''issuer'' \<or> opt_truthy (jr_issuer q) \<and> iss = jopt (jr_issuer q))
             \<and> jget (d_attrs d) ''jwks_uri'' = JStr uri
             \<and> ks = get_jwks w' uri (Some (default_policy\<lparr>require_https := jr_require_https q\<rparr>))))"
proof (cases "\<exists>i k al. jr_issuer q = Some i \<and> jr_jwks q = Some k \<and> jr_algorithms q = Some al")
  case True
  then show ?thesis
    using assms by (auto simp: resolve_jarm_context_def res_splits jopt_def)
next
  case False
  let ?pol = "default_policy\<lparr>require_https := jr_require_https q\<rparr>"
  obtain a adv uri where a: "jr_disco_doc_address q = Some a"
    and d: "validate_disco_response (get_discovery_document w a (Some ?pol)) = Inr ()"
    and i: "(if opt_truthy (jr_issuer q) then Inr (jopt (jr_issuer q)) else disco_get (get_discovery_document w a (Some ?pol)) ''issuer'') = Inr iss"
    and u: "bnd (validate_jwks_uri (get_discovery_document w a (Some ?pol))) (jwks_uri_arg False) = Inr uri"
    and k: "ks = get_jwks w' uri (Some ?pol)" "validate_jwks_response ks = Inr ()" "truthy iss"
    using assms False unfolding resolve_jarm_context_def
    by (cases "jr_disco_doc_address q"; cases "jr_issuer q"; cases "jr_jwks q"; cases "jr_algorithms q")
       (auto simp: Let_def bnd_eq_Inr split: if_splits)
  have "jget (d_attrs (get_discovery_document w a (Some ?pol))) ''jwks_uri'' = JStr uri"
    using u by (auto simp: res_splits validate_jwks_uri_ok jwks_uri_arg_def split: json.splits)
  then show ?thesis
    using a d i k by (auto simp: validate_disco_response_ok disco_get_def guarded_get_def disco_attr_names_def split: if_splits)
qed

lemma extract_jarm_loop_ok:
  "extract_jarm_loop ss = Inr jwt \<Longrightarrow> \<exists>s \<in> set ss. map_of (parse_qs s) ''response'' = Some [jwt]"
proof (induction ss)
  case (Cons s ss)
  show ?case
  proof (cases "extract_jarm_loop ss = Inr jwt")
    case False
    then have "extract_response_param s = Inr (Some jwt)"
      using Cons.prems by (auto simp: res_splits opt_truthy_iff split: if_splits)
    then have "map_of (parse_qs s) ''response'' = Some [jwt]"
      by (auto simp: extract_response_param_def JARM_RESPONSE_PARAM_def split: option.splits if_splits)
         (metis One_nat_def Suc_length_conv Suc_lessI length_0_conv length_greater_0_conv list.sel(1))
    then show ?thesis by simp
  qed (use Cons.IH in auto)
qed simp

lemma build_authorize_ok:
  assumes "build_authorize_response_from_claims claims raw = Inr r"
  shows "map_params_to_fields claims = Inr (cb_fields r) \<and> cb_raw r = raw
     \<and> (cb_is_successful r \<longleftrightarrow> jget claims ''error'' = JNull)"
proof -
  have "''error'' \<in> set (map fst PARAM_TO_FIELD)"
    by (simp add: PARAM_TO_FIELD_def)
  then have "has_key (jarm_values claims) ''error'' \<longleftrightarrow> jget claims ''error'' \<noteq> JNull"
    unfolding jarm_values_def has_key_iff map_map comp_def fst_conv map_ident set_filter by blast
  then show ?thesis
    using assms by (auto simp: build_authorize_response_from_claims_def res_splits split: if_splits)
qed

section \<open>Properties\<close>

text \<open>C20: A JARM response is accepted only as a signed statement of the expected provider to this client.
  The JWT is the only \<open>response\<close> parameter of the fragment or the query; its algorithm is neither
  \<open>none\<close> nor symmetric and is one of the allowed ones; it was decoded with the key its header
  designates out of the provider's key set, for that algorithm alone, with this client as audience
  and the expected issuer; issuer, audience and expiry are present; and the fields of the result are
  the claims of that JWT, an \<open>error\<close> claim making it a failure.\<close>

theorem jarm_response_sound:
  assumes "process_jarm_response lib w w' response q = Inr r"
  shows "\<exists>jwt iss allowed ks keys kid a k pk claims. resolve_jarm_context w w' q = Inr (iss, allowed, ks)
    \<and> (if jr_is_jwt q then jwt = response
       else \<exists>p s. urlparse response = Inr p \<and> s \<in> {fragment p, query p} \<and> map_of (parse_qs s) ''response'' = Some [jwt])
    \<and> j_is_successful ks \<and> j_keys ks = Some keys \<and> k \<in> set keys
    \<and> extract_jwt_header_fields (jl_header lib) jwt = Inr (kid, JStr a)
    \<and> (kid \<noteq> JNull \<longrightarrow> py_eq (jwk_kid k) kid) \<and> validate_key_alg_consistency k (JStr (py_strip a)) = Inr ()
    \<and> py_lower (py_strip a) \<noteq> ''none'' \<and> \<not> py_startswith (py_upper (py_strip a)) ''HS''
    \<and> json_contains allowed (py_strip a) = Inr True
    \<and> jl_pyjwk lib (as_dict k) (JStr (py_strip a)) = Inr pk
    \<and> jl_decode lib jwt pk \<lparr>da_audience = Some (jr_client_id q), da_algorithms = [JStr (py_strip a)], da_issuer = iss,
         da_options = None, da_leeway = (if jr_leeway q = JNull then JInt 0 else jr_leeway q)\<rparr> = Inr claims
    \<and> (\<forall>c \<in> {''iss'', ''aud'', ''exp''}. has_key claims c)
    \<and> map_params_to_fields claims = Inr (cb_fields r) \<and> (cb_is_successful r \<longleftrightarrow> jget claims ''error'' = JNull)"
proof -
  obtain jwt iss allowed ks kid h alg keys key ka claims where
    j: "(if jr_is_jwt q then Inr response else extract_jarm_response_jwt response) = Inr jwt"
    and c: "resolve_jarm_context w w' q = Inr (iss, allowed, ks)"
    and h: "extract_jarm_header (jl_header lib) jwt = Inr (kid, h)"
    and a: "select_jarm_algorithm h allowed = Inr alg" and ke: "keys_or_empty ks = Inr keys"
    and f: "find_key_by_kid kid keys (JStr alg) = Inr (key, ka)"
    and d: "decode_jarm_claims lib jwt key [JStr alg] iss (Some (jr_client_id q)) (jr_leeway q) = Inr claims"
    and b: "build_authorize_response_from_claims claims jwt = Inr r"
    using assms by (auto simp: process_jarm_response_def bnd_eq_Inr)
  have jw: "if jr_is_jwt q then jwt = response
      else \<exists>p s. urlparse response = Inr p \<and> s \<in> {fragment p, query p} \<and> map_of (parse_qs s) ''response'' = Some [jwt]"
  proof (cases "jr_is_jwt q")
    case False
    then obtain p where p: "urlparse response = Inr p" "extract_jarm_loop [fragment p, query p] = Inr jwt"
      using j by (auto simp: extract_jarm_response_jwt_def bnd_eq_Inr simp del: extract_jarm_loop.simps split: if_splits)
    show ?thesis
      using False p(1) extract_jarm_loop_ok [OF p(2)] by auto
  qed (use j in simp)
  have hd: "extract_jwt_header_fields (jl_header lib) jwt = Inr (kid, h)"
    using h by (auto simp: extract_jarm_header_def split: sum.splits if_splits)
  obtain s where s: "h = JStr s" "alg = py_strip s" "py_lower alg \<noteq> ''none''" "\<not> py_startswith (py_upper alg) ''HS''"
    "json_contains allowed alg = Inr True"
    using select_jarm_ok [OF a] by blast
  have ks: "j_is_successful ks" "j_keys ks = Some keys"
    using resolve_jarm_ok [OF c] ke
    by (auto simp: validate_jwks_response_ok keys_or_empty_def jwks_get_keys_def guarded_get_def)
  obtain k where k: "designated_key kid keys (JStr alg) = Inr k" "validate_key_alg_consistency k (JStr alg) = Inr ()"
    "key = as_dict k"
    using f by (auto simp: find_key_by_kid_ok)
  have norm: "normalize_verification_key (KeyDict (as_dict k)) = Inr (as_dict k)"
    by (simp add: normalize_verification_key_def as_dict_def)
  note dj = decode_jarm_ok [OF d]
  obtain pk where pk: "jl_pyjwk lib (as_dict k) (JStr alg) = Inr pk"
    "jl_decode lib jwt pk \<lparr>da_audience = Some (jr_client_id q), da_algorithms = [JStr alg], da_issuer = iss,
       da_options = None, da_leeway = (if jr_leeway q = JNull then JInt 0 else jr_leeway q)\<rparr> = Inr claims"
    using decode_and_validate_jwt_ok [OF conjunct1 [OF dj]] norm k(3) by auto
  note facts = c jw ks hd [unfolded s(1)] s(3-5) [unfolded s(2)] k(2) [unfolded s(2)] pk [unfolded s(2)]
    conjunct2 [OF dj] designated_key_member(1) [OF k(1)] build_authorize_ok [OF b, THEN conjunct1]
    build_authorize_ok [OF b, THEN conjunct2, THEN conjunct2]
  show ?thesis
    by (rule exI [of _ jwt], rule exI [of _ iss], rule exI [of _ allowed], rule exI [of _ ks], rule exI [of _ keys],
        rule exI [of _ kid], rule exI [of _ s], rule exI [of _ k], rule exI [of _ pk], rule exI [of _ claims])
       (intro conjI impI facts designated_key_member(2) [OF k(1)])
qed

definition jarm_claims :: "json dict" where
  "jarm_claims = [(''iss'', JStr ''https://op.example''), (''aud'', JStr ''rp''), (''exp'', JInt 2000), (''code'', JStr ''c1''),
     (''state'', JStr ''s1'')]"

definition example_jarm :: jarm_request where
  "example_jarm = \<lparr>jr_client_id = ''rp'', jr_disco_doc_address = None, jr_issuer = Some ''https://op.example'',
     jr_jwks = Some \<lparr>j_is_successful = True, j_error = None, j_keys = Some [rsa_key ''k1''], j_cache_control = None\<rparr>,
     jr_algorithms = Some [''PS256'', ''RS256''], jr_require_https = True, jr_leeway = JInt 0, jr_is_jwt = False\<rparr>"

theorem jarm_response_sound_witness:
  "\<exists>r. process_jarm_response (example_lib\<lparr>jl_decode := \<lambda>_ _ _. Inr jarm_claims\<rparr>) example_world example_world
         ''https://rp.example/cb?response=jwt'' example_jarm = Inr r
     \<and> (\<exists>claims. map_params_to_fields claims = Inr (cb_fields r))"
proof -
  let ?run = "process_jarm_response (example_lib\<lparr>jl_decode := \<lambda>_ _ _. Inr jarm_claims\<rparr>) example_world example_world
         ''https://rp.example/cb?response=jwt'' example_jarm"
  have "is_ok ?run" by code_simp
  then obtain r where "?run = Inr r" by (cases ?run) auto
  with jarm_response_sound [OF this] show ?thesis by blast
qed

end
