(* ===== verification/Url_Unparse.thy ===== *)
theory Url_Unparse
  imports Authorize
begin

text \<open>
  \<open>urlunparse\<close> after \<open>urlparse\<close>: a URL put together again from its scheme, network location, path
  and parameters parses to the same components, with no query and no fragment.
\<close>

section \<open>The scheme\<close>

lemma lower_scheme_char:
  assumes "is_scheme_char c"
  shows "is_scheme_char (char_lower c)" "char_lower (char_lower c) = char_lower c" "32 < ord (char_lower c)"
    "char_lower c \<noteq> CHR '':''"
proof -
  have n: "ord (char_lower c) \<noteq> 58"
    using assms by (auto simp: is_scheme_char_def is_ascii_alpha_def is_ascii_digit_def char_lower_def Let_def)
  show "char_lower c \<noteq> CHR '':''"
  proof
    assume "char_lower c = CHR '':''"
    then have "ord (char_lower c) = 58" by simp
    with n show False by contradiction
  qed
  show "is_scheme_char (char_lower c)" "char_lower (char_lower c) = char_lower c" "32 < ord (char_lower c)"
    using assms by (auto simp: is_scheme_char_def is_ascii_alpha_def is_ascii_digit_def char_lower_def Let_def)
qed

lemma lower_alpha: "is_ascii_alpha c \<Longrightarrow> is_ascii_alpha (char_lower c)"
  by (auto simp: is_ascii_alpha_def char_lower_def Let_def)

lemma split_scheme_wf:
  assumes "split_scheme u = (sch, rest)" "sch \<noteq> []"
  shows "is_ascii_alpha (hd sch)" "list_all is_scheme_char sch" "py_lower sch = sch"
    "\<forall>c \<in> set sch. 32 < ord c" "CHR '':'' \<notin> set sch"
proof -
  obtain pre where pre: "sch = py_lower pre" "pre \<noteq> []" "is_ascii_alpha (hd pre)" "list_all is_scheme_char pre"
    using assms by (auto simp: split_scheme_def Let_def split: prod.splits if_splits)
  then show "is_ascii_alpha (hd sch)" by (cases pre) (auto simp: py_lower_def lower_alpha)
  show "list_all is_scheme_char sch" "py_lower sch = sch" "\<forall>c \<in> set sch. 32 < ord c"
    using pre(4) lower_scheme_char by (auto simp: pre(1) py_lower_def list_all_iff)
  show "CHR '':'' \<notin> set sch"
    using pre(4) lower_scheme_char(4) by (fastforce simp: pre(1) py_lower_def list_all_iff)
qed

lemma split_scheme_rebuild:
  assumes "split_scheme u = (sch, rest)" "sch \<noteq> []"
  shows "split_scheme (sch @ CHR '':'' # t) = (sch, t)"
  using split_scheme_wf [OF assms] assms(2) by (simp add: split_scheme_def py_partition_first)

section \<open>Path parameters\<close>

lemma hd_mem: "\<lbrakk>hd u = c; u \<noteq> []\<rbrakk> \<Longrightarrow> c \<in> set u"
  by auto

lemma last_segment:
  assumes "CHR ''/'' \<notin> set s" "d = [] \<or> last d = CHR ''/''"
  shows "rev (takeWhile (\<lambda>c. c \<noteq> CHR ''/'') (rev (d @ s))) = s"
proof -
  have "takeWhile (\<lambda>c. c \<noteq> CHR ''/'') (rev s @ rev d) = rev s @ takeWhile (\<lambda>c. c \<noteq> CHR ''/'') (rev d)"
    using assms(1) by (intro takeWhile_append2) auto
  moreover have "takeWhile (\<lambda>c. c \<noteq> CHR ''/'') (rev d) = []"
    using assms(2) by (cases d rule: rev_cases) auto
  ultimately show ?thesis by simp
qed

lemma split_params_segment:
  assumes "CHR ''/'' \<notin> set s" "d = [] \<or> last d = CHR ''/''"
  shows "split_params (d @ s) = (if CHR '';'' \<in> set s
           then (d @ fst (py_partition (CHR '';'') s), snd (snd (py_partition (CHR '';'') s))) else (d @ s, []))"
  unfolding split_params_def last_segment [OF assms] by (simp add: py_partition_def)

lemma segment_exists: "\<exists>d s. u = d @ s \<and> CHR ''/'' \<notin> set s \<and> (d = [] \<or> last d = CHR ''/'')"
proof (induction u rule: rev_induct)
  case (snoc x u)
  then obtain d s where "u = d @ s" "CHR ''/'' \<notin> set s" "d = [] \<or> last d = CHR ''/''" by blast
  then show ?case
    by (cases "x = CHR ''/''") (rule exI [of _ "u @ [x]"], simp, rule exI [of _ d], rule exI [of _ "s @ [x]"], simp)
qed simp

definition with_params :: "string \<Rightarrow> string \<Rightarrow> string" where
  "with_params pth prm = pth @ (if prm = [] then [] else CHR '';'' # prm)"

lemma split_params_rebuild:
  assumes "split_params u = (pth, prm)"
  shows "split_params (with_params pth prm) = (pth, prm)"
    and "set (with_params pth prm) \<subseteq> set u"
    and "u \<noteq> [] \<Longrightarrow> hd u = CHR ''/'' \<Longrightarrow> pth \<noteq> [] \<and> hd pth = CHR ''/''"
    and "u = [] \<Longrightarrow> pth = [] \<and> prm = []"
proof -
  obtain d s where u: "u = d @ s" and s: "CHR ''/'' \<notin> set s" and d: "d = [] \<or> last d = CHR ''/''"
    using segment_exists by blast
  note eq = split_params_segment [OF s d, folded u]
  have "split_params (with_params pth prm) = (pth, prm) \<and> set (with_params pth prm) \<subseteq> set u \<and> (\<exists>t. pth = d @ t)
      \<and> (s = [] \<longrightarrow> pth = d \<and> prm = [])"
  proof (cases "CHR '';'' \<in> set s")
    case True
    then obtain a b where ab: "s = a @ CHR '';'' # b" "CHR '';'' \<notin> set a" using split_list_first by metis
    then have part: "py_partition (CHR '';'') s = (a, True, b)" by (simp add: py_partition_first)
    have pp: "pth = d @ a" "prm = b" using assms eq True part by simp_all
    have "split_params (with_params pth prm) = (pth, prm)"
    proof (cases "b = []")
      case True
      then show ?thesis
        using split_params_segment [of a d] s d ab pp by (simp add: with_params_def)
    next
      case False
      then show ?thesis
        using split_params_segment [OF s d] ab pp part by (simp add: with_params_def)
    qed
    then show ?thesis using ab pp u by (auto simp: with_params_def)
  next
    case False
    then have "pth = u" "prm = []" using assms eq u by simp_all
    then show ?thesis using assms u by (auto simp: with_params_def)
  qed
  then show "split_params (with_params pth prm) = (pth, prm)" "set (with_params pth prm) \<subseteq> set u"
    "u \<noteq> [] \<Longrightarrow> hd u = CHR ''/'' \<Longrightarrow> pth \<noteq> [] \<and> hd pth = CHR ''/''" "u = [] \<Longrightarrow> pth = [] \<and> prm = []"
    using s u by (auto simp: hd_append split: if_splits dest: hd_mem)
qed

section \<open>The whole URL\<close>

lemma py_partition_sub: "py_partition d u = (a, f, b) \<Longrightarrow> set a \<subseteq> set u \<and> d \<notin> set a"
  by (auto simp: py_partition_def dest: set_takeWhileD)

lemma py_partition_prefix: "py_partition d u = (a, f, b) \<Longrightarrow> a = [] \<or> (u \<noteq> [] \<and> hd a = hd u)"
  by (cases u) (auto simp: py_partition_def split: if_splits)

lemma split_netloc_wf:
  assumes "split_netloc r = (loc, rest)" "loc \<noteq> []"
  shows "\<forall>c \<in> set loc. \<not> is_netloc_end c" "rest = [] \<or> is_netloc_end (hd rest)" "set loc \<union> set rest \<subseteq> set r"
proof -
  have r: "take 2 r = ''//''" using assms by (auto simp: split_netloc_def split: if_splits)
  then have eq: "loc = takeWhile (\<lambda>c. \<not> is_netloc_end c) (drop 2 r)" "rest = dropWhile (\<lambda>c. \<not> is_netloc_end c) (drop 2 r)"
    using assms(1) by (simp_all add: split_netloc_def)
  show "\<forall>c \<in> set loc. \<not> is_netloc_end c" unfolding eq by (blast dest: set_takeWhileD)
  show "rest = [] \<or> is_netloc_end (hd rest)" unfolding eq using hd_dropWhile by blast
  show "set loc \<union> set rest \<subseteq> set r"
    unfolding eq by (blast dest: set_takeWhileD set_dropWhileD in_set_dropD)
qed

lemma split_netloc_rebuild:
  assumes "\<forall>c \<in> set loc. \<not> is_netloc_end c" "u = [] \<or> is_netloc_end (hd u)"
  shows "split_netloc (''//'' @ loc @ u) = (loc, u)"
proof -
  have "takeWhile (\<lambda>c. \<not> is_netloc_end c) (loc @ u) = loc" "dropWhile (\<lambda>c. \<not> is_netloc_end c) (loc @ u) = u"
    using assms by (cases u; auto simp: takeWhile_append2 dropWhile_append2)+
  then show ?thesis by (simp add: split_netloc_def numeral_2_eq_2)
qed

lemma clean_url_id:
  assumes "u \<noteq> []" "32 < ord (hd u)" "\<forall>c \<in> set u. ord c \<notin> {9, 10, 13}"
  shows "clean_url u = u"
  using assms by (cases u) (auto simp: clean_url_def is_c0_or_space_def)

lemma clean_url_chars: "c \<in> set (clean_url u) \<Longrightarrow> ord c \<notin> {9, 10, 13}"
  by (auto simp: clean_url_def)

theorem urlparse_unparse:
  assumes "urlparse u = Inr p" "scheme p \<noteq> []" "netloc p \<noteq> []"
  shows "urlparse (urlunparse_base p) = Inr (p\<lparr>query := [], fragment := []\<rparr>)"
    and "CHR ''?'' \<notin> set (urlunparse_base p)" and "CHR ''#'' \<notin> set (urlunparse_base p)"
proof -
  obtain sch r1 where 1: "split_scheme (clean_url u) = (sch, r1)" by (cases "split_scheme (clean_url u)")
  obtain loc r2 where 2: "split_netloc r1 = (loc, r2)" by (cases "split_netloc r1")
  obtain r3 f3 frag where 3: "py_partition (CHR ''#'') r2 = (r3, f3, frag)" by (cases "py_partition (CHR ''#'') r2")
  obtain r4 f4 qry where 4: "py_partition (CHR ''?'') r3 = (r4, f4, qry)" by (cases "py_partition (CHR ''?'') r3")
  obtain pth prm where 5: "(if sch \<in> set uses_params then split_params r4 else (r4, [])) = (pth, prm)"
    by (cases "if sch \<in> set uses_params then split_params r4 else (r4, [])")
  have p: "netloc_ok loc" "p = \<lparr>scheme = sch, netloc = loc, path = pth, params = prm, query = qry, fragment = frag\<rparr>"
    using assms(1) 1 2 3 4 5 by (auto simp: urlparse_def split: if_splits)
  have ne: "sch \<noteq> []" "loc \<noteq> []" using assms(2,3) p(2) by simp_all
  note sch = split_scheme_wf [OF 1 ne(1)] and loc = split_netloc_wf [OF 2 ne(2)]
  define rest where "rest = with_params pth prm"
  have r4: "r4 = [] \<or> hd r4 = CHR ''/''" "CHR ''?'' \<notin> set r4" "CHR ''#'' \<notin> set r4" "set r4 \<subseteq> set r2"
    using py_partition_prefix [OF 3] py_partition_prefix [OF 4] py_partition_sub [OF 3] py_partition_sub [OF 4] loc(2)
    by (auto simp: is_netloc_end_def dest: hd_mem)
  have rest: "rest = [] \<or> hd rest = CHR ''/''" "set rest \<subseteq> set r4"
      "(if sch \<in> set uses_params then split_params rest else (rest, [])) = (pth, prm)"
      "pth = [] \<longrightarrow> rest = []" "rest \<noteq> [] \<longrightarrow> hd pth = CHR ''/''"
    using 5 r4(1) split_params_rebuild [of r4 pth prm]
    by (cases "r4 = []"; auto simp: rest_def with_params_def hd_append split: if_splits)+
  have base: "urlunparse_base p = sch @ CHR '':'' # ''//'' @ loc @ rest"
  proof -
    have u: "path p @ (if params p = [] then [] else CHR '';'' # params p) = rest"
      by (simp add: p(2) rest_def with_params_def)
    have no: "\<not> (rest \<noteq> [] \<and> take 1 rest \<noteq> ''/'')" using rest(1) by (cases rest) auto
    have sep: "(if scheme p = [] then [] else scheme p @ '':'') = sch @ '':''" using ne by (simp add: p(2))
    show ?thesis unfolding urlunparse_base_def u Let_def if_not_P [OF no] sep by (simp add: p(2))
  qed
  have "set rest \<subseteq> set (clean_url u)" "set loc \<subseteq> set (clean_url u)"
    using rest(2) r4(4) loc(3) split_suffix(1) [of "clean_url u"] 1 by (simp, blast)+
  then have clean: "clean_url (urlunparse_base p) = urlunparse_base p"
    using sch(4) ne(1) clean_url_chars unfolding base
    by (intro clean_url_id) (auto simp: hd_append dest!: subsetD)
  have "split_scheme (urlunparse_base p) = (sch, ''//'' @ loc @ rest)"
    unfolding base by (rule split_scheme_rebuild [OF 1 ne(1)])
  moreover have "split_netloc (''//'' @ loc @ rest) = (loc, rest)"
    using rest(1) loc(1) by (intro split_netloc_rebuild) (auto simp: is_netloc_end_def)
  moreover have "py_partition (CHR ''#'') rest = (rest, False, [])" "py_partition (CHR ''?'') rest = (rest, False, [])"
    using r4(2,3) rest(2) by (auto intro!: py_partition_none)
  ultimately show "urlparse (urlunparse_base p) = Inr (p\<lparr>query := [], fragment := []\<rparr>)"
    using clean rest(3) p by (auto simp: urlparse_def)
  have "c \<noteq> CHR ''?'' \<and> c \<noteq> CHR ''#''" if "is_scheme_char c" for c
    using that by (auto simp: is_scheme_char_def is_ascii_alpha_def is_ascii_digit_def)
  then show "CHR ''?'' \<notin> set (urlunparse_base p)" "CHR ''#'' \<notin> set (urlunparse_base p)"
    using sch(2) loc(1) rest(2) r4(2,3) by (auto simp: base list_all_iff is_netloc_end_def)
qed

end
