(* ===== verification/Client_Auth.thy ===== *)
theory Client_Auth
  imports Jarm Url_Unparse
begin

text \<open>
  How a client proves who it is: the signing algorithms of \<open>core/jwt_signing.py\<close>, HTTP Basic
  credentials (\<open>core/client_auth.py\<close>), \<open>private_key_jwt\<close> assertions (\<open>core/client_assertion.py\<close>),
  PKCE (\<open>core/pkce.py\<close>), DPoP keys and proofs (\<open>core/dpop.py\<close>), mutual TLS and certificate-bound
  tokens (\<open>core/mtls.py\<close>, \<open>ssl_config.py\<close>).

  PyJWT's \<open>encode\<close>, \<open>uuid4\<close>, the clock, \<open>secrets\<close>, the key generator and the certificate parser
  of \<open>cryptography\<close> are parameters. The draws of a call are numbered: draw \<open>n\<close> of identifier and
  clock belongs to the \<open>n\<close>-th token that the call mints.
\<close>

section \<open>Signing algorithms\<close>

definition SUPPORTED_SIGNING_ALGORITHMS :: "string list" where
  "SUPPORTED_SIGNING_ALGORITHMS =
     [''ES256'', ''ES384'', ''ES512'', ''EdDSA'', ''PS256'', ''PS384'', ''PS512'', ''RS256'', ''RS384'', ''RS512'']"

definition validate_signing_algorithm :: "string \<Rightarrow> string \<Rightarrow> unit res" where
  "validate_signing_algorithm algorithm context =
     guard_raise (algorithm \<notin> set SUPPORTED_SIGNING_ALGORITHMS)
       (raise_cls ValueError (''Unsupported '' @ context @ '' algorithm: '' @ algorithm @ ''. ''
          @ ''Supported: '' @ fmt_str_list SUPPORTED_SIGNING_ALGORITHMS))"

section \<open>Keys, identifiers and time\<close>

text \<open>A PEM or DER value is a \<open>str\<close> or \<open>bytes\<close>; bytes are kept as characters.\<close>

datatype text_or_bytes = Text string | Bytes string

definition blank_value :: "text_or_bytes \<Rightarrow> bool" where
  "blank_value v = (case v of Text s \<Rightarrow> py_strip s = [] | Bytes b \<Rightarrow> b = [])"

record signing_env =
  se_encode :: "json dict \<Rightarrow> text_or_bytes \<Rightarrow> string \<Rightarrow> json dict \<Rightarrow> string res"
  se_uuid4 :: "nat \<Rightarrow> string"
  se_time :: "nat \<Rightarrow> rat"

text \<open>\<open>int(x)\<close> on a finite float truncates towards zero.\<close>

definition truncate_rat :: "rat \<Rightarrow> int" where
  "truncate_rat q = (if 0 \<le> q then \<lfloor>q\<rfloor> else \<lceil>q\<rceil>)"

section \<open>HTTP Basic credentials\<close>

definition basic_auth_credentials :: "string \<Rightarrow> string \<Rightarrow> string \<times> string" where
  "basic_auth_credentials client_id client_secret = (quote client_id, quote client_secret)"

section \<open>Client assertions\<close>

definition CLOCK_SKEW_LEEWAY_SECONDS :: int where
  "CLOCK_SKEW_LEEWAY_SECONDS = 10"

record private_key_jwt =
  pkj_private_key :: text_or_bytes
  pkj_algorithm :: string
  pkj_kid :: "string option"
  pkj_audience :: "string option"
  pkj_lifetime :: int

definition assertion_claims :: "string \<Rightarrow> string \<Rightarrow> string \<Rightarrow> int \<Rightarrow> int \<Rightarrow> json dict" where
  "assertion_claims client_id aud jti issued_at lifetime =
     [(''iss'', JStr client_id), (''sub'', JStr client_id), (''aud'', JStr aud), (''jti'', JStr jti),
      (''iat'', JInt issued_at), (''nbf'', JInt issued_at), (''exp'', JInt (issued_at + lifetime))]"

definition build_client_assertion ::
  "signing_env \<Rightarrow> nat \<Rightarrow> string \<Rightarrow> string \<Rightarrow> text_or_bytes \<Rightarrow> string \<Rightarrow> string option \<Rightarrow> int \<Rightarrow> string res" where
  "build_client_assertion S n client_id aud private_key algorithm kid lifetime =
     bnd (for_each (\<lambda>(name, v). guard_raise (blank_value v) (raise_cls ValueError (name @ '' must not be empty'')))
            [(''client_id'', Text client_id), (''audience'', Text aud), (''private_key'', private_key)]) (\<lambda>_.
     bnd (validate_signing_algorithm algorithm ''client assertion'') (\<lambda>_.
     bnd (guard_raise (lifetime \<le> CLOCK_SKEW_LEEWAY_SECONDS)
            (raise_cls ValueError (''lifetime must be greater than the '' @ show_int CLOCK_SKEW_LEEWAY_SECONDS
               @ ''s clock-skew leeway, got '' @ show_int lifetime))) (\<lambda>_.
     bnd (guard_raise (case kid of None \<Rightarrow> False | Some k \<Rightarrow> py_strip k = [])
            (raise_cls ValueError ''kid must be non-empty when provided'')) (\<lambda>_.
       se_encode S
         (assertion_claims client_id aud (se_uuid4 S n)
            (truncate_rat (se_time S n) - CLOCK_SKEW_LEEWAY_SECONDS) lifetime)
         private_key algorithm
         (case kid of None \<Rightarrow> [] | Some k \<Rightarrow> [(''kid'', JStr k)])))))"

definition JWT_BEARER :: string where
  "JWT_BEARER = ''urn:ietf:params:oauth:client-assertion-type:jwt-bearer''"

definition apply_private_key_jwt ::
  "signing_env \<Rightarrow> nat \<Rightarrow> string dict \<Rightarrow> private_key_jwt \<Rightarrow> string \<Rightarrow> string \<Rightarrow> string dict res" where
  "apply_private_key_jwt S n body config client_id default_audience =
     bnd (build_client_assertion S n client_id (opt_or (pkj_audience config) default_audience)
            (pkj_private_key config) (pkj_algorithm config) (pkj_kid config) (pkj_lifetime config)) (\<lambda>assertion.
       Inr (dict_set ''client_assertion'' assertion
              (dict_set ''client_assertion_type'' JWT_BEARER (dict_set ''client_id'' client_id body))))"

section \<open>PKCE\<close>

definition MIN_VERIFIER_LENGTH :: int where "MIN_VERIFIER_LENGTH = 43"
definition MAX_VERIFIER_LENGTH :: int where "MAX_VERIFIER_LENGTH = 128"

definition verifier_length_check :: "int \<Rightarrow> unit res" where
  "verifier_length_check len =
     guard_raise (len < MIN_VERIFIER_LENGTH \<or> MAX_VERIFIER_LENGTH < len)
       (raise_cls ValueError (''Code verifier length must be between '' @ show_int MIN_VERIFIER_LENGTH
          @ '' and '' @ show_int MAX_VERIFIER_LENGTH @ '', got '' @ show_int len))"

text \<open>\<open>secrets.token_urlsafe(k)\<close> is the unpadded URL-safe base64 of \<open>k\<close> random bytes, the parameter.\<close>

definition generate_code_verifier :: "(nat \<Rightarrow> byte_list) \<Rightarrow> int \<Rightarrow> string res" where
  "generate_code_verifier token_bytes len =
     bnd (verifier_length_check len) (\<lambda>_. Inr (take (nat len) (b64url (token_bytes (nat len)))))"

text \<open>\<open>s.encode("ascii")\<close>.\<close>

definition encode_ascii :: "string \<Rightarrow> byte_list res" where
  "encode_ascii s = (if py_isascii s then Inr (map of_char s)
                     else Inl (raise_cls UnicodeEncodeError ''ordinal not in range(128)''))"

definition generate_code_challenge :: "string \<Rightarrow> string \<Rightarrow> string res" where
  "generate_code_challenge verifier method =
     bnd (verifier_length_check (int (length verifier))) (\<lambda>_.
       if method = ''S256'' then bnd (encode_ascii verifier) (\<lambda>bs. Inr (b64url (sha256 bs)))
       else if method = ''plain'' then Inr verifier
       else Inl (raise_cls ValueError (''Unsupported code challenge method: '' @ method)))"

definition generate_pkce_pair :: "(nat \<Rightarrow> byte_list) \<Rightarrow> string \<Rightarrow> int \<Rightarrow> (string \<times> string) res" where
  "generate_pkce_pair token_bytes method verifier_length =
     bnd (generate_code_verifier token_bytes verifier_length) (\<lambda>verifier.
     bnd (generate_code_challenge verifier method) (\<lambda>challenge. Inr (verifier, challenge)))"

section \<open>DPoP keys\<close>

text \<open>The public half of a key: an EC point with the name and size of its curve, or an RSA modulus and exponent.\<close>

datatype dpop_public = EcPublic string int int int | RsaPublic int int

record dpop_key =
  dk_algorithm :: string
  dk_private_pem :: string
  dk_public :: dpop_public

definition EC_CURVES :: "string dict" where
  "EC_CURVES = [(''ES256'', ''secp256r1''), (''ES384'', ''secp384r1''), (''ES512'', ''secp521r1'')]"

definition DPOP_ALGORITHMS :: "string list" where
  "DPOP_ALGORITHMS = [''ES256'', ''ES384'', ''ES512'', ''RS256'']"

text \<open>The generator gets the curve, or nothing for an RSA key of 2048 bits.\<close>

definition generate_dpop_key :: "(string option \<Rightarrow> string \<times> dpop_public) \<Rightarrow> string \<Rightarrow> dpop_key res" where
  "generate_dpop_key gen algorithm =
     bnd (guard_raise (algorithm \<notin> set DPOP_ALGORITHMS)
            (raise_cls ValueError (''Unsupported DPoP algorithm: '' @ algorithm @ ''. ''
               @ ''Supported: '' @ fmt_str_list DPOP_ALGORITHMS))) (\<lambda>_.
       let (pem, pub) = gen (map_of EC_CURVES algorithm)
       in Inr \<lparr>dk_algorithm = algorithm, dk_private_pem = pem, dk_public = pub\<rparr>)"

text \<open>\<open>n.to_bytes(length, "big")\<close> in URL-safe base64; a number that does not fit is an \<open>OverflowError\<close>.\<close>

definition int_to_b64url :: "int \<Rightarrow> nat \<Rightarrow> string res" where
  "int_to_b64url n len =
     (if n < 0 then Inl (raise_cls OverflowError ''can't convert negative int to unsigned'')
      else if 256 ^ len \<le> n then Inl (raise_cls OverflowError ''int too big to convert'')
      else Inr (b64url (be_bytes len n)))"

function bit_length :: "int \<Rightarrow> nat" where
  "bit_length n = (if n \<le> 0 then 0 else Suc (bit_length (n div 2)))"
  by pat_completeness auto
termination
  by (relation "measure nat") auto

declare bit_length.simps [simp del]

definition curve_names :: "string dict" where
  "curve_names = [(''secp256r1'', ''P-256''), (''secp384r1'', ''P-384''), (''secp521r1'', ''P-521'')]"

definition public_jwk :: "dpop_public \<Rightarrow> string dict res" where
  "public_jwk pub =
     (case pub of
        EcPublic curve key_size x y \<Rightarrow>
          (case map_of curve_names curve of
             None \<Rightarrow> Inl (raise_cls ValueError (''Unsupported EC curve: '' @ curve))
           | Some crv \<Rightarrow>
               (let k = nat ((key_size + 7) div 8) in
                bnd (int_to_b64url x k) (\<lambda>xs. bnd (int_to_b64url y k) (\<lambda>ys.
                  Inr [(''kty'', ''EC''), (''crv'', crv), (''x'', xs), (''y'', ys)]))))
      | RsaPublic n e \<Rightarrow>
          bnd (int_to_b64url n ((bit_length n + 7) div 8)) (\<lambda>ns.
          bnd (int_to_b64url e ((bit_length e + 7) div 8)) (\<lambda>es.
            Inr [(''kty'', ''RSA''), (''n'', ns), (''e'', es)])))"

text \<open>
  \<open>json.dumps\<close> of string members without white space. The members of a thumbprint are base64url
  texts and fixed names, which JSON writes without escapes.
\<close>

definition dumps_strings :: "string dict \<Rightarrow> string" where
  "dumps_strings d =
     ''{'' @ py_join '','' (map (\<lambda>(k, v). CHR 0x22 # k @ [CHR 0x22, CHR '':'', CHR 0x22] @ v @ [CHR 0x22]) d) @ ''}''"

definition member :: "string dict \<Rightarrow> string \<Rightarrow> string" where
  "member d k = (case map_of d k of None \<Rightarrow> [] | Some v \<Rightarrow> v)"

definition thumbprint_members :: "string dict \<Rightarrow> string list" where
  "thumbprint_members jwk = (if member jwk ''kty'' = ''EC'' then [''crv'', ''kty'', ''x'', ''y''] else [''e'', ''kty'', ''n''])"

definition jwk_thumbprint :: "dpop_public \<Rightarrow> string res" where
  "jwk_thumbprint pub =
     bnd (public_jwk pub) (\<lambda>jwk.
     bnd (encode_ascii (dumps_strings (map (\<lambda>k. (k, member jwk k)) (thumbprint_members jwk)))) (\<lambda>bs.
       Inr (b64url (sha256 bs))))"

section \<open>DPoP proofs\<close>

definition compute_ath :: "string \<Rightarrow> string res" where
  "compute_ath access_token =
     bnd (guard_raise (py_strip access_token = []) (raise_cls ValueError ''access_token must not be empty'')) (\<lambda>_.
     case encode_ascii access_token of
       Inl _ \<Rightarrow> Inl (raise_cls ValueError ''access_token must contain only ASCII characters'')
     | Inr bs \<Rightarrow> Inr (b64url (sha256 bs)))"

definition dpop_htu :: "string \<Rightarrow> string res" where
  "dpop_htu uri =
     bnd (urlparse uri) (\<lambda>p.
     bnd (guard_raise (scheme p = [] \<or> netloc p = []) (raise_cls ValueError ''uri must be an absolute HTTP URI'')) (\<lambda>_.
       Inr (urlunparse_base p)))"

definition dpop_headers :: "dpop_key \<Rightarrow> json dict res" where
  "dpop_headers key =
     bnd (public_jwk (dk_public key)) (\<lambda>jwk.
       Inr [(''typ'', JStr ''dpop+jwt''), (''alg'', JStr (dk_algorithm key)),
            (''jwk'', JDict (map (\<lambda>(k, v). (k, JStr v)) jwk))])"

definition dpop_payload :: "string \<Rightarrow> string \<Rightarrow> string \<Rightarrow> int \<Rightarrow> string option \<Rightarrow> string option \<Rightarrow> json dict" where
  "dpop_payload jti htm htu iat ath nonce =
     [(''jti'', JStr jti), (''htm'', JStr htm), (''htu'', JStr htu), (''iat'', JInt iat)]
     @ (case ath of None \<Rightarrow> [] | Some a \<Rightarrow> [(''ath'', JStr a)])
     @ (if opt_truthy nonce then [(''nonce'', jopt nonce)] else [])"

definition create_dpop_proof ::
  "signing_env \<Rightarrow> nat \<Rightarrow> dpop_key \<Rightarrow> string \<Rightarrow> string \<Rightarrow> string option \<Rightarrow> string option \<Rightarrow> string res" where
  "create_dpop_proof S n key method uri access_token nonce =
     bnd (guard_raise (py_strip method = []) (raise_cls ValueError ''method must not be empty'')) (\<lambda>_.
     bnd (guard_raise (py_strip uri = []) (raise_cls ValueError ''uri must not be empty'')) (\<lambda>_.
     bnd (dpop_htu uri) (\<lambda>htu.
     bnd (dpop_headers key) (\<lambda>headers.
     bnd (if opt_truthy access_token then bnd (compute_ath (the access_token)) (\<lambda>a. Inr (Some a)) else Inr None) (\<lambda>ath.
       se_encode S
         (dpop_payload (se_uuid4 S n) (py_upper method) htu (truncate_rat (se_time S n)) ath nonce)
         (Bytes (dk_private_pem key)) (dk_algorithm key) headers)))))"

definition build_dpop_headers :: "string \<Rightarrow> string option \<Rightarrow> string dict res" where
  "build_dpop_headers proof access_token =
     bnd (guard_raise (py_strip proof = []) (raise_cls ValueError ''proof must not be empty'')) (\<lambda>_.
       Inr ((''DPoP'', proof)
            # (case access_token of None \<Rightarrow> []
               | Some t \<Rightarrow> if py_strip t = [] then [] else [(''Authorization'', ''DPoP '' @ t)])))"

text \<open>\<open>response.json()\<close> raises a \<open>ValueError\<close> for a body that is not JSON; any other exception propagates.\<close>

definition json_or_none :: "http_response \<Rightarrow> json res" where
  "json_or_none r = (case h_json r of Inr j \<Rightarrow> Inr j
     | Inl e \<Rightarrow> if exn_isinstance e ValueError then Inr JNull else Inl e)"

definition extract_dpop_nonce :: "http_response \<Rightarrow> string option res" where
  "extract_dpop_nonce r =
     (let nonce = header_get r ''DPoP-Nonce'' in
      if \<not> opt_truthy nonce then Inr None
      else if h_status r \<notin> {400, 401} then Inr None
      else bnd (json_or_none r) (\<lambda>body.
        Inr (if (case body of JDict d \<Rightarrow> jget d ''error'' = JStr ''use_dpop_nonce'' | _ \<Rightarrow> False) then nonce
             else if py_contains ''use_dpop_nonce'' (header_or r ''WWW-Authenticate'' []) then nonce
             else None)))"

section \<open>Mutual TLS\<close>

text \<open>The certificate parsers give the DER encoding of the certificate they read, or nothing where they raise \<open>ValueError\<close>.\<close>

record x509_env =
  load_pem :: "byte_list \<Rightarrow> byte_list option"
  load_der :: "byte_list \<Rightarrow> byte_list option"

definition certificate_bytes :: "text_or_bytes \<Rightarrow> byte_list" where
  "certificate_bytes cert = (case cert of Text s \<Rightarrow> concat (map utf8_bytes s) | Bytes b \<Rightarrow> map of_char b)"

definition load_certificate :: "x509_env \<Rightarrow> text_or_bytes \<Rightarrow> byte_list res" where
  "load_certificate X cert =
     bnd (guard_raise (blank_value cert) (raise_cls ValueError ''certificate must not be empty'')) (\<lambda>_.
       case load_pem X (certificate_bytes cert) of
         Some der \<Rightarrow> Inr der
       | None \<Rightarrow> (case load_der X (certificate_bytes cert) of
             Some der \<Rightarrow> Inr der
           | None \<Rightarrow> Inl (raise_cls ValueError ''certificate is not valid PEM or DER X.509 content'')))"

definition compute_certificate_thumbprint :: "x509_env \<Rightarrow> text_or_bytes \<Rightarrow> string res" where
  "compute_certificate_thumbprint X cert =
     bnd (load_certificate X cert) (\<lambda>der. Inr (b64url (sha256 der)))"

text \<open>The file system gives the content of a file or the \<open>OSError\<close> of opening it.\<close>

definition certificate_thumbprint_from_file :: "x509_env \<Rightarrow> (string \<Rightarrow> string res) \<Rightarrow> string \<Rightarrow> string res" where
  "certificate_thumbprint_from_file X read_file file =
     bnd (guard_raise (py_strip file = []) (raise_cls ValueError ''path must not be empty'')) (\<lambda>_.
     bnd (read_file file) (\<lambda>content. compute_certificate_thumbprint X (Bytes content)))"

definition binding_error :: "string \<Rightarrow> exn" where
  "binding_error msg = token_exn CertificateBindingError msg None []"

definition validate_certificate_binding :: "x509_env \<Rightarrow> json dict \<Rightarrow> text_or_bytes \<Rightarrow> unit res" where
  "validate_certificate_binding X claims cert =
     (case jget claims ''cnf'' of
        JDict cnf \<Rightarrow>
          (case jget cnf ''x5t#S256'' of
             JStr bound \<Rightarrow>
               bnd (guard_raise (bound = []) (binding_error
                 (''Access token 'cnf' claim has no 'x5t#S256' certificate '' @ ''thumbprint (RFC 8705 Section 3.1)''))) (\<lambda>_.
               bnd (guard_raise (\<not> py_isascii bound) (binding_error
                 (''Access token 'cnf[x5t#S256]' is not a valid base64url thumbprint ''
                  @ ''(non-ASCII characters) (RFC 8705 Section 3.1)''))) (\<lambda>_.
               bnd (compute_certificate_thumbprint X cert) (\<lambda>presented.
               bnd (compare_digest bound presented) (\<lambda>eq.
                 guard_raise (\<not> eq) (binding_error
                   (''Certificate binding mismatch: token 'cnf[x5t#S256]' does not ''
                    @ ''match the presented client certificate (RFC 8705 Section 3)''))))))
           | _ \<Rightarrow> Inl (binding_error
                 (''Access token 'cnf' claim has no 'x5t#S256' certificate '' @ ''thumbprint (RFC 8705 Section 3.1)'')))
      | _ \<Rightarrow> Inl (binding_error
            (''Access token is not certificate-bound: missing 'cnf' claim '' @ ''(RFC 8705 Section 3.1)'')))"

definition apply_mtls_client_auth :: "string dict \<Rightarrow> string \<Rightarrow> string dict" where
  "apply_mtls_client_auth body client_id = dict_set ''client_id'' client_id body"

record mtls_client_auth =
  mtls_certificate :: string
  mtls_private_key :: string
  mtls_password :: "string option"
  mtls_auth_method :: string

text \<open>The \<open>cert=\<close> value of httpx: two members, or three with the password.\<close>

definition build_httpx_cert :: "mtls_client_auth \<Rightarrow> string list" where
  "build_httpx_cert m =
     (case mtls_password m of
        Some pw \<Rightarrow> [mtls_certificate m, mtls_private_key m, pw]
      | None \<Rightarrow> [mtls_certificate m, mtls_private_key m])"

text \<open>\<open>get_ssl_verify\<close> gives the path of a bundle, or \<open>True\<close>.\<close>

datatype ssl_verify = VerifyDefault | VerifyPath string

definition get_ssl_verify :: "os_env \<Rightarrow> ssl_verify" where
  "get_ssl_verify env =
     (case find (\<lambda>name. opt_truthy (env name)) [''SSL_CERT_FILE'', ''CURL_CA_BUNDLE'', ''REQUESTS_CA_BUNDLE''] of
        Some name \<Rightarrow> VerifyPath (the (env name))
      | None \<Rightarrow> VerifyDefault)"

text \<open>
  \<open>resolve_mtls_endpoint\<close> takes the name of a document attribute and gives \<open>None\<close> for a name the
  class does not have. Reading an attribute of a failed response raises.
\<close>

definition disco_getattr :: "disco_response \<Rightarrow> string \<Rightarrow> json res" where
  "disco_getattr d name = (if name \<in> set disco_attr_names then disco_get d name else Inr JNull)"

definition resolve_mtls_endpoint :: "disco_response \<Rightarrow> string \<Rightarrow> json res" where
  "resolve_mtls_endpoint d endpoint =
     bnd (disco_get d ''mtls_endpoint_aliases'') (\<lambda>aliases.
       case aliases of
         JDict a \<Rightarrow> if truthy (jget a endpoint) then Inr (jget a endpoint) else disco_getattr d endpoint
       | _ \<Rightarrow> disco_getattr d endpoint)"

section \<open>Facts on Basic credentials and assertions\<close>

lemma quote_decodes: "unquote_plus (quote s) = s"
proof -
  have plain: "map (\<lambda>c. if c = CHR ''+'' then CHR '' '' else c) (quote s) = quote s"
    using quote_char_no_plus by (auto simp: quote_def intro!: map_idI)
  have "utf8_decode (pct_decode_bytes (quote s)) = s"
    by (induction s) (simp_all add: quote_def pct_decode_quote_char utf8_decode_bytes)
  then show ?thesis by (simp add: unquote_plus_def plain)
qed

lemma quote_chars: "c \<in> set (quote s) \<Longrightarrow> is_unreserved c \<or> c = CHR ''%''"
  using quote_char_chars by (auto simp: quote_def)

lemma quote_no_colon: "CHR '':'' \<notin> set (quote s)"
  using quote_chars [of "CHR '':''" s] by (auto simp: is_unreserved_def is_ascii_alpha_def is_ascii_digit_def)

lemma unreserved_ascii: "is_unreserved c \<Longrightarrow> ord c < 128"
  by (auto simp: is_unreserved_def is_ascii_alpha_def is_ascii_digit_def)

lemma quote_ascii: "py_isascii (quote s)"
  unfolding py_isascii_def list_all_iff using quote_chars unreserved_ascii by fastforce

lemma truncate_window: "of_int (truncate_rat q) - 10 \<le> q" "q < of_int (truncate_rat q + 1)"
  unfolding truncate_rat_def by (auto simp: floor_le_iff) linarith+

lemma build_client_assertion_ok:
  "build_client_assertion S n cid aud key alg kid life = Inr jwt \<longleftrightarrow>
     py_strip cid \<noteq> [] \<and> py_strip aud \<noteq> [] \<and> \<not> blank_value key
     \<and> alg \<in> set SUPPORTED_SIGNING_ALGORITHMS \<and> 10 < life
     \<and> (\<forall>k. kid = Some k \<longrightarrow> py_strip k \<noteq> [])
     \<and> se_encode S (assertion_claims cid aud (se_uuid4 S n) (truncate_rat (se_time S n) - 10) life) key alg
         (case kid of None \<Rightarrow> [] | Some k \<Rightarrow> [(''kid'', JStr k)]) = Inr jwt"
  by (auto simp: build_client_assertion_def res_splits validate_signing_algorithm_def blank_value_def
      CLOCK_SKEW_LEEWAY_SECONDS_def split: option.splits)

lemma assertion_claims_get:
  "jget (assertion_claims cid aud jti iat life) ''iss'' = JStr cid"
  "jget (assertion_claims cid aud jti iat life) ''sub'' = JStr cid"
  "jget (assertion_claims cid aud jti iat life) ''aud'' = JStr aud"
  "jget (assertion_claims cid aud jti iat life) ''jti'' = JStr jti"
  "jget (assertion_claims cid aud jti iat life) ''nbf'' = JInt iat"
  "jget (assertion_claims cid aud jti iat life) ''iat'' = JInt iat"
  "jget (assertion_claims cid aud jti iat life) ''exp'' = JInt (iat + life)"
  by (simp_all add: assertion_claims_def jget_def)

text \<open>HTTP Basic credentials survive the way to the server. For every client identifier and secret,
  also with colons, percent and plus signs, spaces or non-ASCII characters, the pair put together
  with a colon is plain ASCII, a server that splits it at the first colon and form-decodes both
  halves gets back exactly the identifier and the secret.
\<close>

theorem basic_credentials_roundtrip:
  "\<exists>user pass. basic_auth_credentials client_id client_secret = (user, pass)
     \<and> py_isascii (user @ CHR '':'' # pass)
     \<and> py_partition (CHR '':'') (user @ CHR '':'' # pass) = (user, True, pass)
     \<and> unquote_plus user = client_id \<and> unquote_plus pass = client_secret"
proof -
  let ?u = "quote client_id" and ?p = "quote client_secret"
  have "py_partition (CHR '':'') (?u @ CHR '':'' # ?p) = (?u, True, ?p)"
    using quote_no_colon by (rule py_partition_first)
  moreover have "py_isascii (?u @ CHR '':'' # ?p)"
    using quote_ascii by (simp add: py_isascii_def)
  ultimately show ?thesis by (simp add: basic_auth_credentials_def quote_decodes)
qed

text \<open>A client assertion is acceptable when it is minted. If \<open>build_client_assertion\<close> returns, the
  signed claims name the client as issuer and subject, the audience and the fresh identifier, the
  moment of minting lies inside the validity window (after \<open>nbf\<close> and \<open>iat\<close>, strictly before
  \<open>exp\<close>), the window has the requested length, the algorithm is an asymmetric one, and the header
  carries a key identifier only if one was given and is not blank.
\<close>

theorem client_assertion_valid:
  assumes "build_client_assertion S n client_id aud private_key algorithm kid lifetime = Inr jwt"
  shows "\<exists>claims headers iat. se_encode S claims private_key algorithm headers = Inr jwt
    \<and> jget claims ''iss'' = JStr client_id \<and> jget claims ''sub'' = JStr client_id
    \<and> jget claims ''aud'' = JStr aud \<and> jget claims ''jti'' = JStr (se_uuid4 S n)
    \<and> jget claims ''nbf'' = JInt iat \<and> jget claims ''iat'' = JInt iat \<and> jget claims ''exp'' = JInt (iat + lifetime)
    \<and> of_int iat \<le> se_time S n \<and> se_time S n < of_int (iat + lifetime)
    \<and> \<not> py_startswith algorithm ''HS'' \<and> algorithm \<noteq> ''none''
    \<and> (\<forall>k. jget headers ''kid'' = JStr k \<longrightarrow> kid = Some k \<and> py_strip k \<noteq> [])"
proof -
  let ?iat = "truncate_rat (se_time S n) - 10"
  let ?headers = "case kid of None \<Rightarrow> [] | Some k \<Rightarrow> [(''kid'', JStr k)]"
  note ok = assms [unfolded build_client_assertion_ok]
  have life: "10 < lifetime" and alg: "algorithm \<in> set SUPPORTED_SIGNING_ALGORITHMS"
    and kid: "\<forall>k. kid = Some k \<longrightarrow> py_strip k \<noteq> []"
    and enc: "se_encode S (assertion_claims client_id aud (se_uuid4 S n) ?iat lifetime) private_key algorithm ?headers
                = Inr jwt"
    using ok by blast+
  have "(of_int (truncate_rat (se_time S n) + 1) :: rat) \<le> of_int (?iat + lifetime)"
    using life by (subst of_int_le_iff) linarith
  then have window: "of_int ?iat \<le> se_time S n" "se_time S n < of_int (?iat + lifetime)"
    using truncate_window [of "se_time S n"] by (simp, linarith)
  have asym: "\<not> py_startswith algorithm ''HS''" "algorithm \<noteq> ''none''"
    using alg by (auto simp: SUPPORTED_SIGNING_ALGORITHMS_def py_startswith_def)
  have header: "\<forall>k. jget ?headers ''kid'' = JStr k \<longrightarrow> kid = Some k \<and> py_strip k \<noteq> []"
    using kid by (auto simp: jget_def split: option.splits)
  show ?thesis
    by (intro exI conjI) (rule enc assertion_claims_get window asym header)+
qed

definition example_signing :: signing_env where
  "example_signing =
     \<lparr>se_encode = (\<lambda>claims key alg headers. Inr (alg @ ''.'' @ show_nat (length claims))),
      se_uuid4 = (\<lambda>n. ''id-'' @ show_nat n), se_time = (\<lambda>_. 3001 / 2)\<rparr>"

lemma example_assertion:
  "build_client_assertion example_signing 0 ''app'' ''https://op/token'' (Text ''pem'') ''PS256'' (Some ''k1'') 300
     = Inr ''PS256.7''"
  by (simp add: build_client_assertion_ok SUPPORTED_SIGNING_ALGORITHMS_def blank_value_def example_signing_def
      assertion_claims_def) code_simp

theorem client_assertion_valid_witness:
  "\<exists>claims headers iat. se_encode example_signing claims (Text ''pem'') ''PS256'' headers = Inr ''PS256.7''
    \<and> jget claims ''iss'' = JStr ''app'' \<and> jget claims ''nbf'' = JInt iat \<and> jget claims ''exp'' = JInt (iat + 300)
    \<and> of_int iat \<le> se_time example_signing 0 \<and> se_time example_signing 0 < of_int (iat + 300)"
  using client_assertion_valid [OF example_assertion] by blast

section \<open>Facts on PKCE\<close>

lemma b64url_char_ascii: "is_b64url_char c \<Longrightarrow> ord c < 128"
  by (auto simp: is_b64url_char_def is_ascii_alpha_def is_ascii_digit_def)

lemma b64url_text_ascii: "list_all is_b64url_char s \<Longrightarrow> py_isascii s"
  by (auto simp: py_isascii_def list_all_iff b64url_char_ascii)

lemma b64url_ascii [simp]: "bytes_ok bs \<Longrightarrow> py_isascii (b64url bs)"
  using b64url_alphabet b64url_text_ascii by blast

lemma encode_ascii_b64url: "list_all is_b64url_char s \<Longrightarrow> encode_ascii s = Inr (map of_char s)"
  by (simp add: encode_ascii_def b64url_text_ascii)

text \<open>PKCE pairs are what RFC 7636 asks for. With a source of random bytes that delivers the number
  of bytes it is asked for, every length from 43 to 128 and both methods give a pair: the verifier
  has exactly that length and only URL-safe characters, an S256 challenge is the 43 characters of
  the base64url form of the verifier's SHA-256 digest, a plain one is the verifier, and the challenge
  derived again from the verifier is the same. Every other length raises \<open>ValueError\<close>.
\<close>

theorem pkce_pair_correct:
  assumes "\<forall>k. length (token_bytes k) = k \<and> bytes_ok (token_bytes k)" and "method \<in> {''S256'', ''plain''}"
  shows "if 43 \<le> len \<and> len \<le> 128
         then \<exists>verifier challenge. generate_pkce_pair token_bytes method len = Inr (verifier, challenge)
           \<and> int (length verifier) = len \<and> list_all is_b64url_char verifier
           \<and> generate_code_challenge verifier method = Inr challenge
           \<and> (if method = ''S256'' then challenge = b64url (sha256 (map of_char verifier)) \<and> length challenge = 43
              else challenge = verifier)
         else \<exists>e. generate_pkce_pair token_bytes method len = Inl e \<and> exn_class e = ValueError"
proof (cases "43 \<le> len \<and> len \<le> 128")
  case True
  define v where "v = take (nat len) (b64url (token_bytes (nat len)))"
  note defs = generate_code_verifier_def generate_code_challenge_def verifier_length_check_def
    MIN_VERIFIER_LENGTH_def MAX_VERIFIER_LENGTH_def
  have size: "int (length v) = len"
    using True assms(1) by (simp add: v_def b64url_length)
  have chars: "list_all is_b64url_char v"
    using b64url_alphabet assms(1) unfolding v_def list_all_iff by (blast dest: in_set_takeD)
  have "generate_code_verifier token_bytes len = Inr v"
    using True by (simp add: defs v_def)
  moreover have "generate_code_challenge v method
      = Inr (if method = ''S256'' then b64url (sha256 (map of_char v)) else v)"
    using True assms(2) by (auto simp: defs size encode_ascii_b64url [OF chars])
  ultimately show ?thesis
    using True size chars by (simp add: generate_pkce_pair_def b64url_length)
next
  case False
  then show ?thesis
    by (auto simp: generate_pkce_pair_def generate_code_verifier_def verifier_length_check_def
        MIN_VERIFIER_LENGTH_def MAX_VERIFIER_LENGTH_def)
qed

theorem pkce_pair_correct_witness:
  "\<exists>verifier challenge. generate_pkce_pair (\<lambda>k. replicate k 0) ''S256'' 43 = Inr (verifier, challenge)
     \<and> int (length verifier) = 43 \<and> challenge = b64url (sha256 (map of_char verifier)) \<and> length challenge = 43"
proof -
  have "\<forall>k. length (replicate k (0 :: int)) = k \<and> bytes_ok (replicate k 0)"
    by (simp add: bytes_ok_def list_all_iff)
  from pkce_pair_correct [OF this, of "''S256''" 43] show ?thesis by auto
qed

section \<open>Facts on DPoP\<close>

lemma bit_length_bound: "n < 2 ^ bit_length n" for n :: int
proof (induction n rule: bit_length.induct)
  case (1 n)
  show ?case
  proof (cases "n \<le> 0")
    case True
    then show ?thesis by (simp add: bit_length.simps)
  next
    case False
    then have "n div 2 < 2 ^ bit_length (n div 2)" using 1 by simp
    then have "n < 2 * 2 ^ bit_length (n div 2)" by linarith
    with False show ?thesis by (simp add: bit_length.simps [of n])
  qed
qed

lemma byte_length_bound: "n < 256 ^ ((bit_length n + 7) div 8)" for n :: int
proof -
  have "(2 :: int) ^ bit_length n \<le> 2 ^ (8 * ((bit_length n + 7) div 8))"
    by (rule power_increasing) auto
  also have "\<dots> = 256 ^ ((bit_length n + 7) div 8)" by (simp add: power_mult)
  finally show ?thesis using bit_length_bound [of n] by linarith
qed

lemma int_to_b64url_ok:
  assumes "0 \<le> n" "n < 256 ^ len"
  shows "\<exists>s. int_to_b64url n len = Inr s \<and> length s = (4 * len + 2) div 3
     \<and> list_all is_b64url_char s \<and> be_value (b64url_dec s) = n"
  using assms by (simp add: int_to_b64url_def b64url_length b64url_alphabet b64url_roundtrip be_value_be_bytes)

text \<open>The keys the generator makes: a point of the named curve, or an RSA key.\<close>

definition dpop_public_wf :: "dpop_public \<Rightarrow> bool" where
  "dpop_public_wf pub =
     (case pub of
        EcPublic curve bits x y \<Rightarrow>
          (curve, bits) \<in> {(''secp256r1'', 256), (''secp384r1'', 384), (''secp521r1'', 521)}
          \<and> 0 \<le> x \<and> x < 2 ^ nat bits \<and> 0 \<le> y \<and> y < 2 ^ nat bits
      | RsaPublic n e \<Rightarrow> 0 < n \<and> 0 < e)"

definition jwk_numbers :: "string dict \<Rightarrow> int list" where
  "jwk_numbers jwk = map (\<lambda>k. be_value (b64url_dec (member jwk k))) (if member jwk ''kty'' = ''EC'' then [''x'', ''y''] else [''n'', ''e''])"

lemma public_jwk_roundtrip:
  assumes "dpop_public_wf pub"
  shows "\<exists>jwk. public_jwk pub = Inr jwk
     \<and> jwk_numbers jwk = (case pub of EcPublic _ _ x y \<Rightarrow> [x, y] | RsaPublic n e \<Rightarrow> [n, e])
     \<and> set (dict_keys jwk) \<subseteq> {''kty'', ''crv'', ''x'', ''y'', ''n'', ''e''}
     \<and> (\<forall>v \<in> snd ` set jwk. py_isascii v)"
proof (cases pub)
  case (EcPublic curve bits x y)
  define k where "k = nat ((bits + 7) div 8)"
  have wf: "(curve, bits) \<in> {(''secp256r1'', 256), (''secp384r1'', 384), (''secp521r1'', 521)}"
      "0 \<le> x" "x < 2 ^ nat bits" "0 \<le> y" "y < 2 ^ nat bits"
    using assms EcPublic by (simp_all add: dpop_public_wf_def)
  have "(2 :: int) ^ nat bits \<le> 256 ^ k" using wf(1) by (auto simp: k_def)
  then obtain xs ys where "int_to_b64url x k = Inr xs" "int_to_b64url y k = Inr ys"
      "list_all is_b64url_char xs" "list_all is_b64url_char ys"
      "be_value (b64url_dec xs) = x" "be_value (b64url_dec ys) = y"
    using int_to_b64url_ok [of x k] int_to_b64url_ok [of y k] wf by fastforce
  moreover obtain crv where "map_of curve_names curve = Some crv" "py_isascii crv"
    using wf(1) by (auto simp: curve_names_def py_isascii_def)
  ultimately show ?thesis
    using EcPublic b64url_text_ascii
    by (simp add: public_jwk_def Let_def k_def jwk_numbers_def member_def) (simp add: py_isascii_def)
next
  case (RsaPublic n e)
  then obtain ns es where "int_to_b64url n ((bit_length n + 7) div 8) = Inr ns"
      "int_to_b64url e ((bit_length e + 7) div 8) = Inr es"
      "list_all is_b64url_char ns" "list_all is_b64url_char es"
      "be_value (b64url_dec ns) = n" "be_value (b64url_dec es) = e"
    using assms int_to_b64url_ok [OF _ byte_length_bound, of n] int_to_b64url_ok [OF _ byte_length_bound, of e]
    by (auto simp: dpop_public_wf_def)
  then show ?thesis
    using RsaPublic b64url_text_ascii by (simp add: public_jwk_def jwk_numbers_def member_def) (simp add: py_isascii_def)
qed

lemma dpop_htu_ok:
  assumes "dpop_htu uri = Inr htu"
  obtains p where "urlparse uri = Inr p" "scheme p \<noteq> []" "netloc p \<noteq> []"
    "urlparse htu = Inr (p\<lparr>query := [], fragment := []\<rparr>)" "CHR ''?'' \<notin> set htu" "CHR ''#'' \<notin> set htu"
proof -
  obtain p where p: "urlparse uri = Inr p" "scheme p \<noteq> []" "netloc p \<noteq> []" and htu: "htu = urlunparse_base p"
    using assms by (auto simp: dpop_htu_def res_splits)
  show ?thesis using that [OF p] urlparse_unparse [OF p] htu by simp
qed

lemma compute_ath_ok: "compute_ath t = Inr a \<longleftrightarrow> py_strip t \<noteq> [] \<and> py_isascii t \<and> a = b64url (sha256 (map of_char t))"
  by (auto simp: compute_ath_def res_splits encode_ascii_def)

lemma dpop_payload_get:
  "jget (dpop_payload jti htm htu iat ath nonce) ''jti'' = JStr jti"
  "jget (dpop_payload jti htm htu iat ath nonce) ''htm'' = JStr htm"
  "jget (dpop_payload jti htm htu iat ath nonce) ''htu'' = JStr htu"
  "jget (dpop_payload jti htm htu iat ath nonce) ''iat'' = JInt iat"
  "jget (dpop_payload jti htm htu iat ath nonce) ''ath'' = jopt ath"
  "jget (dpop_payload jti htm htu iat ath nonce) ''nonce'' = (if opt_truthy nonce then jopt nonce else JNull)"
  by (auto simp: dpop_payload_def jget_def jopt_def split: option.splits)

text \<open>The members of a JWK that hold private key material.\<close>

definition private_members :: "string list" where
  "private_members = [''d'', ''p'', ''q'', ''dp'', ''dq'', ''qi'', ''oth'', ''k'']"

text \<open>C25: A DPoP proof is bound to its request and its key. If \<open>create_dpop_proof\<close> returns, the signed
  claims name the upper-case method and a target that parses to the scheme, authority, path and
  parameters of the request's absolute URI with no query and no fragment; they carry the access token's
  SHA-256 hash exactly when a token was given, and the server's nonce exactly when a non-empty one was
  given; the header carries the public key, from which the key's numbers are read back, and no private
  member.
\<close>

theorem dpop_proof_bound:
  assumes "create_dpop_proof S n key method uri access_token nonce = Inr proof" and "dpop_public_wf (dk_public key)"
  shows "\<exists>claims headers jwk htu p.
      se_encode S claims (Bytes (dk_private_pem key)) (dk_algorithm key) headers = Inr proof
      \<and> jget claims ''jti'' = JStr (se_uuid4 S n) \<and> jget claims ''htm'' = JStr (py_upper method)
      \<and> jget claims ''htu'' = JStr htu \<and> CHR ''?'' \<notin> set htu \<and> CHR ''#'' \<notin> set htu
      \<and> urlparse uri = Inr p \<and> scheme p \<noteq> [] \<and> netloc p \<noteq> [] \<and> urlparse htu = Inr (p\<lparr>query := [], fragment := []\<rparr>)
      \<and> jget claims ''ath'' = (if opt_truthy access_token then JStr (b64url (sha256 (map of_char (the access_token)))) else JNull)
      \<and> jget claims ''nonce'' = (if opt_truthy nonce then jopt nonce else JNull)
      \<and> jget headers ''typ'' = JStr ''dpop+jwt'' \<and> jget headers ''alg'' = JStr (dk_algorithm key)
      \<and> jget headers ''jwk'' = JDict (map (\<lambda>(k, v). (k, JStr v)) jwk)
      \<and> jwk_numbers jwk = (case dk_public key of EcPublic _ _ x y \<Rightarrow> [x, y] | RsaPublic n e \<Rightarrow> [n, e])
      \<and> set (dict_keys jwk) \<inter> set private_members = {}"
proof -
  obtain htu headers ath where htu: "dpop_htu uri = Inr htu" and hd: "dpop_headers key = Inr headers"
    and ath: "(if opt_truthy access_token then bnd (compute_ath (the access_token)) (\<lambda>a. Inr (Some a)) else Inr None) = Inr ath"
    and enc: "se_encode S (dpop_payload (se_uuid4 S n) (py_upper method) htu (truncate_rat (se_time S n)) ath nonce)
         (Bytes (dk_private_pem key)) (dk_algorithm key) headers = Inr proof"
    using assms(1) by (auto simp: create_dpop_proof_def res_splits)
  obtain p where p: "urlparse uri = Inr p" "scheme p \<noteq> []" "netloc p \<noteq> []"
    "urlparse htu = Inr (p\<lparr>query := [], fragment := []\<rparr>)" "CHR ''?'' \<notin> set htu" "CHR ''#'' \<notin> set htu"
    by (rule dpop_htu_ok [OF htu])
  obtain jwk where jwk: "public_jwk (dk_public key) = Inr jwk"
      "jwk_numbers jwk = (case dk_public key of EcPublic _ _ x y \<Rightarrow> [x, y] | RsaPublic n e \<Rightarrow> [n, e])"
      "set (dict_keys jwk) \<subseteq> {''kty'', ''crv'', ''x'', ''y'', ''n'', ''e''}"
    using public_jwk_roundtrip [OF assms(2)] by blast
  have header: "jget headers ''typ'' = JStr ''dpop+jwt''" "jget headers ''alg'' = JStr (dk_algorithm key)"
      "jget headers ''jwk'' = JDict (map (\<lambda>(k, v). (k, JStr v)) jwk)"
    using hd jwk(1) by (auto simp: dpop_headers_def jget_def)
  have pubonly: "set (dict_keys jwk) \<inter> set private_members = {}"
    using jwk(3) by (auto simp: private_members_def)
  have hash: "jopt ath = (if opt_truthy access_token then JStr (b64url (sha256 (map of_char (the access_token)))) else JNull)"
    using ath by (auto simp: res_splits compute_ath_ok jopt_def split: if_splits)
  show ?thesis
    by (intro exI conjI) (rule enc dpop_payload_get dpop_payload_get(5) [THEN trans, OF hash] p header jwk(2) pubonly)+
qed

definition example_dpop_key :: dpop_key where
  "example_dpop_key = \<lparr>dk_algorithm = ''RS256'', dk_private_pem = ''pem'', dk_public = RsaPublic 3233 17\<rparr>"

lemma example_dpop_proof:
  "create_dpop_proof example_signing 0 example_dpop_key ''post'' ''https://rs/a;p?q=1#f'' (Some ''tok'') None = Inr ''RS256.5''"
  by code_simp

theorem dpop_proof_bound_witness:
  "\<exists>claims headers htu p. se_encode example_signing claims (Bytes ''pem'') ''RS256'' headers = Inr ''RS256.5''
     \<and> jget claims ''htu'' = JStr htu \<and> urlparse ''https://rs/a;p?q=1#f'' = Inr p
     \<and> urlparse htu = Inr (p\<lparr>query := [], fragment := []\<rparr>) \<and> jget claims ''nonce'' = JNull"
proof -
  have wf: "dpop_public_wf (dk_public example_dpop_key)" by (simp add: example_dpop_key_def dpop_public_wf_def)
  show ?thesis
    using dpop_proof_bound [OF example_dpop_proof wf] by (simp add: example_dpop_key_def) blast
qed

section \<open>Facts on certificate-bound tokens\<close>

text \<open>A certificate-bound token is accepted exactly with its certificate. For a readable certificate
  the check passes if and only if the token's \<open>cnf\<close> claim is an object whose \<open>x5t#S256\<close> member is the
  base64url text of the SHA-256 digest of the certificate's DER form, and every refusal, whatever the
  claims are, is a \<open>CertificateBindingError\<close>. No claims are accepted with an unreadable certificate.
\<close>

theorem certificate_binding_exact:
  "case load_certificate X cert of
     Inr der \<Rightarrow>
       (validate_certificate_binding X claims cert = Inr () \<longleftrightarrow>
          (\<exists>cnf. jget claims ''cnf'' = JDict cnf \<and> jget cnf ''x5t#S256'' = JStr (b64url (sha256 der))))
       \<and> raises_in {CertificateBindingError} (validate_certificate_binding X claims cert)
   | Inl _ \<Rightarrow> \<not> is_ok (validate_certificate_binding X claims cert)
       \<and> raises_in {CertificateBindingError, ValueError} (validate_certificate_binding X claims cert)"
proof -
  have nonempty: "b64url (sha256 der) \<noteq> []" for der
  proof -
    have "length (b64url (sha256 der)) = 43" by (simp add: b64url_length)
    then show ?thesis by auto
  qed
  have cls: "exn_class (binding_error m) = CertificateBindingError" for m by (simp add: binding_error_def)
  have unread: "exn_class e = ValueError" if "load_certificate X cert = Inl e" for e
    using that by (auto simp: load_certificate_def res_splits split: option.splits)
  have rg: "raises_in C (guard_raise c e) \<longleftrightarrow> (c \<longrightarrow> exn_class e \<in> C)" "is_ok (guard_raise c e) \<longleftrightarrow> \<not> c"
      "guard_raise c e = Inr () \<longleftrightarrow> \<not> c" for c C and e :: exn
    by (simp_all add: guard_raise_def)
  have rb: "bnd (guard_raise c e) f = (if c then Inl e else f ())" for c and e :: exn and f :: "unit \<Rightarrow> unit res"
    by simp
  show ?thesis
    using nonempty unread not_sym [OF nonempty]
    by (cases "load_certificate X cert"; cases "jget claims ''cnf''")
      (auto simp: validate_certificate_binding_def compute_certificate_thumbprint_def compare_digest_def cls rg rb
        split: json.split)
qed

end
