(* ===== verification/Client_Requests.thy ===== *)
theory Client_Requests
  imports Client_Auth
begin

text \<open>
  The protocol requests of the client and the processing of their answers:
  \<open>core/token_client_logic.py\<close>, \<open>token_exchange_logic.py\<close>, \<open>introspection_logic.py\<close>,
  \<open>revocation_logic.py\<close>, \<open>device_auth_logic.py\<close>, \<open>par_logic.py\<close>, \<open>userinfo_logic.py\<close>, the parsers of
  \<open>response_processors.py\<close> and the handlers of \<open>error_handlers.py\<close>.

  A request class is a record that extends the fields every authenticated request has, a response
  class a record that extends the success flag and the error. Form parameters, headers and the
  optional Basic pair are what \<open>prepare_*\<close> returns. Logging is left out, except where a log call
  reads an attribute and may raise.
\<close>

section \<open>Requests\<close>

record authn_request =
  rq_address :: string
  rq_client_id :: string
  rq_client_secret :: "string option"
  rq_private_key_jwt :: "private_key_jwt option"
  rq_mtls :: "mtls_client_auth option"

record cc_request = authn_request +
  cc_scope :: "string option"

record code_request = authn_request +
  cr_code :: string
  cr_redirect_uri :: string
  cr_code_verifier :: "string option"
  cr_scope :: "string option"
  cr_dpop_key :: "dpop_key option"

record refresh_request = authn_request +
  rr_refresh_token :: string
  rr_scope :: "string option"

text \<open>Introspection and revocation requests have the same fields.\<close>

record hinted_request = authn_request +
  hr_token :: string
  hr_token_type_hint :: "string option"

record par_request = authn_request +
  pr_redirect_uri :: string
  pr_scope :: string
  pr_response_type :: string
  pr_state :: "string option"
  pr_nonce :: "string option"
  pr_code_challenge :: "string option"
  pr_code_challenge_method :: "string option"
  pr_response_mode :: "string option"
  pr_dpop_key :: "dpop_key option"

record device_auth_request = authn_request +
  da_scope :: string

record device_token_request = authn_request +
  dt_device_code :: string

record exchange_request = authn_request +
  xr_subject_token :: string
  xr_subject_token_type :: string
  xr_actor_token :: "string option"
  xr_actor_token_type :: "string option"
  xr_resource :: "string option"
  xr_audience :: "string option"
  xr_scope :: "string option"
  xr_requested_token_type :: "string option"

record userinfo_request =
  ui_address :: string
  ui_token :: string
  ui_expected_sub :: "string option"
  ui_dpop_key :: "dpop_key option"
  ui_mtls :: "mtls_client_auth option"

section \<open>Client authentication of a request\<close>

type_synonym prepared = "string dict \<times> string dict \<times> (string \<times> string) option"

definition form_headers :: "string dict" where
  "form_headers = [(''Content-Type'', ''application/x-www-form-urlencoded'')]"

text \<open>
  The branch every \<open>prepare_*\<close> function ends with: a client assertion before mutual TLS before the
  secret before a public client. The functions differ in when a secret counts (\<open>usable\<close>) and in
  what a public client adds to the body (\<open>public_body\<close>).
\<close>

definition authenticate ::
  "signing_env \<Rightarrow> nat \<Rightarrow> (string option \<Rightarrow> bool) \<Rightarrow> (string dict \<Rightarrow> string dict) \<Rightarrow> 'a authn_request_scheme
   \<Rightarrow> string dict \<Rightarrow> (string dict \<times> (string \<times> string) option) res" where
  "authenticate S n usable public_body r body =
     (case rq_private_key_jwt r of
        Some config \<Rightarrow>
          bnd (apply_private_key_jwt S n body config (rq_client_id r) (rq_address r)) (\<lambda>b. Inr (b, None))
      | None \<Rightarrow>
          if rq_mtls r \<noteq> None then Inr (apply_mtls_client_auth body (rq_client_id r), None)
          else if usable (rq_client_secret r)
          then Inr (body, Some (basic_auth_credentials (rq_client_id r) (the (rq_client_secret r))))
          else Inr (public_body body, None))"

definition secret_given :: "string option \<Rightarrow> bool" where
  "secret_given s = (s \<noteq> None)"

definition secret_nonblank :: "string option \<Rightarrow> bool" where
  "secret_nonblank s = (case s of None \<Rightarrow> False | Some t \<Rightarrow> py_strip t \<noteq> [])"

abbreviation id_in_body :: "'a authn_request_scheme \<Rightarrow> string dict \<Rightarrow> string dict" where
  "id_in_body r \<equiv> dict_set ''client_id'' (rq_client_id r)"

definition with_auth :: "string dict \<Rightarrow> (string dict \<times> (string \<times> string) option) res \<Rightarrow> prepared res" where
  "with_auth headers m = bnd m (\<lambda>(body, auth). Inr (body, headers, auth))"

text \<open>The DPoP header of a token or PAR request carries a proof without a token hash.\<close>

definition dpop_post_headers :: "signing_env \<Rightarrow> nat \<Rightarrow> dpop_key option \<Rightarrow> string \<Rightarrow> string option \<Rightarrow> string dict res" where
  "dpop_post_headers S n key address nonce =
     (case key of None \<Rightarrow> Inr form_headers
      | Some k \<Rightarrow> bnd (create_dpop_proof S n k ''POST'' address None nonce)
          (\<lambda>proof. Inr (dict_set ''DPoP'' proof form_headers)))"

section \<open>Preparing the requests\<close>

text \<open>A parameter set only for a non-empty value.\<close>

definition add_truthy :: "string \<Rightarrow> string option \<Rightarrow> string dict \<Rightarrow> string dict" where
  "add_truthy k v d = (if opt_truthy v then dict_set k (the v) d else d)"

definition prepare_token_request_data :: "signing_env \<Rightarrow> nat \<Rightarrow> cc_request \<Rightarrow> prepared res" where
  "prepare_token_request_data S n r =
     with_auth form_headers (authenticate S n secret_given (id_in_body r) r
       (add_param ''scope'' (cc_scope r) [(''grant_type'', ''client_credentials'')]))"

definition prepare_auth_code_token_request_data ::
  "signing_env \<Rightarrow> nat \<Rightarrow> code_request \<Rightarrow> string option \<Rightarrow> prepared res" where
  "prepare_auth_code_token_request_data S n r dpop_nonce =
     bnd (dpop_post_headers S n (cr_dpop_key r) (rq_address r) dpop_nonce) (\<lambda>headers.
       with_auth headers (authenticate S (Suc n) secret_given (id_in_body r) r
         (add_param ''scope'' (cr_scope r) (add_param ''code_verifier'' (cr_code_verifier r)
           [(''grant_type'', ''authorization_code''), (''code'', cr_code r), (''redirect_uri'', cr_redirect_uri r)]))))"

definition prepare_refresh_token_request_data :: "signing_env \<Rightarrow> nat \<Rightarrow> refresh_request \<Rightarrow> prepared res" where
  "prepare_refresh_token_request_data S n r =
     with_auth form_headers (authenticate S n secret_given (id_in_body r) r
       (add_param ''scope'' (rr_scope r)
         [(''grant_type'', ''refresh_token''), (''refresh_token'', rr_refresh_token r)]))"

definition prepare_introspection_request_data :: "signing_env \<Rightarrow> nat \<Rightarrow> hinted_request \<Rightarrow> prepared res" where
  "prepare_introspection_request_data S n r =
     with_auth form_headers (authenticate S n secret_given (id_in_body r) r
       (add_param ''token_type_hint'' (hr_token_type_hint r) [(''token'', hr_token r)]))"

definition prepare_revocation_request_data :: "signing_env \<Rightarrow> nat \<Rightarrow> hinted_request \<Rightarrow> prepared res" where
  "prepare_revocation_request_data S n r =
     with_auth form_headers (authenticate S n secret_nonblank (id_in_body r) r
       (add_param ''token_type_hint'' (hr_token_type_hint r) [(''token'', hr_token r)]))"

definition prepare_par_request_data :: "signing_env \<Rightarrow> nat \<Rightarrow> par_request \<Rightarrow> string option \<Rightarrow> prepared res" where
  "prepare_par_request_data S n r dpop_nonce =
     bnd (guard_raise (opt_truthy (pr_code_challenge r) \<noteq> opt_truthy (pr_code_challenge_method r))
            (raise_cls ValueError ''code_challenge and code_challenge_method must both be set or both be absent'')) (\<lambda>_.
     bnd (dpop_post_headers S n (pr_dpop_key r) (rq_address r) dpop_nonce) (\<lambda>headers.
       with_auth headers (authenticate S (Suc n) opt_truthy id r
         (add_truthy ''response_mode'' (pr_response_mode r)
           (add_truthy ''code_challenge_method'' (pr_code_challenge_method r)
             (add_truthy ''code_challenge'' (pr_code_challenge r)
               (add_truthy ''nonce'' (pr_nonce r) (add_truthy ''state'' (pr_state r)
                 [(''client_id'', rq_client_id r), (''redirect_uri'', pr_redirect_uri r),
                  (''scope'', pr_scope r), (''response_type'', pr_response_type r)]))))))))"

definition prepare_device_auth_request_data :: "signing_env \<Rightarrow> nat \<Rightarrow> device_auth_request \<Rightarrow> prepared res" where
  "prepare_device_auth_request_data S n r =
     with_auth form_headers (authenticate S n opt_truthy id r
       (add_truthy ''scope'' (Some (da_scope r)) [(''client_id'', rq_client_id r)]))"

definition DEVICE_GRANT_TYPE :: string where
  "DEVICE_GRANT_TYPE = ''urn:ietf:params:oauth:grant-type:device_code''"

definition prepare_device_token_request_data :: "signing_env \<Rightarrow> nat \<Rightarrow> device_token_request \<Rightarrow> prepared res" where
  "prepare_device_token_request_data S n r =
     with_auth form_headers (authenticate S n opt_truthy id r
       [(''grant_type'', DEVICE_GRANT_TYPE), (''device_code'', dt_device_code r), (''client_id'', rq_client_id r)])"

definition TOKEN_EXCHANGE_GRANT_TYPE :: string where
  "TOKEN_EXCHANGE_GRANT_TYPE = ''urn:ietf:params:oauth:grant-type:token-exchange''"

definition validate_request_params :: "exchange_request \<Rightarrow> unit res" where
  "validate_request_params r =
     for_each (\<lambda>(bad, msg). guard_raise bad (raise_cls ValueError msg))
       [(rq_client_id r = [], ''client_id must not be empty''),
        (xr_subject_token r = [], ''subject_token must not be empty''),
        (xr_subject_token_type r = [], ''subject_token_type must not be empty''),
        (xr_actor_token r \<noteq> None \<and> xr_actor_token_type r = None,
         ''actor_token_type is REQUIRED when actor_token is provided '' @ ''(RFC 8693 Section 2.1)''),
        (xr_actor_token_type r \<noteq> None \<and> xr_actor_token r = None,
         ''actor_token_type has no meaning without actor_token (RFC 8693 Section 2.1)''),
        (xr_actor_token r = Some [], ''actor_token must not be empty when provided''),
        (xr_actor_token_type r = Some [], ''actor_token_type must not be empty when provided'')]"

definition prepare_token_exchange_request_data :: "signing_env \<Rightarrow> nat \<Rightarrow> exchange_request \<Rightarrow> prepared res" where
  "prepare_token_exchange_request_data S n r =
     bnd (validate_request_params r) (\<lambda>_.
       with_auth form_headers (authenticate S n opt_truthy (id_in_body r) r
         (add_truthy ''requested_token_type'' (xr_requested_token_type r)
           (add_truthy ''scope'' (xr_scope r) (add_truthy ''audience'' (xr_audience r)
             (add_truthy ''resource'' (xr_resource r)
               (add_param ''actor_token_type'' (xr_actor_token_type r)
                 (add_param ''actor_token'' (xr_actor_token r)
                   [(''grant_type'', TOKEN_EXCHANGE_GRANT_TYPE), (''subject_token'', xr_subject_token r),
                    (''subject_token_type'', xr_subject_token_type r)]))))))))"

definition prepare_userinfo_headers :: "signing_env \<Rightarrow> nat \<Rightarrow> userinfo_request \<Rightarrow> string option \<Rightarrow> string dict res" where
  "prepare_userinfo_headers S n r dpop_nonce =
     (case ui_dpop_key r of
        None \<Rightarrow> Inr [(''Authorization'', ''Bearer '' @ ui_token r)]
      | Some key \<Rightarrow>
          bnd (create_dpop_proof S n key ''GET'' (ui_address r) (Some (ui_token r)) dpop_nonce) (\<lambda>proof.
            Inr [(''Authorization'', ''DPoP '' @ ui_token r), (''DPoP'', proof)]))"

section \<open>Responses\<close>

text \<open>
  The error of a response is a text, except for a polling error of the device flow, whose
  description is taken from the body as it is.
\<close>

record base_response =
  rs_is_successful :: bool
  rs_error :: json

text \<open>The answers to a client credentials, an authorization code and a refresh request have the same fields.\<close>

record token_response = base_response +
  tr_token :: json

record introspection_response = base_response +
  ir_claims :: json

record userinfo_response = base_response +
  ur_claims :: json
  ur_raw :: "string option"

record par_response = base_response +
  par_request_uri :: json
  par_expires_in :: json

record device_auth_response = base_response +
  dar_device_code :: json
  dar_user_code :: json
  dar_verification_uri :: json
  dar_verification_uri_complete :: json
  dar_expires_in :: "int option"
  dar_interval :: "int option"

record device_token_response = base_response +
  dtr_token :: json
  dtr_error_code :: json
  dtr_interval :: "int option"

record exchange_response = base_response +
  xs_token :: json
  xs_issued_token_type :: json

abbreviation token_failure :: "string \<Rightarrow> token_response" where
  "token_failure msg \<equiv> \<lparr>rs_is_successful = False, rs_error = JStr msg, tr_token = JNull\<rparr>"

abbreviation userinfo_failure :: "string \<Rightarrow> userinfo_response" where
  "userinfo_failure msg \<equiv> \<lparr>rs_is_successful = False, rs_error = JStr msg, ur_claims = JNull, ur_raw = None\<rparr>"

abbreviation introspection_failure :: "string \<Rightarrow> introspection_response" where
  "introspection_failure msg \<equiv> \<lparr>rs_is_successful = False, rs_error = JStr msg, ir_claims = JNull\<rparr>"

abbreviation revocation_failure :: "string \<Rightarrow> base_response" where
  "revocation_failure msg \<equiv> \<lparr>rs_is_successful = False, rs_error = JStr msg\<rparr>"

abbreviation par_failure :: "string \<Rightarrow> par_response" where
  "par_failure msg \<equiv> \<lparr>rs_is_successful = False, rs_error = JStr msg, par_request_uri = JNull, par_expires_in = JNull\<rparr>"

abbreviation device_auth_failure :: "string \<Rightarrow> device_auth_response" where
  "device_auth_failure msg \<equiv> \<lparr>rs_is_successful = False, rs_error = JStr msg, dar_device_code = JNull,
     dar_user_code = JNull, dar_verification_uri = JNull, dar_verification_uri_complete = JNull,
     dar_expires_in = None, dar_interval = None\<rparr>"

abbreviation device_token_failure :: "string \<Rightarrow> device_token_response" where
  "device_token_failure msg \<equiv> \<lparr>rs_is_successful = False, rs_error = JStr msg, dtr_token = JNull,
     dtr_error_code = JNull, dtr_interval = None\<rparr>"

abbreviation exchange_failure :: "string \<Rightarrow> exchange_response" where
  "exchange_failure msg \<equiv> \<lparr>rs_is_successful = False, rs_error = JStr msg, xs_token = JNull, xs_issued_token_type = JNull\<rparr>"

text \<open>The handlers turn every exception into a failed response.\<close>

definition error_text :: "string \<Rightarrow> exn \<Rightarrow> string" where
  "error_text during e =
     (if exn_isinstance e HttpxRequestError then ''Network'' else ''Unexpected'')
     @ '' error during '' @ during @ '': '' @ exn_message e"

definition handle_token_error :: "exn \<Rightarrow> token_response" where
  "handle_token_error e = token_failure (error_text ''token request'' e)"

definition handle_auth_code_token_error :: "exn \<Rightarrow> token_response" where
  "handle_auth_code_token_error e = token_failure (error_text ''authorization code token exchange'' e)"

definition handle_refresh_token_error :: "exn \<Rightarrow> token_response" where
  "handle_refresh_token_error e = token_failure (error_text ''token refresh'' e)"

definition handle_introspection_error :: "exn \<Rightarrow> introspection_response" where
  "handle_introspection_error e = introspection_failure (error_text ''token introspection'' e)"

definition handle_revocation_error :: "exn \<Rightarrow> base_response" where
  "handle_revocation_error e = revocation_failure (error_text ''token revocation'' e)"

definition handle_par_error :: "exn \<Rightarrow> par_response" where
  "handle_par_error e = par_failure (error_text ''PAR'' e)"

definition handle_device_auth_error :: "exn \<Rightarrow> device_auth_response" where
  "handle_device_auth_error e = device_auth_failure (error_text ''device authorization'' e)"

definition handle_device_token_error :: "exn \<Rightarrow> device_token_response" where
  "handle_device_token_error e = device_token_failure (error_text ''device token poll'' e)"

definition handle_userinfo_error :: "exn \<Rightarrow> userinfo_response" where
  "handle_userinfo_error e = userinfo_failure (error_text ''UserInfo request'' e)"

definition handle_token_exchange_error :: "exn \<Rightarrow> exchange_response" where
  "handle_token_exchange_error e =
     exchange_failure
       (if exn_isinstance e ValueError \<and> \<not> exn_isinstance e HttpxRequestError
        then ''Validation error during token exchange: '' @ exn_message e
        else error_text ''token exchange'' e)"

section \<open>Processing the answers\<close>

text \<open>\<open>x.get(...)\<close> on a value that is not a dictionary.\<close>

definition get_attr_error :: "json \<Rightarrow> exn" where
  "get_attr_error j = raise_cls AttributeError (sq (type_name j) @ '' object has no attribute '' @ sq ''get'')"

definition as_dict_or_raise :: "json \<Rightarrow> json dict res" where
  "as_dict_or_raise j = (case j of JDict d \<Rightarrow> Inr d | _ \<Rightarrow> Inl (get_attr_error j))"

definition caught :: "(exn \<Rightarrow> 'r) \<Rightarrow> 'r res \<Rightarrow> 'r" where
  "caught h m = (case m of Inl e \<Rightarrow> h e | Inr r \<Rightarrow> r)"

definition token_result :: "string \<Rightarrow> http_response \<Rightarrow> token_response res" where
  "token_result what r =
     (if is_success r
      then bnd (h_json r) (\<lambda>j. Inr \<lparr>rs_is_successful = True, rs_error = JNull, tr_token = j\<rparr>)
      else Inr (token_failure (status_message what r)))"

definition parse_token_response :: "http_response \<Rightarrow> token_response res" where
  "parse_token_response r = token_result ''Token generation request'' r"

definition parse_auth_code_token_response :: "http_response \<Rightarrow> token_response res" where
  "parse_auth_code_token_response r = token_result ''Authorization code token exchange'' r"

definition parse_refresh_token_response :: "http_response \<Rightarrow> token_response res" where
  "parse_refresh_token_response r = token_result ''Token refresh'' r"

text \<open>The success message of a client credentials answer reads two members of the token.\<close>

definition log_token_success :: "token_response \<Rightarrow> unit res" where
  "log_token_success t =
     (if rs_is_successful t \<and> truthy (tr_token t) then bnd (as_dict_or_raise (tr_token t)) (\<lambda>_. Inr ()) else Inr ())"

definition process_token_response :: "http_response \<Rightarrow> token_response" where
  "process_token_response r =
     caught handle_token_error (bnd (parse_token_response r) (\<lambda>t. bnd (log_token_success t) (\<lambda>_. Inr t)))"

definition process_auth_code_token_response :: "http_response \<Rightarrow> token_response" where
  "process_auth_code_token_response r = caught handle_auth_code_token_error (parse_auth_code_token_response r)"

definition process_refresh_token_response :: "http_response \<Rightarrow> token_response" where
  "process_refresh_token_response r = caught handle_refresh_token_error (parse_refresh_token_response r)"

definition parse_introspection_response :: "http_response \<Rightarrow> introspection_response res" where
  "parse_introspection_response r =
     (if is_success r
      then bnd (h_json r) (\<lambda>j.
        Inr (if is_dict j then \<lparr>rs_is_successful = True, rs_error = JNull, ir_claims = j\<rparr>
             else introspection_failure (''Introspection response is not a JSON object: '' @ type_name j)))
      else Inr (introspection_failure (status_message ''Token introspection'' r)))"

definition process_introspection_response :: "http_response \<Rightarrow> introspection_response" where
  "process_introspection_response r = caught handle_introspection_error (parse_introspection_response r)"

definition process_revocation_response :: "http_response \<Rightarrow> base_response" where
  "process_revocation_response r =
     (if is_success r then \<lparr>rs_is_successful = True, rs_error = JNull\<rparr>
      else revocation_failure (''Token revocation failed with status code: '' @ show_int (h_status r)
             @ ''. Response Content: '' @ (if h_text r = [] then ''(empty)'' else take 200 (h_text r))))"

definition parse_userinfo_response :: "http_response \<Rightarrow> userinfo_response res" where
  "parse_userinfo_response r =
     (if \<not> is_success r then Inr (userinfo_failure (status_message ''UserInfo request'' r))
      else if media_type (header_or r ''Content-Type'' []) = ''application/jwt''
      then Inr \<lparr>rs_is_successful = True, rs_error = JNull, ur_claims = JNull, ur_raw = Some (h_text r)\<rparr>
      else bnd (h_json r) (\<lambda>j. Inr \<lparr>rs_is_successful = True, rs_error = JNull, ur_claims = j, ur_raw = None\<rparr>))"

definition process_userinfo_response :: "http_response \<Rightarrow> userinfo_response" where
  "process_userinfo_response r = caught handle_userinfo_error (parse_userinfo_response r)"

definition validate_userinfo_sub :: "userinfo_response \<Rightarrow> string option \<Rightarrow> userinfo_response res" where
  "validate_userinfo_sub r expected_sub =
     (if expected_sub = None \<or> \<not> rs_is_successful r \<or> ur_raw r \<noteq> None then Inr r
      else if ur_claims r = JNull
      then Inr (userinfo_failure ''UserInfo response contains no claims to validate sub against'')
      else bnd (as_dict_or_raise (ur_claims r)) (\<lambda>claims.
        Inr (if jget claims ''sub'' = JNull
             then userinfo_failure ''UserInfo response is missing required 'sub' claim''
             else if jget claims ''sub'' \<noteq> JStr (the expected_sub)
             then userinfo_failure (''UserInfo sub mismatch: expected '' @ sq (the expected_sub)
                    @ '', got '' @ sq (fmt_json (jget claims ''sub'')))
             else r)))"

text \<open>\<open>isinstance(x, int) and x > 0\<close>; a \<open>bool\<close> is an \<open>int\<close>.\<close>

definition positive_int :: "json \<Rightarrow> bool" where
  "positive_int j = (case j of JInt i \<Rightarrow> 0 < i | JBool b \<Rightarrow> b | _ \<Rightarrow> False)"

definition missing_text :: "(string \<times> bool) list \<Rightarrow> string" where
  "missing_text checks = py_join '', '' (map fst (filter snd checks))"

definition process_par_response :: "http_response \<Rightarrow> par_response res" where
  "process_par_response r =
     (if is_success r
      then case h_json r of
          Inl e \<Rightarrow> if exn_isinstance e ValueError then Inr (par_failure ''PAR response has invalid JSON body'') else Inl e
        | Inr j \<Rightarrow> bnd (as_dict_or_raise j) (\<lambda>d.
            let checks = [(''request_uri'', \<not> truthy (jget d ''request_uri'')),
                          (''expires_in'', \<not> positive_int (jget d ''expires_in''))] in
            Inr (if list_ex snd checks
                 then par_failure (''PAR response missing required fields per RFC 9126 '' @ ''Section 2.2: '' @ missing_text checks)
                 else \<lparr>rs_is_successful = True, rs_error = JNull, par_request_uri = jget d ''request_uri'',
                       par_expires_in = jget d ''expires_in''\<rparr>))
      else Inr (par_failure (''Pushed authorization request failed with status code: '' @ show_int (h_status r)
                  @ ''. Response Content: '' @ h_text r)))"

definition coerce_int :: "json \<Rightarrow> int option" where
  "coerce_int j = (case j of JInt i \<Rightarrow> Some i | JFloat (Fin q) \<Rightarrow> Some (truncate_rat q) | _ \<Rightarrow> None)"

definition process_device_auth_response :: "http_response \<Rightarrow> device_auth_response res" where
  "process_device_auth_response r =
     (if is_success r
      then case h_json r of
          Inl e \<Rightarrow> if exn_isinstance e ValueError
                   then Inr (device_auth_failure ''Device authorization response has invalid JSON body'') else Inl e
        | Inr (JDict d) \<Rightarrow>
            (let expires_in = coerce_int (jget d ''expires_in'');
                 checks = [(''device_code'', \<not> truthy (jget d ''device_code'')),
                           (''user_code'', \<not> truthy (jget d ''user_code'')),
                           (''verification_uri'', \<not> truthy (jget d ''verification_uri'')),
                           (''expires_in'', case expires_in of None \<Rightarrow> True | Some i \<Rightarrow> i \<le> 0)] in
             Inr (if list_ex snd checks
                  then device_auth_failure (''Device authorization response missing required fields ''
                         @ ''per RFC 8628 Section 3.2: '' @ missing_text checks)
                  else \<lparr>rs_is_successful = True, rs_error = JNull, dar_device_code = jget d ''device_code'',
                        dar_user_code = jget d ''user_code'', dar_verification_uri = jget d ''verification_uri'',
                        dar_verification_uri_complete = jget d ''verification_uri_complete'',
                        dar_expires_in = expires_in, dar_interval = coerce_int (jget d ''interval'')\<rparr>))
        | Inr j \<Rightarrow> Inr (device_auth_failure (''Device authorization response is not a JSON object: '' @ type_name j))
      else Inr (device_auth_failure (status_message ''Device authorization request'' r)))"

definition POLLING_ERROR_CODES :: "string list" where
  "POLLING_ERROR_CODES = [''authorization_pending'', ''slow_down'', ''expired_token'', ''access_denied'']"

text \<open>Membership in a frozen set hashes the value; a list or a dictionary has no hash.\<close>

definition in_frozenset :: "json \<Rightarrow> string list \<Rightarrow> bool res" where
  "in_frozenset j names =
     (case j of
        JStr s \<Rightarrow> Inr (s \<in> set names)
      | JList _ \<Rightarrow> Inl (raise_cls TypeError (''unhashable type: '' @ sq ''list''))
      | JDict _ \<Rightarrow> Inl (raise_cls TypeError (''unhashable type: '' @ sq ''dict''))
      | _ \<Rightarrow> Inr False)"

definition device_parse_success :: "http_response \<Rightarrow> device_token_response res" where
  "device_parse_success r =
     (case h_json r of
        Inl e \<Rightarrow> if exn_isinstance e ValueError
                 then Inr (device_token_failure ''Device token response has invalid JSON body'') else Inl e
      | Inr (JDict d) \<Rightarrow> Inr \<lparr>rs_is_successful = True, rs_error = JNull, dtr_token = JDict d,
                              dtr_error_code = JNull, dtr_interval = None\<rparr>
      | Inr j \<Rightarrow> Inr (device_token_failure (''Device token response is not a JSON object: '' @ type_name j)))"

definition device_parse_error :: "http_response \<Rightarrow> device_token_response res" where
  "device_parse_error r =
     (case h_json r of
        Inr (JDict d) \<Rightarrow>
          bnd (in_frozenset (jget d ''error'') POLLING_ERROR_CODES) (\<lambda>polling.
            Inr (if polling
                 then \<lparr>rs_is_successful = False,
                       rs_error = (case map_of d ''error_description'' of
                          Some v \<Rightarrow> v | None \<Rightarrow> JStr (''Device flow: '' @ fmt_json (jget d ''error''))),
                       dtr_token = JNull, dtr_error_code = jget d ''error'', dtr_interval = coerce_int (jget d ''interval'')\<rparr>
                 else device_token_failure (''Device token request failed with status code: '' @ show_int (h_status r)
                        @ ''. Error: '' @ (case map_of d ''error'' of Some v \<Rightarrow> fmt_json v | None \<Rightarrow> ''unknown''))))
      | _ \<Rightarrow> Inr (device_token_failure (status_message ''Device token request'' r)))"

definition process_device_token_response :: "http_response \<Rightarrow> device_token_response res" where
  "process_device_token_response r = (if is_success r then device_parse_success r else device_parse_error r)"

text \<open>The long dash of the source's message is outside the alphabet of the model and is written as two hyphens.\<close>

definition exchange_error_message :: "http_response \<Rightarrow> string" where
  "exchange_error_message r =
     (let head = ''Token exchange failed with status code: '' @ show_int (h_status r) @ ''. '';
          content = head @ ''Response Content: '' @ fmt_bytes (take 1024 (h_content r)) in
      case h_json r of
        Inr (JDict d) \<Rightarrow>
          if truthy (jget d ''error'')
          then head @ ''Error: '' @ fmt_json (jget d ''error'')
               @ (let desc = (case map_of d ''error_description'' of Some v \<Rightarrow> v | None \<Rightarrow> JStr []) in
                  if truthy desc then '' -- '' @ fmt_json desc else [])
          else head @ ''Response: '' @ fmt_json (JDict d)
      | _ \<Rightarrow> content)"

definition nonempty_str :: "json \<Rightarrow> bool" where
  "nonempty_str j = (case j of JStr s \<Rightarrow> s \<noteq> [] | _ \<Rightarrow> False)"

definition process_token_exchange_response :: "http_response \<Rightarrow> exchange_response res" where
  "process_token_exchange_response r =
     (if is_success r
      then case h_json r of
          Inl e \<Rightarrow> if exn_isinstance e ValueError
                   then Inr (exchange_failure ''Token exchange response has invalid JSON body'') else Inl e
        | Inr (JDict d) \<Rightarrow>
            (let checks = [(''access_token'', \<not> nonempty_str (jget d ''access_token'')),
                           (''token_type'', \<not> nonempty_str (jget d ''token_type''))] in
             Inr (if list_ex snd checks
                  then exchange_failure (''Token exchange response missing required fields ''
                         @ ''per RFC 6749 Section 5.1: '' @ missing_text checks)
                  else \<lparr>rs_is_successful = True, rs_error = JNull, xs_token = JDict d,
                        xs_issued_token_type = (if is_str (jget d ''issued_token_type'')
                          then jget d ''issued_token_type'' else JNull)\<rparr>))
        | Inr j \<Rightarrow> Inr (exchange_failure (''Token exchange response is not a JSON object: '' @ type_name j))
      else Inr (exchange_failure (exchange_error_message r)))"

section \<open>One client authentication method per request\<close>

datatype auth_method = AssertionAuth | MutualTlsAuth | BasicAuth | PublicClient

text \<open>The documented precedence: assertion, then mutual TLS, then secret, then public client.\<close>

definition auth_method_of :: "(string option \<Rightarrow> bool) \<Rightarrow> 'a authn_request_scheme \<Rightarrow> auth_method" where
  "auth_method_of usable r =
     (if rq_private_key_jwt r \<noteq> None then AssertionAuth else if rq_mtls r \<noteq> None then MutualTlsAuth
      else if usable (rq_client_secret r) then BasicAuth else PublicClient)"

definition on_the_wire :: "'a authn_request_scheme \<Rightarrow> auth_method \<Rightarrow> prepared \<Rightarrow> bool" where
  "on_the_wire r m p =
     (case p of (body, headers, auth) \<Rightarrow>
        \<not> has_key body ''client_secret'' \<and> \<not> has_key headers ''Authorization''
        \<and> (has_key body ''client_assertion'' \<longleftrightarrow> m = AssertionAuth)
        \<and> (has_key body ''client_assertion_type'' \<longleftrightarrow> m = AssertionAuth)
        \<and> (m = AssertionAuth \<longrightarrow> map_of body ''client_assertion_type'' = Some JWT_BEARER)
        \<and> (m \<noteq> BasicAuth \<longrightarrow> map_of body ''client_id'' = Some (rq_client_id r))
        \<and> auth = (if m = BasicAuth
                  then Some (basic_auth_credentials (rq_client_id r) (the (rq_client_secret r))) else None))"

definition plain_body :: "string dict \<Rightarrow> bool" where
  "plain_body b \<longleftrightarrow> \<not> has_key b ''client_secret'' \<and> \<not> has_key b ''client_assertion'' \<and> \<not> has_key b ''client_assertion_type''"

lemma has_key_set [simp]: "has_key (dict_set k v d) k' \<longleftrightarrow> k' = k \<or> has_key d k'"
  by (simp add: has_key_def dict_get_set)

lemma has_key_add_param [simp]: "has_key (add_param k v d) k' \<longleftrightarrow> k' = k \<and> v \<noteq> None \<or> has_key d k'"
  by (auto simp: has_key_def add_param_get)

lemma has_key_add_truthy [simp]: "has_key (add_truthy k v d) k' \<longleftrightarrow> k' = k \<and> opt_truthy v \<or> has_key d k'"
  by (simp add: add_truthy_def)

lemma add_truthy_get: "k' \<noteq> k \<Longrightarrow> map_of (add_truthy k v d) k' = map_of d k'"
  by (simp add: add_truthy_def dict_get_set)

lemma has_key_Cons [simp]: "has_key ((k, v) # d) k' \<longleftrightarrow> k' = k \<or> has_key d k'" "\<not> has_key [] k'"
  by (auto simp: has_key_def)

lemma authenticate_on_the_wire:
  assumes "authenticate S n usable public_body r b = Inr (body, auth)" and "plain_body b"
    and "public_body = id_in_body r \<or> public_body = id \<and> map_of b ''client_id'' = Some (rq_client_id r)"
    and "\<not> has_key headers ''Authorization''"
  shows "on_the_wire r (auth_method_of usable r) (body, headers, auth)"
proof (cases "rq_private_key_jwt r")
  case None
  then show ?thesis
    using assms
    by (auto simp: authenticate_def auth_method_of_def on_the_wire_def plain_body_def apply_mtls_client_auth_def
        dict_get_set split: if_splits)
next
  case (Some config)
  then obtain assertion where body: "body = dict_set ''client_assertion'' assertion
              (dict_set ''client_assertion_type'' JWT_BEARER (dict_set ''client_id'' (rq_client_id r) b))" and "auth = None"
    using assms(1) by (auto simp: authenticate_def apply_private_key_jwt_def res_splits)
  then show ?thesis
    using assms(2,4) Some by (auto simp: auth_method_of_def on_the_wire_def plain_body_def dict_get_set)
qed

locale authenticated_request =
  fixes prep :: "signing_env \<Rightarrow> nat \<Rightarrow> 'a authn_request_scheme \<Rightarrow> string option \<Rightarrow> prepared res"
    and usable :: "string option \<Rightarrow> bool"
  assumes prepares: "prep S n r nonce = Inr (body, headers, auth) \<Longrightarrow>
    \<exists>b k public_body. authenticate S k usable public_body r b = Inr (body, auth) \<and> plain_body b
      \<and> (public_body = id_in_body r \<or> public_body = id \<and> map_of b ''client_id'' = Some (rq_client_id r))
      \<and> \<not> has_key headers ''Authorization''"
begin

lemma one_method: "prep S n r nonce = Inr p \<Longrightarrow> on_the_wire r (auth_method_of usable r) p"
  by (cases p) (metis prepares authenticate_on_the_wire)

lemma secret_only_in_basic:
  "\<lbrakk>prep S n r nonce = Inr (body, headers, Some c); rq_client_secret r = Some s\<rbrakk> \<Longrightarrow>
     c = basic_auth_credentials (rq_client_id r) s \<and> rq_private_key_jwt r = None \<and> rq_mtls r = None"
  using one_method [of S n r nonce "(body, headers, Some c)"]
  by (auto simp: on_the_wire_def auth_method_of_def split: if_splits)

end

lemma dpop_post_headers_ok: "dpop_post_headers S n key address nonce = Inr h \<Longrightarrow> \<not> has_key h ''Authorization''"
  by (auto simp: dpop_post_headers_def form_headers_def res_splits split: option.splits)

lemma with_auth_ok: "with_auth h m = Inr (b, h', a) \<longleftrightarrow> m = Inr (b, a) \<and> h' = h"
  by (auto simp: with_auth_def res_splits)

lemmas prepare_simps = with_auth_ok res_splits plain_body_def form_headers_def add_truthy_get

interpretation cc: authenticated_request "\<lambda>S n r _. prepare_token_request_data S n r" secret_given
  by unfold_locales (auto simp: prepare_token_request_data_def prepare_simps intro!: exI)

interpretation code: authenticated_request prepare_auth_code_token_request_data secret_given
  by unfold_locales
    (auto simp: prepare_auth_code_token_request_data_def prepare_simps dest: dpop_post_headers_ok intro!: exI)

interpretation refresh: authenticated_request "\<lambda>S n r _. prepare_refresh_token_request_data S n r" secret_given
  by unfold_locales (auto simp: prepare_refresh_token_request_data_def prepare_simps intro!: exI)

interpretation introspection: authenticated_request "\<lambda>S n r _. prepare_introspection_request_data S n r" secret_given
  by unfold_locales (auto simp: prepare_introspection_request_data_def prepare_simps intro!: exI)

interpretation revocation: authenticated_request "\<lambda>S n r _. prepare_revocation_request_data S n r" secret_nonblank
  by unfold_locales (auto simp: prepare_revocation_request_data_def prepare_simps intro!: exI)

interpretation par: authenticated_request prepare_par_request_data opt_truthy
  by unfold_locales
    (auto simp: prepare_par_request_data_def prepare_simps dest: dpop_post_headers_ok intro!: exI)

interpretation device_auth: authenticated_request "\<lambda>S n r _. prepare_device_auth_request_data S n r" opt_truthy
  by unfold_locales (auto simp: prepare_device_auth_request_data_def prepare_simps intro!: exI)

interpretation device_token: authenticated_request "\<lambda>S n r _. prepare_device_token_request_data S n r" opt_truthy
  by unfold_locales (auto simp: prepare_device_token_request_data_def prepare_simps intro!: exI)

interpretation exchange: authenticated_request "\<lambda>S n r _. prepare_token_exchange_request_data S n r" opt_truthy
  by unfold_locales (auto simp: prepare_token_exchange_request_data_def prepare_simps intro!: exI)

text \<open>All requests the client authenticates itself with, and what their \<open>prepare_*\<close> functions give.\<close>

datatype client_request =
    ClientCredentials cc_request
  | AuthorizationCode code_request
  | RefreshToken refresh_request
  | Introspection hinted_request
  | Revocation hinted_request
  | PushedAuthorization par_request
  | DeviceAuthorization device_auth_request
  | DeviceToken device_token_request
  | TokenExchange exchange_request

fun prepare_request :: "signing_env \<Rightarrow> nat \<Rightarrow> client_request \<Rightarrow> string option \<Rightarrow> prepared res" where
  "prepare_request S n (ClientCredentials r) _ = prepare_token_request_data S n r"
| "prepare_request S n (AuthorizationCode r) nonce = prepare_auth_code_token_request_data S n r nonce"
| "prepare_request S n (RefreshToken r) _ = prepare_refresh_token_request_data S n r"
| "prepare_request S n (Introspection r) _ = prepare_introspection_request_data S n r"
| "prepare_request S n (Revocation r) _ = prepare_revocation_request_data S n r"
| "prepare_request S n (PushedAuthorization r) nonce = prepare_par_request_data S n r nonce"
| "prepare_request S n (DeviceAuthorization r) _ = prepare_device_auth_request_data S n r"
| "prepare_request S n (DeviceToken r) _ = prepare_device_token_request_data S n r"
| "prepare_request S n (TokenExchange r) _ = prepare_token_exchange_request_data S n r"

fun request_base :: "client_request \<Rightarrow> authn_request" where
  "request_base (ClientCredentials r) = authn_request.truncate r"
| "request_base (AuthorizationCode r) = authn_request.truncate r"
| "request_base (RefreshToken r) = authn_request.truncate r"
| "request_base (Introspection r) = authn_request.truncate r"
| "request_base (Revocation r) = authn_request.truncate r"
| "request_base (PushedAuthorization r) = authn_request.truncate r"
| "request_base (DeviceAuthorization r) = authn_request.truncate r"
| "request_base (DeviceToken r) = authn_request.truncate r"
| "request_base (TokenExchange r) = authn_request.truncate r"

text \<open>Which secrets count: any given one, one that is not blank, or one that is not empty.\<close>

fun usable_secret :: "client_request \<Rightarrow> string option \<Rightarrow> bool" where
  "usable_secret (Revocation r) = secret_nonblank"
| "usable_secret (PushedAuthorization r) = opt_truthy"
| "usable_secret (DeviceAuthorization r) = opt_truthy"
| "usable_secret (DeviceToken r) = opt_truthy"
| "usable_secret (TokenExchange r) = opt_truthy"
| "usable_secret _ = secret_given"

lemma on_the_wire_truncate: "on_the_wire (authn_request.truncate r) m p = on_the_wire r m p"
  by (simp add: on_the_wire_def authn_request.truncate_def)

lemma auth_method_truncate: "auth_method_of usable (authn_request.truncate r) = auth_method_of usable r"
  by (simp add: auth_method_of_def authn_request.truncate_def)

text \<open>C21: Every authenticated request uses exactly one client authentication method, the one the
  documented precedence selects. Whatever combination of assertion key, certificate and secret a
  request of any of the nine kinds carries, a prepared request has a client assertion with its type
  exactly when an assertion key is configured, a Basic header exactly when there is neither an
  assertion key nor a certificate and a usable secret (and then with the encoded identifier and
  secret), names the client in the body in every other case, and never puts the secret into the body
  or an \<open>Authorization\<close> header of its own beside the Basic pair.
\<close>

theorem one_authentication_method:
  assumes "prepare_request S n q nonce = Inr prepared"
  shows "on_the_wire (request_base q) (auth_method_of (usable_secret q) (request_base q)) prepared"
  using assms
  by (cases q)
    (auto simp: on_the_wire_truncate auth_method_truncate
      dest: cc.one_method code.one_method refresh.one_method introspection.one_method revocation.one_method
        par.one_method device_auth.one_method device_token.one_method exchange.one_method)

definition example_cc_request :: cc_request where
  "example_cc_request = \<lparr>rq_address = ''https://op/token'', rq_client_id = ''app'', rq_client_secret = Some ''s:1'',
     rq_private_key_jwt = None, rq_mtls = None, cc_scope = Some ''api''\<rparr>"

theorem one_authentication_method_witness:
  "on_the_wire (request_base (ClientCredentials example_cc_request)) BasicAuth
     ([(''grant_type'', ''client_credentials''), (''scope'', ''api'')], form_headers, Some (''app'', ''s%3A1''))"
proof -
  have call: "prepare_request example_signing 0 (ClientCredentials example_cc_request) None
      = Inr ([(''grant_type'', ''client_credentials''), (''scope'', ''api'')], form_headers, Some (''app'', ''s%3A1''))"
    by code_simp
  have meth: "auth_method_of (usable_secret (ClientCredentials example_cc_request))
      (request_base (ClientCredentials example_cc_request)) = BasicAuth"
    by code_simp
  show ?thesis using one_authentication_method [OF call] unfolding meth .
qed

end
