(* ===== verification/Client_Flows.thy ===== *)
theory Client_Flows
  imports Client_Requests
begin

text \<open>
  The synchronous entry points that send a protocol request: the HTTP clients of
  \<open>sync/http_client.py\<close> and \<open>sync/managed_client.py\<close>, and the wrappers of \<open>sync/token_client.py\<close>,
  \<open>token_exchange.py\<close>, \<open>introspection.py\<close>, \<open>revocation.py\<close>, \<open>device_auth.py\<close>, \<open>par.py\<close> and \<open>userinfo.py\<close>.

  The state holds the thread's shared client, a trace of what happens to clients, requests and
  responses, and the two local variables \<open>response\<close> and \<open>owned_client\<close> of the running wrapper, which its
  \<open>finally\<close> block reads. Transport, clock and TLS contexts are parameters.
\<close>

section \<open>HTTP clients\<close>

datatype client_ref = ThreadClient | ManagedClient | MtlsClient

datatype 'p net_event =
    ClientCreated client_ref
  | ClientClosed client_ref
  | RequestSent client_ref string string 'p
  | ResponseOpened nat
  | ResponseClosed nat

record 'p net_state =
  ns_thread_client :: bool
  ns_trace :: "'p net_event list"
  ns_responses :: nat
  ns_response :: "nat option"
  ns_owned :: bool

record 'p net_world =
  nw_env :: os_env
  nw_parsedate :: "string \<Rightarrow> rat option"
  nw_clock :: "int \<Rightarrow> rat"
  nw_send :: "nat \<Rightarrow> 'p net_event \<Rightarrow> int \<Rightarrow> http_response res"
  nw_client_context :: "ssl_verify \<Rightarrow> unit res"
  nw_mtls_context :: "ssl_verify \<Rightarrow> mtls_client_auth \<Rightarrow> unit res"

text \<open>\<open>HTTPClient\<close>, or its asynchronous counterpart: whether it made its client itself and whether it is closed.\<close>

record managed_client =
  mc_class :: string
  mc_owned :: bool
  mc_closed :: bool
  mc_inner_open :: bool

definition managed_init :: "string \<Rightarrow> bool \<Rightarrow> pyfloat option \<Rightarrow> ssl_verify option \<Rightarrow> unit res \<Rightarrow> managed_client res" where
  "managed_init cls wraps timeout verify built =
     (if wraps
      then bnd (guard_raise (timeout \<noteq> None \<or> verify \<noteq> None)
             (raise_cls ValueError (''timeout and verify cannot be specified when wrapping '' @ ''an existing client'')))
             (\<lambda>_. Inr \<lparr>mc_class = cls, mc_owned = False, mc_closed = False, mc_inner_open = True\<rparr>)
      else bnd built (\<lambda>_. Inr \<lparr>mc_class = cls, mc_owned = True, mc_closed = False, mc_inner_open = True\<rparr>))"

definition managed_get :: "managed_client \<Rightarrow> unit res" where
  "managed_get c = guard_raise (mc_closed c) (raise_cls RuntimeError (mc_class c @ '' has been closed''))"

definition managed_close :: "managed_client \<Rightarrow> managed_client" where
  "managed_close c =
     (if mc_closed c then c
      else c\<lparr>mc_inner_open := (if mc_owned c then False else mc_inner_open c), mc_closed := True\<rparr>)"

definition log_event :: "'p net_event \<Rightarrow> ('p net_state, exn, unit) stm" where
  "log_event ev = supd (\<lambda>s. s\<lparr>ns_trace := ns_trace s @ [ev]\<rparr>)"

definition get_http_client :: "'p net_world \<Rightarrow> ('p net_state, exn, client_ref) stm" where
  "get_http_client w =
     sbnd (sget ns_thread_client) (\<lambda>made.
       if made then sret ThreadClient
       else sbnd (slift (get_timeout (nw_env w))) (\<lambda>_.
            sbnd (slift (nw_client_context w (get_ssl_verify (nw_env w)))) (\<lambda>_.
            sbnd (log_event (ClientCreated ThreadClient)) (\<lambda>_.
            sbnd (supd (\<lambda>s. s\<lparr>ns_thread_client := True\<rparr>)) (\<lambda>_. sret ThreadClient)))))"

definition build_mtls_client :: "'p net_world \<Rightarrow> mtls_client_auth \<Rightarrow> ('p net_state, exn, client_ref) stm" where
  "build_mtls_client w mtls =
     sbnd (slift (nw_mtls_context w (get_ssl_verify (nw_env w)) mtls)) (\<lambda>_.
     sbnd (slift (get_timeout (nw_env w))) (\<lambda>_.
     sbnd (log_event (ClientCreated MtlsClient)) (\<lambda>_. sret MtlsClient)))"

text \<open>The client to use, and whether the caller has to close it.\<close>

definition resolve_http_client ::
  "'p net_world \<Rightarrow> mtls_client_auth option \<Rightarrow> managed_client option \<Rightarrow> ('p net_state, exn, client_ref \<times> bool) stm" where
  "resolve_http_client w mtls http_client =
     (if mtls \<noteq> None \<and> http_client \<noteq> None
      then slift (Inl (raise_cls ValueError
             (''Cannot combine a managed http_client with mtls: a managed client ''
              @ ''cannot be guaranteed to present the mTLS client certificate. Pass '' @ ''one or the other.'')))
      else case http_client of
        Some c \<Rightarrow> sbnd (slift (managed_get c)) (\<lambda>_. sret (ManagedClient, False))
      | None \<Rightarrow> (case mtls of
            Some m \<Rightarrow> sbnd (build_mtls_client w m) (\<lambda>c. sret (c, True))
          | None \<Rightarrow> sbnd (get_http_client w) (\<lambda>c. sret (c, False))))"

definition close_http_client :: "('p net_state, exn, unit) stm" where
  "close_http_client =
     sbnd (sget ns_thread_client) (\<lambda>made.
       if made then sbnd (log_event (ClientClosed ThreadClient)) (\<lambda>_. supd (\<lambda>s. s\<lparr>ns_thread_client := False\<rparr>))
       else sret ())"

section \<open>Sending a request\<close>

text \<open>
  A decorated transport call: the retries of \<open>retry_with_backoff\<close>, then the assignment to \<open>response\<close>.
  The responses of a thread are numbered.
\<close>

definition send_request :: "'p net_world \<Rightarrow> string \<Rightarrow> string \<Rightarrow> client_ref \<Rightarrow> 'p \<Rightarrow> ('p net_state, exn, http_response) stm" where
  "send_request w meth address client p =
     (let ev = RequestSent client meth address p in
      sbnd (log_event ev) (\<lambda>_.
      sbnd (sget ns_responses) (\<lambda>n.
      sbnd (supd (\<lambda>s. s\<lparr>ns_responses := Suc n\<rparr>)) (\<lambda>_.
      sbnd (slift (fst (retry_with_backoff (nw_parsedate w) (nw_env w) (nw_clock w) None None (nw_send w n ev)))) (\<lambda>r.
      sbnd (log_event (ResponseOpened n)) (\<lambda>_.
      sbnd (supd (\<lambda>s. s\<lparr>ns_response := Some n\<rparr>)) (\<lambda>_. sret r)))))))"

text \<open>\<open>response.close()\<close> in the body of a wrapper keeps the variable.\<close>

definition close_response :: "('p net_state, exn, unit) stm" where
  "close_response =
     sbnd (sget ns_response) (\<lambda>r. case r of None \<Rightarrow> sret () | Some n \<Rightarrow> log_event (ResponseClosed n))"

definition close_owned :: "('p net_state, exn, unit) stm" where
  "close_owned = sbnd (sget ns_owned) (\<lambda>mine. if mine then log_event (ClientClosed MtlsClient) else sret ())"

text \<open>The \<open>try\<close> block of a wrapper.\<close>

definition attempt ::
  "'p net_world \<Rightarrow> string \<Rightarrow> string \<Rightarrow> mtls_client_auth option \<Rightarrow> managed_client option
   \<Rightarrow> (string option \<Rightarrow> 'p res) \<Rightarrow> bool \<Rightarrow> (http_response \<Rightarrow> 'r res) \<Rightarrow> ('p net_state, exn, 'r) stm" where
  "attempt w meth address mtls http_client prepare dpop process =
     sbnd (slift (prepare None)) (\<lambda>p.
     sbnd (resolve_http_client w mtls http_client) (\<lambda>(client, owned).
     sbnd (supd (\<lambda>s. s\<lparr>ns_owned := owned\<rparr>)) (\<lambda>_.
     sbnd (send_request w meth address client p) (\<lambda>r.
     sbnd (slift (if dpop then extract_dpop_nonce r else Inr None)) (\<lambda>nonce.
       case nonce of
         None \<Rightarrow> slift (process r)
       | Some v \<Rightarrow>
           sbnd close_response (\<lambda>_.
           sbnd (slift (prepare (Some v))) (\<lambda>p'.
           sbnd (send_request w meth address client p') (\<lambda>r'. slift (process r')))))))))"

text \<open>A whole wrapper: fresh locals, the \<open>try\<close> block with its handler, and the \<open>finally\<close> block.\<close>

definition call_endpoint ::
  "'p net_world \<Rightarrow> string \<Rightarrow> string \<Rightarrow> mtls_client_auth option \<Rightarrow> managed_client option
   \<Rightarrow> (string option \<Rightarrow> 'p res) \<Rightarrow> bool \<Rightarrow> (http_response \<Rightarrow> 'r res) \<Rightarrow> (exn \<Rightarrow> 'r) \<Rightarrow> ('p net_state, exn, 'r) stm" where
  "call_endpoint w meth address mtls http_client prepare dpop process handle =
     sbnd (supd (\<lambda>s. s\<lparr>ns_response := None, ns_owned := False\<rparr>)) (\<lambda>_.
     sbnd (scatch (attempt w meth address mtls http_client prepare dpop process) (\<lambda>e. sret (handle e))) (\<lambda>r.
     sbnd close_response (\<lambda>_. sbnd close_owned (\<lambda>_. sret r))))"

section \<open>The entry points\<close>

text \<open>The draws of the second preparation follow the two of the first.\<close>

definition draw :: "string option \<Rightarrow> nat" where
  "draw nonce = (if nonce = None then 0 else 2)"

definition request_client_credentials_token where
  "request_client_credentials_token w S http_client r =
     call_endpoint w ''POST'' (rq_address r) (rq_mtls r) http_client (\<lambda>_. prepare_token_request_data S 0 r)
       False (\<lambda>x. Inr (process_token_response x)) handle_token_error"

definition request_authorization_code_token where
  "request_authorization_code_token w S http_client r =
     call_endpoint w ''POST'' (rq_address r) (rq_mtls r) http_client
       (\<lambda>nonce. prepare_auth_code_token_request_data S (draw nonce) r nonce)
       (cr_dpop_key r \<noteq> None) (\<lambda>x. Inr (process_auth_code_token_response x)) handle_auth_code_token_error"

definition refresh_token where
  "refresh_token w S http_client r =
     call_endpoint w ''POST'' (rq_address r) (rq_mtls r) http_client (\<lambda>_. prepare_refresh_token_request_data S 0 r)
       False (\<lambda>x. Inr (process_refresh_token_response x)) handle_refresh_token_error"

definition introspect_token where
  "introspect_token w S http_client r =
     call_endpoint w ''POST'' (rq_address r) (rq_mtls r) http_client (\<lambda>_. prepare_introspection_request_data S 0 r)
       False (\<lambda>x. Inr (process_introspection_response x)) handle_introspection_error"

definition revoke_token where
  "revoke_token w S http_client r =
     call_endpoint w ''POST'' (rq_address r) (rq_mtls r) http_client (\<lambda>_. prepare_revocation_request_data S 0 r)
       False (\<lambda>x. Inr (process_revocation_response x)) handle_revocation_error"

definition push_authorization_request where
  "push_authorization_request w S http_client r =
     call_endpoint w ''POST'' (rq_address r) (rq_mtls r) http_client
       (\<lambda>nonce. prepare_par_request_data S (draw nonce) r nonce)
       (pr_dpop_key r \<noteq> None) process_par_response handle_par_error"

definition request_device_authorization where
  "request_device_authorization w S http_client r =
     call_endpoint w ''POST'' (rq_address r) (rq_mtls r) http_client (\<lambda>_. prepare_device_auth_request_data S 0 r)
       False process_device_auth_response handle_device_auth_error"

definition poll_device_token where
  "poll_device_token w S http_client r =
     call_endpoint w ''POST'' (rq_address r) (rq_mtls r) http_client (\<lambda>_. prepare_device_token_request_data S 0 r)
       False process_device_token_response handle_device_token_error"

definition exchange_token where
  "exchange_token w S http_client r =
     call_endpoint w ''POST'' (rq_address r) (rq_mtls r) http_client (\<lambda>_. prepare_token_exchange_request_data S 0 r)
       False process_token_exchange_response handle_token_exchange_error"

text \<open>The headers of the first UserInfo request are prepared before the \<open>try\<close> block.\<close>

definition userinfo_prepared :: "string dict res \<Rightarrow> prepared res" where
  "userinfo_prepared m = bnd m (\<lambda>headers. Inr ([], headers, None))"

definition get_userinfo where
  "get_userinfo w S http_client r =
     sbnd (slift (prepare_userinfo_headers S 0 r None)) (\<lambda>headers.
       call_endpoint w ''GET'' (ui_address r) (ui_mtls r) http_client
         (\<lambda>nonce. if nonce = None then Inr ([], headers, None)
                  else userinfo_prepared (prepare_userinfo_headers S 1 r nonce))
         (ui_dpop_key r \<noteq> None)
         (\<lambda>x. validate_userinfo_sub (process_userinfo_response x) (ui_expected_sub r)) handle_userinfo_error)"

section \<open>What a call leaves behind\<close>

text \<open>The responses of a trace that are open at its end, the dedicated clients that are alive, and the requests sent.\<close>

fun step_pending :: "'p net_event \<Rightarrow> nat set \<Rightarrow> nat set" where
  "step_pending (ResponseOpened n) P = insert n P"
| "step_pending (ResponseClosed n) P = P - {n}"
| "step_pending _ P = P"

definition pending :: "'p net_event list \<Rightarrow> nat set" where
  "pending t = fold step_pending t {}"

fun step_live :: "'p net_event \<Rightarrow> int \<Rightarrow> int" where
  "step_live (ClientCreated MtlsClient) n = n + 1"
| "step_live (ClientClosed MtlsClient) n = n - 1"
| "step_live _ n = n"

definition mtls_live :: "'p net_event list \<Rightarrow> int" where
  "mtls_live t = fold step_live t 0"

fun is_sent :: "'p net_event \<Rightarrow> bool" where
  "is_sent (RequestSent _ _ _ _) = True"
| "is_sent _ = False"

definition requests_sent :: "'p net_event list \<Rightarrow> nat" where
  "requests_sent t = length (filter is_sent t)"

text \<open>Requests go through one client only, and the shared and the managed client are never closed.\<close>

fun through :: "client_ref \<Rightarrow> 'p net_event \<Rightarrow> bool" where
  "through c (RequestSent c' _ _ _) = (c' = c)"
| "through c (ClientClosed c') = (c' = MtlsClient)"
| "through c (ClientCreated c') = (c' = c \<and> c \<noteq> ManagedClient)"
| "through c _ = True"

definition chosen_client :: "mtls_client_auth option \<Rightarrow> managed_client option \<Rightarrow> client_ref" where
  "chosen_client mtls http_client =
     (if http_client \<noteq> None then ManagedClient else if mtls \<noteq> None then MtlsClient else ThreadClient)"

definition frame ::
  "'p net_event list \<Rightarrow> client_ref \<Rightarrow> nat \<Rightarrow> ('p net_state \<Rightarrow> nat set) \<Rightarrow> ('p net_state \<Rightarrow> int) \<Rightarrow> 'p net_state \<Rightarrow> bool" where
  "frame t0 c k P L s \<longleftrightarrow> (\<exists>t. ns_trace s = t0 @ t \<and> pending t \<subseteq> P s \<and> mtls_live t = L s
      \<and> requests_sent t \<le> k \<and> list_all (through c) t)"

abbreviation current :: "'p net_state \<Rightarrow> nat set" where
  "current s \<equiv> set_option (ns_response s)"

abbreviation nothing :: "'p net_state \<Rightarrow> nat set" where
  "nothing s \<equiv> {}"

definition own :: "'p net_state \<Rightarrow> int" where
  "own s = (if ns_owned s then 1 else 0)"

lemmas trace_defs = pending_def mtls_live_def requests_sent_def

lemma frame_snoc:
  assumes "frame t0 c k P L s" "through c ev"
    and "ns_trace s' = ns_trace s @ [ev]" "step_pending ev (P s) \<subseteq> P' s'" "L' s' = step_live ev (L s)"
    and "(if is_sent ev then Suc k else k) \<le> k'"
  shows "frame t0 c k' P' L' s'"
proof -
  obtain t where t: "ns_trace s = t0 @ t" "pending t \<subseteq> P s" "mtls_live t = L s" "requests_sent t \<le> k" "list_all (through c) t"
    using assms(1) by (auto simp: frame_def)
  have mono: "step_pending ev (pending t) \<subseteq> step_pending ev (P s)"
    using t(2) by (cases ev) auto
  have "pending (t @ [ev]) \<subseteq> P' s'" using mono assms(4) by (simp add: pending_def)
  moreover have "mtls_live (t @ [ev]) = L' s'" using t(3) assms(5) by (simp add: mtls_live_def)
  moreover have "requests_sent (t @ [ev]) \<le> k'" using t(4) assms(6) by (auto simp: requests_sent_def split: if_splits)
  ultimately show ?thesis
    unfolding frame_def using t(1,5) assms(2,3) by (intro exI [of _ "t @ [ev]"]) simp
qed

lemma frame_weaken:
  "\<lbrakk>frame t0 c k P L s; ns_trace s' = ns_trace s; P s \<subseteq> P' s'; L' s' = L s; k \<le> k'\<rbrakk> \<Longrightarrow> frame t0 c k' P' L' s'"
  unfolding frame_def by (elim exE, rule exI) auto

lemma triple_log:
  "(\<And>s. P s \<Longrightarrow> Q () (s\<lparr>ns_trace := ns_trace s @ [ev]\<rparr>)) \<Longrightarrow> triple P (log_event ev) Q E"
  unfolding log_event_def by (rule triple_supd)

lemma close_response_frame:
  "triple (frame t0 c k current L) close_response (\<lambda>_. frame t0 c k nothing L) E" if "L = own \<or> (\<exists>n. L = (\<lambda>_. n))"
  unfolding close_response_def
proof (rule triple_sbnd [where R = "\<lambda>r s. frame t0 c k current L s \<and> ns_response s = r"], rule triple_sget, simp, rule triple_option)
  fix r :: "nat option"
  assume "r = None"
  then show "triple (\<lambda>s. frame t0 c k current L s \<and> ns_response s = r) (sret ()) (\<lambda>_. frame t0 c k nothing L) E"
    by (intro triple_sret) (auto elim: frame_weaken)
next
  fix r :: "nat option" and n
  assume "r = Some n"
  then show "triple (\<lambda>s. frame t0 c k current L s \<and> ns_response s = r) (log_event (ResponseClosed n)) (\<lambda>_. frame t0 c k nothing L) E"
    using that by (intro triple_log) (auto simp: own_def elim!: frame_snoc)
qed

lemma send_frame:
  "triple (frame t0 c k nothing own) (send_request w meth address c p)
     (\<lambda>_. frame t0 c (Suc k) current own) (\<lambda>_. frame t0 c (Suc k) current own)"
  unfolding send_request_def Let_def
  by (rule triple_sbnd [where R = "\<lambda>_. frame t0 c (Suc k) nothing own"], rule triple_log, force simp: own_def elim: frame_snoc,
      rule triple_sbnd [where R = "\<lambda>_. frame t0 c (Suc k) nothing own"], rule triple_sget, assumption,
      rule triple_sbnd [where R = "\<lambda>_. frame t0 c (Suc k) nothing own"], rule triple_supd, force simp: own_def elim: frame_weaken,
      rule triple_sbnd [where R = "\<lambda>_. frame t0 c (Suc k) nothing own"], rule triple_slift, assumption, force elim: frame_weaken,
      rule triple_sbnd [where R = "\<lambda>_. frame t0 c (Suc k) (\<lambda>_. {n}) own" for n], rule triple_log, force simp: own_def elim: frame_snoc,
      rule triple_sbnd [where R = "\<lambda>_. frame t0 c (Suc k) current own"], rule triple_supd, force simp: own_def elim: frame_weaken,
      rule triple_sret)

definition fresh_frame :: "'p net_event list \<Rightarrow> client_ref \<Rightarrow> 'p net_state \<Rightarrow> bool" where
  "fresh_frame t0 c s \<longleftrightarrow> frame t0 c 0 nothing own s \<and> \<not> ns_owned s"

lemma fresh_weaken: "fresh_frame t0 c s \<Longrightarrow> frame t0 c k current own s"
  unfolding fresh_frame_def by (auto elim: frame_weaken)

lemma resolve_frame:
  fixes w :: "'p net_world"
  defines "Liv \<equiv> \<lambda>(owned :: bool) (s :: 'p net_state). if owned then 1 else (0 :: int)"
  assumes c: "c = chosen_client mtls http_client"
  shows "triple (fresh_frame t0 c) (resolve_http_client w mtls http_client)
     (\<lambda>(client, owned) s. client = c \<and> frame t0 c 0 nothing (Liv owned) s) (\<lambda>_. fresh_frame t0 c)"
proof -
  have mtls_client: "triple (fresh_frame t0 MtlsClient) (build_mtls_client w m)
      (\<lambda>client s. client = MtlsClient \<and> frame t0 MtlsClient 0 nothing (Liv True) s) (\<lambda>_. fresh_frame t0 MtlsClient)" for m
    unfolding build_mtls_client_def Liv_def
    by (rule triple_sbnd [where R = "\<lambda>_. fresh_frame t0 MtlsClient"], rule triple_slift, assumption, assumption,
        rule triple_sbnd [where R = "\<lambda>_. fresh_frame t0 MtlsClient"], rule triple_slift, assumption, assumption,
        rule triple_sbnd [where R = "\<lambda>_ s. frame t0 MtlsClient 0 nothing (\<lambda>s. 1) s"], rule triple_log,
        force simp: fresh_frame_def own_def elim: frame_snoc, rule triple_sret, simp)
  have thread_client: "triple (fresh_frame t0 ThreadClient) (get_http_client w)
      (\<lambda>client s. client = ThreadClient \<and> fresh_frame t0 ThreadClient s) (\<lambda>_. fresh_frame t0 ThreadClient)"
    unfolding get_http_client_def
    by (rule triple_sbnd [where R = "\<lambda>_. fresh_frame t0 ThreadClient"], rule triple_sget, assumption, rule triple_if,
        rule triple_sret, simp,
        rule triple_sbnd [where R = "\<lambda>_. fresh_frame t0 ThreadClient"], rule triple_slift, assumption, assumption,
        rule triple_sbnd [where R = "\<lambda>_. fresh_frame t0 ThreadClient"], rule triple_slift, assumption, assumption,
        rule triple_sbnd [where R = "\<lambda>_. fresh_frame t0 ThreadClient"], rule triple_log,
        force simp: fresh_frame_def own_def elim: frame_snoc,
        rule triple_sbnd [where R = "\<lambda>_. fresh_frame t0 ThreadClient"], rule triple_supd,
        force simp: fresh_frame_def own_def elim: frame_weaken, rule triple_sret, simp)
  have free: "fresh_frame t0 d s \<Longrightarrow> frame t0 d 0 nothing (Liv False) s" for d s
    unfolding fresh_frame_def Liv_def by (auto simp: own_def elim: frame_weaken)
  show ?thesis
    unfolding resolve_http_client_def
  proof (rule triple_if, rule triple_slift, simp, assumption, rule triple_option)
    fix hc
    assume "http_client = Some hc"
    with c have c': "c = ManagedClient" by (simp add: chosen_client_def)
    show "triple (fresh_frame t0 c) (sbnd (slift (managed_get hc)) (\<lambda>_. sret (ManagedClient, False)))
      (\<lambda>(client, owned) s. client = c \<and> frame t0 c 0 nothing (Liv owned) s) (\<lambda>_. fresh_frame t0 c)"
      unfolding c'
      by (rule triple_sbnd [where R = "\<lambda>_. fresh_frame t0 ManagedClient"], rule triple_slift, assumption, assumption,
          rule triple_sret) (simp add: free)
  next
    assume hc: "http_client = None"
    show "triple (fresh_frame t0 c)
        (case mtls of None \<Rightarrow> sbnd (get_http_client w) (\<lambda>c. sret (c, False)) | Some m \<Rightarrow> sbnd (build_mtls_client w m) (\<lambda>c. sret (c, True)))
        (\<lambda>(client, owned) s. client = c \<and> frame t0 c 0 nothing (Liv owned) s) (\<lambda>_. fresh_frame t0 c)"
    proof (rule triple_option)
      assume "mtls = None"
      then have c': "c = ThreadClient" using c hc by (simp add: chosen_client_def)
      show "triple (fresh_frame t0 c) (sbnd (get_http_client w) (\<lambda>c. sret (c, False)))
        (\<lambda>(client, owned) s. client = c \<and> frame t0 c 0 nothing (Liv owned) s) (\<lambda>_. fresh_frame t0 c)"
        unfolding c' by (rule triple_sbnd [OF thread_client], rule triple_sret) (simp add: free)
    next
      fix m
      assume "mtls = Some m"
      then have c': "c = MtlsClient" using c hc by (simp add: chosen_client_def)
      show "triple (fresh_frame t0 c) (sbnd (build_mtls_client w m) (\<lambda>c. sret (c, True)))
        (\<lambda>(client, owned) s. client = c \<and> frame t0 c 0 nothing (Liv owned) s) (\<lambda>_. fresh_frame t0 c)"
        unfolding c' by (rule triple_sbnd [OF mtls_client], rule triple_sret) simp
    qed
  qed
qed

lemma attempt_frame:
  fixes process :: "http_response \<Rightarrow> 'r res" and dpop :: bool
  assumes c: "c = chosen_client mtls http_client"
  defines "K \<equiv> (if dpop then 2 else 1 :: nat)"
  shows "triple (fresh_frame t0 c) (attempt w meth address mtls http_client prepare dpop process)
     (\<lambda>_. frame t0 c K current own) (\<lambda>_. frame t0 c K current own)"
proof -
  let ?F = "\<lambda>k. frame t0 c k current own"
  have up: "?F 1 s \<Longrightarrow> ?F K s" for s by (erule frame_weaken) (auto simp: K_def)
  have send2: "triple (frame t0 c 1 nothing own) (send_request w meth address c p) (\<lambda>_. ?F 2) (\<lambda>_. ?F 2)" for p
    using send_frame [of t0 c 1] by (simp add: numeral_2_eq_2)
  have second: "triple (?F 1) (sbnd close_response (\<lambda>_. sbnd (slift (prepare (Some v))) (\<lambda>p'.
           sbnd (send_request w meth address c p') (\<lambda>r'. slift (process r'))))) (\<lambda>_. ?F 2) (\<lambda>_. ?F 2)" for v
    by (rule triple_sbnd [where R = "\<lambda>_. frame t0 c 1 nothing own"], rule close_response_frame, simp,
        rule triple_sbnd [where R = "\<lambda>_. frame t0 c 1 nothing own"], rule triple_slift, assumption, force elim: frame_weaken,
        rule triple_sbnd [where R = "\<lambda>_. ?F 2"], rule send2, rule triple_slift)
  have answer: "triple (?F 1) (sbnd (slift (if dpop then extract_dpop_nonce r else Inr None)) (\<lambda>nonce.
       case nonce of None \<Rightarrow> slift (process r)
       | Some v \<Rightarrow> sbnd close_response (\<lambda>_. sbnd (slift (prepare (Some v))) (\<lambda>p'.
           sbnd (send_request w meth address c p') (\<lambda>r'. slift (process r')))))) (\<lambda>_. ?F K) (\<lambda>_. ?F K)" for r
  proof (rule triple_sbnd [where R = "\<lambda>nonce s. ?F 1 s \<and> (nonce \<noteq> None \<longrightarrow> dpop)"], rule triple_slift)
    fix nonce
    show "triple (\<lambda>s. ?F 1 s \<and> (nonce \<noteq> None \<longrightarrow> dpop)) (case nonce of None \<Rightarrow> slift (process r)
       | Some v \<Rightarrow> sbnd close_response (\<lambda>_. sbnd (slift (prepare (Some v))) (\<lambda>p'.
           sbnd (send_request w meth address c p') (\<lambda>r'. slift (process r'))))) (\<lambda>_. ?F K) (\<lambda>_. ?F K)"
    proof (rule triple_pre, rule triple_option)
      show "triple (?F 1) (slift (process r)) (\<lambda>_. ?F K) (\<lambda>_. ?F K)"
        by (rule triple_slift) (erule up)+
    next
      fix v
      assume "nonce \<noteq> None \<longrightarrow> dpop" "nonce = Some v"
      then have "K = 2" by (simp add: K_def)
      then show "triple (?F 1) (sbnd close_response (\<lambda>_. sbnd (slift (prepare (Some v))) (\<lambda>p'.
           sbnd (send_request w meth address c p') (\<lambda>r'. slift (process r'))))) (\<lambda>_. ?F K) (\<lambda>_. ?F K)"
        using second by simp
    qed
  qed (use up in \<open>auto split: if_splits\<close>)
  have go: "triple (\<lambda>s. client = c \<and> frame t0 c 0 nothing (\<lambda>_. if owned then 1 else 0) s)
     (sbnd (supd (\<lambda>s. s\<lparr>ns_owned := owned\<rparr>)) (\<lambda>_. sbnd (send_request w meth address client p) (\<lambda>r.
       sbnd (slift (if dpop then extract_dpop_nonce r else Inr None)) (\<lambda>nonce.
       case nonce of None \<Rightarrow> slift (process r)
       | Some v \<Rightarrow> sbnd close_response (\<lambda>_. sbnd (slift (prepare (Some v))) (\<lambda>p'.
           sbnd (send_request w meth address client p') (\<lambda>r'. slift (process r')))))))) (\<lambda>_. ?F K) (\<lambda>_. ?F K)" for client owned p
  proof (cases "client = c")
    case True
    have one: "triple (frame t0 c 0 nothing own) (send_request w meth address c p) (\<lambda>_. ?F 1) (\<lambda>_. ?F K)"
      by (rule triple_conseq [OF send_frame [of t0 c 0]]) (use up in auto)
    show ?thesis
      unfolding True
      by (rule triple_sbnd [where R = "\<lambda>_. frame t0 c 0 nothing own"], rule triple_supd, force simp: own_def elim: frame_weaken,
          rule triple_sbnd [where R = "\<lambda>_. ?F 1"], rule one, rule answer)
  qed (simp add: triple_def)
  have resolved: "triple (fresh_frame t0 c) (resolve_http_client w mtls http_client)
     (\<lambda>x s. fst x = c \<and> frame t0 c 0 nothing (\<lambda>_. if snd x then 1 else 0) s) (\<lambda>_. ?F K)"
    by (rule triple_conseq [OF resolve_frame [OF c]]) (auto intro: fresh_weaken)
  have rest: "triple (\<lambda>s. fst x = c \<and> frame t0 c 0 nothing (\<lambda>_. if snd x then 1 else 0) s)
     (case x of (client, owned) \<Rightarrow> sbnd (supd (\<lambda>s. s\<lparr>ns_owned := owned\<rparr>)) (\<lambda>_.
       sbnd (send_request w meth address client p) (\<lambda>r.
       sbnd (slift (if dpop then extract_dpop_nonce r else Inr None)) (\<lambda>nonce.
       case nonce of None \<Rightarrow> slift (process r)
       | Some v \<Rightarrow> sbnd close_response (\<lambda>_. sbnd (slift (prepare (Some v))) (\<lambda>p'.
           sbnd (send_request w meth address client p') (\<lambda>r'. slift (process r')))))))) (\<lambda>_. ?F K) (\<lambda>_. ?F K)" for x p
    using go [of "fst x" "snd x" p] by (cases x) (simp only: prod.case fst_conv snd_conv)
  show ?thesis
    unfolding attempt_def
    by (rule triple_sbnd [where R = "\<lambda>_. fresh_frame t0 c"], rule triple_slift, assumption, erule fresh_weaken,
        rule triple_sbnd [OF resolved], rule rest)
qed

lemma call_endpoint_frame:
  fixes dpop :: bool and s :: "'p net_state" and mtls http_client
  defines "K \<equiv> if dpop then 2 else 1 :: nat" and "c \<equiv> chosen_client mtls http_client" and "t \<equiv> ns_trace s"
  shows "triple (\<lambda>x. x = s) (call_endpoint w meth address mtls http_client prepare dpop process handle)
      (\<lambda>_. frame t c K nothing (\<lambda>_. 0)) (\<lambda>_ _. False)"
proof -
  let ?F = "frame t c K current own"
  have enter: "triple (\<lambda>x. x = s) (supd (\<lambda>s. s\<lparr>ns_response := None, ns_owned := False\<rparr>)) (\<lambda>_. fresh_frame t c) E" for E
    by (rule triple_supd) (simp add: fresh_frame_def frame_def trace_defs own_def t_def)
  have body: "triple (fresh_frame t c)
      (scatch (attempt w meth address mtls http_client prepare dpop process) (\<lambda>e. sret (handle e))) (\<lambda>_. ?F) (\<lambda>_ _. False)"
    unfolding K_def c_def by (rule triple_scatch [OF attempt_frame [OF refl]], rule triple_sret)
  have yes: "triple (\<lambda>s. frame t c K nothing own s \<and> ns_owned s) (log_event (ClientClosed MtlsClient))
      (\<lambda>_. frame t c K nothing (\<lambda>_. 0)) E" for E
    by (rule triple_log) (auto simp: own_def elim!: frame_snoc)
  have no: "triple (\<lambda>s. frame t c K nothing own s \<and> \<not> ns_owned s) (sret ()) (\<lambda>_. frame t c K nothing (\<lambda>_. 0)) E" for E
    by (rule triple_sret) (auto simp: own_def elim!: frame_weaken)
  have close: "triple (frame t c K nothing own) close_owned (\<lambda>_. frame t c K nothing (\<lambda>_. 0)) E" for E
    unfolding close_owned_def
    by (rule triple_sbnd [where R = "\<lambda>m s. frame t c K nothing own s \<and> ns_owned s = m"], rule triple_sget, simp,
        rule triple_if) (auto intro: triple_conseq [OF yes] triple_conseq [OF no])
  show ?thesis
    unfolding call_endpoint_def
    by (rule triple_sbnd [OF enter], rule triple_sbnd [OF body],
        rule triple_sbnd [OF close_response_frame], simp, rule triple_sbnd [OF close], rule triple_sret)
qed

text \<open>What a call did to the trace: its own events, with nothing left open.\<close>

definition clean_call :: "client_ref \<Rightarrow> nat \<Rightarrow> 'p net_state \<Rightarrow> 'p net_state \<Rightarrow> bool" where
  "clean_call c k s s' \<longleftrightarrow> (\<exists>t. ns_trace s' = ns_trace s @ t \<and> pending t = {} \<and> mtls_live t = 0
      \<and> requests_sent t \<le> k \<and> list_all (through c) t)"

lemma call_endpoint_clean:
  assumes "call_endpoint w meth address mtls http_client prepare dpop process handle s = (res, s')"
  shows "is_ok res \<and> clean_call (chosen_client mtls http_client) (if dpop then 2 else 1) s s'"
proof (cases res)
  case (Inl e)
  with triple_Inl [OF call_endpoint_frame refl] assms show ?thesis by blast
next
  case (Inr r)
  from triple_Inr [OF call_endpoint_frame refl assms [unfolded Inr]]
  have "frame (ns_trace s) (chosen_client mtls http_client) (if dpop then 2 else 1) nothing (\<lambda>_. 0) s'" .
  then show ?thesis unfolding Inr frame_def clean_call_def by auto
qed


section \<open>A success is a server's answer\<close>

definition answered :: "'p net_world \<Rightarrow> http_response \<Rightarrow> bool" where
  "answered w r \<longleftrightarrow> (\<exists>n ev. fst (retry_with_backoff (nw_parsedate w) (nw_env w) (nw_clock w) None None (nw_send w n ev)) = Inr r)"

lemma send_answered: "triple P (send_request w meth address c p) (\<lambda>r _. answered w r) (\<lambda>_ _. True)"
  by (rule tripleI) (auto simp: send_request_def Let_def sbnd_def stm_simps log_event_def answered_def split: prod.splits sum.splits)

lemma triple_true: "triple P m (\<lambda>_ _. True) (\<lambda>_ _. True)"
  by (simp add: triple_def split: prod.split sum.split)

lemma attempt_answered:
  "triple P (attempt w meth address mtls http_client prepare dpop process)
     (\<lambda>res _. \<exists>r. answered w r \<and> process r = Inr res) (\<lambda>_ _. True)"
proof -
  have fin: "triple (\<lambda>_. answered w r) (slift (process r)) (\<lambda>res _. \<exists>r. answered w r \<and> process r = Inr res) (\<lambda>_ _. True)" for r
    by (rule triple_slift) auto
  show ?thesis
    unfolding attempt_def
    by (rule triple_sbnd [OF triple_true], rule triple_sbnd [OF triple_true], rule triple_pair,
        rule triple_sbnd [OF triple_true], rule triple_sbnd [OF send_answered],
        rule triple_sbnd [where R = "\<lambda>_ _. answered w r" for r], rule triple_slift, assumption, simp,
        rule triple_option, rule fin, rule triple_sbnd [OF triple_true], rule triple_sbnd [OF triple_true],
        rule triple_sbnd [OF send_answered], rule fin)
qed

locale endpoint_flow =
  fixes process :: "http_response \<Rightarrow> 'r res" and handle :: "exn \<Rightarrow> 'r" and ok :: "'r \<Rightarrow> bool"
  assumes handle_fails: "\<not> ok (handle e)"
begin

lemma success_answered:
  assumes "call_endpoint w meth address mtls http_client prepare dpop process handle s = (Inr res, s')" and "ok res"
  shows "\<exists>r. answered w r \<and> process r = Inr res"
proof -
  have "triple (\<lambda>_. True) (call_endpoint w meth address mtls http_client prepare dpop process handle)
      (\<lambda>res _. ok res \<longrightarrow> (\<exists>r. answered w r \<and> process r = Inr res)) (\<lambda>_ _. True)"
    unfolding call_endpoint_def
    by (rule triple_sbnd [OF triple_true],
        rule triple_sbnd [where R = "\<lambda>res _. ok res \<longrightarrow> (\<exists>r. answered w r \<and> process r = Inr res)"],
        rule triple_scatch [OF triple_conseq [OF attempt_answered]], assumption, blast, assumption,
        rule triple_sret, simp add: handle_fails,
        rule triple_sbnd [where R = "\<lambda>_ _. ok res \<longrightarrow> (\<exists>r. answered w r \<and> process r = Inr res)" for res],
        simp add: triple_def split: prod.split sum.split)
      (auto simp: triple_def sbnd_def stm_simps split: prod.split sum.split)
  from triple_Inr [OF this _ assms(1)] assms(2) show ?thesis by simp
qed

end

interpretation cc_flow: endpoint_flow "\<lambda>x. Inr (process_token_response x)" handle_token_error rs_is_successful
  by unfold_locales (simp add: handle_token_error_def)

interpretation code_flow: endpoint_flow "\<lambda>x. Inr (process_auth_code_token_response x)" handle_auth_code_token_error rs_is_successful
  by unfold_locales (simp add: handle_auth_code_token_error_def)

interpretation refresh_flow: endpoint_flow "\<lambda>x. Inr (process_refresh_token_response x)" handle_refresh_token_error rs_is_successful
  by unfold_locales (simp add: handle_refresh_token_error_def)

interpretation introspection_flow: endpoint_flow "\<lambda>x. Inr (process_introspection_response x)" handle_introspection_error rs_is_successful
  by unfold_locales (simp add: handle_introspection_error_def)

interpretation revocation_flow: endpoint_flow "\<lambda>x. Inr (process_revocation_response x)" handle_revocation_error rs_is_successful
  by unfold_locales (simp add: handle_revocation_error_def)

interpretation par_flow: endpoint_flow process_par_response handle_par_error rs_is_successful
  by unfold_locales (simp add: handle_par_error_def)

interpretation device_auth_flow: endpoint_flow process_device_auth_response handle_device_auth_error rs_is_successful
  by unfold_locales (simp add: handle_device_auth_error_def)

interpretation device_token_flow: endpoint_flow process_device_token_response handle_device_token_error rs_is_successful
  by unfold_locales (simp add: handle_device_token_error_def)

interpretation exchange_flow: endpoint_flow process_token_exchange_response handle_token_exchange_error rs_is_successful
  by unfold_locales (simp add: handle_token_exchange_error_def)

interpretation userinfo_flow: endpoint_flow
    "\<lambda>x. validate_userinfo_sub (process_userinfo_response x) expected" handle_userinfo_error rs_is_successful
  for expected
  by unfold_locales (simp add: handle_userinfo_error_def)

lemma get_userinfo_calls:
  assumes "get_userinfo w S http_client r s = (Inr res, s')"
  shows "\<exists>prepare. call_endpoint w ''GET'' (ui_address r) (ui_mtls r) http_client prepare (ui_dpop_key r \<noteq> None)
     (\<lambda>x. validate_userinfo_sub (process_userinfo_response x) (ui_expected_sub r)) handle_userinfo_error s = (Inr res, s')"
  using assms by (auto simp: get_userinfo_def sbnd_def slift_def split: sum.splits)

lemma process_userinfo_success:
  "rs_is_successful (process_userinfo_response x) \<longleftrightarrow>
     is_success x \<and> (media_type (header_or x ''Content-Type'' []) = ''application/jwt'' \<or> is_ok (h_json x))"
  by (auto simp: process_userinfo_response_def caught_def parse_userinfo_response_def handle_userinfo_error_def
      is_ok_def split: sum.splits)

lemma validate_userinfo_sub_ok:
  assumes "validate_userinfo_sub u expected = Inr res" "rs_is_successful res"
  shows "res = u \<and> (case (expected, ur_raw u) of
      (Some sub, None) \<Rightarrow> \<exists>claims. ur_claims u = JDict claims \<and> jget claims ''sub'' = JStr sub | _ \<Rightarrow> True)"
  using assms
  by (auto simp: validate_userinfo_sub_def res_splits as_dict_or_raise_def split: option.splits if_splits json.splits)

text \<open>UserInfo claims belong to the user of the ID token. A successful answer of \<open>get_userinfo\<close> came
  from an answer of the server with a success status; if the caller gave the ID token's subject and
  the answer is not a signed token for the caller to check, then its claims are a JSON object whose
  \<open>sub\<close> is exactly that subject.
\<close>

theorem userinfo_subject_checked:
  assumes "get_userinfo w S http_client r s = (Inr res, s')" and "rs_is_successful res"
  shows "(\<exists>x. answered w x \<and> is_success x)
     \<and> (case (ui_expected_sub r, ur_raw res) of
          (Some sub, None) \<Rightarrow> \<exists>claims. ur_claims res = JDict claims \<and> jget claims ''sub'' = JStr sub
        | _ \<Rightarrow> True)"
proof -
  obtain x where x: "answered w x" "validate_userinfo_sub (process_userinfo_response x) (ui_expected_sub r) = Inr res"
    using get_userinfo_calls [OF assms(1)] userinfo_flow.success_answered assms(2) by blast
  note ok = validate_userinfo_sub_ok [OF x(2) assms(2)]
  then have "is_success x" using assms(2) process_userinfo_success by simp
  with x(1) ok show ?thesis by auto
qed

definition userinfo_http :: http_response where
  "userinfo_http = \<lparr>h_status = 200, h_headers = [(''content-type'', ''application/json'')], h_content = ''{}'', h_url = None,
     h_json = Inr (JDict [(''sub'', JStr ''alice'')]), h_text = ''{}''\<rparr>"

definition example_net :: "prepared net_world" where
  "example_net = \<lparr>nw_env = empty_env, nw_parsedate = (\<lambda>_. None), nw_clock = (\<lambda>_. 0), nw_send = (\<lambda>_ _ _. Inr userinfo_http),
     nw_client_context = (\<lambda>_. Inr ()), nw_mtls_context = (\<lambda>_ _. Inr ())\<rparr>"

definition example_userinfo_request :: userinfo_request where
  "example_userinfo_request = \<lparr>ui_address = ''https://op/userinfo'', ui_token = ''t'', ui_expected_sub = Some ''alice'',
     ui_dpop_key = None, ui_mtls = None\<rparr>"

definition idle_net :: "prepared net_state" where
  "idle_net = \<lparr>ns_thread_client = True, ns_trace = [], ns_responses = 0, ns_response = None, ns_owned = False\<rparr>"

lemma example_retry:
  "fst (retry_with_backoff (\<lambda>_. None) empty_env (\<lambda>_. 0) None None (\<lambda>_. Inr userinfo_http)) = Inr userinfo_http"
proof -
  have "get_retry_params empty_env None None = Inr (3, Fin 1)"
    by (simp add: get_retry_params_def get_retry_config_default)
  moreover have "[0..3] = 0 # [1..3 :: int]" by (simp add: upto_rec1)
  ultimately show ?thesis
    by (simp add: retry_with_backoff_def should_retry_response_def check_no_redirect_def userinfo_http_def)
qed

lemma example_userinfo:
  "\<exists>s'. get_userinfo example_net example_signing None example_userinfo_request idle_net
     = (Inr \<lparr>rs_is_successful = True, rs_error = JNull, ur_claims = JDict [(''sub'', JStr ''alice'')], ur_raw = None\<rparr>, s')"
proof -
  have sub: "validate_userinfo_sub (process_userinfo_response userinfo_http) (Some ''alice'')
      = Inr \<lparr>rs_is_successful = True, rs_error = JNull, ur_claims = JDict [(''sub'', JStr ''alice'')], ur_raw = None\<rparr>"
    by code_simp
  show ?thesis
    by (simp add: get_userinfo_def call_endpoint_def attempt_def sbnd_def scatch_def stm_simps prepare_userinfo_headers_def
        example_userinfo_request_def resolve_http_client_def get_http_client_def idle_net_def send_request_def Let_def
        log_event_def example_net_def example_retry sub close_response_def close_owned_def)
qed

theorem userinfo_subject_checked_witness:
  "(\<exists>x. answered example_net x \<and> is_success x)
   \<and> (\<exists>claims. JDict [(''sub'', JStr ''alice'')] = JDict claims \<and> jget claims ''sub'' = JStr ''alice'')"
proof -
  obtain s' where "get_userinfo example_net example_signing None example_userinfo_request idle_net
     = (Inr \<lparr>rs_is_successful = True, rs_error = JNull, ur_claims = JDict [(''sub'', JStr ''alice'')], ur_raw = None\<rparr>, s')"
    using example_userinfo by blast
  from userinfo_subject_checked [OF this] show ?thesis by (simp add: example_userinfo_request_def)
qed

section \<open>Polling for a device token\<close>

lemma device_poll_outcome:
  "case process_device_token_response r of
     Inr d \<Rightarrow>
       (rs_is_successful d \<longleftrightarrow> is_success r \<and> (\<exists>t. h_json r = Inr (JDict t) \<and> dtr_token d = JDict t))
       \<and> (dtr_error_code d \<noteq> JNull \<longleftrightarrow> \<not> is_success r
            \<and> (\<exists>t c. h_json r = Inr (JDict t) \<and> jget t ''error'' = JStr c \<and> c \<in> set POLLING_ERROR_CODES
                 \<and> dtr_error_code d = JStr c))
   | Inl e \<Rightarrow> (is_success r \<and> h_json r = Inl e \<and> exn_class e \<notin> {ValueError, UnicodeEncodeError})
       \<or> (\<not> is_success r \<and> exn_class e = TypeError)"
  by (auto simp: process_device_token_response_def device_parse_success_def device_parse_error_def in_frozenset_def
      exn_isinstance_def split: sum.splits json.splits)

end
