(* ===== verification/Identity.thy ===== *)
theory Identity
  imports Token_Profiles
begin

text \<open>
  \<open>identity.py\<close>: claims, claims identities and claims principals, and the principal of a validated
  token. An identity and a principal hold Python lists, which are mutable and may be shared: a list is
  an address in a store, and \<open>extend\<close> changes what every holder of the address sees. Objects are never
  freed, so an address is an index of the store.
\<close>

section \<open>Showing a claim value\<close>

text \<open>\<open>repr\<close> and \<open>str\<close> of a parsed JSON value; how Python shows a float is the argument.\<close>

fun repr_value :: "(pyfloat \<Rightarrow> string) \<Rightarrow> json \<Rightarrow> string" where
  "repr_value fl JNull = ''None''"
| "repr_value fl (JBool b) = (if b then ''True'' else ''False'')"
| "repr_value fl (JInt i) = show_int i"
| "repr_value fl (JFloat f) = fl f"
| "repr_value fl (JStr s) = py_repr_str s"
| "repr_value fl (JList xs) = ''['' @ py_join '', '' (map (repr_value fl) xs) @ '']''"
| "repr_value fl (JDict d) =
     ''{'' @ py_join '', '' (map (\<lambda>(k, v). py_repr_str k @ '': '' @ repr_value fl v) d) @ ''}''"

definition str_value :: "(pyfloat \<Rightarrow> string) \<Rightarrow> json \<Rightarrow> string" where
  "str_value fl j = (case j of JStr s \<Rightarrow> s | _ \<Rightarrow> repr_value fl j)"

section \<open>Claims\<close>

record claim =
  claim_type :: string
  claim_value :: string
  claim_value_type :: string
  claim_issuer :: string
  original_issuer :: string
  claim_properties :: "string dict"

definition LOCAL_AUTHORITY :: string where
  "LOCAL_AUTHORITY = ''LOCAL AUTHORITY''"

definition XML_STRING :: string where
  "XML_STRING = ''http://www.w3.org/2001/XMLSchema#string''"

definition new_claim :: "string \<Rightarrow> string \<Rightarrow> string \<Rightarrow> string option \<Rightarrow> string option \<Rightarrow> claim" where
  "new_claim ctype val value_type iss orig =
     (let i = opt_or iss LOCAL_AUTHORITY
      in \<lparr>claim_type = ctype, claim_value = val, claim_value_type = value_type, claim_issuer = i,
          original_issuer = opt_or orig i, claim_properties = []\<rparr>)"

definition claim_str :: "claim \<Rightarrow> string" where
  "claim_str c = claim_type c @ '': '' @ claim_value c"

definition claim_repr :: "claim \<Rightarrow> string" where
  "claim_repr c = ''Claim(claim_type='' @ sq (claim_type c) @ '', value='' @ sq (claim_value c)
     @ '', issuer='' @ sq (claim_issuer c) @ '')''"

datatype claim_type_name =
    CT_Name | CT_NameIdentifier | CT_Role | CT_Email | CT_GivenName | CT_Surname | CT_DateOfBirth | CT_Country
  | CT_Gender | CT_HomePhone | CT_MobilePhone | CT_PostalCode | CT_StateOrProvince | CT_StreetAddress | CT_Webpage

definition SOAP_CLAIMS :: string where
  "SOAP_CLAIMS = ''http://schemas.xmlsoap.org/ws/2005/05/identity/claims/''"

fun ClaimType_value :: "claim_type_name \<Rightarrow> string" where
  "ClaimType_value CT_Name = SOAP_CLAIMS @ ''name''"
| "ClaimType_value CT_NameIdentifier = SOAP_CLAIMS @ ''nameidentifier''"
| "ClaimType_value CT_Role = ''http://schemas.microsoft.com/ws/2008/06/identity/claims/role''"
| "ClaimType_value CT_Email = SOAP_CLAIMS @ ''emailaddress''"
| "ClaimType_value CT_GivenName = SOAP_CLAIMS @ ''givenname''"
| "ClaimType_value CT_Surname = SOAP_CLAIMS @ ''surname''"
| "ClaimType_value CT_DateOfBirth = SOAP_CLAIMS @ ''dateofbirth''"
| "ClaimType_value CT_Country = SOAP_CLAIMS @ ''country''"
| "ClaimType_value CT_Gender = SOAP_CLAIMS @ ''gender''"
| "ClaimType_value CT_HomePhone = SOAP_CLAIMS @ ''homephone''"
| "ClaimType_value CT_MobilePhone = SOAP_CLAIMS @ ''mobilephone''"
| "ClaimType_value CT_PostalCode = SOAP_CLAIMS @ ''postalcode''"
| "ClaimType_value CT_StateOrProvince = SOAP_CLAIMS @ ''stateorprovince''"
| "ClaimType_value CT_StreetAddress = SOAP_CLAIMS @ ''streetaddress''"
| "ClaimType_value CT_Webpage = SOAP_CLAIMS @ ''webpage''"

section \<open>The store of lists\<close>

type_synonym claim_store = "claim list list"

definition list_at :: "claim_store \<Rightarrow> nat \<Rightarrow> claim list" where
  "list_at h a = (if a < length h then h ! a else [])"

definition new_list :: "claim list \<Rightarrow> claim_store \<Rightarrow> claim_store \<times> nat" where
  "new_list cs h = (h @ [cs], length h)"

text \<open>\<open>xs.extend(ys)\<close>; both may be the same object, which is then doubled.\<close>

definition list_extend :: "nat \<Rightarrow> nat \<Rightarrow> claim_store \<Rightarrow> claim_store" where
  "list_extend a b h = h[a := list_at h a @ list_at h b]"

section \<open>Identities and principals\<close>

record claims_identity =
  ci_claims :: nat
  ci_role_type_claim :: string
  ci_name_type_claim :: string
  ci_authentication_type :: "string option"

text \<open>An implementation of \<open>Identity\<close> other than \<open>ClaimsIdentity\<close> is opaque.\<close>

datatype identity = Claims_Identity claims_identity | Other_Identity nat

record principal =
  cp_identity :: "identity option"
  cp_claims :: nat

definition new_claims_identity ::
  "nat \<Rightarrow> string option \<Rightarrow> string \<Rightarrow> string \<Rightarrow> claims_identity" where
  "new_claims_identity claims authentication_type name_type_claim role_type_claim =
     \<lparr>ci_claims = claims, ci_role_type_claim = role_type_claim, ci_name_type_claim = name_type_claim,
      ci_authentication_type = authentication_type\<rparr>"

definition find_first_in :: "claim list \<Rightarrow> string \<Rightarrow> claim option" where
  "find_first_in cs t = find (\<lambda>c. claim_type c = t) cs"

definition find_all_in :: "claim list \<Rightarrow> string \<Rightarrow> claim list" where
  "find_all_in cs t = filter (\<lambda>c. claim_type c = t) cs"

definition identity_name :: "claim_store \<Rightarrow> claims_identity \<Rightarrow> string option" where
  "identity_name h i = map_option claim_value (find_first_in (list_at h (ci_claims i)) (ci_name_type_claim i))"

definition is_authenticated :: "claims_identity \<Rightarrow> bool" where
  "is_authenticated i = (ci_authentication_type i \<noteq> None)"

definition identity_find_first :: "claim_store \<Rightarrow> claims_identity \<Rightarrow> string \<Rightarrow> claim option" where
  "identity_find_first h i t = find_first_in (list_at h (ci_claims i)) t"

definition identity_find_all :: "claim_store \<Rightarrow> claims_identity \<Rightarrow> string \<Rightarrow> claim list" where
  "identity_find_all h i t = find_all_in (list_at h (ci_claims i)) t"

text \<open>The merge of an identity's claims into a principal's list, in the constructor and \<open>add_identity\<close>.\<close>

definition merge_claims :: "identity option \<Rightarrow> nat \<Rightarrow> claim_store \<Rightarrow> claim_store" where
  "merge_claims ident a h =
     (case ident of Some (Claims_Identity i) \<Rightarrow> list_extend a (ci_claims i) h | _ \<Rightarrow> h)"

definition new_claims_principal ::
  "identity option \<Rightarrow> nat option \<Rightarrow> claim_store \<Rightarrow> claim_store \<times> principal" where
  "new_claims_principal ident claims h =
     (let (h1, a) = (case claims of
            None \<Rightarrow> new_list [] h
          | Some a \<Rightarrow> if list_at h a \<noteq> [] then (h, a) else new_list [] h)
      in (merge_claims ident a h1, \<lparr>cp_identity = ident, cp_claims = a\<rparr>))"

definition add_identity :: "principal \<Rightarrow> identity \<Rightarrow> claim_store \<Rightarrow> claim_store \<times> principal" where
  "add_identity p ident h = (merge_claims (Some ident) (cp_claims p) h, p\<lparr>cp_identity := Some ident\<rparr>)"

definition has_claim_in :: "claim list \<Rightarrow> string \<Rightarrow> string option \<Rightarrow> bool" where
  "has_claim_in cs t v = list_ex (\<lambda>c. claim_type c = t \<and> (v = None \<or> Some (claim_value c) = v)) cs"

definition has_claim :: "claim_store \<Rightarrow> principal \<Rightarrow> string \<Rightarrow> string option \<Rightarrow> bool" where
  "has_claim h p t v = has_claim_in (list_at h (cp_claims p)) t v"

definition is_in_role :: "claim_store \<Rightarrow> principal \<Rightarrow> string \<Rightarrow> bool" where
  "is_in_role h p role = has_claim h p (ClaimType_value CT_Role) (Some role)"

definition principal_find_first :: "claim_store \<Rightarrow> principal \<Rightarrow> string \<Rightarrow> claim option" where
  "principal_find_first h p t = find_first_in (list_at h (cp_claims p)) t"

definition principal_find_all :: "claim_store \<Rightarrow> principal \<Rightarrow> string \<Rightarrow> claim list" where
  "principal_find_all h p t = find_all_in (list_at h (cp_claims p)) t"

section \<open>The principal of a token\<close>

definition token_issuer :: "(pyfloat \<Rightarrow> string) \<Rightarrow> json dict \<Rightarrow> string" where
  "token_issuer fl claims = (case map_of claims ''iss'' of None \<Rightarrow> LOCAL_AUTHORITY | Some v \<Rightarrow> str_value fl v)"

definition claim_values :: "json \<Rightarrow> json list" where
  "claim_values v = (case v of JList xs \<Rightarrow> xs | _ \<Rightarrow> [v])"

definition token_claim_list :: "(pyfloat \<Rightarrow> string) \<Rightarrow> json dict \<Rightarrow> claim list" where
  "token_claim_list fl claims =
     concat (map (\<lambda>(t, v). map (\<lambda>x. new_claim t (str_value fl x) XML_STRING (Some (token_issuer fl claims)) None)
                             (claim_values v)) claims)"

definition to_principal ::
  "(pyfloat \<Rightarrow> string) \<Rightarrow> json dict \<Rightarrow> string \<Rightarrow> claim_store \<Rightarrow> claim_store \<times> principal" where
  "to_principal fl token_claims authentication_type h =
     (let (h1, a) = new_list (token_claim_list fl token_claims) h;
          i = new_claims_identity a (Some authentication_type) (ClaimType_value CT_Name) (ClaimType_value CT_Role)
      in new_claims_principal (Some (Claims_Identity i)) None h1)"

section \<open>A program over principals\<close>

text \<open>
  The objects a program has made so far and the calls it can make: identities over a list of their own,
  principals without a list or with a list of their own, further identities added to a principal, and
  principals of tokens. A call that names an object that is not there does nothing.
\<close>

record objects =
  ob_lists :: claim_store
  ob_idents :: "identity list"
  ob_principals :: "principal list"

datatype principal_call =
    Make_identity "claim list" "string option" string string
  | Make_other nat
  | Make_principal "nat option" "claim list"
  | Add_identity nat nat
  | From_token "json dict" string

definition nth_opt :: "'a list \<Rightarrow> nat \<Rightarrow> 'a option" where
  "nth_opt xs i = (if i < length xs then Some (xs ! i) else None)"

definition nth_of :: "'a list \<Rightarrow> nat option \<Rightarrow> 'a option option" where
  "nth_of xs i = (case i of None \<Rightarrow> Some None | Some n \<Rightarrow> map_option Some (nth_opt xs n))"

fun make_call :: "(pyfloat \<Rightarrow> string) \<Rightarrow> principal_call \<Rightarrow> objects \<Rightarrow> objects" where
  "make_call fl (Make_identity cs auth nt rt) w =
     (let (h, a) = new_list cs (ob_lists w)
      in w\<lparr>ob_lists := h, ob_idents := ob_idents w @ [Claims_Identity (new_claims_identity a auth nt rt)]\<rparr>)"
| "make_call fl (Make_other n) w = w\<lparr>ob_idents := ob_idents w @ [Other_Identity n]\<rparr>"
| "make_call fl (Make_principal i cs) w =
     (case nth_of (ob_idents w) i of
        None \<Rightarrow> w
      | Some ident \<Rightarrow>
          let (h, a) = new_list cs (ob_lists w); (h', p) = new_claims_principal ident (Some a) h
          in w\<lparr>ob_lists := h', ob_principals := ob_principals w @ [p]\<rparr>)"
| "make_call fl (Add_identity n i) w =
     (case (nth_opt (ob_principals w) n, nth_opt (ob_idents w) i) of
        (Some p, Some ident) \<Rightarrow>
          let (h, p') = add_identity p ident (ob_lists w)
          in w\<lparr>ob_lists := h, ob_principals := (ob_principals w)[n := p']\<rparr>
      | _ \<Rightarrow> w)"
| "make_call fl (From_token claims auth) w =
     (let (h, p) = to_principal fl claims auth (ob_lists w)
      in w\<lparr>ob_lists := h, ob_idents := ob_idents w @ [the (cp_identity p)], ob_principals := ob_principals w @ [p]\<rparr>)"

definition make_calls :: "(pyfloat \<Rightarrow> string) \<Rightarrow> principal_call list \<Rightarrow> objects \<Rightarrow> objects" where
  "make_calls fl cs w = fold (make_call fl) cs w"

definition no_objects :: objects where
  "no_objects = \<lparr>ob_lists = [], ob_idents = [], ob_principals = []\<rparr>"

text \<open>
  The specification: identities and principals are values. A principal is its latest identity with the
  claims it was given and those of every identity it was made with or had added.
\<close>

datatype ident_value = Claims_Value "claim list" string string "string option" | Other_Value nat

fun value_claims :: "ident_value \<Rightarrow> claim list" where
  "value_claims (Claims_Value cs _ _ _) = cs"
| "value_claims (Other_Value _) = []"

type_synonym principal_value = "ident_value option \<times> claim list"

definition opt_claims :: "ident_value option \<Rightarrow> claim list" where
  "opt_claims i = (case i of None \<Rightarrow> [] | Some v \<Rightarrow> value_claims v)"

fun spec_call ::
  "(pyfloat \<Rightarrow> string) \<Rightarrow> principal_call \<Rightarrow> ident_value list \<times> principal_value list
     \<Rightarrow> ident_value list \<times> principal_value list" where
  "spec_call fl (Make_identity cs auth nt rt) (is, ps) = (is @ [Claims_Value cs rt nt auth], ps)"
| "spec_call fl (Make_other n) (is, ps) = (is @ [Other_Value n], ps)"
| "spec_call fl (Make_principal i cs) (is, ps) =
     (case nth_of is i of None \<Rightarrow> (is, ps) | Some v \<Rightarrow> (is, ps @ [(v, cs @ opt_claims v)]))"
| "spec_call fl (Add_identity n i) (is, ps) =
     (case (nth_opt ps n, nth_opt is i) of
        (Some (_, cs), Some v) \<Rightarrow> (is, ps[n := (Some v, cs @ value_claims v)])
      | _ \<Rightarrow> (is, ps))"
| "spec_call fl (From_token claims auth) (is, ps) =
     (let cs = token_claim_list fl claims;
          v = Claims_Value cs (ClaimType_value CT_Role) (ClaimType_value CT_Name) (Some auth)
      in (is @ [v], ps @ [(Some v, cs)]))"

fun abs_identity :: "claim_store \<Rightarrow> identity \<Rightarrow> ident_value" where
  "abs_identity h (Claims_Identity i) =
     Claims_Value (list_at h (ci_claims i)) (ci_role_type_claim i) (ci_name_type_claim i) (ci_authentication_type i)"
| "abs_identity h (Other_Identity n) = Other_Value n"

definition abs_principal :: "claim_store \<Rightarrow> principal \<Rightarrow> principal_value" where
  "abs_principal h p = (map_option (abs_identity h) (cp_identity p), list_at h (cp_claims p))"

definition abs_objects :: "objects \<Rightarrow> ident_value list \<times> principal_value list" where
  "abs_objects w = (map (abs_identity (ob_lists w)) (ob_idents w), map (abs_principal (ob_lists w)) (ob_principals w))"

text \<open>No principal shares its list with an identity or with another principal.\<close>

fun ident_addresses :: "identity \<Rightarrow> nat set" where
  "ident_addresses (Claims_Identity i) = {ci_claims i}"
| "ident_addresses (Other_Identity _) = {}"

definition held_lists :: "objects \<Rightarrow> nat set" where
  "held_lists w = \<Union> (ident_addresses ` (set (ob_idents w) \<union> {i. \<exists>p \<in> set (ob_principals w). cp_identity p = Some i}))"

definition unshared :: "objects \<Rightarrow> bool" where
  "unshared w \<longleftrightarrow>
     distinct (map cp_claims (ob_principals w)) \<and>
     (\<forall>p \<in> set (ob_principals w). cp_claims p < length (ob_lists w) \<and> cp_claims p \<notin> held_lists w) \<and>
     (\<forall>a \<in> held_lists w. a < length (ob_lists w))"

section \<open>Lists that are not shared\<close>

lemma list_at_append [simp]:
  "a < length h \<Longrightarrow> list_at (h @ t) a = list_at h a"
  "list_at (h @ [cs]) (length h) = cs"
  "list_at (h @ [cs, ds]) (length h) = cs"
  "list_at (h @ [cs, ds]) (Suc (length h)) = ds"
  by (simp_all add: list_at_def nth_append)

lemma list_at_extend:
  "list_at (list_extend a b h) c = (if c = a \<and> a < length h then list_at h a @ list_at h b else list_at h c)"
  by (simp add: list_extend_def list_at_def)

lemma length_merge [simp]: "length (merge_claims ident a h) = length h"
  by (simp add: merge_claims_def list_extend_def split: option.splits identity.splits)

lemma list_at_merge:
  "list_at (merge_claims ident a h) c =
     (if c = a \<and> a < length h then list_at h a @ opt_claims (map_option (abs_identity h) ident) else list_at h c)"
  by (auto simp: merge_claims_def list_at_extend opt_claims_def split: option.splits identity.splits)

lemma abs_identity_frame:
  "(\<And>a. a \<in> ident_addresses i \<Longrightarrow> list_at h' a = list_at h a) \<Longrightarrow> abs_identity h' i = abs_identity h i"
  by (cases i) simp_all

lemma held_ident: "\<lbrakk>i \<in> set (ob_idents w); a \<in> ident_addresses i\<rbrakk> \<Longrightarrow> a \<in> held_lists w"
  by (auto simp: held_lists_def)

lemma held_principal: "\<lbrakk>p \<in> set (ob_principals w); cp_identity p = Some i; a \<in> ident_addresses i\<rbrakk> \<Longrightarrow> a \<in> held_lists w"
  by (auto simp: held_lists_def)

lemma abs_idents_frame:
  assumes "\<And>a. a \<in> held_lists w \<Longrightarrow> list_at h' a = list_at (ob_lists w) a"
  shows "map (abs_identity h') (ob_idents w) = map (abs_identity (ob_lists w)) (ob_idents w)"
  using assms by (auto intro!: abs_identity_frame dest: held_ident)

lemma abs_principal_frame:
  assumes "p \<in> set (ob_principals w)" "\<And>a. a \<in> held_lists w \<Longrightarrow> list_at h' a = list_at (ob_lists w) a"
    and "list_at h' (cp_claims p) = list_at (ob_lists w) (cp_claims p)"
  shows "abs_principal h' p = abs_principal (ob_lists w) p"
proof -
  have "map_option (abs_identity h') (cp_identity p) = map_option (abs_identity (ob_lists w)) (cp_identity p)"
    using assms(1,2) by (cases "cp_identity p") (auto intro!: abs_identity_frame dest: held_principal)
  with assms(3) show ?thesis by (simp add: abs_principal_def)
qed

lemma nth_of_map: "nth_of (map f xs) i = map_option (map_option f) (nth_of xs i)"
  by (auto simp: nth_of_def nth_opt_def split: option.splits)

lemma nth_of_member: "nth_of xs i = Some (Some x) \<Longrightarrow> x \<in> set xs"
  by (auto simp: nth_of_def nth_opt_def split: option.splits if_splits)

lemma nth_opt_map: "nth_opt (map f xs) i = map_option f (nth_opt xs i)"
  by (simp add: nth_opt_def)

lemma nth_opt_Some: "nth_opt xs i = Some x \<longleftrightarrow> i < length xs \<and> xs ! i = x"
  by (simp add: nth_opt_def)

lemma held_lists_add_ident:
  "held_lists (w\<lparr>ob_lists := h, ob_idents := ob_idents w @ [i]\<rparr>) = held_lists w \<union> ident_addresses i"
  by (auto simp: held_lists_def)

lemma unshared_iff:
  "unshared w \<longleftrightarrow>
     distinct (map cp_claims (ob_principals w)) \<and>
     (\<forall>a \<in> set (map cp_claims (ob_principals w)). a < length (ob_lists w) \<and> a \<notin> held_lists w) \<and>
     (\<forall>a \<in> held_lists w. a < length (ob_lists w))"
  by (auto simp: unshared_def)

lemma unshared_bounds:
  "\<lbrakk>unshared w; a \<in> held_lists w \<or> a \<in> cp_claims ` set (ob_principals w)\<rbrakk> \<Longrightarrow> a < length (ob_lists w)"
  by (auto simp: unshared_def)

lemma make_identity_step:
  fixes w :: objects and t :: claim_store
  assumes "unshared w" "ident_addresses i \<subseteq> {length (ob_lists w) ..< length (ob_lists w @ t)}"
  defines "w' \<equiv> w\<lparr>ob_lists := ob_lists w @ t, ob_idents := ob_idents w @ [i]\<rparr>"
  shows "unshared w'"
    and "abs_objects w' = (fst (abs_objects w) @ [abs_identity (ob_lists w @ t) i], snd (abs_objects w))"
proof -
  have held: "held_lists w' = held_lists w \<union> ident_addresses i"
    by (simp add: w'_def held_lists_add_ident)
  note old = unshared_bounds [OF assms(1)]
  show "unshared w'"
    using assms(1,2) old unfolding unshared_def held by (fastforce simp: w'_def dest: subsetD)
  have "abs_principal (ob_lists w @ t) p = abs_principal (ob_lists w) p" if "p \<in> set (ob_principals w)" for p
    using that old by (intro abs_principal_frame) auto
  moreover have "map (abs_identity (ob_lists w @ t)) (ob_idents w) = map (abs_identity (ob_lists w)) (ob_idents w)"
    using old by (intro abs_idents_frame) auto
  ultimately show "abs_objects w' = (fst (abs_objects w) @ [abs_identity (ob_lists w @ t) i], snd (abs_objects w))"
    by (simp add: w'_def abs_objects_def)
qed

lemma make_principal_step:
  fixes w :: objects and t :: claim_store
  assumes sep: "unshared w" and ident: "\<And>i. ident = Some i \<Longrightarrow> i \<in> set (ob_idents w)"
    and fresh: "length (ob_lists w) \<le> a" "a < length (ob_lists w @ t)"
  defines "h' \<equiv> merge_claims ident a (ob_lists w @ t)" and "v \<equiv> map_option (abs_identity (ob_lists w)) ident"
  defines "w' \<equiv> w\<lparr>ob_lists := h', ob_principals := ob_principals w @ [\<lparr>cp_identity = ident, cp_claims = a\<rparr>]\<rparr>"
  shows "unshared w'"
    and "abs_objects w' = (fst (abs_objects w), snd (abs_objects w) @ [(v, list_at (ob_lists w @ t) a @ opt_claims v)])"
proof -
  have held: "held_lists w' = held_lists w"
    using ident by (auto simp: w'_def held_lists_def)
  note old = unshared_bounds [OF sep]
  show "unshared w'"
    using sep fresh old unfolding unshared_def held by (fastforce simp: w'_def h'_def)
  have same: "list_at h' b = list_at (ob_lists w) b" if "b \<in> held_lists w \<or> b \<in> cp_claims ` set (ob_principals w)" for b
    using old [OF that] fresh by (simp add: h'_def list_at_merge)
  have "abs_principal h' p = abs_principal (ob_lists w) p" if "p \<in> set (ob_principals w)" for p
    using that same by (intro abs_principal_frame) auto
  moreover have "map (abs_identity h') (ob_idents w) = map (abs_identity (ob_lists w)) (ob_idents w)"
    using same by (intro abs_idents_frame) auto
  moreover have stable: "map_option (abs_identity g) ident = v"
    if "\<And>b. b \<in> held_lists w \<Longrightarrow> list_at g b = list_at (ob_lists w) b" for g
    using that ident by (cases ident) (auto simp: v_def intro!: abs_identity_frame dest: held_ident)
  moreover have "list_at h' a = list_at (ob_lists w @ t) a @ opt_claims v"
    using fresh old stable [of "ob_lists w @ t"] by (simp add: h'_def list_at_merge)
  ultimately show "abs_objects w' = (fst (abs_objects w), snd (abs_objects w) @ [(v, list_at (ob_lists w @ t) a @ opt_claims v)])"
    using stable [of h'] same by (simp add: w'_def abs_objects_def abs_principal_def)
qed

lemma add_identity_step:
  fixes w :: objects
  assumes sep: "unshared w" and n: "n < length (ob_principals w)" and i: "i \<in> set (ob_idents w)"
  defines "p \<equiv> ob_principals w ! n"
  defines "h' \<equiv> merge_claims (Some i) (cp_claims p) (ob_lists w)" and "v \<equiv> abs_identity (ob_lists w) i"
  defines "w' \<equiv> w\<lparr>ob_lists := h', ob_principals := (ob_principals w)[n := p\<lparr>cp_identity := Some i\<rparr>]\<rparr>"
  shows "unshared w'"
    and "abs_objects w' = (fst (abs_objects w),
           (snd (abs_objects w))[n := (Some v, snd (snd (abs_objects w) ! n) @ value_claims v)])"
proof -
  let ?h = "ob_lists w" and ?ps = "ob_principals w"
  have p: "p \<in> set ?ps" "cp_claims p < length ?h" "cp_claims p \<notin> held_lists w"
    using sep n by (auto simp: unshared_def p_def)
  have sub: "held_lists w' \<subseteq> held_lists w"
    using i by (auto simp: w'_def held_lists_def dest!: set_update_subset_insert [THEN subsetD])
  have claims: "map cp_claims (ob_principals w') = map cp_claims ?ps"
    using n by (simp add: w'_def map_update p_def list_update_same_conv)
  moreover have "length (ob_lists w') = length ?h"
    by (simp add: w'_def h'_def)
  ultimately show "unshared w'"
    using sep sub unfolding unshared_iff by (auto dest: subsetD)
  have same: "list_at h' b = list_at ?h b" if "b \<noteq> cp_claims p" for b
    using that by (simp add: h'_def list_at_merge)
  have held: "list_at h' b = list_at ?h b" if "b \<in> held_lists w" for b
    using that p by (auto intro: same)
  have others: "abs_principal h' (?ps ! m) = abs_principal ?h (?ps ! m)" if "m < length ?ps" "m \<noteq> n" for m
  proof (rule abs_principal_frame)
    show "list_at h' (cp_claims (?ps ! m)) = list_at ?h (cp_claims (?ps ! m))"
      using that n sep by (intro same) (auto simp: unshared_def p_def distinct_conv_nth)
  qed (use that held in auto)
  have "abs_principal h' (p\<lparr>cp_identity := Some i\<rparr>) = (Some v, list_at ?h (cp_claims p) @ value_claims v)"
    using p i held by (auto simp: abs_principal_def v_def h'_def list_at_merge opt_claims_def
        intro!: abs_identity_frame dest: held_ident)
  then have "map (abs_principal h') (ob_principals w')
      = (map (abs_principal ?h) ?ps)[n := (Some v, list_at ?h (cp_claims p) @ value_claims v)]"
    using n others by (intro nth_equalityI) (auto simp: w'_def nth_list_update)
  then show "abs_objects w' = (fst (abs_objects w),
           (snd (abs_objects w))[n := (Some v, snd (snd (abs_objects w) ! n) @ value_claims v)])"
    using n abs_idents_frame [OF held] by (simp add: w'_def abs_objects_def abs_principal_def p_def)
qed

lemmas step_defs = new_list_def new_claims_principal_def add_identity_def to_principal_def Let_def

lemma make_call_refines:
  assumes "unshared w"
  shows "unshared (make_call fl c w) \<and> abs_objects (make_call fl c w) = spec_call fl c (abs_objects w)"
proof (cases c)
  case (Make_identity cs auth nt rt)
  then show ?thesis
    using make_identity_step [OF assms, of "Claims_Identity (new_claims_identity (length (ob_lists w)) auth nt rt)" "[cs]"]
    by (cases "abs_objects w") (simp add: step_defs new_claims_identity_def)
next
  case (Make_other n)
  then show ?thesis
    using make_identity_step [OF assms, of "Other_Identity n" "[]"] by (cases "abs_objects w") simp
next
  case (Make_principal i cs)
  show ?thesis
  proof (cases "nth_of (ob_idents w) i")
    case None
    then show ?thesis
      using Make_principal assms by (simp add: abs_objects_def nth_of_map)
  next
    case (Some ident)
    then have "\<And>j. ident = Some j \<Longrightarrow> j \<in> set (ob_idents w)"
      by (simp add: nth_of_member)
    note step = make_principal_step [OF assms this]
    show ?thesis
      using Make_principal Some step [where a = "length (ob_lists w)" and t = "[cs]"]
        step [where a = "Suc (length (ob_lists w))" and t = "[cs, []]"]
      by (cases "cs = []") (simp_all add: step_defs abs_objects_def nth_of_map)
  qed
next
  case (Add_identity n i)
  then show ?thesis
    using assms add_identity_step [OF assms, of n "ob_idents w ! i"]
    by (auto simp: step_defs nth_opt_def abs_objects_def abs_principal_def split: prod.splits)
next
  case (From_token claims auth)
  define i where "i = Claims_Identity (new_claims_identity (length (ob_lists w)) (Some auth) (ClaimType_value CT_Name) (ClaimType_value CT_Role))"
  define w1 where "w1 = w\<lparr>ob_lists := ob_lists w @ [token_claim_list fl claims], ob_idents := ob_idents w @ [i]\<rparr>"
  have w1: "unshared w1" "abs_objects w1 = (fst (abs_objects w) @ [abs_identity (ob_lists w1) i], snd (abs_objects w))"
    using make_identity_step [OF assms, of i "[token_claim_list fl claims]"]
    by (simp_all add: i_def w1_def new_claims_identity_def)
  have "make_call fl c w = w1\<lparr>ob_lists := merge_claims (Some i) (length (ob_lists w1)) (ob_lists w1 @ [[]]),
      ob_principals := ob_principals w1 @ [\<lparr>cp_identity = Some i, cp_claims = length (ob_lists w1)\<rparr>]\<rparr>"
    using From_token by (simp add: step_defs i_def w1_def)
  then show ?thesis
    using From_token w1 make_principal_step [OF w1(1), of "Some i" "length (ob_lists w1)" "[[]]"]
    by (cases "abs_objects w") (simp add: opt_claims_def i_def w1_def new_claims_identity_def Let_def)
qed

lemma make_calls_refine:
  "unshared w \<Longrightarrow> unshared (make_calls fl cs w) \<and> abs_objects (make_calls fl cs w) = fold (spec_call fl) cs (abs_objects w)"
  by (induction cs arbitrary: w) (use make_call_refines in \<open>auto simp: make_calls_def\<close>)

lemma no_objects_unshared: "unshared no_objects" "abs_objects no_objects = ([], [])"
  by (simp_all add: unshared_def held_lists_def no_objects_def abs_objects_def)

section \<open>What identities and principals promise\<close>

text \<open>C33: A program that gives each principal a list of its own sees principals as values: whatever
  identities and principals it makes, merges and takes from tokens, in any order, every identity keeps the
  claims it was made with and every principal has exactly the claims it was given and those of the identities
  merged into it. No operation on one principal changes what another principal or an identity answers.\<close>

theorem principals_are_values:
  "abs_objects (make_calls fl cs no_objects) = fold (spec_call fl) cs ([], [])"
  using make_calls_refine [OF no_objects_unshared(1)] by (simp add: no_objects_unshared)

text \<open>
  Where the same non-empty list is passed to two principals they are not values: the first one gains the claims
  of the second one's identity, its roles included, and the caller's list grows with both.
\<close>

theorem shared_list_leaks_claims:
  assumes "a < length h" "list_at h a \<noteq> []" "ci_claims i \<noteq> a" "ci_claims j \<noteq> a"
    and "new_claims_principal (Some (Claims_Identity i)) (Some a) h = (h1, p)"
    and "new_claims_principal (Some (Claims_Identity j)) (Some a) h1 = (h2, q)"
    and "has_claim_in (list_at h (ci_claims j)) (ClaimType_value CT_Role) (Some role)"
  shows "is_in_role h2 p role"
proof -
  have h1: "h1 = merge_claims (Some (Claims_Identity i)) a h" "cp_claims p = a"
    using assms(2,5) by (auto simp: new_claims_principal_def)
  then have "list_at h1 a \<noteq> []" using assms(1,2) by (simp add: list_at_merge)
  then have "h2 = merge_claims (Some (Claims_Identity j)) a h1"
    using assms(6) by (auto simp: new_claims_principal_def)
  then have "list_at h2 a = list_at h1 a @ list_at h (ci_claims j)"
    using h1 assms(1,4) by (simp add: list_at_merge opt_claims_def)
  then show ?thesis
    using assms(7) h1 by (simp add: is_in_role_def has_claim_def has_claim_in_def)
qed

lemma find_all_token:
  "dict_ok claims \<Longrightarrow> map claim_value (find_all_in (token_claim_list fl claims) t)
     = (case map_of claims t of None \<Rightarrow> [] | Some v \<Rightarrow> map (str_value fl) (claim_values v))"
proof -
  define iss where "iss = token_issuer fl claims"
  have "dict_ok d \<Longrightarrow> map claim_value (find_all_in (concat (map (\<lambda>(t, v).
        map (\<lambda>x. new_claim t (str_value fl x) XML_STRING (Some iss) None) (claim_values v)) d)) t)
     = (case map_of d t of None \<Rightarrow> [] | Some v \<Rightarrow> map (str_value fl) (claim_values v))" for d
    by (induction d) (auto simp: dict_ok_def find_all_in_def new_claim_def filter_map o_def Let_def
          map_of_eq_None_iff [symmetric] filter_empty_conv)
  then show "dict_ok claims \<Longrightarrow> ?thesis" by (simp add: token_claim_list_def iss_def)
qed

lemma has_claim_values:
  "has_claim_in cs t (Some v) \<longleftrightarrow> v \<in> set (map claim_value (find_all_in cs t))"
  by (auto simp: has_claim_in_def find_all_in_def list_ex_iff)

lemma to_principal_lists:
  assumes "to_principal fl claims auth h = (h', p)"
  shows "list_at h' (cp_claims p) = token_claim_list fl claims"
    and "\<exists>i. cp_identity p = Some (Claims_Identity i) \<and> ci_authentication_type i = Some auth \<and>
           ci_name_type_claim i = ClaimType_value CT_Name \<and> list_at h' (ci_claims i) = token_claim_list fl claims"
  using assms by (auto simp: step_defs new_claims_identity_def list_at_merge opt_claims_def)

text \<open>The principal of a token answers from the token's claims alone: the values of a claim type are the
  text of the claim's value, or of each member where the value is a list, in order, and there are none for a type
  the token does not have. Its roles are the values of the role claim type of \<open>ClaimType\<close> only, every claim names
  the token's issuer, and its identity is authenticated and holds the same claims.\<close>

theorem token_principal_claims:
  assumes "dict_ok claims" "to_principal fl claims auth h = (h', p)"
  defines "texts \<equiv> \<lambda>t. case map_of claims t of None \<Rightarrow> [] | Some v \<Rightarrow> map (str_value fl) (claim_values v)"
  shows "(\<forall>t. map claim_value (principal_find_all h' p t) = texts t) \<and>
    (\<forall>t v. has_claim h' p t (Some v) = (v \<in> set (texts t))) \<and>
    (\<forall>role. is_in_role h' p role = (role \<in> set (texts (ClaimType_value CT_Role)))) \<and>
    (\<forall>c \<in> set (list_at h' (cp_claims p)). claim_issuer c = opt_or (Some (token_issuer fl claims)) LOCAL_AUTHORITY) \<and>
    (\<exists>i. cp_identity p = Some (Claims_Identity i) \<and> is_authenticated i \<and>
       list_at h' (ci_claims i) = list_at h' (cp_claims p) \<and>
       identity_name h' i = (case texts (ClaimType_value CT_Name) of [] \<Rightarrow> None | n # _ \<Rightarrow> Some n))"
proof -
  note lists = to_principal_lists [OF assms(2)]
  have texts: "map claim_value (find_all_in (token_claim_list fl claims) t) = texts t" for t
    using find_all_token [OF assms(1)] by (simp add: texts_def)
  have "map_option claim_value (find_first_in cs t)
      = (case map claim_value (find_all_in cs t) of [] \<Rightarrow> None | n # _ \<Rightarrow> Some n)" for cs t
    by (induction cs) (auto simp: find_first_in_def find_all_in_def)
  then have "map_option claim_value (find_first_in (token_claim_list fl claims) t) = (case texts t of [] \<Rightarrow> None | n # _ \<Rightarrow> Some n)" for t
    by (simp add: texts)
  moreover have "\<forall>c \<in> set (token_claim_list fl claims). claim_issuer c = opt_or (Some (token_issuer fl claims)) LOCAL_AUTHORITY"
    by (auto simp: token_claim_list_def new_claim_def Let_def)
  ultimately show ?thesis
    using lists texts
    by (auto simp: principal_find_all_def has_claim_def is_in_role_def has_claim_values is_authenticated_def identity_name_def)
qed

theorem token_principal_claims_witness:
  "\<exists>h' p. to_principal (\<lambda>_. ''1.5'') [(''sub'', JStr ''alice''), (''role'', JStr ''admin'')] ''Bearer'' [] = (h', p) \<and>
     has_claim h' p ''role'' (Some ''admin'') \<and> \<not> is_in_role h' p ''admin''"
proof -
  obtain h' p where p: "to_principal (\<lambda>_. ''1.5'') [(''sub'', JStr ''alice''), (''role'', JStr ''admin'')] ''Bearer'' [] = (h', p)"
    by fastforce
  then show ?thesis
    using token_principal_claims [OF _ p] by (simp add: dict_ok_def claim_values_def str_value_def)
qed

end
