(* ===== verification/Redaction.thy ===== *)
theory Redaction
  imports Identity
begin

text \<open>
  What may be shown of a secret: the redaction of log data in \<open>logging_utils.py\<close> and the representation of
  responses, \<open>BaseResponse.__repr__\<close> of \<open>core/models.py\<close>. The representation takes the fields of a response
  in declaration order as JSON values.
\<close>

section \<open>Log data\<close>

definition REDACTION_LENGTH_THRESHOLD :: nat where "REDACTION_LENGTH_THRESHOLD = 100"
definition MIN_TOKEN_DISPLAY_LENGTH :: nat where "MIN_TOKEN_DISPLAY_LENGTH = 20"

definition sensitive_keys :: "string list" where
  "sensitive_keys = [''client_secret'', ''password'', ''access_token'', ''refresh_token'', ''id_token'', ''token'',
     ''authorization'', ''secret'', ''api_key'', ''apikey'', ''private_key'', ''client_assertion'']"

definition REDACTED_TEXT :: string where
  "REDACTED_TEXT = ''***REDACTED***''"

definition sensitive_key :: "string \<Rightarrow> bool" where
  "sensitive_key key \<longleftrightarrow> map (\<lambda>c. if c = CHR ''-'' then CHR ''_'' else c) (py_lower key) \<in> set sensitive_keys"

definition redact_value :: "string \<Rightarrow> json \<Rightarrow> json" where
  "redact_value key v =
     (if sensitive_key key then JStr REDACTED_TEXT
      else case v of
        JStr s \<Rightarrow> if length s > REDACTION_LENGTH_THRESHOLD
                  then JStr (take MIN_TOKEN_DISPLAY_LENGTH s @ ''...'' @ REDACTED_TEXT) else v
      | _ \<Rightarrow> v)"

definition redact_sensitive :: "json dict \<Rightarrow> json dict" where
  "redact_sensitive data = map (\<lambda>(k, v). (k, redact_value k v)) data"

definition redact_token :: "string \<Rightarrow> string" where
  "redact_token token =
     (if length token < MIN_TOKEN_DISPLAY_LENGTH then REDACTED_TEXT
      else take 4 token @ ''...'' @ drop (length token - 4) token)"

section \<open>Responses\<close>

definition response_part :: "(pyfloat \<Rightarrow> string) \<Rightarrow> string list \<Rightarrow> string \<times> json \<Rightarrow> string" where
  "response_part fl secret_fields f =
     (case f of (name, v) \<Rightarrow>
        if name \<in> set secret_fields \<and> v \<noteq> JNull then name @ ''='' @ sq ''[REDACTED]''
        else name @ ''='' @ repr_value fl v)"

definition response_repr :: "(pyfloat \<Rightarrow> string) \<Rightarrow> string \<Rightarrow> string list \<Rightarrow> json dict \<Rightarrow> string" where
  "response_repr fl cls_name secret_fields fs =
     cls_name @ ''('' @ py_join '', '' (map (response_part fl secret_fields) fs) @ '')''"

section \<open>What the representations depend on\<close>

text \<open>Two dictionaries with the same keys that differ in the values of the given keys only.\<close>

definition differ_in :: "(string \<Rightarrow> json \<Rightarrow> bool) \<Rightarrow> json dict \<Rightarrow> json dict \<Rightarrow> bool" where
  "differ_in P d d' \<longleftrightarrow>
     list_all2 (\<lambda>(k, v) (k', v'). k = k' \<and> (v = v' \<or> P k v \<and> P k v')) d d'"

lemma map_differ_in:
  assumes "differ_in P d d'" "\<And>k v v'. \<lbrakk>P k v; P k v'\<rbrakk> \<Longrightarrow> f (k, v) = f (k, v')"
  shows "map f d = map f d'"
  using assms(1) unfolding differ_in_def
  by (induction rule: list_all2_induct) (use assms(2) in auto)

text \<open>Log data shows nothing of a secret: dictionaries that differ only in the values of sensitive keys, however the
  keys are capitalised or hyphenated, are redacted to the same dictionary; the redacted dictionary has the same keys, and a
  long string under any other key is shown by its first twenty characters only, so that no string longer than the limit
  passes unchanged.\<close>

theorem redaction_hides_secrets:
  assumes "differ_in (\<lambda>k _. sensitive_key k) d d'"
  shows "redact_sensitive d = redact_sensitive d' \<and> dict_keys (redact_sensitive d) = dict_keys d \<and>
    (\<forall>(k, v) \<in> set (redact_sensitive d). (sensitive_key k \<longrightarrow> v = JStr ''***REDACTED***'') \<and>
       (\<forall>s. v = JStr s \<longrightarrow> length s \<le> 100))"
proof -
  have "redact_sensitive d = redact_sensitive d'"
    unfolding redact_sensitive_def by (rule map_differ_in [OF assms]) (simp add: redact_value_def)
  moreover have "(sensitive_key k \<longrightarrow> redact_value k v = JStr ''***REDACTED***'') \<and>
      (\<forall>s. redact_value k v = JStr s \<longrightarrow> length s \<le> 100)" for k v
    by (auto simp: redact_value_def REDACTED_TEXT_def REDACTION_LENGTH_THRESHOLD_def MIN_TOKEN_DISPLAY_LENGTH_def
        split: json.splits if_splits)
  then have "\<forall>(k, v) \<in> set (redact_sensitive d). (sensitive_key k \<longrightarrow> v = JStr ''***REDACTED***'') \<and>
      (\<forall>s. v = JStr s \<longrightarrow> length s \<le> 100)"
    unfolding redact_sensitive_def by fastforce
  moreover have "dict_keys (redact_sensitive d) = dict_keys d"
    by (simp add: redact_sensitive_def case_prod_beta)
  ultimately show ?thesis by (intro conjI)
qed

theorem redaction_hides_secrets_witness:
  "redact_sensitive [(''client_id'', JStr ''app''), (''Client-Secret'', JStr ''s1'')]
   = redact_sensitive [(''client_id'', JStr ''app''), (''Client-Secret'', JStr ''s2'')]"
proof -
  have "sensitive_key ''Client-Secret''" by code_simp
  then have "differ_in (\<lambda>k _. sensitive_key k) [(''client_id'', JStr ''app''), (''Client-Secret'', JStr ''s1'')]
      [(''client_id'', JStr ''app''), (''Client-Secret'', JStr ''s2'')]"
    by (simp add: differ_in_def)
  from redaction_hides_secrets [OF this] show ?thesis by (rule conjunct1)
qed

lemma redact_token_shows:
  "redact_token t = (if length t < 20 then ''***REDACTED***'' else take 4 t @ ''...'' @ drop (length t - 4) t)"
  by (simp add: redact_token_def MIN_TOKEN_DISPLAY_LENGTH_def REDACTED_TEXT_def)

text \<open>The representation of a response does not depend on its secret fields, as long as they are set.\<close>

lemma response_repr_hides:
  "differ_in (\<lambda>k v. k \<in> set secret_fields \<and> v \<noteq> JNull) fs fs' \<Longrightarrow>
     response_repr fl cls secret_fields fs = response_repr fl cls secret_fields fs'"
  using map_differ_in [where f = "response_part fl secret_fields"]
  by (fastforce simp: response_repr_def response_part_def)

end
