(* ===== verification/Registration.thy ===== *)
theory Registration
  imports Client_Flows Redaction
begin

text \<open>
  Dynamic client registration and management: \<open>core/registration_logic.py\<close>, the classes of
  \<open>core/models.py\<close> it uses, and the synchronous calls of \<open>sync/registration.py\<close>. A request goes out with a
  JSON body or none, over the caller's or the thread's HTTP client; there is no dedicated client. Log calls are
  left out: they only show addresses and status codes.
\<close>

section \<open>Requests\<close>

text \<open>The metadata fields the registration and the update request share.\<close>

record metadata_request =
  cm_address :: string
  cm_redirect_uris :: "string list"
  cm_response_types :: "string list option"
  cm_grant_types :: "string list option"
  cm_application_type :: "string option"
  cm_contacts :: "string list option"
  cm_client_name :: "string option"
  cm_logo_uri :: "string option"
  cm_client_uri :: "string option"
  cm_policy_uri :: "string option"
  cm_tos_uri :: "string option"
  cm_token_endpoint_auth_method :: "string option"
  cm_scope :: "string option"
  cm_jwks_uri :: "string option"
  cm_extra_metadata :: "json dict option"

record registration_request = metadata_request +
  rg_initial_access_token :: "string option"

record update_request = metadata_request +
  cu_registration_access_token :: string
  cu_client_id :: string
  cu_client_secret :: "string option"

text \<open>Read and delete requests have the same fields.\<close>

record management_request =
  mr_address :: string
  mr_registration_access_token :: string

definition json_strings :: "string list \<Rightarrow> json" where
  "json_strings ss = JList (map JStr ss)"

definition METADATA_FIELDS :: "'a metadata_request_scheme \<Rightarrow> (string \<times> json option) list" where
  "METADATA_FIELDS r =
     [(''redirect_uris'', Some (json_strings (cm_redirect_uris r))),
      (''response_types'', map_option json_strings (cm_response_types r)),
      (''grant_types'', map_option json_strings (cm_grant_types r)),
      (''application_type'', map_option JStr (cm_application_type r)),
      (''contacts'', map_option json_strings (cm_contacts r)),
      (''client_name'', map_option JStr (cm_client_name r)),
      (''logo_uri'', map_option JStr (cm_logo_uri r)),
      (''client_uri'', map_option JStr (cm_client_uri r)),
      (''policy_uri'', map_option JStr (cm_policy_uri r)),
      (''tos_uri'', map_option JStr (cm_tos_uri r)),
      (''token_endpoint_auth_method'', map_option JStr (cm_token_endpoint_auth_method r)),
      (''scope'', map_option JStr (cm_scope r)),
      (''jwks_uri'', map_option JStr (cm_jwks_uri r))]"

definition set_given :: "string \<times> json option \<Rightarrow> json dict \<Rightarrow> json dict" where
  "set_given f body = (case snd f of None \<Rightarrow> body | Some v \<Rightarrow> dict_set (fst f) v body)"

text \<open>\<open>getattr(request, name, None)\<close> gives \<open>None\<close> for the client of a registration request.\<close>

definition build_client_metadata ::
  "'a metadata_request_scheme \<Rightarrow> string option \<Rightarrow> string option \<Rightarrow> json dict" where
  "build_client_metadata r client_id client_secret =
     (let body = set_given (''client_secret'', map_option JStr client_secret)
                   (set_given (''client_id'', map_option JStr client_id)
                     (fold set_given (METADATA_FIELDS r) []))
      in case cm_extra_metadata r of None \<Rightarrow> body | Some extra \<Rightarrow> dict_update body extra)"

type_synonym json_prepared = "json dict option \<times> string dict"

definition prepare_registration_request :: "registration_request \<Rightarrow> json_prepared" where
  "prepare_registration_request r =
     (Some (build_client_metadata r None None),
      let headers = [(''Content-Type'', ''application/json''), (''Accept'', ''application/json'')]
      in if opt_truthy (rg_initial_access_token r)
         then dict_set ''Authorization'' (''Bearer '' @ the (rg_initial_access_token r)) headers else headers)"

definition prepare_management_headers :: "string \<Rightarrow> string dict" where
  "prepare_management_headers token = [(''Accept'', ''application/json''), (''Authorization'', ''Bearer '' @ token)]"

definition prepare_update_request :: "update_request \<Rightarrow> json_prepared" where
  "prepare_update_request r =
     (Some (build_client_metadata r (Some (cu_client_id r)) (cu_client_secret r)),
      dict_set ''Content-Type'' ''application/json'' (prepare_management_headers (cu_registration_access_token r)))"

section \<open>Answers\<close>

record registration_response = base_response +
  rn_client_id :: json
  rn_client_secret :: json
  rn_client_id_issued_at :: json
  rn_client_secret_expires_at :: json
  rn_registration_access_token :: json
  rn_registration_client_uri :: json
  rn_metadata :: json

definition registration_failure :: "json \<Rightarrow> registration_response" where
  "registration_failure msg =
     \<lparr>rs_is_successful = False, rs_error = msg, rn_client_id = JNull, rn_client_secret = JNull, rn_client_id_issued_at = JNull,
      rn_client_secret_expires_at = JNull, rn_registration_access_token = JNull, rn_registration_client_uri = JNull,
      rn_metadata = JNull\<rparr>"

definition extract_error_message :: "http_response \<Rightarrow> string \<Rightarrow> json res" where
  "extract_error_message r operation =
     (let plain = JStr (''Client '' @ operation @ '' request failed with status code: '' @ show_int (h_status r)
            @ ''. Response Content: '' @ (if h_text r = [] then ''(empty)'' else take 200 (h_text r))) in
      case h_json r of
        Inl e \<Rightarrow> if exn_isinstance e ValueError then Inr plain else Inl e
      | Inr (JDict d) \<Rightarrow>
          Inr (if truthy (jget d ''error'')
               then if truthy (jget d ''error_description'')
                    then JStr (fmt_json (jget d ''error'') @ '': '' @ fmt_json (jget d ''error_description''))
                    else jget d ''error''
               else plain)
      | Inr _ \<Rightarrow> Inr plain)"

definition parse_registration_success :: "http_response \<Rightarrow> registration_response res" where
  "parse_registration_success r =
     (case h_json r of
        Inl e \<Rightarrow> if exn_isinstance e ValueError
                 then Inr (registration_failure (JStr ''Client registration response has invalid JSON body'')) else Inl e
      | Inr j \<Rightarrow> bnd (as_dict_or_raise j) (\<lambda>d.
          Inr (if \<not> truthy (jget d ''client_id'')
               then registration_failure (JStr (''Client registration response missing required field 'client_id' ''
                      @ ''per RFC 7591 Section 3.2.1''))
               else \<lparr>rs_is_successful = True, rs_error = JNull, rn_client_id = jget d ''client_id'',
                     rn_client_secret = jget d ''client_secret'', rn_client_id_issued_at = jget d ''client_id_issued_at'',
                     rn_client_secret_expires_at = jget d ''client_secret_expires_at'',
                     rn_registration_access_token = jget d ''registration_access_token'',
                     rn_registration_client_uri = jget d ''registration_client_uri'', rn_metadata = JDict d\<rparr>)))"

definition registration_error :: "http_response \<Rightarrow> string \<Rightarrow> registration_response res" where
  "registration_error r operation = bnd (extract_error_message r operation) (\<lambda>msg. Inr (registration_failure msg))"

definition process_registration_response :: "http_response \<Rightarrow> registration_response res" where
  "process_registration_response r =
     (if is_success r then parse_registration_success r else registration_error r ''registration'')"

definition process_read_response :: "http_response \<Rightarrow> registration_response res" where
  "process_read_response r = (if is_success r then parse_registration_success r else registration_error r ''read'')"

definition process_update_response :: "http_response \<Rightarrow> registration_response res" where
  "process_update_response r = (if is_success r then parse_registration_success r else registration_error r ''update'')"

definition process_delete_response :: "http_response \<Rightarrow> base_response res" where
  "process_delete_response r =
     (if is_success r then Inr \<lparr>rs_is_successful = True, rs_error = JNull\<rparr>
      else bnd (extract_error_message r ''delete'') (\<lambda>msg. Inr \<lparr>rs_is_successful = False, rs_error = msg\<rparr>))"

definition handle_registration_error :: "exn \<Rightarrow> registration_response" where
  "handle_registration_error e = registration_failure (JStr (error_text ''client registration'' e))"

definition handle_client_delete_error :: "exn \<Rightarrow> base_response" where
  "handle_client_delete_error e =
     \<lparr>rs_is_successful = False, rs_error = JStr (error_text ''client delete'' e)\<rparr>"

text \<open>The attributes of a response, guarded by success, and its representation.\<close>

definition registration_fields :: "registration_response \<Rightarrow> json dict" where
  "registration_fields r =
     [(''is_successful'', JBool (rs_is_successful r)), (''error'', rs_error r), (''client_id'', rn_client_id r),
      (''client_secret'', rn_client_secret r), (''client_id_issued_at'', rn_client_id_issued_at r),
      (''client_secret_expires_at'', rn_client_secret_expires_at r),
      (''registration_access_token'', rn_registration_access_token r),
      (''registration_client_uri'', rn_registration_client_uri r), (''metadata'', rn_metadata r)]"

definition registration_guarded :: "string list" where
  "registration_guarded = [''client_id'', ''client_secret'', ''registration_access_token'', ''registration_client_uri'']"

definition registration_secrets :: "string list" where
  "registration_secrets = [''client_secret'', ''registration_access_token'']"

definition registration_get :: "registration_response \<Rightarrow> string \<Rightarrow> json res" where
  "registration_get r name =
     guarded_get registration_guarded (rs_is_successful r)
       (case rs_error r of JNull \<Rightarrow> None | j \<Rightarrow> Some (fmt_json j)) name (jget (registration_fields r) name)"

definition registration_repr :: "(pyfloat \<Rightarrow> string) \<Rightarrow> registration_response \<Rightarrow> string" where
  "registration_repr fl r = response_repr fl ''ClientRegistrationResponse'' registration_secrets (registration_fields r)"

section \<open>The calls\<close>

definition managed_or_shared :: "'p net_world \<Rightarrow> managed_client option \<Rightarrow> ('p net_state, exn, client_ref) stm" where
  "managed_or_shared w http_client =
     (case http_client of
        Some c \<Rightarrow> sbnd (slift (managed_get c)) (\<lambda>_. sret ManagedClient)
      | None \<Rightarrow> get_http_client w)"

definition call_plain ::
  "'p net_world \<Rightarrow> string \<Rightarrow> string \<Rightarrow> managed_client option \<Rightarrow> 'p \<Rightarrow> (http_response \<Rightarrow> 'r res) \<Rightarrow> (exn \<Rightarrow> 'r)
   \<Rightarrow> ('p net_state, exn, 'r) stm" where
  "call_plain w meth address http_client p process handle =
     sbnd (supd (\<lambda>s. s\<lparr>ns_response := None\<rparr>)) (\<lambda>_.
     sbnd (scatch
       (sbnd (managed_or_shared w http_client) (\<lambda>client.
        sbnd (send_request w meth address client p) (\<lambda>r. slift (process r))))
       (\<lambda>e. sret (handle e))) (\<lambda>r.
     sbnd close_response (\<lambda>_. sret r)))"

definition register_client where
  "register_client w http_client r =
     call_plain w ''POST'' (cm_address r) http_client (prepare_registration_request r)
       process_registration_response handle_registration_error"

definition read_client where
  "read_client w http_client r =
     call_plain w ''GET'' (mr_address r) http_client (None :: json dict option, prepare_management_headers (mr_registration_access_token r))
       process_read_response handle_registration_error"

definition update_client where
  "update_client w http_client r =
     call_plain w ''PUT'' (cm_address r) http_client (prepare_update_request r)
       process_update_response handle_registration_error"

definition delete_client where
  "delete_client w http_client r =
     call_plain w ''DELETE'' (mr_address r) http_client (None :: json dict option, prepare_management_headers (mr_registration_access_token r))
       process_delete_response handle_client_delete_error"

section \<open>A call without a dedicated client\<close>

text \<open>The steps of a call neither read nor write the variable a dedicated client is kept in.\<close>

definition ignores_owned :: "('p net_state, exn, 'a) stm \<Rightarrow> bool" where
  "ignores_owned m \<longleftrightarrow> (\<forall>s b. m (s\<lparr>ns_owned := b\<rparr>) = apsnd (\<lambda>s'. s'\<lparr>ns_owned := b\<rparr>) (m s))"

lemma ignores_owned_sbnd:
  "\<lbrakk>ignores_owned m; \<And>x. ignores_owned (f x)\<rbrakk> \<Longrightarrow> ignores_owned (sbnd m f)"
  by (auto simp: ignores_owned_def sbnd_def apsnd_def split: prod.splits sum.splits)

lemma ignores_owned_scatch:
  "\<lbrakk>ignores_owned m; \<And>e. ignores_owned (h e)\<rbrakk> \<Longrightarrow> ignores_owned (scatch m h)"
  by (auto simp: ignores_owned_def scatch_def apsnd_def split: prod.splits sum.splits)

lemma ignores_owned_basic:
  "ignores_owned (sret x)" "ignores_owned (slift r)" "ignores_owned (log_event ev)"
  "ignores_owned (sget ns_thread_client)" "ignores_owned (sget ns_responses)" "ignores_owned (sget ns_response)"
  "ignores_owned (supd (\<lambda>s. s\<lparr>ns_response := v\<rparr>))" "ignores_owned (supd (\<lambda>s. s\<lparr>ns_responses := n\<rparr>))"
  "ignores_owned (supd (\<lambda>s. s\<lparr>ns_thread_client := t\<rparr>))"
  by (simp_all add: ignores_owned_def stm_simps log_event_def split: sum.splits)

lemmas ignores_owned_intros = ignores_owned_sbnd ignores_owned_scatch ignores_owned_basic

lemma ignores_owned_steps:
  "ignores_owned (managed_or_shared w http_client)" "ignores_owned (send_request w meth address c p)"
  "ignores_owned close_response"
  by (auto simp: managed_or_shared_def get_http_client_def send_request_def close_response_def Let_def
      intro!: ignores_owned_intros split: option.split)

lemma resolve_plain:
  "resolve_http_client w None http_client = sbnd (managed_or_shared w http_client) (\<lambda>c. sret (c, False))"
  by (auto simp: resolve_http_client_def managed_or_shared_def sbnd_def sret_def fun_eq_iff split: option.split prod.split sum.split)

lemma owned_kept: "\<lbrakk>ignores_owned m; m s = (x, s')\<rbrakk> \<Longrightarrow> ns_owned s' = ns_owned s"
proof -
  assume "ignores_owned m" and run: "m s = (x, s')"
  then have "m (s\<lparr>ns_owned := ns_owned s\<rparr>) = apsnd (\<lambda>t. t\<lparr>ns_owned := ns_owned s\<rparr>) (m s)"
    unfolding ignores_owned_def by blast
  then show ?thesis using run by (cases s') simp
qed

lemma owned_same: "\<not> ns_owned s \<Longrightarrow> s\<lparr>ns_owned := False\<rparr> = (s :: 'p net_state)"
  by (cases s) simp

definition plain_steps where
  "plain_steps w meth address http_client p process =
     sbnd (managed_or_shared w http_client) (\<lambda>client.
     sbnd (send_request w meth address client p) (\<lambda>r. slift (process r)))"

lemma ignores_owned_plain: "ignores_owned (plain_steps w meth address http_client p process)"
  unfolding plain_steps_def by (intro ignores_owned_intros ignores_owned_steps)

lemma attempt_plain:
  "\<not> ns_owned s \<Longrightarrow> attempt w meth address None http_client (\<lambda>_. Inr p) False process s
     = plain_steps w meth address http_client p process s"
  using owned_kept [OF ignores_owned_steps(1), of w http_client s]
  by (auto simp: owned_same attempt_def plain_steps_def resolve_plain sbnd_def stm_simps split: prod.splits sum.splits)

lemma call_plain_endpoint:
  "call_endpoint w meth address None http_client (\<lambda>_. Inr p) False process handle s =
     apsnd (\<lambda>s'. s'\<lparr>ns_owned := False\<rparr>) (call_plain w meth address http_client p process handle s)"
proof -
  let ?plain = "call_plain w meth address http_client p process handle"
  define s0 where "s0 = s\<lparr>ns_response := None, ns_owned := False\<rparr>"
  have s0': "s0 = s\<lparr>ns_owned := False, ns_response := None\<rparr>" by (simp add: s0_def)
  obtain r s1 where steps: "scatch (plain_steps w meth address http_client p process) (\<lambda>e. sret (handle e)) s0 = (r, s1)"
    by (cases "scatch (plain_steps w meth address http_client p process) (\<lambda>e. sret (handle e)) s0")
  have "ignores_owned (scatch (plain_steps w meth address http_client p process) (\<lambda>e. sret (handle e)))"
    by (intro ignores_owned_intros ignores_owned_plain)
  from owned_kept [OF this steps] have s1: "\<not> ns_owned s1" by (simp add: s0_def)
  have "\<not> ns_owned s0" by (simp add: s0_def)
  then have tried: "scatch (attempt w meth address None http_client (\<lambda>_. Inr p) False process) (\<lambda>e. sret (handle e)) s0 = (r, s1)"
    using steps by (simp add: scatch_def attempt_plain)
  have "ignores_owned ?plain"
    unfolding call_plain_def by (intro ignores_owned_intros ignores_owned_steps)
  then have "apsnd (\<lambda>s'. s'\<lparr>ns_owned := False\<rparr>) (?plain s) = ?plain (s\<lparr>ns_owned := False\<rparr>)"
    by (simp add: ignores_owned_def)
  also have "\<dots> = (case r of Inl e \<Rightarrow> (Inl e, s1) | Inr x \<Rightarrow> sbnd close_response (\<lambda>_. sret x) s1)"
    using steps by (simp add: call_plain_def plain_steps_def s0' sbnd_def [of "supd _"] sbnd_def [of "scatch _ _"] supd_def split: sum.splits)
  also have "\<dots> = call_endpoint w meth address None http_client (\<lambda>_. Inr p) False process handle s"
    using tried s1 owned_kept [OF ignores_owned_steps(3), of s1]
    by (auto simp: call_endpoint_def s0_def sbnd_def close_owned_def stm_simps split: sum.splits prod.splits)
  finally show ?thesis by simp
qed

lemma call_plain_clean:
  assumes "call_plain w meth address http_client p process handle s = (res, s')"
  shows "is_ok res \<and> clean_call (chosen_client None http_client) 1 s s'"
  using call_endpoint_clean [OF call_plain_endpoint [of w meth address http_client p process handle s, unfolded assms apsnd_conv]]
  by (simp add: clean_call_def)

context endpoint_flow
begin

lemma plain_success_answered:
  assumes "call_plain w meth address http_client p process handle s = (Inr res, s')" and "ok res"
  shows "\<exists>r. answered w r \<and> process r = Inr res"
  using success_answered [OF call_plain_endpoint [of w meth address http_client p process handle s, unfolded assms(1) apsnd_conv]]
    assms(2) by blast

end

interpretation register_flow: endpoint_flow process_registration_response handle_registration_error rs_is_successful
  by unfold_locales (simp add: handle_registration_error_def registration_failure_def)

interpretation read_flow: endpoint_flow process_read_response handle_registration_error rs_is_successful
  by unfold_locales (simp add: handle_registration_error_def registration_failure_def)

interpretation update_flow: endpoint_flow process_update_response handle_registration_error rs_is_successful
  by unfold_locales (simp add: handle_registration_error_def registration_failure_def)

interpretation delete_flow: endpoint_flow process_delete_response handle_client_delete_error rs_is_successful
  by unfold_locales (simp add: handle_client_delete_error_def)

text \<open>A successful answer holds the members of a JSON object with a client identifier.\<close>

definition registered :: "registration_response \<Rightarrow> json dict \<Rightarrow> bool" where
  "registered resp d \<longleftrightarrow> truthy (jget d ''client_id'') \<and> rn_metadata resp = JDict d \<and>
     (\<forall>name \<in> {''client_id'', ''client_secret'', ''client_id_issued_at'', ''client_secret_expires_at'',
        ''registration_access_token'', ''registration_client_uri''}. registration_get resp name = Inr (jget d name))"

lemma registration_failure_not_ok [simp]: "\<not> rs_is_successful (registration_failure msg)"
  by (simp add: registration_failure_def)

lemma registration_error_fails: "registration_error r op = Inr resp \<Longrightarrow> \<not> rs_is_successful resp"
  by (auto simp: registration_error_def res_splits)

lemma parse_registration_success_ok:
  assumes "parse_registration_success r = Inr resp" "rs_is_successful resp"
  shows "\<exists>d. h_json r = Inr (JDict d) \<and> registered resp d"
  using assms
  by (auto simp: parse_registration_success_def as_dict_or_raise_def registered_def registration_get_def guarded_get_def
      registration_fields_def registration_guarded_def error_fields_def jget_def split: sum.splits json.splits if_splits)

lemma management_answers:
  assumes "process r = Inr resp" "rs_is_successful resp"
    and "process \<in> {process_registration_response, process_read_response, process_update_response}"
  shows "is_success r \<and> (\<exists>d. h_json r = Inr (JDict d) \<and> registered resp d)"
  using assms parse_registration_success_ok registration_error_fails
  by (auto simp: process_registration_response_def process_read_response_def process_update_response_def split: if_splits)

lemma registration_get_failed:
  "\<lbrakk>\<not> rs_is_successful resp; name \<in> set registration_guarded\<rbrakk> \<Longrightarrow>
     \<exists>e. registration_get resp name = Inl e \<and> exn_class e = FailedResponseAccessError"
  by (simp add: registration_get_def guarded_get_def)

section \<open>Properties\<close>


definition registration_http :: http_response where
  "registration_http = \<lparr>h_status = 201, h_headers = [], h_content = ''{}'', h_url = None,
     h_json = Inr (JDict [(''client_id'', JStr ''c1''), (''client_secret'', JStr ''s3cret'')]), h_text = ''{}''\<rparr>"

definition registration_net :: "json_prepared net_world" where
  "registration_net = \<lparr>nw_env = empty_env, nw_parsedate = (\<lambda>_. None), nw_clock = (\<lambda>_. 0), nw_send = (\<lambda>_ _ _. Inr registration_http),
     nw_client_context = (\<lambda>_. Inr ()), nw_mtls_context = (\<lambda>_ _. Inr ())\<rparr>"

definition example_client :: management_request where
  "example_client = \<lparr>mr_address = ''https://op/clients/c1'', mr_registration_access_token = ''rat''\<rparr>"

definition idle_registration :: "json_prepared net_state" where
  "idle_registration = \<lparr>ns_thread_client = True, ns_trace = [], ns_responses = 0, ns_response = None, ns_owned = False\<rparr>"

lemma example_registration_retry:
  "fst (retry_with_backoff (\<lambda>_. None) empty_env (\<lambda>_. 0) None None (\<lambda>_. Inr registration_http)) = Inr registration_http"
proof -
  have "get_retry_params empty_env None None = Inr (3, Fin 1)"
    by (simp add: get_retry_params_def get_retry_config_default)
  moreover have "[0..3] = 0 # [1..3 :: int]" by (simp add: upto_rec1)
  ultimately show ?thesis
    by (simp add: retry_with_backoff_def should_retry_response_def check_no_redirect_def registration_http_def)
qed

lemma example_read:
  "\<exists>resp s'. read_client registration_net None example_client idle_registration = (Inr resp, s') \<and>
     rs_is_successful resp \<and> rn_client_id resp = JStr ''c1''"
proof -
  have "process_read_response registration_http = Inr \<lparr>rs_is_successful = True, rs_error = JNull, rn_client_id = JStr ''c1'',
      rn_client_secret = JStr ''s3cret'', rn_client_id_issued_at = JNull, rn_client_secret_expires_at = JNull,
      rn_registration_access_token = JNull, rn_registration_client_uri = JNull,
      rn_metadata = JDict [(''client_id'', JStr ''c1''), (''client_secret'', JStr ''s3cret'')]\<rparr>" by code_simp
  then show ?thesis
    by (simp add: read_client_def call_plain_def managed_or_shared_def sbnd_def scatch_def stm_simps get_http_client_def
        idle_registration_def send_request_def Let_def log_event_def registration_net_def example_registration_retry close_response_def)
qed


section \<open>The representation of a registration\<close>

lemma py_join_member: "x \<in> set xs \<Longrightarrow> \<exists>a b. py_join sep xs = a @ x @ b"
proof (induction sep xs rule: py_join.induct)
  case (2 sep s)
  then have "py_join sep [s] = [] @ x @ []" by simp
  then show ?case by blast
next
  case (3 sep y z ys)
  show ?case
  proof (cases "x = y")
    case True
    then have "py_join sep (y # z # ys) = [] @ x @ (sep @ py_join sep (z # ys))" by simp
    then show ?thesis by blast
  next
    case False
    with 3 obtain a b where "py_join sep (z # ys) = a @ x @ b" by auto
    then have "py_join sep (y # z # ys) = (y @ sep @ a) @ x @ b" by simp
    then show ?thesis by blast
  qed
qed simp

text \<open>
  The client secret and the registration access token are redacted where they are fields of their own, but the
  metadata field repeats the whole answer and is shown as it is: the representation of a successful registration
  contains the secret.
\<close>

theorem registration_repr_shows_secret:
  assumes "parse_registration_success r = Inr resp" "rs_is_successful resp" "h_json r = Inr (JDict d)"
    and "(''client_secret'', JStr secret) \<in> set d"
  shows "\<exists>a b. registration_repr fl resp = a @ py_repr_str secret @ b"
proof -
  let ?entry = "\<lambda>(k, v). py_repr_str k @ '': '' @ repr_value fl v"
  define E where "E = py_join '', '' (map ?entry d)"
  have meta: "rn_metadata resp = JDict d"
    using parse_registration_success_ok [OF assms(1,2)] assms(3) by (auto simp: registered_def)
  have "?entry (''client_secret'', JStr secret) \<in> set (map ?entry d)"
    using assms(4) by (auto simp: image_iff intro!: bexI)
  from py_join_member [OF this, of "'', ''"] obtain a b where
    ab: "E = a @ (py_repr_str ''client_secret'' @ '': '' @ py_repr_str secret) @ b"
    by (auto simp: E_def)
  have "response_part fl registration_secrets (''metadata'', rn_metadata resp)
      \<in> set (map (response_part fl registration_secrets) (registration_fields resp))"
    by (simp add: registration_fields_def)
  from py_join_member [OF this, of "'', ''"] obtain a' b' where
    "py_join '', '' (map (response_part fl registration_secrets) (registration_fields resp))
      = a' @ (''metadata='' @ ''{'' @ E @ ''}'') @ b'"
    by (auto simp: E_def response_part_def registration_secrets_def meta)
  then have "registration_repr fl resp =
      (''ClientRegistrationResponse('' @ a' @ ''metadata={'' @ a @ py_repr_str ''client_secret'' @ '': '')
      @ py_repr_str secret @ (b @ ''}'' @ b' @ '')'')"
    by (simp add: registration_repr_def response_repr_def ab)
  then show ?thesis by blast
qed

text \<open>
  The body of a registration or update: a member of the extra metadata has precedence, then the client's own
  credentials, then the metadata fields that are set; nothing else is sent.
\<close>

lemma fold_set_given_get:
  "distinct (map fst fs) \<Longrightarrow> map_of (fold set_given fs d) k =
     (case map_of fs k of Some (Some v) \<Rightarrow> Some v | _ \<Rightarrow> map_of d k)"
proof (induction fs arbitrary: d)
  case (Cons f fs)
  then have "map_of fs (fst f) = None" by (simp add: map_of_eq_None_iff)
  with Cons show ?case
    by (auto simp: set_given_def dict_get_set split: option.splits)
qed simp

lemma metadata_names_distinct: "distinct (map fst (METADATA_FIELDS r))"
  by (simp add: METADATA_FIELDS_def)

theorem client_metadata_body:
  assumes "\<And>extra. cm_extra_metadata r = Some extra \<Longrightarrow> dict_ok extra"
  shows "map_of (build_client_metadata r client_id client_secret) k =
    (case map_of (case cm_extra_metadata r of None \<Rightarrow> [] | Some extra \<Rightarrow> extra) k of
       Some v \<Rightarrow> Some v
     | None \<Rightarrow>
         if k = ''client_id'' then map_option JStr client_id
         else if k = ''client_secret'' then map_option JStr client_secret
         else (case map_of (METADATA_FIELDS r) k of Some v \<Rightarrow> v | None \<Rightarrow> None))"
proof -
  have absent: "map_of (METADATA_FIELDS r) ''client_id'' = None" "map_of (METADATA_FIELDS r) ''client_secret'' = None"
    by (simp_all add: METADATA_FIELDS_def)
  have "map_of (set_given (''client_secret'', map_option JStr client_secret)
      (set_given (''client_id'', map_option JStr client_id) (fold set_given (METADATA_FIELDS r) []))) k =
    (if k = ''client_id'' then map_option JStr client_id
     else if k = ''client_secret'' then map_option JStr client_secret
     else (case map_of (METADATA_FIELDS r) k of Some v \<Rightarrow> v | None \<Rightarrow> None))"
    using absent by (auto simp: set_given_def dict_get_set fold_set_given_get [OF metadata_names_distinct] split: option.splits)
  then show ?thesis
    using assms by (auto simp: build_client_metadata_def Let_def dict_update_get split: option.splits)
qed

end
