(* ===== verification/Aio_Validation.thy ===== *)
theory Aio_Validation
  imports Token_Validation
begin

text \<open>
  \<open>aio/token_validation.py\<close> and \<open>core/cache_metrics.py\<close>: asynchronous validation is the synchronous
  one with hit, miss and refresh counters. A call that runs without interleaving is a computation on
  the pair of the cache state and the counters; what several callers may interleave is the subject
  of the theory on single flight. The network is the same parameter as in the synchronous model,
  since the two fetch layers differ only in awaiting.
\<close>

section \<open>Counters\<close>

record cache_counters =
  disco_hits :: int
  disco_misses :: int
  jwks_hits :: int
  jwks_misses :: int
  jwks_refreshes :: int

definition zero_counters :: cache_counters where
  "zero_counters = \<lparr>disco_hits = 0, disco_misses = 0, jwks_hits = 0, jwks_misses = 0, jwks_refreshes = 0\<rparr>"

definition snapshot :: "cache_counters \<Rightarrow> int dict" where
  "snapshot c = [(''disco_hits'', disco_hits c), (''disco_misses'', disco_misses c), (''jwks_hits'', jwks_hits c),
     (''jwks_misses'', jwks_misses c), (''jwks_refreshes'', jwks_refreshes c)]"

type_synonym aio_state = "tv_state \<times> cache_counters"
type_synonym 'a aiom = "(aio_state, exn, 'a) stm"

definition reset_counters :: "unit aiom" where
  "reset_counters = supd (\<lambda>(s, c). (s, zero_counters))"

definition record_disco_hit :: "unit aiom" where
  "record_disco_hit = supd (\<lambda>(s, c). (s, c\<lparr>disco_hits := disco_hits c + 1\<rparr>))"

definition record_disco_miss :: "unit aiom" where
  "record_disco_miss = supd (\<lambda>(s, c). (s, c\<lparr>disco_misses := disco_misses c + 1\<rparr>))"

definition record_jwks_hit :: "unit aiom" where
  "record_jwks_hit = supd (\<lambda>(s, c). (s, c\<lparr>jwks_hits := jwks_hits c + 1\<rparr>))"

definition record_jwks_miss :: "unit aiom" where
  "record_jwks_miss = supd (\<lambda>(s, c). (s, c\<lparr>jwks_misses := jwks_misses c + 1\<rparr>))"

definition record_jwks_refresh :: "unit aiom" where
  "record_jwks_refresh = supd (\<lambda>(s, c). (s, c\<lparr>jwks_refreshes := jwks_refreshes c + 1\<rparr>))"

text \<open>A step on the caches alone.\<close>

definition on_caches :: "'a tvm \<Rightarrow> 'a aiom" where
  "on_caches m x = (case m (fst x) of (r, s') \<Rightarrow> (r, (s', snd x)))"

section \<open>Cached fetches\<close>

text \<open>
  \<open>_upstream_fetch_attempted\<close>: only a \<open>ConfigurationException\<close> is caught; the \<open>ValueError\<close> of a URL that
  cannot be parsed propagates.
\<close>

definition upstream_fetch_attempted :: "string \<Rightarrow> discovery_policy \<Rightarrow> bool res" where
  "upstream_fetch_attempted address pol =
     (case validate_url_scheme address pol of
        Inr _ \<Rightarrow> Inr True
      | Inl e \<Rightarrow> if exn_isinstance e ConfigurationException then Inr False else Inl e)"

definition count_fetch :: "string \<Rightarrow> discovery_policy \<Rightarrow> unit aiom \<Rightarrow> unit aiom" where
  "count_fetch address pol counter =
     sbnd (slift (upstream_fetch_attempted address pol)) (\<lambda>attempted. if attempted then counter else sret ())"

definition counted_hit :: "'a option tvm \<Rightarrow> unit aiom \<Rightarrow> 'a option aiom" where
  "counted_hit hit counter =
     sbnd (on_caches hit) (\<lambda>h. case h of None \<Rightarrow> sret None | Some r \<Rightarrow> sbnd counter (\<lambda>_. sret (Some r)))"

text \<open>What follows the answer of a fetch: the count and the write of the outcome.\<close>

definition aio_store_disco :: "'pk tv_env \<Rightarrow> string \<Rightarrow> discovery_policy \<Rightarrow> http_world \<Rightarrow> disco_response aiom" where
  "aio_store_disco env a pol w =
     (let r = get_discovery_document w a (Some pol) in
       sbnd (count_fetch a pol record_disco_miss) (\<lambda>_.
       sbnd (on_caches (monotonic env)) (\<lambda>now.
         sbnd (on_caches (supd (\<lambda>s. s\<lparr>disco_cache :=
                 apply_disco_cache_outcome (te_settings env) (a, cache_key pol) r now (disco_cache s)\<rparr>)))
           (\<lambda>_. sret r))))"

definition aio_fetch_disco :: "'pk tv_env \<Rightarrow> string \<Rightarrow> discovery_policy \<Rightarrow> disco_response aiom" where
  "aio_fetch_disco env a pol = sbnd (on_caches (next_world env (DiscoFetch a))) (aio_store_disco env a pol)"

definition aio_get_disco_response ::
  "'pk tv_env \<Rightarrow> string option \<Rightarrow> discovery_policy \<Rightarrow> disco_response aiom" where
  "aio_get_disco_response env addr pol =
     (case addr of
        None \<Rightarrow> slift (Inl (config_exn ''disco_doc_address is required when perform_disco is True''))
      | Some a \<Rightarrow>
          let key = (a, cache_key pol) in
          or_else (counted_hit (disco_hit env key) record_disco_hit)
            (or_else (counted_hit (disco_hit env key) record_disco_hit) (aio_fetch_disco env a pol)))"

definition aio_clear_discovery_cache :: "unit aiom" where
  "aio_clear_discovery_cache = on_caches clear_discovery_cache"

definition aio_store_jwks :: "'pk tv_env \<Rightarrow> string \<Rightarrow> discovery_policy \<Rightarrow> http_world \<Rightarrow> jwks_response aiom" where
  "aio_store_jwks env uri pol w =
     (let r = get_jwks w uri (Some pol) in
       sbnd (count_fetch uri pol record_jwks_miss) (\<lambda>_.
       sbnd (on_caches (monotonic env)) (\<lambda>now.
         sbnd (on_caches (supd (apply_jwks_outcome env uri r now))) (\<lambda>_. sret r))))"

definition aio_fetch_jwks :: "'pk tv_env \<Rightarrow> string \<Rightarrow> discovery_policy \<Rightarrow> jwks_response aiom" where
  "aio_fetch_jwks env uri pol = sbnd (on_caches (next_world env (JwksFetch uri))) (aio_store_jwks env uri pol)"

definition aio_get_cached_jwks :: "'pk tv_env \<Rightarrow> string \<Rightarrow> discovery_policy \<Rightarrow> jwks_response aiom" where
  "aio_get_cached_jwks env uri pol =
     or_else (counted_hit (jwks_hit env uri) record_jwks_hit)
       (or_else (counted_hit (jwks_hit env uri) record_jwks_hit) (aio_fetch_jwks env uri pol))"

definition aio_store_refresh ::
  "'pk tv_env \<Rightarrow> string \<Rightarrow> discovery_policy \<Rightarrow> http_world \<Rightarrow> (jwks_response \<times> bool) aiom" where
  "aio_store_refresh env uri pol w =
     (let r = get_jwks w uri (Some pol) in
       sbnd (count_fetch uri pol record_jwks_refresh) (\<lambda>_.
       sbnd (on_caches (monotonic env)) (\<lambda>now.
         sbnd (on_caches (supd (apply_jwks_outcome env uri r now))) (\<lambda>_.
           sbnd (on_caches (retained_response uri r)) (\<lambda>retained.
             case retained of Some old \<Rightarrow> sret (old, True) | None \<Rightarrow> sret (r, False))))))"

definition aio_refresh_jwks :: "'pk tv_env \<Rightarrow> string \<Rightarrow> discovery_policy \<Rightarrow> (jwks_response \<times> bool) aiom" where
  "aio_refresh_jwks env uri pol =
     sbnd (on_caches (monotonic env)) (\<lambda>request_time.
       sbnd (on_caches (sget (\<lambda>s. map_of (jwks_cache s) uri))) (\<lambda>entry.
         if (case entry of None \<Rightarrow> False | Some e \<Rightarrow> e_cached_at e \<ge> request_time)
         then sret (e_response (the entry), False)
         else sbnd (on_caches (next_world env (JwksRefresh uri request_time))) (aio_store_refresh env uri pol)))"

definition aio_clear_jwks_cache :: "unit aiom" where
  "aio_clear_jwks_cache = on_caches clear_jwks_cache"

section \<open>Validation\<close>

definition aio_kid_miss_refresh ::
  "'pk tv_env \<Rightarrow> string \<Rightarrow> discovery_policy \<Rightarrow> json \<Rightarrow> jwks_response \<Rightarrow> jwks_response aiom" where
  "aio_kid_miss_refresh env uri pol kid cached =
     sbnd (slift (keys_or_empty cached)) (\<lambda>cached_keys.
       sbnd (on_caches (may_refresh env uri (cached_keys \<noteq> []))) (\<lambda>go.
         if \<not> go then sret cached
         else sbnd (aio_refresh_jwks env uri pol) (\<lambda>(r, from_retained).
           sbnd (if j_is_successful r
                 then sbnd (slift (keys_or_empty r)) (\<lambda>refreshed.
                        if from_retained then sret ()
                        else on_caches (if has_kid kid refreshed then unstamp uri else stamp env uri))
                 else sret ()) (\<lambda>_.
             sbnd (slift (validate_jwks_response r)) (\<lambda>_. sret r)))))"

definition aio_discover_cached ::
  "'pk tv_env \<Rightarrow> string \<Rightarrow> string option \<Rightarrow> discovery_policy \<Rightarrow> (json dict \<times> json \<times> disco_response) aiom" where
  "aio_discover_cached env jwt addr pol =
     sbnd (aio_get_disco_response env addr pol) (\<lambda>d.
       sbnd (slift (bnd (validate_disco_response d) (\<lambda>_. bnd (validate_jwks_uri d) (jwks_uri_arg True)))) (\<lambda>uri.
         sbnd (aio_get_cached_jwks env uri pol) (\<lambda>r.
           sbnd (slift (validate_jwks_response r)) (\<lambda>_.
             sbnd (slift (extract_jwt_header_fields (jl_header (te_lib env)) jwt)) (\<lambda>(kid, alg).
               sbnd (slift (keys_or_empty r)) (\<lambda>cached_keys.
                 sbnd (if kid \<noteq> JNull \<and> \<not> has_kid kid cached_keys
                       then aio_kid_miss_refresh env uri pol kid r else sret r) (\<lambda>r'.
                   sbnd (on_caches (select_key env kid alg r')) (\<lambda>(key, a). sret (key, a, d)))))))))"

text \<open>The injected-client path fetches twice without caches and counters.\<close>

definition aio_discover_and_resolve_key ::
  "'pk tv_env \<Rightarrow> string \<Rightarrow> string option \<Rightarrow> bool \<Rightarrow> discovery_policy \<Rightarrow> (json dict \<times> json \<times> disco_response) aiom" where
  "aio_discover_and_resolve_key env jwt addr injected pol =
     (if injected then on_caches (discover_injected env jwt addr pol) else aio_discover_cached env jwt addr pol)"

definition aio_retry_with_refreshed_jwks ::
  "'pk tv_env \<Rightarrow> string \<Rightarrow> token_validation_config \<Rightarrow> disco_response \<Rightarrow> bool \<Rightarrow> json dict aiom" where
  "aio_retry_with_refreshed_jwks env jwt c d injected =
     sbnd (slift (bnd (validate_jwks_uri d) (jwks_uri_arg (\<not> injected)))) (\<lambda>uri.
       let pol = resolve_discovery_policy (cfg_discovery_policy c) (cfg_require_https c) in
       if injected
       then sbnd (on_caches (next_world env (JwksFetch uri))) (\<lambda>w.
              let r = get_jwks w uri (Some pol) in
              sbnd (slift (validate_jwks_response r)) (\<lambda>_. on_caches (decode_with_keys env jwt c d r)))
       else
         sbnd (on_caches (may_refresh env uri True)) (\<lambda>go.
           if \<not> go
           then slift (Inl (signature_exn ''Signature verification failed; refresh cooldown active'' []))
           else
             sbnd (aio_refresh_jwks env uri pol) (\<lambda>(r, from_retained).
               sbnd (slift (validate_jwks_response r)) (\<lambda>_.
                 sbnd (on_caches (scatch (decode_with_keys env jwt c d r)
                         (\<lambda>e. sbnd (if from_retained then sret () else stamp env uri) (\<lambda>_. slift (Inl e))))) (\<lambda>decoded.
                   sbnd (on_caches (if from_retained then sret () else unstamp uri)) (\<lambda>_. sret decoded))))))"

definition aio_validate_with_discovery ::
  "'pk tv_env \<Rightarrow> string \<Rightarrow> token_validation_config \<Rightarrow> string option \<Rightarrow> bool \<Rightarrow> json dict aiom" where
  "aio_validate_with_discovery env jwt c addr injected =
     sbnd (aio_discover_and_resolve_key env jwt addr injected
             (resolve_discovery_policy (cfg_discovery_policy c) (cfg_require_https c))) (\<lambda>(key, alg, d).
       sbnd (slift (build_resolved_config c key alg)) (\<lambda>c'.
         scatch (sbnd (slift (disco_get d ''issuer'')) (\<lambda>iss. slift (decode_with_config (te_lib env) jwt c' iss)))
           (\<lambda>e. if exn_isinstance e SignatureVerificationException
                then aio_retry_with_refreshed_jwks env jwt c d injected else slift (Inl e))))"

text \<open>
  \<open>validate_async_claims\<close> runs a synchronous validator or awaits an asynchronous one; a validator is
  its outcome on the claims in both cases.
\<close>

definition validate_async_claims :: "json dict \<Rightarrow> token_validation_config \<Rightarrow> unit res" where
  "validate_async_claims decoded c =
     (case claims_validator c of None \<Rightarrow> Inr ()
      | Some validator \<Rightarrow>
          (case validator decoded of Inr u \<Rightarrow> Inr ()
           | Inl e \<Rightarrow>
               if exn_isinstance e TokenValidationException then Inl e
               else Inl (token_exn TokenValidationException (''Claims validation failed: '' @ exn_message e)
                           (Some ''payload'') [(''error'', JStr (exn_message e))])))"

definition aio_validate_token ::
  "'pk tv_env \<Rightarrow> string \<Rightarrow> token_validation_config \<Rightarrow> string option \<Rightarrow> bool \<Rightarrow> json dict aiom" where
  "aio_validate_token env jwt c addr injected =
     sbnd (slift (validate_token_config c)) (\<lambda>_.
       sbnd (if perform_disco c then aio_validate_with_discovery env jwt c addr injected
             else slift (bnd (validate_config_for_manual_validation c)
                           (\<lambda>_. decode_with_config (te_lib env) jwt c JNull))) (\<lambda>decoded.
         sbnd (slift (validate_async_claims decoded c)) (\<lambda>_. sret decoded)))"

section \<open>Forgetting the counters\<close>

fun event_url :: "fetch_event \<Rightarrow> string" where
  "event_url (DiscoFetch u) = u"
| "event_url (JwksFetch u) = u"
| "event_url (JwksRefresh u t) = u"

text \<open>The last fetch was for a URL that cannot be parsed.\<close>

definition malformed_last :: "tv_state \<Rightarrow> bool" where
  "malformed_last s = (case fetch_log s of [] \<Rightarrow> False | ev # _ \<Rightarrow> \<not> is_ok (urlparse (event_url ev)))"

definition agrees :: "'a aiom \<Rightarrow> 'a tvm \<Rightarrow> bool" where
  "agrees ma ms \<longleftrightarrow> (\<forall>s k. case ma (s, k) of (r, (s', k')) \<Rightarrow>
     ms s = (r, s') \<or> (r = Inl url_value_error \<and> malformed_last s'))"

named_theorems agrees_intros \<open>rules for the agreement of an asynchronous and a synchronous computation\<close>

lemma agreesD:
  "\<lbrakk>agrees ma ms; ma (s, k) = (r, (s', k'))\<rbrakk> \<Longrightarrow> ms s = (r, s') \<or> (r = Inl url_value_error \<and> malformed_last s')"
  unfolding agrees_def by (drule spec [of _ s], drule spec [of _ k]) simp

lemma agreesI:
  assumes "\<And>s k r s' k'. ma (s, k) = (r, (s', k')) \<Longrightarrow>
    ms s = (r, s') \<or> (r = Inl url_value_error \<and> malformed_last s')"
  shows "agrees ma ms"
  unfolding agrees_def by (intro allI) (auto split: prod.split dest: assms)

lemma agrees_on_caches [agrees_intros]: "agrees (on_caches m) m"
  by (simp add: agrees_def on_caches_def split: prod.split)

lemma agrees_pure [agrees_intros]: "agrees (sret x) (sret x)" "agrees (slift r) (slift r)"
  by (simp_all add: agrees_def stm_simps)

lemma agrees_sbnd [agrees_intros]:
  assumes "agrees ma ms" "\<And>x. agrees (fa x) (fs x)"
  shows "agrees (sbnd ma fa) (sbnd ms fs)"
proof (rule agreesI)
  fix s k r s' k'
  assume run: "sbnd ma fa (s, k) = (r, (s', k'))"
  obtain r1 s1 k1 where first: "ma (s, k) = (r1, (s1, k1))" by (metis prod.collapse)
  show "sbnd ms fs s = (r, s') \<or> (r = Inl url_value_error \<and> malformed_last s')"
    using agreesD [OF assms(1) first] agreesD [OF assms(2)] run first
    by (cases r1) (auto simp: sbnd_def)
qed

text \<open>A handler that does not catch the \<open>ValueError\<close> of a malformed URL.\<close>

lemma agrees_scatch [agrees_intros]:
  assumes "agrees ma ms" "\<And>e. agrees (ha e) (hs e)" "ha url_value_error = slift (Inl url_value_error)"
  shows "agrees (scatch ma ha) (scatch ms hs)"
proof (rule agreesI)
  fix s k r s' k'
  assume run: "scatch ma ha (s, k) = (r, (s', k'))"
  obtain r1 s1 k1 where first: "ma (s, k) = (r1, (s1, k1))" by (metis prod.collapse)
  show "scatch ms hs s = (r, s') \<or> (r = Inl url_value_error \<and> malformed_last s')"
  proof (cases r1)
    case (Inl e)
    then have "ha e (s1, k1) = (r, (s', k'))" using run first by (simp add: scatch_def)
    then show ?thesis
      using Inl agreesD [OF assms(1) first] agreesD [OF assms(2), of e s1 k1 r s' k'] assms(3)
      by (auto simp: scatch_def slift_def)
  next
    case (Inr x)
    then show ?thesis using agreesD [OF assms(1) first] run first by (auto simp: scatch_def)
  qed
qed

lemma agrees_if [agrees_intros]:
  "\<lbrakk>agrees ma ms; agrees na ns\<rbrakk> \<Longrightarrow> agrees (if c then ma else na) (if c then ms else ns)"
  by simp

lemma agrees_option [agrees_intros]:
  "\<lbrakk>agrees ma ms; \<And>x. agrees (fa x) (fs x)\<rbrakk> \<Longrightarrow>
     agrees (case v of None \<Rightarrow> ma | Some x \<Rightarrow> fa x) (case v of None \<Rightarrow> ms | Some x \<Rightarrow> fs x)"
  by (cases v) simp_all

lemma agrees_pair [agrees_intros]:
  "(\<And>a b. agrees (fa a b) (fs a b)) \<Longrightarrow> agrees (case v of (a, b) \<Rightarrow> fa a b) (case v of (a, b) \<Rightarrow> fs a b)"
  by (cases v) simp

lemma agrees_or_else [agrees_intros]:
  "\<lbrakk>agrees ha hs; agrees ma ms\<rbrakk> \<Longrightarrow> agrees (or_else ha ma) (or_else hs ms)"
  unfolding or_else_def by (intro agrees_sbnd agrees_option agrees_pure) assumption+

lemma agrees_counted_hit [agrees_intros]:
  assumes "\<And>s k. \<exists>k'. counter (s, k) = (Inr (), (s, k'))"
  shows "agrees (counted_hit hit counter) hit"
proof -
  have "\<exists>k'. counted_hit hit counter (s, k) = (fst (hit s), (snd (hit s), k'))" for s k
    using assms [of "snd (hit s)" k]
    by (cases "hit s") (auto simp: counted_hit_def on_caches_def sbnd_def stm_simps split: sum.split option.split)
  then show ?thesis unfolding agrees_def by (metis (mono_tags, lifting) case_prod_conv prod.collapse)
qed

text \<open>A fetch that is counted: it disagrees only when the URL just fetched cannot be parsed.\<close>

lemma https_error_is_configuration: "subclass_of DiscoveryHTTPSRequiredError ConfigurationException"
  by code_simp

lemma upstream_fetch_attempted_raises:
  "upstream_fetch_attempted a pol = Inl e \<Longrightarrow> e = url_value_error \<and> \<not> is_ok (urlparse a)"
  by (auto simp: upstream_fetch_attempted_def validate_url_scheme_def bnd_def exn_isinstance_def https_error_is_configuration
      split: if_splits sum.splits dest: urlparse_raises)

lemma count_fetch_cases:
  assumes "\<And>s k. \<exists>k'. counter (s, k) = (Inr (), (s, k'))"
  shows "(\<exists>k'. count_fetch a pol counter (s, k) = (Inr (), (s, k'))) \<or>
         (count_fetch a pol counter (s, k) = (Inl url_value_error, (s, k)) \<and> \<not> is_ok (urlparse a))"
  using assms [of s k]
  by (cases "upstream_fetch_attempted a pol")
    (auto simp: count_fetch_def sbnd_def stm_simps dest: upstream_fetch_attempted_raises)

lemma agrees_counted_fetch [agrees_intros]:
  assumes "\<And>s k. \<exists>k'. counter (s, k) = (Inr (), (s, k'))" "\<And>w. agrees (fa w) (fs w)"
  shows "agrees (sbnd (on_caches (next_world env ev)) (\<lambda>w. sbnd (count_fetch (event_url ev) pol counter) (\<lambda>_. fa w)))
                (sbnd (next_world env ev) fs)"
proof (rule agreesI)
  fix s s' :: tv_state and k r k'
  let ?w = "te_worlds env (length (fetch_log s))" and ?s = "s\<lparr>fetch_log := ev # fetch_log s\<rparr>"
  assume "sbnd (on_caches (next_world env ev))
    (\<lambda>w. sbnd (count_fetch (event_url ev) pol counter) (\<lambda>_. fa w)) (s, k) = (r, (s', k'))"
  then have run: "sbnd (count_fetch (event_url ev) pol counter) (\<lambda>_. fa ?w) (?s, k) = (r, (s', k'))"
    by (simp add: sbnd_def on_caches_def next_world_def)
  consider k1 where "fa ?w (?s, k1) = (r, (s', k'))" | "r = Inl url_value_error" "s' = ?s" "\<not> is_ok (urlparse (event_url ev))"
    using count_fetch_cases [OF assms(1), of "event_url ev" pol ?s k] run by (auto simp: sbnd_def)
  then show "sbnd (next_world env ev) fs s = (r, s') \<or> (r = Inl url_value_error \<and> malformed_last s')"
  proof cases
    case 1
    then show ?thesis using agreesD [OF assms(2) 1] by (simp add: sbnd_def next_world_def)
  next
    case 2
    then show ?thesis by (simp add: malformed_last_def)
  qed
qed

lemma counters_count:
  "\<exists>k'. record_disco_hit (s, k) = (Inr (), (s, k'))" "\<exists>k'. record_disco_miss (s, k) = (Inr (), (s, k'))"
  "\<exists>k'. record_jwks_hit (s, k) = (Inr (), (s, k'))" "\<exists>k'. record_jwks_miss (s, k) = (Inr (), (s, k'))"
  "\<exists>k'. record_jwks_refresh (s, k) = (Inr (), (s, k'))"
  by (simp_all add: record_disco_hit_def record_disco_miss_def record_jwks_hit_def record_jwks_miss_def
      record_jwks_refresh_def stm_simps)

lemma agrees_fetch_disco [agrees_intros]: "agrees (aio_fetch_disco env a pol) (fetch_disco env a pol)"
  unfolding aio_fetch_disco_def aio_store_disco_def fetch_disco_def Let_def
  by (rule agrees_counted_fetch [where ev = "DiscoFetch a", unfolded event_url.simps, OF counters_count(2)])
    (intro agrees_intros)

lemma agrees_fetch_jwks [agrees_intros]: "agrees (aio_fetch_jwks env uri pol) (fetch_jwks env uri pol)"
  unfolding aio_fetch_jwks_def aio_store_jwks_def fetch_jwks_def Let_def
  by (rule agrees_counted_fetch [where ev = "JwksFetch uri", unfolded event_url.simps, OF counters_count(4)])
    (intro agrees_intros)

lemma agrees_refresh_jwks [agrees_intros]: "agrees (aio_refresh_jwks env uri pol) (refresh_jwks env uri pol)"
  unfolding aio_refresh_jwks_def aio_store_refresh_def refresh_jwks_def Let_def
  by (intro agrees_sbnd agrees_on_caches agrees_if agrees_pure
      agrees_counted_fetch [where ev = "JwksRefresh uri t" for t, unfolded event_url.simps, OF counters_count(5)]
      agrees_option)

lemmas agrees_hits [agrees_intros] =
  agrees_counted_hit [where counter = record_disco_hit, OF counters_count(1)]
  agrees_counted_hit [where counter = record_jwks_hit, OF counters_count(3)]

lemma agrees_reads [agrees_intros]:
  "agrees (aio_get_disco_response env addr pol) (get_disco_response env addr pol)"
  "agrees (aio_get_cached_jwks env uri pol) (get_cached_jwks env uri pol)"
  unfolding aio_get_disco_response_def get_disco_response_def aio_get_cached_jwks_def get_cached_jwks_def Let_def
  by (intro agrees_option agrees_or_else agrees_pure agrees_hits agrees_fetch_disco agrees_fetch_jwks)+

lemma validate_async_claims_eq: "validate_async_claims decoded c = validate_claims decoded c"
  by (simp add: validate_async_claims_def validate_claims_def split: option.split sum.split)

lemma agrees_kid_miss [agrees_intros]:
  "agrees (aio_kid_miss_refresh env uri pol kid r) (kid_miss_refresh env uri pol kid r)"
  unfolding aio_kid_miss_refresh_def kid_miss_refresh_def
  by (intro agrees_sbnd agrees_pure agrees_on_caches agrees_if agrees_pair agrees_refresh_jwks)

lemma agrees_discover [agrees_intros]:
  "agrees (aio_discover_and_resolve_key env jwt addr injected pol) (discover_and_resolve_key env jwt addr injected pol)"
  unfolding aio_discover_and_resolve_key_def discover_and_resolve_key_def aio_discover_cached_def discover_cached_def
  by (intro agrees_if agrees_on_caches agrees_sbnd agrees_pure agrees_pair agrees_reads agrees_kid_miss)

lemma agrees_retry [agrees_intros]:
  "agrees (aio_retry_with_refreshed_jwks env jwt c d injected) (retry_with_refreshed_jwks env jwt c d injected)"
  unfolding aio_retry_with_refreshed_jwks_def retry_with_refreshed_jwks_def Let_def
  by (intro agrees_sbnd agrees_pure agrees_if agrees_on_caches agrees_pair agrees_refresh_jwks)

lemma value_error_not_signature: "\<not> exn_isinstance url_value_error SignatureVerificationException"
  unfolding exn_isinstance_def url_value_error_class by code_simp

lemma agrees_validate_with_discovery [agrees_intros]:
  "agrees (aio_validate_with_discovery env jwt c addr injected) (validate_with_discovery env jwt c addr injected)"
  unfolding aio_validate_with_discovery_def validate_with_discovery_def
  by (intro agrees_sbnd agrees_discover agrees_pair agrees_scatch agrees_pure agrees_if agrees_retry)
    (simp add: value_error_not_signature)

lemma agrees_validate_token:
  "agrees (aio_validate_token env jwt c addr injected) (validate_token env jwt c addr injected)"
  unfolding aio_validate_token_def validate_token_def validate_async_claims_eq
  by (intro agrees_sbnd agrees_pure agrees_if agrees_validate_with_discovery)


text \<open>
  The exception exists: for the address \<open>https://[\<close> the asynchronous call raises \<open>ValueError\<close>, where
  the synchronous one returns the failed response of \<open>get_discovery_document\<close>.
\<close>

lemma malformed_address: "urlparse ''https://['' = Inl url_value_error"
  by code_simp

lemma malformed_attempt: "upstream_fetch_attempted ''https://['' pol = Inl url_value_error"
  by (simp add: upstream_fetch_attempted_def validate_url_scheme_def malformed_address exn_isinstance_def)

theorem async_malformed_address_raises:
  "fst (aio_get_disco_response env (Some ''https://['') pol (tv_init, counters)) = Inl url_value_error \<and>
   is_ok (fst (get_disco_response env (Some ''https://['') pol tv_init))"
proof -
  have miss: "disco_hit env key tv_init = (Inr None, tv_init)" for key
    by (simp add: disco_hit_def sbnd_def stm_simps tv_init_def)
  show ?thesis
    by (simp add: aio_get_disco_response_def get_disco_response_def or_else_def counted_hit_def on_caches_def miss
        aio_fetch_disco_def aio_store_disco_def fetch_disco_def count_fetch_def malformed_attempt sbnd_def stm_simps next_world_def
        monotonic_def Let_def)
qed

end
