(* ===== verification/Aio_Flows.thy ===== *)
theory Aio_Flows
  imports Registration Aio_Validation Token_Profiles Jarm
begin

text \<open>
  The asynchronous entry points that send a request: \<open>aio/http_client.py\<close>, \<open>aio/managed_client.py\<close>, and the wrappers of
  \<open>aio/token_client.py\<close>, \<open>token_exchange.py\<close>, \<open>introspection.py\<close>, \<open>revocation.py\<close>, \<open>device_auth.py\<close>, \<open>par.py\<close>,
  \<open>userinfo.py\<close>, \<open>registration.py\<close>, \<open>discovery.py\<close>, \<open>jwks.py\<close>, \<open>jarm.py\<close>, \<open>id_token.py\<close> and \<open>logout.py\<close>.

  They repeat the synchronous ones with \<open>await\<close>, where a task can be cancelled: \<open>CancelledError\<close> is not an \<open>Exception\<close>, so it
  passes the handlers, and only the \<open>finally\<close> blocks see it. A transport call, a pause between two attempts and the closing
  of a dedicated client may end with it. Closing a response whose body was read does not suspend. The client all tasks share
  takes the place of the thread's.
\<close>

section \<open>Clients\<close>

record 'p aio_world =
  aw_net :: "'p net_world"
  aw_sleep :: "nat \<Rightarrow> int \<Rightarrow> pyfloat \<Rightarrow> unit res"
  aw_aclose :: "unit res"

definition aio_managed_init :: "bool \<Rightarrow> pyfloat option \<Rightarrow> ssl_verify option \<Rightarrow> unit res \<Rightarrow> managed_client res" where
  "aio_managed_init wraps timeout verify built = managed_init ''AsyncHTTPClient'' wraps timeout verify built"

text \<open>\<open>close\<close>: what it ends with and the client afterwards; \<open>aclose\<close> is how closing the inner client ends.\<close>

definition aio_managed_close :: "unit res \<Rightarrow> managed_client \<Rightarrow> unit res \<times> managed_client" where
  "aio_managed_close aclose c =
     (if mc_closed c then (Inr (), c)
      else if mc_owned c then (aclose, c\<lparr>mc_inner_open := mc_inner_open c \<and> \<not> is_ok aclose, mc_closed := True\<rparr>)
      else (Inr (), c\<lparr>mc_closed := True\<rparr>))"

definition get_async_http_client :: "'p aio_world \<Rightarrow> ('p net_state, exn, client_ref) stm" where
  "get_async_http_client w =
     sbnd (sget ns_thread_client) (\<lambda>made.
       if made then sret ThreadClient
       else sbnd (sget ns_thread_client) (\<lambda>made'.
         if made' then sret ThreadClient
         else sbnd (slift (get_timeout (nw_env (aw_net w)))) (\<lambda>_.
              sbnd (slift (nw_client_context (aw_net w) (get_ssl_verify (nw_env (aw_net w))))) (\<lambda>_.
              sbnd (log_event (ClientCreated ThreadClient)) (\<lambda>_.
              sbnd (supd (\<lambda>s. s\<lparr>ns_thread_client := True\<rparr>)) (\<lambda>_. sret ThreadClient))))))"

definition aio_build_mtls_client :: "'p aio_world \<Rightarrow> mtls_client_auth \<Rightarrow> ('p net_state, exn, client_ref) stm" where
  "aio_build_mtls_client w mtls =
     sbnd (slift (nw_mtls_context (aw_net w) (get_ssl_verify (nw_env (aw_net w))) mtls)) (\<lambda>_.
     sbnd (slift (get_timeout (nw_env (aw_net w)))) (\<lambda>_.
     sbnd (log_event (ClientCreated MtlsClient)) (\<lambda>_. sret MtlsClient)))"

definition resolve_async_http_client ::
  "'p aio_world \<Rightarrow> mtls_client_auth option \<Rightarrow> managed_client option \<Rightarrow> ('p net_state, exn, client_ref \<times> bool) stm" where
  "resolve_async_http_client w mtls http_client =
     (if mtls \<noteq> None \<and> http_client \<noteq> None
      then slift (Inl (raise_cls ValueError
             (''Cannot combine a managed http_client with mtls: a managed client ''
              @ ''cannot be guaranteed to present the mTLS client certificate. Pass '' @ ''one or the other.'')))
      else case http_client of
        Some c \<Rightarrow> sbnd (slift (managed_get c)) (\<lambda>_. sret (ManagedClient, False))
      | None \<Rightarrow> (case mtls of
            Some m \<Rightarrow> sbnd (aio_build_mtls_client w m) (\<lambda>c. sret (c, True))
          | None \<Rightarrow> sbnd (get_async_http_client w) (\<lambda>c. sret (c, False))))"

section \<open>Retries\<close>

text \<open>
  The loop of \<open>retry_with_backoff_async\<close>. \<open>asyncio.sleep\<close> takes negative delays, which \<open>time.sleep\<close> refuses, and can be
  cancelled: \<open>sleep a d\<close> is how the pause of length \<open>d\<close> after attempt \<open>a\<close> ends.
\<close>

fun retry_loop_async ::
  "(string \<Rightarrow> rat option) \<Rightarrow> (int \<Rightarrow> rat) \<Rightarrow> (int \<Rightarrow> pyfloat \<Rightarrow> unit res) \<Rightarrow> (int \<Rightarrow> http_response res) \<Rightarrow> int \<Rightarrow> pyfloat
   \<Rightarrow> int list \<Rightarrow> exn option \<Rightarrow> http_response res" where
  "retry_loop_async parsedate clock sleep call retries base [] prev =
     (case prev of Some e \<Rightarrow> Inl e
      | None \<Rightarrow> Inl (raise_cls RuntimeError ''No response received after retries''))"
| "retry_loop_async parsedate clock sleep call retries base (a # as) prev =
     (case call a of
        Inl e \<Rightarrow>
          if exn_isinstance e HttpxRequestError \<and> a < retries
          then bnd (bnd (calculate_delay base a) (sleep a)) (\<lambda>_.
                 retry_loop_async parsedate clock sleep call retries base as (Some e))
          else Inl e
      | Inr r \<Rightarrow>
          if should_retry_response r a retries
          then bnd (bnd (resolve_retry_delay parsedate r base a (clock a)) (sleep a)) (\<lambda>_.
                 retry_loop_async parsedate clock sleep call retries base as prev)
          else bnd (check_no_redirect r) (\<lambda>_. Inr r))"

definition retry_with_backoff_async ::
  "(string \<Rightarrow> rat option) \<Rightarrow> os_env \<Rightarrow> (int \<Rightarrow> rat) \<Rightarrow> int option \<Rightarrow> pyfloat option
   \<Rightarrow> (int \<Rightarrow> pyfloat \<Rightarrow> unit res) \<Rightarrow> (int \<Rightarrow> http_response res) \<Rightarrow> http_response res" where
  "retry_with_backoff_async parsedate env clock max_retries base_delay sleep call =
     bnd (get_retry_params env max_retries base_delay) (\<lambda>(retries, base).
       retry_loop_async parsedate clock sleep call retries base [0..retries] None)"

definition aio_outcome :: "'p aio_world \<Rightarrow> nat \<Rightarrow> 'p net_event \<Rightarrow> http_response res" where
  "aio_outcome w n ev =
     retry_with_backoff_async (nw_parsedate (aw_net w)) (nw_env (aw_net w)) (nw_clock (aw_net w)) None None
       (aw_sleep w n) (nw_send (aw_net w) n ev)"

definition aio_send_request :: "'p aio_world \<Rightarrow> string \<Rightarrow> string \<Rightarrow> client_ref \<Rightarrow> 'p \<Rightarrow> ('p net_state, exn, http_response) stm" where
  "aio_send_request w meth address client p =
     (let ev = RequestSent client meth address p in
      sbnd (log_event ev) (\<lambda>_.
      sbnd (sget ns_responses) (\<lambda>n.
      sbnd (supd (\<lambda>s. s\<lparr>ns_responses := Suc n\<rparr>)) (\<lambda>_.
      sbnd (slift (aio_outcome w n ev)) (\<lambda>r.
      sbnd (log_event (ResponseOpened n)) (\<lambda>_.
      sbnd (supd (\<lambda>s. s\<lparr>ns_response := Some n\<rparr>)) (\<lambda>_. sret r)))))))"

section \<open>A call\<close>

text \<open>\<open>except Exception\<close>, and \<open>finally\<close>: it runs on every outcome, and what it raises replaces the outcome.\<close>

definition except_exception :: "('s, exn, 'a) stm \<Rightarrow> (exn \<Rightarrow> 'a) \<Rightarrow> ('s, exn, 'a) stm" where
  "except_exception m handle = scatch m (\<lambda>e. if exn_isinstance e PyException then sret (handle e) else slift (Inl e))"

definition sfinally :: "('s, 'e, 'a) stm \<Rightarrow> ('s, 'e, unit) stm \<Rightarrow> ('s, 'e, 'a) stm" where
  "sfinally m f s = (case m s of (r, s1) \<Rightarrow> (case f s1 of (Inl e, s2) \<Rightarrow> (Inl e, s2) | (Inr _, s2) \<Rightarrow> (r, s2)))"

definition aio_close_owned :: "'p aio_world \<Rightarrow> ('p net_state, exn, unit) stm" where
  "aio_close_owned w =
     sbnd (sget ns_owned) (\<lambda>mine.
       if mine then sbnd (log_event (ClientClosed MtlsClient)) (\<lambda>_. slift (aw_aclose w)) else sret ())"

definition aio_attempt ::
  "'p aio_world \<Rightarrow> string \<Rightarrow> string \<Rightarrow> mtls_client_auth option \<Rightarrow> managed_client option
   \<Rightarrow> (string option \<Rightarrow> 'p res) \<Rightarrow> bool \<Rightarrow> (http_response \<Rightarrow> 'r res) \<Rightarrow> ('p net_state, exn, 'r) stm" where
  "aio_attempt w meth address mtls http_client prepare dpop process =
     sbnd (slift (prepare None)) (\<lambda>p.
     sbnd (resolve_async_http_client w mtls http_client) (\<lambda>(client, owned).
     sbnd (supd (\<lambda>s. s\<lparr>ns_owned := owned\<rparr>)) (\<lambda>_.
     sbnd (aio_send_request w meth address client p) (\<lambda>r.
     sbnd (slift (if dpop then extract_dpop_nonce r else Inr None)) (\<lambda>nonce.
       case nonce of
         None \<Rightarrow> slift (process r)
       | Some v \<Rightarrow>
           sbnd close_response (\<lambda>_.
           sbnd (slift (prepare (Some v))) (\<lambda>p'.
           sbnd (aio_send_request w meth address client p') (\<lambda>r'. slift (process r')))))))))"

definition aio_call_endpoint ::
  "'p aio_world \<Rightarrow> string \<Rightarrow> string \<Rightarrow> mtls_client_auth option \<Rightarrow> managed_client option
   \<Rightarrow> (string option \<Rightarrow> 'p res) \<Rightarrow> bool \<Rightarrow> (http_response \<Rightarrow> 'r res) \<Rightarrow> (exn \<Rightarrow> 'r) \<Rightarrow> ('p net_state, exn, 'r) stm" where
  "aio_call_endpoint w meth address mtls http_client prepare dpop process handle =
     sbnd (supd (\<lambda>s. s\<lparr>ns_response := None, ns_owned := False\<rparr>)) (\<lambda>_.
     sfinally (except_exception (aio_attempt w meth address mtls http_client prepare dpop process) handle)
       (sbnd close_response (\<lambda>_. aio_close_owned w)))"

text \<open>The wrappers without client certificates keep no client of their own.\<close>

definition aio_managed_or_shared :: "'p aio_world \<Rightarrow> managed_client option \<Rightarrow> ('p net_state, exn, client_ref) stm" where
  "aio_managed_or_shared w http_client =
     (case http_client of
        Some c \<Rightarrow> sbnd (slift (managed_get c)) (\<lambda>_. sret ManagedClient)
      | None \<Rightarrow> get_async_http_client w)"

definition aio_call_plain ::
  "'p aio_world \<Rightarrow> string \<Rightarrow> string \<Rightarrow> managed_client option \<Rightarrow> 'p res \<Rightarrow> (http_response \<Rightarrow> 'r res) \<Rightarrow> (exn \<Rightarrow> 'r)
   \<Rightarrow> ('p net_state, exn, 'r) stm" where
  "aio_call_plain w meth address http_client prepared process handle =
     sbnd (supd (\<lambda>s. s\<lparr>ns_response := None\<rparr>)) (\<lambda>_.
     sfinally (except_exception
       (sbnd (slift prepared) (\<lambda>p.
        sbnd (aio_managed_or_shared w http_client) (\<lambda>client.
        sbnd (aio_send_request w meth address client p) (\<lambda>r. slift (process r))))) handle)
       close_response)"

section \<open>The entry points\<close>

definition aio_request_client_credentials_token where
  "aio_request_client_credentials_token w S http_client r =
     aio_call_endpoint w ''POST'' (rq_address r) (rq_mtls r) http_client (\<lambda>_. prepare_token_request_data S 0 r)
       False (\<lambda>x. Inr (process_token_response x)) handle_token_error"

definition aio_request_authorization_code_token where
  "aio_request_authorization_code_token w S http_client r =
     aio_call_endpoint w ''POST'' (rq_address r) (rq_mtls r) http_client
       (\<lambda>nonce. prepare_auth_code_token_request_data S (draw nonce) r nonce)
       (cr_dpop_key r \<noteq> None) (\<lambda>x. Inr (process_auth_code_token_response x)) handle_auth_code_token_error"

definition aio_refresh_token where
  "aio_refresh_token w S http_client r =
     aio_call_endpoint w ''POST'' (rq_address r) (rq_mtls r) http_client (\<lambda>_. prepare_refresh_token_request_data S 0 r)
       False (\<lambda>x. Inr (process_refresh_token_response x)) handle_refresh_token_error"

definition aio_introspect_token where
  "aio_introspect_token w S http_client r =
     aio_call_endpoint w ''POST'' (rq_address r) (rq_mtls r) http_client (\<lambda>_. prepare_introspection_request_data S 0 r)
       False (\<lambda>x. Inr (process_introspection_response x)) handle_introspection_error"

definition aio_revoke_token where
  "aio_revoke_token w S http_client r =
     aio_call_endpoint w ''POST'' (rq_address r) (rq_mtls r) http_client (\<lambda>_. prepare_revocation_request_data S 0 r)
       False (\<lambda>x. Inr (process_revocation_response x)) handle_revocation_error"

definition aio_push_authorization_request where
  "aio_push_authorization_request w S http_client r =
     aio_call_endpoint w ''POST'' (rq_address r) (rq_mtls r) http_client
       (\<lambda>nonce. prepare_par_request_data S (draw nonce) r nonce)
       (pr_dpop_key r \<noteq> None) process_par_response handle_par_error"

definition aio_request_device_authorization where
  "aio_request_device_authorization w S http_client r =
     aio_call_endpoint w ''POST'' (rq_address r) (rq_mtls r) http_client (\<lambda>_. prepare_device_auth_request_data S 0 r)
       False process_device_auth_response handle_device_auth_error"

definition aio_poll_device_token where
  "aio_poll_device_token w S http_client r =
     aio_call_endpoint w ''POST'' (rq_address r) (rq_mtls r) http_client (\<lambda>_. prepare_device_token_request_data S 0 r)
       False process_device_token_response handle_device_token_error"

definition aio_exchange_token where
  "aio_exchange_token w S http_client r =
     aio_call_endpoint w ''POST'' (rq_address r) (rq_mtls r) http_client (\<lambda>_. prepare_token_exchange_request_data S 0 r)
       False process_token_exchange_response handle_token_exchange_error"

definition aio_get_userinfo where
  "aio_get_userinfo w S http_client r =
     sbnd (slift (prepare_userinfo_headers S 0 r None)) (\<lambda>headers.
       aio_call_endpoint w ''GET'' (ui_address r) (ui_mtls r) http_client
         (\<lambda>nonce. if nonce = None then Inr ([], headers, None)
                  else userinfo_prepared (prepare_userinfo_headers S 1 r nonce))
         (ui_dpop_key r \<noteq> None)
         (\<lambda>x. validate_userinfo_sub (process_userinfo_response x) (ui_expected_sub r)) handle_userinfo_error)"

definition aio_register_client where
  "aio_register_client w http_client r =
     aio_call_plain w ''POST'' (cm_address r) http_client (Inr (prepare_registration_request r))
       process_registration_response handle_registration_error"

definition aio_read_client where
  "aio_read_client w http_client r =
     aio_call_plain w ''GET'' (mr_address r) http_client
       (Inr (None :: json dict option, prepare_management_headers (mr_registration_access_token r)))
       process_read_response handle_registration_error"

definition aio_update_client where
  "aio_update_client w http_client r =
     aio_call_plain w ''PUT'' (cm_address r) http_client (Inr (prepare_update_request r))
       process_update_response handle_registration_error"

definition aio_delete_client where
  "aio_delete_client w http_client r =
     aio_call_plain w ''DELETE'' (mr_address r) http_client
       (Inr (None :: json dict option, prepare_management_headers (mr_registration_access_token r)))
       process_delete_response handle_client_delete_error"

text \<open>Discovery and key sets: the check of the URL comes first, inside the \<open>try\<close> block.\<close>

definition aio_get_discovery_document ::
  "unit aio_world \<Rightarrow> string \<Rightarrow> discovery_policy option \<Rightarrow> managed_client option \<Rightarrow> (unit net_state, exn, disco_response) stm" where
  "aio_get_discovery_document w address pol http_client =
     (let p = effective_policy pol in
      aio_call_plain w ''GET'' address http_client (validate_url_scheme address p)
        (\<lambda>x. Inr (process_discovery_response x (Some p))) handle_discovery_error)"

definition aio_get_jwks ::
  "unit aio_world \<Rightarrow> string \<Rightarrow> discovery_policy option \<Rightarrow> managed_client option \<Rightarrow> (unit net_state, exn, jwks_response) stm" where
  "aio_get_jwks w address pol http_client =
     aio_call_plain w ''GET'' address http_client (validate_url_scheme address (effective_policy pol))
       (\<lambda>x. Inr (process_jwks_response (nw_env (aw_net w)) x)) handle_jwks_error"

text \<open>The profiles on top of asynchronous validation.\<close>

definition aio_validate_id_token ::
  "'pk tv_env \<Rightarrow> string \<Rightarrow> token_validation_config \<Rightarrow> string option \<Rightarrow> bool \<Rightarrow> id_token_checks \<Rightarrow> json dict aiom" where
  "aio_validate_id_token env id_token c addr injected k =
     sbnd (aio_validate_token env id_token c addr injected) (\<lambda>claims.
       sbnd (slift (extract_jwt_header_fields (jl_header (te_lib env)) id_token)) (\<lambda>(kid, alg).
         sbnd (slift (validate_id_token_claims claims alg
                 (k\<lparr>it_client_id := audience c,
                    it_leeway := (if truthy (leeway c) then leeway c else JFloat (Fin 0))\<rparr>))) (\<lambda>_.
           sret claims)))"

definition aio_validate_logout_token ::
  "'pk tv_env \<Rightarrow> string \<Rightarrow> token_validation_config \<Rightarrow> string option \<Rightarrow> bool \<Rightarrow> json dict aiom" where
  "aio_validate_logout_token env logout_token c addr injected =
     sbnd (aio_validate_token env logout_token c addr injected) (\<lambda>claims.
       sbnd (slift (validate_logout_token_claims claims)) (\<lambda>_. sret claims))"

section \<open>A transport without retries\<close>

text \<open>
  Seen from a call, the retries are part of the transport: a world that tries once and gives what the asynchronous loop
  would deliver makes the same requests. So the facts on the synchronous calls apply.
\<close>

definition flat :: "'p aio_world \<Rightarrow> 'p net_world" where
  "flat w = (aw_net w)\<lparr>nw_env := (nw_env (aw_net w))(''HTTP_RETRY_MAX_ATTEMPTS'' \<mapsto> ''0'', ''HTTP_RETRY_BASE_DELAY'' \<mapsto> ''1.0''),
     nw_send := (\<lambda>n ev _. aio_outcome w n ev)\<rparr>"

lemma flat_settings [simp]:
  "get_timeout (nw_env (flat w)) = get_timeout (nw_env (aw_net w))"
  "get_ssl_verify (nw_env (flat w)) = get_ssl_verify (nw_env (aw_net w))"
  "nw_client_context (flat w) = nw_client_context (aw_net w)" "nw_mtls_context (flat w) = nw_mtls_context (aw_net w)"
  by (simp_all add: flat_def get_timeout_def getenv_or_def get_ssl_verify_def)

lemma retry_once: "get_retry_params (env(''HTTP_RETRY_MAX_ATTEMPTS'' \<mapsto> ''0'', ''HTTP_RETRY_BASE_DELAY'' \<mapsto> ''1.0'')) None None = Inr (0, Fin 1)"
proof -
  have "int_or_raise ''0'' = Inr 0" by code_simp
  moreover have "float_or_raise ''1.0'' = Inr (Fin 1)"
    using get_retry_config_default by (auto simp: get_retry_config_def empty_env_def getenv_or_def bnd_eq_Inr)
  ultimately show ?thesis by (simp add: get_retry_params_def get_retry_config_def getenv_or_def opt_or_def)
qed

lemma retry_loop_async_no_redirect:
  "retry_loop_async pd clk sleep call n base as prev = Inr r \<Longrightarrow> check_no_redirect r = Inr ()"
proof (induction as arbitrary: prev)
  case Nil
  then show ?case by (simp split: option.splits)
next
  case (Cons a as)
  then show ?case by (cases "call a") (auto simp: bnd_eq_Inr split: if_splits)
qed

lemma aio_outcome_no_redirect: "aio_outcome w n ev = Inr r \<Longrightarrow> check_no_redirect r = Inr ()"
  by (auto simp: aio_outcome_def retry_with_backoff_async_def bnd_eq_Inr dest: retry_loop_async_no_redirect)

lemma flat_outcome:
  "fst (retry_with_backoff (nw_parsedate (flat w)) (nw_env (flat w)) (nw_clock (flat w)) None None (nw_send (flat w) n ev)) = aio_outcome w n ev"
proof (cases "aio_outcome w n ev")
  case (Inl e)
  then show ?thesis by (simp add: retry_with_backoff_def flat_def retry_once)
next
  case (Inr r)
  then show ?thesis
    using aio_outcome_no_redirect [OF Inr] by (simp add: retry_with_backoff_def flat_def retry_once should_retry_response_def)
qed

lemma send_flat: "aio_send_request w = send_request (flat w)"
  by (intro ext) (simp only: aio_send_request_def send_request_def flat_outcome)

lemma shared_flat: "get_async_http_client w = get_http_client (flat w)"
  by (intro ext) (simp add: get_async_http_client_def get_http_client_def sbnd_def stm_simps)

lemma mtls_flat: "aio_build_mtls_client w = build_mtls_client (flat w)"
  by (intro ext) (simp add: aio_build_mtls_client_def build_mtls_client_def)

lemma resolve_flat: "resolve_async_http_client w = resolve_http_client (flat w)"
  by (intro ext) (simp only: resolve_async_http_client_def resolve_http_client_def shared_flat mtls_flat)

lemma attempt_flat: "aio_attempt w = attempt (flat w)"
  by (intro ext) (simp only: aio_attempt_def attempt_def send_flat resolve_flat)

lemma plain_flat: "aio_managed_or_shared w = managed_or_shared (flat w)"
  by (intro ext) (simp only: aio_managed_or_shared_def managed_or_shared_def shared_flat)

section \<open>What a cancelled call leaves behind\<close>

lemma triple_sfinally:
  assumes "triple P m (\<lambda>_. R) (\<lambda>_. R)" "triple R f (\<lambda>_. Q) (\<lambda>_. Q)"
  shows "triple P (sfinally m f) (\<lambda>_. Q) (\<lambda>_. Q)"
proof (rule tripleI)
  fix s x s'
  assume "P s" "sfinally m f s = (Inr x, s')"
  then show "Q s'"
    using assms by (fastforce simp: sfinally_def triple_def split: prod.splits sum.splits)
next
  fix s e s'
  assume "P s" "sfinally m f s = (Inl e, s')"
  then show "Q s'"
    using assms by (fastforce simp: sfinally_def triple_def split: prod.splits sum.splits)
qed

lemma triple_except:
  "triple P m (\<lambda>_. R) (\<lambda>_. R) \<Longrightarrow> triple P (except_exception m handle) (\<lambda>_. R) (\<lambda>_. R)"
  unfolding except_exception_def by (erule triple_scatch) (auto intro: triple_sret triple_slift)

lemma aio_close_frame:
  "triple (frame t c K current own) (sbnd close_response (\<lambda>_. aio_close_owned w)) (\<lambda>_. frame t c K nothing (\<lambda>_. 0)) (\<lambda>_. frame t c K nothing (\<lambda>_. 0))"
proof -
  have yes: "triple (\<lambda>s. frame t c K nothing own s \<and> ns_owned s) (sbnd (log_event (ClientClosed MtlsClient)) (\<lambda>_. slift (aw_aclose w)))
      (\<lambda>_. frame t c K nothing (\<lambda>_. 0)) (\<lambda>_. frame t c K nothing (\<lambda>_. 0))"
    by (rule triple_sbnd [where R = "\<lambda>_. frame t c K nothing (\<lambda>_. 0)"], rule triple_log)
      (auto simp: own_def elim!: frame_snoc intro: triple_slift)
  have no: "triple (\<lambda>s. frame t c K nothing own s \<and> \<not> ns_owned s) (sret ()) (\<lambda>_. frame t c K nothing (\<lambda>_. 0)) E" for E
    by (rule triple_sret) (auto simp: own_def elim!: frame_weaken)
  have "triple (frame t c K nothing own) (aio_close_owned w) (\<lambda>_. frame t c K nothing (\<lambda>_. 0)) (\<lambda>_. frame t c K nothing (\<lambda>_. 0))"
    unfolding aio_close_owned_def
    by (rule triple_sbnd [where R = "\<lambda>m s. frame t c K nothing own s \<and> ns_owned s = m"], rule triple_sget, simp,
        rule triple_if) (auto intro: triple_conseq [OF yes] triple_conseq [OF no])
  then show ?thesis by (intro triple_sbnd [OF close_response_frame]) simp_all
qed

lemma aio_call_frame:
  fixes dpop :: bool and s :: "'p net_state" and mtls http_client
  defines "K \<equiv> if dpop then 2 else 1 :: nat" and "c \<equiv> chosen_client mtls http_client" and "t \<equiv> ns_trace s"
  shows "triple (\<lambda>x. x = s) (aio_call_endpoint w meth address mtls http_client prepare dpop process handle)
      (\<lambda>_. frame t c K nothing (\<lambda>_. 0)) (\<lambda>_. frame t c K nothing (\<lambda>_. 0))"
proof -
  have enter: "triple (\<lambda>x. x = s) (supd (\<lambda>s. s\<lparr>ns_response := None, ns_owned := False\<rparr>)) (\<lambda>_. fresh_frame t c) E" for E
    by (rule triple_supd) (simp add: fresh_frame_def frame_def trace_defs own_def t_def)
  have body: "triple (fresh_frame t c) (except_exception (attempt (flat w) meth address mtls http_client prepare dpop process) handle)
      (\<lambda>_. frame t c K current own) (\<lambda>_. frame t c K current own)"
    unfolding K_def c_def by (rule triple_except [OF attempt_frame [OF refl]])
  show ?thesis
    unfolding aio_call_endpoint_def attempt_flat
    by (rule triple_sbnd [OF enter], rule triple_sfinally [OF body aio_close_frame])
qed

text \<open>What a call raises: nothing but a cancellation, or what the closing of its own client raises.\<close>

lemma except_exception_raises:
  "except_exception m handle s = (Inl e, s') \<Longrightarrow> exn_class e = CancelledError"
  by (auto simp: except_exception_def scatch_def stm_simps exn_isinstance_def split: prod.splits sum.splits if_splits)

lemma close_response_ok: "fst (close_response s) = Inr ()"
  by (simp add: close_response_def sbnd_def stm_simps log_event_def split: option.split)

lemma close_response_returns [simp]: "close_response s \<noteq> (Inl e, s')"
  using close_response_ok [of s] by auto

lemma aio_close_raises: "sbnd close_response (\<lambda>_. aio_close_owned w) s = (Inl e, s') \<Longrightarrow> aw_aclose w = Inl e"
  using close_response_ok [of s]
  by (auto simp: sbnd_def aio_close_owned_def stm_simps log_event_def split: prod.splits sum.splits if_splits)

lemma sfinally_raises:
  "sfinally m f s = (Inl e, s') \<Longrightarrow> (\<exists>s1. m s = (Inl e, s1)) \<or> (\<exists>s1. f s1 = (Inl e, s'))"
  by (auto simp: sfinally_def split: prod.splits sum.splits)

lemma aio_call_clean:
  assumes run: "aio_call_endpoint w meth address mtls http_client prepare dpop process handle s = (res, s')"
  shows "\<exists>t. ns_trace s' = ns_trace s @ t \<and> pending t = {} \<and> mtls_live t = 0
       \<and> requests_sent t \<le> (if dpop then 2 else 1) \<and> list_all (through (chosen_client mtls http_client)) t"
proof -
  have "frame (ns_trace s) (chosen_client mtls http_client) (if dpop then 2 else 1) nothing (\<lambda>_. 0) s'"
  proof (cases res)
    case (Inl e)
    show ?thesis by (rule triple_Inl [OF aio_call_frame refl run [unfolded Inl]])
  next
    case (Inr r)
    show ?thesis by (rule triple_Inr [OF aio_call_frame refl run [unfolded Inr]])
  qed
  then show ?thesis unfolding frame_def by auto
qed

lemma aio_call_raises:
  assumes "aio_call_endpoint w meth address mtls http_client prepare dpop process handle s = (Inl e, s')"
  shows "exn_class e = CancelledError \<or> aw_aclose w = Inl e"
proof -
  have "sfinally (except_exception (aio_attempt w meth address mtls http_client prepare dpop process) handle)
      (sbnd close_response (\<lambda>_. aio_close_owned w)) (s\<lparr>ns_response := None, ns_owned := False\<rparr>) = (Inl e, s')"
    using assms unfolding aio_call_endpoint_def sbnd_def [of "supd _"] supd_def by simp
  from sfinally_raises [OF this] show ?thesis
    by (elim disjE exE) (blast dest: except_exception_raises, simp add: aio_close_raises)
qed


section \<open>Calls without a client of their own\<close>

lemma ignores_owned_sfinally: "\<lbrakk>ignores_owned m; ignores_owned f\<rbrakk> \<Longrightarrow> ignores_owned (sfinally m f)"
  by (auto simp: ignores_owned_def sfinally_def apsnd_def split: prod.splits sum.splits)

lemma ignores_owned_except: "ignores_owned m \<Longrightarrow> ignores_owned (except_exception m handle)"
  unfolding except_exception_def by (auto intro!: ignores_owned_intros)

definition aio_plain_steps where
  "aio_plain_steps w meth address http_client prepared process =
     sbnd (slift prepared) (\<lambda>p. plain_steps (flat w) meth address http_client p process)"

lemma aio_call_plain_steps:
  "aio_call_plain w meth address http_client prepared process handle =
     sbnd (supd (\<lambda>s. s\<lparr>ns_response := None\<rparr>)) (\<lambda>_.
       sfinally (except_exception (aio_plain_steps w meth address http_client prepared process) handle) close_response)"
  by (simp only: aio_call_plain_def aio_plain_steps_def plain_steps_def plain_flat send_flat)

lemma ignores_owned_aio_steps: "ignores_owned (aio_plain_steps w meth address http_client prepared process)"
  unfolding aio_plain_steps_def by (intro ignores_owned_intros ignores_owned_plain)

lemma aio_attempt_plain:
  "\<not> ns_owned s \<Longrightarrow> attempt (flat w) meth address None http_client (\<lambda>_. prepared) False process s
     = aio_plain_steps w meth address http_client prepared process s"
  using attempt_plain [of s "flat w" meth address http_client _ process]
  by (cases prepared) (auto simp: aio_plain_steps_def attempt_def sbnd_def slift_def)

lemma aio_plain_endpoint:
  "aio_call_endpoint w meth address None http_client (\<lambda>_. prepared) False process handle s =
     apsnd (\<lambda>s'. s'\<lparr>ns_owned := False\<rparr>) (aio_call_plain w meth address http_client prepared process handle s)"
proof -
  let ?plain = "aio_call_plain w meth address http_client prepared process handle"
  let ?body = "except_exception (aio_plain_steps w meth address http_client prepared process) handle"
  define s0 where "s0 = s\<lparr>ns_response := None, ns_owned := False\<rparr>"
  have s0': "s0 = s\<lparr>ns_owned := False, ns_response := None\<rparr>" by (simp add: s0_def)
  obtain r s1 where steps: "?body s0 = (r, s1)" by (cases "?body s0")
  have s1: "\<not> ns_owned s1"
    using owned_kept [OF ignores_owned_except [OF ignores_owned_aio_steps] steps] by (simp add: s0_def)
  have "\<not> ns_owned s0" by (simp add: s0_def)
  then have tried: "except_exception (aio_attempt w meth address None http_client (\<lambda>_. prepared) False process) handle s0 = (r, s1)"
    using steps by (simp add: except_exception_def scatch_def attempt_flat aio_attempt_plain)
  obtain s2 where closed: "close_response s1 = (Inr (), s2)" using close_response_ok by (metis prod.collapse)
  have s2: "\<not> ns_owned s2" using owned_kept [OF ignores_owned_steps(3) closed] s1 by simp
  have "ignores_owned ?plain"
    unfolding aio_call_plain_steps
    by (intro ignores_owned_intros ignores_owned_sfinally ignores_owned_except ignores_owned_aio_steps ignores_owned_steps)
  then have "apsnd (\<lambda>s'. s'\<lparr>ns_owned := False\<rparr>) (?plain s) = ?plain (s\<lparr>ns_owned := False\<rparr>)"
    by (simp add: ignores_owned_def)
  also have "\<dots> = (r, s2)"
    using steps closed by (simp add: aio_call_plain_steps s0' sbnd_def [of "supd _"] supd_def sfinally_def)
  also have "\<dots> = aio_call_endpoint w meth address None http_client (\<lambda>_. prepared) False process handle s"
    using tried closed s2 by (simp add: aio_call_endpoint_def s0_def [symmetric] sbnd_def [of "supd _"] supd_def sfinally_def
        sbnd_def [of close_response] aio_close_owned_def sbnd_def [of "sget _"] sget_def sret_def)
  finally show ?thesis by simp
qed

section \<open>Calls that are not interrupted\<close>

lemma retry_loop_async_eq:
  assumes "\<And>a d. sleep a d = time_sleep d"
  shows "retry_loop_async pd clk sleep call n base as prev = fst (retry_loop pd clk call n base as prev)"
proof (induction as arbitrary: prev)
  case Nil
  then show ?case by (simp split: option.split)
next
  case (Cons a as)
  have pause: "bnd (bnd d (sleep a)) (\<lambda>_. retry_loop_async pd clk sleep call n base as p) =
      fst (case sleep_for d of Inl x \<Rightarrow> (Inl x, []) | Inr d \<Rightarrow> apsnd ((#) d) (retry_loop pd clk call n base as p))" for d p
  proof (cases d)
    case (Inr x)
    then show ?thesis by (cases "time_sleep x") (simp_all add: assms sleep_for_def Cons.IH)
  qed (simp add: sleep_for_def)
  show ?case by (cases "call a") (simp_all add: pause split del: sum.split)
qed

text \<open>Pauses that end as those of \<open>time.sleep\<close> do.\<close>

definition patient :: "'p aio_world \<Rightarrow> bool" where
  "patient w \<longleftrightarrow> (\<forall>n a d. aw_sleep w n a d = time_sleep d)"

lemma patient_outcome:
  assumes "patient w"
  shows "aio_outcome w n ev = fst (retry_with_backoff (nw_parsedate (aw_net w)) (nw_env (aw_net w)) (nw_clock (aw_net w)) None None
      (nw_send (aw_net w) n ev))"
  using assms retry_loop_async_eq [of "aw_sleep w n"]
  by (simp add: aio_outcome_def retry_with_backoff_async_def retry_with_backoff_def patient_def bnd_def split: sum.split prod.split)

lemma patient_send: "patient w \<Longrightarrow> aio_send_request w = send_request (aw_net w)"
  by (intro ext) (simp only: aio_send_request_def send_request_def patient_outcome)

lemma patient_shared: "get_async_http_client w = get_http_client (aw_net w)"
  by (intro ext) (simp add: get_async_http_client_def get_http_client_def sbnd_def stm_simps)

lemma patient_attempt: "patient w \<Longrightarrow> aio_attempt w = attempt (aw_net w)"
  by (intro ext) (simp only: aio_attempt_def attempt_def patient_send resolve_async_http_client_def resolve_http_client_def
      patient_shared aio_build_mtls_client_def build_mtls_client_def)

text \<open>An asynchronous call that is not interrupted is the synchronous one. When no pause and no closing is cut short and the
  work of the call is not cancelled, it returns the same response object, makes the same requests through the same client and
  leaves the same state as the synchronous wrapper would on the same transport.\<close>

theorem aio_calls_equal_sync:
  assumes "patient w" "aw_aclose w = Inr ()"
    and "\<forall>e s1. attempt (aw_net w) meth address mtls http_client prepare dpop process (s\<lparr>ns_response := None, ns_owned := False\<rparr>)
      = (Inl e, s1) \<longrightarrow> exn_class e \<noteq> CancelledError"
  shows "aio_call_endpoint w meth address mtls http_client prepare dpop process handle s =
    call_endpoint (aw_net w) meth address mtls http_client prepare dpop process handle s"
proof -
  let ?s0 = "s\<lparr>ns_response := None, ns_owned := False\<rparr>"
  let ?att = "attempt (aw_net w) meth address mtls http_client prepare dpop process"
  obtain r s1 where att: "?att ?s0 = (r, s1)" by (cases "?att ?s0")
  define x where "x = (case r of Inl e \<Rightarrow> handle e | Inr y \<Rightarrow> y)"
  have "except_exception ?att handle ?s0 = (Inr x, s1)"
    using att assms(3) by (cases r) (auto simp: except_exception_def scatch_def stm_simps x_def exn_isinstance_def)
  moreover have "scatch ?att (\<lambda>e. sret (handle e)) ?s0 = (Inr x, s1)"
    using att by (cases r) (auto simp: scatch_def stm_simps x_def)
  moreover obtain s2 where closed: "close_response s1 = (Inr (), s2)" using close_response_ok by (metis prod.collapse)
  moreover have "aio_close_owned w = close_owned"
    using assms(2) by (intro ext) (simp add: aio_close_owned_def close_owned_def sbnd_def stm_simps log_event_def)
  moreover obtain s3 where "close_owned s2 = (Inr (), s3)"
    by (cases "ns_owned s2") (simp_all add: close_owned_def sbnd_def sget_def sret_def log_event_def supd_def)
  ultimately show ?thesis
    by (simp add: aio_call_endpoint_def call_endpoint_def patient_attempt [OF assms(1)] sfinally_def
        sbnd_def [of "supd _"] supd_def sbnd_def [of "scatch _ _"] sbnd_def [of close_response] sbnd_def [of close_owned] sret_def)
qed

text \<open>The transport the \<open>n\<close>-th request of a task meets, as the fetches of validation see it.\<close>

definition fetch_world :: "unit aio_world \<Rightarrow> nat \<Rightarrow> http_world" where
  "fetch_world w n =
     \<lparr>w_env = nw_env (aw_net w), w_parsedate = nw_parsedate (aw_net w), w_clock = nw_clock (aw_net w),
      w_get = (\<lambda>url. nw_send (aw_net w) n (RequestSent ThreadClient ''GET'' url ()))\<rparr>"

lemma fetch_world_env: "w_env (fetch_world w n) = nw_env (aw_net w)"
  by (simp add: fetch_world_def)

lemma fetch_world_outcome:
  "patient w \<Longrightarrow> fetch (fetch_world w n) url = aio_outcome w n (RequestSent ThreadClient ''GET'' url ())"
  by (simp add: fetch_def fetch_world_def patient_outcome)

lemma aio_plain_result:
  assumes "patient w" "ns_thread_client s"
    and "\<forall>e. bnd prepared (\<lambda>_. fetch (fetch_world w (ns_responses s)) address) = Inl e \<longrightarrow> exn_class e \<noteq> CancelledError"
  shows "fst (aio_call_plain w ''GET'' address None prepared (\<lambda>x. Inr (process x)) handle s) =
    Inr (case bnd prepared (\<lambda>_. fetch (fetch_world w (ns_responses s)) address) of Inl e \<Rightarrow> handle e | Inr r \<Rightarrow> process r)"
proof -
  let ?m = "sbnd (slift prepared) (\<lambda>p. sbnd (aio_managed_or_shared w None) (\<lambda>client.
      sbnd (aio_send_request w ''GET'' address client p) (\<lambda>r. slift (Inr (process r) :: exn + 'a))))"
  let ?s0 = "s\<lparr>ns_response := None\<rparr>"
  have "fst (?m ?s0) = bnd (bnd prepared (\<lambda>_. fetch (fetch_world w (ns_responses s)) address)) (\<lambda>r. Inr (process r))"
    using assms(2) by (cases prepared)
      (auto simp: sbnd_def stm_simps aio_managed_or_shared_def get_async_http_client_def aio_send_request_def log_event_def Let_def
        fetch_world_outcome [OF assms(1)] bnd_def split: sum.splits)
  then have "fst (except_exception ?m handle ?s0) =
      Inr (case bnd prepared (\<lambda>_. fetch (fetch_world w (ns_responses s)) address) of Inl e \<Rightarrow> handle e | Inr r \<Rightarrow> process r)"
    using assms(3) by (cases "?m ?s0"; cases "bnd prepared (\<lambda>_. fetch (fetch_world w (ns_responses s)) address)")
      (auto simp: except_exception_def scatch_def stm_simps exn_isinstance_def)
  then show ?thesis
    by (auto simp: aio_call_plain_def sbnd_def [of "supd _"] supd_def sfinally_def split: prod.splits sum.splits)
qed

text \<open>Validation takes a fetch to be one step; the wrappers that do it, with the client, the retries and the closing, compute that step.\<close>

theorem aio_fetches_refine:
  assumes "patient w" "ns_thread_client s"
    and "\<forall>e. bnd (validate_url_scheme address (effective_policy pol)) (\<lambda>_. fetch (fetch_world w (ns_responses s)) address) = Inl e
      \<longrightarrow> exn_class e \<noteq> CancelledError"
  shows "fst (aio_get_discovery_document w address pol None s) = Inr (get_discovery_document (fetch_world w (ns_responses s)) address pol)"
    and "fst (aio_get_jwks w address pol None s) = Inr (get_jwks (fetch_world w (ns_responses s)) address pol)"
  by (simp_all add: aio_get_discovery_document_def aio_get_jwks_def Let_def aio_plain_result [OF assms] get_discovery_document_def
      get_jwks_def fetch_world_env split: sum.split)

text \<open>The wrappers without a client of their own leave nothing behind either.\<close>

lemma aio_plain_clean:
  assumes "aio_call_plain w meth address http_client prepared process handle s = (res, s')"
  shows "(\<forall>e. res = Inl e \<longrightarrow> exn_class e = CancelledError) \<and>
    (\<exists>t. ns_trace s' = ns_trace s @ t \<and> pending t = {} \<and> mtls_live t = 0 \<and> requests_sent t \<le> 1
      \<and> list_all (through (chosen_client None http_client)) t)"
proof -
  have "aio_call_endpoint w meth address None http_client (\<lambda>_. prepared) False process handle s = (res, s'\<lparr>ns_owned := False\<rparr>)"
    using aio_plain_endpoint [of w meth address http_client prepared process handle s] assms by simp
  from aio_call_clean [OF this] have "\<exists>t. ns_trace s' = ns_trace s @ t \<and> pending t = {} \<and> mtls_live t = 0 \<and> requests_sent t \<le> 1
      \<and> list_all (through (chosen_client None http_client)) t" by simp
  moreover have "exn_class e = CancelledError" if "res = Inl e" for e
  proof -
    have "sfinally (except_exception (aio_plain_steps w meth address http_client prepared process) handle) close_response
        (s\<lparr>ns_response := None\<rparr>) = (Inl e, s')"
      using assms that by (simp add: aio_call_plain_steps sbnd_def [of "supd _"] supd_def)
    from sfinally_raises [OF this] show ?thesis
      by (elim disjE exE) (erule except_exception_raises, simp)
  qed
  ultimately show ?thesis by blast
qed

section \<open>Profiles\<close>

text \<open>The asynchronous ID token and logout token checks agree with the synchronous ones.\<close>

theorem aio_profiles_agree:
  "agrees (aio_validate_id_token env jwt c addr injected k) (validate_id_token env jwt c addr injected k)"
  "agrees (aio_validate_logout_token env jwt c addr injected) (validate_logout_token env jwt c addr injected)"
  unfolding aio_validate_id_token_def validate_id_token_def aio_validate_logout_token_def validate_logout_token_def
  by (intro agrees_sbnd agrees_validate_token agrees_pure agrees_pair)+

section \<open>Managed clients\<close>

text \<open>
  Closing is final whatever the inner client does: a second close does nothing, and every use afterwards raises. A client that
  was handed in is never closed.
\<close>

theorem aio_managed_lifecycle:
  assumes "aio_managed_close aclose c = (r, c')"
  shows "mc_closed c'" "\<exists>e. managed_get c' = Inl e" "aio_managed_close aclose' c' = (Inr (), c')"
    and "\<not> mc_owned c \<Longrightarrow> r = Inr () \<and> mc_inner_open c' = mc_inner_open c"
  using assms by (auto simp: aio_managed_close_def managed_get_def guard_raise_def split: if_splits)

section \<open>Examples\<close>

definition example_aio :: "prepared aio_world" where
  "example_aio = \<lparr>aw_net = example_net, aw_sleep = (\<lambda>_ _. time_sleep), aw_aclose = Inr ()\<rparr>"

lemma example_aio_attempt:
  "\<exists>x s'. attempt example_net ''GET'' (ui_address example_userinfo_request) None None
     (\<lambda>nonce. if nonce = None then Inr ([], headers, None) else prepare nonce) False
     (\<lambda>x. validate_userinfo_sub (process_userinfo_response x) (Some ''alice'')) (idle_net\<lparr>ns_response := None, ns_owned := False\<rparr>)
     = (Inr x, s')"
proof -
  have "is_ok (validate_userinfo_sub (process_userinfo_response userinfo_http) (Some ''alice''))" by code_simp
  then show ?thesis
    by (auto simp: attempt_def sbnd_def stm_simps resolve_http_client_def get_http_client_def idle_net_def send_request_def Let_def
        log_event_def example_net_def example_retry is_ok_def split: sum.splits)
qed

theorem aio_calls_equal_sync_witness:
  "aio_get_userinfo example_aio example_signing None example_userinfo_request idle_net =
     get_userinfo example_net example_signing None example_userinfo_request idle_net"
proof -
  let ?prep = "\<lambda>headers nonce. if nonce = None then Inr ([], headers, None)
      else userinfo_prepared (prepare_userinfo_headers example_signing 1 example_userinfo_request nonce)"
  have request: "ui_mtls example_userinfo_request = None" "ui_dpop_key example_userinfo_request = None"
      "ui_expected_sub example_userinfo_request = Some ''alice''"
    by (simp_all add: example_userinfo_request_def)
  have world: "patient example_aio" "aw_aclose example_aio = Inr ()" "aw_net example_aio = example_net"
    by (simp_all add: example_aio_def patient_def)
  have "aio_call_endpoint example_aio ''GET'' (ui_address example_userinfo_request) None None (?prep headers) False
      (\<lambda>x. validate_userinfo_sub (process_userinfo_response x) (Some ''alice'')) handle_userinfo_error idle_net =
    call_endpoint (aw_net example_aio) ''GET'' (ui_address example_userinfo_request) None None (?prep headers) False
      (\<lambda>x. validate_userinfo_sub (process_userinfo_response x) (Some ''alice'')) handle_userinfo_error idle_net" for headers
    by (rule aio_calls_equal_sync [OF world(1,2)]) (use example_aio_attempt [of headers "\<lambda>nonce. userinfo_prepared (prepare_userinfo_headers example_signing 1 example_userinfo_request nonce)"]
        in \<open>auto simp: world(3)\<close>)
  then show ?thesis
    by (simp add: aio_get_userinfo_def get_userinfo_def sbnd_def stm_simps request world(3) split: sum.split)
qed

text \<open>A task cancelled while it waits for the server still closes the client it built, and the cancellation goes on.\<close>

definition cancelled_exn :: exn where
  "cancelled_exn = raise_cls CancelledError []"

definition cancelled_aio :: "unit aio_world" where
  "cancelled_aio = \<lparr>aw_net = \<lparr>nw_env = empty_env(''HTTP_TIMEOUT'' \<mapsto> ''1.0''), nw_parsedate = (\<lambda>_. None), nw_clock = (\<lambda>_. 0), nw_send = (\<lambda>_ _ _. Inl cancelled_exn),
     nw_client_context = (\<lambda>_. Inr ()), nw_mtls_context = (\<lambda>_ _. Inr ())\<rparr>, aw_sleep = (\<lambda>_ _. time_sleep), aw_aclose = Inr ()\<rparr>"

theorem cancelled_call_closes_client:
  assumes "ns_trace s = []"
  shows "case aio_call_endpoint cancelled_aio ''POST'' ''https://op.example/token'' (Some m) None (\<lambda>_. Inr ()) False (\<lambda>x. Inr (Some x)) (\<lambda>_. None) s of
    (res, s') \<Rightarrow> res = Inl cancelled_exn \<and>
      ns_trace s' = [ClientCreated MtlsClient, RequestSent MtlsClient ''POST'' ''https://op.example/token'' (), ClientClosed MtlsClient]"
proof -
  have env: "get_retry_config (empty_env(''HTTP_TIMEOUT'' \<mapsto> ''1.0'')) = Inr (3, Fin 1)"
    using get_retry_config_default by (simp add: get_retry_config_def getenv_or_def)
  then have timeout: "get_timeout (empty_env(''HTTP_TIMEOUT'' \<mapsto> ''1.0'')) = Inr (Fin 1)"
    by (auto simp: get_timeout_def get_retry_config_def getenv_or_def empty_env_def bnd_eq_Inr)
  have "aio_outcome cancelled_aio n ev = Inl cancelled_exn" for n ev
    by (simp add: aio_outcome_def cancelled_aio_def retry_with_backoff_async_def get_retry_params_def env
        upto_rec1 cancelled_exn_def exn_isinstance_def)
  moreover have "get_timeout (nw_env (aw_net cancelled_aio)) = Inr (Fin 1)" "\<And>v. nw_mtls_context (aw_net cancelled_aio) v m = Inr ()"
      "aw_aclose cancelled_aio = Inr ()" "\<not> exn_isinstance cancelled_exn PyException"
    by (simp_all add: cancelled_aio_def timeout cancelled_exn_def exn_isinstance_def)
  ultimately show ?thesis
    using assms by (simp add: aio_call_endpoint_def sbnd_def stm_simps sfinally_def except_exception_def scatch_def aio_attempt_def
        resolve_async_http_client_def aio_build_mtls_client_def aio_send_request_def Let_def log_event_def close_response_def
        aio_close_owned_def)
qed

section \<open>JARM responses\<close>

definition aio_resolve_jarm_context ::
  "unit aio_world \<Rightarrow> managed_client option \<Rightarrow> jarm_request \<Rightarrow> (unit net_state, exn, json \<times> json \<times> jwks_response) stm" where
  "aio_resolve_jarm_context w http_client q =
     (case (jr_issuer q, jr_jwks q, jr_algorithms q) of
        (Some iss, Some ks, Some algs) \<Rightarrow>
          slift (bnd (validate_jwks_response ks) (\<lambda>_. Inr (JStr iss, JList (map JStr algs), ks)))
      | _ \<Rightarrow>
          (case jr_disco_doc_address q of
             None \<Rightarrow> slift (Inl (config_exn (''disco_doc_address is required for JARM processing unless issuer, ''
                        @ ''jwks, and algorithms are all supplied (offline mode)'')))
           | Some a \<Rightarrow>
               let pol = default_policy\<lparr>require_https := jr_require_https q\<rparr> in
               sbnd (aio_get_discovery_document w a (Some pol) http_client) (\<lambda>d.
               sbnd (slift (validate_disco_response d)) (\<lambda>_.
               sbnd (slift (if opt_truthy (jr_issuer q) then Inr (jopt (jr_issuer q)) else disco_get d ''issuer'')) (\<lambda>iss.
                 if \<not> truthy iss
                 then slift (Inl (config_exn ''Discovery document does not advertise an issuer; cannot validate JARM''))
                 else sbnd (slift (case jr_algorithms q of Some (x # xs) \<Rightarrow> Inr JNull
                             | _ \<Rightarrow> disco_get d ''authorization_signing_alg_values_supported'')) (\<lambda>adv.
                   sbnd (slift (bnd (validate_jwks_uri d) (jwks_uri_arg False))) (\<lambda>uri.
                   sbnd (aio_get_jwks w uri (Some pol) http_client) (\<lambda>ks.
                     slift (bnd (validate_jwks_response ks) (\<lambda>_. Inr (iss, jarm_algs (jr_algorithms q) adv, ks)))))))))))"

definition aio_process_jarm_response ::
  "'pk jwt_lib \<Rightarrow> unit aio_world \<Rightarrow> managed_client option \<Rightarrow> string \<Rightarrow> jarm_request \<Rightarrow> (unit net_state, exn, callback_response) stm" where
  "aio_process_jarm_response lib w http_client response q =
     sbnd (slift (if jr_is_jwt q then Inr response else extract_jarm_response_jwt response)) (\<lambda>jwt.
     sbnd (aio_resolve_jarm_context w http_client q) (\<lambda>(issuer, allowed, ks).
       slift (bnd (extract_jarm_header (jl_header lib) jwt) (\<lambda>(kid, header_alg).
           bnd (select_jarm_algorithm header_alg allowed) (\<lambda>alg.
             bnd (keys_or_empty ks) (\<lambda>keys.
               bnd (find_key_by_kid kid keys (JStr alg)) (\<lambda>(key, _).
                 bnd (decode_jarm_claims lib jwt key [JStr alg] issuer (Some (jr_client_id q)) (jr_leeway q)) (\<lambda>claims.
                   build_authorize_response_from_claims claims jwt))))))))"

lemma validate_url_scheme_class: "validate_url_scheme url pol = Inl e \<Longrightarrow> exn_class e \<noteq> CancelledError"
  by (auto simp: validate_url_scheme_def urlparse_def url_value_error_def Let_def bnd_eq_Inl split: if_splits prod.splits)

text \<open>A call leaves the shared client in place.\<close>

lemma keeps_client:
  "keeps ns_thread_client (aio_send_request w meth address c p)" "keeps ns_thread_client (aio_managed_or_shared w http_client)"
  "keeps ns_thread_client close_response"
  unfolding aio_send_request_def aio_managed_or_shared_def get_async_http_client_def close_response_def log_event_def Let_def
  by (intro triple_intros keeps_pure triple_supd; simp)+

lemma keeps_client_plain: "keeps ns_thread_client (aio_call_plain w meth address http_client prepared process handle)"
  unfolding aio_call_plain_def
  by (intro keeps_sbnd triple_supd triple_sfinally [where R = ns_thread_client] triple_except keeps_client keeps_pure) simp

text \<open>Fetches none of which is cancelled.\<close>

definition undisturbed :: "unit aio_world \<Rightarrow> bool" where
  "undisturbed w \<longleftrightarrow> patient w \<and> (\<forall>n url e. fetch (fetch_world w n) url = Inl e \<longrightarrow> exn_class e \<noteq> CancelledError)"

lemma undisturbed_fetches:
  assumes "undisturbed w" "ns_thread_client s"
  shows "\<exists>s1. aio_get_discovery_document w a pol None s = (Inr (get_discovery_document (fetch_world w (ns_responses s)) a pol), s1)
      \<and> ns_thread_client s1"
    and "\<exists>s1. aio_get_jwks w a pol None s = (Inr (get_jwks (fetch_world w (ns_responses s)) a pol), s1) \<and> ns_thread_client s1"
proof -
  have "\<forall>e. bnd (validate_url_scheme a (effective_policy pol)) (\<lambda>_. fetch (fetch_world w (ns_responses s)) a) = Inl e
      \<longrightarrow> exn_class e \<noteq> CancelledError"
    using assms(1) validate_url_scheme_class by (auto simp: undisturbed_def bnd_eq_Inl)
  with assms have "fst (aio_get_discovery_document w a pol None s) = Inr (get_discovery_document (fetch_world w (ns_responses s)) a pol)"
      "fst (aio_get_jwks w a pol None s) = Inr (get_jwks (fetch_world w (ns_responses s)) a pol)"
    using aio_fetches_refine [of w s a pol] by (simp_all add: undisturbed_def)
  moreover have "ns_thread_client (snd (aio_get_discovery_document w a pol None s))" "ns_thread_client (snd (aio_get_jwks w a pol None s))"
    unfolding aio_get_discovery_document_def aio_get_jwks_def Let_def
    by (rule keepsD [OF keeps_client_plain], rule assms(2))+
  ultimately show "\<exists>s1. aio_get_discovery_document w a pol None s = (Inr (get_discovery_document (fetch_world w (ns_responses s)) a pol), s1)
      \<and> ns_thread_client s1"
    "\<exists>s1. aio_get_jwks w a pol None s = (Inr (get_jwks (fetch_world w (ns_responses s)) a pol), s1) \<and> ns_thread_client s1"
    by (metis prod.collapse)+
qed

lemma fst_slift: "fst (slift r s) = r"
  by (simp add: slift_def)

lemma fst_sbnd_slift: "fst (sbnd (slift r) f s) = bnd r (\<lambda>x. fst (f x s))"
  by (cases r) (simp_all add: sbnd_def slift_def)

lemma fst_if: "fst ((if b then m else m') s) = (if b then fst (m s) else fst (m' s))"
  by simp

lemma jwks_step:
  assumes "undisturbed w" "ns_thread_client s"
  shows "fst (sbnd (aio_get_jwks w uri pol None) (\<lambda>ks. slift (g ks)) s) = g (get_jwks (fetch_world w (ns_responses s)) uri pol)"
  using undisturbed_fetches(2) [OF assms, of uri pol] by (auto simp: sbnd_def slift_def)

lemma aio_resolve_jarm_refines:
  assumes "undisturbed w" "ns_thread_client s"
  shows "\<exists>n. fst (aio_resolve_jarm_context w None q s) = resolve_jarm_context (fetch_world w (ns_responses s)) (fetch_world w n) q"
proof (cases "jr_issuer q \<noteq> None \<and> jr_jwks q \<noteq> None \<and> jr_algorithms q \<noteq> None")
  case True
  then show ?thesis by (auto simp: aio_resolve_jarm_context_def resolve_jarm_context_def fst_slift)
next
  case False
  show ?thesis
  proof (cases "jr_disco_doc_address q")
    case None
    then show ?thesis
      using False by (simp add: aio_resolve_jarm_context_def resolve_jarm_context_def fst_slift split: option.split)
  next
    case (Some a)
    let ?pol = "default_policy\<lparr>require_https := jr_require_https q\<rparr>"
    let ?d = "get_discovery_document (fetch_world w (ns_responses s)) a (Some ?pol)"
    obtain s1 where d: "aio_get_discovery_document w a (Some ?pol) None s = (Inr ?d, s1)" and s1: "ns_thread_client s1"
      using undisturbed_fetches(1) [OF assms] by blast
    have step: "fst (sbnd (aio_get_discovery_document w a (Some ?pol) None) f s) = fst (f ?d s1)" for f :: "_ \<Rightarrow> (_, _, 'z) stm"
      using d by (simp add: sbnd_def)
    have "fst (aio_resolve_jarm_context w None q s) = resolve_jarm_context (fetch_world w (ns_responses s)) (fetch_world w (ns_responses s1)) q"
      using False Some unfolding aio_resolve_jarm_context_def resolve_jarm_context_def Let_def
      by (auto simp: step fst_sbnd_slift fst_if fst_slift jwks_step [OF assms(1) s1] cong: bnd_cong if_cong split: option.split list.split)
    then show ?thesis by blast
  qed
qed

text \<open>Asynchronous JARM processing computes what the synchronous one does from the documents its two requests are answered with.\<close>

theorem aio_jarm_refines:
  assumes "undisturbed w" "ns_thread_client s"
  shows "\<exists>n. fst (aio_process_jarm_response lib w None response q s) =
    process_jarm_response lib (fetch_world w (ns_responses s)) (fetch_world w n) response q"
proof -
  obtain n where n: "fst (aio_resolve_jarm_context w None q s) = resolve_jarm_context (fetch_world w (ns_responses s)) (fetch_world w n) q"
    using aio_resolve_jarm_refines [OF assms] by blast
  have step: "fst (sbnd (aio_resolve_jarm_context w None q) (\<lambda>(issuer, allowed, ks). slift (g issuer allowed ks)) s) =
      bnd (resolve_jarm_context (fetch_world w (ns_responses s)) (fetch_world w n) q) (\<lambda>(issuer, allowed, ks). g issuer allowed ks)" for g
    using n by (cases "aio_resolve_jarm_context w None q s") (auto simp: sbnd_def slift_def split: sum.split)
  show ?thesis
    by (rule exI [of _ n]) (simp only: aio_process_jarm_response_def process_jarm_response_def fst_sbnd_slift step)
qed

end
