(* ===== verification/Async_Tasks.thy ===== *)
theory Async_Tasks
  imports Py_Prelude
begin

text \<open>
  Coroutines on one event loop that follow the double-checked pattern of the library: a first look at
  the shared state, then a critical section under an \<open>asyncio.Lock\<close> that looks again and may await
  answers from the network before it returns. The loop runs one task at a time and switches only at
  an \<open>await\<close>, so what happens between two awaits is one step. The single-flight fetches of the
  caches and the refresh of the token manager are instances.
\<close>

section \<open>Tasks\<close>

text \<open>
  What a coroutine does: \<open>co_first\<close> before the lock is asked for, \<open>co_enter\<close> once it is held,
  \<open>co_resume\<close> when the awaited answer arrives. \<open>Inl\<close> is the result of the coroutine, \<open>Inr\<close> what it
  remembers while it awaits. \<open>co_lock\<close> is the lock of a key.
\<close>

record ('s, 'k, 'l, 'w, 'r) coroutine =
  co_first :: "'k \<Rightarrow> 's \<Rightarrow> 'r option \<times> 's"
  co_enter :: "'k \<Rightarrow> 's \<Rightarrow> ('r + 'l) \<times> 's"
  co_resume :: "'k \<Rightarrow> 'l \<Rightarrow> 'w \<Rightarrow> 's \<Rightarrow> ('r + 'l) \<times> 's"
  co_lock :: "'k \<Rightarrow> nat"

datatype ('k, 'l, 'r) task =
    Unstarted
  | Waiting 'k
  | Holding 'k 'l
  | Finished 'k 'r
  | Cancelled

record ('s, 'k, 'l, 'r) sched =
  shared :: 's
  tasks :: "nat \<Rightarrow> ('k, 'l, 'r) task"
  owner :: "nat \<Rightarrow> nat option"

text \<open>
  The scheduler's choices. \<open>Cancel\<close> is a cancelled task, whose \<open>async with\<close> releases the lock;
  \<open>Outside\<close> is other code that changes the shared state between two steps.
\<close>

datatype ('s, 'k, 'w) event =
    Start nat 'k
  | Acquire nat
  | Answer nat 'w
  | Cancel nat
  | Outside 's

definition set_task :: "nat \<Rightarrow> ('k, 'l, 'r) task \<Rightarrow> 's \<Rightarrow> ('s, 'k, 'l, 'r) sched \<Rightarrow> ('s, 'k, 'l, 'r) sched" where
  "set_task t p s c = c\<lparr>shared := s, tasks := (tasks c)(t := p)\<rparr>"

definition set_owner :: "nat \<Rightarrow> nat option \<Rightarrow> ('s, 'k, 'l, 'r) sched \<Rightarrow> ('s, 'k, 'l, 'r) sched" where
  "set_owner i w c = c\<lparr>owner := (owner c)(i := w)\<rparr>"

fun co_step ::
  "('s, 'k, 'l, 'w, 'r) coroutine \<Rightarrow> ('s, 'k, 'w) event \<Rightarrow> ('s, 'k, 'l, 'r) sched \<Rightarrow> ('s, 'k, 'l, 'r) sched option" where
  "co_step co (Start t k) c =
     (if tasks c t = Unstarted
      then (case co_first co k (shared c) of
              (Some r, s) \<Rightarrow> Some (set_task t (Finished k r) s c)
            | (None, s) \<Rightarrow> Some (set_task t (Waiting k) s c))
      else None)"
| "co_step co (Acquire t) c =
     (case tasks c t of
        Waiting k \<Rightarrow>
          if owner c (co_lock co k) = None
          then (case co_enter co k (shared c) of
                  (Inl r, s) \<Rightarrow> Some (set_task t (Finished k r) s c)
                | (Inr l, s) \<Rightarrow> Some (set_owner (co_lock co k) (Some t) (set_task t (Holding k l) s c)))
          else None
      | _ \<Rightarrow> None)"
| "co_step co (Answer t w) c =
     (case tasks c t of
        Holding k l \<Rightarrow>
          (case co_resume co k l w (shared c) of
             (Inl r, s) \<Rightarrow> Some (set_owner (co_lock co k) None (set_task t (Finished k r) s c))
           | (Inr l', s) \<Rightarrow> Some (set_task t (Holding k l') s c))
      | _ \<Rightarrow> None)"
| "co_step co (Cancel t) c =
     (case tasks c t of
        Waiting k \<Rightarrow> Some (set_task t Cancelled (shared c) c)
      | Holding k l \<Rightarrow> Some (set_owner (co_lock co k) None (set_task t Cancelled (shared c) c))
      | _ \<Rightarrow> None)"
| "co_step co (Outside s) c = Some (c\<lparr>shared := s\<rparr>)"

text \<open>What the environment may do: \<open>outside\<close> says how other code changes the state, \<open>answers\<close> what may arrive.\<close>

definition permitted ::
  "('s \<Rightarrow> 's \<Rightarrow> bool) \<Rightarrow> ('s \<Rightarrow> 'k \<Rightarrow> 'l \<Rightarrow> 'w \<Rightarrow> bool) \<Rightarrow> ('s, 'k, 'w) event \<Rightarrow> ('s, 'k, 'l, 'r) sched \<Rightarrow> bool" where
  "permitted outside answers ev c =
     (case ev of
        Outside s \<Rightarrow> outside (shared c) s
      | Answer t w \<Rightarrow> (case tasks c t of Holding k l \<Rightarrow> answers (shared c) k l w | _ \<Rightarrow> False)
      | _ \<Rightarrow> True)"

definition co_init :: "'s \<Rightarrow> ('s, 'k, 'l, 'r) sched" where
  "co_init s = \<lparr>shared = s, tasks = (\<lambda>_. Unstarted), owner = (\<lambda>_. None)\<rparr>"

inductive co_reachable ::
  "('s, 'k, 'l, 'w, 'r) coroutine \<Rightarrow> ('s \<Rightarrow> 's \<Rightarrow> bool) \<Rightarrow> ('s \<Rightarrow> 'k \<Rightarrow> 'l \<Rightarrow> 'w \<Rightarrow> bool) \<Rightarrow>
    ('s, 'k, 'l, 'r) sched \<Rightarrow> ('s, 'k, 'l, 'r) sched \<Rightarrow> bool" for co outside answers c0 where
  start: "co_reachable co outside answers c0 c0"
| step: "\<lbrakk>co_reachable co outside answers c0 c; permitted outside answers ev c; co_step co ev c = Some c'\<rbrakk> \<Longrightarrow>
    co_reachable co outside answers c0 c'"

lemma co_reachable_trans:
  assumes "co_reachable co outside answers b c" "co_reachable co outside answers a b"
  shows "co_reachable co outside answers a c"
  using assms by (induction rule: co_reachable.induct) (auto intro: co_reachable.step)

section \<open>Mutual exclusion\<close>

definition owners_ok :: "('s, 'k, 'l, 'w, 'r) coroutine \<Rightarrow> ('s, 'k, 'l, 'r) sched \<Rightarrow> bool" where
  "owners_ok co c \<longleftrightarrow> (\<forall>i t. owner c i = Some t \<longleftrightarrow> (\<exists>k l. tasks c t = Holding k l \<and> co_lock co k = i))"

lemmas sched_upd = set_task_def set_owner_def

lemma set_task_sel [simp]:
  "shared (set_task t p s c) = s" "tasks (set_task t p s c) = (tasks c)(t := p)" "owner (set_task t p s c) = owner c"
  by (simp_all add: set_task_def)

lemma set_owner_sel [simp]:
  "shared (set_owner i w c) = shared c" "tasks (set_owner i w c) = tasks c"
  "owner (set_owner i w c) = (owner c)(i := w)"
  by (simp_all add: set_owner_def)

lemma co_step_owners: "\<lbrakk>owners_ok co c; co_step co ev c = Some c'\<rbrakk> \<Longrightarrow> owners_ok co c'"
  by (cases ev; auto simp: owners_ok_def split: task.splits prod.splits sum.splits option.splits if_splits)
    (metis option.distinct(1) option.inject)+

lemma holding_owner: "\<lbrakk>owners_ok co c; tasks c t = Holding k l\<rbrakk> \<Longrightarrow> owner c (co_lock co k) = Some t"
  unfolding owners_ok_def by metis

lemma co_init_owners: "owners_ok co (co_init s)"
  by (simp add: owners_ok_def co_init_def)

lemma co_reachable_owners:
  assumes "co_reachable co outside answers c0 c" "owners_ok co c0"
  shows "owners_ok co c"
  using assms by (induction rule: co_reachable.induct) (auto intro: co_step_owners)

lemma owners_exclusive:
  assumes "owners_ok co c" "tasks c t = Holding k l" "tasks c t' = Holding k' l'" "co_lock co k = co_lock co k'"
  shows "t = t'"
  using holding_owner [OF assms(1,2)] holding_owner [OF assms(1,3)] assms(4) by simp

section \<open>Invariants\<close>

text \<open>
  A contract for the steps: \<open>I\<close> holds of the shared state whenever a task runs, \<open>J\<close> of what a task
  remembers while it awaits, \<open>R\<close> of the results. A step keeps what the holders of other locks remember; the first look
  and other code keep what all holders remember.
\<close>

locale guarded_coroutine =
  fixes co :: "('s, 'k, 'l, 'w, 'r) coroutine"
    and outside :: "'s \<Rightarrow> 's \<Rightarrow> bool"
    and answers :: "'s \<Rightarrow> 'k \<Rightarrow> 'l \<Rightarrow> 'w \<Rightarrow> bool"
    and I :: "'s \<Rightarrow> bool"
    and J :: "'s \<Rightarrow> 'k \<Rightarrow> 'l \<Rightarrow> bool"
    and R :: "'k \<Rightarrow> 'r \<Rightarrow> bool"
  assumes first: "\<And>s k x s'. \<lbrakk>I s; co_first co k s = (x, s')\<rbrakk> \<Longrightarrow>
      I s' \<and> (\<forall>k' l. J s k' l \<longrightarrow> J s' k' l) \<and> (\<forall>r. x = Some r \<longrightarrow> R k r)"
    and enter: "\<And>s k x s'. \<lbrakk>I s; co_enter co k s = (x, s')\<rbrakk> \<Longrightarrow>
      I s' \<and> (\<forall>k' l. co_lock co k' \<noteq> co_lock co k \<longrightarrow> J s k' l \<longrightarrow> J s' k' l) \<and> (\<forall>l. x = Inr l \<longrightarrow> J s' k l)
      \<and> (\<forall>r. x = Inl r \<longrightarrow> R k r)"
    and resume: "\<And>s k l w x s'. \<lbrakk>I s; J s k l; answers s k l w; co_resume co k l w s = (x, s')\<rbrakk> \<Longrightarrow>
      I s' \<and> (\<forall>k' l'. co_lock co k' \<noteq> co_lock co k \<longrightarrow> J s k' l' \<longrightarrow> J s' k' l') \<and> (\<forall>l'. x = Inr l' \<longrightarrow> J s' k l')
      \<and> (\<forall>r. x = Inl r \<longrightarrow> R k r)"
    and other: "\<And>s s'. \<lbrakk>I s; outside s s'\<rbrakk> \<Longrightarrow> I s' \<and> (\<forall>k l. J s k l \<longrightarrow> J s' k l)"
begin

definition sched_inv :: "('s, 'k, 'l, 'r) sched \<Rightarrow> bool" where
  "sched_inv c \<longleftrightarrow> owners_ok co c \<and> I (shared c) \<and> (\<forall>t k l. tasks c t = Holding k l \<longrightarrow> J (shared c) k l)
     \<and> (\<forall>t k r. tasks c t = Finished k r \<longrightarrow> R k r)"

lemma holding_other_lock:
  assumes "owners_ok co c" "tasks c t' = Holding k' l'" "owner c (co_lock co k) = None \<or> owner c (co_lock co k) = Some t"
    "t' \<noteq> t"
  shows "co_lock co k' \<noteq> co_lock co k"
  using holding_owner [OF assms(1,2)] assms(3,4) by auto

lemma step_inv:
  assumes inv: "sched_inv c" and perm: "permitted outside answers ev c" and step: "co_step co ev c = Some c'"
  shows "sched_inv c'"
proof -
  have own: "owners_ok co c'" using co_step_owners [OF _ step] inv by (simp add: sched_inv_def)
  have cur: "owners_ok co c" "I (shared c)" "\<And>t k l. tasks c t = Holding k l \<Longrightarrow> J (shared c) k l"
    "\<And>t k r. tasks c t = Finished k r \<Longrightarrow> R k r"
    using inv by (auto simp: sched_inv_def)
  have "I (shared c') \<and> (\<forall>t k l. tasks c' t = Holding k l \<longrightarrow> J (shared c') k l)
      \<and> (\<forall>t k r. tasks c' t = Finished k r \<longrightarrow> R k r)"
  proof (cases ev)
    case (Start t k)
    obtain x s where f: "co_first co k (shared c) = (x, s)" by fastforce
    from first [OF cur(2) f] cur(3,4) show ?thesis
      using step f Start by (auto split: if_splits option.splits)
  next
    case (Acquire t)
    then obtain k where k: "tasks c t = Waiting k" "owner c (co_lock co k) = None"
      using step by (auto split: task.splits if_splits)
    obtain x s where f: "co_enter co k (shared c) = (x, s)" by fastforce
    from enter [OF cur(2) f] cur(3,4) holding_other_lock [OF cur(1), of _ _ _ k t] show ?thesis
      using step f Acquire k by (cases x) (auto split: if_splits)
  next
    case (Answer t w)
    then obtain k l where k: "tasks c t = Holding k l" using step by (auto split: task.splits)
    then have own_t: "owner c (co_lock co k) = Some t" by (rule holding_owner [OF cur(1)])
    obtain x s where f: "co_resume co k l w (shared c) = (x, s)" by fastforce
    have "answers (shared c) k l w" using perm Answer k by (simp add: permitted_def)
    from resume [OF cur(2) cur(3) [OF k] this f] cur(3,4) holding_other_lock [OF cur(1), of _ _ _ k t] show ?thesis
      using step f Answer k own_t by (cases x) (auto split: if_splits)
  next
    case (Cancel t)
    then show ?thesis using step cur by (auto split: task.splits if_splits)
  next
    case (Outside s)
    then show ?thesis using step cur other perm by (auto simp: permitted_def)
  qed
  then show ?thesis using own by (simp add: sched_inv_def)
qed

lemma reachable_inv:
  assumes "co_reachable co outside answers c0 c" "sched_inv c0"
  shows "sched_inv c"
  using assms by (induction rule: co_reachable.induct) (auto intro: step_inv)

lemma init_inv: "I s \<Longrightarrow> sched_inv (co_init s)"
  by (simp add: sched_inv_def co_init_owners) (simp add: co_init_def)

end

section \<open>Progress\<close>

text \<open>A task that is neither unstarted nor over.\<close>

definition pending :: "('s, 'k, 'l, 'r) sched \<Rightarrow> nat set" where
  "pending c = {t. case tasks c t of Waiting k \<Rightarrow> True | Holding k l \<Rightarrow> True | _ \<Rightarrow> False}"

lemma pending_iff [simp]:
  "t \<in> pending c \<longleftrightarrow> (\<exists>k. tasks c t = Waiting k) \<or> (\<exists>k l. tasks c t = Holding k l)"
  by (simp add: pending_def split: task.split)

lemma finite_pending:
  assumes "co_reachable co outside answers c0 c" "finite (pending c0)"
  shows "finite (pending c)"
  using assms
proof (induction rule: co_reachable.induct)
  case (step c ev c')
  have "pending c' \<subseteq> (case ev of Start t k \<Rightarrow> insert t (pending c) | _ \<Rightarrow> pending c)"
    using step.hyps(3)
    by (cases ev) (auto split: task.splits prod.splits sum.splits option.splits if_splits)
  then show ?case
    using step.IH step.prems by (cases ev) (auto intro: finite_subset)
qed

text \<open>
  A network that answers: some answer is always possible, and a coroutine awaits finitely often. Then
  no state is a deadlock: the pending tasks can be run to their ends one after the other.
\<close>

locale answered_coroutine = guarded_coroutine +
  fixes rank :: "'b \<Rightarrow> 'c \<Rightarrow> nat"
  assumes answered: "\<And>s k l. \<lbrakk>I s; J s k l\<rbrakk> \<Longrightarrow> \<exists>w. answers s k l w"
    and shorter: "\<And>s k l w l' s'. co_resume co k l w s = (Inr l', s') \<Longrightarrow> rank k l' < rank k l"
begin

lemma finish_after:
  assumes "co_reachable co outside answers a b" "tasks b = (tasks a)(t := p)"
    "\<exists>c' r. co_reachable co outside answers b c' \<and> tasks c' = (tasks b)(t := Finished k r)"
  shows "\<exists>c' r. co_reachable co outside answers a c' \<and> tasks c' = (tasks a)(t := Finished k r)"
  using assms(3) co_reachable_trans [OF _ assms(1)] by (auto simp: assms(2))

lemma finish_holder:
  "\<lbrakk>sched_inv c; tasks c t = Holding k l\<rbrakk> \<Longrightarrow>
     \<exists>c' r. co_reachable co outside answers c c' \<and> tasks c' = (tasks c)(t := Finished k r)"
proof (induction "rank k l" arbitrary: c l rule: less_induct)
  case less
  obtain w where w: "answers (shared c) k l w"
    using answered less.prems unfolding sched_inv_def by blast
  obtain x s where f: "co_resume co k l w (shared c) = (x, s)" by fastforce
  have perm: "permitted outside answers (Answer t w) c" using w less.prems by (simp add: permitted_def)
  show ?case
  proof (cases x)
    case (Inl r)
    let ?c = "set_owner (co_lock co k) None (set_task t (Finished k r) s c)"
    have "co_step co (Answer t w) c = Some ?c" using f Inl less.prems by simp
    then have "co_reachable co outside answers c ?c" by (blast intro: co_reachable.intros perm)
    moreover have "tasks ?c = (tasks c)(t := Finished k r)" by simp
    ultimately show ?thesis by blast
  next
    case (Inr l')
    let ?c = "set_task t (Holding k l') s c"
    have st: "co_step co (Answer t w) c = Some ?c" using f Inr less.prems by simp
    have "rank k l' < rank k l" using shorter f Inr by blast
    moreover have "tasks ?c t = Holding k l'" by simp
    ultimately have "\<exists>c' r. co_reachable co outside answers ?c c' \<and> tasks c' = (tasks ?c)(t := Finished k r)"
      using less.hyps [of l' ?c] step_inv [OF less.prems(1) perm st] by blast
    moreover have "co_reachable co outside answers c ?c" by (blast intro: co_reachable.intros perm st)
    ultimately show ?thesis by (intro finish_after [of c ?c t "Holding k l'"]) simp_all
  qed
qed

lemma finish_waiting:
  assumes "sched_inv c" "tasks c t = Waiting k" "owner c (co_lock co k) = None"
  shows "\<exists>c' r. co_reachable co outside answers c c' \<and> tasks c' = (tasks c)(t := Finished k r)"
proof -
  obtain x s where f: "co_enter co k (shared c) = (x, s)" by fastforce
  have perm: "permitted outside answers (Acquire t) c" by (simp add: permitted_def)
  show ?thesis
  proof (cases x)
    case (Inl r)
    let ?c = "set_task t (Finished k r) s c"
    have "co_step co (Acquire t) c = Some ?c" using f Inl assms by simp
    then have "co_reachable co outside answers c ?c" by (blast intro: co_reachable.intros perm)
    moreover have "tasks ?c = (tasks c)(t := Finished k r)" by simp
    ultimately show ?thesis by blast
  next
    case (Inr l)
    let ?c = "set_owner (co_lock co k) (Some t) (set_task t (Holding k l) s c)"
    have st: "co_step co (Acquire t) c = Some ?c" using f Inr assms by simp
    then have "co_reachable co outside answers c ?c" by (blast intro: co_reachable.intros perm)
    moreover have "tasks ?c t = Holding k l" by simp
    ultimately show ?thesis
      using finish_holder [OF step_inv [OF assms(1) perm st], of t k l]
      by (intro finish_after [of c ?c t "Holding k l"]) simp_all
  qed
qed

lemma finish_one:
  assumes inv: "sched_inv c" and t: "t \<in> pending c"
  shows "\<exists>c' u. co_reachable co outside answers c c' \<and> u \<in> pending c \<and> pending c' = pending c - {u}"
proof -
  have ex: "\<exists>u k. (\<exists>l. tasks c u = Holding k l) \<or> (tasks c u = Waiting k \<and> owner c (co_lock co k) = None)"
  proof (cases "\<exists>k l. tasks c t = Holding k l")
    case False
    then obtain k where k: "tasks c t = Waiting k" using t by auto
    show ?thesis
    proof (cases "owner c (co_lock co k)")
      case (Some u)
      then show ?thesis using inv unfolding sched_inv_def owners_ok_def by metis
    qed (use k in blast)
  qed blast
  then obtain u k c' r where c': "co_reachable co outside answers c c'" "tasks c' = (tasks c)(u := Finished k r)"
    "u \<in> pending c"
    using finish_holder [OF inv] finish_waiting [OF inv] by (metis pending_iff)
  then have "pending c' = pending c - {u}" by (auto split: if_splits)
  then show ?thesis using c' by blast
qed

lemma all_finish:
  assumes "sched_inv c" "finite (pending c)"
  shows "\<exists>c'. co_reachable co outside answers c c' \<and> pending c' = {}"
  using assms
proof (induction "card (pending c)" arbitrary: c rule: less_induct)
  case less
  show ?case
  proof (cases "pending c = {}")
    case True
    then show ?thesis by (blast intro: co_reachable.start)
  next
    case False
    then obtain c' u where c': "co_reachable co outside answers c c'" "u \<in> pending c" "pending c' = pending c - {u}"
      using finish_one [OF less.prems(1)] by blast
    then have "card (pending c') < card (pending c)" using less.prems(2) by (metis card_Diff1_less)
    then show ?thesis
      using less.hyps [OF _ reachable_inv [OF c'(1) less.prems(1)]] c' less.prems(2)
      by (metis co_reachable_trans finite_Diff)
  qed
qed

end

section \<open>Runs\<close>

text \<open>A run is a list of events; it is permitted when every event is, in the state it meets.\<close>

fun co_run ::
  "('s, 'k, 'l, 'w, 'r) coroutine \<Rightarrow> ('s, 'k, 'w) event list \<Rightarrow> ('s, 'k, 'l, 'r) sched \<Rightarrow> ('s, 'k, 'l, 'r) sched option" where
  "co_run co [] c = Some c"
| "co_run co (ev # evs) c = (case co_step co ev c of None \<Rightarrow> None | Some c' \<Rightarrow> co_run co evs c')"

fun permitted_run ::
  "('s, 'k, 'l, 'w, 'r) coroutine \<Rightarrow> ('s \<Rightarrow> 's \<Rightarrow> bool) \<Rightarrow> ('s \<Rightarrow> 'k \<Rightarrow> 'l \<Rightarrow> 'w \<Rightarrow> bool) \<Rightarrow> ('s, 'k, 'w) event list \<Rightarrow>
    ('s, 'k, 'l, 'r) sched \<Rightarrow> bool" where
  "permitted_run co outside answers [] c = True"
| "permitted_run co outside answers (ev # evs) c =
     (permitted outside answers ev c \<and>
      (case co_step co ev c of None \<Rightarrow> False | Some c' \<Rightarrow> permitted_run co outside answers evs c'))"

lemma run_reachable:
  "\<lbrakk>co_run co evs c = Some c'; permitted_run co outside answers evs c; co_reachable co outside answers c0 c\<rbrakk> \<Longrightarrow>
     co_reachable co outside answers c0 c'"
  by (induction co evs c rule: co_run.induct) (auto split: option.splits intro: co_reachable.step)

lemma permitted_run_mono:
  "\<lbrakk>permitted_run co outside answers evs c; \<And>s s'. outside s s' \<Longrightarrow> outside' s s'\<rbrakk> \<Longrightarrow> permitted_run co outside' answers evs c"
  by (induction co evs c rule: co_run.induct)
    (auto simp: permitted_def simp del: co_step.simps split: event.splits option.splits)

end
