(* ===== verification/Aio_Client.thy ===== *)
theory Aio_Client
  imports Async_Tasks Exceptions
begin

text \<open>
  The client that all tasks of \<open>aio\<close> share (\<open>aio/http_client.py\<close>): made on first use, closed by
  \<open>close_async_http_client\<close>, which looks, takes the cleanup lock, looks again, and awaits the closing before it forgets the
  client. Between its steps other tasks and threads ask for the client. Clients are numbered in the order they are made.
\<close>

section \<open>The state\<close>

record shared_clients =
  sc_current :: "nat option"
  sc_made :: nat
  sc_closed :: "nat set"

definition no_clients :: shared_clients where
  "no_clients = \<lparr>sc_current = None, sc_made = 0, sc_closed = {}\<rparr>"

text \<open>\<open>get_async_http_client\<close>: the creation lock makes the second look and the creation one step.\<close>

definition sc_get :: "shared_clients \<Rightarrow> nat \<times> shared_clients" where
  "sc_get s =
     (case sc_current s of
        Some i \<Rightarrow> (i, s)
      | None \<Rightarrow> (sc_made s, s\<lparr>sc_current := Some (sc_made s), sc_made := Suc (sc_made s)\<rparr>))"

definition sc_reset :: "shared_clients \<Rightarrow> shared_clients" where
  "sc_reset s = s\<lparr>sc_current := None\<rparr>"

section \<open>Closing\<close>

definition close_first :: "unit \<Rightarrow> shared_clients \<Rightarrow> unit res option \<times> shared_clients" where
  "close_first _ s = (if sc_current s = None then Some (Inr ()) else None, s)"

definition close_enter :: "unit \<Rightarrow> shared_clients \<Rightarrow> (unit res + nat) \<times> shared_clients" where
  "close_enter _ s = (case sc_current s of None \<Rightarrow> (Inl (Inr ()), s) | Some i \<Rightarrow> (Inr i, s))"

text \<open>When the closing ends with an exception the client is not forgotten.\<close>

definition close_resume :: "unit \<Rightarrow> nat \<Rightarrow> unit res \<Rightarrow> shared_clients \<Rightarrow> (unit res + nat) \<times> shared_clients" where
  "close_resume _ i w s =
     (case w of
        Inl e \<Rightarrow> (Inl (Inl e), s)
      | Inr _ \<Rightarrow> (Inl (Inr ()), s\<lparr>sc_closed := insert i (sc_closed s), sc_current := None\<rparr>))"

definition close_async_http_client :: "(shared_clients, unit, nat, unit res, unit res) coroutine" where
  "close_async_http_client =
     \<lparr>co_first = close_first, co_enter = close_enter, co_resume = close_resume, co_lock = (\<lambda>_. 0)\<rparr>"

definition sc_outside :: "shared_clients \<Rightarrow> shared_clients \<Rightarrow> bool" where
  "sc_outside s s' \<longleftrightarrow> s' = snd (sc_get s)"

definition sc_answers :: "shared_clients \<Rightarrow> unit \<Rightarrow> nat \<Rightarrow> unit res \<Rightarrow> bool" where
  "sc_answers s k i w \<longleftrightarrow> True"

section \<open>No client is lost\<close>

definition sc_inv :: "shared_clients \<Rightarrow> bool" where
  "sc_inv s \<longleftrightarrow> (\<forall>i < sc_made s. i \<in> sc_closed s \<or> sc_current s = Some i) \<and>
     (\<forall>i. sc_current s = Some i \<longrightarrow> i < sc_made s \<and> i \<notin> sc_closed s) \<and> (\<forall>i \<in> sc_closed s. i < sc_made s)"

definition closing :: "shared_clients \<Rightarrow> unit \<Rightarrow> nat \<Rightarrow> bool" where
  "closing s _ i \<longleftrightarrow> sc_current s = Some i"

lemmas close_defs = close_async_http_client_def close_first_def close_enter_def close_resume_def

lemma sc_get_inv: "sc_inv s \<Longrightarrow> sc_inv (snd (sc_get s))"
  by (auto simp: sc_inv_def sc_get_def less_Suc_eq split: option.splits)

lemma sc_get_current: "sc_current (snd (sc_get s)) = Some (fst (sc_get s))"
  by (simp add: sc_get_def split: option.split)

interpretation shared_close: answered_coroutine close_async_http_client sc_outside sc_answers sc_inv closing "\<lambda>_ _. True" "\<lambda>_ _. 0"
proof unfold_locales
  fix s k x s'
  assume "sc_inv s" "co_first close_async_http_client k s = (x, s')"
  then show "sc_inv s' \<and> (\<forall>k' l. closing s k' l \<longrightarrow> closing s' k' l) \<and> (\<forall>r. x = Some r \<longrightarrow> True)"
    by (auto simp: close_defs)
next
  fix s k x s'
  assume "sc_inv s" "co_enter close_async_http_client k s = (x, s')"
  then show "sc_inv s' \<and> (\<forall>k' l. co_lock close_async_http_client k' \<noteq> co_lock close_async_http_client k \<longrightarrow> closing s k' l \<longrightarrow> closing s' k' l)
      \<and> (\<forall>l. x = Inr l \<longrightarrow> closing s' k l) \<and> (\<forall>r. x = Inl r \<longrightarrow> True)"
    by (auto simp: close_defs closing_def split: option.splits)
next
  fix s k l w x s'
  assume "sc_inv s" "closing s k l" "sc_answers s k l w" "co_resume close_async_http_client k l w s = (x, s')"
  then show "sc_inv s' \<and> (\<forall>k' l'. co_lock close_async_http_client k' \<noteq> co_lock close_async_http_client k \<longrightarrow> closing s k' l' \<longrightarrow> closing s' k' l')
      \<and> (\<forall>l'. x = Inr l' \<longrightarrow> closing s' k l') \<and> (\<forall>r. x = Inl r \<longrightarrow> True)"
    by (auto simp: close_defs closing_def sc_inv_def split: sum.splits)
next
  fix s s'
  assume "sc_inv s" "sc_outside s s'"
  then show "sc_inv s' \<and> (\<forall>k l. closing s k l \<longrightarrow> closing s' k l)"
    using sc_get_inv [of s] by (auto simp: sc_outside_def closing_def sc_get_def split: option.splits)
next
  fix s k l
  show "\<exists>w. sc_answers s k l w" by (simp add: sc_answers_def)
next
  fix s k l w l' s'
  assume "co_resume close_async_http_client k l w s = (Inr l', s')"
  then show "(0 :: nat) < 0" by (auto simp: close_defs split: sum.splits)
qed

lemma no_clients_inv: "sc_inv no_clients"
  by (simp add: sc_inv_def no_clients_def)

lemma sc_reachable:
  "co_reachable close_async_http_client sc_outside sc_answers (co_init no_clients) c \<Longrightarrow> shared_close.sched_inv c"
  using shared_close.reachable_inv shared_close.init_inv [OF no_clients_inv] by blast


text \<open>
  While the closing is awaited the client is still handed out, to be closed under its new user; and when the closing is
  cancelled or fails, the half-closed client stays the current one.
\<close>

theorem closing_client_handed_out:
  assumes "co_reachable close_async_http_client sc_outside sc_answers (co_init no_clients) c" "tasks c t = Holding k i"
  shows "fst (sc_get (shared c)) = i"
    and "\<exists>c'. co_step close_async_http_client (Answer t (Inr ())) c = Some c' \<and> i \<in> sc_closed (shared c')"
    and "\<exists>c'. co_step close_async_http_client (Cancel t) c = Some c' \<and> fst (sc_get (shared c')) = i"
proof -
  have cur: "sc_current (shared c) = Some i"
    using sc_reachable [OF assms(1)] assms(2) by (auto simp: shared_close.sched_inv_def closing_def)
  then show "fst (sc_get (shared c)) = i" by (simp add: sc_get_def)
  show "\<exists>c'. co_step close_async_http_client (Answer t (Inr ())) c = Some c' \<and> i \<in> sc_closed (shared c')"
    "\<exists>c'. co_step close_async_http_client (Cancel t) c = Some c' \<and> fst (sc_get (shared c')) = i"
    using assms(2) cur by (simp_all add: close_defs sc_get_def)
qed

text \<open>A run: a task starts to close, another asks for the client, and a third asks once the first is done.\<close>

definition close_events :: "(shared_clients, unit, unit res) event list" where
  "close_events = [Start 0 (), Acquire 0, Outside (snd (sc_get (snd (sc_get no_clients)))), Answer 0 (Inr ())]"

lemma close_run:
  "map_option (\<lambda>c. (sc_closed (shared c), fst (sc_get (shared c))))
     (co_run close_async_http_client (Outside (snd (sc_get no_clients)) # close_events) (co_init no_clients)) = Some ({0}, 1)"
  by code_simp


end
