(* ===== verification/Fapi_Jar.thy ===== *)
theory Fapi_Jar
  imports Client_Auth
begin

text \<open>
  Secured authorization requests: the signed request objects of \<open>core/jar.py\<close> and the checks of the
  FAPI 2.0 security profile in \<open>core/fapi.py\<close>. PyJWT's \<open>encode\<close>, the clock and \<open>uuid4\<close> are the
  parameters of \<open>Client_Auth\<close>; the values of a discovery document are any JSON.
\<close>

section \<open>Request objects\<close>

text \<open>\<open>_RequestParams\<close>, and the further arguments of \<open>create_request_object\<close>.\<close>

record request_params =
  jq_private_key :: text_or_bytes
  jq_algorithm :: string
  jq_client_id :: string
  jq_audience :: string
  jq_redirect_uri :: string
  jq_response_type :: string
  jq_lifetime :: int
  jq_code_challenge :: "string option"
  jq_code_challenge_method :: "string option"
  jq_kid :: "string option"
  jq_extra_claims :: "json dict"

record jar_request = request_params +
  jq_scope :: string
  jq_state :: "string option"
  jq_nonce :: "string option"

definition RESERVED_CLAIMS :: "string list" where
  "RESERVED_CLAIMS = [''iss'', ''aud'', ''iat'', ''nbf'', ''exp'', ''jti'', ''client_id'', ''response_type'',
     ''redirect_uri'', ''scope'', ''state'', ''nonce'', ''code_challenge'', ''code_challenge_method'']"

definition empty_value :: "text_or_bytes \<Rightarrow> bool" where
  "empty_value v = (case v of Text s \<Rightarrow> s = [] | Bytes b \<Rightarrow> b = [])"

definition claim_collisions :: "json dict \<Rightarrow> string list" where
  "claim_collisions extra = sort (filter (has_key extra) RESERVED_CLAIMS)"

definition validate_request_params :: "'a request_params_scheme \<Rightarrow> unit res" where
  "validate_request_params r =
     bnd (for_each (\<lambda>(name, v). guard_raise (empty_value v) (raise_cls ValueError (name @ '' must not be empty'')))
            [(''private_key'', jq_private_key r), (''client_id'', Text (jq_client_id r)), (''audience'', Text (jq_audience r)),
             (''redirect_uri'', Text (jq_redirect_uri r)), (''response_type'', Text (jq_response_type r))]) (\<lambda>_.
     bnd (validate_signing_algorithm (jq_algorithm r) ''JAR'') (\<lambda>_.
     bnd (guard_raise (jq_lifetime r \<le> 0)
            (raise_cls ValueError (''lifetime must be positive, got '' @ show_int (jq_lifetime r)))) (\<lambda>_.
     bnd (guard_raise ((jq_code_challenge r = None) \<noteq> (jq_code_challenge_method r = None))
            (raise_cls ValueError (''code_challenge and code_challenge_method must both be ''
               @ ''provided or both omitted''))) (\<lambda>_.
     bnd (for_each (\<lambda>(name, v). guard_raise (v = Some [])
                                 (raise_cls ValueError (name @ '' must be non-empty when provided'')))
            [(''code_challenge'', jq_code_challenge r), (''code_challenge_method'', jq_code_challenge_method r),
             (''kid'', jq_kid r)]) (\<lambda>_.
     guard_raise (claim_collisions (jq_extra_claims r) \<noteq> [])
       (raise_cls ValueError (''extra_claims cannot override reserved claims: ''
          @ fmt_str_list (claim_collisions (jq_extra_claims r)))))))))"

definition optional_claims :: "jar_request \<Rightarrow> json dict" where
  "optional_claims r =
     filter (\<lambda>kv. snd kv \<noteq> JNull)
       [(''state'', jopt (jq_state r)), (''nonce'', jopt (jq_nonce r)), (''code_challenge'', jopt (jq_code_challenge r)),
        (''code_challenge_method'', jopt (jq_code_challenge_method r))]"

definition request_claims :: "jar_request \<Rightarrow> int \<Rightarrow> string \<Rightarrow> json dict" where
  "request_claims r now jti =
     dict_update
       (dict_update
         [(''iss'', JStr (jq_client_id r)), (''aud'', JStr (jq_audience r)), (''iat'', JInt now), (''nbf'', JInt now),
          (''exp'', JInt (now + jq_lifetime r)), (''jti'', JStr jti), (''client_id'', JStr (jq_client_id r)),
          (''response_type'', JStr (jq_response_type r)), (''redirect_uri'', JStr (jq_redirect_uri r)),
          (''scope'', JStr (jq_scope r))]
         (optional_claims r))
       (jq_extra_claims r)"

definition request_headers :: "string option \<Rightarrow> json dict" where
  "request_headers kid =
     (case kid of None \<Rightarrow> [(''typ'', JStr ''oauth-authz-req+jwt'')]
      | Some k \<Rightarrow> dict_set ''kid'' (JStr k) [(''typ'', JStr ''oauth-authz-req+jwt'')])"

definition create_request_object :: "signing_env \<Rightarrow> nat \<Rightarrow> jar_request \<Rightarrow> string res" where
  "create_request_object S n r =
     bnd (validate_request_params r) (\<lambda>_.
       se_encode S (request_claims r (truncate_rat (se_time S n)) (se_uuid4 S n))
         (jq_private_key r) (jq_algorithm r) (request_headers (jq_kid r)))"

definition jar_params :: "string \<Rightarrow> string \<Rightarrow> string option \<Rightarrow> string option \<Rightarrow> string dict" where
  "jar_params client_id request_object scp response_type =
     add_param ''response_type'' response_type
       (add_param ''scope'' scp [(''client_id'', client_id), (''request'', request_object)])"

definition build_jar_authorization_url ::
  "string \<Rightarrow> string \<Rightarrow> string \<Rightarrow> string option \<Rightarrow> string option \<Rightarrow> string res" where
  "build_jar_authorization_url authorization_endpoint client_id request_object scp response_type =
     bnd (urlparse authorization_endpoint) (\<lambda>parsed.
       Inr (authorization_endpoint @ (if query parsed \<noteq> [] then ''&'' else ''?'')
            @ urlencode (jar_params client_id request_object scp response_type)))"

section \<open>The FAPI 2.0 checks\<close>

definition FAPI2_ALLOWED_SIGNING_ALGORITHMS :: "string list" where
  "FAPI2_ALLOWED_SIGNING_ALGORITHMS = [''ES256'', ''PS256'']"

definition FAPI2_ALLOWED_AUTH_METHODS :: "string list" where
  "FAPI2_ALLOWED_AUTH_METHODS = [''private_key_jwt'', ''self_signed_tls_client_auth'', ''tls_client_auth'']"

definition FAPI2_REQUIRED_PKCE_METHOD :: string where
  "FAPI2_REQUIRED_PKCE_METHOD = ''S256''"

definition FAPI2_REQUIRED_RESPONSE_TYPE :: string where
  "FAPI2_REQUIRED_RESPONSE_TYPE = ''code''"

record fapi_result =
  violations :: "string list"
  is_compliant :: bool

definition fapi_result_of :: "string list \<Rightarrow> fapi_result" where
  "fapi_result_of vs = \<lparr>violations = vs, is_compliant = (length vs = 0)\<rparr>"

text \<open>A violation is appended to the list when its condition holds.\<close>

definition violation :: "bool \<Rightarrow> string \<Rightarrow> string list" where
  "violation c msg = (if c then [msg] else [])"

definition redirect_violations :: "json \<Rightarrow> string list res" where
  "redirect_violations redirect_uri =
     (case redirect_uri of
        JStr u \<Rightarrow>
          bnd (urlparse (py_strip u)) (\<lambda>p.
            Inr (if py_lower (scheme p) \<noteq> ''https'' then [''redirect_uri must use HTTPS, got '' @ sq u]
                 else violation (\<not> opt_truthy (url_hostname p)) (''redirect_uri must have a host, got '' @ sq u)))
      | _ \<Rightarrow> Inr [''redirect_uri must be a string''])"

definition validate_fapi_authorization_request ::
  "string \<Rightarrow> string option \<Rightarrow> string option \<Rightarrow> json \<Rightarrow> bool \<Rightarrow> string option \<Rightarrow> fapi_result res" where
  "validate_fapi_authorization_request response_type code_challenge code_challenge_method redirect_uri use_par algorithm =
     bnd (redirect_violations redirect_uri) (\<lambda>redirect. Inr (fapi_result_of
       (violation (response_type \<noteq> FAPI2_REQUIRED_RESPONSE_TYPE)
          (''response_type must be 'code', got '' @ sq response_type)
        @ violation (case code_challenge of None \<Rightarrow> True | Some c \<Rightarrow> py_strip c = []) ''PKCE code_challenge is required''
        @ (case code_challenge_method of
             None \<Rightarrow> [''PKCE code_challenge_method is required'']
           | Some m \<Rightarrow> violation (m \<noteq> FAPI2_REQUIRED_PKCE_METHOD) (''PKCE method must be 'S256', got '' @ sq m))
        @ violation (\<not> use_par) ''PAR (Pushed Authorization Requests) is required''
        @ redirect
        @ (case algorithm of
             None \<Rightarrow> []
           | Some a \<Rightarrow> violation (a \<notin> set FAPI2_ALLOWED_SIGNING_ALGORITHMS)
               (''Algorithm '' @ sq a @ '' not allowed; use '' @ py_join '', '' FAPI2_ALLOWED_SIGNING_ALGORITHMS)))))"

definition validate_fapi_client_config :: "string option \<Rightarrow> bool \<Rightarrow> bool \<Rightarrow> fapi_result" where
  "validate_fapi_client_config auth_method use_dpop use_mtls =
     fapi_result_of
       ((case auth_method of
           None \<Rightarrow> [''Client authentication is required (confidential client)'']
         | Some m \<Rightarrow> violation (m \<notin> set FAPI2_ALLOWED_AUTH_METHODS)
             (''Auth method '' @ sq m @ '' is not FAPI 2.0 compliant; use '' @ py_join '', '' FAPI2_ALLOWED_AUTH_METHODS))
        @ violation (\<not> use_dpop \<and> \<not> use_mtls) ''Sender-constrained tokens required (enable DPoP or mTLS)'')"

text \<open>\<open>set(values) & allowed\<close> is empty; the set raises on a member that cannot be hashed.\<close>

definition set_disjoint :: "json \<Rightarrow> string list \<Rightarrow> bool res" where
  "set_disjoint j allowed =
     bnd (json_iter j) (\<lambda>xs.
     bnd (for_each (\<lambda>x. guard_raise (unhashable x) (raise_cls TypeError (''unhashable type: '' @ sq (type_name x)))) xs) (\<lambda>_.
       Inr (\<not> list_ex (\<lambda>x. json_in x allowed) xs)))"

definition unless_absent :: "json \<Rightarrow> string \<Rightarrow> string \<Rightarrow> string list res" where
  "unless_absent j wanted msg =
     (if j = JNull then Inr [] else bnd (json_contains j wanted) (\<lambda>present. Inr (violation (\<not> present) msg)))"

definition advertised :: "json \<Rightarrow> string list \<Rightarrow> string \<Rightarrow> string \<Rightarrow> string list res" where
  "advertised j allowed absent unsupported =
     (if j = JNull then Inr [absent] else bnd (set_disjoint j allowed) (\<lambda>none. Inr (violation none unsupported)))"

definition validate_fapi_discovery :: "disco_response \<Rightarrow> fapi_result res" where
  "validate_fapi_discovery d =
     (if \<not> d_is_successful d then Inr (fapi_result_of [''Discovery document fetch failed''])
      else
        bnd (disco_get d ''grant_types_supported'') (\<lambda>grants.
        bnd (unless_absent grants ''authorization_code''
               ''Server does not support authorization_code grant type'') (\<lambda>v1.
        bnd (disco_get d ''response_types_supported'') (\<lambda>response_types.
        bnd (unless_absent response_types ''code''
               (''Server does not support 'code' response type '' @ ''(authorization code flow required)'')) (\<lambda>v2.
        bnd (disco_get d ''token_endpoint_auth_methods_supported'') (\<lambda>auth_methods.
        bnd (advertised auth_methods FAPI2_ALLOWED_AUTH_METHODS
               (''token_endpoint_auth_methods_supported not advertised; ''
                @ ''RFC 8414 default is client_secret_basic, which FAPI 2.0 prohibits'')
               (''Server does not support FAPI-compliant client auth '' @ ''(private_key_jwt or tls_client_auth)'')) (\<lambda>v3.
        bnd (disco_get d ''id_token_signing_alg_values_supported'') (\<lambda>algs.
        bnd (advertised algs FAPI2_ALLOWED_SIGNING_ALGORITHMS
               (''id_token_signing_alg_values_supported not advertised; ''
                @ ''OIDC Discovery default is RS256, which FAPI 2.0 prohibits'')
               (''Server does not support FAPI-compliant signing algorithms (''
                @ py_join '', '' FAPI2_ALLOWED_SIGNING_ALGORITHMS @ '')'')) (\<lambda>v4.
        bnd (disco_get d ''code_challenge_methods_supported'') (\<lambda>pkce_methods.
        bnd (unless_absent pkce_methods ''S256''
               (''Server does not support S256 PKCE ''
                @ ''(FAPI 2.0 requires code_challenge_methods_supported to include S256)'')) (\<lambda>v5.
          Inr (fapi_result_of (v1 @ v2 @ v3 @ v4 @ v5)))))))))))))"

section \<open>Facts about request objects\<close>

lemma claim_collisions_none: "claim_collisions extra = [] \<longleftrightarrow> set RESERVED_CLAIMS \<inter> set (dict_keys extra) = {}"
proof -
  have "claim_collisions extra = [] \<longleftrightarrow> set (claim_collisions extra) = {}" by simp
  also have "set (claim_collisions extra) = set RESERVED_CLAIMS \<inter> set (dict_keys extra)"
    by (auto simp: claim_collisions_def has_key_iff)
  finally show ?thesis .
qed

lemma create_request_object_ok:
  "create_request_object S n r = Inr jwt \<longleftrightarrow>
     \<not> empty_value (jq_private_key r) \<and> jq_client_id r \<noteq> [] \<and> jq_audience r \<noteq> [] \<and> jq_redirect_uri r \<noteq> []
     \<and> jq_response_type r \<noteq> [] \<and> jq_algorithm r \<in> set SUPPORTED_SIGNING_ALGORITHMS \<and> 0 < jq_lifetime r
     \<and> (jq_code_challenge r = None \<longleftrightarrow> jq_code_challenge_method r = None)
     \<and> jq_code_challenge r \<noteq> Some [] \<and> jq_code_challenge_method r \<noteq> Some [] \<and> jq_kid r \<noteq> Some []
     \<and> set RESERVED_CLAIMS \<inter> set (dict_keys (jq_extra_claims r)) = {}
     \<and> se_encode S (request_claims r (truncate_rat (se_time S n)) (se_uuid4 S n)) (jq_private_key r) (jq_algorithm r)
         (request_headers (jq_kid r)) = Inr jwt"
  by (auto simp: create_request_object_def validate_request_params_def res_splits validate_signing_algorithm_def
      empty_value_def claim_collisions_none)

lemma dict_ok_optional_claims: "dict_ok (optional_claims r)"
  by (simp add: optional_claims_def dict_ok_def)

lemma optional_claims_get:
  "map_of (optional_claims r) k =
     (if k = ''state'' then map_option JStr (jq_state r) else if k = ''nonce'' then map_option JStr (jq_nonce r)
      else if k = ''code_challenge'' then map_option JStr (jq_code_challenge r)
      else if k = ''code_challenge_method'' then map_option JStr (jq_code_challenge_method r) else None)"
  by (cases "jq_state r"; cases "jq_nonce r"; cases "jq_code_challenge r"; cases "jq_code_challenge_method r")
     (auto simp: optional_claims_def jopt_def)

text \<open>What the request asks for, by claim name.\<close>

definition requested_claim :: "jar_request \<Rightarrow> int \<Rightarrow> string \<Rightarrow> string \<Rightarrow> json option" where
  "requested_claim r now jti k =
     (case map_of [(''iss'', JStr (jq_client_id r)), (''aud'', JStr (jq_audience r)), (''iat'', JInt now), (''nbf'', JInt now),
          (''exp'', JInt (now + jq_lifetime r)), (''jti'', JStr jti), (''client_id'', JStr (jq_client_id r)),
          (''response_type'', JStr (jq_response_type r)), (''redirect_uri'', JStr (jq_redirect_uri r)),
          (''scope'', JStr (jq_scope r))] k of
        Some v \<Rightarrow> Some v
      | None \<Rightarrow> if k \<in> set RESERVED_CLAIMS then map_of (optional_claims r) k else map_of (jq_extra_claims r) k)"

lemma request_claims_get:
  assumes "dict_ok (jq_extra_claims r)" "set RESERVED_CLAIMS \<inter> set (dict_keys (jq_extra_claims r)) = {}"
  shows "map_of (request_claims r now jti) k = requested_claim r now jti k"
proof (cases "k \<in> set RESERVED_CLAIMS")
  case True
  then have "map_of (jq_extra_claims r) k = None"
    using assms(2) by (auto simp: map_of_eq_None_iff)
  then show ?thesis
    using True unfolding request_claims_def requested_claim_def dict_update_get [OF assms(1)]
      dict_update_get [OF dict_ok_optional_claims]
    by (auto simp: optional_claims_get split: option.splits)
next
  case False
  then show ?thesis
    unfolding request_claims_def requested_claim_def dict_update_get [OF assms(1)] dict_update_get [OF dict_ok_optional_claims]
    by (auto simp: optional_claims_get RESERVED_CLAIMS_def split: option.splits)
qed

section \<open>Properties\<close>

text \<open>A request object says exactly what was asked for. If \<open>create_request_object\<close> returns, the signed claims
  are those of the request and no others: every reserved claim has the value of its argument, whatever the extra
  claims are, \<open>iss\<close> and \<open>client_id\<close> are the same client, every extra claim is there unchanged, the object is valid
  from the current second on and expires later, a PKCE challenge comes with its method, the header types the object and
  names a key only if one was given, and the algorithm is asymmetric.\<close>

theorem request_object_faithful:
  assumes "create_request_object S n r = Inr jwt" "dict_ok (jq_extra_claims r)"
  shows "\<exists>claims headers now.
    se_encode S claims (jq_private_key r) (jq_algorithm r) headers = Inr jwt \<and>
    now = truncate_rat (se_time S n) \<and> now < now + jq_lifetime r \<and>
    (\<forall>k. map_of claims k = requested_claim r now (se_uuid4 S n) k) \<and>
    (jq_code_challenge r = None \<longleftrightarrow> jq_code_challenge_method r = None) \<and>
    jget headers ''typ'' = JStr ''oauth-authz-req+jwt'' \<and> jget headers ''kid'' = jopt (jq_kid r) \<and>
    \<not> py_startswith (jq_algorithm r) ''HS'' \<and> jq_algorithm r \<noteq> ''none''"
proof -
  note ok = assms(1) [unfolded create_request_object_ok]
  have asym: "\<not> py_startswith (jq_algorithm r) ''HS''" "jq_algorithm r \<noteq> ''none''"
    using ok by (auto simp: SUPPORTED_SIGNING_ALGORITHMS_def py_startswith_def)
  have header: "jget (request_headers (jq_kid r)) ''typ'' = JStr ''oauth-authz-req+jwt''"
      "jget (request_headers (jq_kid r)) ''kid'' = jopt (jq_kid r)"
    by (simp_all add: request_headers_def jget_def jopt_def split: option.splits)
  show ?thesis
    by (rule exI [of _ "request_claims r (truncate_rat (se_time S n)) (se_uuid4 S n)"],
        rule exI [of _ "request_headers (jq_kid r)"], rule exI [of _ "truncate_rat (se_time S n)"])
       (use ok asym header request_claims_get [OF assms(2)] in simp)
qed

definition example_jar_request :: jar_request where
  "example_jar_request =
     \<lparr>jq_private_key = Text ''pem'', jq_algorithm = ''PS256'', jq_client_id = ''rp'', jq_audience = ''https://op.example'',
      jq_redirect_uri = ''https://rp.example/cb'', jq_response_type = ''code'', jq_lifetime = 300,
      jq_code_challenge = Some ''c'', jq_code_challenge_method = Some ''S256'', jq_kid = Some ''k1'',
      jq_extra_claims = [(''prompt'', JStr ''login'')], jq_scope = ''openid'', jq_state = Some ''s'', jq_nonce = None\<rparr>"

lemma example_request_object: "create_request_object example_signing 0 example_jar_request = Inr ''PS256.14''"
  by (simp add: create_request_object_ok example_jar_request_def example_signing_def SUPPORTED_SIGNING_ALGORITHMS_def
      RESERVED_CLAIMS_def empty_value_def) code_simp

theorem request_object_faithful_witness:
  "\<exists>claims headers. se_encode example_signing claims (Text ''pem'') ''PS256'' headers = Inr ''PS256.14'' \<and>
     map_of claims ''client_id'' = Some (JStr ''rp'') \<and> map_of claims ''prompt'' = Some (JStr ''login'') \<and>
     map_of claims ''nonce'' = None"
proof -
  have "dict_ok (jq_extra_claims example_jar_request)" by (simp add: example_jar_request_def dict_ok_def)
  from request_object_faithful [OF example_request_object this] obtain claims headers now where
    c: "se_encode example_signing claims (Text ''pem'') ''PS256'' headers = Inr ''PS256.14''"
    and g: "\<forall>k. map_of claims k = requested_claim example_jar_request now (se_uuid4 example_signing 0) k"
    by (auto simp: example_jar_request_def)
  moreover from g have "map_of claims ''client_id'' = Some (JStr ''rp'')" "map_of claims ''prompt'' = Some (JStr ''login'')"
      "map_of claims ''nonce'' = None"
    by (simp_all add: requested_claim_def example_jar_request_def RESERVED_CLAIMS_def optional_claims_def jopt_def)
  ultimately show ?thesis by blast
qed

lemma jar_params_ok: "jar_params c q s t \<noteq> []" "dict_ok (jar_params c q s t)"
  unfolding jar_params_def
  by (intro add_param_nonempty, simp) (simp add: dict_ok_def [of "[_, _]"])

text \<open>
  An authorization server reads from a JAR URL the endpoint's own query parameters, then the client and the
  request object, unchanged, at the endpoint's scheme, host and path. The endpoint has no fragment and no bare
  question mark.
\<close>

theorem jar_url_roundtrip:
  assumes "urlparse endpoint = Inr p" "CHR ''#'' \<notin> set endpoint" "fragment p = []"
    "query p = [] \<longrightarrow> CHR ''?'' \<notin> set endpoint"
  shows "\<exists>url p'. build_jar_authorization_url endpoint client_id request scp rt = Inr url \<and> urlparse url = Inr p' \<and>
    parse_qsl (query p') = parse_qsl (query p) @ jar_params client_id request scp rt \<and> fragment p' = [] \<and>
    (scheme p', netloc p', path p', params p') = (scheme p, netloc p, path p, params p)"
proof -
  have "strip_fragment endpoint = Inr (endpoint, p)"
    using assms(1,3) by (simp add: strip_fragment_def)
  from url_with_params [OF this assms(2,4) jar_params_ok(1)]
  show ?thesis by (simp add: build_jar_authorization_url_def assms(1))
qed

text \<open>
  The JAR builder does not cut a fragment off the endpoint as the builder of plain requests does: the parameters
  become part of the fragment, which is never sent, and the server gets no request at all.
\<close>

theorem jar_url_fragment_loses_request:
  "\<exists>url p. build_jar_authorization_url ''https://op.example/authorize#top'' ''rp'' ''jwt'' None None = Inr url \<and>
     urlparse url = Inr p \<and> query p = [] \<and> fragment p = ''top?client_id=rp&request=jwt''"
proof -
  have "(case build_jar_authorization_url ''https://op.example/authorize#top'' ''rp'' ''jwt'' None None of
      Inl _ \<Rightarrow> False | Inr url \<Rightarrow> (case urlparse url of Inl _ \<Rightarrow> False
        | Inr p \<Rightarrow> query p = [] \<and> fragment p = ''top?client_id=rp&request=jwt''))" by code_simp
  then show ?thesis by (auto split: sum.splits)
qed

section \<open>What compliance means\<close>

lemma violation_Nil [simp]: "violation c msg = [] \<longleftrightarrow> \<not> c"
  by (simp add: violation_def)

lemma redirect_violations_ok:
  "redirect_violations uri = Inr [] \<longleftrightarrow>
     (\<exists>u p h. uri = JStr u \<and> urlparse (py_strip u) = Inr p \<and> scheme p = ''https'' \<and> url_hostname p = Some h \<and> h \<noteq> [])"
proof (cases uri)
  case (JStr u)
  show ?thesis
  proof (cases "urlparse (py_strip u)")
    case (Inr p)
    then have "py_lower (scheme p) = scheme p" by (rule urlparse_scheme_lower)
    then show ?thesis
      using JStr Inr by (auto simp: redirect_violations_def opt_truthy_iff)
  qed (simp add: JStr redirect_violations_def)
qed (simp_all add: redirect_violations_def)

lemma redirect_violations_raise: "redirect_violations uri = Inl e \<Longrightarrow> exn_class e = ValueError \<and> is_str uri"
  by (auto simp: redirect_violations_def res_splits split: json.splits dest: urlparse_raises)

text \<open>C35: The FAPI check of an authorization request is exact: it reports no violation exactly for requests of the code
  flow that carry a challenge that is not blank under \<open>S256\<close>, are pushed, redirect to an HTTPS URL with a host and
  are signed, if at all, with an algorithm of the profile. It raises only \<open>ValueError\<close>, only for a redirect URI that
  cannot be parsed, and the compliance flag always agrees with the list of violations.\<close>

theorem fapi_request_exact:
  "case validate_fapi_authorization_request response_type code_challenge pkce_method redirect_uri use_par algorithm of
     Inl e \<Rightarrow> exn_class e = ValueError \<and> is_str redirect_uri
   | Inr res \<Rightarrow> (is_compliant res = (violations res = [])) \<and>
       (is_compliant res =
         (response_type = ''code'' \<and> (\<exists>c. code_challenge = Some c \<and> py_strip c \<noteq> []) \<and> pkce_method = Some ''S256'' \<and> use_par \<and>
          (\<exists>u p h. redirect_uri = JStr u \<and> urlparse (py_strip u) = Inr p \<and> scheme p = ''https'' \<and>
             url_hostname p = Some h \<and> h \<noteq> []) \<and>
          algorithm \<in> {None, Some ''PS256'', Some ''ES256''}))"
proof (cases "redirect_violations redirect_uri")
  case (Inl e)
  then show ?thesis
    using redirect_violations_raise by (simp add: validate_fapi_authorization_request_def)
next
  case (Inr vs)
  have "(vs = []) = (\<exists>u p h. redirect_uri = JStr u \<and> urlparse (py_strip u) = Inr p \<and> scheme p = ''https'' \<and>
      url_hostname p = Some h \<and> h \<noteq> [])"
    using redirect_violations_ok [of redirect_uri] Inr by simp
  then show ?thesis
    using Inr by (cases code_challenge; cases pkce_method; cases algorithm)
      (auto simp: validate_fapi_authorization_request_def fapi_result_of_def FAPI2_REQUIRED_RESPONSE_TYPE_def
        FAPI2_REQUIRED_PKCE_METHOD_def FAPI2_ALLOWED_SIGNING_ALGORITHMS_def)
qed

theorem fapi_client_exact:
  "is_compliant (validate_fapi_client_config auth_method use_dpop use_mtls) \<longleftrightarrow>
     auth_method \<in> Some ` {''private_key_jwt'', ''tls_client_auth'', ''self_signed_tls_client_auth''} \<and> (use_dpop \<or> use_mtls)"
  by (cases auth_method)
     (auto simp: validate_fapi_client_config_def fapi_result_of_def FAPI2_ALLOWED_AUTH_METHODS_def)

text \<open>A document value that is absent or a list of strings, as the metadata standards require.\<close>

definition string_list :: "json \<Rightarrow> string list option \<Rightarrow> bool" where
  "string_list j ss = (j = (case ss of None \<Rightarrow> JNull | Some xs \<Rightarrow> JList (map JStr xs)))"

lemma unless_absent_strings:
  "string_list j ss \<Longrightarrow> unless_absent j w msg = Inr (violation (\<exists>xs. ss = Some xs \<and> w \<notin> set xs) msg)"
  by (auto simp: unless_absent_def string_list_def json_contains_def json_mem_def list_ex_iff violation_def split: option.splits)

lemma for_each_strings: "for_each (\<lambda>x. guard_raise (unhashable x) (e x)) (map JStr xs) = Inr ()"
  by (induction xs) (simp_all add: unhashable_def)

lemma advertised_strings:
  "string_list j ss \<Longrightarrow> advertised j allowed a b =
     Inr (case ss of None \<Rightarrow> [a] | Some xs \<Rightarrow> violation (set xs \<inter> set allowed = {}) b)"
  by (auto simp: advertised_def string_list_def set_disjoint_def json_iter_def for_each_strings list_ex_iff json_in_def
      violation_def split: option.splits)

lemma disco_get_ok: "\<lbrakk>d_is_successful d; name \<in> set disco_attr_names\<rbrakk> \<Longrightarrow> disco_get d name = Inr (jget (d_attrs d) name)"
  by (simp add: disco_get_def guarded_get_def)

theorem fapi_discovery_exact:
  assumes "d_is_successful d"
    and "string_list (jget (d_attrs d) ''grant_types_supported'') grants"
    and "string_list (jget (d_attrs d) ''response_types_supported'') response_types"
    and "string_list (jget (d_attrs d) ''token_endpoint_auth_methods_supported'') auth_methods"
    and "string_list (jget (d_attrs d) ''id_token_signing_alg_values_supported'') algs"
    and "string_list (jget (d_attrs d) ''code_challenge_methods_supported'') pkce"
  shows "\<exists>res. validate_fapi_discovery d = Inr res \<and> (is_compliant res \<longleftrightarrow>
    (\<forall>xs. grants = Some xs \<longrightarrow> ''authorization_code'' \<in> set xs) \<and>
    (\<forall>xs. response_types = Some xs \<longrightarrow> ''code'' \<in> set xs) \<and>
    (\<exists>xs. auth_methods = Some xs \<and> set xs \<inter> set FAPI2_ALLOWED_AUTH_METHODS \<noteq> {}) \<and>
    (\<exists>xs. algs = Some xs \<and> set xs \<inter> set FAPI2_ALLOWED_SIGNING_ALGORITHMS \<noteq> {}) \<and>
    (\<forall>xs. pkce = Some xs \<longrightarrow> ''S256'' \<in> set xs))"
proof -
  have get: "disco_get d name = Inr (jget (d_attrs d) name)"
    if "name \<in> {''grant_types_supported'', ''response_types_supported'', ''token_endpoint_auth_methods_supported'',
      ''id_token_signing_alg_values_supported'', ''code_challenge_methods_supported''}" for name
    by (rule disco_get_ok [OF assms(1)]) (use that in \<open>auto simp: disco_attr_names_def\<close>)
  show ?thesis
    using assms(1) unfolding validate_fapi_discovery_def
    by (simp only: get simp_thms if_False bnd_Inr insert_iff unless_absent_strings [OF assms(2)]
        unless_absent_strings [OF assms(3)] advertised_strings [OF assms(4)] advertised_strings [OF assms(5)]
        unless_absent_strings [OF assms(6)])
       (auto simp: fapi_result_of_def split: option.splits)
qed

text \<open>
  Compliance does not need the server to advertise PKCE or pushed requests: a document that lists neither any
  challenge method nor a pushed authorization request endpoint is reported compliant.
\<close>

theorem fapi_discovery_without_pkce_and_par:
  "\<exists>d res. validate_fapi_discovery d = Inr res \<and> is_compliant res \<and>
     jget (d_attrs d) ''code_challenge_methods_supported'' = JNull \<and>
     jget (d_attrs d) ''pushed_authorization_request_endpoint'' = JNull"
proof -
  define d where "d = \<lparr>d_is_successful = True, d_error = None, d_error_kind = None, d_status_code = None, d_missing_fields = [],
    d_attrs = [(''token_endpoint_auth_methods_supported'', JList [JStr ''private_key_jwt'']),
      (''id_token_signing_alg_values_supported'', JList [JStr ''PS256''])], d_cache_control = None\<rparr>"
  have "\<exists>res. validate_fapi_discovery d = Inr res \<and> is_compliant res"
    using fapi_discovery_exact [of d None None "Some [''private_key_jwt'']" "Some [''PS256'']" None]
    by (auto simp: d_def string_list_def jget_def FAPI2_ALLOWED_AUTH_METHODS_def FAPI2_ALLOWED_SIGNING_ALGORITHMS_def)
  moreover have "jget (d_attrs d) ''code_challenge_methods_supported'' = JNull"
      "jget (d_attrs d) ''pushed_authorization_request_endpoint'' = JNull"
    by (simp_all add: d_def jget_def)
  ultimately show ?thesis by blast
qed

end
