(* ===== verification/Resource_Server.thy ===== *)
theory Resource_Server
  imports Aio_Validation Identity
begin

text \<open>
  The resource server of the FastAPI package: the settings of \<open>config.py\<close>, the HTTP middleware of
  \<open>middleware.py\<close>, the WebSocket authenticator of \<open>ws.py\<close> and the route dependencies of
  \<open>dependencies.py\<close>, over the asynchronous \<open>validate_token\<close>. What Starlette gives of a request, its method, path,
  \<open>Authorization\<close> header and query parameters, are arguments; \<open>call_next\<close> is an outcome. Log calls are left out.
\<close>

section \<open>Settings\<close>

definition default_excluded_paths :: "string list" where
  "default_excluded_paths = [''/docs'', ''/docs/oauth2-redirect'', ''/openapi.json'', ''/health'']"

record oidc_settings =
  os_discovery_url :: string
  os_client_id :: string
  os_redirect_uri :: string
  os_client_secret :: "string option"
  os_scope :: string
  os_audience :: "string option"
  os_post_login_redirect :: string
  os_post_logout_redirect :: string
  os_excluded_paths :: "string list"

definition oidc_post_init :: "oidc_settings \<Rightarrow> oidc_settings res" where
  "oidc_post_init s =
     bnd (for_each (\<lambda>(name, v). guard_raise (v = []) (raise_cls ValueError (''OIDCSettings requires a non-empty '' @ name)))
            [(''discovery_url'', os_discovery_url s), (''client_id'', os_client_id s)]) (\<lambda>_.
       Inr (if os_audience s = None then s\<lparr>os_audience := Some (os_client_id s)\<rparr> else s))"

definition env_required :: "os_env \<Rightarrow> string \<Rightarrow> string \<Rightarrow> string res" where
  "env_required env prefix name =
     (if opt_truthy (env (prefix @ name)) then Inr (the (env (prefix @ name)))
      else Inl (raise_cls ValueError (''Missing required env var '' @ prefix @ name)))"

definition env_default :: "os_env \<Rightarrow> string \<Rightarrow> string \<Rightarrow> string" where
  "env_default env name d = (case env name of None \<Rightarrow> d | Some v \<Rightarrow> v)"

definition excluded_from_env :: "string option \<Rightarrow> string list" where
  "excluded_from_env excluded =
     (if opt_truthy excluded then filter (\<lambda>p. p \<noteq> []) (map py_strip (py_split (CHR '','') (the excluded)))
      else default_excluded_paths)"

definition oidc_from_env :: "os_env \<Rightarrow> string \<Rightarrow> oidc_settings res" where
  "oidc_from_env env prefix =
     bnd (env_required env prefix ''DISCOVERY_URL'') (\<lambda>discovery_url.
     bnd (env_required env prefix ''CLIENT_ID'') (\<lambda>client_id.
       oidc_post_init
         \<lparr>os_discovery_url = discovery_url, os_client_id = client_id,
          os_redirect_uri = env_default env (prefix @ ''REDIRECT_URI'') [],
          os_client_secret = env (prefix @ ''CLIENT_SECRET''),
          os_scope = env_default env (prefix @ ''SCOPE'') ''openid profile email'',
          os_audience = env (prefix @ ''AUDIENCE''),
          os_post_login_redirect = env_default env (prefix @ ''POST_LOGIN_REDIRECT'') ''/'',
          os_post_logout_redirect = env_default env (prefix @ ''POST_LOGOUT_REDIRECT'') ''/'',
          os_excluded_paths = excluded_from_env (env (prefix @ ''EXCLUDED_PATHS''))\<rparr>))"

section \<open>The middleware\<close>

definition ID_TOKEN_ONLY_CLAIMS :: "string list" where
  "ID_TOKEN_ONLY_CLAIMS = [''nonce'', ''at_hash'', ''c_hash'']"

definition DEFAULT_ACCESS_TOKEN_MARKER_CLAIMS :: "string list" where
  "DEFAULT_ACCESS_TOKEN_MARKER_CLAIMS = [''scope'', ''scp'']"

definition GENERIC_401_DETAIL :: string where
  "GENERIC_401_DETAIL = ''Invalid or unauthorized token''"

definition UPSTREAM_FETCH_FAILURE_PREFIXES :: "string list" where
  "UPSTREAM_FETCH_FAILURE_PREFIXES = [''Network error during discovery'', ''Network error during JWKS'']"

definition is_upstream_fetch_failure :: "exn \<Rightarrow> bool" where
  "is_upstream_fetch_failure e = list_ex (py_startswith (exn_message e)) UPSTREAM_FETCH_FAILURE_PREFIXES"

definition evaluate_token_type :: "json dict \<Rightarrow> bool \<Rightarrow> string list \<Rightarrow> string option" where
  "evaluate_token_type claims require_access_token_marker access_token_marker_claims =
     (if list_ex (has_key claims) ID_TOKEN_ONLY_CLAIMS then Some ''ID token cannot be used as an access token''
      else if require_access_token_marker \<and> \<not> list_ex (has_key claims) access_token_marker_claims
      then Some ''Access token required; presented token lacks an access-token marker claim''
      else None)"

record middleware =
  mw_discovery_url :: string
  mw_audience :: string
  mw_excluded_paths :: "string list"
  mw_claims_validator :: "(json dict \<Rightarrow> unit res) option"
  mw_require_marker :: bool
  mw_marker_claims :: "string list"

definition marker_check :: "bool \<Rightarrow> string list \<Rightarrow> unit res" where
  "marker_check require markers =
     guard_raise (require \<and> markers = [])
       (raise_cls ValueError (''require_access_token_marker=True needs a non-empty ''
          @ ''access_token_marker_claims; an empty set rejects every token.''))"

definition new_middleware ::
  "string \<Rightarrow> string option \<Rightarrow> string list option \<Rightarrow> (json dict \<Rightarrow> unit res) option \<Rightarrow> bool \<Rightarrow> string list \<Rightarrow> middleware res" where
  "new_middleware discovery_url aud excluded_paths validator require markers =
     bnd (guard_raise (\<not> opt_truthy aud)
            (raise_cls ValueError (''TokenValidationMiddleware requires a non-empty 'audience'; a ''
               @ ''None/empty audience skips aud enforcement for aud-less tokens.''))) (\<lambda>_.
     bnd (marker_check require markers) (\<lambda>_.
       Inr \<lparr>mw_discovery_url = discovery_url, mw_audience = the aud,
            mw_excluded_paths = (case excluded_paths of None \<Rightarrow> default_excluded_paths | Some ps \<Rightarrow> ps),
            mw_claims_validator = validator, mw_require_marker = require, mw_marker_claims = markers\<rparr>))"

definition entry_excludes :: "string \<Rightarrow> string \<Rightarrow> bool" where
  "entry_excludes url_path entry =
     (if py_endswith entry ''/*''
      then let prefix = py_rstrip_char (CHR ''/'') (take (length entry - 2) entry)
           in prefix \<noteq> [] \<and> (url_path = prefix \<or> py_startswith url_path (prefix @ ''/''))
      else url_path = entry)"

definition is_excluded :: "middleware \<Rightarrow> string \<Rightarrow> bool" where
  "is_excluded m url_path = list_ex (entry_excludes url_path) (mw_excluded_paths m)"

record http_reply =
  re_status :: int
  re_detail :: string
  re_headers :: "string dict"

definition unauthorized :: "string \<Rightarrow> http_reply" where
  "unauthorized detail = \<lparr>re_status = 401, re_detail = detail, re_headers = [(''WWW-Authenticate'', ''Bearer'')]\<rparr>"

text \<open>The token of a header \<open>Bearer <token>\<close>.\<close>

definition bearer_token :: "string \<Rightarrow> string option" where
  "bearer_token header =
     (case py_split_ws header of
        [kind, token] \<Rightarrow> if py_lower kind = ''bearer'' then Some token else None
      | _ \<Rightarrow> None)"

definition extract_bearer_token :: "string option \<Rightarrow> http_reply + string" where
  "extract_bearer_token authorization =
     (if \<not> opt_truthy authorization then Inl (unauthorized ''Missing Authorization header'')
      else case bearer_token (the authorization) of
        None \<Rightarrow> Inl (unauthorized ''Invalid Authorization header format. Expected: Bearer <token>'')
      | Some token \<Rightarrow> Inr token)"

text \<open>The caches with their counters, the store of claim lists and \<open>request.state\<close>.\<close>

record served =
  sv_caches :: aio_state
  sv_lists :: claim_store
  sv_user :: "principal option"
  sv_claims :: "json dict option"
  sv_token :: "string option"

definition resource_config :: "string \<Rightarrow> (json dict \<Rightarrow> unit res) option \<Rightarrow> token_validation_config" where
  "resource_config aud validator = (default_config True)\<lparr>audience := Some aud, claims_validator := validator\<rparr>"

definition attach_user :: "(pyfloat \<Rightarrow> string) \<Rightarrow> json dict \<Rightarrow> string \<Rightarrow> served \<Rightarrow> served" where
  "attach_user fl claims token s =
     (case to_principal fl claims ''Bearer'' (sv_lists s) of
        (h, p) \<Rightarrow> s\<lparr>sv_lists := h, sv_user := Some p, sv_claims := Some claims, sv_token := Some token\<rparr>)"

definition rejection :: "exn \<Rightarrow> http_reply" where
  "rejection e =
     (if exn_isinstance e PyIdentityModelException
      then if exn_isinstance e NetworkException \<or> is_upstream_fetch_failure e
           then \<lparr>re_status = 503, re_detail = ''Authentication temporarily unavailable'', re_headers = []\<rparr>
           else unauthorized GENERIC_401_DETAIL
      else if exn_isinstance e JwtInvalidTokenError then unauthorized GENERIC_401_DETAIL
      else \<lparr>re_status = 500, re_detail = ''Internal server error during authentication'', re_headers = []\<rparr>)"

definition run_validation ::
  "'pk tv_env \<Rightarrow> string \<Rightarrow> string \<Rightarrow> (json dict \<Rightarrow> unit res) option \<Rightarrow> string \<Rightarrow> served \<Rightarrow> json dict res \<times> served" where
  "run_validation env url aud validator token s =
     (case aio_validate_token env token (resource_config aud validator) (Some url) False (sv_caches s) of
        (r, caches) \<Rightarrow> (r, s\<lparr>sv_caches := caches\<rparr>))"

definition mw_authenticate ::
  "'pk tv_env \<Rightarrow> (pyfloat \<Rightarrow> string) \<Rightarrow> middleware \<Rightarrow> string \<Rightarrow> served \<Rightarrow> http_reply option \<times> served" where
  "mw_authenticate env fl m token s =
     (case run_validation env (mw_discovery_url m) (mw_audience m) (mw_claims_validator m) token s of
        (Inl e, s') \<Rightarrow> (Some (rejection e), s')
      | (Inr claims, s') \<Rightarrow>
          (case evaluate_token_type claims (mw_require_marker m) (mw_marker_claims m) of
             Some wrong_type \<Rightarrow> (Some (unauthorized wrong_type), s')
           | None \<Rightarrow> (None, attach_user fl claims token s')))"

datatype outcome = CallNext | Reply http_reply

definition dispatch ::
  "'pk tv_env \<Rightarrow> (pyfloat \<Rightarrow> string) \<Rightarrow> middleware \<Rightarrow> string \<Rightarrow> string \<Rightarrow> string option \<Rightarrow> served \<Rightarrow> outcome \<times> served" where
  "dispatch env fl m meth url_path authorization s =
     (if meth = ''OPTIONS'' \<or> is_excluded m url_path then (CallNext, s)
      else case extract_bearer_token authorization of
        Inl reply \<Rightarrow> (Reply reply, s)
      | Inr token \<Rightarrow>
          (case mw_authenticate env fl m token s of
             (Some reply, s') \<Rightarrow> (Reply reply, s')
           | (None, s') \<Rightarrow> (CallNext, s')))"

section \<open>WebSockets\<close>

record ws_close =
  ws_code :: int
  ws_reason :: string

definition extract_ws_token :: "string option \<Rightarrow> string option \<Rightarrow> string option" where
  "extract_ws_token header query_value =
     (case header of
        Some h \<Rightarrow> bearer_token h
      | None \<Rightarrow> if opt_truthy query_value then query_value else None)"

definition ws_rejection :: "exn \<Rightarrow> ws_close" where
  "ws_rejection e =
     (if exn_isinstance e PyIdentityModelException
      then if exn_isinstance e NetworkException \<or> is_upstream_fetch_failure e
           then \<lparr>ws_code = 1013, ws_reason = ''Authentication temporarily unavailable''\<rparr>
           else \<lparr>ws_code = 1008, ws_reason = GENERIC_401_DETAIL\<rparr>
      else if exn_isinstance e JwtInvalidTokenError then \<lparr>ws_code = 1008, ws_reason = GENERIC_401_DETAIL\<rparr>
      else \<lparr>ws_code = 1011, ws_reason = ''Internal error during authentication''\<rparr>)"

definition new_ws_authenticator ::
  "string \<Rightarrow> string option \<Rightarrow> (json dict \<Rightarrow> unit res) option \<Rightarrow> bool \<Rightarrow> string list \<Rightarrow> middleware res" where
  "new_ws_authenticator discovery_url aud validator require markers =
     bnd (guard_raise (\<not> opt_truthy aud)
            (raise_cls ValueError (''build_ws_authenticator requires a non-empty 'audience'; a ''
               @ ''None/empty audience skips aud enforcement for aud-less tokens.''))) (\<lambda>_.
     bnd (marker_check require markers) (\<lambda>_.
       Inr \<lparr>mw_discovery_url = discovery_url, mw_audience = the aud, mw_excluded_paths = [],
            mw_claims_validator = validator, mw_require_marker = require, mw_marker_claims = markers\<rparr>))"

definition authenticate_websocket ::
  "'pk tv_env \<Rightarrow> (pyfloat \<Rightarrow> string) \<Rightarrow> middleware \<Rightarrow> string option \<Rightarrow> string option \<Rightarrow> served
   \<Rightarrow> (ws_close + json dict) \<times> served" where
  "authenticate_websocket env fl m header query_value s =
     (case extract_ws_token header query_value of
        None \<Rightarrow> (Inl \<lparr>ws_code = 1008, ws_reason = ''Missing or malformed bearer token''\<rparr>, s)
      | Some token \<Rightarrow>
          if token = [] then (Inl \<lparr>ws_code = 1008, ws_reason = ''Missing or malformed bearer token''\<rparr>, s)
          else (case run_validation env (mw_discovery_url m) (mw_audience m) (mw_claims_validator m) token s of
             (Inl e, s') \<Rightarrow> (Inl (ws_rejection e), s')
           | (Inr claims, s') \<Rightarrow>
               (case evaluate_token_type claims (mw_require_marker m) (mw_marker_claims m) of
                  Some _ \<Rightarrow> (Inl \<lparr>ws_code = 1008, ws_reason = GENERIC_401_DETAIL\<rparr>, s')
                | None \<Rightarrow> (Inr claims, attach_user fl claims token s'))))"

section \<open>Route dependencies\<close>

definition not_authenticated :: http_reply where
  "not_authenticated = unauthorized ''Not authenticated''"

definition state_attr :: "'a option \<Rightarrow> http_reply + 'a" where
  "state_attr a = (case a of None \<Rightarrow> Inl not_authenticated | Some x \<Rightarrow> Inr x)"

definition get_current_user :: "served \<Rightarrow> http_reply + principal" where
  "get_current_user s = state_attr (sv_user s)"

definition get_claims :: "served \<Rightarrow> http_reply + json dict" where
  "get_claims s = state_attr (sv_claims s)"

definition get_token :: "served \<Rightarrow> http_reply + string" where
  "get_token s = state_attr (sv_token s)"

text \<open>Queries of an identity that is not a \<open>ClaimsIdentity\<close> are answered by its own class, an argument.\<close>

definition ident_find_all :: "(nat \<Rightarrow> string \<Rightarrow> claim list) \<Rightarrow> claim_store \<Rightarrow> identity \<Rightarrow> string \<Rightarrow> claim list" where
  "ident_find_all other h i t = (case i of Claims_Identity c \<Rightarrow> identity_find_all h c t | Other_Identity n \<Rightarrow> other n t)"

definition ident_find_first :: "(nat \<Rightarrow> string \<Rightarrow> claim option) \<Rightarrow> claim_store \<Rightarrow> identity \<Rightarrow> string \<Rightarrow> claim option" where
  "ident_find_first other h i t = (case i of Claims_Identity c \<Rightarrow> identity_find_first h c t | Other_Identity n \<Rightarrow> other n t)"

definition get_claim_value ::
  "(nat \<Rightarrow> string \<Rightarrow> claim option) \<Rightarrow> string \<Rightarrow> served \<Rightarrow> http_reply + string option" where
  "get_claim_value other t s =
     bnd (get_current_user s) (\<lambda>user.
       Inr (case cp_identity user of None \<Rightarrow> None
            | Some i \<Rightarrow> map_option claim_value (ident_find_first other (sv_lists s) i t)))"

definition get_claim_values ::
  "(nat \<Rightarrow> string \<Rightarrow> claim list) \<Rightarrow> string \<Rightarrow> served \<Rightarrow> http_reply + string list" where
  "get_claim_values other t s =
     bnd (get_current_user s) (\<lambda>user.
       Inr (case cp_identity user of None \<Rightarrow> []
            | Some i \<Rightarrow> map claim_value (ident_find_all other (sv_lists s) i t)))"

definition forbidden :: "string \<Rightarrow> http_reply" where
  "forbidden detail = \<lparr>re_status = 403, re_detail = detail, re_headers = []\<rparr>"

definition require_claim :: "string \<Rightarrow> string option \<Rightarrow> served \<Rightarrow> http_reply + unit" where
  "require_claim t v s =
     bnd (get_current_user s) (\<lambda>user.
       if \<not> has_claim (sv_lists s) user t v
       then Inl (forbidden (case v of None \<Rightarrow> ''Required claim '' @ sq t @ '' not found''
              | Some x \<Rightarrow> ''Required claim '' @ sq t @ '' with value '' @ sq x @ '' not found''))
       else Inr ())"

definition token_scopes :: "json dict \<Rightarrow> string list" where
  "token_scopes claims =
     (let raw = (if truthy (jget claims ''scope'') then jget claims ''scope'' else jget claims ''scp'') in
      case raw of
        JStr t \<Rightarrow> py_split_ws t
      | JList xs \<Rightarrow> concat (map (\<lambda>x. case x of JStr t \<Rightarrow> [t] | _ \<Rightarrow> []) xs)
      | _ \<Rightarrow> [])"

definition require_scope :: "string \<Rightarrow> served \<Rightarrow> http_reply + unit" where
  "require_scope scp s =
     bnd (get_claims s) (\<lambda>claims.
       if scp \<notin> set (token_scopes claims) then Inl (forbidden (''Required scope '' @ sq scp @ '' not found'')) else Inr ())"

section \<open>What a validated token is\<close>

lemma resource_config_sel [simp]:
  "perform_disco (resource_config aud v)" "audience (resource_config aud v) = Some aud"
  "claims_validator (resource_config aud v) = v" "options (resource_config aud v) = None"
  "leeway (resource_config aud v) = JNull" "subject (resource_config aud v) = None"
  "allowed_issuers (resource_config aud v) = None" "cfg_discovery_policy (resource_config aud v) = None"
  "cfg_require_https (resource_config aud v)" "cfg_issuer (resource_config aud v) = JNull"
  by (simp_all add: resource_config_def default_config_def)

text \<open>
  The token was signed with a key the provider's key set has for it, checked against the audience and the provider's
  issuer, and accepted by the custom validator.
\<close>

definition validated :: "'pk tv_env \<Rightarrow> middleware \<Rightarrow> string \<Rightarrow> json dict \<Rightarrow> bool" where
  "validated env m token claims \<longleftrightarrow>
     (\<exists>d key alg pk. disco_from env (mw_discovery_url m) (resolve_discovery_policy None True) d \<and> d_is_successful d \<and>
        key_from env token d key alg \<and> jl_pyjwk (te_lib env) key alg = Inr pk \<and>
        jl_decode (te_lib env) token pk
          \<lparr>da_audience = Some (mw_audience m), da_algorithms = [alg], da_issuer = jget (d_attrs d) ''issuer'',
           da_options = None, da_leeway = JInt 0\<rparr> = Inr claims \<and>
        (\<forall>v. mw_claims_validator m = Some v \<longrightarrow> v claims = Inr ()))"

text \<open>Asynchronous validation with discovery accepts only what the provider's keys verify under the provider's issuer.\<close>

lemma aio_accepted:
  assumes "settings_ok (te_settings env)" "tv_reachable env t"
    and run: "aio_validate_token env token c (Some url) injected (t, k) = (Inr claims, s')"
  shows "accepted env token c (Some url) claims"
proof -
  obtain t' k' where "s' = (t', k')" by fastforce
  then have "validate_token env token c (Some url) injected t = (Inr claims, t')"
    using agreesD [OF agrees_validate_token run [unfolded \<open>s' = (t', k')\<close>]] by auto
  from triple_Inr [OF validate_token_triple [OF assms(1)] tv_reachable_inv [OF assms(1,2)] this] show ?thesis by simp
qed

lemma accepted_decoded_allowed:
  assumes "accepted env token c (Some url) claims" "perform_disco c" "leeway c = JNull"
  shows "\<exists>d key alg pk. disco_from env url (resolve_discovery_policy (cfg_discovery_policy c) (cfg_require_https c)) d \<and>
    d_is_successful d \<and> key_from env token d key alg \<and> jl_pyjwk (te_lib env) key alg = Inr pk \<and>
    (\<forall>al. algorithms c = Some al \<longrightarrow> json_mem alg al) \<and>
    jl_decode (te_lib env) token pk
      \<lparr>da_audience = audience c, da_algorithms = [alg], da_issuer = jget (d_attrs d) ''issuer'',
       da_options = options c, da_leeway = JInt 0\<rparr> = Inr claims"
proof -
  obtain d key alg c' where d: "d_is_successful d"
      "disco_from env url (resolve_discovery_policy (cfg_discovery_policy c) (cfg_require_https c)) d"
    and key: "key_from env token d key alg" and c': "build_resolved_config c key alg = Inr c'"
    and dec: "decode_with_config (te_lib env) token c' (jget (d_attrs d) ''issuer'') = Inr claims"
    using assms(1,2) by (auto simp: accepted_def decoded_under_def)
  have iss: "effective_issuer c' (jget (d_attrs d) ''issuer'') = jget (d_attrs d) ''issuer''"
    using disco_from_issuer [OF d(2,1)] by (simp add: effective_issuer_def)
  have "c' = c\<lparr>cfg_key := Some (KeyDict key), algorithms := Some [alg]\<rparr>"
    using c' by (simp add: build_resolved_config_ok)
  then have dv: "decode_and_validate_jwt (te_lib env) token (KeyDict key) [alg] (audience c) (jget (d_attrs d) ''issuer'')
      (options c) JNull (subject c) = Inr claims"
    using decode_with_config_ok [OF dec] iss assms(3) by auto
  have "normalize_verification_key (KeyDict key) = Inr key"
    using key by (auto simp: key_from_def find_key_by_kid_ok normalize_verification_key_def as_dict_def)
  with decode_and_validate_jwt_ok [OF dv] d key c' [unfolded build_resolved_config_ok] show ?thesis by auto
qed

lemma accepted_decoded:
  assumes "accepted env token c (Some url) claims" "perform_disco c" "leeway c = JNull"
  shows "\<exists>d key alg pk. disco_from env url (resolve_discovery_policy (cfg_discovery_policy c) (cfg_require_https c)) d \<and>
    d_is_successful d \<and> key_from env token d key alg \<and> jl_pyjwk (te_lib env) key alg = Inr pk \<and>
    jl_decode (te_lib env) token pk
      \<lparr>da_audience = audience c, da_algorithms = [alg], da_issuer = jget (d_attrs d) ''issuer'',
       da_options = options c, da_leeway = JInt 0\<rparr> = Inr claims"
  using accepted_decoded_allowed [OF assms] by blast

lemma run_validation_frame:
  "run_validation env url aud v token s = (r, s') \<Longrightarrow>
     sv_lists s' = sv_lists s \<and> sv_user s' = sv_user s \<and> sv_claims s' = sv_claims s \<and> sv_token s' = sv_token s"
  by (auto simp: run_validation_def split: prod.splits)

lemma validated_token:
  assumes "settings_ok (te_settings env)" "tv_reachable env (fst (sv_caches s))"
    and "run_validation env (mw_discovery_url m) (mw_audience m) (mw_claims_validator m) token s = (Inr claims, s')"
  shows "validated env m token claims"
proof -
  let ?c = "resource_config (mw_audience m) (mw_claims_validator m)"
  obtain caches where "aio_validate_token env token ?c (Some (mw_discovery_url m)) False (sv_caches s) = (Inr claims, caches)"
    using assms(3) by (auto simp: run_validation_def split: prod.splits)
  then have acc: "accepted env token ?c (Some (mw_discovery_url m)) claims"
    using aio_accepted [OF assms(1,2)] by (metis prod.collapse)
  have "\<forall>v. mw_claims_validator m = Some v \<longrightarrow> v claims = Inr ()"
    using acc by (auto simp: accepted_def validate_claims_def split: option.splits sum.splits if_splits)
  with accepted_decoded [OF acc] show ?thesis unfolding validated_def by simp
qed

section \<open>Who reaches a route\<close>

lemma attach_user_state:
  "sv_claims (attach_user fl claims token s) = Some claims" "sv_token (attach_user fl claims token s) = Some token"
  "\<exists>p. sv_user (attach_user fl claims token s) = Some p \<and>
     to_principal fl claims ''Bearer'' (sv_lists s) = (sv_lists (attach_user fl claims token s), p)"
  by (simp_all add: attach_user_def split: prod.splits)

lemma evaluate_token_type_None:
  "evaluate_token_type claims require markers = None \<longleftrightarrow>
     (\<forall>c \<in> set ID_TOKEN_ONLY_CLAIMS. \<not> has_key claims c) \<and> (require \<longrightarrow> (\<exists>c \<in> set markers. has_key claims c))"
  by (auto simp: evaluate_token_type_def list_ex_iff)

lemma mw_authenticate_ok:
  "mw_authenticate env fl m token s = (None, s') \<longleftrightarrow>
     (\<exists>claims t. run_validation env (mw_discovery_url m) (mw_audience m) (mw_claims_validator m) token s = (Inr claims, t) \<and>
        evaluate_token_type claims (mw_require_marker m) (mw_marker_claims m) = None \<and> s' = attach_user fl claims token t)"
  by (auto simp: mw_authenticate_def split: prod.splits sum.splits option.splits)

lemma bearer_token_empty [simp]: "bearer_token [] = None"
  by (simp add: bearer_token_def py_split_ws_def)

lemma extract_bearer_token_ok: "extract_bearer_token a = Inr token \<longleftrightarrow> (\<exists>h. a = Some h \<and> bearer_token h = Some token)"
  by (cases a) (auto simp: extract_bearer_token_def split: option.splits)

text \<open>C2: A protected route runs only for a bearer of a valid access token. If a request that is neither a preflight nor for
  an excluded path reaches the route, its header named a bearer token that was validated against the provider's keys, the
  provider's issuer and the configured audience, and by the custom validator; its claims mark no ID token and have an access
  token marker where one is required; and the route sees exactly these claims, this token and a principal that has the
  values of these claims and no others.\<close>

theorem route_requires_access_token:
  assumes "settings_ok (te_settings env)" "tv_reachable env (fst (sv_caches s))"
    and "dispatch env fl m meth url_path authorization s = (CallNext, s')"
    and "meth \<noteq> ''OPTIONS''" "\<not> is_excluded m url_path"
  shows "\<exists>header token claims p. authorization = Some header \<and> bearer_token header = Some token \<and>
    validated env m token claims \<and>
    (\<forall>c \<in> {''nonce'', ''at_hash'', ''c_hash''}. \<not> has_key claims c) \<and>
    (mw_require_marker m \<longrightarrow> (\<exists>c \<in> set (mw_marker_claims m). has_key claims c)) \<and>
    get_claims s' = Inr claims \<and> get_token s' = Inr token \<and> get_current_user s' = Inr p \<and>
    list_at (sv_lists s') (cp_claims p) = token_claim_list fl claims"
proof -
  obtain token where tok: "extract_bearer_token authorization = Inr token"
    and auth: "mw_authenticate env fl m token s = (None, s')"
    using assms(3-5) by (auto simp: dispatch_def split: sum.splits prod.splits option.splits)
  obtain claims t where run: "run_validation env (mw_discovery_url m) (mw_audience m) (mw_claims_validator m) token s = (Inr claims, t)"
    and kind: "evaluate_token_type claims (mw_require_marker m) (mw_marker_claims m) = None"
    and s': "s' = attach_user fl claims token t"
    using auth by (auto simp: mw_authenticate_ok)
  obtain p where p: "sv_user s' = Some p" "to_principal fl claims ''Bearer'' (sv_lists t) = (sv_lists s', p)"
    using attach_user_state(3) unfolding s' by blast
  show ?thesis
    using tok kind p validated_token [OF assms(1,2) run] to_principal_lists(1) [OF p(2)]
    by (auto simp: extract_bearer_token_ok evaluate_token_type_None ID_TOKEN_ONLY_CLAIMS_def s' attach_user_state
        get_claims_def get_token_def get_current_user_def state_attr_def)
qed

section \<open>An example\<close>

definition example_middleware :: middleware where
  "example_middleware = \<lparr>mw_discovery_url = example_address, mw_audience = ''api'', mw_excluded_paths = [''/health''],
     mw_claims_validator = None, mw_require_marker = True, mw_marker_claims = [''scope'']\<rparr>"

definition access_claims :: "json dict" where
  "access_claims = [(''iss'', JStr ''https://op.example''), (''sub'', JStr ''alice''), (''scope'', JStr ''read write'')]"

definition decoding_env :: "json dict \<Rightarrow> unit tv_env" where
  "decoding_env claims = example_env\<lparr>te_lib := example_lib\<lparr>jl_decode := (\<lambda>_ _ _. Inr claims)\<rparr>\<rparr>"

abbreviation access_env :: "unit tv_env" where
  "access_env \<equiv> decoding_env access_claims"

definition fresh_server :: served where
  "fresh_server = \<lparr>sv_caches = (tv_init, zero_counters), sv_lists = [], sv_user = None, sv_claims = None, sv_token = None\<rparr>"

lemma decoding_env_sel [simp]:
  "te_worlds (decoding_env cl) n = example_world" "te_lib (decoding_env cl) = example_lib\<lparr>jl_decode := (\<lambda>_ _ _. Inr cl)\<rparr>"
  "te_settings (decoding_env cl) = te_settings example_env"
  by (simp_all add: decoding_env_def)

lemma example_attempts:
  "upstream_fetch_attempted example_address default_policy = Inr True"
  "upstream_fetch_attempted example_jwks_uri default_policy = Inr True"
  by code_simp+

lemma access_header: "extract_jwt_header_fields (jl_header (example_lib\<lparr>jl_decode := f\<rparr>)) ''token'' = Inr (JStr ''k1'', JStr ''RS256'')"
  using example_resolve(3) by simp

lemma access_decode:
  "decode_with_config (example_lib\<lparr>jl_decode := (\<lambda>_ _ _. Inr access_claims)\<rparr>) ''token''
     ((resource_config ''api'' None)\<lparr>cfg_key := Some (KeyDict example_jwk_dict), algorithms := Some [JStr ''RS256'']\<rparr>)
     (JStr ''https://op.example'') = Inr access_claims"
  by code_simp

lemma access_config:
  "build_resolved_config (resource_config aud None) key a =
     Inr ((resource_config aud None)\<lparr>cfg_key := Some (KeyDict key), algorithms := Some [a]\<rparr>)"
  "validate_token_config (resource_config aud None) = Inr ()"
  "validate_async_claims cl (resource_config aud None) = Inr ()"
  by (simp_all add: build_resolved_config_def resource_config_def default_config_def validate_token_config_def
      validate_issuer_list_def validate_leeway_def validate_async_claims_def)

lemma aio_disco_miss:
  "map_of (disco_cache s) (a, cache_key pol) = None \<Longrightarrow>
     aio_get_disco_response env (Some a) pol (s, k) = aio_fetch_disco env a pol (s, k)"
  by (simp add: aio_get_disco_response_def or_else_def counted_hit_def on_caches_def sbnd_def disco_hit_eq Let_def stm_simps)

lemma aio_jwks_miss:
  "map_of (jwks_cache s) uri = None \<Longrightarrow>
     aio_get_cached_jwks env uri pol (s, k) = aio_fetch_jwks env uri pol (s, k)"
  by (simp add: aio_get_cached_jwks_def or_else_def counted_hit_def on_caches_def sbnd_def jwks_hit_eq stm_simps)

lemma decoding_discover:
  "fst (aio_discover_cached (decoding_env cl) ''token'' (Some example_address) default_policy (tv_init, zero_counters)) =
      Inr (example_jwk_dict, JStr ''RS256'', build_discovery_response example_document None)"
proof -
  let ?r = "\<lparr>j_is_successful = True, j_error = None, j_keys = Some [projr (jwks_from_dict example_jwk_dict)], j_cache_control = None\<rparr>"
  have v: "validate_jwks_response ?r = Inr ()" "keys_or_empty ?r = Inr [projr (jwks_from_dict example_jwk_dict)]"
    by (simp_all add: validate_jwks_response_def jwks_get_keys_def guarded_get_def keys_or_empty_def)
  show ?thesis
    by (simp add: aio_discover_cached_def sbnd_def aio_disco_miss tv_init_def aio_fetch_disco_def aio_store_disco_def
        on_caches_def next_world_def count_fetch_def example_attempts record_disco_miss_def monotonic_def stm_simps
        example_discovery example_resolve Let_def aio_jwks_miss aio_fetch_jwks_def aio_store_jwks_def record_jwks_miss_def
        apply_jwks_outcome_def example_jwks_eq v access_header select_key_def)
qed

lemma decoding_run:
  assumes "validate_token_config c = Inr ()" "perform_disco c" "cfg_discovery_policy c = None" "cfg_require_https c"
    and "build_resolved_config c example_jwk_dict (JStr ''RS256'') = Inr c'"
    and "decode_with_config (example_lib\<lparr>jl_decode := (\<lambda>_ _ _. Inr cl)\<rparr>) ''token'' c' (JStr ''https://op.example'') = Inr cl"
    and "validate_async_claims cl c = Inr ()"
  shows "fst (aio_validate_token (decoding_env cl) ''token'' c (Some example_address) False (tv_init, zero_counters)) = Inr cl"
proof -
  obtain t where "aio_discover_cached (decoding_env cl) ''token'' (Some example_address) default_policy (tv_init, zero_counters)
      = (Inr (example_jwk_dict, JStr ''RS256'', build_discovery_response example_document None), t)"
    using decoding_discover [of cl]
    by (cases "aio_discover_cached (decoding_env cl) ''token'' (Some example_address) default_policy (tv_init, zero_counters)") simp
  then show ?thesis
    using assms by (simp add: aio_validate_token_def sbnd_def stm_simps aio_validate_with_discovery_def example_policy
        aio_discover_and_resolve_key_def scatch_def example_resolve(2))
qed

lemma access_run:
  "fst (aio_validate_token access_env ''token'' (resource_config ''api'' None) (Some example_address) False (tv_init, zero_counters))
     = Inr access_claims"
  by (rule decoding_run [OF access_config(2) _ _ _ access_config(1) access_decode access_config(3)])
    (simp_all add: resource_config_def default_config_def)

lemma access_dispatch:
  "\<exists>s'. dispatch access_env (\<lambda>_. []) example_middleware ''GET'' ''/items'' (Some ''Bearer token'') fresh_server = (CallNext, s')"
proof -
  have "extract_bearer_token (Some ''Bearer token'') = Inr ''token''" "\<not> is_excluded example_middleware ''/items''"
      "evaluate_token_type access_claims True [''scope''] = None"
    by code_simp+
  moreover have "\<exists>t. run_validation access_env example_address ''api'' None ''token'' fresh_server = (Inr access_claims, t)"
    using access_run by (auto simp: run_validation_def fresh_server_def split: prod.split)
  ultimately show ?thesis
    by (auto simp: dispatch_def mw_authenticate_def example_middleware_def)
qed

theorem route_requires_access_token_witness:
  "\<exists>token claims. bearer_token ''Bearer token'' = Some token \<and> validated access_env example_middleware token claims \<and>
     has_key claims ''scope''"
proof -
  obtain s' where run: "dispatch access_env (\<lambda>_. []) example_middleware ''GET'' ''/items'' (Some ''Bearer token'') fresh_server = (CallNext, s')"
    using access_dispatch by blast
  have "\<not> is_excluded example_middleware ''/items''" by code_simp
  moreover have "settings_ok (te_settings access_env)" using example_env_settings by simp
  moreover have "tv_reachable access_env (fst (sv_caches fresh_server))"
    by (simp add: fresh_server_def tv_reachable.init)
  ultimately show ?thesis
    using route_requires_access_token [OF _ _ run] by (auto simp: example_middleware_def)
qed

section \<open>What a caller learns\<close>

text \<open>A refused request learns one of seven fixed replies and nothing of the cause: the replies do not depend on the
  token, the claims or the exception, so that a bad signature, a wrong audience, an expired and a malformed token are not
  told apart.\<close>

theorem refusals_are_fixed:
  "case dispatch env fl m meth url_path authorization s of
     (CallNext, _) \<Rightarrow> True
   | (Reply r, _) \<Rightarrow> r \<in> unauthorized ` {''Missing Authorization header'',
         ''Invalid Authorization header format. Expected: Bearer <token>'', ''ID token cannot be used as an access token'',
         ''Access token required; presented token lacks an access-token marker claim'', ''Invalid or unauthorized token''}
       \<or> r = \<lparr>re_status = 503, re_detail = ''Authentication temporarily unavailable'', re_headers = []\<rparr>
       \<or> r = \<lparr>re_status = 500, re_detail = ''Internal server error during authentication'', re_headers = []\<rparr>"
proof -
  have "rejection e = unauthorized ''Invalid or unauthorized token''
      \<or> rejection e = \<lparr>re_status = 503, re_detail = ''Authentication temporarily unavailable'', re_headers = []\<rparr>
      \<or> rejection e = \<lparr>re_status = 500, re_detail = ''Internal server error during authentication'', re_headers = []\<rparr>" for e
    by (simp add: rejection_def GENERIC_401_DETAIL_def)
  then show ?thesis
    by (auto simp: dispatch_def mw_authenticate_def extract_bearer_token_def evaluate_token_type_def
        split: prod.split sum.split option.split)
qed

text \<open>
  An outage of the provider is not taken for a bad token: where the fetch of the discovery document or of the key set
  fails on the network, the exception validation raises is answered with 503, and a WebSocket is closed with 1013.
\<close>

lemma upstream_reply:
  "\<lbrakk>exn_class e = TokenValidationException; is_upstream_fetch_failure e\<rbrakk> \<Longrightarrow>
     re_status (rejection e) = 503 \<and> ws_code (ws_rejection e) = 1013"
proof -
  have "subclass_of TokenValidationException PyIdentityModelException" by code_simp
  then show "\<lbrakk>exn_class e = TokenValidationException; is_upstream_fetch_failure e\<rbrakk> \<Longrightarrow> ?thesis"
    by (simp add: rejection_def ws_rejection_def exn_isinstance_def)
qed

theorem outage_is_not_a_rejection:
  assumes "exn_class x = HttpxRequestError"
    and "validate_disco_response (handle_discovery_error x) = Inl e \<or> validate_jwks_response (handle_jwks_error x) = Inl e"
  shows "re_status (rejection e) = 503 \<and> ws_code (ws_rejection e) = 1013"
proof (rule upstream_reply)
  have "\<exists>m. e = raise_cls TokenValidationException (''Network error during discovery'' @ m)
      \<or> e = raise_cls TokenValidationException (''Network error during JWKS'' @ m)"
    using assms
    by (auto simp: handle_discovery_error_def handle_jwks_error_def exn_isinstance_def Let_def validate_disco_response_def
        validate_jwks_response_def disco_failure_def jwks_failure_def disco_get_error_def jwks_get_error_def guarded_get_def
        error_fields_def disco_attr_names_def opt_or_def)
  then show "exn_class e = TokenValidationException" "is_upstream_fetch_failure e"
    by (auto simp: is_upstream_fetch_failure_def UPSTREAM_FETCH_FAILURE_PREFIXES_def py_startswith_def mk_exn_def)
qed

text \<open>The WebSocket authenticator admits exactly the bearers the middleware admits and leaves the same state.\<close>

theorem websocket_agrees_with_http:
  assumes "bearer_token header = Some token" "token \<noteq> []"
  shows "is_ok (fst (authenticate_websocket env fl m (Some header) query_value s)) \<longleftrightarrow> fst (mw_authenticate env fl m token s) = None"
    and "snd (authenticate_websocket env fl m (Some header) query_value s) = snd (mw_authenticate env fl m token s)"
  using assms
  by (auto simp: authenticate_websocket_def extract_ws_token_def mw_authenticate_def split: prod.splits sum.splits option.splits)

text \<open>On a route behind the middleware the claim and scope requirements ask the token.\<close>

theorem requirements_follow_token:
  assumes "mw_authenticate env fl m token s = (None, s')" "get_claims s' = Inr claims" "dict_ok claims"
  shows "require_claim t (Some v) s' = Inr () \<longleftrightarrow>
      v \<in> set (case map_of claims t of None \<Rightarrow> [] | Some j \<Rightarrow> map (str_value fl) (claim_values j))"
    and "require_scope scp s' = Inr () \<longleftrightarrow> scp \<in> set (token_scopes claims)"
proof -
  obtain u where s': "s' = attach_user fl claims token u"
    using assms(1,2) by (auto simp: mw_authenticate_ok get_claims_def state_attr_def attach_user_state)
  obtain p where p: "sv_user s' = Some p" "to_principal fl claims ''Bearer'' (sv_lists u) = (sv_lists s', p)"
    using attach_user_state(3) unfolding s' by blast
  have "has_claim (sv_lists s') p t (Some v) \<longleftrightarrow>
      v \<in> set (case map_of claims t of None \<Rightarrow> [] | Some j \<Rightarrow> map (str_value fl) (claim_values j))"
    unfolding has_claim_def to_principal_lists(1) [OF p(2)] has_claim_values find_all_token [OF assms(3)] ..
  then show "require_claim t (Some v) s' = Inr () \<longleftrightarrow>
      v \<in> set (case map_of claims t of None \<Rightarrow> [] | Some j \<Rightarrow> map (str_value fl) (claim_values j))"
    by (simp add: require_claim_def get_current_user_def state_attr_def p)
  show "require_scope scp s' = Inr () \<longleftrightarrow> scp \<in> set (token_scopes claims)"
    using assms(2) by (simp add: require_scope_def)
qed

text \<open>A path below an entry without a wildcard is never excluded, and a bare root wildcard excludes nothing.\<close>

theorem exclusion_fails_closed:
  "\<not> py_endswith entry ''/*'' \<Longrightarrow> entry_excludes (entry @ CHR ''/'' # rest) entry = False"
  "entry_excludes url_path ''/*'' = False" "entry_excludes url_path ''//*'' = False"
  by (auto simp: entry_excludes_def py_endswith_def py_startswith_def py_rstrip_char_def)

end
