(* ===== verification/Login_Router.thy ===== *)
theory Login_Router
  imports Client_Flows Resource_Server
begin

text \<open>
  \<open>fastapi_identity_model/rp.py\<close>: the login routes of a relying party. A login composes discovery, PKCE, the
  authorization URL, the callback and its checks, the code exchange, ID token validation and UserInfo over the
  browser session. The protocol calls of \<open>aio\<close> are taken to run without interruption, where they are those of
  \<open>sync\<close> (\<open>Aio_Flows\<close>). Random tokens, the network and Starlette's URL are parameters.

  The session holds what the router writes: the flow of a login in progress and the data of a login. A route ends in a
  redirect, in an \<open>HTTPException\<close>, or with another exception, which the framework answers with 500.
\<close>

section \<open>The session\<close>

record login_data =
  ld_sub :: json
  ld_claims :: "json dict"
  ld_userinfo :: "json dict"
  ld_tokens :: "json dict option"

datatype session_entry = Flow_Entry "string dict" | Login_Entry login_data

type_synonym session = "session_entry dict"

record rp_state =
  rp_session :: session
  rp_net :: "prepared net_state"
  rp_caches :: aio_state
  rp_discoveries :: nat
  rp_logins :: nat

record 'pk rp_world =
  rw_session_installed :: bool
  rw_disco :: "nat \<Rightarrow> http_world"
  rw_net :: "prepared net_world"
  rw_signing :: signing_env
  rw_validation :: "'pk tv_env"
  rw_pkce_bytes :: "nat \<Rightarrow> nat \<Rightarrow> byte_list"
  rw_token_urlsafe :: "nat \<Rightarrow> string"
  rw_float_text :: "pyfloat \<Rightarrow> string"

record rp_options =
  ro_settings :: oidc_settings
  ro_session_key :: string
  ro_store_tokens :: bool
  ro_fetch_userinfo :: bool

datatype rp_error = Http_Exception http_reply | Escapes exn

record redirect =
  rd_url :: string
  rd_status :: int

type_synonym 'a rpm = "(rp_state, rp_error, 'a) stm"

definition http_exception :: "int \<Rightarrow> string \<Rightarrow> 'a rpm" where
  "http_exception code detail = slift (Inl (Http_Exception \<lparr>re_status = code, re_detail = detail, re_headers = []\<rparr>))"

text \<open>A library call whose exceptions the route does not catch.\<close>

definition uncaught :: "'a res \<Rightarrow> rp_error + 'a" where
  "uncaught r = (case r of Inl e \<Rightarrow> Inl (Escapes e) | Inr x \<Rightarrow> Inr x)"

definition on_net :: "(prepared net_state, exn, 'a) stm \<Rightarrow> 'a rpm" where
  "on_net m s = (case m (rp_net s) of (r, n) \<Rightarrow> (uncaught r, s\<lparr>rp_net := n\<rparr>))"

definition flow_key :: "string \<Rightarrow> string" where
  "flow_key session_key = session_key @ ''.flow''"

definition require_session :: "'pk rp_world \<Rightarrow> unit rpm" where
  "require_session w =
     slift (uncaught (guard_raise (\<not> rw_session_installed w)
       (raise_cls RuntimeError (''SessionMiddleware is required by the OIDC router but is not ''
          @ ''installed. Add: app.add_middleware(SessionMiddleware, secret_key=...)''))))"

definition session_set :: "string \<Rightarrow> session_entry \<Rightarrow> unit rpm" where
  "session_set k v = supd (\<lambda>s. s\<lparr>rp_session := dict_set k v (rp_session s)\<rparr>)"

definition session_pop :: "string \<Rightarrow> session_entry option rpm" where
  "session_pop k =
     sbnd (sget (\<lambda>s. map_of (rp_session s) k)) (\<lambda>v.
     sbnd (supd (\<lambda>s. s\<lparr>rp_session := dict_pop k (rp_session s)\<rparr>)) (\<lambda>_. sret v))"

section \<open>Public paths\<close>

definition OIDC_ROUTER_PATHS :: "string list" where
  "OIDC_ROUTER_PATHS = [''/login'', ''/callback'', ''/logout'']"

definition oidc_public_paths :: "string \<Rightarrow> string list" where
  "oidc_public_paths prefix =
     (let base = py_rstrip_char (CHR ''/'') prefix;
          base' = (if base \<noteq> [] \<and> \<not> py_startswith base ''/'' then CHR ''/'' # base else base)
      in map (\<lambda>route. base' @ route) OIDC_ROUTER_PATHS)"

section \<open>Discovery\<close>

definition WELL_KNOWN_SUFFIX :: string where
  "WELL_KNOWN_SUFFIX = ''/.well-known/openid-configuration''"

definition expected_issuer :: "string \<Rightarrow> string" where
  "expected_issuer discovery_url =
     (let base = py_rstrip_char (CHR ''/'') discovery_url;
          base' = (if py_endswith base WELL_KNOWN_SUFFIX then take (length base - length WELL_KNOWN_SUFFIX) base else base)
      in py_rstrip_char (CHR ''/'') base')"

text \<open>\<open>value or ""\<close> for a value that is expected to be a string.\<close>

definition text_or_empty :: "json \<Rightarrow> string res" where
  "text_or_empty j =
     (case j of JStr s \<Rightarrow> Inr s
      | _ \<Rightarrow> if truthy j then Inl (raise_cls AttributeError (sq (type_name j) @ '' object has no attribute '' @ sq ''rstrip''))
             else Inr [])"

definition rp_discover :: "'pk rp_world \<Rightarrow> oidc_settings \<Rightarrow> disco_response rpm" where
  "rp_discover w c =
     sbnd (sget rp_discoveries) (\<lambda>n.
     sbnd (supd (\<lambda>s. s\<lparr>rp_discoveries := Suc n\<rparr>)) (\<lambda>_.
       let d = get_discovery_document (rw_disco w n) (os_discovery_url c) None in
       if \<not> d_is_successful d then http_exception 502 ''Identity provider discovery failed''
       else sbnd (slift (uncaught (bnd (disco_get d ''issuer'') text_or_empty))) (\<lambda>iss.
         if py_rstrip_char (CHR ''/'') iss \<noteq> expected_issuer (os_discovery_url c)
         then http_exception 502 ''Identity provider configuration error''
         else sret d)))"

text \<open>An endpoint of an accepted document is a string.\<close>

definition require_endpoint :: "disco_response \<Rightarrow> string \<Rightarrow> string rpm" where
  "require_endpoint d name =
     sbnd (slift (uncaught (disco_get d name))) (\<lambda>v.
       if \<not> truthy v then http_exception 502 (''Provider discovery is missing '' @ sq name)
       else case v of JStr u \<Rightarrow> sret u
            | _ \<Rightarrow> slift (Inl (Escapes (raise_cls TypeError (name @ '' is not a string'')))))"

section \<open>Login\<close>

definition login_flow :: "string \<Rightarrow> string \<Rightarrow> string \<Rightarrow> string dict" where
  "login_flow st nonce code_verifier = [(''state'', st), (''nonce'', nonce), (''code_verifier'', code_verifier)]"

definition login_request :: "oidc_settings \<Rightarrow> string \<Rightarrow> string \<Rightarrow> string \<Rightarrow> string \<Rightarrow> auth_request" where
  "login_request c endpoint st nonce code_challenge =
     \<lparr>ar_endpoint = endpoint, ar_client_id = os_client_id c, ar_redirect_uri = os_redirect_uri c, ar_scope = os_scope c,
      ar_response_type = ''code'', ar_state = Some st, ar_nonce = Some nonce, ar_code_challenge = Some code_challenge,
      ar_code_challenge_method = Some ''S256'', ar_extra = []\<rparr>"

definition rp_login :: "'pk rp_world \<Rightarrow> rp_options \<Rightarrow> redirect rpm" where
  "rp_login w opts =
     (let c = ro_settings opts in
      sbnd (require_session w) (\<lambda>_.
      sbnd (rp_discover w c) (\<lambda>d.
      sbnd (require_endpoint d ''authorization_endpoint'') (\<lambda>endpoint.
      sbnd (sget rp_logins) (\<lambda>n.
      sbnd (slift (uncaught (generate_pkce_pair (rw_pkce_bytes w n) ''S256'' 128))) (\<lambda>(code_verifier, code_challenge).
      sbnd (supd (\<lambda>s. s\<lparr>rp_logins := Suc n\<rparr>)) (\<lambda>_.
        let st = rw_token_urlsafe w (2 * n); nonce = rw_token_urlsafe w (2 * n + 1) in
        sbnd (session_set (flow_key (ro_session_key opts)) (Flow_Entry (login_flow st nonce code_verifier))) (\<lambda>_.
        sbnd (slift (uncaught (build_authorization_url (login_request c endpoint st nonce code_challenge)))) (\<lambda>url.
          sret \<lparr>rd_url = url, rd_status = 302\<rparr>)))))))))"

section \<open>The callback\<close>

definition active_flow :: "session_entry option \<Rightarrow> (string \<times> string \<times> string) option" where
  "active_flow e =
     (case e of
        Some (Flow_Entry d) \<Rightarrow>
          (case (map_of d ''state'', map_of d ''nonce'', map_of d ''code_verifier'') of
             (Some st, Some nonce, Some verifier) \<Rightarrow> Some (st, nonce, verifier)
           | _ \<Rightarrow> None)
      | _ \<Rightarrow> None)"

definition parse_callback :: "string \<Rightarrow> callback_response rpm" where
  "parse_callback callback_url =
     (case parse_authorize_callback_response callback_url of
        Inr cb \<Rightarrow> sret cb
      | Inl e \<Rightarrow> if exn_isinstance e PyIdentityModelException then http_exception 400 ''Malformed authorization response''
                 else slift (Inl (Escapes e)))"

text \<open>The code of a callback that passed the checks.\<close>

definition checked_code :: "callback_response \<Rightarrow> string \<Rightarrow> string rpm" where
  "checked_code cb expected_state =
     (if \<not> cb_is_successful cb then http_exception 400 ''Authorization request failed''
      else sbnd (slift (uncaught (validate_authorize_callback_state cb (Some expected_state)))) (\<lambda>verdict.
        if \<not> sv_is_valid verdict then http_exception 400 ''State mismatch (possible CSRF)''
        else sbnd (slift (uncaught (cb_get cb ''code''))) (\<lambda>code.
          case code of
            JNull \<Rightarrow> http_exception 400 ''Authorization response missing code''
          | JStr x \<Rightarrow> sret x
          | _ \<Rightarrow> slift (Inl (Escapes (raise_cls TypeError ''code is not a string''))))))"

definition code_request_of :: "oidc_settings \<Rightarrow> string \<Rightarrow> string \<Rightarrow> string \<Rightarrow> code_request" where
  "code_request_of c token_endpoint code code_verifier =
     \<lparr>rq_address = token_endpoint, rq_client_id = os_client_id c,
      rq_client_secret = (if opt_truthy (os_client_secret c) then os_client_secret c else None),
      rq_private_key_jwt = None, rq_mtls = None, cr_code = code, cr_redirect_uri = os_redirect_uri c,
      cr_code_verifier = Some code_verifier, cr_scope = None, cr_dpop_key = None\<rparr>"

text \<open>
  The log call on failure reads \<open>tok.error\<close>, which raises where the exchange succeeded with an empty token.
\<close>

definition exchange_code ::
  "'pk rp_world \<Rightarrow> oidc_settings \<Rightarrow> disco_response \<Rightarrow> string \<Rightarrow> string \<Rightarrow> json rpm" where
  "exchange_code w c d code code_verifier =
     sbnd (require_endpoint d ''token_endpoint'') (\<lambda>token_endpoint.
     sbnd (on_net (request_authorization_code_token (rw_net w) (rw_signing w) None
             (code_request_of c token_endpoint code code_verifier))) (\<lambda>tok.
       if \<not> rs_is_successful tok then http_exception 400 ''Authorization code exchange failed''
       else if \<not> truthy (tr_token tok) then slift (Inl (Escapes (successful_access_exn ''error'')))
       else sret (tr_token tok)))"

definition id_token_config :: "oidc_settings \<Rightarrow> string \<Rightarrow> token_validation_config" where
  "id_token_config c issuer =
     (default_config True)\<lparr>audience := Some (os_client_id c), cfg_issuer := JStr issuer,
       options := Some [(''verify_exp'', JBool True),
                        (''require'', JList [JStr ''sub'', JStr ''iat'', JStr ''exp''])]\<rparr>"

definition rp_validate ::
  "'pk rp_world \<Rightarrow> oidc_settings \<Rightarrow> string \<Rightarrow> string \<Rightarrow> json dict rpm" where
  "rp_validate w c issuer id_token s =
     (case aio_validate_token (rw_validation w) id_token (id_token_config c issuer) (Some (os_discovery_url c)) False
             (rp_caches s) of
        (Inr claims, caches) \<Rightarrow> (Inr claims, s\<lparr>rp_caches := caches\<rparr>)
      | (Inl e, caches) \<Rightarrow>
          (if exn_isinstance e PyIdentityModelException
           then http_exception 401 ''ID token validation failed'' (s\<lparr>rp_caches := caches\<rparr>)
           else (Inl (Escapes e), s\<lparr>rp_caches := caches\<rparr>)))"

text \<open>PyJWT refuses a token that is not a string; here that is before the caches are read.\<close>

definition rp_validate_id_token ::
  "'pk rp_world \<Rightarrow> oidc_settings \<Rightarrow> disco_response \<Rightarrow> json \<Rightarrow> string \<Rightarrow> json dict rpm" where
  "rp_validate_id_token w c d id_token expected_nonce =
     sbnd (require_endpoint d ''issuer'') (\<lambda>issuer.
     sbnd (case id_token of JStr jwt \<Rightarrow> rp_validate w c issuer jwt
           | _ \<Rightarrow> slift (Inl (Escapes (raise_cls JwtDecodeError ''Invalid token type'')))) (\<lambda>claims.
       if jget claims ''nonce'' \<noteq> JStr expected_nonce then http_exception 401 ''Nonce mismatch'' else sret claims))"

definition rp_fetch_userinfo :: "'pk rp_world \<Rightarrow> disco_response \<Rightarrow> json \<Rightarrow> json \<Rightarrow> json dict rpm" where
  "rp_fetch_userinfo w d access_token expected_sub =
     sbnd (slift (uncaught (disco_get d ''userinfo_endpoint''))) (\<lambda>endpoint.
       if \<not> truthy access_token \<or> \<not> truthy endpoint then sret []
       else case endpoint of
         JStr address \<Rightarrow>
           sbnd (on_net (get_userinfo (rw_net w) (rw_signing w) None
                  \<lparr>ui_address = address, ui_token = str_value (rw_float_text w) access_token, ui_expected_sub = None,
                   ui_dpop_key = None, ui_mtls = None\<rparr>)) (\<lambda>ui.
             if \<not> rs_is_successful ui then sret []
             else sbnd (slift (uncaught (if truthy (ur_claims ui) then as_dict_or_raise (ur_claims ui) else Inr []))) (\<lambda>claims.
               if expected_sub \<noteq> JNull \<and> \<not> py_eq (jget claims ''sub'') expected_sub
               then http_exception 401 ''UserInfo subject does not match ID token subject''
               else sret claims))
       | _ \<Rightarrow> slift (Inl (Escapes (raise_cls TypeError ''userinfo_endpoint is not a string''))))"

definition login_data_of :: "rp_options \<Rightarrow> json dict \<Rightarrow> json dict \<Rightarrow> json dict \<Rightarrow> login_data" where
  "login_data_of opts token claims userinfo =
     \<lparr>ld_sub = jget claims ''sub'', ld_claims = claims, ld_userinfo = userinfo,
      ld_tokens = (if ro_store_tokens opts
        then Some [(''access_token'', jget token ''access_token''), (''refresh_token'', jget token ''refresh_token''),
                   (''id_token'', jget token ''id_token'')]
        else None)\<rparr>"

text \<open>From a checked code to the data of the login.\<close>

definition complete_login ::
  "'pk rp_world \<Rightarrow> rp_options \<Rightarrow> string \<Rightarrow> string \<Rightarrow> string \<Rightarrow> login_data rpm" where
  "complete_login w opts code nonce code_verifier =
     (let c = ro_settings opts in
      sbnd (rp_discover w c) (\<lambda>d.
      sbnd (exchange_code w c d code code_verifier) (\<lambda>answer.
      sbnd (slift (uncaught (as_dict_or_raise answer))) (\<lambda>token.
        if \<not> truthy (jget token ''id_token'') then http_exception 401 ''Provider did not return an ID token''
        else sbnd (rp_validate_id_token w c d (jget token ''id_token'') nonce) (\<lambda>claims.
          sbnd (if ro_fetch_userinfo opts
                then rp_fetch_userinfo w d (jget token ''access_token'') (jget claims ''sub'') else sret []) (\<lambda>userinfo.
            sret (login_data_of opts token claims userinfo)))))))"

definition finish_login :: "'pk rp_world \<Rightarrow> rp_options \<Rightarrow> string \<Rightarrow> string \<times> string \<times> string \<Rightarrow> redirect rpm" where
  "finish_login w opts callback_url flow =
     (case flow of (st, nonce, code_verifier) \<Rightarrow>
        sbnd (parse_callback callback_url) (\<lambda>cb.
        sbnd (checked_code cb st) (\<lambda>code.
        sbnd (complete_login w opts code nonce code_verifier) (\<lambda>data.
        sbnd (session_set (ro_session_key opts) (Login_Entry data)) (\<lambda>_.
          sret \<lparr>rd_url = os_post_login_redirect (ro_settings opts), rd_status = 302\<rparr>)))))"

definition rp_callback :: "'pk rp_world \<Rightarrow> rp_options \<Rightarrow> string \<Rightarrow> redirect rpm" where
  "rp_callback w opts callback_url =
     sbnd (require_session w) (\<lambda>_.
     sbnd (session_pop (flow_key (ro_session_key opts))) (\<lambda>flow.
       case active_flow flow of
         None \<Rightarrow> http_exception 400 ''No active login flow in session''
       | Some f \<Rightarrow> finish_login w opts callback_url f))"

section \<open>The routes\<close>

definition build_oidc_router :: "rp_options \<Rightarrow> rp_options res" where
  "build_oidc_router opts =
     (if os_redirect_uri (ro_settings opts) = []
      then Inl (raise_cls ValueError (''build_oidc_router requires settings.redirect_uri (the provider ''
             @ ''callback URL); it is only optional for resource-server-only setups.''))
      else Inr opts)"

definition rp_logout :: "'pk rp_world \<Rightarrow> rp_options \<Rightarrow> redirect rpm" where
  "rp_logout w opts =
     sbnd (require_session w) (\<lambda>_.
     sbnd (session_pop (ro_session_key opts)) (\<lambda>_.
     sbnd (session_pop (flow_key (ro_session_key opts))) (\<lambda>_.
       sret \<lparr>rd_url = os_post_logout_redirect (ro_settings opts), rd_status = 303\<rparr>)))"

text \<open>
  A request of the browser: the URL of a callback, or the body of a form post together with Starlette's
  \<open>request.url.replace\<close>.
\<close>

datatype rp_request = Login | Callback string | Callback_Post "string \<Rightarrow> string" string | Logout

definition callback_form_post :: "'pk rp_world \<Rightarrow> rp_options \<Rightarrow> (string \<Rightarrow> string) \<Rightarrow> string \<Rightarrow> redirect rpm" where
  "callback_form_post w opts url_replace body = rp_callback w opts (url_replace (urlencode (parse_qsl body)))"

fun serve :: "'pk rp_world \<Rightarrow> rp_options \<Rightarrow> rp_request \<Rightarrow> redirect rpm" where
  "serve w opts Login = rp_login w opts"
| "serve w opts (Callback url) = rp_callback w opts url"
| "serve w opts (Callback_Post url_replace body) = callback_form_post w opts url_replace body"
| "serve w opts Logout = rp_logout w opts"

section \<open>The session in between\<close>

text \<open>Everything between the pop of the flow and the write of the identity leaves the session alone.\<close>

definition session_is :: "session \<Rightarrow> nat \<Rightarrow> rp_state \<Rightarrow> bool" where
  "session_is S n s \<longleftrightarrow> rp_session s = S \<and> rp_logins s = n"

named_theorems quiet \<open>steps that keep the session\<close>

lemma quiet_http_exception [quiet]: "keeps (session_is S n) (http_exception code detail)"
  unfolding http_exception_def by (rule keeps_pure)

lemma quiet_on_net [quiet]: "keeps (session_is S n) (on_net m)"
  by (rule tripleI) (auto simp: on_net_def session_is_def split: prod.splits)

lemma quiet_json [quiet]:
  "(\<And>x. keeps P (f x)) \<Longrightarrow> keeps P m \<Longrightarrow> keeps P (case j of JStr x \<Rightarrow> f x | _ \<Rightarrow> m)"
  by (cases j) auto

lemmas quiet_rules = quiet_http_exception quiet_on_net quiet_json keeps_pure keeps_sbnd triple_if

lemma quiet_discover [quiet]: "keeps (session_is S n) (rp_discover w c)"
  unfolding rp_discover_def Let_def
  by (intro quiet_rules triple_supd) (auto simp: session_is_def)

lemma quiet_require_endpoint [quiet]: "keeps (session_is S n) (require_endpoint d name)"
  unfolding require_endpoint_def by (intro quiet_rules)

lemma quiet_exchange_code [quiet]: "keeps (session_is S n) (exchange_code w c d code v)"
  unfolding exchange_code_def by (intro quiet_rules quiet)

lemma quiet_rp_validate [quiet]: "keeps (session_is S n) (rp_validate w c issuer jwt)"
  by (rule tripleI) (auto simp: rp_validate_def session_is_def http_exception_def slift_def split: prod.splits sum.splits if_splits)

lemma quiet_validate_id_token [quiet]: "keeps (session_is S n) (rp_validate_id_token w c d id_token nonce)"
  unfolding rp_validate_id_token_def by (intro quiet_rules quiet)

lemma quiet_fetch_userinfo [quiet]: "keeps (session_is S n) (rp_fetch_userinfo w d access_token sub)"
  unfolding rp_fetch_userinfo_def by (intro quiet_rules)

lemma quiet_complete_login [quiet]: "keeps (session_is S n) (complete_login w opts code nonce v)"
  unfolding complete_login_def Let_def
  by (intro quiet_rules quiet)

lemma quiet_parse_callback [quiet]: "keeps (session_is S n) (parse_callback url)"
  unfolding parse_callback_def
  by (cases "parse_authorize_callback_response url") (auto intro!: quiet_rules)

lemma quiet_checked_code [quiet]: "keeps (session_is S n) (checked_code cb st)"
proof -
  have "keeps (session_is S n) (case code of JNull \<Rightarrow> http_exception a b | JStr x \<Rightarrow> sret x | _ \<Rightarrow> slift r)" for code a b r
    by (cases code) (auto intro!: quiet_rules)
  then show ?thesis unfolding checked_code_def by (intro quiet_rules)
qed

lemma uncaught_Inr [simp]: "uncaught r = Inr x \<longleftrightarrow> r = Inr x"
  by (simp add: uncaught_def split: sum.split)

lemma finish_login_session:
  "triple (session_is S n) (finish_login w opts url flow)
     (\<lambda>_ s. \<exists>data. session_is (dict_set (ro_session_key opts) (Login_Entry data) S) n s) (\<lambda>_. session_is S n)"
  unfolding finish_login_def session_set_def
  by (intro triple_pair triple_sbnd [OF quiet_parse_callback] triple_sbnd [OF quiet_checked_code]
      triple_sbnd [OF quiet_complete_login] triple_sbnd [OF triple_supd] triple_sret) (auto simp: session_is_def)

definition no_flow :: rp_error where
  "no_flow = Http_Exception \<lparr>re_status = 400, re_detail = ''No active login flow in session'', re_headers = []\<rparr>"

text \<open>The session after a callback.\<close>

definition session_popped :: "rp_options \<Rightarrow> session \<Rightarrow> session" where
  "session_popped opts S = dict_pop (flow_key (ro_session_key opts)) S"

lemma rp_callback_eq:
  "rw_session_installed w \<Longrightarrow> rp_callback w opts url s =
     (let s1 = s\<lparr>rp_session := session_popped opts (rp_session s)\<rparr> in
      case active_flow (map_of (rp_session s) (flow_key (ro_session_key opts))) of
        None \<Rightarrow> (Inl no_flow, s1)
      | Some flow \<Rightarrow> finish_login w opts url flow s1)"
  by (simp add: rp_callback_def require_session_def session_pop_def session_popped_def guard_raise_def uncaught_def
      sbnd_def stm_simps http_exception_def no_flow_def split: option.split)

lemma rp_callback_no_session: "\<not> rw_session_installed w \<Longrightarrow> \<exists>e. rp_callback w opts url s = (Inl (Escapes e), s)"
  by (simp add: rp_callback_def require_session_def guard_raise_def uncaught_def sbnd_def stm_simps)

lemma rp_callback_session:
  assumes "rp_callback w opts url s = (r, s')" "rw_session_installed w"
  shows "rp_logins s' = rp_logins s"
    and "\<not> is_ok r \<Longrightarrow> rp_session s' = session_popped opts (rp_session s)"
    and "is_ok r \<Longrightarrow> active_flow (map_of (rp_session s) (flow_key (ro_session_key opts))) \<noteq> None \<and>
      (\<exists>data. rp_session s' = dict_set (ro_session_key opts) (Login_Entry data) (session_popped opts (rp_session s)))"
proof -
  let ?s1 = "s\<lparr>rp_session := session_popped opts (rp_session s)\<rparr>"
  have start: "session_is (session_popped opts (rp_session s)) (rp_logins s) ?s1" by (simp add: session_is_def)
  have "rp_logins s' = rp_logins s \<and> (\<not> is_ok r \<longrightarrow> rp_session s' = session_popped opts (rp_session s)) \<and>
    (is_ok r \<longrightarrow> active_flow (map_of (rp_session s) (flow_key (ro_session_key opts))) \<noteq> None \<and>
      (\<exists>data. rp_session s' = dict_set (ro_session_key opts) (Login_Entry data) (session_popped opts (rp_session s))))"
  proof (cases "active_flow (map_of (rp_session s) (flow_key (ro_session_key opts)))")
    case None
    then show ?thesis using assms by (auto simp: rp_callback_eq)
  next
    case (Some flow)
    then have run: "finish_login w opts url flow ?s1 = (r, s')" using assms by (simp add: rp_callback_eq)
    show ?thesis
      using triple_Inr [OF finish_login_session start, of w opts url flow] triple_Inl [OF finish_login_session start, of w opts url flow]
        run Some by (cases r) (auto simp: session_is_def)
  qed
  then show "rp_logins s' = rp_logins s"
    and "\<not> is_ok r \<Longrightarrow> rp_session s' = session_popped opts (rp_session s)"
    and "is_ok r \<Longrightarrow> active_flow (map_of (rp_session s) (flow_key (ro_session_key opts))) \<noteq> None \<and>
      (\<exists>data. rp_session s' = dict_set (ro_session_key opts) (Login_Entry data) (session_popped opts (rp_session s)))"
    by blast+
qed

section \<open>Runs\<close>

text \<open>What a started login leaves behind: the session as it was, or the flow of this login with the next random values.\<close>

lemma quiet_login:
  "triple (session_is S n) (rp_login w opts)
     (\<lambda>rd s. \<exists>d verifier challenge endpoint.
        session_is (dict_set (flow_key (ro_session_key opts))
          (Flow_Entry (login_flow (rw_token_urlsafe w (2 * n)) (rw_token_urlsafe w (2 * n + 1)) verifier)) S) (Suc n) s \<and>
        generate_pkce_pair (rw_pkce_bytes w n) ''S256'' 128 = Inr (verifier, challenge) \<and>
        disco_get d ''authorization_endpoint'' = Inr (JStr endpoint) \<and>
        build_authorization_url (login_request (ro_settings opts) endpoint (rw_token_urlsafe w (2 * n))
          (rw_token_urlsafe w (2 * n + 1)) challenge) = Inr (rd_url rd))
     (\<lambda>_ s. session_is S n s \<or>
        (\<exists>verifier. session_is (dict_set (flow_key (ro_session_key opts))
          (Flow_Entry (login_flow (rw_token_urlsafe w (2 * n)) (rw_token_urlsafe w (2 * n + 1)) verifier)) S) (Suc n) s))"
proof -
  let ?set = "\<lambda>verifier. dict_set (flow_key (ro_session_key opts))
      (Flow_Entry (login_flow (rw_token_urlsafe w (2 * n)) (rw_token_urlsafe w (2 * n + 1)) verifier)) S"
  let ?E = "\<lambda>(_ :: rp_error) s. session_is S n s \<or> (\<exists>verifier. session_is (?set verifier) (Suc n) s)"
  have early: "triple (session_is S n) m (\<lambda>_. session_is S n) ?E" if "keeps (session_is S n) m" for m :: "'z rpm"
    by (rule triple_conseq [OF that]) auto
  have endpoint: "triple (session_is S n) (require_endpoint d name)
      (\<lambda>u s. session_is S n s \<and> disco_get d name = Inr (JStr u)) ?E" for d name
    unfolding require_endpoint_def
    by (rule tripleI) (auto simp: sbnd_def stm_simps uncaught_def http_exception_def split: sum.splits if_splits json.splits)
  show ?thesis
    unfolding rp_login_def Let_def session_set_def
    apply (rule triple_sbnd [OF early])
     apply (simp add: require_session_def keeps_pure)
    apply (rule triple_sbnd [OF early [OF quiet_discover]])
    apply (rule triple_sbnd [OF endpoint], rule triple_pre)
    apply (rule tripleI)
     apply (auto simp: sbnd_Inr stm_simps session_is_def)[1]
    apply (auto simp: sbnd_def stm_simps uncaught_def session_is_def split: sum.splits prod.splits)
    done
qed

text \<open>
  A browser session: it starts empty, the routes are served in any order, and between two requests the rest of the
  application may do anything to the caches and the network. The number counts the logins that were completed.
\<close>

fun completes :: "rp_request \<Rightarrow> rp_error + redirect \<Rightarrow> bool" where
  "completes (Callback _) r = is_ok r"
| "completes (Callback_Post _ _) r = is_ok r"
| "completes _ r = False"

inductive rp_run :: "'pk rp_world \<Rightarrow> rp_options \<Rightarrow> nat \<Rightarrow> rp_state \<Rightarrow> bool" for w opts where
  start: "\<lbrakk>rp_session s = []; rp_logins s = 0\<rbrakk> \<Longrightarrow> rp_run w opts 0 s"
| serve: "\<lbrakk>rp_run w opts n s; serve w opts q s = (r, s')\<rbrakk> \<Longrightarrow> rp_run w opts (if completes q r then Suc n else n) s'"
| other: "\<lbrakk>rp_run w opts n s; rp_session s' = rp_session s; rp_logins s' = rp_logins s\<rbrakk> \<Longrightarrow> rp_run w opts n s'"

definition pending_flow :: "rp_options \<Rightarrow> rp_state \<Rightarrow> (string \<times> string \<times> string) option" where
  "pending_flow opts s = active_flow (map_of (rp_session s) (flow_key (ro_session_key opts)))"

definition identity_of :: "rp_options \<Rightarrow> rp_state \<Rightarrow> session_entry option" where
  "identity_of opts s = map_of (rp_session s) (ro_session_key opts)"

lemma keys_differ [simp]: "flow_key k \<noteq> k" "k \<noteq> flow_key k"
  by (simp_all add: flow_key_def)

text \<open>
  The invariant: every completed login used up a login that was started, and the flow of a pending one is not used up; the
  flow is that of the last login started; the identity appears with a completed login and is never a flow.
\<close>

definition rp_inv :: "'pk rp_world \<Rightarrow> rp_options \<Rightarrow> nat \<Rightarrow> rp_state \<Rightarrow> bool" where
  "rp_inv w opts n s \<longleftrightarrow>
     n + (if pending_flow opts s = None then 0 else 1) \<le> rp_logins s \<and>
     (\<forall>st nonce v. pending_flow opts s = Some (st, nonce, v) \<longrightarrow>
        st = rw_token_urlsafe w (2 * (rp_logins s - 1)) \<and> nonce = rw_token_urlsafe w (2 * (rp_logins s - 1) + 1)) \<and>
     (\<forall>e. identity_of opts s = Some e \<longrightarrow> 0 < n \<and> (\<exists>data. e = Login_Entry data))"

lemma active_login_flow: "active_flow (Some (Flow_Entry (login_flow st nonce v))) = Some (st, nonce, v)"
  by (simp add: active_flow_def login_flow_def)

lemma active_none [simp]: "active_flow None = None"
  by (simp add: active_flow_def)

lemmas session_simps = pending_flow_def identity_of_def session_popped_def dict_get_set dict_get_pop active_login_flow

lemma callback_inv:
  assumes "rp_inv w opts n s" "rp_callback w opts url s = (r, s')"
  shows "rp_inv w opts (if is_ok r then Suc n else n) s'"
proof (cases "rw_session_installed w")
  case False
  then show ?thesis using rp_callback_no_session [OF False, of opts url s] assms by auto
next
  case True
  note eff = rp_callback_session [OF assms(2) True]
  show ?thesis
  proof (cases "is_ok r")
    case ok: True
    then obtain data where "pending_flow opts s \<noteq> None"
      "rp_session s' = dict_set (ro_session_key opts) (Login_Entry data) (session_popped opts (rp_session s))"
      using eff(3) by (auto simp: pending_flow_def)
    then show ?thesis using assms(1) ok eff(1) by (auto simp: rp_inv_def session_simps)
  next
    case False
    then show ?thesis using assms(1) eff(1,2) by (auto simp: rp_inv_def session_simps split: if_splits)
  qed
qed

lemma login_inv:
  assumes "rp_inv w opts n s" "rp_login w opts s = (r, s')"
  shows "rp_inv w opts n s'"
proof -
  have start: "session_is (rp_session s) (rp_logins s) s" by (simp add: session_is_def)
  have "session_is (rp_session s) (rp_logins s) s' \<or>
    (\<exists>v. session_is (dict_set (flow_key (ro_session_key opts)) (Flow_Entry (login_flow (rw_token_urlsafe w (2 * rp_logins s))
       (rw_token_urlsafe w (2 * rp_logins s + 1)) v)) (rp_session s)) (Suc (rp_logins s)) s')"
    using assms(2) triple_Inr [OF quiet_login start, of w opts] triple_Inl [OF quiet_login start, of w opts]
    by (cases r) blast+
  then show ?thesis
    using assms(1) by (auto simp: rp_inv_def session_is_def session_simps split: if_splits)
qed

lemma logout_inv:
  assumes "rp_inv w opts n s" "rp_logout w opts s = (r, s')"
  shows "rp_inv w opts n s'"
  using assms by (auto simp: rp_logout_def require_session_def session_pop_def guard_raise_def uncaught_def sbnd_def stm_simps
      rp_inv_def session_simps split: if_splits)

lemma rp_run_inv: "rp_run w opts n s \<Longrightarrow> rp_inv w opts n s"
proof (induction rule: rp_run.induct)
  case (start s)
  then show ?case by (simp add: rp_inv_def session_simps)
next
  case (serve n s q r s')
  then show ?case
    using callback_inv [OF serve.IH] login_inv [OF serve.IH] logout_inv [OF serve.IH]
    by (cases q) (auto simp: callback_form_post_def)
next
  case (other n s s')
  then show ?case by (simp add: rp_inv_def session_simps)
qed

section \<open>What a login proves\<close>

declare sbnd_lift_Inr [simp]

lemma http_exception_Inr [simp]: "http_exception code detail s \<noteq> (Inr x, s')"
  by (simp add: http_exception_def slift_def)

lemma guard_http_Inr [simp]:
  "(if b then http_exception code detail else m) s = (Inr x, s') \<longleftrightarrow> \<not> b \<and> m s = (Inr x, s')"
  by simp

lemma on_net_Inr: "on_net m s = (Inr x, s') \<longleftrightarrow> (\<exists>n. m (rp_net s) = (Inr x, n) \<and> s' = s\<lparr>rp_net := n\<rparr>)"
  by (auto simp: on_net_def split: prod.splits)

lemma require_endpoint_Inr:
  "require_endpoint d name s = (Inr u, s') \<longleftrightarrow> disco_get d name = Inr (JStr u) \<and> u \<noteq> [] \<and> s' = s"
proof -
  have "(if \<not> truthy v then http_exception 502 (''Provider discovery is missing '' @ sq name)
      else case v of JStr u \<Rightarrow> sret u | _ \<Rightarrow> slift (Inl (Escapes (raise_cls TypeError (name @ '' is not a string''))))) s = (Inr u, s')
      \<longleftrightarrow> v = JStr u \<and> u \<noteq> [] \<and> s' = s" for v
    by (cases v) (auto simp: stm_simps)
  then show ?thesis unfolding require_endpoint_def sbnd_lift_Inr uncaught_Inr by auto
qed

text \<open>The provider a login trusts: its document was fetched from the configured URL and names the issuer of that URL.\<close>

definition provider :: "'pk rp_world \<Rightarrow> oidc_settings \<Rightarrow> disco_response \<Rightarrow> bool" where
  "provider w c d \<longleftrightarrow> d_is_successful d \<and> (\<exists>n. d = get_discovery_document (rw_disco w n) (os_discovery_url c) None) \<and>
     (\<exists>iss. bnd (disco_get d ''issuer'') text_or_empty = Inr iss \<and>
        py_rstrip_char (CHR ''/'') iss = expected_issuer (os_discovery_url c))"

lemma rp_discover_Inr:
  "rp_discover w c s = (Inr d, s') \<Longrightarrow> provider w c d \<and> rp_caches s' = rp_caches s"
  by (auto simp: rp_discover_def Let_def sbnd_Inr stm_simps provider_def split: if_splits)

text \<open>The token answer: the provider's token endpoint gave it for this code and this verifier.\<close>

definition redeemed :: "'pk rp_world \<Rightarrow> oidc_settings \<Rightarrow> disco_response \<Rightarrow> string \<Rightarrow> string \<Rightarrow> json dict \<Rightarrow> bool" where
  "redeemed w c d code verifier token \<longleftrightarrow>
     (\<exists>endpoint tok n n'. disco_get d ''token_endpoint'' = Inr (JStr endpoint) \<and>
        request_authorization_code_token (rw_net w) (rw_signing w) None (code_request_of c endpoint code verifier) n = (Inr tok, n') \<and>
        rs_is_successful tok \<and> tr_token tok = JDict token)"

lemma exchange_code_Inr:
  "exchange_code w c d code verifier s = (Inr (JDict token), s') \<Longrightarrow>
     redeemed w c d code verifier token \<and> rp_caches s' = rp_caches s"
  by (auto simp: exchange_code_def sbnd_Inr require_endpoint_Inr on_net_Inr redeemed_def stm_simps split: if_splits)

text \<open>The ID token: the provider's keys verify it for this client, with the claims a login needs.\<close>

definition id_token_valid :: "'pk rp_world \<Rightarrow> oidc_settings \<Rightarrow> string \<Rightarrow> json dict \<Rightarrow> bool" where
  "id_token_valid w c jwt claims \<longleftrightarrow>
     (\<exists>d key alg pk. disco_from (rw_validation w) (os_discovery_url c) (resolve_discovery_policy None True) d \<and>
        d_is_successful d \<and> key_from (rw_validation w) jwt d key alg \<and> jl_pyjwk (te_lib (rw_validation w)) key alg = Inr pk \<and>
        jl_decode (te_lib (rw_validation w)) jwt pk
          \<lparr>da_audience = Some (os_client_id c), da_algorithms = [alg], da_issuer = jget (d_attrs d) ''issuer'',
           da_options = Some [(''verify_exp'', JBool True), (''require'', JList [JStr ''sub'', JStr ''iat'', JStr ''exp''])],
           da_leeway = JInt 0\<rparr> = Inr claims)"

lemma rp_validate_Inr:
  assumes "settings_ok (te_settings (rw_validation w))" "tv_reachable (rw_validation w) (fst (rp_caches s))"
    and "rp_validate w c issuer jwt s = (Inr claims, s')"
  shows "id_token_valid w c jwt claims"
proof -
  let ?c = "id_token_config c issuer"
  obtain caches where "aio_validate_token (rw_validation w) jwt ?c (Some (os_discovery_url c)) False (rp_caches s) = (Inr claims, caches)"
    using assms(3) by (auto simp: rp_validate_def http_exception_def slift_def split: prod.splits sum.splits if_splits)
  then have "accepted (rw_validation w) jwt ?c (Some (os_discovery_url c)) claims"
    using aio_accepted [OF assms(1,2)] by (metis prod.collapse)
  from accepted_decoded [OF this] show ?thesis
    by (simp add: id_token_valid_def id_token_config_def default_config_def)
qed

lemma rp_validate_id_token_Inr:
  assumes "settings_ok (te_settings (rw_validation w))" "tv_reachable (rw_validation w) (fst (rp_caches s))"
    and "rp_validate_id_token w c d id_token nonce s = (Inr claims, s')"
  shows "\<exists>jwt. id_token = JStr jwt \<and> id_token_valid w c jwt claims \<and> jget claims ''nonce'' = JStr nonce"
  using assms(3) rp_validate_Inr [OF assms(1,2)]
  by (cases id_token) (auto simp: rp_validate_id_token_def sbnd_Inr require_endpoint_Inr stm_simps split: if_splits)

lemma rp_fetch_userinfo_Inr:
  assumes "rp_fetch_userinfo w d access_token sub s = (Inr userinfo, s')"
  shows "userinfo = [] \<or> sub = JNull \<or> py_eq (jget userinfo ''sub'') sub"
proof -
  obtain endpoint where "disco_get d ''userinfo_endpoint'' = Inr endpoint"
    using assms by (auto simp: rp_fetch_userinfo_def)
  then show ?thesis
    using assms by (cases endpoint) (auto simp: rp_fetch_userinfo_def sbnd_Inr stm_simps split: if_splits)
qed

lemma complete_login_Inr:
  assumes "settings_ok (te_settings (rw_validation w))" "tv_reachable (rw_validation w) (fst (rp_caches s))"
    and "complete_login w opts code nonce verifier s = (Inr data, s')"
  shows "\<exists>d token jwt claims userinfo. provider w (ro_settings opts) d \<and> redeemed w (ro_settings opts) d code verifier token \<and>
     jget token ''id_token'' = JStr jwt \<and> id_token_valid w (ro_settings opts) jwt claims \<and>
     jget claims ''nonce'' = JStr nonce \<and>
     (userinfo = [] \<or> jget claims ''sub'' = JNull \<or> py_eq (jget userinfo ''sub'') (jget claims ''sub'')) \<and>
     data = login_data_of opts token claims userinfo"
proof -
  let ?c = "ro_settings opts"
  obtain d s1 answer s2 token claims s3 userinfo where
    d: "rp_discover w ?c s = (Inr d, s1)" and tok: "exchange_code w ?c d code verifier s1 = (Inr answer, s2)"
    and a: "as_dict_or_raise answer = Inr token"
    and id: "rp_validate_id_token w ?c d (jget token ''id_token'') nonce s2 = (Inr claims, s3)"
    and ui: "(if ro_fetch_userinfo opts then rp_fetch_userinfo w d (jget token ''access_token'') (jget claims ''sub'') else sret []) s3
       = (Inr userinfo, s')"
    and data: "data = login_data_of opts token claims userinfo"
    using assms(3) unfolding complete_login_def Let_def sbnd_Inr sbnd_lift_Inr uncaught_Inr guard_http_Inr
    by (auto simp: sret_def slift_def)
  have answer: "answer = JDict token" using a by (auto simp: as_dict_or_raise_def split: json.splits)
  have "rp_caches s2 = rp_caches s"
    using rp_discover_Inr [OF d] exchange_code_Inr [OF tok [unfolded answer]] by simp
  then have reach: "tv_reachable (rw_validation w) (fst (rp_caches s2))" using assms(2) by simp
  have "userinfo = [] \<or> jget claims ''sub'' = JNull \<or> py_eq (jget userinfo ''sub'') (jget claims ''sub'')"
    using ui by (cases "ro_fetch_userinfo opts") (simp_all add: rp_fetch_userinfo_Inr sret_def)
  then show ?thesis
    using rp_discover_Inr [OF d] exchange_code_Inr [OF tok [unfolded answer]] rp_validate_id_token_Inr [OF assms(1) reach id] data
    by blast
qed

lemma checked_code_Inr:
  assumes "checked_code cb st s = (Inr code, s')"
  shows "cb_is_successful cb \<and> st \<noteq> [] \<and> jget (cb_fields cb) ''state'' = JStr st \<and> cb_get cb ''code'' = Inr (JStr code) \<and> s' = s"
proof -
  obtain verdict v where ok: "cb_is_successful cb" and verdict: "validate_authorize_callback_state cb (Some st) = Inr verdict"
      "sv_is_valid verdict" and v: "cb_get cb ''code'' = Inr v"
    and rest: "(case v of JNull \<Rightarrow> http_exception 400 ''Authorization response missing code'' | JStr x \<Rightarrow> sret x
       | _ \<Rightarrow> slift (Inl (Escapes (raise_cls TypeError ''code is not a string'')))) s = (Inr code, s')"
    using assms by (auto simp: checked_code_def)
  have "st \<noteq> [] \<and> jget (cb_fields cb) ''state'' = JStr st"
    using ok verdict by (cases "jget (cb_fields cb) ''state''")
      (auto simp: validate_authorize_callback_state_def cb_get_ok sv_failure_def sv_success_def res_splits split: if_splits)
  moreover have "v = JStr code \<and> s' = s" using rest by (cases v) (auto simp: stm_simps)
  ultimately show ?thesis using ok v by simp
qed

lemma finish_login_Inr:
  assumes "finish_login w opts url (st, nonce, verifier) s = (Inr rd, s')"
  shows "\<exists>cb code data s1. parse_authorize_callback_response url = Inr cb \<and> checked_code cb st s = (Inr code, s) \<and>
    complete_login w opts code nonce verifier s = (Inr data, s1) \<and>
    s' = s1\<lparr>rp_session := dict_set (ro_session_key opts) (Login_Entry data) (rp_session s1)\<rparr> \<and>
    rd = \<lparr>rd_url = os_post_login_redirect (ro_settings opts), rd_status = 302\<rparr>"
proof -
  obtain cb t code t1 data s1 where cb: "parse_callback url s = (Inr cb, t)" and code: "checked_code cb st t = (Inr code, t1)"
    and rest: "complete_login w opts code nonce verifier t1 = (Inr data, s1)"
      "s' = s1\<lparr>rp_session := dict_set (ro_session_key opts) (Login_Entry data) (rp_session s1)\<rparr>"
      "rd = \<lparr>rd_url = os_post_login_redirect (ro_settings opts), rd_status = 302\<rparr>"
    using assms by (auto simp: finish_login_def sbnd_Inr session_set_def stm_simps)
  have "parse_authorize_callback_response url = Inr cb" "t = s"
    using cb by (auto simp: parse_callback_def stm_simps split: sum.splits if_splits)
  moreover have "t1 = t" using checked_code_Inr [OF code] by simp
  ultimately show ?thesis using code rest by auto
qed

text \<open>C3: A login proves who logged in. When the callback route logs a browser in, the browser had a login flow in its session
  and the provider's response echoed that flow's non-empty state and carried a code; the provider whose document was fetched
  from the configured URL and names that URL's issuer redeemed this code with the flow's PKCE verifier; the ID token in
  its answer was decoded with a key of the provider, for this client as audience, with expiry checked and \<open>sub\<close>, \<open>iat\<close>
  and \<open>exp\<close> required, and carries the flow's nonce; UserInfo claims that are kept are of the same subject; and the session
  afterwards holds exactly these claims as its identity and no flow.\<close>

theorem login_sound:
  assumes "settings_ok (te_settings (rw_validation w))" "tv_reachable (rw_validation w) (fst (rp_caches s))"
    and "rp_callback w opts url s = (Inr rd, s')"
  shows "\<exists>st nonce verifier cb code d token jwt claims userinfo.
    pending_flow opts s = Some (st, nonce, verifier) \<and>
    parse_authorize_callback_response url = Inr cb \<and> cb_is_successful cb \<and>
    st \<noteq> [] \<and> jget (cb_fields cb) ''state'' = JStr st \<and> cb_get cb ''code'' = Inr (JStr code) \<and>
    provider w (ro_settings opts) d \<and> redeemed w (ro_settings opts) d code verifier token \<and>
    jget token ''id_token'' = JStr jwt \<and> id_token_valid w (ro_settings opts) jwt claims \<and>
    jget claims ''nonce'' = JStr nonce \<and>
    (userinfo = [] \<or> jget claims ''sub'' = JNull \<or> py_eq (jget userinfo ''sub'') (jget claims ''sub'')) \<and>
    identity_of opts s' = Some (Login_Entry (login_data_of opts token claims userinfo)) \<and> pending_flow opts s' = None \<and>
    rd = \<lparr>rd_url = os_post_login_redirect (ro_settings opts), rd_status = 302\<rparr>"
proof -
  let ?s1 = "s\<lparr>rp_session := session_popped opts (rp_session s)\<rparr>"
  have inst: "rw_session_installed w" using rp_callback_no_session [of w opts url s] assms(3) by force
  obtain st nonce verifier where flow: "pending_flow opts s = Some (st, nonce, verifier)"
    and run: "finish_login w opts url (st, nonce, verifier) ?s1 = (Inr rd, s')"
    using assms(3) by (auto simp: rp_callback_eq [OF inst] pending_flow_def Let_def split: option.splits)
  obtain cb code data s1 where cb: "parse_authorize_callback_response url = Inr cb" "checked_code cb st ?s1 = (Inr code, ?s1)"
    and login: "complete_login w opts code nonce verifier ?s1 = (Inr data, s1)"
    and s': "s' = s1\<lparr>rp_session := dict_set (ro_session_key opts) (Login_Entry data) (rp_session s1)\<rparr>"
    and rd: "rd = \<lparr>rd_url = os_post_login_redirect (ro_settings opts), rd_status = 302\<rparr>"
    using finish_login_Inr [OF run] by blast
  have "session_is (session_popped opts (rp_session s)) (rp_logins s) s1"
    using triple_Inr [OF quiet_complete_login _ login] by (simp add: session_is_def)
  then have sess: "identity_of opts s' = Some (Login_Entry data)" "pending_flow opts s' = None"
    unfolding s' by (simp_all add: session_is_def session_simps)
  have reach: "tv_reachable (rw_validation w) (fst (rp_caches ?s1))" using assms(2) by simp
  from checked_code_Inr [OF cb(2)] complete_login_Inr [OF assms(1) reach login] flow cb(1) sess rd
  show ?thesis by blast
qed


section \<open>An example\<close>

definition example_rp :: rp_options where
  "example_rp = \<lparr>ro_settings = \<lparr>os_discovery_url = example_address, os_client_id = ''app'', os_redirect_uri = ''https://app/callback'',
       os_client_secret = None, os_scope = ''openid'', os_audience = Some ''app'', os_post_login_redirect = ''/'',
       os_post_logout_redirect = ''/'', os_excluded_paths = []\<rparr>,
     ro_session_key = ''oidc'', ro_store_tokens = False, ro_fetch_userinfo = False\<rparr>"

definition login_claims :: "json dict" where
  "login_claims = [(''iss'', JStr ''https://op.example''), (''sub'', JStr ''alice''), (''nonce'', JStr ''n1'')]"

definition token_http :: http_response where
  "token_http = \<lparr>h_status = 200, h_headers = [(''content-type'', ''application/json'')], h_content = ''{}'', h_url = None,
     h_json = Inr (JDict [(''id_token'', JStr ''token'')]), h_text = ''{}''\<rparr>"

definition login_world :: "unit rp_world" where
  "login_world = \<lparr>rw_session_installed = True, rw_disco = (\<lambda>_. example_world),
     rw_net = example_net\<lparr>nw_send := (\<lambda>_ _ _. Inr token_http)\<rparr>, rw_signing = example_signing,
     rw_validation = decoding_env login_claims, rw_pkce_bytes = (\<lambda>_ _. []), rw_token_urlsafe = (\<lambda>_. ''r''),
     rw_float_text = (\<lambda>_. [])\<rparr>"

definition returning_browser :: rp_state where
  "returning_browser = \<lparr>rp_session = [(''oidc.flow'', Flow_Entry (login_flow ''s1'' ''n1'' ''v1''))], rp_net = idle_net,
     rp_caches = (tv_init, zero_counters), rp_discoveries = 0, rp_logins = 1\<rparr>"

lemma token_retry:
  "fst (retry_with_backoff (\<lambda>_. None) empty_env (\<lambda>_. 0) None None (\<lambda>_. Inr token_http)) = Inr token_http"
proof -
  have "get_retry_params empty_env None None = Inr (3, Fin 1)"
    by (simp add: get_retry_params_def get_retry_config_default)
  moreover have "[0..3] = 0 # [1..3 :: int]" by (simp add: upto_rec1)
  ultimately show ?thesis
    by (simp add: retry_with_backoff_def should_retry_response_def check_no_redirect_def token_http_def)
qed

lemma login_exchange:
  "\<exists>n tok. request_authorization_code_token (rw_net login_world) (rw_signing login_world) None
       (code_request_of (ro_settings example_rp) ''https://op.example/token'' ''c1'' ''v1'') idle_net = (Inr tok, n) \<and>
     rs_is_successful tok \<and> tr_token tok = JDict [(''id_token'', JStr ''token'')]"
proof -
  have tok: "rs_is_successful (process_auth_code_token_response token_http)"
      "tr_token (process_auth_code_token_response token_http) = JDict [(''id_token'', JStr ''token'')]"
    by code_simp+
  have "is_ok (prepare_auth_code_token_request_data example_signing 0
      (code_request_of (ro_settings example_rp) ''https://op.example/token'' ''c1'' ''v1'') None)"
    by code_simp
  then obtain p where prep: "prepare_auth_code_token_request_data example_signing 0
      (code_request_of (ro_settings example_rp) ''https://op.example/token'' ''c1'' ''v1'') None = Inr p"
    by (auto simp: is_ok_def split: sum.splits)
  have plain: "rq_mtls (code_request_of c u code v) = None" "cr_dpop_key (code_request_of c u code v) = None" for c u code v
    by (simp_all add: code_request_of_def)
  show ?thesis
    using tok by (simp add: request_authorization_code_token_def call_endpoint_def attempt_def sbnd_def scatch_def stm_simps plain prep
        resolve_http_client_def get_http_client_def idle_net_def send_request_def Let_def log_event_def example_net_def
        login_world_def draw_def token_retry close_response_def close_owned_def)
qed

lemma login_valid:
  "fst (aio_validate_token (decoding_env login_claims) ''token'' (id_token_config (ro_settings example_rp) ''https://op.example'')
     (Some example_address) False (tv_init, zero_counters)) = Inr login_claims"
proof -
  let ?c = "id_token_config (ro_settings example_rp) ''https://op.example''"
  let ?c' = "?c\<lparr>cfg_key := Some (KeyDict example_jwk_dict), algorithms := Some [JStr ''RS256'']\<rparr>"
  have "validate_token_config ?c = Inr ()" by code_simp
  moreover have "build_resolved_config ?c example_jwk_dict (JStr ''RS256'') = Inr ?c'"
    by (simp add: build_resolved_config_ok id_token_config_def default_config_def)
  moreover have "decode_with_config (example_lib\<lparr>jl_decode := (\<lambda>_ _ _. Inr login_claims)\<rparr>) ''token'' ?c' (JStr ''https://op.example'')
      = Inr login_claims"
    by code_simp
  moreover have "validate_async_claims login_claims ?c = Inr ()" by code_simp
  ultimately show ?thesis
    by (intro decoding_run) (simp_all add: id_token_config_def default_config_def)
qed

abbreviation example_callback :: string where
  "example_callback \<equiv> ''https://app/callback?code=c1&state=s1''"

lemma login_provider:
  "\<exists>s'. rp_discover login_world (ro_settings example_rp) s = (Inr (build_discovery_response example_document None), s')
     \<and> rp_net s' = rp_net s \<and> rp_caches s' = rp_caches s"
proof -
  let ?d = "build_discovery_response example_document None"
  have "get_discovery_document example_world example_address None = ?d"
    using example_discovery by (simp add: get_discovery_document_def effective_policy_def)
  moreover have "d_is_successful ?d" "py_rstrip_char (CHR ''/'') ''https://op.example'' = expected_issuer example_address"
    by code_simp+
  ultimately show ?thesis
    by (simp add: rp_discover_def sbnd_def stm_simps login_world_def example_rp_def example_resolve(2) uncaught_def text_or_empty_def)
qed

lemma login_completes:
  assumes "rp_net s = idle_net" "rp_caches s = (tv_init, zero_counters)"
  shows "\<exists>s'. complete_login login_world example_rp ''c1'' ''n1'' ''v1'' s =
    (Inr (login_data_of example_rp [(''id_token'', JStr ''token'')] login_claims []), s')"
proof -
  let ?d = "build_discovery_response example_document None"
  have "disco_get ?d ''token_endpoint'' = Inr (JStr ''https://op.example/token'')" by code_simp
  then have ep: "require_endpoint ?d ''token_endpoint'' t = (Inr ''https://op.example/token'', t)"
      "require_endpoint ?d ''issuer'' t = (Inr ''https://op.example'', t)" for t
    using example_resolve(2) by (simp_all add: require_endpoint_Inr)
  obtain s1 where d: "rp_discover login_world (ro_settings example_rp) s = (Inr ?d, s1)"
    "rp_net s1 = idle_net" "rp_caches s1 = (tv_init, zero_counters)"
    using login_provider [of s] assms by auto
  obtain n tok where tok: "request_authorization_code_token (rw_net login_world) (rw_signing login_world) None
       (code_request_of (ro_settings example_rp) ''https://op.example/token'' ''c1'' ''v1'') idle_net = (Inr tok, n)"
     "rs_is_successful tok" "tr_token tok = JDict [(''id_token'', JStr ''token'')]"
    using login_exchange by blast
  obtain caches where v: "aio_validate_token (rw_validation login_world) ''token'' (id_token_config (ro_settings example_rp) ''https://op.example'')
     (Some (os_discovery_url (ro_settings example_rp))) False (tv_init, zero_counters) = (Inr login_claims, caches)"
    using login_valid by (metis (no_types, lifting) login_world_def rp_world.select_convs(5) example_rp_def rp_options.select_convs(1)
        oidc_settings.select_convs(1) prod.collapse)
  have "exchange_code login_world (ro_settings example_rp) ?d ''c1'' ''v1'' s1 =
      (Inr (JDict [(''id_token'', JStr ''token'')]), s1\<lparr>rp_net := n\<rparr>)"
    using tok d(2) by (simp add: exchange_code_def sbnd_def ep on_net_def uncaught_def stm_simps)
  moreover have "rp_validate_id_token login_world (ro_settings example_rp) ?d (JStr ''token'') ''n1'' (s1\<lparr>rp_net := n\<rparr>) =
      (Inr login_claims, s1\<lparr>rp_net := n, rp_caches := caches\<rparr>)"
    using v d(3) by (simp add: rp_validate_id_token_def sbnd_def ep rp_validate_def
        stm_simps login_claims_def jget_def)
  moreover have "\<not> ro_fetch_userinfo example_rp" by (simp add: example_rp_def)
  ultimately show ?thesis
    using d(1) by (simp add: complete_login_def Let_def sbnd_def stm_simps uncaught_def as_dict_or_raise_def jget_def)
qed

lemma login_succeeds: "\<exists>rd s'. rp_callback login_world example_rp example_callback returning_browser = (Inr rd, s')"
proof -
  let ?s = "returning_browser\<lparr>rp_session := session_popped example_rp (rp_session returning_browser)\<rparr>"
  define cb where "cb = projr (parse_authorize_callback_response example_callback)"
  have "is_ok (parse_authorize_callback_response example_callback)" by code_simp
  then have parsed: "parse_authorize_callback_response example_callback = Inr cb"
    by (auto simp: is_ok_def cb_def split: sum.splits)
  have "cb_is_successful cb" "validate_authorize_callback_state cb (Some ''s1'') = Inr sv_success" "cb_get cb ''code'' = Inr (JStr ''c1'')"
    unfolding cb_def by code_simp+
  then have checked: "checked_code cb ''s1'' t = (Inr ''c1'', t)" for t
    by (simp add: checked_code_def sbnd_def stm_simps uncaught_def sv_success_def)
  obtain s' where "complete_login login_world example_rp ''c1'' ''n1'' ''v1'' ?s =
      (Inr (login_data_of example_rp [(''id_token'', JStr ''token'')] login_claims []), s')"
    using login_completes [of ?s] by (auto simp: returning_browser_def)
  moreover have "active_flow (map_of (rp_session returning_browser) (flow_key (ro_session_key example_rp))) = Some (''s1'', ''n1'', ''v1'')"
    by code_simp
  moreover have "rw_session_installed login_world" by (simp add: login_world_def)
  ultimately show ?thesis
    using parsed checked by (simp add: rp_callback_eq finish_login_def parse_callback_def session_set_def sbnd_def stm_simps)
qed

theorem login_sound_witness:
  "\<exists>cb claims. parse_authorize_callback_response example_callback = Inr cb \<and> jget (cb_fields cb) ''state'' = JStr ''s1'' \<and>
     (\<exists>token. id_token_valid login_world (ro_settings example_rp) token claims) \<and> jget claims ''nonce'' = JStr ''n1''"
proof -
  obtain rd s' where run: "rp_callback login_world example_rp example_callback returning_browser = (Inr rd, s')"
    using login_succeeds by blast
  have "pending_flow example_rp returning_browser = Some (''s1'', ''n1'', ''v1'')" by code_simp
  moreover have "settings_ok (te_settings (rw_validation login_world))"
    using example_env_settings by (simp add: login_world_def)
  moreover have "tv_reachable (rw_validation login_world) (fst (rp_caches returning_browser))"
    by (simp add: returning_browser_def tv_reachable.init)
  ultimately show ?thesis using login_sound [OF _ _ run] by auto
qed

text \<open>A browser that was sent to the provider and comes back.\<close>

definition new_browser :: rp_state where
  "new_browser = returning_browser\<lparr>rp_session := [], rp_logins := 0\<rparr>"


section \<open>The login URL and the public paths\<close>

text \<open>What the browser is sent to the provider with is what the callback will be checked against.\<close>

theorem login_redirect_matches_flow:
  assumes "rp_login w opts s = (Inr rd, s')"
  shows "\<exists>st nonce verifier challenge endpoint. pending_flow opts s' = Some (st, nonce, verifier) \<and>
    generate_pkce_pair (rw_pkce_bytes w (rp_logins s)) ''S256'' 128 = Inr (verifier, challenge) \<and>
    build_authorization_url (login_request (ro_settings opts) endpoint st nonce challenge) = Inr (rd_url rd) \<and>
    identity_of opts s' = identity_of opts s"
proof -
  have "session_is (rp_session s) (rp_logins s) s" by (simp add: session_is_def)
  from triple_Inr [OF quiet_login this assms] show ?thesis
    by (auto simp: session_is_def session_simps)
qed

text \<open>The middleware lets the login routes through, and excluding them opens nothing else.\<close>

lemma oidc_paths_exact: "p \<in> set (oidc_public_paths prefix) \<Longrightarrow> entry_excludes url_path p \<longleftrightarrow> url_path = p"
  by (auto simp: oidc_public_paths_def OIDC_ROUTER_PATHS_def Let_def entry_excludes_def py_endswith_def py_startswith_def)

theorem login_routes_public:
  assumes "mw_excluded_paths m = excluded @ oidc_public_paths prefix"
  shows "is_excluded m url_path \<longleftrightarrow> is_excluded (m\<lparr>mw_excluded_paths := excluded\<rparr>) url_path \<or> url_path \<in> set (oidc_public_paths prefix)"
  using oidc_paths_exact [of _ prefix url_path] by (auto simp: is_excluded_def assms list_ex_iff)

text \<open>The issuer a discovery URL implies.\<close>

theorem expected_issuer_well_known:
  "expected_issuer (issuer @ WELL_KNOWN_SUFFIX) = py_rstrip_char (CHR ''/'') issuer"
proof -
  have "py_rstrip_char (CHR ''/'') (issuer @ WELL_KNOWN_SUFFIX) = issuer @ WELL_KNOWN_SUFFIX"
    by (simp add: py_rstrip_char_def WELL_KNOWN_SUFFIX_def)
  then show ?thesis by (simp add: expected_issuer_def Let_def py_endswith_def py_startswith_def WELL_KNOWN_SUFFIX_def)
qed

section \<open>Failures that are not answered as failures\<close>

text \<open>
  A token endpoint that answers with an empty object is a failed exchange for the route, but reporting it reads the error
  of a successful response: the exception escapes in place of the status 400.
\<close>

theorem empty_token_answer_escapes:
  assumes "disco_get d ''token_endpoint'' = Inr (JStr u)" "u \<noteq> []"
    and "request_authorization_code_token (rw_net w) (rw_signing w) None (code_request_of c u code verifier) (rp_net s) = (Inr tok, n)"
    and "rs_is_successful tok" "tr_token tok = JDict []"
  shows "fst (exchange_code w c d code verifier s) = Inl (Escapes (successful_access_exn ''error''))"
proof -
  have "require_endpoint d ''token_endpoint'' s = (Inr u, s)" using assms(1,2) by (simp add: require_endpoint_Inr)
  then show ?thesis using assms(3-5) by (simp add: exchange_code_def sbnd_def on_net_def uncaught_def stm_simps)
qed

text \<open>A UserInfo answer that is a signed token has no claims yet; the route takes that for another subject.\<close>

theorem signed_userinfo_aborts_login:
  assumes "disco_get d ''userinfo_endpoint'' = Inr (JStr u)" "u \<noteq> []" "truthy access_token" "sub = JStr x"
    and "get_userinfo (rw_net w) (rw_signing w) None \<lparr>ui_address = u, ui_token = str_value (rw_float_text w) access_token,
       ui_expected_sub = None, ui_dpop_key = None, ui_mtls = None\<rparr> (rp_net s) = (Inr ui, n)"
    and "rs_is_successful ui" "ur_raw ui = Some jwt" "ur_claims ui = JNull"
  shows "fst (rp_fetch_userinfo w d access_token sub s) =
    Inl (Http_Exception \<lparr>re_status = 401, re_detail = ''UserInfo subject does not match ID token subject'', re_headers = []\<rparr>)"
  using assms by (simp add: rp_fetch_userinfo_def sbnd_def on_net_def uncaught_def stm_simps http_exception_def jget_def)

end
