(* ===== verification/Single_Flight.thy ===== *)
theory Single_Flight
  imports Aio_Validation Async_Tasks
begin

text \<open>
  The cached fetches of \<open>aio/token_validation.py\<close> as coroutines that interleave on one event loop:
  \<open>_get_disco_response\<close>, \<open>_get_cached_jwks\<close> and \<open>_refresh_jwks\<close> with their striped fetch locks. The
  write locks guard sections without an \<open>await\<close>, which no other task of the loop can enter half way;
  such a section is part of the step it stands in. Python's \<open>hash\<close> is a parameter.
\<close>

section \<open>The coroutines\<close>

datatype cache_call =
    GetDisco string discovery_policy
  | GetJwks string discovery_policy
  | RefreshJwks string discovery_policy

datatype cache_result =
    DiscoResult disco_response
  | JwksResult jwks_response
  | RefreshResult jwks_response bool

text \<open>The striped locks: thirty-two for discovery documents, thirty-two for key sets.\<close>

record py_hashes =
  hash_disco_key :: "string \<times> policy_key \<Rightarrow> int"
  hash_uri :: "string \<Rightarrow> int"

definition get_disco_fetch_lock :: "py_hashes \<Rightarrow> string \<times> policy_key \<Rightarrow> nat" where
  "get_disco_fetch_lock h key = nat (hash_disco_key h key mod 32)"

definition get_jwks_fetch_lock :: "py_hashes \<Rightarrow> string \<Rightarrow> nat" where
  "get_jwks_fetch_lock h uri = 32 + nat (hash_uri h uri mod 32)"

fun fetch_lock :: "py_hashes \<Rightarrow> cache_call \<Rightarrow> nat" where
  "fetch_lock h (GetDisco a pol) = get_disco_fetch_lock h (a, cache_key pol)"
| "fetch_lock h (GetJwks uri pol) = get_jwks_fetch_lock h uri"
| "fetch_lock h (RefreshJwks uri pol) = get_jwks_fetch_lock h uri"

text \<open>The two looks at a cache; a refresh does not look before it has the lock.\<close>

fun cached_answer :: "'pk tv_env \<Rightarrow> cache_call \<Rightarrow> cache_result option aiom" where
  "cached_answer env (GetDisco a pol) =
     sbnd (counted_hit (disco_hit env (a, cache_key pol)) record_disco_hit) (\<lambda>h. sret (map_option DiscoResult h))"
| "cached_answer env (GetJwks uri pol) =
     sbnd (counted_hit (jwks_hit env uri) record_jwks_hit) (\<lambda>h. sret (map_option JwksResult h))"
| "cached_answer env (RefreshJwks uri pol) = sret None"

text \<open>Under the lock a refresh compares the entry with the time it reads there.\<close>

fun locked_answer :: "'pk tv_env \<Rightarrow> cache_call \<Rightarrow> (cache_result option \<times> fetch_event) aiom" where
  "locked_answer env (GetDisco a pol) = sbnd (cached_answer env (GetDisco a pol)) (\<lambda>h. sret (h, DiscoFetch a))"
| "locked_answer env (GetJwks uri pol) = sbnd (cached_answer env (GetJwks uri pol)) (\<lambda>h. sret (h, JwksFetch uri))"
| "locked_answer env (RefreshJwks uri pol) =
     sbnd (on_caches (monotonic env)) (\<lambda>request_time.
       sbnd (on_caches (sget (\<lambda>s. map_of (jwks_cache s) uri))) (\<lambda>entry.
         sret (if (case entry of None \<Rightarrow> False | Some e \<Rightarrow> e_cached_at e \<ge> request_time)
               then Some (RefreshResult (e_response (the entry)) False) else None,
               JwksRefresh uri request_time)))"

fun store_answer :: "'pk tv_env \<Rightarrow> cache_call \<Rightarrow> http_world \<Rightarrow> cache_result aiom" where
  "store_answer env (GetDisco a pol) w = sbnd (aio_store_disco env a pol w) (\<lambda>r. sret (DiscoResult r))"
| "store_answer env (GetJwks uri pol) w = sbnd (aio_store_jwks env uri pol w) (\<lambda>r. sret (JwksResult r))"
| "store_answer env (RefreshJwks uri pol) w =
     sbnd (aio_store_refresh env uri pol w) (\<lambda>(r, retained). sret (RefreshResult r retained))"

text \<open>
  The steps. While it awaits, a task remembers the number of its fetch: the network answers the
  \<open>n\<close>-th fetch as \<open>te_worlds env n\<close> says, in whatever order.
\<close>

definition call_first :: "'pk tv_env \<Rightarrow> cache_call \<Rightarrow> aio_state \<Rightarrow> cache_result res option \<times> aio_state" where
  "call_first env k s =
     (case cached_answer env k s of
        (Inl e, s') \<Rightarrow> (Some (Inl e), s')
      | (Inr h, s') \<Rightarrow> (map_option Inr h, s'))"

definition call_enter :: "'pk tv_env \<Rightarrow> cache_call \<Rightarrow> aio_state \<Rightarrow> (cache_result res + nat) \<times> aio_state" where
  "call_enter env k s =
     (case locked_answer env k s of
        (Inl e, s') \<Rightarrow> (Inl (Inl e), s')
      | (Inr (Some r, ev), s') \<Rightarrow> (Inl (Inr r), s')
      | (Inr (None, ev), s') \<Rightarrow>
          (Inr (length (fetch_log (fst s'))), snd (on_caches (next_world env ev) s')))"

definition call_resume ::
  "'pk tv_env \<Rightarrow> cache_call \<Rightarrow> nat \<Rightarrow> http_world \<Rightarrow> aio_state \<Rightarrow> (cache_result res + nat) \<times> aio_state" where
  "call_resume env k n w s = (case store_answer env k w s of (r, s') \<Rightarrow> (Inl r, s'))"

definition cached_fetch ::
  "'pk tv_env \<Rightarrow> py_hashes \<Rightarrow> (aio_state, cache_call, nat, http_world, cache_result res) coroutine" where
  "cached_fetch env h =
     \<lparr>co_first = call_first env, co_enter = call_enter env, co_resume = call_resume env, co_lock = fetch_lock h\<rparr>"

text \<open>
  What else happens between the steps: the caches are cleared, the counters reset, and callers whose
  refresh has returned keep the books of the cooldown for a key set in the cache.
\<close>

inductive cache_outside :: "'pk tv_env \<Rightarrow> aio_state \<Rightarrow> aio_state \<Rightarrow> bool" for env where
  clear_disco: "cache_outside env s (snd (aio_clear_discovery_cache s))"
| clear_jwks: "cache_outside env s (snd (aio_clear_jwks_cache s))"
| reset: "cache_outside env s (snd (reset_counters s))"
| stamp: "jwks_cached uri (fst s) \<Longrightarrow> cache_outside env s (snd (on_caches (stamp env uri) s))"
| unstamp: "cache_outside env s (snd (on_caches (unstamp uri) s))"
| may_refresh: "cache_outside env s (snd (on_caches (may_refresh env uri b) s))"

definition network :: "'pk tv_env \<Rightarrow> aio_state \<Rightarrow> cache_call \<Rightarrow> nat \<Rightarrow> http_world \<Rightarrow> bool" where
  "network env s k n w \<longleftrightarrow> w = te_worlds env n"

section \<open>One call at a time\<close>

text \<open>A call that runs without interleaving is the function of the sequential model.\<close>

definition run_call :: "'pk tv_env \<Rightarrow> cache_call \<Rightarrow> cache_result aiom" where
  "run_call env k s =
     (case call_first env k s of
        (Some r, s1) \<Rightarrow> (r, s1)
      | (None, s1) \<Rightarrow>
          (case call_enter env k s1 of
             (Inl r, s2) \<Rightarrow> (r, s2)
           | (Inr n, s2) \<Rightarrow>
               (case call_resume env k n (te_worlds env n) s2 of
                  (Inl r, s3) \<Rightarrow> (r, s3) | (Inr _, s3) \<Rightarrow> (Inl url_value_error, s3))))"

lemmas call_defs = run_call_def call_first_def call_enter_def call_resume_def or_else_def sbnd_def stm_simps on_caches_def
  next_world_def

lemma run_get_disco:
  "run_call env (GetDisco a pol) = sbnd (aio_get_disco_response env (Some a) pol) (\<lambda>r. sret (DiscoResult r))"
  by (rule ext) (auto simp: call_defs aio_get_disco_response_def aio_fetch_disco_def Let_def
      split: prod.split sum.split option.split)

lemma run_get_jwks:
  "run_call env (GetJwks uri pol) = sbnd (aio_get_cached_jwks env uri pol) (\<lambda>r. sret (JwksResult r))"
  by (rule ext) (auto simp: call_defs aio_get_cached_jwks_def aio_fetch_jwks_def
      split: prod.split sum.split option.split)

lemma run_refresh_jwks:
  "run_call env (RefreshJwks uri pol) = sbnd (aio_refresh_jwks env uri pol) (\<lambda>(r, b). sret (RefreshResult r b))"
  by (rule ext) (auto simp: call_defs aio_refresh_jwks_def split: prod.split sum.split option.split)

section \<open>The caches under interleaving\<close>

text \<open>The invariant of the sequential model, for valid settings, and where a result comes from.\<close>

abbreviation caches_inv :: "'pk tv_env \<Rightarrow> aio_state \<Rightarrow> bool" where
  "caches_inv env s \<equiv> tv_inv env (fst s)"

fun result_from :: "'pk tv_env \<Rightarrow> cache_call \<Rightarrow> cache_result \<Rightarrow> bool" where
  "result_from env (GetDisco a pol) (DiscoResult d) = disco_from env a pol d"
| "result_from env (GetJwks uri pol) (JwksResult r) = jwks_from env uri r"
| "result_from env (RefreshJwks uri pol) (RefreshResult r b) = jwks_from env uri r"
| "result_from env _ _ = False"

lemma on_caches_state [simp]: "fst (snd (on_caches m s)) = snd (m (fst s))"
  by (simp add: on_caches_def case_prod_beta)

lemma triple_on_caches:
  "triple P m Q E \<Longrightarrow> triple (\<lambda>s. P (fst s)) (on_caches m) (\<lambda>x s. Q x (fst s)) (\<lambda>e s. E e (fst s))"
  by (auto simp: triple_def on_caches_def split: prod.splits sum.splits)

lemma triple_counter:
  assumes "\<And>s k. \<exists>k'. counter (s, k) = (Inr (), (s, k'))"
  shows "triple (\<lambda>s. P (fst s)) counter (\<lambda>_ s. P (fst s)) E"
  by (rule tripleI) (metis assms fst_conv prod.collapse prod.inject sum.distinct(1))+

lemma triple_counted_hit:
  assumes "\<And>s k. \<exists>k'. counter (s, k) = (Inr (), (s, k'))" "triple P hit Q E"
  shows "triple (\<lambda>s. P (fst s)) (counted_hit hit counter) (\<lambda>x s. Q x (fst s)) (\<lambda>e s. E e (fst s))"
  unfolding counted_hit_def
  by (rule triple_sbnd [OF triple_on_caches [OF assms(2)]], rule triple_option, simp, rule triple_sret, simp,
      simp, rule triple_sbnd [OF triple_counter [OF assms(1)]], rule triple_sret)

lemma triple_count_fetch:
  assumes "\<And>s k. \<exists>k'. counter (s, k) = (Inr (), (s, k'))"
  shows "triple (\<lambda>s. P (fst s)) (count_fetch a pol counter) (\<lambda>_ s. P (fst s)) (\<lambda>_ s. P (fst s))"
  by (rule tripleI) (metis count_fetch_cases [OF assms] fst_conv prod.collapse prod.inject)+

lemma store_disco_inv:
  assumes "settings_ok (te_settings env)"
  shows "triple (caches_inv env) (aio_store_disco env a pol (te_worlds env n))
           (\<lambda>r s. caches_inv env s \<and> disco_from env a pol r) (\<lambda>_. caches_inv env)"
  unfolding aio_store_disco_def Let_def
  by (rule triple_sbnd [OF triple_count_fetch [OF counters_count(2)]],
      rule triple_sbnd [OF triple_on_caches [OF triple_monotonic [where Q = "\<lambda>_. tv_inv env"]]], simp,
      rule triple_sbnd [OF triple_on_caches [OF triple_supd [where Q = "\<lambda>_. tv_inv env"]]],
      rule tv_inv_disco_outcome [OF assms], assumption, simp, rule triple_sret) simp

lemma store_jwks_inv:
  assumes "settings_ok (te_settings env)"
  shows "triple (caches_inv env) (aio_store_jwks env uri pol (te_worlds env n))
           (\<lambda>r s. caches_inv env s \<and> jwks_from env uri r) (\<lambda>_. caches_inv env)"
  unfolding aio_store_jwks_def Let_def
  by (rule triple_sbnd [OF triple_count_fetch [OF counters_count(4)]],
      rule triple_sbnd [OF triple_on_caches [OF triple_monotonic [where Q = "\<lambda>_. tv_inv env"]]], simp,
      rule triple_sbnd [OF triple_on_caches [OF triple_supd [where Q = "\<lambda>_. tv_inv env"]]],
      rule apply_jwks_outcome_inv(1) [OF assms], assumption, simp, rule triple_sret) simp

lemma retained_response_inv:
  "triple (tv_inv env) (retained_response uri r)
     (\<lambda>h s. tv_inv env s \<and> (\<forall>old. h = Some old \<longrightarrow> jwks_from env uri old)) (\<lambda>_. tv_inv env)"
  by (rule tripleI) (auto simp: retained_response_eq dest: jwks_entry_from split: if_splits)

lemma store_refresh_inv:
  assumes "settings_ok (te_settings env)"
  shows "triple (caches_inv env) (aio_store_refresh env uri pol (te_worlds env n))
           (\<lambda>(r, b) s. caches_inv env s \<and> jwks_from env uri r) (\<lambda>_. caches_inv env)"
  unfolding aio_store_refresh_def Let_def
  by (rule triple_sbnd [OF triple_count_fetch [OF counters_count(5)]],
      rule triple_sbnd [OF triple_on_caches [OF triple_monotonic [where Q = "\<lambda>_. tv_inv env"]]], simp,
      rule triple_sbnd [OF triple_on_caches [OF triple_supd [where Q = "\<lambda>_. tv_inv env"]]],
      rule apply_jwks_outcome_inv(1) [OF assms], assumption, simp,
      rule triple_sbnd [OF triple_on_caches [OF retained_response_inv]], rule triple_option)
    (auto intro!: triple_sret)

lemma cached_answer_inv:
  "triple (caches_inv env) (cached_answer env k)
     (\<lambda>h s. caches_inv env s \<and> (\<forall>r. h = Some r \<longrightarrow> result_from env k r)) (\<lambda>_. caches_inv env)"
proof (cases k)
  case (GetDisco a pol)
  show ?thesis unfolding GetDisco cached_answer.simps
    by (rule triple_sbnd [OF triple_counted_hit [OF counters_count(1) disco_hit_inv]], rule triple_sret)
      (auto split: option.splits)
next
  case (GetJwks uri pol)
  show ?thesis unfolding GetJwks cached_answer.simps
    by (rule triple_sbnd [OF triple_counted_hit [OF counters_count(3) jwks_hit_inv]], rule triple_sret)
      (auto split: option.splits)
qed (simp add: triple_sret)

lemma locked_answer_inv:
  "triple (caches_inv env) (locked_answer env k)
     (\<lambda>x s. caches_inv env s \<and> (\<forall>r. fst x = Some r \<longrightarrow> result_from env k r)) (\<lambda>_. caches_inv env)"
proof (cases k)
  case (GetDisco a pol)
  show ?thesis unfolding GetDisco locked_answer.simps
    by (rule triple_sbnd [OF cached_answer_inv], rule triple_sret) simp
next
  case (GetJwks uri pol)
  show ?thesis unfolding GetJwks locked_answer.simps
    by (rule triple_sbnd [OF cached_answer_inv], rule triple_sret) simp
next
  case (RefreshJwks uri pol)
  have entry: "triple (tv_inv env) (sget (\<lambda>s. map_of (jwks_cache s) uri))
      (\<lambda>x s. tv_inv env s \<and> (\<forall>e. x = Some e \<longrightarrow> jwks_from env uri (e_response e))) (\<lambda>_. tv_inv env)"
    by (rule triple_sget) (blast dest: jwks_entry_from)
  show ?thesis unfolding RefreshJwks locked_answer.simps
    by (rule triple_sbnd [OF triple_on_caches [OF triple_monotonic [where Q = "\<lambda>_. tv_inv env"]]], simp,
        rule triple_sbnd [OF triple_on_caches [OF entry]], rule triple_sret)
      (auto split: option.splits)
qed

lemma store_answer_inv:
  assumes "settings_ok (te_settings env)"
  shows "triple (caches_inv env) (store_answer env k (te_worlds env n))
           (\<lambda>r s. caches_inv env s \<and> result_from env k r) (\<lambda>_. caches_inv env)"
proof (cases k)
  case (GetDisco a pol)
  show ?thesis unfolding GetDisco store_answer.simps
    by (rule triple_sbnd [OF store_disco_inv [OF assms]], rule triple_sret) simp
next
  case (GetJwks uri pol)
  show ?thesis unfolding GetJwks store_answer.simps
    by (rule triple_sbnd [OF store_jwks_inv [OF assms]], rule triple_sret) simp
next
  case (RefreshJwks uri pol)
  show ?thesis unfolding RefreshJwks store_answer.simps
    by (rule triple_sbnd [OF store_refresh_inv [OF assms]], rule triple_pair, rule triple_sret) auto
qed

lemma cache_outside_inv:
  assumes "settings_ok (te_settings env)" "cache_outside env s s'" "caches_inv env s"
  shows "caches_inv env s'"
  using assms(2,3)
proof (cases rule: cache_outside.cases)
  case clear_disco
  then show ?thesis
    using tv_step_inv [OF assms(1) tv_step.clear_disco assms(3)] by (simp add: aio_clear_discovery_cache_def)
next
  case clear_jwks
  then show ?thesis
    using tv_step_inv [OF assms(1) tv_step.clear_jwks assms(3)] by (simp add: aio_clear_jwks_cache_def)
next
  case reset
  then show ?thesis using assms(3) by (cases s) (simp add: reset_counters_def stm_simps)
next
  case (stamp uri)
  then show ?thesis using keepsD [OF stamp_inv [of env uri], of "fst s"] assms(3) by simp
next
  case (unstamp uri)
  then show ?thesis
    using assms(3) by (auto simp: unstamp_def stm_simps tv_inv_def stamps_ok_def set_dict_pop)
next
  case (may_refresh uri b)
  then show ?thesis
    using assms(3) by (simp add: may_refresh_def sbnd_def stm_simps monotonic_def)
qed

definition result_sound :: "'pk tv_env \<Rightarrow> cache_call \<Rightarrow> cache_result res \<Rightarrow> bool" where
  "result_sound env k r \<longleftrightarrow> settings_ok (te_settings env) \<longrightarrow> (case r of Inl e \<Rightarrow> True | Inr x \<Rightarrow> result_from env k x)"

lemma call_first_inv:
  assumes "caches_inv env s" "call_first env k s = (x, s')"
  shows "caches_inv env s' \<and> (\<forall>r. x = Some r \<longrightarrow> result_sound env k r)"
  using assms triple_Inr [OF cached_answer_inv assms(1), of k] triple_Inl [OF cached_answer_inv assms(1), of k]
  by (auto simp: call_first_def result_sound_def split: prod.splits sum.splits)

lemma call_enter_inv:
  assumes "caches_inv env s" "call_enter env k s = (x, s')"
  shows "caches_inv env s' \<and> (\<forall>r. x = Inl r \<longrightarrow> result_sound env k r)"
  using assms triple_Inr [OF locked_answer_inv assms(1), of k] triple_Inl [OF locked_answer_inv assms(1), of k]
  by (auto simp: call_enter_def result_sound_def on_caches_def next_world_def split: prod.splits sum.splits option.splits)

lemma call_resume_inv:
  assumes "settings_ok (te_settings env)" "caches_inv env s" "call_resume env k n (te_worlds env n) s = (x, s')"
  shows "caches_inv env s' \<and> (\<forall>r. x = Inl r \<longrightarrow> result_sound env k r)"
proof -
  obtain y where y: "store_answer env k (te_worlds env n) s = (y, s')" "x = Inl y"
    using assms(3) by (auto simp: call_resume_def split: prod.splits)
  then show ?thesis
    using triple_Inr [OF store_answer_inv [OF assms(1)] assms(2), of k n]
      triple_Inl [OF store_answer_inv [OF assms(1)] assms(2), of k n]
    by (cases y) (auto simp: result_sound_def)
qed

interpretation caches: answered_coroutine "cached_fetch env h" "cache_outside env" "network env"
  "\<lambda>s. settings_ok (te_settings env) \<longrightarrow> caches_inv env s" "\<lambda>_ _ _. True" "result_sound env" "\<lambda>_ _. 0"
  for env :: "'pk tv_env" and h
proof unfold_locales
  fix s k x s'
  assume "settings_ok (te_settings env) \<longrightarrow> caches_inv env s" "co_first (cached_fetch env h) k s = (x, s')"
  then show "(settings_ok (te_settings env) \<longrightarrow> caches_inv env s') \<and> (\<forall>k' l. True \<longrightarrow> True)
      \<and> (\<forall>r. x = Some r \<longrightarrow> result_sound env k r)"
    using call_first_inv [of env s k x s'] by (auto simp: cached_fetch_def result_sound_def)
next
  fix s k x s'
  assume "settings_ok (te_settings env) \<longrightarrow> caches_inv env s" "co_enter (cached_fetch env h) k s = (x, s')"
  then show "(settings_ok (te_settings env) \<longrightarrow> caches_inv env s') \<and>
      (\<forall>k' l. co_lock (cached_fetch env h) k' \<noteq> co_lock (cached_fetch env h) k \<longrightarrow> True \<longrightarrow> True) \<and>
      (\<forall>l. x = Inr l \<longrightarrow> True) \<and> (\<forall>r. x = Inl r \<longrightarrow> result_sound env k r)"
    using call_enter_inv [of env s k x s'] by (auto simp: cached_fetch_def result_sound_def)
next
  fix s k l w x s'
  assume "settings_ok (te_settings env) \<longrightarrow> caches_inv env s" "network env s k l w"
    "co_resume (cached_fetch env h) k l w s = (x, s')"
  then show "(settings_ok (te_settings env) \<longrightarrow> caches_inv env s') \<and>
      (\<forall>k' l'. co_lock (cached_fetch env h) k' \<noteq> co_lock (cached_fetch env h) k \<longrightarrow> True \<longrightarrow> True) \<and>
      (\<forall>l'. x = Inr l' \<longrightarrow> True) \<and> (\<forall>r. x = Inl r \<longrightarrow> result_sound env k r)"
    using call_resume_inv [of env s k l x s'] by (auto simp: cached_fetch_def result_sound_def network_def)
next
  fix s s'
  assume "settings_ok (te_settings env) \<longrightarrow> caches_inv env s" "cache_outside env s s'"
  then show "(settings_ok (te_settings env) \<longrightarrow> caches_inv env s') \<and> (\<forall>k l. True \<longrightarrow> True)"
    using cache_outside_inv [of env s s'] by blast
next
  fix s k l
  show "\<exists>w. network env s k l w" by (simp add: network_def)
next
  fix s k l w l' s'
  assume "co_resume (cached_fetch env h) k l w s = (Inr l', s')"
  then show "(0 :: nat) < 0" by (simp add: cached_fetch_def call_resume_def split: prod.splits)
qed

section \<open>Properties\<close>

definition fetch_reachable ::
  "'pk tv_env \<Rightarrow> py_hashes \<Rightarrow> (aio_state, cache_call, nat, cache_result res) sched \<Rightarrow> bool" where
  "fetch_reachable env h =
     co_reachable (cached_fetch env h) (cache_outside env) (network env) (co_init (tv_init, zero_counters))"

lemma fetch_reachable_inv:
  fixes env :: "'pk tv_env"
  shows "fetch_reachable env h c \<Longrightarrow> caches.sched_inv TYPE('pk) env h c"
  unfolding fetch_reachable_def
  by (erule caches.reachable_inv, rule caches.init_inv) (simp add: tv_inv_init)

text \<open>What a call fetches: the cache key of a discovery document, the address of a key set.\<close>

fun fetch_target :: "cache_call \<Rightarrow> (string \<times> policy_key) + string" where
  "fetch_target (GetDisco a pol) = Inl (a, cache_key pol)"
| "fetch_target (GetJwks uri pol) = Inr uri"
| "fetch_target (RefreshJwks uri pol) = Inr uri"

lemma same_target_lock: "fetch_target k = fetch_target k' \<Longrightarrow> fetch_lock h k = fetch_lock h k'"
  by (cases k; cases k') auto


text \<open>C28: at most one fetch is in flight for a key set or for a discovery document under one policy,
  whatever calls interleave.
\<close>

theorem single_flight:
  assumes "fetch_reachable env h c" "tasks c t = Holding k n" "tasks c t' = Holding k' n'"
    "fetch_target k = fetch_target k'"
  shows "t = t'"
proof (rule owners_exclusive [OF _ assms(2,3)])
  show "owners_ok (cached_fetch env h) c"
    using fetch_reachable_inv [OF assms(1)] unfolding caches.sched_inv_def by blast
  show "co_lock (cached_fetch env h) k = co_lock (cached_fetch env h) k'"
    using same_target_lock [OF assms(4)] by (simp add: cached_fetch_def)
qed

text \<open>
  A caller that waited behind another one's fetch is served from the cache and counted as a hit.
\<close>

lemma waiting_call_served:
  assumes "tasks c t = Waiting (GetJwks uri pol)" "owner c (get_jwks_fetch_lock h uri) = None"
    "map_of (jwks_cache (fst (shared c))) uri = Some e" "\<not> is_cache_expired (te_clock env (ticks (fst (shared c)))) e"
    "co_step (cached_fetch env h) (Acquire t) c = Some c'"
  shows "tasks c' t = Finished (GetJwks uri pol) (Inr (JwksResult (e_response e)))
    \<and> fetch_log (fst (shared c')) = fetch_log (fst (shared c))
    \<and> jwks_hits (snd (shared c')) = jwks_hits (snd (shared c)) + 1"
  using assms
  by (cases "shared c")
    (auto simp: cached_fetch_def call_enter_def counted_hit_def jwks_hit_eq on_caches_def sbnd_def stm_simps Let_def
      record_jwks_hit_def)

text \<open>No interleaving of the fetches deadlocks.\<close>

lemma fetches_complete:
  assumes "fetch_reachable env h c"
  shows "\<exists>c'. co_reachable (cached_fetch env h) (cache_outside env) (network env) c c' \<and> pending c' = {}"
proof (rule caches.all_finish [OF fetch_reachable_inv [OF assms]])
  show "finite (pending c)"
    using assms unfolding fetch_reachable_def by (rule finite_pending) (simp add: pending_def co_init_def)
qed

definition example_hashes :: py_hashes where
  "example_hashes = \<lparr>hash_disco_key = (\<lambda>_. 7), hash_uri = (\<lambda>_. - 5)\<rparr>"

definition example_fetches :: "(aio_state, cache_call, http_world) event list" where
  "example_fetches =
     [Start 0 (GetJwks example_jwks_uri default_policy), Start 1 (RefreshJwks example_jwks_uri default_policy), Acquire 0,
      Answer 0 (te_worlds example_env 0)]"

lemma example_attempted: "upstream_fetch_attempted example_jwks_uri default_policy = Inr True"
  by code_simp

definition example_key_set :: jwks_response where
  "example_key_set = get_jwks example_world example_jwks_uri (Some default_policy)"

lemma example_fetches_value:
  "\<exists>c. co_run (cached_fetch example_env example_hashes) example_fetches (co_init (tv_init, zero_counters)) = Some c
     \<and> tasks c 0 = Finished (GetJwks example_jwks_uri default_policy) (Inr (JwksResult example_key_set))
     \<and> tasks c 1 = Waiting (RefreshJwks example_jwks_uri default_policy)"
  by (simp add: example_fetches_def cached_fetch_def call_defs co_init_def counted_hit_def jwks_hit_eq tv_init_def
      aio_store_jwks_def count_fetch_def example_attempted record_jwks_miss_def monotonic_def Let_def
      example_key_set_def [symmetric] del: One_nat_def)

lemma example_fetches_permitted:
  "permitted_run (cached_fetch example_env example_hashes) (cache_outside example_env) (network example_env)
     example_fetches (co_init (tv_init, zero_counters))"
  by (simp add: example_fetches_def cached_fetch_def call_defs co_init_def counted_hit_def jwks_hit_eq tv_init_def
      aio_store_jwks_def count_fetch_def example_attempted record_jwks_miss_def monotonic_def Let_def
      permitted_def network_def)


lemma example_fetch_reached:
  "\<exists>c. fetch_reachable example_env example_hashes c
     \<and> tasks c 0 = Finished (GetJwks example_jwks_uri default_policy) (Inr (JwksResult example_key_set))"
proof -
  obtain c where c: "co_run (cached_fetch example_env example_hashes) example_fetches (co_init (tv_init, zero_counters)) = Some c"
    and v: "tasks c 0 = Finished (GetJwks example_jwks_uri default_policy) (Inr (JwksResult example_key_set))"
    using example_fetches_value by blast
  have "fetch_reachable example_env example_hashes c"
    unfolding fetch_reachable_def
    by (rule run_reachable [OF c example_fetches_permitted]) (rule co_reachable.start)
  then show ?thesis using v by blast
qed


lemma example_fetch_waiting:
  "\<exists>c. fetch_reachable example_env example_hashes c
     \<and> tasks c 0 = Holding (GetJwks example_jwks_uri default_policy) 0
     \<and> tasks c 1 = Waiting (RefreshJwks example_jwks_uri default_policy)"
proof -
  let ?run = "take 3 example_fetches"
  have "\<exists>c. co_run (cached_fetch example_env example_hashes) ?run (co_init (tv_init, zero_counters)) = Some c
     \<and> tasks c 0 = Holding (GetJwks example_jwks_uri default_policy) 0
     \<and> tasks c 1 = Waiting (RefreshJwks example_jwks_uri default_policy)"
    by (simp add: example_fetches_def cached_fetch_def call_defs co_init_def counted_hit_def jwks_hit_eq tv_init_def
        del: One_nat_def)
  moreover have "permitted_run (cached_fetch example_env example_hashes) (cache_outside example_env) (network example_env)
      ?run (co_init (tv_init, zero_counters))"
    by (simp add: example_fetches_def cached_fetch_def call_defs co_init_def counted_hit_def jwks_hit_eq tv_init_def
        permitted_def)
  ultimately show ?thesis
    unfolding fetch_reachable_def by (blast intro: run_reachable co_reachable.start)
qed

theorem single_flight_witness:
  "\<exists>c. fetch_reachable example_env example_hashes c \<and> tasks c 0 = Holding (GetJwks example_jwks_uri default_policy) 0
     \<and> tasks c 1 = Waiting (RefreshJwks example_jwks_uri default_policy)
     \<and> \<not> (\<exists>t' pol n'. t' \<noteq> 0 \<and> tasks c t' = Holding (RefreshJwks example_jwks_uri pol) n')"
proof -
  obtain c where c: "fetch_reachable example_env example_hashes c"
    "tasks c 0 = Holding (GetJwks example_jwks_uri default_policy) 0"
    "tasks c 1 = Waiting (RefreshJwks example_jwks_uri default_policy)"
    using example_fetch_waiting by blast
  have "\<not> (\<exists>t' pol n'. t' \<noteq> 0 \<and> tasks c t' = Holding (RefreshJwks example_jwks_uri pol) n')"
    using single_flight [OF c(1,2)] by (metis fetch_target.simps(2,3))
  then show ?thesis using c by blast
qed

end
