(* ===== verification/Token_Manager.thy ===== *)
theory Token_Manager
  imports Client_Requests Async_Tasks
begin

text \<open>
  \<open>fastapi_identity_model/token_manager.py\<close>: the holder of an access and a refresh token that renews
  the pair shortly before it expires. \<open>get_access_token\<close> is a coroutine with two awaits under the
  manager's lock; \<open>set_tokens\<close> may be called by the application at any time between its steps.

  Times are microseconds since the first day of year 1, as \<open>datetime\<close> counts them, with the range
  checks of \<open>datetime\<close> and \<open>timedelta\<close>. Seconds given as a float are rounded from their rational value.
  The clock is a parameter: \<open>clock n\<close> is the \<open>n\<close>-th reading of \<open>datetime.now(UTC)\<close>.
\<close>

section \<open>Dates and durations\<close>

definition us_per_day :: int where
  "us_per_day = 86400 * 1000000"

definition datetime_limit :: int where
  "datetime_limit = 3652059 * us_per_day"

definition timedelta_us :: "int \<Rightarrow> int res" where
  "timedelta_us us =
     (let days = us div us_per_day in
      if \<bar>days\<bar> \<le> 999999999 then Inr us
      else if \<bar>days\<bar> < 2147483648
      then Inl (raise_cls OverflowError (''days='' @ show_int days @ ''; must have magnitude <= 999999999''))
      else Inl (raise_cls OverflowError ''Python int too large to convert to C int''))"

text \<open>Round half to even.\<close>

definition round_even :: "rat \<Rightarrow> int" where
  "round_even q =
     (let f = \<lfloor>q\<rfloor>; d = q - of_int f in
      if d < 1 / 2 then f else if d > 1 / 2 then f + 1 else if even f then f else f + 1)"

definition timedelta_seconds :: "json \<Rightarrow> int res" where
  "timedelta_seconds j =
     (case j of
        JInt i \<Rightarrow> timedelta_us (i * 1000000)
      | JBool b \<Rightarrow> timedelta_us (if b then 1000000 else 0)
      | JFloat (Fin q) \<Rightarrow> timedelta_us (round_even (q * 1000000))
      | JFloat NaN \<Rightarrow> Inl (raise_cls ValueError ''cannot convert float NaN to integer'')
      | JFloat _ \<Rightarrow> Inl (raise_cls OverflowError ''cannot convert float infinity to integer'')
      | _ \<Rightarrow> Inl (raise_cls TypeError (''unsupported type for timedelta seconds component: '' @ type_name j)))"

definition datetime_add :: "int \<Rightarrow> int \<Rightarrow> int res" where
  "datetime_add t d =
     (if 0 \<le> t + d \<and> t + d < datetime_limit then Inr (t + d)
      else Inl (raise_cls OverflowError ''date value out of range''))"

section \<open>The manager\<close>

record tm_config =
  discovery_url :: string
  tm_client_id :: string
  tm_client_secret :: "string option"
  refresh_before_seconds :: int

text \<open>
  The instance variables; \<open>tm_ticks\<close> counts the clock readings. The last two fields are not part of
  the program: the refresh tokens sent, newest first, and those an answer has replaced.
\<close>

record tm_state =
  access_token :: json
  refresh_tok :: json
  expires_at :: "int option"
  tm_ticks :: nat
  tm_grants :: "json list"
  tm_spent :: "json list"

definition tm_init :: tm_state where
  "tm_init = \<lparr>access_token = JNull, refresh_tok = JNull, expires_at = None, tm_ticks = 0, tm_grants = [], tm_spent = []\<rparr>"

type_synonym 'a tmm = "(tm_state, exn, 'a) stm"

definition utc_now :: "(nat \<Rightarrow> int) \<Rightarrow> int tmm" where
  "utc_now clock s = (Inr (clock (tm_ticks s)), s\<lparr>tm_ticks := Suc (tm_ticks s)\<rparr>)"

text \<open>The tokens are stored before the expiry is computed, which may raise.\<close>

definition set_tokens :: "(nat \<Rightarrow> int) \<Rightarrow> json \<Rightarrow> json \<Rightarrow> json \<Rightarrow> unit tmm" where
  "set_tokens clock access refresh expires_in =
     sbnd (supd (\<lambda>s. s\<lparr>access_token := access, refresh_tok := refresh\<rparr>)) (\<lambda>_.
       if expires_in = JNull then supd (\<lambda>s. s\<lparr>expires_at := None\<rparr>)
       else sbnd (utc_now clock) (\<lambda>now.
         sbnd (slift (bnd (timedelta_seconds expires_in) (datetime_add now))) (\<lambda>t.
           supd (\<lambda>s. s\<lparr>expires_at := Some t\<rparr>))))"

definition is_token_expired :: "tm_config \<Rightarrow> (nat \<Rightarrow> int) \<Rightarrow> bool tmm" where
  "is_token_expired cfg clock =
     sbnd (sget expires_at) (\<lambda>e.
       case e of None \<Rightarrow> sret False
       | Some t \<Rightarrow>
           sbnd (utc_now clock) (\<lambda>now.
             sbnd (slift (bnd (timedelta_us (refresh_before_seconds cfg * 1000000)) (\<lambda>d. datetime_add t (- d)))) (\<lambda>due.
               sret (now \<ge> due))))"

text \<open>The check of \<open>get_access_token\<close>: the stored token, if it need not be renewed.\<close>

definition current_token :: "tm_config \<Rightarrow> (nat \<Rightarrow> int) \<Rightarrow> json option tmm" where
  "current_token cfg clock =
     sbnd (sget access_token) (\<lambda>a.
       if truthy a then sbnd (is_token_expired cfg clock) (\<lambda>expired. sret (if expired then None else Some a))
       else sret None)"

text \<open>\<open>_resolve_token_endpoint\<close> after discovery has answered.\<close>

definition library_exn :: "string \<Rightarrow> exn" where
  "library_exn msg = raise_cls PyIdentityModelException msg"

definition resolve_token_endpoint :: "disco_response \<Rightarrow> json res" where
  "resolve_token_endpoint d =
     bnd (if d_is_successful d then bnd (disco_get d ''token_endpoint'') (\<lambda>e. Inr (truthy e)) else Inr False) (\<lambda>usable.
       if usable then disco_get d ''token_endpoint''
       else bnd (disco_get_error d) (\<lambda>err.
         Inl (library_exn (''Discovery failed while refreshing token: ''
                @ (case err of None \<Rightarrow> ''no token endpoint'' | Some m \<Rightarrow> if m = [] then ''no token endpoint'' else m)))))"

text \<open>The answer of the refresh grant, up to the tokens it carries. The response class guards \<open>token\<close> and \<open>error\<close>.\<close>

definition token_error :: "token_response \<Rightarrow> json res" where
  "token_error r = (if rs_is_successful r then Inl (successful_access_exn ''error'') else Inr (rs_error r))"

definition refreshed_token :: "token_response \<Rightarrow> json dict res" where
  "refreshed_token r =
     (if rs_is_successful r \<and> truthy (tr_token r)
      then bnd (as_dict_or_raise (tr_token r)) (\<lambda>d.
        if truthy (jget d ''access_token'') then Inr d
        else Inl (library_exn ''Token refresh succeeded but no access token returned''))
      else bnd (token_error r) (\<lambda>err.
        Inl (library_exn (''Token refresh failed: ''
               @ (if truthy err then fmt_json err else ''no token in response'')))))"

text \<open>
  The note, for the properties only, that the provider has replaced the refresh token it was sent: a
  successful answer carries another one.
\<close>

definition answered_refresh :: "token_response \<Rightarrow> json" where
  "answered_refresh r =
     (case tr_token r of JDict d \<Rightarrow> if rs_is_successful r then jget d ''refresh_token'' else JNull | _ \<Rightarrow> JNull)"

definition note_rotation :: "json \<Rightarrow> token_response \<Rightarrow> tm_state \<Rightarrow> tm_state" where
  "note_rotation sent r s =
     (if truthy sent \<and> truthy (answered_refresh r) \<and> answered_refresh r \<noteq> sent
      then s\<lparr>tm_spent := sent # tm_spent s\<rparr> else s)"

definition store_refreshed :: "(nat \<Rightarrow> int) \<Rightarrow> token_response \<Rightarrow> json tmm" where
  "store_refreshed clock r =
     sbnd (slift (refreshed_token r)) (\<lambda>d.
       sbnd (sget refresh_tok) (\<lambda>old.
         sbnd (set_tokens clock (jget d ''access_token'')
                 (if truthy (jget d ''refresh_token'') then jget d ''refresh_token'' else old) (jget d ''expires_in''))
           (\<lambda>_. sget access_token)))"

section \<open>The coroutine\<close>

datatype tm_await = Resolving | Refreshing json json

datatype tm_answer = DiscoAnswer disco_response | TokenAnswer token_response

text \<open>\<open>get_access_token\<close> up to the lock.\<close>

definition tm_first :: "tm_config \<Rightarrow> (nat \<Rightarrow> int) \<Rightarrow> tm_state \<Rightarrow> json res option \<times> tm_state" where
  "tm_first cfg clock s =
     (case current_token cfg clock s of
        (Inl e, s') \<Rightarrow> (Some (Inl e), s')
      | (Inr (Some a), s') \<Rightarrow> (Some (Inr a), s')
      | (Inr None, s') \<Rightarrow> (None, s'))"

text \<open>From the lock to the first await: look again, and give up without a refresh token.\<close>

definition tm_enter :: "tm_config \<Rightarrow> (nat \<Rightarrow> int) \<Rightarrow> tm_state \<Rightarrow> (json res + tm_await) \<times> tm_state" where
  "tm_enter cfg clock s =
     (case tm_first cfg clock s of
        (Some r, s') \<Rightarrow> (Inl r, s')
      | (None, s') \<Rightarrow>
          if truthy (refresh_tok s') then (Inr Resolving, s')
          else (Inl (Inl (library_exn ''Token expired and no refresh token available'')), s'))"

text \<open>
  From an answer to the next await: the refresh token is read when the grant is sent, not when the
  lock was taken. An answer of the wrong kind does not arrive at an await.
\<close>

fun tm_resume :: "(nat \<Rightarrow> int) \<Rightarrow> tm_await \<Rightarrow> tm_answer \<Rightarrow> tm_state \<Rightarrow> (json res + tm_await) \<times> tm_state" where
  "tm_resume clock Resolving (DiscoAnswer d) s =
     (case resolve_token_endpoint d of
        Inl e \<Rightarrow> (Inl (Inl e), s)
      | Inr endpoint \<Rightarrow> (Inr (Refreshing endpoint (refresh_tok s)), s\<lparr>tm_grants := refresh_tok s # tm_grants s\<rparr>))"
| "tm_resume clock (Refreshing endpoint sent) (TokenAnswer r) s =
     (case store_refreshed clock r (note_rotation sent r s) of (res, s') \<Rightarrow> (Inl res, s'))"
| "tm_resume clock a w s = (Inl (Inl (library_exn [])), s)"

definition get_access_token ::
  "tm_config \<Rightarrow> (nat \<Rightarrow> int) \<Rightarrow> (tm_state, unit, tm_await, tm_answer, json res) coroutine" where
  "get_access_token cfg clock =
     \<lparr>co_first = (\<lambda>_. tm_first cfg clock), co_enter = (\<lambda>_. tm_enter cfg clock),
      co_resume = (\<lambda>_. tm_resume clock), co_lock = (\<lambda>_. 0)\<rparr>"

section \<open>Refresh tokens are not reused\<close>

text \<open>
  The environment of a manager: the application never stores a refresh token that was already
  replaced, and a provider that replaces a refresh token sends a new one together with an access
  token.
\<close>

definition tm_outside :: "(nat \<Rightarrow> int) \<Rightarrow> tm_state \<Rightarrow> tm_state \<Rightarrow> bool" where
  "tm_outside clock s s' \<longleftrightarrow>
     (\<exists>access refresh expires_in. s' = snd (set_tokens clock access refresh expires_in s) \<and> \<not> (truthy refresh \<and> refresh \<in> set (tm_spent s)))"

fun tm_answers :: "tm_state \<Rightarrow> unit \<Rightarrow> tm_await \<Rightarrow> tm_answer \<Rightarrow> bool" where
  "tm_answers s k Resolving (DiscoAnswer d) = True"
| "tm_answers s k (Refreshing endpoint sent) (TokenAnswer r) =
     (truthy (answered_refresh r) \<longrightarrow> answered_refresh r \<notin> set (tm_spent s) \<and> is_ok (refreshed_token r))"
| "tm_answers s k a w = False"

definition unspent :: "json \<Rightarrow> tm_state \<Rightarrow> bool" where
  "unspent r s \<longleftrightarrow> \<not> (truthy r \<and> r \<in> set (tm_spent s))"

fun await_ok :: "tm_state \<Rightarrow> unit \<Rightarrow> tm_await \<Rightarrow> bool" where
  "await_ok s k Resolving = True"
| "await_ok s k (Refreshing endpoint sent) = unspent sent s"

text \<open>A call that does not raise returns a token.\<close>

definition usable_result :: "unit \<Rightarrow> json res \<Rightarrow> bool" where
  "usable_result k r = (case r of Inl e \<Rightarrow> True | Inr a \<Rightarrow> truthy a)"

lemma utc_now_sel [simp]:
  "fst (utc_now clock s) = Inr (clock (tm_ticks s))" "snd (utc_now clock s) = s\<lparr>tm_ticks := Suc (tm_ticks s)\<rparr>"
  by (simp_all add: utc_now_def)

text \<open>Looking at the tokens changes nothing but the count of clock readings.\<close>

lemma tm_first_state: "tm_first cfg clock s = (x, s') \<Longrightarrow> \<exists>n. s' = s\<lparr>tm_ticks := n\<rparr>"
  by (auto simp: tm_first_def current_token_def is_token_expired_def sbnd_def stm_simps utc_now_def
      split: if_splits option.splits sum.splits intro: exI [of _ "tm_ticks s"])

lemma set_tokens_sel [simp]:
  "access_token (snd (set_tokens clock a r x s)) = a" "refresh_tok (snd (set_tokens clock a r x s)) = r"
  "tm_spent (snd (set_tokens clock a r x s)) = tm_spent s" "tm_grants (snd (set_tokens clock a r x s)) = tm_grants s"
  by (simp_all add: set_tokens_def sbnd_def stm_simps utc_now_def split: sum.split)

lemma refreshed_token_dict: "refreshed_token r = Inr d \<Longrightarrow> rs_is_successful r \<and> tr_token r = JDict d"
  by (auto simp: refreshed_token_def as_dict_or_raise_def bnd_def token_error_def
      split: if_splits sum.splits json.splits)

text \<open>The state after the answer of a grant: the new refresh token if there is one, else the stored one.\<close>

lemma store_refreshed_state:
  assumes "store_refreshed clock r s = (x, s')"
  shows "tm_spent s' = tm_spent s"
    "refresh_tok s' = (if is_ok (refreshed_token r) \<and> truthy (answered_refresh r) then answered_refresh r else refresh_tok s)"
proof -
  have "tm_spent s' = tm_spent s \<and> refresh_tok s' =
      (if is_ok (refreshed_token r) \<and> truthy (answered_refresh r) then answered_refresh r else refresh_tok s)"
  proof (cases "refreshed_token r")
    case (Inl e)
    then show ?thesis using assms by (simp add: store_refreshed_def sbnd_def stm_simps)
  next
    case (Inr d)
    then have "s' = snd (set_tokens clock (jget d ''access_token'')
        (if truthy (jget d ''refresh_token'') then jget d ''refresh_token'' else refresh_tok s) (jget d ''expires_in'') s)"
      using assms by (auto simp: store_refreshed_def sbnd_def stm_simps split: prod.splits sum.splits)
    then show ?thesis
      using Inr refreshed_token_dict [OF Inr] by (simp add: answered_refresh_def)
  qed
  then show "tm_spent s' = tm_spent s"
    "refresh_tok s' = (if is_ok (refreshed_token r) \<and> truthy (answered_refresh r) then answered_refresh r else refresh_tok s)"
    by blast+
qed

lemma tm_first_keeps:
  "\<lbrakk>tm_first cfg clock s = (x, s'); unspent r s\<rbrakk> \<Longrightarrow> unspent r s'"
  "tm_first cfg clock s = (x, s') \<Longrightarrow> refresh_tok s' = refresh_tok s"
  by (auto dest!: tm_first_state simp: unspent_def)

lemma tm_first_usable: "tm_first cfg clock s = (Some r, s') \<Longrightarrow> usable_result k r"
  by (auto simp: tm_first_def current_token_def is_token_expired_def sbnd_def stm_simps utc_now_def usable_result_def
      split: if_splits option.splits sum.splits prod.splits)

lemma store_refreshed_usable: "store_refreshed clock r s = (Inr a, s') \<Longrightarrow> truthy a"
proof (cases "refreshed_token r")
  case (Inr d)
  assume run: "store_refreshed clock r s = (Inr a, s')"
  have "truthy (jget d ''access_token'')"
    using Inr by (auto simp: refreshed_token_def bnd_def token_error_def split: if_splits sum.splits)
  moreover obtain y s1 where st: "set_tokens clock (jget d ''access_token'')
      (if truthy (jget d ''refresh_token'') then jget d ''refresh_token'' else refresh_tok s) (jget d ''expires_in'') s = (y, s1)"
    by fastforce
  moreover have "access_token s1 = jget d ''access_token''"
    using set_tokens_sel(1) [of clock "jget d ''access_token''" _ "jget d ''expires_in''" s] st by (metis snd_conv)
  then have "a = jget d ''access_token''"
    using run Inr st by (cases y) (auto simp: store_refreshed_def sbnd_def stm_simps)
  ultimately show "truthy a" by simp
qed (simp add: store_refreshed_def sbnd_def stm_simps)

lemma tm_resume_usable: "tm_resume clock l w s = (Inl r, s') \<Longrightarrow> usable_result k r"
  by (cases "(clock, l, w, s)" rule: tm_resume.cases)
    (auto simp: usable_result_def split: sum.splits prod.splits dest: store_refreshed_usable)

lemma tm_resume_keeps:
  assumes "unspent (refresh_tok s) s" "await_ok s k l" "tm_answers s k l w" "tm_resume clock l w s = (x, s')"
  shows "unspent (refresh_tok s') s' \<and> (\<forall>l'. x = Inr l' \<longrightarrow> await_ok s' k l')"
  using assms(2-4)
proof (cases rule: tm_answers.cases [of "(s, k, l, w)"])
  case (1 s1 k1 d)
  then show ?thesis using assms by (auto simp: unspent_def split: sum.splits)
next
  case (2 s1 k1 endpoint sent r)
  then obtain y where y: "store_refreshed clock r (note_rotation sent r s) = (y, s')" and x: "x = Inl y"
    using assms(4) by (auto split: prod.splits)
  note st = store_refreshed_state [OF y]
  show ?thesis
    using st 2 x assms(1-3) by (auto simp: unspent_def note_rotation_def split: if_splits)
qed auto

interpretation manager: guarded_coroutine "get_access_token cfg clock" "tm_outside clock" tm_answers
  "\<lambda>s. unspent (refresh_tok s) s" await_ok usable_result
  for cfg clock
proof unfold_locales
  fix s k x s'
  assume "unspent (refresh_tok s) s" "co_first (get_access_token cfg clock) k s = (x, s')"
  then show "unspent (refresh_tok s') s' \<and> (\<forall>k' l. await_ok s k' l \<longrightarrow> await_ok s' k' l)
      \<and> (\<forall>r. x = Some r \<longrightarrow> usable_result k r)"
    using tm_first_keeps [of cfg clock s x s'] tm_first_usable [of cfg clock s _ s']
    by (auto simp: get_access_token_def elim!: await_ok.elims)
next
  fix s k x s'
  assume "unspent (refresh_tok s) s" "co_enter (get_access_token cfg clock) k s = (x, s')"
  then show "unspent (refresh_tok s') s' \<and>
      (\<forall>k' l. co_lock (get_access_token cfg clock) k' \<noteq> co_lock (get_access_token cfg clock) k \<longrightarrow>
        await_ok s k' l \<longrightarrow> await_ok s' k' l) \<and> (\<forall>l. x = Inr l \<longrightarrow> await_ok s' k l)
      \<and> (\<forall>r. x = Inl r \<longrightarrow> usable_result k r)"
    using tm_first_keeps [of cfg clock s _ s'] tm_first_usable [of cfg clock s _ s' k]
    by (auto simp: get_access_token_def tm_enter_def usable_result_def split: prod.splits option.splits if_splits)
next
  fix s k l w x s'
  assume "unspent (refresh_tok s) s" "await_ok s k l" "tm_answers s k l w"
    "co_resume (get_access_token cfg clock) k l w s = (x, s')"
  then show "unspent (refresh_tok s') s' \<and>
      (\<forall>k' l'. co_lock (get_access_token cfg clock) k' \<noteq> co_lock (get_access_token cfg clock) k \<longrightarrow>
        await_ok s k' l' \<longrightarrow> await_ok s' k' l') \<and> (\<forall>l'. x = Inr l' \<longrightarrow> await_ok s' k l')
      \<and> (\<forall>r. x = Inl r \<longrightarrow> usable_result k r)"
    using tm_resume_keeps [of s k l w clock x s'] tm_resume_usable [of clock l w s _ s' k] by (simp add: get_access_token_def)
next
  fix s s'
  assume "unspent (refresh_tok s) s" "tm_outside clock s s'"
  then show "unspent (refresh_tok s') s' \<and> (\<forall>k l. await_ok s k l \<longrightarrow> await_ok s' k l)"
    by (auto simp: tm_outside_def unspent_def elim!: await_ok.elims)
qed

fun await_rank :: "unit \<Rightarrow> tm_await \<Rightarrow> nat" where
  "await_rank k Resolving = 1"
| "await_rank k (Refreshing endpoint sent) = 0"

lemma tm_resume_rank: "tm_resume clock l w s = (Inr l', s') \<Longrightarrow> await_rank k l' < await_rank k l"
  by (cases "(clock, l, w, s)" rule: tm_resume.cases) (auto split: sum.splits prod.splits)

interpretation manager: answered_coroutine "get_access_token cfg clock" "tm_outside clock" tm_answers
  "\<lambda>s. unspent (refresh_tok s) s" await_ok usable_result await_rank
  for cfg clock
proof unfold_locales
  fix s k l
  have "tm_answers s k (Refreshing e r) (TokenAnswer (token_failure []))" for e r
    by (simp add: answered_refresh_def)
  then show "\<exists>w. tm_answers s k l w"
    by (cases l) (use tm_answers.simps(1) in blast)+
next
  fix s k l w l' s'
  assume "co_resume (get_access_token cfg clock) k l w s = (Inr l', s')"
  then show "await_rank k l' < await_rank k l" by (simp add: get_access_token_def tm_resume_rank)
qed

definition tm_reachable :: "tm_config \<Rightarrow> (nat \<Rightarrow> int) \<Rightarrow> (tm_state, unit, tm_await, json res) sched \<Rightarrow> bool" where
  "tm_reachable cfg clock = co_reachable (get_access_token cfg clock) (tm_outside clock) tm_answers (co_init tm_init)"

lemma tm_reachable_inv: "tm_reachable cfg clock c \<Longrightarrow> manager.sched_inv cfg clock c"
  unfolding tm_reachable_def
  by (erule manager.reachable_inv, rule manager.init_inv) (simp add: unspent_def tm_init_def)

section \<open>Properties\<close>

definition example_manager :: tm_config where
  "example_manager = \<lparr>discovery_url = ''https://op'', tm_client_id = ''app'', tm_client_secret = None, refresh_before_seconds = 300\<rparr>"

definition example_token_disco :: disco_response where
  "example_token_disco = \<lparr>d_is_successful = True, d_error = None, d_error_kind = None, d_status_code = None,
     d_missing_fields = [], d_attrs = [(''token_endpoint'', JStr ''https://op/token'')], d_cache_control = None\<rparr>"

definition example_rotation :: token_response where
  "example_rotation = \<lparr>rs_is_successful = True, rs_error = JNull,
     tr_token = JDict [(''access_token'', JStr ''a2''), (''refresh_token'', JStr ''r2''), (''expires_in'', JInt 60)]\<rparr>"

definition example_clock :: "nat \<Rightarrow> int" where
  "example_clock n = 63900000000000000 + int n * 1000000000"

definition example_start :: tm_state where
  "example_start = snd (set_tokens example_clock (JStr ''a1'') (JStr ''r1'') (JInt 0) tm_init)"

definition example_calls :: "(tm_state, unit, tm_answer) event list" where
  "example_calls =
     [Start 0 (), Start 1 (), Acquire 0, Answer 0 (DiscoAnswer example_token_disco),
      Answer 0 (TokenAnswer example_rotation), Acquire 1, Answer 1 (DiscoAnswer example_token_disco)]"

lemma example_run_value:
  "map_option (\<lambda>c. (tasks c 1, tm_spent (shared c))) (co_run (get_access_token example_manager example_clock) (Outside example_start # example_calls) (co_init tm_init))
     = Some (Holding () (Refreshing (JStr ''https://op/token'') (JStr ''r2'')), [JStr ''r1''])"
  by code_simp

lemma example_run_permitted:
  "permitted_run (get_access_token example_manager example_clock) (tm_outside example_clock) tm_answers
     (Outside example_start # example_calls) (co_init tm_init)"
proof -
  have later: "permitted_run (get_access_token example_manager example_clock) (\<lambda>_ _. False) tm_answers example_calls
      (co_init example_start)"
    by code_simp
  have "tm_outside example_clock tm_init example_start"
    by (auto simp: tm_outside_def tm_init_def example_start_def)
  moreover have "(co_init tm_init)\<lparr>shared := example_start\<rparr> = co_init example_start" by (simp add: co_init_def)
  ultimately show ?thesis
    using permitted_run_mono [OF later, of "tm_outside example_clock"]
    by (simp add: permitted_def) (simp add: co_init_def)
qed

lemma example_reached:
  "\<exists>c. tm_reachable example_manager example_clock c
     \<and> tasks c 1 = Holding () (Refreshing (JStr ''https://op/token'') (JStr ''r2'')) \<and> tm_spent (shared c) = [JStr ''r1'']"
proof -
  obtain c where c: "co_run (get_access_token example_manager example_clock) (Outside example_start # example_calls) (co_init tm_init) = Some c"
    and v: "tasks c 1 = Holding () (Refreshing (JStr ''https://op/token'') (JStr ''r2''))" "tm_spent (shared c) = [JStr ''r1'']"
    using example_run_value by auto
  have "tm_reachable example_manager example_clock c"
    unfolding tm_reachable_def
    by (rule run_reachable [OF c example_run_permitted]) (rule co_reachable.start)
  then show ?thesis using v by blast
qed





text \<open>A caller that waited for another one's refresh returns the new token and sends nothing.\<close>

lemma waiting_caller_shares_refresh:
  assumes "tasks c t = Waiting ()" "owner c 0 = None" "truthy (access_token (shared c))"
    "expires_at (shared c) = Some x" "timedelta_us (refresh_before_seconds cfg * 1000000) = Inr d"
    "datetime_add x (- d) = Inr due" "clock (tm_ticks (shared c)) < due"
    "co_step (get_access_token cfg clock) (Acquire t) c = Some c'"
  shows "tasks c' t = Finished () (Inr (access_token (shared c))) \<and> tm_grants (shared c') = tm_grants (shared c)"
  using assms
  by (auto simp: get_access_token_def tm_enter_def tm_first_def current_token_def is_token_expired_def
      sbnd_def stm_simps utc_now_def)

text \<open>
  What the fallback texts of the error messages hide: reading \<open>error\<close> of a successful response
  raises, so neither text is ever used.
\<close>

theorem missing_token_endpoint_error:
  "resolve_token_endpoint (example_token_disco\<lparr>d_attrs := []\<rparr>) = Inl (successful_access_exn ''error'')"
  by code_simp

text \<open>
  An answer whose lifetime is a string: the call raises \<open>TypeError\<close>, and the new tokens are stored with
  the old expiry.
\<close>

theorem bad_lifetime_keeps_old_expiry:
  "set_tokens clock a r (JStr x) s =
     (Inl (raise_cls TypeError (''unsupported type for timedelta seconds component: '' @ ''str'')),
      s\<lparr>access_token := a, refresh_tok := r, tm_ticks := Suc (tm_ticks s)\<rparr>)"
  by (simp add: set_tokens_def sbnd_def stm_simps utc_now_def timedelta_seconds_def bnd_def)

end
