(* ===== verification/Config.thy ===== *)
theory Config
  imports Token_Profiles
begin

text \<open>
  \<open>core/config.py\<close>: a configuration is resolved from overrides, sources and the environment, typed and
  checked against a registry of keys, and built only when there is no issue at all. Sources and
  overrides may supply anything, so raw values are JSON values; the environment is a parameter.
\<close>

section \<open>Values and issues\<close>

datatype cfg_value =
    VNone
  | VInt int
  | VFloat rat
  | VStr string
  | VList "string list"
  | VSecret string

definition REDACTED :: string where
  "REDACTED = ''<redacted>''"

definition expose :: "cfg_value \<Rightarrow> string option" where
  "expose v = (case v of VSecret s \<Rightarrow> Some s | _ \<Rightarrow> None)"

record config_issue =
  is_code :: string
  is_keys :: "string list"
  is_message :: string

definition issue :: "string \<Rightarrow> string list \<Rightarrow> string \<Rightarrow> config_issue" where
  "issue code keys message = \<lparr>is_code = code, is_keys = keys, is_message = message\<rparr>"

definition issue_str :: "config_issue \<Rightarrow> string" where
  "issue_str i = is_code i @ '': '' @ is_message i @ '' ('' @ py_join '', '' (is_keys i) @ '')''"

text \<open>\<open>ConfigError\<close> carries the issues; any other exception that leaves \<open>build\<close> is \<open>Escaped\<close>.\<close>

datatype build_error = ConfigError "config_issue list" | Escaped exn

definition config_error_message :: "config_issue list \<Rightarrow> string" where
  "config_error_message issues =
     ''configuration is invalid:'' @ [char_of (10 :: nat)]
     @ py_join [char_of (10 :: nat)] (map (\<lambda>i. ''  - '' @ issue_str i) issues)"

section \<open>The registry\<close>

datatype key_kind = KStr | KInt | KFloat | KUrl | KStrList

datatype client_auth_method = AuthNone | ClientSecretBasic | ClientSecretPost

definition requires_secret :: "client_auth_method \<Rightarrow> bool" where
  "requires_secret m = (m \<noteq> AuthNone)"

fun auth_method_value :: "client_auth_method \<Rightarrow> string" where
  "auth_method_value AuthNone = ''none''"
| "auth_method_value ClientSecretBasic = ''client_secret_basic''"
| "auth_method_value ClientSecretPost = ''client_secret_post''"

text \<open>A bound is its value and the text an f-string shows for it. No default is the sentinel.\<close>

record key_spec =
  ks_logical :: string
  ks_attr :: string
  ks_env :: "string list"
  ks_kind :: key_kind
  ks_default :: "cfg_value option"
  ks_secret :: bool
  ks_group :: "string option"
  ks_prefixed :: bool
  ks_lo :: "(rat \<times> string) option"
  ks_hi :: "(rat \<times> string) option"
  ks_lo_exclusive :: bool

definition key_spec :: "string \<Rightarrow> string \<Rightarrow> string list \<Rightarrow> key_kind \<Rightarrow> cfg_value option \<Rightarrow> key_spec" where
  "key_spec logical attr env kind dflt =
     \<lparr>ks_logical = logical, ks_attr = attr, ks_env = env, ks_kind = kind, ks_default = dflt, ks_secret = False,
      ks_group = None, ks_prefixed = False, ks_lo = None, ks_hi = None, ks_lo_exclusive = False\<rparr>"

definition client_spec :: "string \<Rightarrow> string \<Rightarrow> string \<Rightarrow> key_kind \<Rightarrow> cfg_value option \<Rightarrow> key_spec" where
  "client_spec logical attr env kind dflt =
     (key_spec logical attr [env] kind dflt)\<lparr>ks_group := Some ''client'', ks_prefixed := True\<rparr>"

definition REGISTRY :: "key_spec list" where
  "REGISTRY =
     [(key_spec ''http.timeout'' ''http_timeout'' [''HTTP_TIMEOUT''] KFloat (Some (VFloat 30)))
        \<lparr>ks_lo := Some (0, ''0.0''), ks_lo_exclusive := True\<rparr>,
      (key_spec ''http.retry.max_attempts'' ''http_retry_max_attempts''
        [''HTTP_RETRY_MAX_ATTEMPTS'', ''HTTP_RETRY_COUNT''] KInt (Some (VInt 3)))\<lparr>ks_lo := Some (0, ''0'')\<rparr>,
      (key_spec ''http.retry.base_delay'' ''http_retry_base_delay'' [''HTTP_RETRY_BASE_DELAY''] KFloat (Some (VFloat 1)))
        \<lparr>ks_lo := Some (0, ''0.0'')\<rparr>,
      (key_spec ''jwks.max_size'' ''jwks_max_size'' [''MAX_JWKS_SIZE''] KInt (Some (VInt 524288)))\<lparr>ks_lo := Some (1, ''1'')\<rparr>,
      (key_spec ''jwks.max_keys'' ''jwks_max_keys'' [''MAX_JWKS_KEYS''] KInt (Some (VInt 100)))\<lparr>ks_lo := Some (1, ''1'')\<rparr>,
      (key_spec ''jwks.cache.ttl'' ''jwks_cache_ttl'' [''JWKS_CACHE_TTL''] KFloat (Some (VFloat 86400)))
        \<lparr>ks_lo := Some (60, ''60.0''), ks_hi := Some (86400, ''86400.0'')\<rparr>,
      (key_spec ''discovery.cache.ttl'' ''discovery_cache_ttl'' [''DISCO_CACHE_TTL''] KFloat (Some (VFloat 3600)))
        \<lparr>ks_lo := Some (60, ''60.0''), ks_hi := Some (86400, ''86400.0'')\<rparr>,
      (key_spec ''jwks.kid_miss_cooldown'' ''jwks_kid_miss_cooldown'' [''KID_MISS_REFRESH_COOLDOWN''] KFloat (Some (VFloat 5)))
        \<lparr>ks_lo := Some (0, ''0.0''), ks_hi := Some (3600, ''3600.0'')\<rparr>,
      (key_spec ''jwks.cache.max_entries'' ''jwks_cache_max_entries'' [''JWKS_CACHE_MAX_ENTRIES''] KInt (Some (VInt 64)))
        \<lparr>ks_lo := Some (0, ''0'')\<rparr>,
      (key_spec ''discovery.cache.max_entries'' ''discovery_cache_max_entries'' [''DISCO_CACHE_MAX_ENTRIES''] KInt (Some (VInt 64)))
        \<lparr>ks_lo := Some (0, ''0'')\<rparr>,
      client_spec ''client.discovery_url'' ''client_discovery_url'' ''DISCOVERY_URL'' KUrl None,
      client_spec ''client.id'' ''client_id'' ''CLIENT_ID'' KStr None,
      (client_spec ''client.secret'' ''client_secret'' ''CLIENT_SECRET'' KStr (Some VNone))\<lparr>ks_secret := True\<rparr>,
      client_spec ''client.scope'' ''client_scope'' ''SCOPE'' KStr (Some (VStr ''openid profile email'')),
      client_spec ''client.audience'' ''client_audience'' ''AUDIENCE'' KStr (Some VNone),
      client_spec ''client.redirect_uri'' ''client_redirect_uri'' ''REDIRECT_URI'' KUrl (Some (VStr [])),
      client_spec ''client.post_login_redirect'' ''client_post_login_redirect'' ''POST_LOGIN_REDIRECT'' KStr (Some (VStr ''/'')),
      client_spec ''client.post_logout_redirect'' ''client_post_logout_redirect'' ''POST_LOGOUT_REDIRECT'' KStr (Some (VStr ''/'')),
      client_spec ''client.excluded_paths'' ''client_excluded_paths'' ''EXCLUDED_PATHS'' KStrList
        (Some (VList [''/docs'', ''/openapi.json'', ''/health'']))]"

definition logical_keys :: "string list" where
  "logical_keys = map ks_logical REGISTRY"

definition BY_LOGICAL :: "key_spec dict" where
  "BY_LOGICAL = map (\<lambda>spec. (ks_logical spec, spec)) REGISTRY"

definition CLIENT_REQUIRED :: "string list" where
  "CLIENT_REQUIRED = [''client.discovery_url'', ''client.id'']"

section \<open>Sources\<close>

text \<open>A source is its name and what \<open>resolve\<close> returns or raises for the requested keys.\<close>

record config_source =
  src_name :: string
  src_resolve :: "string list \<Rightarrow> json res"

definition mapping_source :: "json dict \<Rightarrow> string \<Rightarrow> config_source" where
  "mapping_source vs name =
     \<lparr>src_name = name, src_resolve = (\<lambda>keys. Inr (JDict (filter (\<lambda>(k, v). k \<in> set keys) vs)))\<rparr>"

definition spec_env_names :: "string \<Rightarrow> key_spec \<Rightarrow> string list" where
  "spec_env_names prefix spec = (if ks_prefixed spec then map (\<lambda>n. prefix @ n) (ks_env spec) else ks_env spec)"

fun first_env :: "string dict \<Rightarrow> string list \<Rightarrow> string option" where
  "first_env environ [] = None"
| "first_env environ (n # ns) = (case map_of environ n of Some v \<Rightarrow> Some v | None \<Rightarrow> first_env environ ns)"

definition env_lookup :: "string dict \<Rightarrow> string \<Rightarrow> string \<Rightarrow> string option" where
  "env_lookup environ prefix key =
     (case map_of BY_LOGICAL key of None \<Rightarrow> None | Some spec \<Rightarrow> first_env environ (spec_env_names prefix spec))"

fun env_resolve :: "string dict \<Rightarrow> string \<Rightarrow> string list \<Rightarrow> json dict" where
  "env_resolve environ prefix [] = []"
| "env_resolve environ prefix (k # ks) =
     (case env_lookup environ prefix k of
        None \<Rightarrow> env_resolve environ prefix ks
      | Some v \<Rightarrow> (k, JStr v) # env_resolve environ prefix ks)"

definition env_source :: "string dict \<Rightarrow> string \<Rightarrow> string \<Rightarrow> config_source" where
  "env_source environ prefix name =
     \<lparr>src_name = name, src_resolve = (\<lambda>keys. Inr (JDict (env_resolve environ prefix keys)))\<rparr>"

text \<open>
  \<open>logical in supplied\<close> and \<open>supplied[logical]\<close>, outside of the \<open>try\<close>: a source that returns something
  other than a mapping makes them raise.
\<close>

definition supplied_get :: "json \<Rightarrow> string \<Rightarrow> json option res" where
  "supplied_get supplied k =
     (case supplied of
        JDict d \<Rightarrow> Inr (map_of d k)
      | JList xs \<Rightarrow>
          if list_ex (\<lambda>x. py_eq x (JStr k)) xs
          then Inl (raise_cls TypeError ''list indices must be integers or slices, not str'') else Inr None
      | JStr s \<Rightarrow>
          if py_contains k s then Inl (raise_cls TypeError (''string indices must be integers, not '' @ sq ''str''))
          else Inr None
      | _ \<Rightarrow> Inl (raise_cls TypeError (''argument of type '' @ sq (type_name supplied) @ '' is not iterable'')))"

record resolution =
  rs_raw :: "json dict"
  rs_remaining :: "string list"
  rs_issues :: "config_issue list"

definition take_value :: "string \<Rightarrow> string \<Rightarrow> json \<Rightarrow> resolution \<Rightarrow> resolution" where
  "take_value name k v st =
     (if is_str v
      then st\<lparr>rs_raw := dict_set k v (rs_raw st), rs_remaining := remove1 k (rs_remaining st)\<rparr>
      else st\<lparr>rs_issues := rs_issues st @
             [issue ''CFG-004'' [''source:'' @ name, k]
               (''source '' @ py_repr_str name @ '' returned a non-string value for '' @ py_repr_str k)],
           rs_remaining := remove1 k (rs_remaining st)\<rparr>)"

fun take_supplied :: "string \<Rightarrow> json \<Rightarrow> string list \<Rightarrow> resolution \<Rightarrow> resolution res" where
  "take_supplied name supplied [] st = Inr st"
| "take_supplied name supplied (k # ks) st =
     bnd (supplied_get supplied k) (\<lambda>v.
       take_supplied name supplied ks (case v of None \<Rightarrow> st | Some j \<Rightarrow> take_value name k j st))"

fun resolve_chain :: "config_source list \<Rightarrow> resolution \<Rightarrow> resolution res" where
  "resolve_chain [] st = Inr st"
| "resolve_chain (src # chain) st =
     (if rs_remaining st = [] then Inr st
      else case src_resolve src (rs_remaining st) of
        Inl e \<Rightarrow>
          resolve_chain chain (st\<lparr>rs_issues := rs_issues st @
            [issue ''CFG-004'' [''source:'' @ src_name src] (''source '' @ py_repr_str (src_name src) @ '' failed to resolve'')]\<rparr>)
      | Inr supplied \<Rightarrow>
          bnd (take_supplied (src_name src) supplied (rs_remaining st) st) (resolve_chain chain))"

text \<open>The overrides come first, in registry order.\<close>

definition override_raw :: "json dict \<Rightarrow> json dict" where
  "override_raw overrides =
     map (\<lambda>k. (k, the (map_of overrides k))) (filter (\<lambda>k. k \<in> set (dict_keys overrides)) logical_keys)"

definition resolve_raw :: "config_source list \<Rightarrow> json dict \<Rightarrow> resolution res" where
  "resolve_raw chain overrides =
     resolve_chain chain
       \<lparr>rs_raw = override_raw overrides,
        rs_remaining = filter (\<lambda>k. k \<notin> set (dict_keys (override_raw overrides))) logical_keys,
        rs_issues = []\<rparr>"

section \<open>Parsing\<close>

type_synonym parsed = "cfg_value option \<times> config_issue list"

definition invalid :: "key_spec \<Rightarrow> string \<Rightarrow> parsed" where
  "invalid spec message = (None, [issue ''CFG-003'' [ks_logical spec] message])"

definition range_check :: "key_spec \<Rightarrow> rat \<Rightarrow> cfg_value \<Rightarrow> parsed" where
  "range_check spec num v =
     (case ks_lo spec of
        Some (lo, text) \<Rightarrow>
          if ks_lo_exclusive spec \<and> num \<le> lo then invalid spec (''value must be greater than '' @ text)
          else if \<not> ks_lo_exclusive spec \<and> num < lo then invalid spec (''value is below the minimum '' @ text)
          else (case ks_hi spec of
                  Some (hi, text) \<Rightarrow> if num > hi then invalid spec (''value is above the maximum '' @ text) else (Some v, [])
                | None \<Rightarrow> (Some v, []))
      | None \<Rightarrow>
          (case ks_hi spec of
             Some (hi, text) \<Rightarrow> if num > hi then invalid spec (''value is above the maximum '' @ text) else (Some v, [])
           | None \<Rightarrow> (Some v, [])))"

definition parse_number :: "key_spec \<Rightarrow> string \<Rightarrow> parsed" where
  "parse_number spec text =
     (if ks_kind spec = KInt
      then (case py_int text of
              None \<Rightarrow> invalid spec ''value is not a valid number''
            | Some i \<Rightarrow> range_check spec (of_int i) (VInt i))
      else (case py_float text of
              None \<Rightarrow> invalid spec ''value is not a valid number''
            | Some (Fin q) \<Rightarrow> range_check spec q (VFloat q)
            | Some _ \<Rightarrow> invalid spec ''value is not a finite number''))"

definition parse_url :: "key_spec \<Rightarrow> string \<Rightarrow> parsed res" where
  "parse_url spec text =
     bnd (urlparse text) (\<lambda>p.
       Inr (if scheme p = [] \<or> netloc p = [] then invalid spec ''value is not an absolute URL''
            else (Some (VStr text), [])))"

definition attr_error :: "json \<Rightarrow> string \<Rightarrow> exn" where
  "attr_error j name = raise_cls AttributeError (sq (type_name j) @ '' object has no attribute '' @ sq name)"

definition parse_value :: "key_spec \<Rightarrow> json \<Rightarrow> parsed res" where
  "parse_value spec raw =
     (case raw of
        JStr s \<Rightarrow>
          if ks_kind spec = KStrList
          then Inr (Some (VList (filter (\<lambda>p. p \<noteq> []) (map py_strip (py_split (CHR '','') s)))), [])
          else if py_strip s = [] then Inr (invalid spec ''value is empty or whitespace-only'')
          else if ks_kind spec = KStr then Inr (Some (VStr s), [])
          else if ks_kind spec = KUrl then parse_url spec (py_strip s)
          else Inr (parse_number spec (py_strip s))
      | _ \<Rightarrow> Inl (attr_error raw (if ks_kind spec = KStrList then ''split'' else ''strip'')))"

text \<open>The loop of \<open>build\<close> over the registry.\<close>

definition type_value :: "key_spec \<Rightarrow> json dict \<Rightarrow> parsed res" where
  "type_value spec raw =
     (case map_of raw (ks_logical spec) of Some j \<Rightarrow> parse_value spec j | None \<Rightarrow> Inr (ks_default spec, []))"

fun type_values :: "key_spec list \<Rightarrow> json dict \<Rightarrow> (cfg_value dict \<times> config_issue list) res" where
  "type_values [] raw = Inr ([], [])"
| "type_values (spec # specs) raw =
     bnd (type_value spec raw) (\<lambda>(v, is).
       bnd (type_values specs raw) (\<lambda>(vs, is').
         Inr ((case v of None \<Rightarrow> vs | Some x \<Rightarrow> (ks_attr spec, x) # vs), is @ is')))"

section \<open>Group rules and construction\<close>

definition wrap_client_secret :: "cfg_value dict \<Rightarrow> cfg_value dict" where
  "wrap_client_secret vs =
     (case map_of vs ''client_secret'' of Some (VStr s) \<Rightarrow> dict_set ''client_secret'' (VSecret s) vs | _ \<Rightarrow> vs)"

definition value_or_none :: "cfg_value dict \<Rightarrow> string \<Rightarrow> cfg_value" where
  "value_or_none vs k = (case map_of vs k of None \<Rightarrow> VNone | Some v \<Rightarrow> v)"

definition client_present :: "json dict \<Rightarrow> bool" where
  "client_present raw = list_ex (\<lambda>k. py_startswith k ''client.'' \<and> k \<in> set (dict_keys raw)) (dict_keys BY_LOGICAL)"

text \<open>\<open>req not in values\<close> compares a logical key with attribute names, which never have a dot.\<close>

definition group_issues ::
  "string option \<Rightarrow> client_auth_method \<Rightarrow> json dict \<Rightarrow> cfg_value dict \<Rightarrow> config_issue list" where
  "group_issues grp m raw vs =
     (if grp = Some ''client''
      then map (\<lambda>req. issue ''CFG-001'' [req] (''required key '' @ py_repr_str req @ '' is missing''))
             (filter (\<lambda>req. req \<notin> set (dict_keys vs) \<and> req \<notin> set (dict_keys raw)) CLIENT_REQUIRED)
         @ (if requires_secret m \<and> value_or_none vs ''client_secret'' = VNone
            then [issue ''CFG-002'' [''client'', ''client.secret'']
                   (''client auth method '' @ py_repr_str (auth_method_value m) @ '' requires client.secret'')]
            else [])
      else if client_present raw \<and> ''client.discovery_url'' \<notin> set (dict_keys raw)
      then [issue ''CFG-002'' [''client'', ''client.discovery_url''] ''client-group key present without client.discovery_url'']
      else [])"

definition apply_group_rules ::
  "string option \<Rightarrow> client_auth_method \<Rightarrow> json dict \<Rightarrow> cfg_value dict \<Rightarrow> config_issue list \<Rightarrow> cfg_value dict \<times> config_issue list" where
  "apply_group_rules grp m raw vs issues = (wrap_client_secret vs, issues @ group_issues grp m raw vs)"

record config =
  http_timeout :: cfg_value
  http_retry_max_attempts :: cfg_value
  http_retry_base_delay :: cfg_value
  jwks_max_size :: cfg_value
  jwks_max_keys :: cfg_value
  jwks_cache_ttl :: cfg_value
  discovery_cache_ttl :: cfg_value
  jwks_kid_miss_cooldown :: cfg_value
  jwks_cache_max_entries :: cfg_value
  discovery_cache_max_entries :: cfg_value
  client_discovery_url :: cfg_value
  cf_client_id :: cfg_value
  cf_client_secret :: cfg_value
  client_scope :: cfg_value
  client_audience :: cfg_value
  client_redirect_uri :: cfg_value
  client_post_login_redirect :: cfg_value
  client_post_logout_redirect :: cfg_value
  client_excluded_paths :: cfg_value

definition config_of :: "cfg_value dict \<Rightarrow> config" where
  "config_of vs =
     \<lparr>http_timeout = value_or_none vs ''http_timeout'',
      http_retry_max_attempts = value_or_none vs ''http_retry_max_attempts'',
      http_retry_base_delay = value_or_none vs ''http_retry_base_delay'',
      jwks_max_size = value_or_none vs ''jwks_max_size'',
      jwks_max_keys = value_or_none vs ''jwks_max_keys'',
      jwks_cache_ttl = value_or_none vs ''jwks_cache_ttl'',
      discovery_cache_ttl = value_or_none vs ''discovery_cache_ttl'',
      jwks_kid_miss_cooldown = value_or_none vs ''jwks_kid_miss_cooldown'',
      jwks_cache_max_entries = value_or_none vs ''jwks_cache_max_entries'',
      discovery_cache_max_entries = value_or_none vs ''discovery_cache_max_entries'',
      client_discovery_url = value_or_none vs ''client_discovery_url'',
      cf_client_id = value_or_none vs ''client_id'',
      cf_client_secret = value_or_none vs ''client_secret'',
      client_scope = value_or_none vs ''client_scope'',
      client_audience = value_or_none vs ''client_audience'',
      client_redirect_uri = value_or_none vs ''client_redirect_uri'',
      client_post_login_redirect = value_or_none vs ''client_post_login_redirect'',
      client_post_logout_redirect = value_or_none vs ''client_post_logout_redirect'',
      client_excluded_paths = value_or_none vs ''client_excluded_paths''\<rparr>"

definition default_value :: "key_spec \<Rightarrow> cfg_value" where
  "default_value spec = (case ks_default spec of None \<Rightarrow> VNone | Some v \<Rightarrow> v)"

definition fill_values :: "cfg_value dict \<Rightarrow> cfg_value dict" where
  "fill_values vs =
     foldl (\<lambda>acc spec. if ks_attr spec \<in> set (dict_keys acc) then acc
       else dict_set (ks_attr spec) (default_value spec) acc) vs REGISTRY"

definition default_audience :: "cfg_value dict \<Rightarrow> cfg_value dict" where
  "default_audience vs =
     (if value_or_none vs ''client_audience'' = VNone
      then dict_set ''client_audience'' (value_or_none vs ''client_id'') vs else vs)"

text \<open>\<open>build\<close> after the resolution, and \<open>build\<close> itself.\<close>

definition build_from ::
  "string option \<Rightarrow> client_auth_method \<Rightarrow> json dict \<Rightarrow> config_issue list \<Rightarrow> build_error + config" where
  "build_from grp m raw issues =
     (case type_values REGISTRY raw of
        Inl e \<Rightarrow> Inl (Escaped e)
      | Inr (vs, is) \<Rightarrow>
          let (vs', issues') = apply_group_rules grp m raw vs (issues @ is) in
          if issues' \<noteq> [] then Inl (ConfigError issues')
          else Inr (config_of (default_audience (fill_values vs'))))"

definition build ::
  "string dict \<Rightarrow> config_source list \<Rightarrow> json dict \<Rightarrow> bool \<Rightarrow> string option \<Rightarrow> client_auth_method \<Rightarrow> build_error + config" where
  "build environ sources overrides env grp m =
     (case resolve_raw (sources @ (if env then [env_source environ ''OIDC_'' ''env''] else [])) overrides of
        Inl e \<Rightarrow> Inl (Escaped e)
      | Inr st \<Rightarrow> build_from grp m (rs_raw st) (rs_issues st))"

definition from_env :: "string dict \<Rightarrow> string \<Rightarrow> string option \<Rightarrow> client_auth_method \<Rightarrow> build_error + config" where
  "from_env environ prefix grp m = build environ [env_source environ prefix ''env''] [] False grp m"

section \<open>Representation\<close>

definition config_fields :: "config \<Rightarrow> cfg_value dict" where
  "config_fields c =
     [(''http_timeout'', http_timeout c), (''http_retry_max_attempts'', http_retry_max_attempts c),
      (''http_retry_base_delay'', http_retry_base_delay c), (''jwks_max_size'', jwks_max_size c),
      (''jwks_max_keys'', jwks_max_keys c), (''jwks_cache_ttl'', jwks_cache_ttl c),
      (''discovery_cache_ttl'', discovery_cache_ttl c), (''jwks_kid_miss_cooldown'', jwks_kid_miss_cooldown c),
      (''jwks_cache_max_entries'', jwks_cache_max_entries c),
      (''discovery_cache_max_entries'', discovery_cache_max_entries c),
      (''client_discovery_url'', client_discovery_url c), (''client_id'', cf_client_id c),
      (''client_secret'', cf_client_secret c), (''client_scope'', client_scope c),
      (''client_audience'', client_audience c), (''client_redirect_uri'', client_redirect_uri c),
      (''client_post_login_redirect'', client_post_login_redirect c),
      (''client_post_logout_redirect'', client_post_logout_redirect c),
      (''client_excluded_paths'', client_excluded_paths c)]"

text \<open>\<open>repr\<close> of a value; how Python shows a float is the argument.\<close>

definition value_repr :: "(rat \<Rightarrow> string) \<Rightarrow> cfg_value \<Rightarrow> string" where
  "value_repr float_repr v =
     (case v of
        VNone \<Rightarrow> ''None''
      | VInt i \<Rightarrow> show_int i
      | VFloat q \<Rightarrow> float_repr q
      | VStr s \<Rightarrow> py_repr_str s
      | VList [x] \<Rightarrow> ''('' @ py_repr_str x @ '',)''
      | VList xs \<Rightarrow> ''('' @ py_join '', '' (map py_repr_str xs) @ '')''
      | VSecret s \<Rightarrow> ''Secret('' @ sq REDACTED @ '')'')"

definition config_repr :: "(rat \<Rightarrow> string) \<Rightarrow> config \<Rightarrow> string" where
  "config_repr float_repr c =
     ''Config('' @ py_join '', '' (map (\<lambda>(name, v).
        if name = ''client_secret'' \<and> v \<noteq> VNone then name @ ''='' @ py_repr_str REDACTED
        else name @ ''='' @ value_repr float_repr v) (config_fields c)) @ '')''"


section \<open>What a built configuration holds\<close>

definition in_range :: "key_spec \<Rightarrow> rat \<Rightarrow> bool" where
  "in_range spec q \<longleftrightarrow>
     (case ks_lo spec of None \<Rightarrow> True | Some (lo, _) \<Rightarrow> if ks_lo_exclusive spec then lo < q else lo \<le> q) \<and>
     (case ks_hi spec of None \<Rightarrow> True | Some (hi, _) \<Rightarrow> q \<le> hi)"

definition absolute_url :: "string \<Rightarrow> bool" where
  "absolute_url t = (case urlparse t of Inl _ \<Rightarrow> False | Inr p \<Rightarrow> scheme p \<noteq> [] \<and> netloc p \<noteq> [])"

definition typed_value :: "key_spec \<Rightarrow> cfg_value \<Rightarrow> bool" where
  "typed_value spec v =
     (case ks_kind spec of
        KInt \<Rightarrow> (case v of VInt i \<Rightarrow> in_range spec (of_int i) | _ \<Rightarrow> False)
      | KFloat \<Rightarrow> (case v of VFloat q \<Rightarrow> in_range spec q | _ \<Rightarrow> False)
      | KStr \<Rightarrow> (case v of VStr s \<Rightarrow> py_strip s \<noteq> [] | _ \<Rightarrow> False)
      | KUrl \<Rightarrow> (case v of VStr s \<Rightarrow> absolute_url s | _ \<Rightarrow> False)
      | KStrList \<Rightarrow> (case v of VList xs \<Rightarrow> [] \<notin> set xs | _ \<Rightarrow> False))"

lemma range_check_cases:
  "(range_check spec q v = (Some v, []) \<and> in_range spec q) \<or>
   (\<exists>message. range_check spec q v = invalid spec message)"
  by (auto simp: range_check_def in_range_def split: option.split)

lemma parse_value_cases:
  assumes "parse_value spec j = Inr x"
  shows "(\<exists>v. x = (Some v, []) \<and> typed_value spec v) \<or> (\<exists>message. x = invalid spec message)"
proof (cases j)
  case (JStr s)
  show ?thesis
  proof (cases "ks_kind spec")
    case KInt
    have "(\<exists>v. range_check spec (of_int i) (VInt i) = (Some v, []) \<and> typed_value spec v) \<or>
        (\<exists>message. range_check spec (of_int i) (VInt i) = invalid spec message)" for i
      using range_check_cases [of spec "of_int i" "VInt i"] KInt by (auto simp: typed_value_def)
    then show ?thesis
      using assms JStr KInt by (auto simp: parse_value_def parse_number_def split: if_splits option.splits)
  next
    case KFloat
    have "(\<exists>v. range_check spec q (VFloat q) = (Some v, []) \<and> typed_value spec v) \<or>
        (\<exists>message. range_check spec q (VFloat q) = invalid spec message)" for q
      using range_check_cases [of spec q "VFloat q"] KFloat by (auto simp: typed_value_def)
    then show ?thesis
      using assms JStr KFloat
      by (auto simp: parse_value_def parse_number_def split: if_splits option.splits pyfloat.splits)
  next
    case KUrl
    then show ?thesis
      using assms JStr
      by (auto simp: parse_value_def parse_url_def typed_value_def absolute_url_def bnd_def split: if_splits sum.splits)
  qed (use assms JStr in \<open>auto simp: parse_value_def typed_value_def split: if_splits\<close>)
qed (use assms in \<open>auto simp: parse_value_def\<close>)

text \<open>The loop over the registry, without an issue: every supplied key has a typed value, the others their default.\<close>

lemma type_values_Cons:
  "type_values (s # specs) raw = Inr (vs, is) \<longleftrightarrow>
     (\<exists>v is1 ws is2. type_value s raw = Inr (v, is1) \<and> type_values specs raw = Inr (ws, is2)
        \<and> vs = (case v of None \<Rightarrow> ws | Some x \<Rightarrow> (ks_attr s, x) # ws) \<and> is = is1 @ is2)"
  by (simp add: bnd_def split: sum.split prod.split) blast

lemma type_value_cases:
  assumes "type_value spec raw = Inr (v, [])"
  shows "(case map_of raw (ks_logical spec) of
            None \<Rightarrow> v = ks_default spec
          | Some j \<Rightarrow> \<exists>x. v = Some x \<and> typed_value spec x \<and> parse_value spec j = Inr (Some x, []))"
  using assms by (auto simp: type_value_def invalid_def split: option.splits dest: parse_value_cases)

lemma type_values_keys: "type_values specs raw = Inr (vs, is) \<Longrightarrow> set (dict_keys vs) \<subseteq> ks_attr ` set specs"
proof (induction specs arbitrary: vs "is")
  case (Cons s specs)
  then obtain v ws is2 where "type_values specs raw = Inr (ws, is2)" "vs = (case v of None \<Rightarrow> ws | Some x \<Rightarrow> (ks_attr s, x) # ws)"
    unfolding type_values_Cons by blast
  then show ?case using Cons.IH [of ws is2] by (cases v) auto
qed simp

lemma type_values_lookup_gen:
  assumes "type_values specs raw = Inr (vs, is)" "distinct (map ks_attr specs)" "spec \<in> set specs"
  shows "\<exists>is'. type_value spec raw = Inr (map_of vs (ks_attr spec), is') \<and> set is' \<subseteq> set is"
  using assms
proof (induction specs arbitrary: vs "is")
  case (Cons s specs)
  then obtain v is1 ws is2 where v: "type_value s raw = Inr (v, is1)" and ws: "type_values specs raw = Inr (ws, is2)"
    and vs: "vs = (case v of None \<Rightarrow> ws | Some x \<Rightarrow> (ks_attr s, x) # ws)" and "is": "is = is1 @ is2"
    unfolding type_values_Cons by auto
  show ?case
  proof (cases "spec = s")
    case True
    have "ks_attr s \<notin> set (dict_keys ws)" using type_values_keys [OF ws] Cons.prems(2) by auto
    then have "map_of ws (ks_attr s) = None" by (simp add: map_of_eq_None_iff)
    then show ?thesis using v vs True "is" by (cases v) auto
  next
    case False
    then have spec: "spec \<in> set specs" using Cons.prems(3) by simp
    then have "ks_attr spec \<noteq> ks_attr s" using Cons.prems(2) by (metis distinct.simps(2) image_eqI image_set list.simps(9))
    then have "map_of vs (ks_attr spec) = map_of ws (ks_attr spec)" using vs by (cases v) auto
    then show ?thesis using Cons.IH [OF ws _ spec] Cons.prems(2) "is" by auto
  qed
qed simp

lemma type_values_lookup:
  assumes "type_values specs raw = Inr (vs, [])" "distinct (map ks_attr specs)" "spec \<in> set specs"
  shows "type_value spec raw = Inr (map_of vs (ks_attr spec), [])"
  using type_values_lookup_gen [OF assms] by simp

lemma fill_lookup_gen:
  "map_of (foldl (\<lambda>acc spec. if ks_attr spec \<in> set (dict_keys acc) then acc
       else dict_set (ks_attr spec) (default_value spec) acc) vs specs) k =
     (case map_of vs k of Some v \<Rightarrow> Some v
      | None \<Rightarrow> map_option default_value (find (\<lambda>spec. ks_attr spec = k) specs))"
proof (induction specs arbitrary: vs)
  case (Cons s specs)
  show ?case
  proof (cases "ks_attr s \<in> set (dict_keys vs)")
    case True
    then have "map_of vs (ks_attr s) \<noteq> None" by (simp add: map_of_eq_None_iff)
    then show ?thesis using True Cons.IH [of vs] by (auto split: option.split)
  next
    case False
    then have "map_of vs (ks_attr s) = None" by (simp add: map_of_eq_None_iff)
    then show ?thesis using False Cons.IH by (auto simp: dict_get_set split: option.split)
  qed
qed (simp split: option.split)

lemma registry_attrs: "distinct (map ks_attr REGISTRY)"
  by code_simp

lemma find_by_distinct: "\<lbrakk>distinct (map f xs); x \<in> set xs\<rbrakk> \<Longrightarrow> find (\<lambda>y. f y = f x) xs = Some x"
  by (induction xs) (force simp: rev_image_eqI)+

lemmas registry_find = find_by_distinct [OF registry_attrs]

definition wrap_value :: "cfg_value \<Rightarrow> cfg_value" where
  "wrap_value v = (case v of VStr s \<Rightarrow> VSecret s | _ \<Rightarrow> v)"

lemma wrap_lookup:
  "map_of (wrap_client_secret vs) k =
     (if k = ''client_secret'' then map_option wrap_value (map_of vs k) else map_of vs k)"
  by (auto simp: wrap_client_secret_def wrap_value_def dict_get_set split: option.split cfg_value.split)

lemma fill_lookup:
  "spec \<in> set REGISTRY \<Longrightarrow> value_or_none (fill_values vs) (ks_attr spec) =
     (case map_of vs (ks_attr spec) of Some v \<Rightarrow> v | None \<Rightarrow> default_value spec)"
  unfolding value_or_none_def fill_values_def fill_lookup_gen by (simp add: registry_find split: option.split)

lemma audience_lookup:
  "value_or_none (default_audience vs) k =
     (if k = ''client_audience'' \<and> value_or_none vs k = VNone then value_or_none vs ''client_id'' else value_or_none vs k)"
  by (auto simp: default_audience_def value_or_none_def dict_get_set split: option.split)

lemma build_from_ok:
  assumes "build_from grp m raw issues = Inr c"
  obtains vs where "issues = []" "type_values REGISTRY raw = Inr (vs, [])" "group_issues grp m raw vs = []"
    "c = config_of (default_audience (fill_values (wrap_client_secret vs)))"
  using assms by (auto simp: build_from_def apply_group_rules_def split: sum.splits if_splits)

text \<open>A key that was not supplied has its default, a supplied one its typed value.\<close>

definition field_ok :: "json dict \<Rightarrow> key_spec \<Rightarrow> cfg_value \<Rightarrow> bool" where
  "field_ok raw spec v \<longleftrightarrow>
     (case map_of raw (ks_logical spec) of None \<Rightarrow> v = default_value spec | Some j \<Rightarrow> parse_value spec j = Inr (Some v, []))"

lemma filled_field:
  assumes "type_values REGISTRY raw = Inr (vs, [])" "spec \<in> set REGISTRY"
  shows "field_ok raw spec (case map_of vs (ks_attr spec) of Some v \<Rightarrow> v | None \<Rightarrow> default_value spec)"
  using type_value_cases [OF type_values_lookup [OF assms(1) registry_attrs assms(2)]]
  by (auto simp: field_ok_def default_value_def split: option.splits)

lemma built_field:
  assumes "type_values REGISTRY raw = Inr (vs, [])" "spec \<in> set REGISTRY"
    "ks_attr spec \<notin> {''client_secret'', ''client_audience''}"
  shows "field_ok raw spec (value_or_none (default_audience (fill_values (wrap_client_secret vs))) (ks_attr spec))"
  using filled_field [OF assms(1,2)] assms(2,3) by (simp add: audience_lookup fill_lookup wrap_lookup)

lemma field_ok_typed: "field_ok raw spec v \<Longrightarrow> v = default_value spec \<or> typed_value spec v"
  by (auto simp: field_ok_def invalid_def split: option.splits dest!: parse_value_cases)

lemma registry_length: "length REGISTRY = 19"
  by code_simp

lemma built_typed_at:
  assumes "type_values REGISTRY raw = Inr (vs, [])" "i < 19" "ks_attr (REGISTRY ! i) = a"
    "a \<notin> {''client_secret'', ''client_audience''}"
  defines "v \<equiv> value_or_none (default_audience (fill_values (wrap_client_secret vs))) a"
  shows "v = default_value (REGISTRY ! i) \<or> typed_value (REGISTRY ! i) v"
  using field_ok_typed [OF built_field [OF assms(1), of "REGISTRY ! i"]] assms(2-4) registry_length
  unfolding v_def by simp

definition float_field :: "(rat \<Rightarrow> bool) \<Rightarrow> cfg_value \<Rightarrow> bool" where
  "float_field P v = (case v of VFloat q \<Rightarrow> P q | _ \<Rightarrow> False)"

definition int_field :: "(int \<Rightarrow> bool) \<Rightarrow> cfg_value \<Rightarrow> bool" where
  "int_field P v = (case v of VInt i \<Rightarrow> P i | _ \<Rightarrow> False)"

definition str_field :: "(string \<Rightarrow> bool) \<Rightarrow> cfg_value \<Rightarrow> bool" where
  "str_field P v = (case v of VStr s \<Rightarrow> P s | _ \<Rightarrow> False)"

abbreviation nonblank :: "string \<Rightarrow> bool" where
  "nonblank s \<equiv> py_strip s \<noteq> []"

definition transport_ok :: "config \<Rightarrow> bool" where
  "transport_ok c \<longleftrightarrow>
     float_field (\<lambda>q. 0 < q) (http_timeout c) \<and> int_field (\<lambda>i. 0 \<le> i) (http_retry_max_attempts c)
     \<and> float_field (\<lambda>q. 0 \<le> q) (http_retry_base_delay c)"

definition cache_limits_ok :: "config \<Rightarrow> bool" where
  "cache_limits_ok c \<longleftrightarrow>
     int_field (\<lambda>i. 1 \<le> i) (jwks_max_size c) \<and> int_field (\<lambda>i. 1 \<le> i) (jwks_max_keys c)
     \<and> float_field (\<lambda>q. 60 \<le> q \<and> q \<le> 86400) (jwks_cache_ttl c)
     \<and> float_field (\<lambda>q. 60 \<le> q \<and> q \<le> 86400) (discovery_cache_ttl c)
     \<and> float_field (\<lambda>q. 0 \<le> q \<and> q \<le> 3600) (jwks_kid_miss_cooldown c)
     \<and> int_field (\<lambda>i. 0 \<le> i) (jwks_cache_max_entries c) \<and> int_field (\<lambda>i. 0 \<le> i) (discovery_cache_max_entries c)"

definition client_ok :: "config \<Rightarrow> bool" where
  "client_ok c \<longleftrightarrow>
     (client_discovery_url c = VNone \<or> str_field absolute_url (client_discovery_url c))
     \<and> (cf_client_id c = VNone \<or> str_field nonblank (cf_client_id c))
     \<and> (case cf_client_secret c of VNone \<Rightarrow> True | VSecret s \<Rightarrow> nonblank s | _ \<Rightarrow> False)
     \<and> str_field nonblank (client_scope c)
     \<and> (client_audience c = cf_client_id c \<or> str_field nonblank (client_audience c))
     \<and> str_field (\<lambda>s. s = [] \<or> absolute_url s) (client_redirect_uri c)
     \<and> str_field nonblank (client_post_login_redirect c) \<and> str_field nonblank (client_post_logout_redirect c)
     \<and> (case client_excluded_paths c of VList xs \<Rightarrow> [] \<notin> set xs | _ \<Rightarrow> False)"

lemmas registry_simps = REGISTRY_def key_spec_def client_spec_def default_value_def typed_value_def in_range_def
  float_field_def int_field_def str_field_def

lemma registry_numeric:
  "ks_attr (REGISTRY ! 0) = ''http_timeout''"
  "v = default_value (REGISTRY ! 0) \<or> typed_value (REGISTRY ! 0) v \<Longrightarrow> float_field (\<lambda>q. 0 < q) v"
  "ks_attr (REGISTRY ! 1) = ''http_retry_max_attempts''"
  "v = default_value (REGISTRY ! 1) \<or> typed_value (REGISTRY ! 1) v \<Longrightarrow> int_field (\<lambda>i. 0 \<le> i) v"
  "ks_attr (REGISTRY ! 2) = ''http_retry_base_delay''"
  "v = default_value (REGISTRY ! 2) \<or> typed_value (REGISTRY ! 2) v \<Longrightarrow> float_field (\<lambda>q. 0 \<le> q) v"
  "ks_attr (REGISTRY ! 3) = ''jwks_max_size''"
  "v = default_value (REGISTRY ! 3) \<or> typed_value (REGISTRY ! 3) v \<Longrightarrow> int_field (\<lambda>i. 1 \<le> i) v"
  "ks_attr (REGISTRY ! 4) = ''jwks_max_keys''"
  "v = default_value (REGISTRY ! 4) \<or> typed_value (REGISTRY ! 4) v \<Longrightarrow> int_field (\<lambda>i. 1 \<le> i) v"
  "ks_attr (REGISTRY ! 5) = ''jwks_cache_ttl''"
  "v = default_value (REGISTRY ! 5) \<or> typed_value (REGISTRY ! 5) v \<Longrightarrow> float_field (\<lambda>q. 60 \<le> q \<and> q \<le> 86400) v"
  "ks_attr (REGISTRY ! 6) = ''discovery_cache_ttl''"
  "v = default_value (REGISTRY ! 6) \<or> typed_value (REGISTRY ! 6) v \<Longrightarrow> float_field (\<lambda>q. 60 \<le> q \<and> q \<le> 86400) v"
  "ks_attr (REGISTRY ! 7) = ''jwks_kid_miss_cooldown''"
  "v = default_value (REGISTRY ! 7) \<or> typed_value (REGISTRY ! 7) v \<Longrightarrow> float_field (\<lambda>q. 0 \<le> q \<and> q \<le> 3600) v"
  "ks_attr (REGISTRY ! 8) = ''jwks_cache_max_entries''"
  "v = default_value (REGISTRY ! 8) \<or> typed_value (REGISTRY ! 8) v \<Longrightarrow> int_field (\<lambda>i. 0 \<le> i) v"
  "ks_attr (REGISTRY ! 9) = ''discovery_cache_max_entries''"
  "v = default_value (REGISTRY ! 9) \<or> typed_value (REGISTRY ! 9) v \<Longrightarrow> int_field (\<lambda>i. 0 \<le> i) v"
  by (auto simp: registry_simps split: cfg_value.splits)

lemma registry_client:
  "ks_attr (REGISTRY ! 10) = ''client_discovery_url''"
  "v = default_value (REGISTRY ! 10) \<or> typed_value (REGISTRY ! 10) v \<Longrightarrow> v = VNone \<or> str_field absolute_url v"
  "ks_attr (REGISTRY ! 11) = ''client_id''"
  "v = default_value (REGISTRY ! 11) \<or> typed_value (REGISTRY ! 11) v \<Longrightarrow> v = VNone \<or> str_field nonblank v"
  "ks_attr (REGISTRY ! 12) = ''client_secret''"
  "v = default_value (REGISTRY ! 12) \<or> typed_value (REGISTRY ! 12) v \<Longrightarrow> v = VNone \<or> str_field nonblank v"
  "ks_attr (REGISTRY ! 13) = ''client_scope''"
  "v = default_value (REGISTRY ! 13) \<or> typed_value (REGISTRY ! 13) v \<Longrightarrow> str_field nonblank v"
  "ks_attr (REGISTRY ! 14) = ''client_audience''"
  "v = default_value (REGISTRY ! 14) \<or> typed_value (REGISTRY ! 14) v \<Longrightarrow> v = VNone \<or> str_field nonblank v"
  "ks_attr (REGISTRY ! 15) = ''client_redirect_uri''"
  "v = default_value (REGISTRY ! 15) \<or> typed_value (REGISTRY ! 15) v \<Longrightarrow> str_field (\<lambda>s. s = [] \<or> absolute_url s) v"
  "ks_attr (REGISTRY ! 16) = ''client_post_login_redirect''"
  "v = default_value (REGISTRY ! 16) \<or> typed_value (REGISTRY ! 16) v \<Longrightarrow> str_field nonblank v"
  "ks_attr (REGISTRY ! 17) = ''client_post_logout_redirect''"
  "v = default_value (REGISTRY ! 17) \<or> typed_value (REGISTRY ! 17) v \<Longrightarrow> str_field nonblank v"
  "ks_attr (REGISTRY ! 18) = ''client_excluded_paths''"
  "v = default_value (REGISTRY ! 18) \<or> typed_value (REGISTRY ! 18) v \<Longrightarrow> (case v of VList xs \<Rightarrow> [] \<notin> set xs | _ \<Rightarrow> False)"
  by (auto simp: registry_simps py_strip_def py_lstrip_def py_isspace_def split: cfg_value.splits)

lemma built_numeric:
  assumes "type_values REGISTRY raw = Inr (vs, [])" "c = config_of (default_audience (fill_values (wrap_client_secret vs)))"
  shows "transport_ok c" "cache_limits_ok c"
  unfolding assms(2) transport_ok_def cache_limits_ok_def
  by (simp_all add: config_of_def registry_numeric built_typed_at [OF assms(1)] del: One_nat_def)

lemma str_field_wrap: "str_field P v \<Longrightarrow> \<exists>s. v = VStr s \<and> P s"
  by (simp add: str_field_def split: cfg_value.splits)

lemma built_client:
  assumes "type_values REGISTRY raw = Inr (vs, [])" "c = config_of (default_audience (fill_values (wrap_client_secret vs)))"
  shows "client_ok c"
proof -
  note at = built_typed_at [OF assms(1)]
  have mem: "REGISTRY ! 12 \<in> set REGISTRY" "REGISTRY ! 14 \<in> set REGISTRY" using registry_length by simp_all
  let ?s = "case map_of vs ''client_secret'' of Some v \<Rightarrow> v | None \<Rightarrow> default_value (REGISTRY ! 12)"
  have s: "?s = VNone \<or> str_field nonblank ?s"
    using registry_client(6) [OF field_ok_typed [OF filled_field [OF assms(1) mem(1)]]] by (simp add: registry_client)
  have secret: "cf_client_secret c = wrap_value ?s"
    using fill_lookup [OF mem(1)]
    by (simp add: assms(2) config_of_def audience_lookup registry_client wrap_lookup split: option.split)
       (simp add: registry_simps wrap_value_def)
  let ?a = "case map_of vs ''client_audience'' of Some v \<Rightarrow> v | None \<Rightarrow> default_value (REGISTRY ! 14)"
  have a: "?a = VNone \<or> str_field nonblank ?a"
    using registry_client(10) [OF field_ok_typed [OF filled_field [OF assms(1) mem(2)]]] by (simp add: registry_client)
  have audience: "client_audience c = (if ?a = VNone then cf_client_id c else ?a)"
    using fill_lookup [OF mem(2), of "wrap_client_secret vs"]
    by (simp add: assms(2) config_of_def audience_lookup registry_client wrap_lookup)
  have "case cf_client_secret c of VNone \<Rightarrow> True | VSecret s \<Rightarrow> nonblank s | _ \<Rightarrow> False"
    unfolding secret using s by (auto simp: wrap_value_def dest: str_field_wrap)
  moreover have "client_audience c = cf_client_id c \<or> str_field nonblank (client_audience c)"
  proof (cases "?a = VNone")
    case True
    then have "client_audience c = cf_client_id c" using audience by (simp only: if_True simp_thms)
    then show ?thesis ..
  next
    case False
    then have "client_audience c = ?a" "str_field nonblank ?a" using audience a by (simp_all only: if_False simp_thms)
    then show ?thesis by (simp only: simp_thms)
  qed
  moreover have "client_discovery_url c = VNone \<or> str_field absolute_url (client_discovery_url c)"
    "cf_client_id c = VNone \<or> str_field nonblank (cf_client_id c)" "str_field nonblank (client_scope c)"
    "str_field (\<lambda>s. s = [] \<or> absolute_url s) (client_redirect_uri c)"
    "str_field nonblank (client_post_login_redirect c)" "str_field nonblank (client_post_logout_redirect c)"
    "case client_excluded_paths c of VList xs \<Rightarrow> [] \<notin> set xs | _ \<Rightarrow> False"
    unfolding assms(2) config_of_def config.select_convs
    by (rule registry_client(2) registry_client(4) registry_client(8) registry_client(12) registry_client(14)
        registry_client(16) registry_client(18), rule at, simp_all add: registry_client)+
  ultimately show ?thesis unfolding client_ok_def by simp
qed

text \<open>With the client group requested its required keys are there.\<close>

definition client_group_complete :: "client_auth_method \<Rightarrow> config \<Rightarrow> bool" where
  "client_group_complete m c \<longleftrightarrow>
     str_field absolute_url (client_discovery_url c) \<and> str_field nonblank (cf_client_id c)
     \<and> (requires_secret m \<longrightarrow> (\<exists>s. cf_client_secret c = VSecret s))"

lemma required_attr_names:
  assumes "type_values REGISTRY raw = Inr (vs, is)" "req \<in> set CLIENT_REQUIRED"
  shows "req \<notin> set (dict_keys vs)"
proof -
  have "\<forall>req \<in> set CLIENT_REQUIRED. req \<notin> set (map ks_attr REGISTRY)" by code_simp
  then show ?thesis using type_values_keys [OF assms(1)] assms(2) by (metis image_set subsetD)
qed

lemma registry_logical:
  "ks_logical (REGISTRY ! 10) = ''client.discovery_url''" "ks_logical (REGISTRY ! 11) = ''client.id''"
  by (simp_all add: registry_simps)

lemma registry_typed_client:
  "typed_value (REGISTRY ! 10) v \<Longrightarrow> str_field absolute_url v" "typed_value (REGISTRY ! 11) v \<Longrightarrow> str_field nonblank v"
  by (auto simp: registry_simps split: cfg_value.splits)

lemma supplied_field_typed:
  "\<lbrakk>field_ok raw spec v; ks_logical spec \<in> set (dict_keys raw)\<rbrakk> \<Longrightarrow> typed_value spec v"
  by (auto simp: field_ok_def invalid_def map_of_eq_None_iff split: option.splits dest!: parse_value_cases)

lemma built_client_group:
  assumes "type_values REGISTRY raw = Inr (vs, [])" "group_issues (Some ''client'') m raw vs = []"
    "c = config_of (default_audience (fill_values (wrap_client_secret vs)))"
  shows "client_group_complete m c"
proof -
  have req: "req \<in> set (dict_keys raw)" if "req \<in> set CLIENT_REQUIRED" for req
    using assms(2) required_attr_names [OF assms(1) that] that
    by (auto simp: group_issues_def filter_empty_conv split: if_splits)
  have mem: "REGISTRY ! 10 \<in> set REGISTRY" "REGISTRY ! 11 \<in> set REGISTRY" "REGISTRY ! 12 \<in> set REGISTRY"
    using registry_length by simp_all
  have f: "typed_value (REGISTRY ! 10) (client_discovery_url c)" "typed_value (REGISTRY ! 11) (cf_client_id c)"
    using supplied_field_typed [OF built_field [OF assms(1) mem(1)]] supplied_field_typed [OF built_field [OF assms(1) mem(2)]]
      req by (simp_all add: registry_client registry_logical assms(3) config_of_def CLIENT_REQUIRED_def)
  have "\<exists>s. cf_client_secret c = VSecret s" if "requires_secret m"
  proof -
    have "value_or_none vs ''client_secret'' \<noteq> VNone" using assms(2) that by (auto simp: group_issues_def split: if_splits)
    then obtain v where v: "map_of vs ''client_secret'' = Some v" "v \<noteq> VNone"
      by (auto simp: value_or_none_def split: option.splits)
    then have "str_field nonblank v"
      using registry_client(6) [OF field_ok_typed [OF filled_field [OF assms(1) mem(3)]]] by (simp add: registry_client)
    then obtain s where "v = VStr s" by (blast dest: str_field_wrap)
    then show ?thesis
      using fill_lookup [OF mem(3), of "wrap_client_secret vs"] v
      by (simp add: assms(3) config_of_def audience_lookup registry_client wrap_lookup wrap_value_def)
  qed
  then show ?thesis using f registry_typed_client by (simp add: client_group_complete_def)
qed

section \<open>Precedence\<close>

text \<open>
  The contract of a source: for the keys it is asked for it supplies the strings of a fixed table, and
  nothing else. Both sources of the library keep it.
\<close>

locale lawful_source =
  fixes src :: config_source and table :: "string \<Rightarrow> string option"
  assumes supplies: "\<exists>d. src_resolve src keys = Inr (JDict d)
    \<and> (\<forall>k \<in> set keys. map_of d k = map_option JStr (table k))"
begin

lemma supplied_lookup:
  assumes "src_resolve src keys = Inr j" "k \<in> set keys"
  shows "supplied_get j k = Inr (map_option JStr (table k))"
  using supplies [of keys] assms by (auto simp: supplied_get_def)

end

interpretation mapping: lawful_source "mapping_source (map (\<lambda>(k, v). (k, JStr v)) vs) name" "map_of vs"
  for vs name
proof
  fix keys
  have "map_of (filter (\<lambda>(k, v). k \<in> set keys) (map (\<lambda>(k, v). (k, JStr v)) vs)) k = map_option JStr (map_of vs k)"
    if "k \<in> set keys" for k
    using that by (induction vs) auto
  then show "\<exists>d. src_resolve (mapping_source (map (\<lambda>(k, v). (k, JStr v)) vs) name) keys = Inr (JDict d)
      \<and> (\<forall>k \<in> set keys. map_of d k = map_option JStr (map_of vs k))"
    by (simp add: mapping_source_def)
qed

lemma env_resolve_lookup: "k \<in> set keys \<Longrightarrow> map_of (env_resolve environ prefix keys) k = map_option JStr (env_lookup environ prefix k)"
proof (induction keys)
  case (Cons x keys)
  have "k \<notin> set keys \<Longrightarrow> map_of (env_resolve environ prefix keys) k = None"
    by (induction keys) (auto split: option.split)
  then show ?case using Cons by (cases "k \<in> set keys") (auto split: option.split)
qed simp

interpretation environment: lawful_source "env_source environ prefix name" "env_lookup environ prefix"
  for environ prefix name
  by unfold_locales (auto simp: env_source_def env_resolve_lookup)

text \<open>The specification: overrides win, then the first table that has the key.\<close>

fun first_hit :: "(string \<Rightarrow> string option) list \<Rightarrow> string \<Rightarrow> string option" where
  "first_hit [] k = None"
| "first_hit (f # fs) k = (case f k of Some v \<Rightarrow> Some v | None \<Rightarrow> first_hit fs k)"

definition resolved_spec :: "json dict \<Rightarrow> (string \<Rightarrow> string option) list \<Rightarrow> string \<Rightarrow> json option" where
  "resolved_spec overrides tables k =
     (if k \<notin> set logical_keys then None
      else case map_of overrides k of Some j \<Rightarrow> Some j | None \<Rightarrow> map_option JStr (first_hit tables k))"

lemma take_supplied_lawful:
  assumes "\<forall>k \<in> set ks. supplied_get j k = Inr (map_option JStr (f k))" "distinct (rs_remaining st)"
  shows "\<exists>st'. take_supplied name j ks st = Inr st' \<and> rs_issues st' = rs_issues st
    \<and> rs_remaining st' = filter (\<lambda>k. k \<notin> set ks \<or> f k = None) (rs_remaining st)
    \<and> (\<forall>k. map_of (rs_raw st') k = (if k \<in> set ks \<and> f k \<noteq> None then map_option JStr (f k) else map_of (rs_raw st) k))"
  using assms
proof (induction ks arbitrary: st)
  case (Cons x ks)
  let ?st = "case f x of None \<Rightarrow> st | Some v \<Rightarrow> take_value name x (JStr v) st"
  have st: "distinct (rs_remaining ?st)" "rs_issues ?st = rs_issues st"
    "rs_remaining ?st = filter (\<lambda>k. k \<noteq> x \<or> f x = None) (rs_remaining st)"
    "map_of (rs_raw ?st) k = (if k = x \<and> f x \<noteq> None then map_option JStr (f x) else map_of (rs_raw st) k)" for k
    using Cons.prems(2) by (auto simp: take_value_def dict_get_set distinct_remove1_removeAll removeAll_filter_not_eq
        intro: filter_cong split: option.split)
  obtain st' where st': "take_supplied name j ks ?st = Inr st'" "rs_issues st' = rs_issues ?st"
    "rs_remaining st' = filter (\<lambda>k. k \<notin> set ks \<or> f k = None) (rs_remaining ?st)"
    "\<forall>k. map_of (rs_raw st') k = (if k \<in> set ks \<and> f k \<noteq> None then map_option JStr (f k) else map_of (rs_raw ?st) k)"
    using Cons.IH [OF _ st(1)] Cons.prems(1) by auto
  have "take_supplied name j (x # ks) st = Inr st'"
    using st'(1) Cons.prems(1) by (cases "f x") simp_all
  moreover have "rs_remaining st' = filter (\<lambda>k. k \<notin> set (x # ks) \<or> f k = None) (rs_remaining st)"
    unfolding st'(3) st(3) filter_filter by (rule filter_cong) auto
  ultimately show ?case using st'(2,4) st(2,4) by auto
qed simp

lemma resolve_chain_lawful:
  assumes "list_all2 lawful_source chain tables" "distinct (rs_remaining st)"
  shows "\<exists>st'. resolve_chain chain st = Inr st' \<and> rs_issues st' = rs_issues st
    \<and> (\<forall>k. map_of (rs_raw st') k =
          (if k \<in> set (rs_remaining st) \<and> first_hit tables k \<noteq> None then map_option JStr (first_hit tables k)
           else map_of (rs_raw st) k))"
  using assms
proof (induction chain tables arbitrary: st rule: list_all2_induct)
  case (Cons src chain f tables)
  show ?case
  proof (cases "rs_remaining st = []")
    case False
    obtain j where j: "src_resolve src (rs_remaining st) = Inr j"
      using lawful_source.supplies [OF Cons.hyps(1)] by blast
    obtain st1 where st1: "take_supplied (src_name src) j (rs_remaining st) st = Inr st1" "rs_issues st1 = rs_issues st"
      "rs_remaining st1 = filter (\<lambda>k. k \<notin> set (rs_remaining st) \<or> f k = None) (rs_remaining st)"
      "\<forall>k. map_of (rs_raw st1) k = (if k \<in> set (rs_remaining st) \<and> f k \<noteq> None then map_option JStr (f k) else map_of (rs_raw st) k)"
      using take_supplied_lawful [OF _ Cons.prems] lawful_source.supplied_lookup [OF Cons.hyps(1) j] by blast
    have "distinct (rs_remaining st1)" using Cons.prems st1(3) by simp
    from Cons.IH [OF this] show ?thesis using False j st1 by (fastforce split: option.split)
  qed simp
qed simp

lemma override_lookup: "map_of (override_raw ov) k = (if k \<in> set logical_keys then map_of ov k else None)"
proof -
  have "map_of (map (\<lambda>k. (k, the (map_of ov k))) (filter (\<lambda>k. k \<in> set (dict_keys ov)) xs)) k
      = (if k \<in> set xs then map_of ov k else None)" for xs
  proof (induction xs)
    case (Cons x xs)
    moreover have "x \<in> fst ` set ov \<longleftrightarrow> map_of ov x \<noteq> None" by (simp add: map_of_eq_None_iff)
    ultimately show ?case by (cases "map_of ov x") auto
  qed simp
  then show ?thesis by (simp add: override_raw_def)
qed

lemma override_keys: "k \<in> set (dict_keys (override_raw ov)) \<longleftrightarrow> k \<in> set logical_keys \<and> map_of ov k \<noteq> None"
  using override_lookup [of ov k] by (metis domIff dom_map_of_conv_image_fst list.set_map)

lemma logical_keys_distinct: "distinct logical_keys"
  by code_simp

text \<open>C32: the raw value of every key is the one of the highest precedence: an override if there is one, else
  the value of the first source that has the key, in the order the sources are given; the resolution
  of lawful sources reports no issue. It refines the specification \<open>resolved_spec\<close>.
\<close>

theorem config_precedence:
  assumes "list_all2 lawful_source chain tables"
  shows "\<exists>st. resolve_raw chain overrides = Inr st \<and> rs_issues st = [] \<and> map_of (rs_raw st) = resolved_spec overrides tables"
proof -
  let ?st = "\<lparr>rs_raw = override_raw overrides,
        rs_remaining = filter (\<lambda>k. k \<notin> set (dict_keys (override_raw overrides))) logical_keys, rs_issues = []\<rparr>"
  obtain st where st: "resolve_chain chain ?st = Inr st" "rs_issues st = []"
    "\<forall>k. map_of (rs_raw st) k =
          (if k \<in> set (rs_remaining ?st) \<and> first_hit tables k \<noteq> None then map_option JStr (first_hit tables k)
           else map_of (rs_raw ?st) k)"
    using resolve_chain_lawful [OF assms, of ?st] logical_keys_distinct by auto
  have "map_of (rs_raw st) k = resolved_spec overrides tables k" for k
    using spec [OF st(3), of k] override_keys [of k overrides]
    by (auto simp: resolved_spec_def override_lookup split: option.split)
  then show ?thesis using st(1,2) by (auto simp: resolve_raw_def)
qed

theorem config_precedence_witness:
  "\<exists>st. resolve_raw [mapping_source (map (\<lambda>(k, v). (k, JStr v)) [(''client.id'', ''app'')]) ''mapping'',
         env_source [(''OIDC_CLIENT_ID'', ''other''), (''HTTP_TIMEOUT'', ''5'')] ''OIDC_'' ''env''] [] = Inr st
     \<and> map_of (rs_raw st) ''client.id'' = Some (JStr ''app'') \<and> map_of (rs_raw st) ''http.timeout'' = Some (JStr ''5'')"
proof -
  let ?m = "mapping_source (map (\<lambda>(k, v). (k, JStr v)) [(''client.id'', ''app'')]) ''mapping''"
  let ?env = "[(''OIDC_CLIENT_ID'', ''other''), (''HTTP_TIMEOUT'', ''5'')]"
  have "list_all2 lawful_source [?m, env_source ?env ''OIDC_'' ''env''] [map_of [(''client.id'', ''app'')], env_lookup ?env ''OIDC_'']"
    unfolding list_all2_Cons using mapping.lawful_source_axioms environment.lawful_source_axioms by blast
  from config_precedence [OF this, of "[]"] show ?thesis
  proof (elim exE conjE)
    fix st
    assume st: "resolve_raw [?m, env_source ?env ''OIDC_'' ''env''] [] = Inr st"
      "map_of (rs_raw st) = resolved_spec [] [map_of [(''client.id'', ''app'')], env_lookup ?env ''OIDC_'']"
    have "resolved_spec [] [map_of [(''client.id'', ''app'')], env_lookup ?env ''OIDC_''] ''client.id'' = Some (JStr ''app'')"
      "resolved_spec [] [map_of [(''client.id'', ''app'')], env_lookup ?env ''OIDC_''] ''http.timeout'' = Some (JStr ''5'')"
      by code_simp+
    then show ?thesis using st by auto
  qed
qed

section \<open>Secrets do not show\<close>

text \<open>Two raw tables that differ only in the client secret.\<close>

definition differ_in_secret :: "string \<Rightarrow> string \<Rightarrow> json dict \<Rightarrow> json dict \<Rightarrow> bool" where
  "differ_in_secret s s' r r' \<longleftrightarrow>
     map_of r ''client.secret'' = Some (JStr s) \<and> map_of r' ''client.secret'' = Some (JStr s')
     \<and> (\<forall>k. k \<noteq> ''client.secret'' \<longrightarrow> map_of r k = map_of r' k)"

lemma differ_keys: "differ_in_secret s s' r r' \<Longrightarrow> set (dict_keys r) = set (dict_keys r')"
proof -
  assume "differ_in_secret s s' r r'"
  then have "map_of r k = None \<longleftrightarrow> map_of r' k = None" for k
    by (cases "k = ''client.secret''") (auto simp: differ_in_secret_def)
  then show ?thesis by (simp add: map_of_eq_None_iff set_eq_iff)
qed

text \<open>Every value but the secret's is typed alike; the secret's is kept as it is when it is not blank.\<close>

lemma registry_secret:
  "ks_logical spec = ''client.secret'' \<Longrightarrow> spec \<in> set REGISTRY \<Longrightarrow> ks_attr spec = ''client_secret'' \<and> ks_kind spec = KStr"
  "ks_attr spec = ''client_secret'' \<Longrightarrow> spec \<in> set REGISTRY \<Longrightarrow> ks_logical spec = ''client.secret''"
proof -
  have "\<forall>spec \<in> set REGISTRY. (ks_logical spec = ''client.secret'' \<longrightarrow> ks_attr spec = ''client_secret'' \<and> ks_kind spec = KStr)
      \<and> (ks_attr spec = ''client_secret'' \<longrightarrow> ks_logical spec = ''client.secret'')"
    by code_simp
  then show "ks_logical spec = ''client.secret'' \<Longrightarrow> spec \<in> set REGISTRY \<Longrightarrow> ks_attr spec = ''client_secret'' \<and> ks_kind spec = KStr"
    "ks_attr spec = ''client_secret'' \<Longrightarrow> spec \<in> set REGISTRY \<Longrightarrow> ks_logical spec = ''client.secret''"
    by blast+
qed

lemma type_value_differ:
  assumes "differ_in_secret s s' r r'" "nonblank s" "nonblank s'" "spec \<in> set REGISTRY"
  shows "if ks_logical spec = ''client.secret''
    then type_value spec r = Inr (Some (VStr s), []) \<and> type_value spec r' = Inr (Some (VStr s'), [])
    else type_value spec r = type_value spec r'"
  using assms registry_secret(1) [OF _ assms(4)]
  by (auto simp: type_value_def differ_in_secret_def parse_value_def)

lemma type_values_differ:
  assumes "differ_in_secret s s' r r'" "nonblank s" "nonblank s'" "set specs \<subseteq> set REGISTRY"
  shows "(\<exists>e. type_values specs r = Inl e \<and> type_values specs r' = Inl e) \<or>
    (\<exists>vs vs' is. type_values specs r = Inr (vs, is) \<and> type_values specs r' = Inr (vs', is))"
  using assms(4)
proof (induction specs)
  case (Cons spec specs)
  have same: "(\<exists>e. type_value spec r = Inl e \<and> type_value spec r' = Inl e) \<or>
      (\<exists>v v' is. type_value spec r = Inr (v, is) \<and> type_value spec r' = Inr (v', is))"
    using type_value_differ [OF assms(1-3), of spec] Cons.prems
    by (cases "ks_logical spec = ''client.secret''"; cases "type_value spec r'") auto
  then show ?case using Cons.IH Cons.prems by (auto simp: bnd_def)
qed simp

lemma typed_lookup_differ:
  assumes "differ_in_secret s s' r r'" "nonblank s" "nonblank s'"
    "type_values REGISTRY r = Inr (vs, is)" "type_values REGISTRY r' = Inr (vs', is)"
  shows "map_of vs ''client_secret'' = Some (VStr s)" "map_of vs' ''client_secret'' = Some (VStr s')"
    "k \<noteq> ''client_secret'' \<Longrightarrow> map_of vs k = map_of vs' k"
proof -
  have mem: "REGISTRY ! 12 \<in> set REGISTRY" using registry_length by simp
  have at: "ks_attr (REGISTRY ! 12) = ''client_secret''" "ks_logical (REGISTRY ! 12) = ''client.secret''"
    using registry_client(5) registry_secret(2) mem by blast+
  note l = type_values_lookup_gen [OF assms(4) registry_attrs] type_values_lookup_gen [OF assms(5) registry_attrs]
  show "map_of vs ''client_secret'' = Some (VStr s)" "map_of vs' ''client_secret'' = Some (VStr s')"
    using type_value_differ [OF assms(1-3) mem] l(1) [OF mem] l(2) [OF mem] at by auto
  show "map_of vs k = map_of vs' k" if k: "k \<noteq> ''client_secret''"
  proof (cases "k \<in> ks_attr ` set REGISTRY")
    case True
    then obtain spec where spec: "spec \<in> set REGISTRY" "k = ks_attr spec" by blast
    then have "ks_logical spec \<noteq> ''client.secret''" using registry_secret(1) k by blast
    then show ?thesis
      using type_value_differ [OF assms(1-3) spec(1)] l(1) [OF spec(1)] l(2) [OF spec(1)] spec(2) by auto
  next
    case False
    then have "k \<notin> set (dict_keys vs)" "k \<notin> set (dict_keys vs')"
      using type_values_keys [OF assms(4)] type_values_keys [OF assms(5)] by blast+
    then show ?thesis by (metis list.set_map map_of_eq_None_iff)
  qed
qed


lemma group_issues_differ:
  assumes "differ_in_secret s s' r r'" "nonblank s" "nonblank s'"
    "type_values REGISTRY r = Inr (vs, is)" "type_values REGISTRY r' = Inr (vs', is)"
  shows "group_issues grp m r vs = group_issues grp m r' vs'"
proof -
  have "filter (\<lambda>req. req \<notin> set (dict_keys vs) \<and> req \<notin> set (dict_keys r)) CLIENT_REQUIRED =
      filter (\<lambda>req. req \<notin> set (dict_keys vs') \<and> req \<notin> set (dict_keys r')) CLIENT_REQUIRED"
    using required_attr_names [OF assms(4)] required_attr_names [OF assms(5)] differ_keys [OF assms(1)]
    by (intro filter_cong) auto
  moreover have "client_present r = client_present r'" by (simp only: client_present_def differ_keys [OF assms(1)])
  moreover have "value_or_none vs ''client_secret'' \<noteq> VNone" "value_or_none vs' ''client_secret'' \<noteq> VNone"
    using typed_lookup_differ(1,2) [OF assms] by (simp_all add: value_or_none_def)
  ultimately show ?thesis by (simp only: group_issues_def differ_keys [OF assms(1)])
qed

lemma final_lookup_differ:
  assumes "differ_in_secret s s' r r'" "nonblank s" "nonblank s'"
    "type_values REGISTRY r = Inr (vs, is)" "type_values REGISTRY r' = Inr (vs', is)"
  defines "final \<equiv> \<lambda>vs. default_audience (fill_values (wrap_client_secret vs))"
  shows "value_or_none (final vs) ''client_secret'' = VSecret s" "value_or_none (final vs') ''client_secret'' = VSecret s'"
    "k \<noteq> ''client_secret'' \<Longrightarrow> value_or_none (final vs) k = value_or_none (final vs') k"
proof -
  note d = typed_lookup_differ [OF assms(1-5)]
  have f: "map_of (fill_values (wrap_client_secret xs)) k =
      (case map_of (wrap_client_secret xs) k of Some v \<Rightarrow> Some v
       | None \<Rightarrow> map_option default_value (find (\<lambda>spec. ks_attr spec = k) REGISTRY))" for xs k
    unfolding fill_values_def by (rule fill_lookup_gen)
  show "value_or_none (final vs) ''client_secret'' = VSecret s" "value_or_none (final vs') ''client_secret'' = VSecret s'"
    unfolding final_def audience_lookup by (simp_all add: value_or_none_def f wrap_lookup d wrap_value_def)
  have "value_or_none (fill_values (wrap_client_secret vs)) j = value_or_none (fill_values (wrap_client_secret vs')) j"
    if "j \<noteq> ''client_secret''" for j
    using d(3) [OF that] that by (simp add: value_or_none_def f wrap_lookup)
  note same = this
  show "value_or_none (final vs) k = value_or_none (final vs') k" if "k \<noteq> ''client_secret''"
    using same [OF that] same [of "''client_id''"] unfolding final_def audience_lookup
    by (cases "k = ''client_audience''"; simp)
qed

definition differ_result :: "string \<Rightarrow> string \<Rightarrow> build_error + config \<Rightarrow> build_error + config \<Rightarrow> bool" where
  "differ_result s s' x y \<longleftrightarrow>
     (case (x, y) of
        (Inl e, Inl e') \<Rightarrow> e = e'
      | (Inr c, Inr c') \<Rightarrow> cf_client_secret c = VSecret s \<and> c' = c\<lparr>cf_client_secret := VSecret s'\<rparr>
      | _ \<Rightarrow> False)"

lemma build_from_differ:
  assumes "differ_in_secret s s' r r'" "nonblank s" "nonblank s'"
  shows "differ_result s s' (build_from grp m r issues) (build_from grp m r' issues)"
  using type_values_differ [OF assms order.refl]
proof (elim disjE exE conjE)
  fix vs vs' "is"
  assume t: "type_values REGISTRY r = Inr (vs, is)" "type_values REGISTRY r' = Inr (vs', is)"
  note l = final_lookup_differ [OF assms t]
  have "config_of (default_audience (fill_values (wrap_client_secret vs'))) =
      (config_of (default_audience (fill_values (wrap_client_secret vs))))\<lparr>cf_client_secret := VSecret s'\<rparr>"
    by (simp add: config_of_def l(2)) (simp add: l(3))
  moreover have "cf_client_secret (config_of (default_audience (fill_values (wrap_client_secret vs)))) = VSecret s"
    by (simp add: config_of_def l(1))
  ultimately show ?thesis
    using t group_issues_differ [OF assms t, of grp m]
    by (simp add: differ_result_def build_from_def apply_group_rules_def)
qed (simp add: differ_result_def build_from_def)

definition differ_resolution :: "string \<Rightarrow> string \<Rightarrow> resolution \<Rightarrow> resolution \<Rightarrow> bool" where
  "differ_resolution s s' st st' \<longleftrightarrow>
     differ_in_secret s s' (rs_raw st) (rs_raw st') \<and> rs_remaining st = rs_remaining st' \<and> rs_issues st = rs_issues st'
     \<and> ''client.secret'' \<notin> set (rs_remaining st)"

lemma take_supplied_differ:
  assumes "differ_resolution s s' st st'" "''client.secret'' \<notin> set ks"
  shows "(\<exists>e. take_supplied name j ks st = Inl e \<and> take_supplied name j ks st' = Inl e) \<or>
    (\<exists>x x'. take_supplied name j ks st = Inr x \<and> take_supplied name j ks st' = Inr x' \<and> differ_resolution s s' x x')"
  using assms
proof (induction ks arbitrary: st st')
  case (Cons k ks)
  have "differ_resolution s s' (take_value name k v st) (take_value name k v st')" for v
    using Cons.prems
    by (auto simp: differ_resolution_def take_value_def differ_in_secret_def dict_get_set dest: notin_set_remove1)
  then show ?case
    using Cons by (cases "supplied_get j k") (auto split: option.split)
qed simp

lemma resolve_chain_differ:
  assumes "differ_resolution s s' st st'"
  shows "(\<exists>e. resolve_chain chain st = Inl e \<and> resolve_chain chain st' = Inl e) \<or>
    (\<exists>x x'. resolve_chain chain st = Inr x \<and> resolve_chain chain st' = Inr x' \<and> differ_resolution s s' x x')"
  using assms
proof (induction chain arbitrary: st st')
  case (Cons src chain)
  have rem: "rs_remaining st' = rs_remaining st" "''client.secret'' \<notin> set (rs_remaining st)" "rs_issues st' = rs_issues st"
    using Cons.prems unfolding differ_resolution_def by metis+
  show ?case
  proof (cases "src_resolve src (rs_remaining st)")
    case (Inl e)
    have "differ_resolution s s' (st\<lparr>rs_issues := is\<rparr>) (st'\<lparr>rs_issues := is\<rparr>)" for "is"
      using Cons.prems by (auto simp: differ_resolution_def)
    then show ?thesis using Inl rem Cons.prems Cons.IH by auto
  next
    case (Inr j)
    from take_supplied_differ [OF Cons.prems rem(2), of "src_name src" j] show ?thesis
    proof (elim disjE exE conjE)
      fix x x'
      assume "take_supplied (src_name src) j (rs_remaining st) st = Inr x"
        "take_supplied (src_name src) j (rs_remaining st) st' = Inr x'" "differ_resolution s s' x x'"
      then show ?thesis using Cons.IH [of x x'] Cons.prems rem Inr by (cases "rs_remaining st = []") simp_all
    qed (use Inr rem Cons.prems in \<open>cases "rs_remaining st = []"; simp\<close>)
  qed
qed simp

lemma override_differ:
  "differ_in_secret s s' (override_raw (dict_set ''client.secret'' (JStr s) ov)) (override_raw (dict_set ''client.secret'' (JStr s') ov))"
proof -
  have "''client.secret'' \<in> set logical_keys" by code_simp
  then show ?thesis by (simp add: differ_in_secret_def override_lookup dict_get_set)
qed

lemma secret_repr: "cf_client_secret c = VSecret s \<Longrightarrow> config_repr fr (c\<lparr>cf_client_secret := VSecret s'\<rparr>) = config_repr fr c"
  by (simp add: config_repr_def config_fields_def)

text \<open>Nothing shows the client secret. Two constructions that differ only in the value of the secret
  given in the overrides fail with the same issues, or succeed with configurations that are equal but
  for the secret itself and have the same representation, whatever the sources supply.
\<close>

theorem secret_not_shown:
  assumes "nonblank s" "nonblank s'"
  shows "case (build environ sources (dict_set ''client.secret'' (JStr s) overrides) env grp m,
               build environ sources (dict_set ''client.secret'' (JStr s') overrides) env grp m) of
      (Inl e, Inl e') \<Rightarrow> e = e'
    | (Inr c, Inr c') \<Rightarrow> config_repr float_repr c = config_repr float_repr c' \<and> expose (cf_client_secret c) = Some s
        \<and> c' = c\<lparr>cf_client_secret := VSecret s'\<rparr>
    | _ \<Rightarrow> False"
proof -
  let ?chain = "sources @ (if env then [env_source environ ''OIDC_'' ''env''] else [])"
  let ?ov = "\<lambda>s. dict_set ''client.secret'' (JStr s) overrides"
  let ?st = "\<lambda>s. \<lparr>rs_raw = override_raw (?ov s),
      rs_remaining = filter (\<lambda>k. k \<notin> set (dict_keys (override_raw (?ov s)))) logical_keys, rs_issues = []\<rparr>"
  have "''client.secret'' \<in> set (dict_keys (override_raw (?ov s)))"
    unfolding override_keys by (simp add: dict_get_set) code_simp
  moreover note d = override_differ [of s s' overrides]
  moreover have "filter (\<lambda>k. k \<notin> set (dict_keys (override_raw (?ov s)))) logical_keys
      = filter (\<lambda>k. k \<notin> set (dict_keys (override_raw (?ov s')))) logical_keys"
    by (simp only: differ_keys [OF d])
  ultimately have "differ_resolution s s' (?st s) (?st s')"
    unfolding differ_resolution_def resolution.select_convs set_filter by blast
  from resolve_chain_differ [OF this, of ?chain]
  have "differ_result s s' (build environ sources (?ov s) env grp m) (build environ sources (?ov s') env grp m)"
  proof (elim disjE exE conjE)
    fix x x'
    assume r: "resolve_chain ?chain (?st s) = Inr x" "resolve_chain ?chain (?st s') = Inr x'" "differ_resolution s s' x x'"
    then have "rs_issues x' = rs_issues x" "differ_in_secret s s' (rs_raw x) (rs_raw x')"
      unfolding differ_resolution_def by metis+
    then show ?thesis
      using build_from_differ [OF _ assms, of "rs_raw x" "rs_raw x'" grp m "rs_issues x"] r(1,2)
      by (simp add: build_def resolve_raw_def)
  qed (simp add: build_def resolve_raw_def differ_result_def)
  then show ?thesis
    by (auto simp: differ_result_def expose_def secret_repr split: sum.splits)
qed

definition example_overrides :: "json dict" where
  "example_overrides =
     [(''client.discovery_url'', JStr ''https://op''), (''client.id'', JStr ''app''), (''jwks.max_keys'', JStr ''25'')]"

theorem secret_not_shown_witness:
  "case build [] [] (dict_set ''client.secret'' (JStr ''s3cret'') example_overrides) False (Some ''client'') ClientSecretBasic of
     Inl e \<Rightarrow> False
   | Inr c \<Rightarrow> expose (cf_client_secret c) = Some ''s3cret''
       \<and> config_repr (\<lambda>_. []) c = config_repr (\<lambda>_. []) (c\<lparr>cf_client_secret := VSecret ''other''\<rparr>)"
proof -
  let ?b = "\<lambda>s. build [] [] (dict_set ''client.secret'' (JStr s) example_overrides) False (Some ''client'') ClientSecretBasic"
  have n: "nonblank ''s3cret''" "nonblank ''other''" by code_simp+
  have "is_ok (?b ''s3cret'')" by code_simp
  then show ?thesis
    using secret_not_shown [OF n, where environ = "[]" and sources = "[]" and overrides = example_overrides and env = False
        and grp = "Some ''client''" and m = ClientSecretBasic and float_repr = "\<lambda>_. []"]
    by (auto simp: is_ok_def split: sum.splits)
qed

section \<open>Properties\<close>

text \<open>C31: a configuration that \<open>build\<close> returns is well formed: every number is of its type and within the
  bounds of the contract, every URL is absolute, no string is blank, the secret is wrapped, and when
  the client group is requested its discovery URL, its identifier and, if the authentication method
  needs it, its secret are there, whatever the overrides, the sources and the environment supply.
\<close>

theorem config_well_formed:
  assumes "build environ sources overrides env grp m = Inr c"
  shows "transport_ok c \<and> cache_limits_ok c \<and> client_ok c \<and> (grp = Some ''client'' \<longrightarrow> client_group_complete m c)"
proof -
  from assms obtain st :: resolution where "build_from grp m (rs_raw st) (rs_issues st) = Inr c"
    unfolding build_def by (cases "resolve_raw (sources @ (if env then [env_source environ ''OIDC_'' ''env''] else [])) overrides") simp_all
  then show ?thesis
  proof (rule build_from_ok)
    fix vs
    assume v: "type_values REGISTRY (rs_raw st) = Inr (vs, [])" "group_issues grp m (rs_raw st) vs = []"
      and c: "c = config_of (default_audience (fill_values (wrap_client_secret vs)))"
    show ?thesis
      using built_numeric [OF v(1) c] built_client [OF v(1) c] built_client_group [OF v(1) _ c] v(2) by auto
  qed
qed

theorem config_well_formed_witness:
  "case build [] [] example_overrides False (Some ''client'') AuthNone of
     Inl e \<Rightarrow> False | Inr c \<Rightarrow> cache_limits_ok c \<and> client_group_complete AuthNone c"
proof -
  let ?b = "build [] [] example_overrides False (Some ''client'') AuthNone"
  have "is_ok ?b" by code_simp
  then obtain c where c: "?b = Inr c" by (auto simp: is_ok_def split: sum.splits)
  then show ?thesis using config_well_formed [OF c] by simp
qed

text \<open>
  Two inputs whose exception leaves \<open>build\<close> instead of becoming an issue: a URL that \<open>urlparse\<close> rejects,
  and a source that does not return a mapping.
\<close>

theorem malformed_url_escapes:
  "build [] [] [(''client.discovery_url'', JStr ''https://['')] False None AuthNone = Inl (Escaped url_value_error)"
  by code_simp

theorem non_mapping_source_escapes:
  "build [] [\<lparr>src_name = ''vault'', src_resolve = (\<lambda>_. Inr JNull)\<rparr>] [] False None AuthNone =
     Inl (Escaped (raise_cls TypeError (''argument of type '' @ sq ''NoneType'' @ '' is not iterable'')))"
proof -
  obtain ks where ks: "logical_keys = ''http.timeout'' # ks" by (simp add: logical_keys_def REGISTRY_def key_spec_def)
  show ?thesis by (simp add: build_def resolve_raw_def override_raw_def supplied_get_def ks)
qed

end
