(* ===== verification/Conformance_Rp.thy ===== *)
theory Conformance_Rp
  imports Client_Flows Registration Jarm Token_Profiles Fapi_Jar Identity
begin

text \<open>
  \<open>conformance/app.py\<close>, the relying party the certification suite drives: its state and the routes that begin a flow.
  Each request starts with what the earlier ones left in the module's dictionaries. The operations of the library are those
  of the other theories. Outside answers (random tokens, discovery fetches, signing, JARM fetches) come by the number of
  the draw; the keys and the certificate made at start-up, the transport and the base URLs are parameters.
  Logging is left out, except for where a test's records go.
\<close>

section \<open>Pages\<close>

definition html_escape_char :: "char \<Rightarrow> string" where
  "html_escape_char c =
     (if c = CHR ''&'' then ''&amp;'' else if c = CHR ''<'' then ''&lt;'' else if c = CHR ''>'' then ''&gt;''
      else if c = CHR 0x22 then ''&quot;'' else if c = CHR 0x27 then ''&#x27;'' else [c])"

text \<open>\<open>html.escape\<close> with its default \<open>quote=True\<close>.\<close>

definition html_escape :: "string \<Rightarrow> string" where
  "html_escape s = concat (map html_escape_char s)"

definition page :: "string \<Rightarrow> string \<Rightarrow> string" where
  "page title body = ''<h1>'' @ title @ ''</h1><p>'' @ body @ ''</p>''"

section \<open>Where a test's log records go\<close>

definition path_char :: "char \<Rightarrow> bool" where
  "path_char c = (is_ascii_alpha c \<or> is_ascii_digit c \<or> c = CHR ''.'' \<or> c = CHR ''_'' \<or> c = CHR ''-'')"

definition sanitize_path_component :: "string \<Rightarrow> string \<Rightarrow> string" where
  "sanitize_path_component value fallback =
     (let safe = map (\<lambda>c. if path_char c then c else CHR ''_'') value in
      if safe = [] \<or> list_all (\<lambda>c. c = CHR ''.'') safe then fallback else safe)"

text \<open>
  \<open>Path.resolve\<close> of a path without symbolic links, as its list of segments, and the segments of a relative path.
\<close>

fun resolve_onto :: "string list \<Rightarrow> string list \<Rightarrow> string list" where
  "resolve_onto done [] = done"
| "resolve_onto done (seg # segs) =
     resolve_onto (if seg \<in> {[], ''.''} then done else if seg = ''..'' then butlast done else done @ [seg]) segs"

definition rp_log_path :: "string list \<Rightarrow> string \<Rightarrow> string \<Rightarrow> string list res" where
  "rp_log_path log_base profile test_name =
     (let base = resolve_onto [] log_base;
          safe_profile = sanitize_path_component profile ''default'';
          safe_test = sanitize_path_component test_name ''unknown'';
          candidate = resolve_onto base (py_split (CHR ''/'') safe_profile @ py_split (CHR ''/'') (safe_test @ ''.log'')) in
      if take (length base) candidate = base then Inr candidate
      else Inl (raise_cls ValueError (''refusing unsafe RP log path (profile='' @ py_repr_str profile @ '', test=''
             @ py_repr_str test_name @ '')'')))"

section \<open>The state\<close>

record auth_session =
  as_issuer :: string
  as_state :: string
  as_nonce :: string
  as_code_verifier :: "string option"
  as_client_id :: string
  as_client_secret :: json
  as_redirect_uri :: string
  as_skip_userinfo :: bool
  as_id_token :: string
  as_end_session_endpoint :: json
  as_test_name :: string
  as_profile :: string
  as_fapi2 :: bool
  as_dpop_key :: "dpop_key option"
  as_mtls :: bool
  as_jarm :: bool
  as_disco_address :: string
  as_result :: "json dict"

text \<open>The defaults of the dataclass.\<close>

definition auth_session_of :: "string \<Rightarrow> string \<Rightarrow> string \<Rightarrow> auth_session" where
  "auth_session_of issuer st nonce =
     \<lparr>as_issuer = issuer, as_state = st, as_nonce = nonce, as_code_verifier = None, as_client_id = [],
      as_client_secret = JStr [], as_redirect_uri = [], as_skip_userinfo = False, as_id_token = [],
      as_end_session_endpoint = JStr [], as_test_name = [], as_profile = [], as_fapi2 = False, as_dpop_key = None,
      as_mtls = False, as_jarm = False, as_disco_address = [], as_result = []\<rparr>"

record flow_context =
  fc_issuer :: string
  fc_client_id :: string
  fc_disco_address :: string

record logout_context =
  lc_end_session_endpoint :: json
  lc_id_token :: string
  lc_client_id :: string

record harness =
  hs_client :: "managed_client option"
  hs_sessions :: "auth_session dict"
  hs_results :: "auth_session dict"
  hs_request_objects :: "string dict"
  hs_flow :: "flow_context option"
  hs_logout :: "logout_context option"
  hs_logout_state :: "string option"
  hs_registered :: "(json \<times> json) option"
  hs_active :: "(string \<times> string) option"
  hs_net :: "prepared net_state"
  hs_json_net :: "json_prepared net_state"
  hs_caches :: tv_state
  hs_draws :: nat

record 'pk harness_world =
  cw_base_url :: string
  cw_internal_base_url :: string
  cw_client_built :: "unit res"
  cw_disco :: "nat \<Rightarrow> http_world"
  cw_jarm_jwks :: "nat \<Rightarrow> http_world"
  cw_net :: "prepared net_world"
  cw_json_net :: "json_prepared net_world"
  cw_signing :: "nat \<Rightarrow> signing_env"
  cw_token_urlsafe :: "nat \<Rightarrow> string"
  cw_pkce_bytes :: "nat \<Rightarrow> nat \<Rightarrow> byte_list"
  cw_dpop_keys :: "nat \<Rightarrow> string option \<Rightarrow> string \<times> dpop_public"
  cw_validation :: "'pk tv_env"
  cw_float_text :: "pyfloat \<Rightarrow> string"
  cw_rp_private_key :: string
  cw_rp_jwks :: json
  cw_rp_kid :: string
  cw_fapi2_key :: dpop_key
  cw_mtls_certificate :: string
  cw_mtls_private_key :: string
  cw_mtls_jwks :: json

datatype reply =
    Html int string
  | Json_Reply int json
  | Redirect_To string
  | Body int string "string option"

text \<open>A handler stops with an answer or with an exception, which the framework turns into status 500.\<close>

datatype halt = Answer reply | Raised exn

type_synonym 'a hm = "(harness, halt, 'a) stm"

definition answer :: "reply \<Rightarrow> 'a hm" where
  "answer r = slift (Inl (Answer r))"

definition lib :: "'a res \<Rightarrow> 'a hm" where
  "lib r = slift (case r of Inl e \<Rightarrow> Inl (Raised e) | Inr x \<Rightarrow> Inr x)"

definition on_http :: "(prepared net_state, exn, 'a) stm \<Rightarrow> 'a hm" where
  "on_http m s = (case m (hs_net s) of (r, n) \<Rightarrow> lib r (s\<lparr>hs_net := n\<rparr>))"

definition on_json_http :: "(json_prepared net_state, exn, 'a) stm \<Rightarrow> 'a hm" where
  "on_json_http m s = (case m (hs_json_net s) of (r, n) \<Rightarrow> lib r (s\<lparr>hs_json_net := n\<rparr>))"

definition on_validation :: "'a tvm \<Rightarrow> 'a hm" where
  "on_validation m s = (case m (hs_caches s) of (r, c) \<Rightarrow> lib r (s\<lparr>hs_caches := c\<rparr>))"

text \<open>\<open>except\<close> clauses: what to do for the exceptions they name.\<close>

definition except_for :: "(exn \<Rightarrow> 'a hm option) \<Rightarrow> 'a hm \<Rightarrow> 'a hm" where
  "except_for clauses m =
     scatch m (\<lambda>x. case x of Raised e \<Rightarrow> (case clauses e of Some h \<Rightarrow> h | None \<Rightarrow> slift (Inl x)) | Answer _ \<Rightarrow> slift (Inl x))"

definition draw_number :: "nat hm" where
  "draw_number = sbnd (sget hs_draws) (\<lambda>n. sbnd (supd (\<lambda>s. s\<lparr>hs_draws := Suc n\<rparr>)) (\<lambda>_. sret n))"

definition token_urlsafe :: "'pk harness_world \<Rightarrow> string hm" where
  "token_urlsafe w = sbnd draw_number (\<lambda>n. sret (cw_token_urlsafe w n))"

text \<open>The text an f-string or \<open>str\<close> shows for a value; a string value that a text parameter needs.\<close>

definition shown :: "'pk harness_world \<Rightarrow> json \<Rightarrow> string" where
  "shown w j = str_value (cw_float_text w) j"

definition text_arg :: "string \<Rightarrow> json \<Rightarrow> string hm" where
  "text_arg name j = (case j of JStr u \<Rightarrow> sret u | _ \<Rightarrow> lib (Inl (raise_cls TypeError (name @ '' is not a string''))))"

definition set_active_test :: "string option \<Rightarrow> string option \<Rightarrow> unit hm" where
  "set_active_test profile test_name =
     supd (\<lambda>s. s\<lparr>hs_active := (if opt_truthy test_name then Some (opt_or profile [], the test_name) else None)\<rparr>)"

definition get_harness_client :: "'pk harness_world \<Rightarrow> managed_client hm" where
  "get_harness_client w =
     sbnd (sget hs_client) (\<lambda>c. case c of
       Some c \<Rightarrow> sret c
     | None \<Rightarrow> sbnd (lib (managed_init ''HTTPClient'' False None None (cw_client_built w))) (\<lambda>c.
                sbnd (supd (\<lambda>s. s\<lparr>hs_client := Some c\<rparr>)) (\<lambda>_. sret c)))"

section \<open>Results\<close>

definition put_result :: "string \<Rightarrow> auth_session \<Rightarrow> unit hm" where
  "put_result test_id sess = supd (\<lambda>s. s\<lparr>hs_results := dict_set test_id sess (hs_results s)\<rparr>)"

definition set_result :: "string \<Rightarrow> json \<Rightarrow> auth_session \<Rightarrow> auth_session" where
  "set_result k v sess = sess\<lparr>as_result := dict_set k v (as_result sess)\<rparr>"

definition store_test_result :: "auth_session \<Rightarrow> unit hm" where
  "store_test_result sess =
     (case jget (as_result sess) ''test_id'' of
        JStr test_id \<Rightarrow> if test_id \<noteq> [] then put_result test_id sess else sret ()
      | _ \<Rightarrow> sret ())"

text \<open>The result of a test whose flow could not begin.\<close>

definition record_failure :: "string \<Rightarrow> string \<Rightarrow> string \<Rightarrow> unit hm" where
  "record_failure test_id issuer err =
     (if test_id = [] then sret ()
      else put_result test_id ((auth_session_of issuer [] [])
             \<lparr>as_result := [(''test_id'', JStr test_id), (''status'', JStr ''error''), (''error'', JStr err)]\<rparr>))"

definition json_error :: "string \<Rightarrow> json \<Rightarrow> json" where
  "json_error err detail = JDict [(''error'', JStr err), (''detail'', detail)]"

definition refuse :: "string \<Rightarrow> string \<Rightarrow> int \<Rightarrow> string \<Rightarrow> json \<Rightarrow> string \<Rightarrow> 'a hm" where
  "refuse test_id issuer code err detail note =
     sbnd (record_failure test_id issuer note) (\<lambda>_. answer (Json_Reply code (json_error err detail)))"

section \<open>Discovery\<close>

definition harness_policy :: discovery_policy where
  "harness_policy = default_policy\<lparr>require_https := False, validate_issuer_flag := True\<rparr>"

definition fetch_document :: "'pk harness_world \<Rightarrow> string \<Rightarrow> disco_response hm" where
  "fetch_document w address =
     sbnd draw_number (\<lambda>n. sret (get_discovery_document (cw_disco w n) address (Some harness_policy)))"

text \<open>The steps \<open>/discover\<close>, \<open>/register\<close> and \<open>/authorize\<close> share: the URL and the document.\<close>

definition begin_discovery :: "'pk harness_world \<Rightarrow> string \<Rightarrow> string \<Rightarrow> (discovery_endpoint \<times> disco_response) hm" where
  "begin_discovery w test_id issuer =
     sbnd (except_for (\<lambda>e. if exn_isinstance e ConfigurationException
                           then Some (refuse test_id issuer 400 ''invalid_issuer'' (JStr ''Invalid issuer URL'')
                                  (''invalid_issuer: '' @ exn_message e)) else None)
             (lib (parse_discovery_url issuer))) (\<lambda>ep.
     sbnd (fetch_document w (ep_url ep)) (\<lambda>d.
       if \<not> d_is_successful d
       then refuse test_id issuer 502 ''discovery_failed'' (jopt (d_error d)) (''discovery_failed: '' @ fmt_opt (d_error d))
       else sret (ep, d)))"

definition harness_discover :: "'pk harness_world \<Rightarrow> string \<Rightarrow> string \<Rightarrow> string \<Rightarrow> string \<Rightarrow> reply hm" where
  "harness_discover w issuer test_id test_name profile =
     sbnd (set_active_test (Some profile) (Some test_name)) (\<lambda>_.
     sbnd (get_harness_client w) (\<lambda>_.
     sbnd (begin_discovery w test_id issuer) (\<lambda>(_, d).
     sbnd (lib (disco_get d ''issuer'')) (\<lambda>iss.
     sbnd (if test_id = [] then sret ()
           else put_result test_id ((auth_session_of issuer [] [])
                  \<lparr>as_result := [(''test_id'', JStr test_id), (''status'', JStr ''success''), (''issuer'', iss)]\<rparr>)) (\<lambda>_.
       sret (Json_Reply 200 (JDict [(''status'', JStr ''ok''), (''issuer'', iss)])))))))"

section \<open>Registration\<close>

definition json_or_empty :: "json \<Rightarrow> json" where
  "json_or_empty j = (if truthy j then j else JStr [])"

definition harness_registration :: "'pk harness_world \<Rightarrow> string \<Rightarrow> registration_request" where
  "harness_registration w address =
     \<lparr>cm_address = address, cm_redirect_uris = [cw_base_url w @ ''/callback''], cm_response_types = Some [''code''],
      cm_grant_types = Some [''authorization_code''], cm_application_type = None, cm_contacts = None,
      cm_client_name = Some ''py-identity-model-dynamic-rp'', cm_logo_uri = None, cm_client_uri = None, cm_policy_uri = None,
      cm_tos_uri = None, cm_token_endpoint_auth_method = Some ''client_secret_basic'', cm_scope = None, cm_jwks_uri = None,
      cm_extra_metadata = Some [(''jwks'', cw_rp_jwks w), (''request_object_signing_alg'', JStr ''RS256'')],
      rg_initial_access_token = None\<rparr>"

definition harness_register :: "'pk harness_world \<Rightarrow> string \<Rightarrow> string \<Rightarrow> string \<Rightarrow> reply hm" where
  "harness_register w issuer test_name profile =
     sbnd (set_active_test (Some profile) (Some test_name)) (\<lambda>_.
     sbnd (get_harness_client w) (\<lambda>client.
     sbnd (begin_discovery w [] issuer) (\<lambda>(_, d).
     sbnd (lib (disco_get d ''registration_endpoint'')) (\<lambda>endpoint.
       if \<not> truthy endpoint
       then answer (Json_Reply 400 (json_error ''registration_not_supported'' (JStr ''OP discovery has no registration_endpoint'')))
       else sbnd (text_arg ''registration_endpoint'' endpoint) (\<lambda>address.
         sbnd (on_json_http (register_client (cw_json_net w) (Some client) (harness_registration w address))) (\<lambda>response.
           if \<not> rs_is_successful response
           then answer (Json_Reply 400 (json_error ''registration_failed'' (rs_error response)))
           else sbnd (supd (\<lambda>s. s\<lparr>hs_registered := Some (json_or_empty (rn_client_id response),
                                                       json_or_empty (rn_client_secret response))\<rparr>)) (\<lambda>_.
             sret (Json_Reply 200 (JDict [(''status'', JStr ''ok''), (''client_id'', rn_client_id response)])))))))))"

definition request_object_reply :: "string \<Rightarrow> reply hm" where
  "request_object_reply obj_id =
     sbnd (sget hs_request_objects) (\<lambda>objs.
       sret (case map_of objs obj_id of
               Some jwt \<Rightarrow> if jwt = [] then Body 404 ''not found'' None else Body 200 jwt (Some ''application/oauth-authz-req+jwt'')
             | None \<Rightarrow> Body 404 ''not found'' None))"

section \<open>Starting a flow\<close>

record auth_query =
  aq_issuer :: string
  aq_client_id :: string
  aq_client_secret :: string
  aq_test_id :: string
  aq_test_name :: string
  aq_profile :: string
  aq_use_pkce :: string
  aq_skip_userinfo :: string
  aq_use_request_uri :: string
  aq_scope :: string
  aq_fapi2 :: string
  aq_jarm :: string
  aq_mtls :: string

definition says_true :: "string \<Rightarrow> bool" where
  "says_true s = (py_lower s = ''true'')"

definition registered_secret :: "(json \<times> json) option \<Rightarrow> string \<Rightarrow> string \<Rightarrow> json" where
  "registered_secret remembered client_id client_secret =
     (case remembered of
        Some (cid, secret) \<Rightarrow> if JStr client_id = cid \<and> truthy secret then secret else JStr client_secret
      | None \<Rightarrow> JStr client_secret)"

text \<open>The session of a new flow, by its state, and the context later requests refer to.\<close>

definition open_session :: "string \<Rightarrow> string \<Rightarrow> string \<Rightarrow> auth_session \<Rightarrow> unit hm" where
  "open_session test_id flow_issuer disco_address sess =
     supd (\<lambda>s. s\<lparr>hs_sessions := dict_set (as_state sess)
                    (if test_id = [] then sess else set_result ''test_id'' (JStr test_id) sess) (hs_sessions s),
                 hs_flow := Some \<lparr>fc_issuer = flow_issuer, fc_client_id = as_client_id sess, fc_disco_address = disco_address\<rparr>\<rparr>)"

definition FAPI2_CLIENT_KID :: string where "FAPI2_CLIENT_KID = ''fapi2-rp-key-1''"

definition FAPI2_SCOPE :: string where "FAPI2_SCOPE = ''openid''"

definition fapi2_private_key_jwt :: "'pk harness_world \<Rightarrow> string \<Rightarrow> private_key_jwt" where
  "fapi2_private_key_jwt w aud =
     \<lparr>pkj_private_key = Bytes (dk_private_pem (cw_fapi2_key w)), pkj_algorithm = ''ES256'', pkj_kid = Some FAPI2_CLIENT_KID,
      pkj_audience = Some aud, pkj_lifetime = 300\<rparr>"

definition fapi2_mtls_auth :: "'pk harness_world \<Rightarrow> mtls_client_auth" where
  "fapi2_mtls_auth w =
     \<lparr>mtls_certificate = cw_mtls_certificate w, mtls_private_key = cw_mtls_private_key w, mtls_password = None,
      mtls_auth_method = ''self_signed_tls_client_auth''\<rparr>"

definition fapi2_public_jwk :: "'pk harness_world \<Rightarrow> string dict res" where
  "fapi2_public_jwk w =
     bnd (public_jwk (dk_public (cw_fapi2_key w))) (\<lambda>jwk.
       Inr (dict_update jwk [(''kid'', FAPI2_CLIENT_KID), (''use'', ''sig''), (''alg'', ''ES256'')]))"

definition fapi2_jwks :: "'pk harness_world \<Rightarrow> reply hm" where
  "fapi2_jwks w = sbnd (lib (fapi2_public_jwk w)) (\<lambda>jwk.
     sret (Json_Reply 200 (JDict [(''keys'', JList [JDict (map (\<lambda>(k, v). (k, JStr v)) jwk)])])))"

definition fapi2_mtls_jwks :: "'pk harness_world \<Rightarrow> reply hm" where
  "fapi2_mtls_jwks w = sret (Json_Reply 200 (cw_mtls_jwks w))"

definition par_request_of ::
  "'pk harness_world \<Rightarrow> string \<Rightarrow> string \<Rightarrow> string \<Rightarrow> string \<Rightarrow> string \<Rightarrow> string \<Rightarrow> string \<Rightarrow> dpop_key option \<Rightarrow> bool \<Rightarrow> bool \<Rightarrow> par_request" where
  "par_request_of w address client_id scp issuer st nonce challenge key jarm mtls =
     \<lparr>rq_address = address, rq_client_id = client_id, rq_client_secret = None,
      rq_private_key_jwt = (if mtls then None else Some (fapi2_private_key_jwt w issuer)),
      rq_mtls = (if mtls then Some (fapi2_mtls_auth w) else None),
      pr_redirect_uri = cw_base_url w @ ''/callback'', pr_scope = scp, pr_response_type = ''code'', pr_state = Some st,
      pr_nonce = Some nonce, pr_code_challenge = Some challenge, pr_code_challenge_method = Some ''S256'',
      pr_response_mode = (if jarm then Some ''jwt'' else None), pr_dpop_key = key\<rparr>"

definition pkce_pair :: "'pk harness_world \<Rightarrow> (string \<times> string) hm" where
  "pkce_pair w = sbnd draw_number (\<lambda>n. lib (generate_pkce_pair (cw_pkce_bytes w n) ''S256'' 128))"

definition new_dpop_key :: "'pk harness_world \<Rightarrow> dpop_key hm" where
  "new_dpop_key w = sbnd draw_number (\<lambda>n. lib (generate_dpop_key (cw_dpop_keys w n) ''ES256''))"

definition authorize_fapi2 ::
  "'pk harness_world \<Rightarrow> managed_client \<Rightarrow> disco_response \<Rightarrow> string \<Rightarrow> auth_query \<Rightarrow> bool \<Rightarrow> bool \<Rightarrow> reply hm" where
  "authorize_fapi2 w client d disco_address q jarm mtls =
     (let test_id = aq_test_id q; client_id = aq_client_id q in
      sbnd (lib (if mtls then resolve_mtls_endpoint d ''pushed_authorization_request_endpoint''
                 else disco_get d ''pushed_authorization_request_endpoint'')) (\<lambda>par_endpoint.
        if \<not> truthy par_endpoint
        then let msg = ''OP does not advertise a pushed_authorization_request_endpoint''
             in refuse test_id (aq_issuer q) 400 ''par_not_supported'' (JStr msg) (''par_not_supported: '' @ msg)
        else
      sbnd (lib (disco_get d ''authorization_endpoint'')) (\<lambda>endpoint.
        if endpoint = JNull
        then answer (Json_Reply 502 (json_error ''missing_endpoint'' (JStr ''Discovery document missing authorization_endpoint'')))
        else
      sbnd (token_urlsafe w) (\<lambda>st.
      sbnd (token_urlsafe w) (\<lambda>nonce.
      sbnd (pkce_pair w) (\<lambda>(code_verifier, code_challenge).
      sbnd (if mtls then sret None else sbnd (new_dpop_key w) (\<lambda>k. sret (Some k))) (\<lambda>key.
      sbnd (lib (disco_get d ''issuer'')) (\<lambda>iss.
      sbnd (text_arg ''issuer'' (if truthy iss then iss else JStr (aq_issuer q))) (\<lambda>op_issuer.
      sbnd (text_arg ''pushed_authorization_request_endpoint'' par_endpoint) (\<lambda>address.
      sbnd draw_number (\<lambda>n.
      sbnd (on_http (push_authorization_request (cw_net w) (cw_signing w n) (if mtls then None else Some client)
             (par_request_of w address client_id FAPI2_SCOPE op_issuer st nonce code_challenge key jarm mtls))) (\<lambda>par.
        if \<not> rs_is_successful par
        then refuse test_id (aq_issuer q) 400 ''par_failed'' (rs_error par) (''par_failed: '' @ shown w (rs_error par))
        else if \<not> truthy (par_request_uri par) then lib (Inl (successful_access_exn ''error''))
        else
      sbnd (open_session test_id (aq_issuer q) disco_address
             ((auth_session_of op_issuer st nonce)
                \<lparr>as_code_verifier := Some code_verifier, as_client_id := client_id,
                 as_redirect_uri := cw_base_url w @ ''/callback'', as_skip_userinfo := says_true (aq_skip_userinfo q),
                 as_test_name := aq_test_name q, as_profile := aq_profile q, as_fapi2 := True, as_dpop_key := key,
                 as_mtls := mtls, as_jarm := jarm, as_disco_address := disco_address\<rparr>)) (\<lambda>_.
        sret (Redirect_To (shown w endpoint @ ''?''
          @ urlencode [(''client_id'', client_id), (''request_uri'', shown w (par_request_uri par))])))))))))))))))"

text \<open>The signed request object, hosted under a random name, and the URL that refers to it.\<close>

definition host_request_object ::
  "'pk harness_world \<Rightarrow> string \<Rightarrow> string \<Rightarrow> string \<Rightarrow> string \<Rightarrow> string \<Rightarrow> string \<Rightarrow> (string \<times> string) option \<Rightarrow> string hm" where
  "host_request_object w endpoint client_id issuer scp st nonce pkce =
     sbnd draw_number (\<lambda>n.
     sbnd (lib (create_request_object (cw_signing w n) 0
       \<lparr>jq_private_key = Bytes (cw_rp_private_key w), jq_algorithm = ''RS256'', jq_client_id = client_id, jq_audience = issuer,
        jq_redirect_uri = cw_base_url w @ ''/callback'', jq_response_type = ''code'', jq_lifetime = 300,
        jq_code_challenge = map_option snd pkce, jq_code_challenge_method = map_option (\<lambda>_. ''S256'') pkce,
        jq_kid = Some (cw_rp_kid w), jq_extra_claims = [], jq_scope = scp, jq_state = Some st, jq_nonce = Some nonce\<rparr>))
       (\<lambda>jwt.
     sbnd (token_urlsafe w) (\<lambda>obj_id.
     sbnd (supd (\<lambda>s. s\<lparr>hs_request_objects := dict_set obj_id jwt (hs_request_objects s)\<rparr>)) (\<lambda>_.
       sret (endpoint @ (if CHR ''?'' \<in> set endpoint then ''&'' else ''?'')
         @ urlencode [(''client_id'', client_id),
                      (''request_uri'', cw_internal_base_url w @ ''/request-object/'' @ obj_id),
                      (''scope'', scp), (''response_type'', ''code'')])))))"

definition plain_auth_request ::
  "'pk harness_world \<Rightarrow> string \<Rightarrow> auth_query \<Rightarrow> string \<Rightarrow> string \<Rightarrow> (string \<times> string) option \<Rightarrow> auth_request" where
  "plain_auth_request w endpoint q st nonce pkce =
     \<lparr>ar_endpoint = endpoint, ar_client_id = aq_client_id q, ar_redirect_uri = cw_base_url w @ ''/callback'',
      ar_scope = aq_scope q, ar_response_type = ''code'', ar_state = Some st, ar_nonce = Some nonce,
      ar_code_challenge = map_option snd pkce, ar_code_challenge_method = map_option (\<lambda>_. ''S256'') pkce, ar_extra = []\<rparr>"

definition authorize_plain ::
  "'pk harness_world \<Rightarrow> disco_response \<Rightarrow> string \<Rightarrow> auth_query \<Rightarrow> json \<Rightarrow> reply hm" where
  "authorize_plain w d disco_address q client_secret =
     sbnd (token_urlsafe w) (\<lambda>st.
     sbnd (token_urlsafe w) (\<lambda>nonce.
     sbnd (if says_true (aq_use_pkce q) then sbnd (pkce_pair w) (\<lambda>p. sret (Some p)) else sret None) (\<lambda>pkce.
     sbnd (lib (disco_get d ''authorization_endpoint'')) (\<lambda>ep.
       if ep = JNull
       then answer (Json_Reply 502 (json_error ''missing_endpoint'' (JStr ''Discovery document missing authorization_endpoint'')))
       else
     sbnd (text_arg ''authorization_endpoint'' ep) (\<lambda>endpoint.
     sbnd (if says_true (aq_use_request_uri q)
           then host_request_object w endpoint (aq_client_id q) (aq_issuer q) (aq_scope q) st nonce pkce
           else lib (build_authorization_url (plain_auth_request w endpoint q st nonce pkce))) (\<lambda>auth_url.
     sbnd (open_session (aq_test_id q) (aq_issuer q) disco_address
            ((auth_session_of (aq_issuer q) st nonce)
               \<lparr>as_code_verifier := map_option fst pkce, as_client_id := aq_client_id q, as_client_secret := client_secret,
                as_redirect_uri := cw_base_url w @ ''/callback'', as_skip_userinfo := says_true (aq_skip_userinfo q),
                as_test_name := aq_test_name q, as_profile := aq_profile q\<rparr>)) (\<lambda>_.
       sret (Redirect_To auth_url))))))))"

text \<open>The issuer of the document has to be the one the test named.\<close>

definition issuer_mismatch_text :: "'pk harness_world \<Rightarrow> json \<Rightarrow> string \<Rightarrow> string" where
  "issuer_mismatch_text w iss issuer =
     ''Issuer mismatch: discovery document issuer '' @ sq (shown w iss) @ '' does not match expected '' @ sq issuer"

definition MISSING_ISSUER_TEXT :: string where
  "MISSING_ISSUER_TEXT = ''Discovery document missing required 'issuer' field''"

definition harness_authorize :: "'pk harness_world \<Rightarrow> auth_query \<Rightarrow> reply hm" where
  "harness_authorize w q =
     sbnd (set_active_test (Some (aq_profile q)) (Some (aq_test_name q))) (\<lambda>_.
     sbnd (get_harness_client w) (\<lambda>client.
     sbnd (sget hs_registered) (\<lambda>reg.
     sbnd (begin_discovery w (aq_test_id q) (aq_issuer q)) (\<lambda>(ep, d).
     sbnd (lib (disco_get d ''issuer'')) (\<lambda>iss.
       if \<not> truthy iss
       then refuse (aq_test_id q) (aq_issuer q) 502 ''missing_issuer'' (JStr MISSING_ISSUER_TEXT)
              (''missing_issuer: '' @ MISSING_ISSUER_TEXT)
       else if iss \<noteq> JStr (aq_issuer q)
       then let msg = issuer_mismatch_text w iss (aq_issuer q)
            in refuse (aq_test_id q) (aq_issuer q) 502 ''issuer_mismatch'' (JStr msg) (''issuer_mismatch: '' @ msg)
       else if says_true (aq_fapi2 q) \<or> says_true (aq_jarm q) \<or> says_true (aq_mtls q)
       then authorize_fapi2 w client d (ep_url ep) q (says_true (aq_jarm q)) (says_true (aq_mtls q))
       else authorize_plain w d (ep_url ep) q (registered_secret reg (aq_client_id q) (aq_client_secret q)))))))"

end
