(* ===== verification/Conformance_Callback.thy ===== *)
theory Conformance_Callback
  imports Conformance_Rp
begin

text \<open>
  \<open>conformance/app.py\<close>: the callback that completes a flow, the logout routes and the maintenance routes. A flow is
  taken out of the sessions before anything is checked; each check that fails stores the test's result and answers.
\<close>

section \<open>Parsing\<close>

text \<open>The client and the provider of a JARM response are those of the last flow: the state is inside the token.\<close>

definition harness_jarm_request :: "flow_context option \<Rightarrow> jarm_request" where
  "harness_jarm_request ctx =
     \<lparr>jr_client_id = (case ctx of None \<Rightarrow> [] | Some c \<Rightarrow> fc_client_id c),
      jr_disco_doc_address = map_option fc_disco_address ctx, jr_issuer = None, jr_jwks = None,
      jr_algorithms = None, jr_require_https = False, jr_leeway = JInt 0, jr_is_jwt = False\<rparr>"

definition parse_harness_callback :: "'pk harness_world \<Rightarrow> string \<Rightarrow> callback_response hm" where
  "parse_harness_callback w url =
     except_for (\<lambda>e. if exn_isinstance e JarmValidationException \<or> exn_isinstance e TokenValidationException
                     then Some (answer (Html 400 (page ''JARM Validation Failed'' (html_escape (exn_message e)))))
                     else if exn_isinstance e PyIdentityModelException
                     then Some (answer (Html 400 (page ''Callback Error'' ''Failed to parse callback'')))
                     else None)
       (sbnd (lib (is_jarm_response url)) (\<lambda>jarm.
          if \<not> jarm then lib (parse_authorize_callback_response url)
          else sbnd (sget hs_flow) (\<lambda>ctx. sbnd draw_number (\<lambda>n.
            lib (process_jarm_response (te_lib (cw_validation w)) (cw_disco w n) (cw_jarm_jwks w n) url
              (harness_jarm_request ctx))))))"

text \<open>The session a state belongs to; a dictionary or a list cannot be looked up.\<close>

definition find_session :: "json \<Rightarrow> auth_session hm" where
  "find_session st =
     (let unknown = answer (Html 400 (page ''Error'' ''Unknown or missing state parameter'')) in
      case st of
        JStr k \<Rightarrow> sbnd (sget (\<lambda>s. map_of (hs_sessions s) k)) (\<lambda>found.
          case found of None \<Rightarrow> unknown
          | Some sess \<Rightarrow> sbnd (supd (\<lambda>s. s\<lparr>hs_sessions := dict_pop k (hs_sessions s)\<rparr>)) (\<lambda>_. sret sess))
      | JList _ \<Rightarrow> lib (Inl (raise_cls TypeError (''unhashable type: '' @ sq ''list'')))
      | JDict _ \<Rightarrow> lib (Inl (raise_cls TypeError (''unhashable type: '' @ sq ''dict'')))
      | _ \<Rightarrow> unknown)"

section \<open>Checks\<close>

definition failed_result :: "json \<Rightarrow> auth_session \<Rightarrow> auth_session" where
  "failed_result err sess = set_result ''error'' err (set_result ''status'' (JStr ''error'') sess)"

definition reject_flow :: "auth_session \<Rightarrow> json \<Rightarrow> int \<Rightarrow> string \<Rightarrow> 'a hm" where
  "reject_flow sess err code content =
     sbnd (store_test_result (failed_result err sess)) (\<lambda>_. answer (Html code content))"

definition verdict_value :: "callback_verdict \<Rightarrow> string" where
  "verdict_value v =
     (case v of SUCCESS \<Rightarrow> ''success'' | STATE_MISMATCH \<Rightarrow> ''state_mismatch'' | MISSING_STATE \<Rightarrow> ''missing_state''
      | ERROR_RESPONSE \<Rightarrow> ''error_response'' | ISSUER_MISMATCH \<Rightarrow> ''issuer_mismatch'' | MISSING_ISSUER \<Rightarrow> ''missing_issuer'')"

definition check_state :: "auth_session \<Rightarrow> callback_response \<Rightarrow> unit hm" where
  "check_state sess cb =
     sbnd (lib (validate_authorize_callback_state cb (Some (as_state sess)))) (\<lambda>verdict.
       if sv_is_valid verdict then sret ()
       else let v = verdict_value (sv_result verdict) in
            reject_flow sess (JStr (''state_validation: '' @ v)) 400 (page ''State Validation Failed'' (html_escape v)))"

definition check_op_error :: "'pk harness_world \<Rightarrow> auth_session \<Rightarrow> callback_response \<Rightarrow> unit hm" where
  "check_op_error w sess cb =
     (if cb_is_successful cb then sret ()
      else sbnd (lib (cb_get cb ''error'')) (\<lambda>err. sbnd (lib (cb_get cb ''error_description'')) (\<lambda>desc.
        sbnd (store_test_result (set_result ''error_description'' desc (failed_result err sess))) (\<lambda>_.
          answer (Html 400 (page ''OP Error'' (html_escape (shown w err) @ '': '' @ html_escape (shown w desc))))))))"

definition fetch_and_validate_discovery ::
  "'pk harness_world \<Rightarrow> auth_session \<Rightarrow> (discovery_endpoint \<times> disco_response) hm" where
  "fetch_and_validate_discovery w sess =
     sbnd (except_for (\<lambda>e. if exn_isinstance e ConfigurationException
                           then Some (reject_flow sess (JStr (''invalid_issuer: '' @ exn_message e)) 400
                                  (page ''Invalid Issuer'' ''Discovery URL is invalid'')) else None)
             (lib (parse_discovery_url (as_issuer sess)))) (\<lambda>ep.
     sbnd (fetch_document w (ep_url ep)) (\<lambda>d.
       if \<not> d_is_successful d
       then reject_flow sess (JStr (''discovery_failed: '' @ fmt_opt (d_error d))) 502
              (page ''Discovery Failed'' (html_escape (fmt_opt (d_error d))))
       else sbnd (lib (disco_get d ''issuer'')) (\<lambda>iss.
         if \<not> truthy iss
         then reject_flow sess (JStr (''missing_issuer: '' @ MISSING_ISSUER_TEXT)) 502
                (page ''Missing Issuer'' (html_escape MISSING_ISSUER_TEXT))
         else if iss \<noteq> JStr (as_issuer sess)
         then let msg = issuer_mismatch_text w iss (as_issuer sess)
              in reject_flow sess (JStr (''issuer_mismatch: '' @ msg)) 502 (page ''Issuer Mismatch'' (html_escape msg))
         else sret (ep, d))))"

definition validate_fapi2_callback_issuer :: "auth_session \<Rightarrow> callback_response \<Rightarrow> disco_response \<Rightarrow> unit hm" where
  "validate_fapi2_callback_issuer sess cb d =
     (if \<not> as_fapi2 sess then sret ()
      else sbnd (sbnd (lib (disco_get d ''issuer'')) (text_arg ''issuer'')) (\<lambda>iss.
        sbnd (lib (validate_authorize_callback_issuer cb (Some iss) False True)) (\<lambda>verdict.
          if sv_is_valid verdict then sret ()
          else let v = verdict_value (sv_result verdict) in
               reject_flow sess (JStr (''iss_validation: '' @ v)) 400
                 (page ''Issuer (RFC 9207) Validation Failed'' (html_escape v)))))"

section \<open>The code exchange\<close>

definition client_for_session :: "auth_session \<Rightarrow> managed_client \<Rightarrow> managed_client option" where
  "client_for_session sess client = (if as_mtls sess then None else Some client)"

text \<open>A client secret that is set is a text.\<close>

definition build_auth_code_token_request ::
  "'pk harness_world \<Rightarrow> auth_session \<Rightarrow> disco_response \<Rightarrow> string \<Rightarrow> code_request hm" where
  "build_auth_code_token_request w sess d code =
     (let req = \<lparr>rq_address = [], rq_client_id = as_client_id sess, rq_client_secret = None, rq_private_key_jwt = None,
                 rq_mtls = None, cr_code = code, cr_redirect_uri = as_redirect_uri sess,
                 cr_code_verifier = as_code_verifier sess, cr_scope = None, cr_dpop_key = None\<rparr> in
      if as_mtls sess
      then sbnd (lib (resolve_mtls_endpoint d ''token_endpoint'')) (\<lambda>ep.
           sbnd (text_arg ''token_endpoint'' (json_or_empty ep)) (\<lambda>address.
             sret (req\<lparr>rq_address := address, rq_mtls := Some (fapi2_mtls_auth w)\<rparr>)))
      else sbnd (sbnd (lib (disco_get d ''token_endpoint'')) (text_arg ''token_endpoint'')) (\<lambda>address.
        if as_fapi2 sess
        then sret (req\<lparr>rq_address := address, rq_private_key_jwt := Some (fapi2_private_key_jwt w (as_issuer sess)),
                       cr_dpop_key := as_dpop_key sess\<rparr>)
        else sbnd (if truthy (as_client_secret sess)
                   then sbnd (text_arg ''client_secret'' (as_client_secret sess)) (\<lambda>secret. sret (Some secret)) else sret None)
               (\<lambda>secret. sret (req\<lparr>rq_address := address, rq_client_secret := secret\<rparr>))))"

definition redeem_code :: "'pk harness_world \<Rightarrow> managed_client \<Rightarrow> auth_session \<Rightarrow> disco_response \<Rightarrow> callback_response \<Rightarrow> json dict hm" where
  "redeem_code w client sess d cb =
     sbnd (lib (disco_get d ''token_endpoint'')) (\<lambda>ep.
       if ep = JNull
       then reject_flow sess (JStr ''missing_token_endpoint'') 502
              (page ''Discovery Error'' ''Discovery document missing token_endpoint'')
       else sbnd (lib (cb_get cb ''code'')) (\<lambda>code.
         if code = JNull
         then reject_flow sess (JStr ''missing_code'') 400
                (page ''Callback Error'' ''Authorization callback missing code parameter'')
         else sbnd (text_arg ''code'' code) (\<lambda>code.
           sbnd (build_auth_code_token_request w sess d code) (\<lambda>req.
           sbnd draw_number (\<lambda>n.
           sbnd (on_http (request_authorization_code_token (cw_net w) (cw_signing w n) (client_for_session sess client) req)) (\<lambda>tok.
             if \<not> rs_is_successful tok
             then reject_flow sess (JStr (''token_exchange: '' @ shown w (rs_error tok))) 400
                    (page ''Token Exchange Failed'' (html_escape (shown w (rs_error tok))))
             else if tr_token tok = JNull
             then reject_flow sess (JStr ''missing_token_data'') 502
                    (page ''Token Error'' ''Token response missing token data'')
             else lib (as_dict_or_raise (tr_token tok))))))))"

section \<open>The ID token\<close>

definition FAPI2_ID_TOKEN_ALGS :: "string list" where
  "FAPI2_ID_TOKEN_ALGS = [''PS256'', ''ES256'', ''EdDSA'']"

definition id_token_validation_params :: "auth_session \<Rightarrow> json dict \<times> json list option" where
  "id_token_validation_params sess =
     (if as_fapi2 sess
      then ([(''verify_exp'', JBool True), (''require'', JList [JStr ''sub'', JStr ''iat'', JStr ''exp'', JStr ''aud''])],
            Some (map JStr FAPI2_ID_TOKEN_ALGS))
      else ([(''verify_exp'', JBool True), (''require'', JList [JStr ''sub'', JStr ''iat''])], None))"

definition harness_token_config :: "auth_session \<Rightarrow> json \<Rightarrow> token_validation_config" where
  "harness_token_config sess iss =
     (let (opts, algs) = id_token_validation_params sess in
      (default_config True)\<lparr>audience := Some (as_client_id sess), cfg_issuer := iss, algorithms := algs,
        options := Some opts, cfg_require_https := False\<rparr>)"

definition aud_values :: "json dict \<Rightarrow> json list" where
  "aud_values claims = (case jget claims ''aud'' of JList l \<Rightarrow> l | a \<Rightarrow> [a])"

definition validate_fapi2_audience :: "'pk harness_world \<Rightarrow> auth_session \<Rightarrow> json dict \<Rightarrow> unit hm" where
  "validate_fapi2_audience w sess claims =
     (if \<not> as_fapi2 sess then sret ()
      else let untrusted = filter (\<lambda>a. a \<noteq> JStr (as_client_id sess)) (aud_values claims) in
           if untrusted = [] then sret ()
           else reject_flow sess (JStr (''untrusted_audience: '' @ shown w (JList untrusted))) 400
                  (page ''Untrusted Audience'' (html_escape (shown w (JList untrusted)))))"

text \<open>PyJWT refuses a token that is not a string; here that is before the caches are read.\<close>

definition decode_id_token ::
  "'pk harness_world \<Rightarrow> auth_session \<Rightarrow> string \<Rightarrow> json \<Rightarrow> json \<Rightarrow> json dict hm" where
  "decode_id_token w sess address iss id_token =
     except_for (\<lambda>e. if exn_isinstance e TokenValidationException
                     then Some (reject_flow sess (JStr (''id_token_validation: '' @ exn_message e)) 400
                            (page ''ID Token Validation Failed'' (html_escape (exn_message e)))) else None)
       (case id_token of
          JStr jwt \<Rightarrow> on_validation (validate_token (cw_validation w) jwt (harness_token_config sess iss) (Some address) False)
        | _ \<Rightarrow> lib (Inl (raise_cls JwtDecodeError ''Invalid token type'')))"

definition check_id_token ::
  "'pk harness_world \<Rightarrow> auth_session \<Rightarrow> string \<Rightarrow> disco_response \<Rightarrow> json \<Rightarrow> json dict hm" where
  "check_id_token w sess address d id_token =
     (if \<not> truthy id_token then sret []
      else sbnd (lib (disco_get d ''issuer'')) (\<lambda>iss.
        sbnd (decode_id_token w sess address iss id_token) (\<lambda>claims.
          let got = jget claims ''nonce'' in
          if got \<noteq> JStr (as_nonce sess)
          then reject_flow sess (JStr (''nonce_mismatch: expected='' @ as_nonce sess @ '', got='' @ shown w got)) 400
                 (page ''Nonce Mismatch'' (''Expected: '' @ html_escape (as_nonce sess) @ '', Got: '' @ html_escape (shown w got)))
          else sbnd (validate_fapi2_audience w sess claims) (\<lambda>_. sret claims))))"

section \<open>UserInfo and the resource\<close>

text \<open>The subject of decoded claims is a text or absent: PyJWT refuses every other one.\<close>

definition expected_sub :: "json \<Rightarrow> string option hm" where
  "expected_sub sub = (if sub = JNull then sret None else sbnd (text_arg ''sub'' sub) (\<lambda>s. sret (Some s)))"

text \<open>The answer, or the exception of the library that the route catches.\<close>

definition ask_userinfo ::
  "'pk harness_world \<Rightarrow> managed_client option \<Rightarrow> userinfo_request \<Rightarrow> (exn + userinfo_response) hm" where
  "ask_userinfo w http_client r =
     sbnd draw_number (\<lambda>n.
     except_for (\<lambda>e. if exn_isinstance e PyIdentityModelException then Some (sret (Inl e)) else None)
       (sbnd (on_http (get_userinfo (cw_net w) (cw_signing w n) http_client r)) (\<lambda>ui. sret (Inr ui))))"

definition session_userinfo_request ::
  "'pk harness_world \<Rightarrow> auth_session \<Rightarrow> string \<Rightarrow> json \<Rightarrow> string option \<Rightarrow> userinfo_request" where
  "session_userinfo_request w sess address access_token expected =
     \<lparr>ui_address = address, ui_token = shown w access_token, ui_expected_sub = expected,
      ui_dpop_key = (if as_fapi2 sess \<and> \<not> as_mtls sess then as_dpop_key sess else None),
      ui_mtls = (if as_mtls sess then Some (fapi2_mtls_auth w) else None)\<rparr>"

definition userinfo_outcome ::
  "'pk harness_world \<Rightarrow> auth_session \<Rightarrow> exn + userinfo_response \<Rightarrow> (json \<times> auth_session) hm" where
  "userinfo_outcome w sess r =
     (case r of
        Inl e \<Rightarrow> sret (JDict [], set_result ''userinfo_error'' (JStr (exn_message e)) sess)
      | Inr ui \<Rightarrow>
          if rs_is_successful ui then sret (if truthy (ur_claims ui) then ur_claims ui else JDict [], sess)
          else reject_flow sess (JStr (''userinfo_validation: '' @ shown w (rs_error ui))) 400
                 (page ''UserInfo Validation Failed'' (html_escape (shown w (rs_error ui)))))"

definition fetch_userinfo ::
  "'pk harness_world \<Rightarrow> managed_client \<Rightarrow> auth_session \<Rightarrow> disco_response \<Rightarrow> json \<Rightarrow> json \<Rightarrow> (json \<times> auth_session) hm" where
  "fetch_userinfo w client sess d access_token sub =
     sbnd (if truthy access_token then lib (disco_get d ''userinfo_endpoint'') else sret JNull) (\<lambda>endpoint.
       if \<not> (truthy access_token \<and> truthy endpoint \<and> \<not> as_skip_userinfo sess) then sret (JDict [], sess)
       else sbnd (if as_mtls sess then lib (resolve_mtls_endpoint d ''userinfo_endpoint'') else sret endpoint) (\<lambda>ep.
       sbnd (text_arg ''userinfo_endpoint'' ep) (\<lambda>address.
       sbnd (expected_sub sub) (\<lambda>expected.
       sbnd (ask_userinfo w (client_for_session sess client) (session_userinfo_request w sess address access_token expected))
         (userinfo_outcome w sess)))))"

definition FAPI2_RESOURCE_PATH :: string where "FAPI2_RESOURCE_PATH = ''open-banking/v1.1/accounts''"

text \<open>\<open>s.rsplit(sep, 1)[0]\<close>: the part before the last occurrence of the separator.\<close>

fun before_last :: "string \<Rightarrow> string \<Rightarrow> string" where
  "before_last sep [] = []"
| "before_last sep (c # s) =
     (if py_startswith (c # s) sep \<and> \<not> py_contains sep s then [] else c # before_last sep s)"

definition resource_request ::
  "'pk harness_world \<Rightarrow> auth_session \<Rightarrow> disco_response \<Rightarrow> json \<Rightarrow> userinfo_request option hm" where
  "resource_request w sess d access_token =
     (let req = \<lparr>ui_address = [], ui_token = shown w access_token, ui_expected_sub = None, ui_dpop_key = None, ui_mtls = None\<rparr> in
      if \<not> (as_fapi2 sess \<and> truthy access_token) then sret None
      else if as_mtls sess
      then sbnd (lib (resolve_mtls_endpoint d ''token_endpoint'')) (\<lambda>ep.
           sbnd (text_arg ''token_endpoint'' (json_or_empty ep)) (\<lambda>mtls_token.
             sret (Some (req\<lparr>ui_address := py_rstrip_char (CHR ''/'') (before_last ''/token'' mtls_token) @ ''/'' @ FAPI2_RESOURCE_PATH,
                             ui_mtls := Some (fapi2_mtls_auth w)\<rparr>))))
      else case as_dpop_key sess of
        None \<Rightarrow> sret None
      | Some k \<Rightarrow> sret (Some (req\<lparr>ui_address := py_rstrip_char (CHR ''/'') (as_issuer sess) @ ''/'' @ FAPI2_RESOURCE_PATH,
                                   ui_dpop_key := Some k\<rparr>)))"

definition fetch_fapi2_resource ::
  "'pk harness_world \<Rightarrow> managed_client \<Rightarrow> auth_session \<Rightarrow> disco_response \<Rightarrow> json \<Rightarrow> unit hm" where
  "fetch_fapi2_resource w client sess d access_token =
     sbnd (resource_request w sess d access_token) (\<lambda>req. case req of
       None \<Rightarrow> sret ()
     | Some r \<Rightarrow> sbnd (ask_userinfo w (client_for_session sess client) r) (\<lambda>_. sret ()))"

section \<open>The callback\<close>

definition claim_or_na :: "'pk harness_world \<Rightarrow> json dict \<Rightarrow> string \<Rightarrow> string" where
  "claim_or_na w claims k = (case map_of claims k of None \<Rightarrow> ''N/A'' | Some v \<Rightarrow> shown w v)"

definition success_page :: "'pk harness_world \<Rightarrow> json dict \<Rightarrow> json dict \<Rightarrow> string" where
  "success_page w claims userinfo =
     ''<h1>Authentication Successful</h1>'' @ py_join [CHR 0x0A]
       ([''<p>Subject: '' @ html_escape (claim_or_na w claims ''sub'') @ ''</p>'',
         ''<p>Issuer: '' @ html_escape (claim_or_na w claims ''iss'') @ ''</p>'']
        @ (if userinfo = [] then []
           else ''<h2>UserInfo Claims</h2>''
                # map (\<lambda>(k, v). ''<p>'' @ html_escape k @ '': '' @ html_escape (shown w v) @ ''</p>'') userinfo))"

definition logged_in :: "string \<Rightarrow> json \<Rightarrow> json dict \<Rightarrow> json \<Rightarrow> json \<Rightarrow> auth_session \<Rightarrow> auth_session" where
  "logged_in id_token end_session claims userinfo access_token sess =
     set_result ''access_token'' access_token (set_result ''userinfo_claims'' userinfo
       (set_result ''id_token_claims'' (JDict claims) (set_result ''status'' (JStr ''success'')
         (sess\<lparr>as_id_token := id_token, as_end_session_endpoint := end_session\<rparr>))))"

definition text_of :: "json \<Rightarrow> string" where
  "text_of j = (case j of JStr s \<Rightarrow> s | _ \<Rightarrow> [])"

text \<open>The steps of a flow that was found, up to its result.\<close>

definition complete_flow ::
  "'pk harness_world \<Rightarrow> managed_client \<Rightarrow> callback_response \<Rightarrow> auth_session \<Rightarrow> reply hm" where
  "complete_flow w client cb sess =
     sbnd (check_state sess cb) (\<lambda>_.
     sbnd (check_op_error w sess cb) (\<lambda>_.
     sbnd (fetch_and_validate_discovery w sess) (\<lambda>(ep, d).
     sbnd (validate_fapi2_callback_issuer sess cb d) (\<lambda>_.
     sbnd (redeem_code w client sess d cb) (\<lambda>token.
       let id_token = jget token ''id_token''; access_token = jget token ''access_token'' in
     sbnd (check_id_token w sess (ep_url ep) d id_token) (\<lambda>claims.
     sbnd (fetch_userinfo w client sess d access_token (jget claims ''sub'')) (\<lambda>(userinfo, sess').
     sbnd (fetch_fapi2_resource w client sess' d access_token) (\<lambda>_.
     sbnd (lib (disco_get d ''end_session_endpoint'')) (\<lambda>es.
       let end_session = json_or_empty es;
           done = logged_in (text_of id_token) end_session claims userinfo access_token sess' in
     sbnd (supd (\<lambda>s. s\<lparr>hs_logout := Some \<lparr>lc_end_session_endpoint = end_session, lc_id_token = text_of id_token,
                                                lc_client_id = as_client_id sess\<rparr>\<rparr>)) (\<lambda>_.
     sbnd (store_test_result done) (\<lambda>_.
     sbnd (lib (as_dict_or_raise userinfo)) (\<lambda>u.
       sret (Html 200 (success_page w claims u))))))))))))))"

definition handle_callback :: "'pk harness_world \<Rightarrow> string \<Rightarrow> reply hm" where
  "handle_callback w url =
     sbnd (get_harness_client w) (\<lambda>client.
     sbnd (parse_harness_callback w url) (\<lambda>cb.
     sbnd (lib (cb_get cb ''state'')) (\<lambda>st.
     sbnd (find_session st) (\<lambda>sess.
     sbnd (set_active_test (Some (as_profile sess)) (Some (as_test_name sess))) (\<lambda>_.
       complete_flow w client cb sess)))))"

text \<open>The \<open>form_post\<close> mode: every field of the form, in order.\<close>

definition callback_post :: "'pk harness_world \<Rightarrow> (string \<times> string) list \<Rightarrow> reply hm" where
  "callback_post w form = handle_callback w (cw_base_url w @ ''/callback?'' @ urlencode form)"

section \<open>Logout\<close>

definition logout_token_config :: "flow_context \<Rightarrow> token_validation_config" where
  "logout_token_config flow =
     (default_config True)\<lparr>audience := Some (fc_client_id flow), cfg_issuer := JStr (fc_issuer flow), cfg_require_https := False\<rparr>"

definition receive_backchannel_logout :: "'pk harness_world \<Rightarrow> string option \<Rightarrow> reply hm" where
  "receive_backchannel_logout w logout_token =
     (let bad = (\<lambda>err detail. Json_Reply 400 (json_error err (JStr detail))) in
      if \<not> opt_truthy logout_token then sret (bad ''invalid_request'' ''missing logout_token'')
      else sbnd (sget hs_flow) (\<lambda>ctx. case ctx of
        None \<Rightarrow> sret (bad ''no_flow_context'' ''no prior auth flow'')
      | Some flow \<Rightarrow>
          except_for (\<lambda>e. if exn_isinstance e LogoutTokenValidationException \<or> exn_isinstance e TokenValidationException
                             \<or> exn_isinstance e PyIdentityModelException
                          then Some (sret (bad ''invalid_logout_token'' (exn_message e)))
                          else if exn_isinstance e PyJWTError
                          then Some (sret (bad ''invalid_logout_token'' ''malformed token''))
                          else None)
            (sbnd (on_validation (validate_logout_token (cw_validation w) (the logout_token) (logout_token_config flow)
                     (Some (fc_disco_address flow)) False)) (\<lambda>_.
               sret (Json_Reply 200 (JDict [(''status'', JStr ''ok'')]))))))"

text \<open>An answer with its headers; the form field is no text when it is an uploaded file or absent.\<close>

definition backchannel_logout :: "'pk harness_world \<Rightarrow> string option \<Rightarrow> (reply \<times> string dict) hm" where
  "backchannel_logout w form_field =
     sbnd (receive_backchannel_logout w form_field) (\<lambda>r.
       sret (r, [(''Cache-Control'', ''no-cache, no-store''), (''Pragma'', ''no-cache'')]))"

definition some_if_text :: "string \<Rightarrow> string option" where
  "some_if_text s = (if s = [] then None else Some s)"

definition harness_end_session ::
  "'pk harness_world \<Rightarrow> logout_context \<Rightarrow> string \<Rightarrow> string option \<Rightarrow> end_session_request" where
  "harness_end_session w c endpoint st =
     \<lparr>es_endpoint = endpoint, es_id_token_hint = some_if_text (lc_id_token c), es_client_id = some_if_text (lc_client_id c),
      es_post_logout_redirect_uri = Some (cw_base_url w @ ''/post-logout-callback''), es_state = st,
      es_logout_hint = None, es_ui_locales = None, es_extra = []\<rparr>"

definition harness_logout :: "'pk harness_world \<Rightarrow> string \<Rightarrow> string \<Rightarrow> string \<Rightarrow> reply hm" where
  "harness_logout w test_name profile send_state =
     sbnd (set_active_test (Some profile) (Some test_name)) (\<lambda>_.
     sbnd (sget hs_logout) (\<lambda>ctx.
       let none = answer (Json_Reply 400 (json_error ''no_logout_context''
                    (JStr ''no completed login flow with an end_session_endpoint''))) in
       case ctx of
         None \<Rightarrow> none
       | Some c \<Rightarrow>
           if \<not> truthy (lc_end_session_endpoint c) then none
           else sbnd (if says_true send_state then sbnd (token_urlsafe w) (\<lambda>t. sret (Some t)) else sret None) (\<lambda>st.
             sbnd (supd (\<lambda>s. s\<lparr>hs_logout_state := st\<rparr>)) (\<lambda>_.
             sbnd (text_arg ''end_session_endpoint'' (lc_end_session_endpoint c)) (\<lambda>endpoint.
             sbnd (lib (build_end_session_url (harness_end_session w c endpoint st))) (\<lambda>url.
               sret (Redirect_To url)))))))"

definition post_logout_callback :: "string option \<Rightarrow> reply hm" where
  "post_logout_callback st =
     sbnd (sget hs_logout_state) (\<lambda>expected.
       except_for (\<lambda>e. if exn_isinstance e LogoutStateValidationException
                       then Some (sret (Html 400 (page ''Logout State Validation Failed'' (html_escape (exn_message e))))) else None)
         (sbnd (lib (validate_post_logout_state expected st)) (\<lambda>_.
            sret (Html 200 (page ''Logout Successful'' ''State validated.'')))))"

section \<open>Maintenance\<close>

definition harness_health :: "reply hm" where
  "harness_health = sret (Json_Reply 200 (JDict [(''status'', JStr ''ok''), (''service'', JStr ''conformance-rp'')]))"

definition harness_clear_cache :: "reply hm" where
  "harness_clear_cache =
     sbnd (set_active_test None None) (\<lambda>_. sbnd (on_validation clear_discovery_cache) (\<lambda>_. sbnd (on_validation clear_jwks_cache) (\<lambda>_.
       sret (Json_Reply 200 (JDict [(''status'', JStr ''ok''), (''cleared'', JList [JStr ''discovery'', JStr ''jwks''])])))))"

definition get_result :: "string \<Rightarrow> reply hm" where
  "get_result test_id =
     sbnd (sget (\<lambda>s. map_of (hs_results s) test_id)) (\<lambda>found.
       sret (case found of Some sess \<Rightarrow> Json_Reply 200 (JDict (as_result sess))
             | None \<Rightarrow> Json_Reply 404 (JDict [(''error'', JStr ''not_found'')])))"

end
