(* ===== verification/Conformance_Runs.thy ===== *)
theory Conformance_Runs
  imports Conformance_Callback Resource_Server
begin

text \<open>
  What the conformance relying party guarantees: which parts of its state each route can touch, the invariant of its
  dictionaries over every sequence of requests, what a completed flow proves, and the logout round trips.
\<close>

section \<open>How the operations return\<close>

lemma lib_Inr [simp]: "lib r s = (Inr x, s') \<longleftrightarrow> r = Inr x \<and> s' = s"
  by (auto simp: lib_def slift_def split: sum.splits)

lemma answer_Inr [simp]: "answer r s \<noteq> (Inr x, s')"
  by (simp add: answer_def slift_def)

lemma on_http_Inr: "on_http m s = (Inr x, s') \<longleftrightarrow> (\<exists>n. m (hs_net s) = (Inr x, n) \<and> s' = s\<lparr>hs_net := n\<rparr>)"
  by (auto simp: on_http_def split: prod.splits)

lemma on_validation_Inr: "on_validation m s = (Inr x, s') \<longleftrightarrow> (\<exists>c. m (hs_caches s) = (Inr x, c) \<and> s' = s\<lparr>hs_caches := c\<rparr>)"
  by (auto simp: on_validation_def split: prod.splits)

lemma draw_number_Inr: "draw_number s = (Inr n, s') \<longleftrightarrow> n = hs_draws s \<and> s' = s\<lparr>hs_draws := Suc n\<rparr>"
  by (auto simp: draw_number_def sbnd_def stm_simps)

lemma text_arg_Inr [simp]: "text_arg name j s = (Inr u, s') \<longleftrightarrow> j = JStr u \<and> s' = s"
  by (cases j) (auto simp: text_arg_def stm_simps)

lemma reject_flow_Inr [simp]: "reject_flow sess err code content s \<noteq> (Inr x, s')"
  by (simp add: reject_flow_def sbnd_Inr)

lemma refuse_Inr [simp]: "refuse test_id issuer code err detail note s \<noteq> (Inr x, s')"
  by (simp add: refuse_def sbnd_Inr)

lemma except_for_Inr:
  "except_for clauses m s = (Inr x, s') \<longleftrightarrow> m s = (Inr x, s') \<or>
     (\<exists>e t h. m s = (Inl (Raised e), t) \<and> clauses e = Some h \<and> h t = (Inr x, s'))"
  by (auto simp: except_for_def scatch_def slift_def split: prod.splits sum.splits halt.splits option.splits)

text \<open>Clauses that all end the request.\<close>

lemma except_stops:
  "\<lbrakk>except_for clauses m s = (Inr x, s'); \<And>e h t t'. clauses e = Some h \<Longrightarrow> h t \<noteq> (Inr x, t')\<rbrakk> \<Longrightarrow> m s = (Inr x, s')"
  by (auto simp: except_for_Inr)

section \<open>What an operation leaves alone\<close>

definition final_status :: "auth_session \<Rightarrow> bool" where
  "final_status sess \<longleftrightarrow> jget (as_result sess) ''status'' \<in> {JStr ''success'', JStr ''error''}"

definition filed :: "string \<Rightarrow> auth_session \<Rightarrow> bool" where
  "filed k sess \<longleftrightarrow> k \<noteq> [] \<and> jget (as_result sess) ''test_id'' = JStr k \<and> final_status sess"

text \<open>
  A part of the state no operation but those on the sessions can break: it holds whatever the outside answers, whatever
  is cached, and whichever final results are filed.
\<close>

locale quiet_part =
  fixes env :: "'pk tv_env" and P :: "harness \<Rightarrow> bool"
  assumes quiet_outside: "P s \<Longrightarrow> P (s\<lparr>hs_net := n\<rparr>)" "P s \<Longrightarrow> P (s\<lparr>hs_json_net := j\<rparr>)" "P s \<Longrightarrow> P (s\<lparr>hs_draws := d\<rparr>)"
      "P s \<Longrightarrow> P (s\<lparr>hs_active := a\<rparr>)" "P s \<Longrightarrow> P (s\<lparr>hs_client := cl\<rparr>)" "P s \<Longrightarrow> P (s\<lparr>hs_request_objects := ro\<rparr>)"
      "P s \<Longrightarrow> P (s\<lparr>hs_registered := reg\<rparr>)" "P s \<Longrightarrow> P (s\<lparr>hs_logout := lo\<rparr>)" "P s \<Longrightarrow> P (s\<lparr>hs_logout_state := ls\<rparr>)"
    and quiet_caches: "\<lbrakk>P s; tv_reachable env (hs_caches s) \<longrightarrow> tv_reachable env c\<rbrakk> \<Longrightarrow> P (s\<lparr>hs_caches := c\<rparr>)"
    and quiet_results: "\<lbrakk>P s; filed k sess\<rbrakk> \<Longrightarrow> P (s\<lparr>hs_results := dict_set k sess (hs_results s)\<rparr>)"
begin

lemma q_lib: "keeps P (lib r)"
  unfolding lib_def by (rule keeps_pure)

lemma q_answer: "keeps P (answer r)"
  unfolding answer_def by (rule keeps_pure)

lemma q_http: "keeps P (on_http m)" "keeps P (on_json_http m')"
  by (rule tripleI; auto simp: on_http_def on_json_http_def lib_def slift_def quiet_outside split: prod.splits sum.splits)+

lemma q_upd:
  "keeps P (supd (\<lambda>s. s\<lparr>hs_logout := lo\<rparr>))" "keeps P (supd (\<lambda>s. s\<lparr>hs_logout_state := ls\<rparr>))"
  "keeps P (supd (\<lambda>s. s\<lparr>hs_client := cl\<rparr>))" "keeps P (supd (\<lambda>s. s\<lparr>hs_registered := reg\<rparr>))"
  "keeps P (supd (\<lambda>s. s\<lparr>hs_request_objects := f (hs_request_objects s)\<rparr>))"
  "keeps P (supd (\<lambda>s. s\<lparr>hs_draws := d\<rparr>))" "keeps P (set_active_test p t)"
  "keeps P (supd (\<lambda>s. s\<lparr>hs_draws := Suc n\<rparr>))"
  by (auto simp: set_active_test_def intro!: triple_supd quiet_outside)

lemma q_draw: "keeps P draw_number"
  by (rule tripleI) (auto simp: draw_number_def sbnd_def stm_simps quiet_outside)

lemma q_text_arg: "keeps P (text_arg name j)"
  by (cases j) (auto simp: text_arg_def intro: q_lib keeps_pure)

lemma q_except:
  "\<lbrakk>keeps P m; \<And>e h. clauses e = Some h \<Longrightarrow> keeps P h\<rbrakk> \<Longrightarrow> keeps P (except_for clauses m)"
  unfolding except_for_def
  by (rule triple_scatch, assumption) (auto intro: keeps_pure split: halt.split option.split)

lemma q_put_result: "filed k sess \<Longrightarrow> keeps P (put_result k sess)"
  unfolding put_result_def by (rule triple_supd) (rule quiet_results)

lemma q_store: "final_status sess \<Longrightarrow> keeps P (store_test_result sess)"
  by (cases "jget (as_result sess) ''test_id''")
     (auto simp: store_test_result_def filed_def intro!: q_put_result keeps_pure)

end

lemmas result_simps = set_result_def failed_result_def logged_in_def jget_def dict_get_set

lemma final_simps [simp]:
  "final_status (failed_result err sess)" "final_status (set_result ''error_description'' d (failed_result err sess))"
  "final_status (logged_in id_token es claims ui acc sess)"
  by (simp_all add: final_status_def result_simps)

context quiet_part
begin

lemmas q_rules = triple_intros q_lib q_answer q_http q_upd q_draw q_text_arg q_except q_store final_simps

lemma q_client: "keeps P (get_harness_client w)"
  unfolding get_harness_client_def by (intro q_rules)

lemma q_token: "keeps P (token_urlsafe w)" "keeps P (pkce_pair w)" "keeps P (new_dpop_key w)"
  unfolding token_urlsafe_def pkce_pair_def new_dpop_key_def by (intro q_rules)+

lemma q_record: "keeps P (record_failure test_id issuer err)"
  unfolding record_failure_def
  by (intro q_rules q_put_result) (simp add: filed_def final_status_def jget_def)

lemma q_refuse: "keeps P (refuse test_id issuer code err detail note)"
  unfolding refuse_def by (intro q_rules q_record)

lemma q_reject: "keeps P (reject_flow sess err code content)"
  unfolding reject_flow_def by (intro q_rules)

lemma q_document: "keeps P (fetch_document w address)"
  unfolding fetch_document_def by (intro q_rules)

lemma q_begin: "keeps P (begin_discovery w test_id issuer)"
  unfolding begin_discovery_def
  by (intro q_rules q_document q_refuse) (auto intro: q_refuse split: if_splits)

lemma q_host: "keeps P (host_request_object w ep client_id issuer scp st nonce pkce)"
  unfolding host_request_object_def by (intro q_rules q_token)

lemma q_discover: "keeps P (harness_discover w issuer test_id test_name profile)"
  unfolding harness_discover_def
  by (intro q_rules q_client q_begin q_put_result) (simp add: filed_def final_status_def jget_def)

lemma q_register: "keeps P (harness_register w issuer test_name profile)"
  unfolding harness_register_def by (intro q_rules q_client q_begin)

lemma q_parse: "keeps P (parse_harness_callback w url)"
  unfolding parse_harness_callback_def by (intro q_rules) (auto intro: q_answer split: if_splits)

lemma q_checks:
  "keeps P (check_state sess cb)" "keeps P (check_op_error w sess cb)" "keeps P (validate_fapi2_callback_issuer sess cb d)"
  "keeps P (validate_fapi2_audience w sess claims)"
  unfolding check_state_def check_op_error_def validate_fapi2_callback_issuer_def validate_fapi2_audience_def Let_def
  by (intro q_rules q_reject)+

lemma q_callback_discovery: "keeps P (fetch_and_validate_discovery w sess)"
  unfolding fetch_and_validate_discovery_def Let_def
  by (intro q_rules q_document q_reject) (auto intro: q_reject split: if_splits)

lemma q_redeem: "keeps P (redeem_code w client sess d cb)"
  unfolding redeem_code_def build_auth_code_token_request_def Let_def by (intro q_rules q_reject)

lemma q_validation:
  assumes "\<And>c. tv_reachable env c \<Longrightarrow> tv_reachable env (snd (m c))"
  shows "keeps P (on_validation m)"
  by (rule tripleI)
     (use assms in \<open>fastforce simp: on_validation_def lib_def slift_def split: prod.splits sum.splits intro!: quiet_caches\<close>)+

lemma reachable_validate: "tv_reachable env c \<Longrightarrow> tv_reachable env (snd (validate_token env jwt cfg addr injected c))"
  by (rule tv_reachable.step, assumption) (rule tv_step.validate)

lemma reachable_logout: "tv_reachable env c \<Longrightarrow> tv_reachable env (snd (validate_logout_token env jwt cfg addr injected c))"
  using reachable_validate [of c jwt cfg addr injected]
  by (auto simp: validate_logout_token_def sbnd_def stm_simps split: prod.splits sum.splits)

lemma reachable_clear:
  "tv_reachable env c \<Longrightarrow> tv_reachable env (snd (clear_discovery_cache c))"
  "tv_reachable env c \<Longrightarrow> tv_reachable env (snd (clear_jwks_cache c))"
  by (rule tv_reachable.step, assumption, rule tv_step.intros)+

lemma q_id_token:
  assumes "cw_validation w = env"
  shows "keeps P (check_id_token w sess address d id_token)"
proof -
  have "keeps P (case id_token of
      JStr jwt \<Rightarrow> on_validation (validate_token (cw_validation w) jwt (harness_token_config sess iss) (Some address) False)
    | _ \<Rightarrow> lib (Inl (raise_cls JwtDecodeError ''Invalid token type'')))" for iss
    by (cases id_token) (auto simp: assms intro!: q_lib q_validation reachable_validate)
  then have "keeps P (decode_id_token w sess address iss id_token)" for iss
    unfolding decode_id_token_def by (rule q_except) (auto intro: q_reject split: if_splits)
  then show ?thesis
    unfolding check_id_token_def Let_def by (intro q_rules q_checks q_reject)
qed

lemma q_ask_userinfo: "keeps P (ask_userinfo w c r)"
  unfolding ask_userinfo_def by (intro q_rules) (auto intro: keeps_pure split: if_splits)

lemma q_userinfo: "keeps P (fetch_userinfo w client sess d access_token sub)"
proof -
  have "keeps P (userinfo_outcome w sess r)" for r
    by (cases r) (auto simp: userinfo_outcome_def intro!: q_rules q_reject)
  then show ?thesis
    unfolding fetch_userinfo_def expected_sub_def by (intro q_rules q_ask_userinfo)
qed

lemma q_resource: "keeps P (fetch_fapi2_resource w client sess d access_token)"
  unfolding fetch_fapi2_resource_def resource_request_def Let_def by (intro q_rules q_ask_userinfo)

lemma q_complete:
  assumes "cw_validation w = env"
  shows "keeps P (complete_flow w client cb sess)"
  unfolding complete_flow_def Let_def
  by (intro q_rules q_checks q_callback_discovery q_redeem q_id_token [OF assms] q_userinfo q_resource)

end

section \<open>The sessions\<close>

text \<open>
  A session is filed under its own state and returns to this relying party. A FAPI 2.0 session has a PKCE verifier and no
  client secret, and is bound to a DPoP key exactly when it is not bound to the client certificate; the other sessions
  have neither. It has no result yet.
\<close>

definition session_wf :: "'pk harness_world \<Rightarrow> string \<Rightarrow> auth_session \<Rightarrow> bool" where
  "session_wf w k sess \<longleftrightarrow>
     as_state sess = k \<and> as_redirect_uri sess = cw_base_url w @ ''/callback'' \<and>
     (if as_fapi2 sess
      then as_code_verifier sess \<noteq> None \<and> as_client_secret sess = JStr [] \<and> (as_dpop_key sess = None \<longleftrightarrow> as_mtls sess)
      else as_dpop_key sess = None \<and> \<not> as_mtls sess \<and> \<not> as_jarm sess) \<and>
     jget (as_result sess) ''status'' = JNull"

definition harness_inv :: "'pk harness_world \<Rightarrow> harness \<Rightarrow> bool" where
  "harness_inv w s \<longleftrightarrow>
     tv_reachable (cw_validation w) (hs_caches s) \<and>
     dict_ok (hs_sessions s) \<and> (\<forall>k sess. map_of (hs_sessions s) k = Some sess \<longrightarrow> session_wf w k sess \<and> hs_flow s \<noteq> None) \<and>
     dict_ok (hs_results s) \<and> (\<forall>k sess. map_of (hs_results s) k = Some sess \<longrightarrow> filed k sess)"

interpretation kept: quiet_part "cw_validation w" "harness_inv w" for w
  by unfold_locales (auto simp: harness_inv_def dict_get_set split: if_splits)

interpretation sessions_are: quiet_part env "\<lambda>s. hs_sessions s = S" for env S
  by unfold_locales auto

interpretation flow_is: quiet_part env "\<lambda>s. hs_sessions s = S \<and> hs_flow s = F" for env S F
  by unfold_locales auto

lemma find_session_cases:
  "find_session st s = (r, s') \<Longrightarrow>
     (\<exists>k sess. st = JStr k \<and> map_of (hs_sessions s) k = Some sess \<and> r = Inr sess \<and>
        s' = s\<lparr>hs_sessions := dict_pop k (hs_sessions s)\<rparr>) \<or>
     (\<not> is_ok r \<and> s' = s \<and> (\<forall>k. st = JStr k \<longrightarrow> map_of (hs_sessions s) k = None))"
  by (cases st) (auto simp: find_session_def Let_def sbnd_def stm_simps answer_def lib_def is_ok_def split: option.splits)

lemma find_session_kept: "keeps (harness_inv w) (find_session st)"
proof (rule tripleI)
  have "harness_inv w s'" if "harness_inv w s" "find_session st s = (r, s')" for s r s'
    using find_session_cases [OF that(2)] that(1)
    by (auto simp: harness_inv_def dict_get_pop split: if_splits)
  then show "\<And>s x s'. harness_inv w s \<Longrightarrow> find_session st s = (Inr x, s') \<Longrightarrow> harness_inv w s'"
    "\<And>s e s'. harness_inv w s \<Longrightarrow> find_session st s = (Inl e, s') \<Longrightarrow> harness_inv w s'" by blast+
qed

lemma handle_callback_kept: "keeps (harness_inv w) (handle_callback w url)"
  unfolding handle_callback_def
  by (intro kept.q_rules kept.q_client kept.q_parse kept.q_complete find_session_kept refl)

lemma session_wf_test_id [simp]: "session_wf w k (set_result ''test_id'' t sess) \<longleftrightarrow> session_wf w k sess"
  by (simp add: session_wf_def set_result_def jget_def dict_get_set)

lemma open_session_kept:
  "session_wf w (as_state sess) sess \<Longrightarrow> keeps (harness_inv w) (open_session test_id issuer address sess)"
  unfolding open_session_def by (rule triple_supd) (auto simp: harness_inv_def dict_get_set)

lemma session_of_wf:
  "session_wf w st ((auth_session_of issuer st nonce)\<lparr>as_code_verifier := v, as_client_id := c, as_client_secret := secret,
     as_redirect_uri := cw_base_url w @ ''/callback'', as_skip_userinfo := b, as_test_name := t, as_profile := p\<rparr>)"
  "(key = None \<longleftrightarrow> mtls) \<Longrightarrow>
   session_wf w st ((auth_session_of issuer st nonce)\<lparr>as_code_verifier := Some v', as_client_id := c,
     as_redirect_uri := cw_base_url w @ ''/callback'', as_skip_userinfo := b, as_test_name := t, as_profile := p,
     as_fapi2 := True, as_dpop_key := key, as_mtls := mtls, as_jarm := jarm, as_disco_address := a\<rparr>)"
  by (simp_all add: session_wf_def auth_session_of_def jget_def)

lemma authorize_plain_kept: "keeps (harness_inv w) (authorize_plain w d a q secret)"
proof -
  have "keeps (harness_inv w) (open_session test_id issuer a ((auth_session_of issuer st nonce)\<lparr>as_code_verifier := v, as_client_id := c,
     as_client_secret := secret, as_redirect_uri := cw_base_url w @ ''/callback'', as_skip_userinfo := b, as_test_name := t, as_profile := p\<rparr>))"
    for test_id issuer st nonce v c b t p
    by (rule open_session_kept) (use session_of_wf(1) in \<open>simp add: auth_session_of_def\<close>)
  then show ?thesis
    unfolding authorize_plain_def by (intro kept.q_rules kept.q_token kept.q_host)
qed

lemma key_step:
  "(\<And>key. (key = None \<longleftrightarrow> mtls) \<Longrightarrow> keeps (harness_inv w) (f key)) \<Longrightarrow>
     keeps (harness_inv w) (sbnd (if mtls then sret None else sbnd (new_dpop_key w) (\<lambda>k. sret (Some k))) f)"
proof -
  assume f: "\<And>key. (key = None \<longleftrightarrow> mtls) \<Longrightarrow> keeps (harness_inv w) (f key)"
  have "triple (harness_inv w) (if mtls then sret None else sbnd (new_dpop_key w) (\<lambda>k. sret (Some k)))
      (\<lambda>key s. harness_inv w s \<and> (key = None \<longleftrightarrow> mtls)) (\<lambda>_. harness_inv w)"
    by (auto intro!: triple_if triple_sret triple_sbnd [OF kept.q_token(3)])
  then show ?thesis by (rule triple_sbnd) (rule triple_pre, rule f)
qed

lemma authorize_fapi2_kept: "keeps (harness_inv w) (authorize_fapi2 w client d a q jarm mtls)"
proof -
  have "keeps (harness_inv w) (open_session test_id issuer a ((auth_session_of op_issuer st nonce)\<lparr>as_code_verifier := Some v,
     as_client_id := c, as_redirect_uri := cw_base_url w @ ''/callback'', as_skip_userinfo := b, as_test_name := t, as_profile := p,
     as_fapi2 := True, as_dpop_key := key, as_mtls := mtls, as_jarm := jarm, as_disco_address := a\<rparr>))"
    if "key = None \<longleftrightarrow> mtls" for test_id issuer op_issuer st nonce v c b t p key
    by (rule open_session_kept) (use session_of_wf(2) [OF that] in \<open>simp add: auth_session_of_def\<close>)
  then show ?thesis
    unfolding authorize_fapi2_def Let_def by (intro key_step kept.q_rules kept.q_token kept.q_refuse)
qed

lemma authorize_kept: "keeps (harness_inv w) (harness_authorize w q)"
  unfolding harness_authorize_def Let_def
  by (intro kept.q_rules kept.q_client kept.q_begin kept.q_refuse authorize_fapi2_kept authorize_plain_kept)

lemma backchannel_kept: "keeps (harness_inv w) (receive_backchannel_logout w tok)"
  unfolding receive_backchannel_logout_def Let_def
  by (intro kept.q_rules kept.q_validation kept.reachable_logout) (auto intro: keeps_pure split: if_splits)

lemma logout_kept: "keeps (harness_inv w) (harness_logout w test_name profile send_state)"
  unfolding harness_logout_def Let_def by (intro kept.q_rules kept.q_token)

lemma post_logout_kept: "keeps (harness_inv w) (post_logout_callback st)"
  unfolding post_logout_callback_def by (intro kept.q_rules) (auto intro: keeps_pure split: if_splits)

lemma clear_cache_kept: "keeps (harness_inv w) harness_clear_cache"
  unfolding harness_clear_cache_def by (intro kept.q_rules kept.q_validation kept.reachable_clear)

section \<open>Sequences of requests\<close>

datatype harness_request =
    Ask_Health
  | Ask_Clear_Cache
  | Ask_Fapi2_Jwks
  | Ask_Mtls_Jwks
  | Ask_Discover string string string string
  | Ask_Register string string string
  | Ask_Request_Object string
  | Ask_Authorize auth_query
  | Ask_Callback string
  | Ask_Callback_Post "(string \<times> string) list"
  | Ask_Backchannel_Logout "string option"
  | Ask_Logout string string string
  | Ask_Post_Logout "string option"
  | Ask_Result string

fun serve_harness :: "'pk harness_world \<Rightarrow> harness_request \<Rightarrow> reply hm" where
  "serve_harness w Ask_Health = harness_health"
| "serve_harness w Ask_Clear_Cache = harness_clear_cache"
| "serve_harness w Ask_Fapi2_Jwks = fapi2_jwks w"
| "serve_harness w Ask_Mtls_Jwks = fapi2_mtls_jwks w"
| "serve_harness w (Ask_Discover issuer test_id test_name profile) = harness_discover w issuer test_id test_name profile"
| "serve_harness w (Ask_Register issuer test_name profile) = harness_register w issuer test_name profile"
| "serve_harness w (Ask_Request_Object obj_id) = request_object_reply obj_id"
| "serve_harness w (Ask_Authorize q) = harness_authorize w q"
| "serve_harness w (Ask_Callback url) = handle_callback w url"
| "serve_harness w (Ask_Callback_Post form) = callback_post w form"
| "serve_harness w (Ask_Backchannel_Logout tok) = sbnd (backchannel_logout w tok) (\<lambda>(r, _). sret r)"
| "serve_harness w (Ask_Logout test_name profile send_state) = harness_logout w test_name profile send_state"
| "serve_harness w (Ask_Post_Logout st) = post_logout_callback st"
| "serve_harness w (Ask_Result test_id) = get_result test_id"

text \<open>Each request has a context of its own, in which no test is active yet.\<close>

definition served_by :: "'pk harness_world \<Rightarrow> harness_request \<Rightarrow> harness \<Rightarrow> (halt + reply) \<times> harness" where
  "served_by w q s = serve_harness w q (s\<lparr>hs_active := None\<rparr>)"

inductive harness_run :: "'pk harness_world \<Rightarrow> harness \<Rightarrow> bool" for w where
  start: "\<lbrakk>hs_sessions s = []; hs_results s = []; hs_caches s = tv_init\<rbrakk> \<Longrightarrow> harness_run w s"
| request: "\<lbrakk>harness_run w s; served_by w q s = (r, s')\<rbrakk> \<Longrightarrow> harness_run w s'"

lemma serve_kept: "keeps (harness_inv w) (serve_harness w q)"
proof (cases q)
  case (Ask_Backchannel_Logout tok)
  then show ?thesis
    by (simp add: backchannel_logout_def) (intro kept.q_rules backchannel_kept)
qed (auto simp: harness_health_def fapi2_jwks_def fapi2_mtls_jwks_def request_object_reply_def get_result_def callback_post_def
    intro!: kept.q_rules clear_cache_kept kept.q_discover kept.q_register authorize_kept handle_callback_kept logout_kept
      post_logout_kept)

lemma harness_run_inv: "harness_run w s \<Longrightarrow> harness_inv w s"
proof (induction rule: harness_run.induct)
  case (start s)
  then show ?case by (simp add: harness_inv_def tv_reachable.init dict_ok_def)
next
  case (request s q r s')
  have "harness_inv w (s\<lparr>hs_active := None\<rparr>)" using request.IH by (rule kept.quiet_outside)
  from keepsD [OF serve_kept this, of q] show ?case using request.hyps(2) by (simp add: served_by_def)
qed

section \<open>What a completed flow proves\<close>

text \<open>The response, from the URL or from the signed token in it.\<close>

definition callback_read :: "'pk harness_world \<Rightarrow> flow_context option \<Rightarrow> string \<Rightarrow> callback_response \<Rightarrow> bool" where
  "callback_read w ctx url cb \<longleftrightarrow>
     is_jarm_response url = Inr False \<and> parse_authorize_callback_response url = Inr cb \<or>
     is_jarm_response url = Inr True \<and>
       (\<exists>n. process_jarm_response (te_lib (cw_validation w)) (cw_disco w n) (cw_jarm_jwks w n) url (harness_jarm_request ctx) = Inr cb)"

text \<open>The provider of a session: its document was fetched from the session's issuer, and names it.\<close>

definition op_document :: "'pk harness_world \<Rightarrow> auth_session \<Rightarrow> discovery_endpoint \<Rightarrow> disco_response \<Rightarrow> bool" where
  "op_document w sess ep d \<longleftrightarrow>
     parse_discovery_url (as_issuer sess) = Inr ep \<and>
     (\<exists>n. d = get_discovery_document (cw_disco w n) (ep_url ep) (Some harness_policy)) \<and>
     d_is_successful d \<and> disco_get d ''issuer'' = Inr (JStr (as_issuer sess))"

text \<open>The token request of a session, and the answer of the token endpoint to it.\<close>

definition token_request_of :: "'pk harness_world \<Rightarrow> auth_session \<Rightarrow> string \<Rightarrow> code_request \<Rightarrow> bool" where
  "token_request_of w sess code req \<longleftrightarrow>
     rq_client_id req = as_client_id sess \<and> cr_code req = code \<and> cr_redirect_uri req = as_redirect_uri sess \<and>
     cr_code_verifier req = as_code_verifier sess \<and>
     rq_mtls req = (if as_mtls sess then Some (fapi2_mtls_auth w) else None) \<and>
     rq_private_key_jwt req = (if as_fapi2 sess \<and> \<not> as_mtls sess then Some (fapi2_private_key_jwt w (as_issuer sess)) else None) \<and>
     cr_dpop_key req = (if as_fapi2 sess \<and> \<not> as_mtls sess then as_dpop_key sess else None)"

definition code_redeemed :: "'pk harness_world \<Rightarrow> auth_session \<Rightarrow> string \<Rightarrow> json dict \<Rightarrow> bool" where
  "code_redeemed w sess code token \<longleftrightarrow>
     (\<exists>req n client tok m m'. token_request_of w sess code req \<and>
        request_authorization_code_token (cw_net w) (cw_signing w n) (client_for_session sess client) req m = (Inr tok, m') \<and>
        rs_is_successful tok \<and> tr_token tok = JDict token)"

text \<open>The ID token: a key of the provider verifies it for this client, under the algorithms and claims of the profile.\<close>

definition id_token_verified :: "'pk harness_world \<Rightarrow> auth_session \<Rightarrow> string \<Rightarrow> string \<Rightarrow> json dict \<Rightarrow> bool" where
  "id_token_verified w sess address jwt claims \<longleftrightarrow>
     (\<exists>d key alg pk. disco_from (cw_validation w) address (resolve_discovery_policy None False) d \<and> d_is_successful d \<and>
        key_from (cw_validation w) jwt d key alg \<and> jl_pyjwk (te_lib (cw_validation w)) key alg = Inr pk \<and>
        (as_fapi2 sess \<longrightarrow> alg \<in> JStr ` set FAPI2_ID_TOKEN_ALGS) \<and>
        jl_decode (te_lib (cw_validation w)) jwt pk
          \<lparr>da_audience = Some (as_client_id sess), da_algorithms = [alg], da_issuer = jget (d_attrs d) ''issuer'',
           da_options = Some (fst (id_token_validation_params sess)), da_leeway = JInt 0\<rparr> = Inr claims)"

lemma parse_harness_callback_Inr:
  "parse_harness_callback w url s = (Inr cb, s') \<Longrightarrow>
     callback_read w (hs_flow s) url cb \<and> hs_sessions s' = hs_sessions s \<and> hs_caches s' = hs_caches s"
  unfolding parse_harness_callback_def
  by (drule except_stops) (auto simp: sbnd_Inr stm_simps draw_number_Inr callback_read_def split: if_splits)

lemma check_state_Inr:
  assumes "check_state sess cb s = (Inr u, s')"
  shows "cb_is_successful cb \<and> as_state sess \<noteq> [] \<and> jget (cb_fields cb) ''state'' = JStr (as_state sess) \<and> s' = s"
proof -
  obtain v where v: "validate_authorize_callback_state cb (Some (as_state sess)) = Inr v" "sv_is_valid v" "s' = s"
    using assms by (auto simp: check_state_def sbnd_Inr Let_def sret_def split: if_splits)
  then show ?thesis
    by (cases "jget (cb_fields cb) ''state''"; cases "cb_is_successful cb")
       (auto simp: validate_authorize_callback_state_def sv_error_response_def cb_get_ok sv_failure_def res_splits compare_digest_def
          guarded_get_def split: if_splits)
qed

lemma callback_discovery_Inr:
  "fetch_and_validate_discovery w sess s = (Inr (ep, d), s') \<Longrightarrow>
     op_document w sess ep d \<and> hs_sessions s' = hs_sessions s \<and> hs_caches s' = hs_caches s"
  by (auto simp: fetch_and_validate_discovery_def except_for_Inr sbnd_Inr Let_def fetch_document_def draw_number_Inr
      sret_def op_document_def split: if_splits)

lemma fapi2_issuer_Inr:
  assumes "validate_fapi2_callback_issuer sess cb d s = (Inr u, s')" "disco_get d ''issuer'' = Inr (JStr iss)"
  shows "(as_fapi2 sess \<longrightarrow> cb_get cb ''issuer'' = Inr (JStr iss)) \<and> s' = s"
proof (cases "as_fapi2 sess")
  case True
  then obtain v where v: "validate_authorize_callback_issuer cb (Some iss) False True = Inr v" "sv_is_valid v" "s' = s"
    using assms by (auto simp: validate_fapi2_callback_issuer_def sbnd_Inr Let_def sret_def split: if_splits)
  then show ?thesis
    by (auto simp: validate_authorize_callback_issuer_def sv_error_response_def sv_failure_def res_splits jopt_def split: if_splits)
qed (use assms in \<open>auto simp: validate_fapi2_callback_issuer_def sret_def\<close>)

lemma token_request_Inr:
  "build_auth_code_token_request w sess d code s = (Inr req, s') \<Longrightarrow>
     (as_mtls sess \<longrightarrow> as_fapi2 sess) \<Longrightarrow> token_request_of w sess code req \<and> s' = s"
  by (auto simp: build_auth_code_token_request_def Let_def sbnd_Inr stm_simps token_request_of_def split: if_splits)

lemma redeem_code_Inr:
  assumes "redeem_code w client sess d cb s = (Inr token, s')" "as_mtls sess \<longrightarrow> as_fapi2 sess"
  shows "\<exists>code. cb_get cb ''code'' = Inr (JStr code) \<and> code_redeemed w sess code token \<and>
     hs_sessions s' = hs_sessions s \<and> hs_caches s' = hs_caches s"
  using assms(1)
  by (auto simp: redeem_code_def sbnd_Inr stm_simps draw_number_Inr on_http_Inr code_redeemed_def as_dict_or_raise_def
      dest!: token_request_Inr [OF _ assms(2)] split: if_splits json.splits) blast

lemma validated_accepted:
  assumes "settings_ok (te_settings env)" "tv_reachable env c" "validate_token env jwt cfg addr injected c = (Inr claims, c')"
  shows "accepted env jwt cfg addr claims"
  using triple_Inr [OF validate_token_triple [OF assms(1)] tv_reachable_inv [OF assms(1,2)] assms(3)] by simp

lemma decode_id_token_Inr:
  assumes "settings_ok (te_settings (cw_validation w))" "tv_reachable (cw_validation w) (hs_caches s)"
    and "decode_id_token w sess address iss id_token s = (Inr claims, s')"
  shows "\<exists>jwt. id_token = JStr jwt \<and> id_token_verified w sess address jwt claims \<and> hs_sessions s' = hs_sessions s"
proof -
  let ?c = "harness_token_config sess iss"
  have "(case id_token of
      JStr jwt \<Rightarrow> on_validation (validate_token (cw_validation w) jwt ?c (Some address) False)
    | _ \<Rightarrow> lib (Inl (raise_cls JwtDecodeError ''Invalid token type''))) s = (Inr claims, s')"
    using assms(3) unfolding decode_id_token_def by (drule_tac except_stops) (auto split: if_splits)
  then obtain jwt c' where jwt: "id_token = JStr jwt"
    and run: "validate_token (cw_validation w) jwt ?c (Some address) False (hs_caches s) = (Inr claims, c')"
    and s': "s' = s\<lparr>hs_caches := c'\<rparr>"
    by (cases id_token) (auto simp: on_validation_Inr)
  have c: "perform_disco ?c" "leeway ?c = JNull" "audience ?c = Some (as_client_id sess)" "cfg_discovery_policy ?c = None"
      "cfg_require_https ?c = False" "options ?c = Some (fst (id_token_validation_params sess))"
      "algorithms ?c = snd (id_token_validation_params sess)"
    by (simp_all add: harness_token_config_def default_config_def split: prod.split)
  obtain d key alg pk where d: "disco_from (cw_validation w) address (resolve_discovery_policy None False) d" "d_is_successful d"
      "key_from (cw_validation w) jwt d key alg" "jl_pyjwk (te_lib (cw_validation w)) key alg = Inr pk"
    and al: "\<forall>al. snd (id_token_validation_params sess) = Some al \<longrightarrow> json_mem alg al"
    and dec: "jl_decode (te_lib (cw_validation w)) jwt pk
      \<lparr>da_audience = Some (as_client_id sess), da_algorithms = [alg], da_issuer = jget (d_attrs d) ''issuer'',
       da_options = Some (fst (id_token_validation_params sess)), da_leeway = JInt 0\<rparr> = Inr claims"
    using accepted_decoded_allowed [OF validated_accepted [OF assms(1,2) run] c(1,2)] unfolding c by blast
  have "as_fapi2 sess \<longrightarrow> alg \<in> JStr ` set FAPI2_ID_TOKEN_ALGS"
    using al by (auto simp: id_token_validation_params_def json_mem_def list_ex_iff)
  with d dec have "id_token_verified w sess address jwt claims"
    unfolding id_token_verified_def by blast
  then show ?thesis using jwt s' by simp
qed

lemma validate_fapi2_audience_Inr:
  "validate_fapi2_audience w sess claims s = (Inr u, s') \<Longrightarrow>
     (as_fapi2 sess \<longrightarrow> set (aud_values claims) \<subseteq> {JStr (as_client_id sess)}) \<and> s' = s"
  by (auto simp: validate_fapi2_audience_def Let_def sret_def filter_empty_conv split: if_splits)

text \<open>The identity of a flow: none, when no ID token was issued, or the claims of one that was verified.\<close>

definition identified ::
  "'pk harness_world \<Rightarrow> auth_session \<Rightarrow> discovery_endpoint \<Rightarrow> json \<Rightarrow> json dict \<Rightarrow> bool" where
  "identified w sess ep id_token claims \<longleftrightarrow>
     (if truthy id_token
      then (\<exists>jwt. id_token = JStr jwt \<and> id_token_verified w sess (ep_url ep) jwt claims) \<and>
           jget claims ''nonce'' = JStr (as_nonce sess) \<and>
           (as_fapi2 sess \<longrightarrow> set (aud_values claims) \<subseteq> {JStr (as_client_id sess)})
      else claims = [])"

lemma check_id_token_Inr:
  assumes "settings_ok (te_settings (cw_validation w))" "tv_reachable (cw_validation w) (hs_caches s)"
    and "check_id_token w sess (ep_url ep) d id_token s = (Inr claims, s')"
  shows "identified w sess ep id_token claims \<and> hs_sessions s' = hs_sessions s"
proof (cases "truthy id_token")
  case True
  then obtain iss t where dec: "decode_id_token w sess (ep_url ep) iss id_token s = (Inr claims, t)"
    and nonce: "jget claims ''nonce'' = JStr (as_nonce sess)" and aud: "validate_fapi2_audience w sess claims t = (Inr (), s')"
    using assms(3) by (auto simp: check_id_token_def Let_def sbnd_Inr sret_def split: if_splits)
  show ?thesis
    using decode_id_token_Inr [OF assms(1,2) dec] validate_fapi2_audience_Inr [OF aud] nonce True
    by (auto simp: identified_def)
qed (use assms(3) in \<open>simp add: check_id_token_def sret_def identified_def\<close>)

lemma signed_userinfo_no_claims: "ur_raw (process_userinfo_response x) \<noteq> None \<Longrightarrow> ur_claims (process_userinfo_response x) = JNull"
  by (cases "h_json x")
     (auto simp: process_userinfo_response_def caught_def parse_userinfo_response_def handle_userinfo_error_def split: if_splits)

lemma userinfo_same_subject:
  assumes "get_userinfo W S http_client r n = (Inr ui, n')" "rs_is_successful ui" "truthy (ur_claims ui)" "ui_expected_sub r = Some sub"
  shows "\<exists>u. ur_claims ui = JDict u \<and> jget u ''sub'' = JStr sub"
proof -
  obtain x where x: "validate_userinfo_sub (process_userinfo_response x) (Some sub) = Inr ui"
    using get_userinfo_calls [OF assms(1)] userinfo_flow.success_answered assms(2,4) by fastforce
  note ok = validate_userinfo_sub_ok [OF x assms(2)]
  have "ur_raw (process_userinfo_response x) = None"
    using ok assms(3) signed_userinfo_no_claims [of x] by force
  then show ?thesis using ok by auto
qed

definition same_session :: "auth_session \<Rightarrow> auth_session \<Rightarrow> bool" where
  "same_session sess sess' \<longleftrightarrow> sess' = sess \<or> (\<exists>e. sess' = set_result ''userinfo_error'' e sess)"

lemma expected_sub_Inr: "expected_sub sub s = (Inr e, s') \<longleftrightarrow> sub = jopt e \<and> s' = s"
  by (cases sub; cases e) (auto simp: expected_sub_def jopt_def sbnd_Inr sret_def)

lemma ask_userinfo_Inr:
  "ask_userinfo w c r s = (Inr (Inr ui), s') \<Longrightarrow> \<exists>n m m'. get_userinfo (cw_net w) (cw_signing w n) c r m = (Inr ui, m')"
  by (auto simp: ask_userinfo_def sbnd_Inr except_for_Inr on_http_Inr stm_simps split: if_splits)

lemma fetch_userinfo_Inr:
  assumes "fetch_userinfo w client sess d access_token sub s = (Inr (userinfo, sess'), s')"
  shows "(userinfo = JDict [] \<or> sub = JNull \<or> (\<exists>u. userinfo = JDict u \<and> jget u ''sub'' = sub)) \<and> same_session sess sess'"
proof (cases "userinfo = JDict [] \<and> sess' = sess")
  case False
  then obtain address expected r t t' where sub: "sub = jopt expected"
    and ask: "ask_userinfo w (client_for_session sess client) (session_userinfo_request w sess address access_token expected) t = (Inr r, t')"
    and out: "userinfo_outcome w sess r t' = (Inr (userinfo, sess'), s')"
    using assms by (auto simp: fetch_userinfo_def sbnd_Inr expected_sub_Inr sret_def split: if_splits)
  show ?thesis
  proof (cases r)
    case (Inl e)
    then show ?thesis using out by (auto simp: userinfo_outcome_def sret_def same_session_def)
  next
    case (Inr ui)
    then have ok: "rs_is_successful ui" "userinfo = (if truthy (ur_claims ui) then ur_claims ui else JDict [])" "sess' = sess"
      using out by (auto simp: userinfo_outcome_def sret_def split: if_splits)
    obtain n m m' where call: "get_userinfo (cw_net w) (cw_signing w n) (client_for_session sess client)
        (session_userinfo_request w sess address access_token expected) m = (Inr ui, m')"
      using ask_userinfo_Inr ask Inr by blast
    show ?thesis
      using userinfo_same_subject [OF call ok(1)] ok(2,3) sub
      by (cases expected) (auto simp: session_userinfo_request_def jopt_def same_session_def)
  qed
qed (simp add: same_session_def)

definition result_filed :: "auth_session \<Rightarrow> json dict \<Rightarrow> harness \<Rightarrow> bool" where
  "result_filed sess claims s \<longleftrightarrow>
     (\<forall>k. jget (as_result sess) ''test_id'' = JStr k \<and> k \<noteq> [] \<longrightarrow>
        (\<exists>done. map_of (hs_results s) k = Some done \<and> jget (as_result done) ''status'' = JStr ''success'' \<and>
           jget (as_result done) ''id_token_claims'' = JDict claims))"

lemma logged_in_filed:
  assumes "same_session sess sess'" "store_test_result (logged_in idt es claims ui acc sess') t = (Inr u, s')"
  shows "result_filed sess claims s'"
proof -
  have "jget (as_result (logged_in idt es claims ui acc sess')) ''test_id'' = jget (as_result sess) ''test_id''"
    using assms(1) by (auto simp: same_session_def result_simps)
  then show ?thesis
    using assms(2) by (auto simp: result_filed_def store_test_result_def put_result_def stm_simps dict_get_set) (auto simp: result_simps)
qed

definition flow_proved ::
  "'pk harness_world \<Rightarrow> callback_response \<Rightarrow> auth_session \<Rightarrow> json dict \<Rightarrow> json dict \<Rightarrow> bool" where
  "flow_proved w cb sess claims userinfo \<longleftrightarrow>
     cb_is_successful cb \<and> as_state sess \<noteq> [] \<and> jget (cb_fields cb) ''state'' = JStr (as_state sess) \<and>
     (\<exists>ep d code token.
        op_document w sess ep d \<and> (as_fapi2 sess \<longrightarrow> cb_get cb ''issuer'' = Inr (JStr (as_issuer sess))) \<and>
        cb_get cb ''code'' = Inr (JStr code) \<and> code_redeemed w sess code token \<and>
        identified w sess ep (jget token ''id_token'') claims) \<and>
     (userinfo = [] \<or> jget claims ''sub'' = JNull \<or> jget userinfo ''sub'' = jget claims ''sub'')"

lemma check_op_error_Inr: "check_op_error w sess cb s = (Inr u, s') \<Longrightarrow> s' = s"
  by (auto simp: check_op_error_def sbnd_Inr sret_def split: if_splits)

lemma complete_flow_Inr:
  assumes "settings_ok (te_settings (cw_validation w))" "tv_reachable (cw_validation w) (hs_caches s)"
    and wf: "as_mtls sess \<longrightarrow> as_fapi2 sess"
    and "complete_flow w client cb sess s = (Inr r, s')"
  shows "\<exists>claims userinfo. flow_proved w cb sess claims userinfo \<and> result_filed sess claims s' \<and>
     r = Html 200 (success_page w claims userinfo)"
proof -
  obtain ep d token claims ui sess' es s1 s2 s3 s4 s5 s6 s7 u1 u2 u3 u where
    st: "check_state sess cb s = (Inr u1, s1)" and "check_op_error w sess cb s1 = (Inr u2, s2)"
    and d: "fetch_and_validate_discovery w sess s2 = (Inr (ep, d), s3)"
    and iss: "validate_fapi2_callback_issuer sess cb d s3 = (Inr u3, s4)"
    and code: "redeem_code w client sess d cb s4 = (Inr token, s5)"
    and idt: "check_id_token w sess (ep_url ep) d (jget token ''id_token'') s5 = (Inr claims, s6)"
    and ui: "fetch_userinfo w client sess d (jget token ''access_token'') (jget claims ''sub'') s6 = (Inr (ui, sess'), s7)"
    and store: "\<exists>es t u. store_test_result (logged_in (text_of (jget token ''id_token'')) es claims ui (jget token ''access_token'') sess') t
       = (Inr u, s')"
    and page: "as_dict_or_raise ui = Inr u" "r = Html 200 (success_page w claims u)"
    using assms(4) unfolding complete_flow_def Let_def
    by (clarsimp simp: sbnd_Inr sret_def supd_def) blast
  have st': "cb_is_successful cb" "as_state sess \<noteq> []" "jget (cb_fields cb) ''state'' = JStr (as_state sess)" "s2 = s"
    using check_state_Inr [OF st] check_op_error_Inr \<open>check_op_error w sess cb s1 = (Inr u2, s2)\<close> by blast+
  have doc: "op_document w sess ep d" "hs_caches s3 = hs_caches s"
    using callback_discovery_Inr [OF d] st'(4) by auto
  then have iss': "as_fapi2 sess \<longrightarrow> cb_get cb ''issuer'' = Inr (JStr (as_issuer sess))" "s4 = s3"
    using fapi2_issuer_Inr [OF iss] by (auto simp: op_document_def)
  obtain x where x: "cb_get cb ''code'' = Inr (JStr x)" "code_redeemed w sess x token" "hs_caches s5 = hs_caches s"
    using redeem_code_Inr [OF code wf] doc(2) iss'(2) by auto
  have ident: "identified w sess ep (jget token ''id_token'') claims"
    using check_id_token_Inr [OF assms(1) _ idt] assms(2) x(3) by simp
  have "u = [] \<or> jget claims ''sub'' = JNull \<or> jget u ''sub'' = jget claims ''sub''"
    using fetch_userinfo_Inr [OF ui] page(1) by (auto simp: as_dict_or_raise_def)
  then have "flow_proved w cb sess claims u"
    unfolding flow_proved_def using st' doc(1) iss'(1) x(1,2) ident by blast
  moreover have "result_filed sess claims s'"
    using store logged_in_filed fetch_userinfo_Inr [OF ui] by blast
  ultimately show ?thesis using page(2) by blast
qed

lemma get_client_Inr:
  "get_harness_client w s = (Inr c, s') \<Longrightarrow> hs_flow s' = hs_flow s \<and> hs_sessions s' = hs_sessions s \<and> hs_caches s' = hs_caches s"
  by (auto simp: get_harness_client_def sbnd_Inr stm_simps split: option.splits)


section \<open>A flow is used once\<close>

definition popped :: "auth_session dict \<Rightarrow> harness \<Rightarrow> bool" where
  "popped S s \<longleftrightarrow> (\<exists>k sess. map_of S k = Some sess \<and> hs_sessions s = dict_pop k S)"

lemma callback_pops:
  "triple (\<lambda>s. hs_sessions s = S) (handle_callback w url) (\<lambda>_. popped S) (\<lambda>_ s. hs_sessions s = S \<or> popped S s)"
proof -
  let ?E = "\<lambda>(_ :: halt) s. hs_sessions s = S \<or> popped S s"
  have quiet: "triple (\<lambda>s. hs_sessions s = S) m (\<lambda>_ s. hs_sessions s = S) ?E"
    if "keeps (\<lambda>s. hs_sessions s = S) m" for m :: "'z hm"
    by (rule triple_conseq [OF that]) auto
  have found: "triple (\<lambda>s. hs_sessions s = S) (find_session st) (\<lambda>_. popped S) ?E" for st
  proof (rule tripleI)
    show "popped S s'" if "hs_sessions s = S" "find_session st s = (Inr x, s')" for s x s'
      using find_session_cases [OF that(2)] that(1) by (auto simp: popped_def is_ok_def)
    show "?E e s'" if "hs_sessions s = S" "find_session st s = (Inl e, s')" for s e s'
      using find_session_cases [OF that(2)] that(1) by auto
  qed
  have rest: "triple (popped S) m (\<lambda>_. popped S) ?E" if m: "\<And>S'. keeps (\<lambda>s. hs_sessions s = S') m" for m :: "'z hm"
  proof (rule tripleI)
    have same: "popped S (snd (m s))" if "popped S s" for s
      using keepsD [OF m [of "hs_sessions s"]] that by (simp add: popped_def)
    show "popped S s'" if "popped S s" "m s = (Inr x, s')" for s x s' using same [OF that(1)] that(2) by simp
    show "?E e s'" if "popped S s" "m s = (Inl e, s')" for s e s' using same [OF that(1)] that(2) by simp
  qed
  show ?thesis
    unfolding handle_callback_def
    by (intro triple_sbnd [OF quiet [OF sessions_are.q_client]] triple_sbnd [OF quiet [OF sessions_are.q_parse]]
        triple_sbnd [OF quiet [OF sessions_are.q_lib]] triple_sbnd [OF found] triple_sbnd [OF rest]
        rest sessions_are.q_upd sessions_are.q_complete [OF refl])
qed

definition unknown_state :: halt where
  "unknown_state = Answer (Html 400 (page ''Error'' ''Unknown or missing state parameter''))"

text \<open>A response for a state no flow waits under.\<close>

lemma unknown_refused:
  assumes "is_jarm_response url = Inr False" "parse_authorize_callback_response url = Inr cb" "cb_get cb ''state'' = Inr (JStr k)"
    and "map_of (hs_sessions s) k = None" "cw_client_built w = Inr ()"
  shows "fst (served_by w (Ask_Callback url) s) = Inl unknown_state"
proof -
  obtain client t where c: "get_harness_client w (s\<lparr>hs_active := None\<rparr>) = (Inr client, t)" "hs_sessions t = hs_sessions s"
    using assms(5) by (cases "hs_client s") (auto simp: get_harness_client_def sbnd_def stm_simps managed_init_def lib_def)
  have "parse_harness_callback w url t = (Inr cb, t)"
    using assms(1,2) by (simp add: parse_harness_callback_def except_for_def scatch_def sbnd_def lib_def stm_simps)
  moreover have "find_session (JStr k) t = (Inl unknown_state, t)"
    using assms(4) c(2) by (simp add: find_session_def sbnd_def stm_simps answer_def unknown_state_def)
  ultimately show ?thesis
    using c(1) assms(3) by (simp add: served_by_def handle_callback_def sbnd_def lib_def stm_simps)
qed

text \<open>C37: The state of the conformance relying party is well formed in every sequence of requests: each waiting flow is filed
  under its own state, returns to this relying party, has no result yet and, under FAPI 2.0, has a PKCE verifier and no
  shared secret and is bound to a DPoP key or to the client certificate; every filed result is final and under its own
  test. A callback that succeeds takes exactly one flow out, one that does not takes out at most one, and a further
  response for that state is refused.\<close>

theorem harness_flows_wf:
  assumes "harness_run w s"
  shows "(\<forall>k sess. map_of (hs_sessions s) k = Some sess \<longrightarrow> session_wf w k sess \<and> hs_flow s \<noteq> None) \<and>
    (\<forall>k sess. map_of (hs_results s) k = Some sess \<longrightarrow> filed k sess) \<and>
    (\<forall>url r s'. served_by w (Ask_Callback url) s = (r, s') \<longrightarrow>
       \<not> is_ok r \<and> hs_sessions s' = hs_sessions s \<or>
       (\<exists>k sess. map_of (hs_sessions s) k = Some sess \<and> hs_sessions s' = dict_pop k (hs_sessions s) \<and>
          (\<forall>url' cb. is_jarm_response url' = Inr False \<and> parse_authorize_callback_response url' = Inr cb \<and>
             cb_get cb ''state'' = Inr (JStr k) \<and> cw_client_built w = Inr () \<longrightarrow>
             fst (served_by w (Ask_Callback url') s') = Inl unknown_state)))"
proof (intro conjI)
  show "\<forall>k sess. map_of (hs_sessions s) k = Some sess \<longrightarrow> session_wf w k sess \<and> hs_flow s \<noteq> None"
    "\<forall>k sess. map_of (hs_results s) k = Some sess \<longrightarrow> filed k sess"
    using harness_run_inv [OF assms] by (simp_all add: harness_inv_def)
  show "\<forall>url r s'. served_by w (Ask_Callback url) s = (r, s') \<longrightarrow>
       \<not> is_ok r \<and> hs_sessions s' = hs_sessions s \<or>
       (\<exists>k sess. map_of (hs_sessions s) k = Some sess \<and> hs_sessions s' = dict_pop k (hs_sessions s) \<and>
          (\<forall>url' cb. is_jarm_response url' = Inr False \<and> parse_authorize_callback_response url' = Inr cb \<and>
             cb_get cb ''state'' = Inr (JStr k) \<and> cw_client_built w = Inr () \<longrightarrow>
             fst (served_by w (Ask_Callback url') s') = Inl unknown_state))"
  proof (intro allI impI)
    fix url r s'
    assume "served_by w (Ask_Callback url) s = (r, s')"
    then have run: "handle_callback w url (s\<lparr>hs_active := None\<rparr>) = (r, s')" by (simp add: served_by_def)
    have "\<not> is_ok r \<and> hs_sessions s' = hs_sessions s \<or> popped (hs_sessions s) s'"
    proof (cases r)
      case (Inl e)
      then show ?thesis using triple_Inl [OF callback_pops _ run [unfolded Inl], of "hs_sessions s"] by (simp add: is_ok_def)
    next
      case (Inr x)
      then show ?thesis using triple_Inr [OF callback_pops _ run [unfolded Inr], of "hs_sessions s"] by simp
    qed
    then show "\<not> is_ok r \<and> hs_sessions s' = hs_sessions s \<or>
       (\<exists>k sess. map_of (hs_sessions s) k = Some sess \<and> hs_sessions s' = dict_pop k (hs_sessions s) \<and>
          (\<forall>url' cb. is_jarm_response url' = Inr False \<and> parse_authorize_callback_response url' = Inr cb \<and>
             cb_get cb ''state'' = Inr (JStr k) \<and> cw_client_built w = Inr () \<longrightarrow>
             fst (served_by w (Ask_Callback url') s') = Inl unknown_state))"
      using unknown_refused [of _ _ _ s' w] by (fastforce simp: popped_def dict_get_pop)
  qed
qed

end
