(* ===== verification/Conformance_Logout.thy ===== *)
theory Conformance_Logout
  imports Conformance_Runs
begin

text \<open>
  The logout routes of the conformance relying party, the pages it shows, the files it logs to, and the places where it
  does not do what its comments say.
\<close>

section \<open>Back-channel logout\<close>

lemma logout_run_accepted:
  assumes "settings_ok (te_settings env)" "tv_reachable env c" "validate_logout_token env jwt cfg addr injected c = (Inr claims, c')"
  shows "accepted env jwt cfg addr claims \<and> validate_logout_token_claims claims = Inr ()"
  using assms(3) validated_accepted [OF assms(1,2)]
  by (auto simp: validate_logout_token_def sbnd_def stm_simps split: prod.splits sum.splits)

text \<open>What the receiver makes of the outcome of the validation.\<close>

definition backchannel_answer :: "json dict res \<Rightarrow> halt + reply" where
  "backchannel_answer r =
     (case r of
        Inr _ \<Rightarrow> Inr (Json_Reply 200 (JDict [(''status'', JStr ''ok'')]))
      | Inl e \<Rightarrow>
          if exn_isinstance e PyIdentityModelException
          then Inr (Json_Reply 400 (json_error ''invalid_logout_token'' (JStr (exn_message e))))
          else if exn_isinstance e PyJWTError
          then Inr (Json_Reply 400 (json_error ''invalid_logout_token'' (JStr ''malformed token'')))
          else Inl (Raised e))"

lemma library_subclasses:
  "exn_isinstance e LogoutTokenValidationException \<Longrightarrow> exn_isinstance e PyIdentityModelException"
  "exn_isinstance e TokenValidationException \<Longrightarrow> exn_isinstance e PyIdentityModelException"
  by (cases "exn_class e"; simp add: exn_isinstance_def subclass_of_library subclass_of_base subclass_of_top)+

lemma backchannel_validated:
  assumes "hs_flow s = Some flow" "t \<noteq> []"
  shows "receive_backchannel_logout w (Some t) s =
    (let (r, c) = validate_logout_token (cw_validation w) t (logout_token_config flow) (Some (fc_disco_address flow)) False (hs_caches s)
     in (backchannel_answer r, s\<lparr>hs_caches := c\<rparr>))"
  using assms library_subclasses
  by (auto simp: receive_backchannel_logout_def Let_def sbnd_def stm_simps except_for_def scatch_def on_validation_def lib_def
      backchannel_answer_def split: prod.splits sum.splits)

text \<open>C38: The back-channel logout receiver answers 200 only to a logout token. In every reachable state it changes nothing but
  the caches; without a token, or before any flow, it answers 400; otherwise the answer is decided by the validation of the
  token under the issuer, the client and the provider of the last flow: 200 when it accepts, and then the claims decoded
  under a key of that provider and obey the logout rules; 400 for every exception of the library and of PyJWT; and no
  other exception is turned into an answer.\<close>

theorem backchannel_logout_exact:
  assumes "settings_ok (te_settings (cw_validation w))" "harness_run w s"
    and "served_by w (Ask_Backchannel_Logout tok) s = (r, s')"
  shows "s' = s\<lparr>hs_active := None, hs_caches := hs_caches s'\<rparr> \<and>
    (case (some_if_text (opt_or tok []), hs_flow s) of
       (Some t, Some flow) \<Rightarrow>
         (case validate_logout_token (cw_validation w) t (logout_token_config flow) (Some (fc_disco_address flow)) False (hs_caches s) of
            (v, c) \<Rightarrow> r = backchannel_answer v \<and> hs_caches s' = c \<and>
              (\<forall>claims. v = Inr claims \<longrightarrow> validate_logout_token_claims claims = Inr () \<and>
                 accepted (cw_validation w) t (logout_token_config flow) (Some (fc_disco_address flow)) claims))
     | _ \<Rightarrow> \<exists>err detail. r = Inr (Json_Reply 400 (json_error err (JStr detail))))"
proof -
  let ?s = "s\<lparr>hs_active := None\<rparr>"
  have run: "receive_backchannel_logout w tok ?s = (r, s')"
    using assms(3) by (cases "receive_backchannel_logout w tok ?s")
      (auto simp: served_by_def backchannel_logout_def sbnd_def stm_simps split: sum.splits)
  show ?thesis
  proof (cases "opt_truthy tok \<and> hs_flow s \<noteq> None")
    case False
    then show ?thesis
      using run by (cases tok; cases "hs_flow s")
        (auto simp: receive_backchannel_logout_def Let_def sbnd_def stm_simps some_if_text_def opt_or_def split: if_splits)
  next
    case True
    then obtain t flow where t: "tok = Some t" "t \<noteq> []" "hs_flow s = Some flow" by (auto simp: opt_truthy_iff)
    obtain v c where v: "validate_logout_token (cw_validation w) t (logout_token_config flow) (Some (fc_disco_address flow)) False
        (hs_caches s) = (v, c)" by fastforce
    have "r = backchannel_answer v" "s' = ?s\<lparr>hs_caches := c\<rparr>"
      using run backchannel_validated [of ?s flow t w] t v by simp_all
    moreover have "tv_reachable (cw_validation w) (hs_caches s)"
      using harness_run_inv [OF assms(2)] by (simp add: harness_inv_def)
    ultimately show ?thesis
      using t logout_run_accepted [OF assms(1)] v by (auto simp: some_if_text_def opt_or_def)
  qed
qed

section \<open>Logout by the relying party\<close>

definition accepted_page :: reply where
  "accepted_page = Html 200 (page ''Logout Successful'' ''State validated.'')"

lemma post_logout_exact:
  "fst (served_by w (Ask_Post_Logout st) s) = Inr accepted_page \<longleftrightarrow>
     (\<exists>t. hs_logout_state s = Some t \<and> st = Some t \<and> t \<noteq> [] \<and> py_isascii t)"
proof -
  have code: "Html 400 a \<noteq> accepted_page" for a by (simp add: accepted_page_def)
  show ?thesis
    by (cases "hs_logout_state s"; cases st)
       (auto simp: served_by_def post_logout_callback_def sbnd_def stm_simps except_for_def scatch_def lib_def accepted_page_def
          validate_post_logout_state_def compare_digest_def guard_raise_def exn_isinstance_def subclass_of_base subclass_of_top
          split: sum.splits if_splits)
qed

text \<open>The state of a logout, and what a logout that was started leaves.\<close>

definition logout_state :: "'pk harness_world \<Rightarrow> string \<Rightarrow> harness \<Rightarrow> string option" where
  "logout_state w send_state s = (if says_true send_state then Some (cw_token_urlsafe w (hs_draws s)) else None)"

lemma logout_started:
  assumes "served_by w (Ask_Logout test_name profile send_state) s = (Inr (Redirect_To url), s')"
  shows "\<exists>c endpoint. hs_logout s = Some c \<and> lc_end_session_endpoint c = JStr endpoint \<and>
    build_end_session_url (harness_end_session w c endpoint (logout_state w send_state s)) = Inr url \<and>
    hs_logout_state s' = logout_state w send_state s"
proof (cases "hs_logout s")
  case None
  then show ?thesis
    using assms by (auto simp: served_by_def harness_logout_def sbnd_Inr sget_def set_active_test_def supd_def)
next
  case (Some c)
  then show ?thesis
    using assms by (auto simp: served_by_def harness_logout_def Let_def sbnd_Inr sret_def sget_def set_active_test_def supd_def
        token_urlsafe_def draw_number_Inr logout_state_def split: if_splits)
qed

lemma harness_end_session_params:
  "map_of (end_session_params (harness_end_session w c endpoint st)) ''state'' = st"
  "map_of (end_session_params (harness_end_session w c endpoint st)) ''id_token_hint'' = some_if_text (lc_id_token c)"
  "map_of (end_session_params (harness_end_session w c endpoint st)) ''post_logout_redirect_uri''
     = Some (cw_base_url w @ ''/post-logout-callback'')"
  "end_session_params (harness_end_session w c endpoint st) \<noteq> []"
  by (auto simp: end_session_params_def harness_end_session_def add_param_get dict_update_def intro: add_param_nonempty)
     (simp add: add_param_def split: option.splits)+


text \<open>
  The comment of \<open>/logout\<close> says that without a state the round trip expects none back. The return is refused whatever it
  carries.
\<close>

theorem stateless_logout_refused:
  assumes "served_by w (Ask_Logout test_name profile send_state) s = (Inr (Redirect_To url), s')" "\<not> says_true send_state"
  shows "fst (served_by w (Ask_Post_Logout None) s') = Inr (Html 400 (page ''Logout State Validation Failed''
     (html_escape ''Expected logout state is missing or empty (session may have expired)'')))"
proof -
  have "hs_logout_state s' = None"
    using logout_started [OF assms(1)] assms(2) by (auto simp: logout_state_def)
  then show ?thesis
    by (simp add: served_by_def post_logout_callback_def sbnd_def stm_simps except_for_def scatch_def lib_def
        validate_post_logout_state_def exn_isinstance_def subclass_of_base subclass_of_top)
qed

section \<open>Log files\<close>

definition safe_segment :: "string \<Rightarrow> bool" where
  "safe_segment seg \<longleftrightarrow> seg \<noteq> [] \<and> list_all path_char seg \<and> \<not> list_all (\<lambda>c. c = CHR ''.'') seg"

lemma sanitize_safe: "safe_segment fallback \<Longrightarrow> safe_segment (sanitize_path_component value fallback)"
  by (auto simp: sanitize_path_component_def safe_segment_def Let_def list_all_iff path_char_def)

lemma sanitize_id: "safe_segment value \<Longrightarrow> sanitize_path_component value fallback = value"
proof -
  assume safe: "safe_segment value"
  then have "map (\<lambda>c. if path_char c then c else CHR ''_'') value = value"
    by (intro map_idI) (auto simp: safe_segment_def list_all_iff)
  then show ?thesis using safe by (simp add: sanitize_path_component_def safe_segment_def)
qed

lemma safe_segment_resolves:
  assumes "safe_segment seg"
  shows "py_split (CHR ''/'') seg = [seg]" "seg \<notin> {[], ''.'', ''..''}"
    and "py_split (CHR ''/'') (seg @ ''.log'') = [seg @ ''.log'']" "seg @ ''.log'' \<notin> {[], ''.'', ''..''}"
proof -
  have "CHR ''/'' \<notin> set seg"
    using assms by (auto simp: safe_segment_def list_all_iff path_char_def is_ascii_alpha_def is_ascii_digit_def)
  then show "py_split (CHR ''/'') seg = [seg]" "py_split (CHR ''/'') (seg @ ''.log'') = [seg @ ''.log'']"
    by (simp_all add: py_split_single)
  show "seg \<notin> {[], ''.'', ''..''}" using assms by (auto simp: safe_segment_def)
  show "seg @ ''.log'' \<notin> {[], ''.'', ''..''}" by (cases seg) auto
qed

text \<open>C40: Request parameters cannot choose a file outside the log directory. For every profile and test name the log path is a
  file in a directory directly below the resolved base, each named by one segment of allowed characters that is not made
  of dots, and names that are such segments already are kept; the containment check that follows never fails.\<close>

theorem log_path_contained:
  "\<exists>p t. rp_log_path log_base profile test_name = Inr (resolve_onto [] log_base @ [p, t @ ''.log'']) \<and>
     safe_segment p \<and> safe_segment t \<and>
     (p = profile \<longleftrightarrow> safe_segment profile) \<and> (t = test_name \<longleftrightarrow> safe_segment test_name)"
proof -
  let ?p = "sanitize_path_component profile ''default''" and ?t = "sanitize_path_component test_name ''unknown''"
  have "safe_segment ''default''" "safe_segment ''unknown''" by code_simp+
  then have safe: "safe_segment ?p" "safe_segment ?t" by (simp_all add: sanitize_safe)
  have "rp_log_path log_base profile test_name = Inr (resolve_onto [] log_base @ [?p, ?t @ ''.log''])"
    using safe_segment_resolves [OF safe(1)] safe_segment_resolves [OF safe(2)]
    by (simp add: rp_log_path_def Let_def)
  then show ?thesis using safe sanitize_id by metis
qed

section \<open>Pages\<close>

definition is_markup :: "char \<Rightarrow> bool" where
  "is_markup c \<longleftrightarrow> c \<in> {CHR ''<'', CHR ''>''}"

lemma escape_no_markup [simp]: "filter is_markup (html_escape s) = []"
  by (induction s) (auto simp: html_escape_def html_escape_char_def is_markup_def)

lemma filter_py_join: "\<not> P c \<Longrightarrow> filter P (py_join [c] ss) = concat (map (filter P) ss)"
  by (induction "[c]" ss rule: py_join.induct) auto

text \<open>The tags of the success page, each element opened and closed.\<close>

definition success_tags :: "nat \<Rightarrow> string" where
  "success_tags n = concat (replicate (3 + (if n = 0 then 0 else Suc n)) ''<><>'')"

text \<open>Nothing the provider sends becomes markup: the tags of the page depend on the number of UserInfo claims only.\<close>

theorem success_page_markup: "filter is_markup (success_page w claims userinfo) = success_tags (length userinfo)"
proof -
  have one: "filter is_markup (''<p>'' @ a @ html_escape b @ ''</p>'') = ''<>'' @ filter is_markup a @ ''<>''" for a b
    by (simp add: is_markup_def)
  have item: "map (filter is_markup \<circ> (\<lambda>(k, v). ''<p>'' @ html_escape k @ '': '' @ html_escape (shown w v) @ ''</p>'')) userinfo
      = replicate (length userinfo) ''<><>''"
  proof (induction userinfo)
    case (Cons kv kvs)
    have "filter is_markup (''<p>'' @ html_escape (fst kv) @ '': '' @ html_escape (shown w (snd kv)) @ ''</p>'') = ''<><>''"
      using one [of "html_escape (fst kv) @ '': ''"] by (simp add: is_markup_def)
    then show ?case using Cons.IH by (simp only: list.map comp_def case_prod_beta length_Cons replicate_Suc)
  qed simp
  show ?thesis
    using item by (cases "userinfo = []")
      (auto simp: success_page_def success_tags_def filter_py_join is_markup_def numeral_3_eq_3)
qed

section \<open>Failures that are not reported as such\<close>

text \<open>
  The branch for an error response of the provider is never reached: the state check before it refuses every response that
  is not successful, so neither the error nor its description is recorded.
\<close>

theorem op_error_not_recorded:
  assumes "\<not> cb_is_successful cb"
  shows "complete_flow w client cb sess s = reject_flow sess (JStr ''state_validation: error_response'') 400
     (page ''State Validation Failed'' (html_escape ''error_response'')) s"
proof -
  obtain v where "validate_authorize_callback_state cb (Some (as_state sess)) = Inr v" "\<not> sv_is_valid v" "sv_result v = ERROR_RESPONSE"
    using assms by (auto simp: validate_authorize_callback_state_def sv_error_response_def cb_get_def guarded_get_def callback_guarded_def
        error_fields_def)
  then have "check_state sess cb s = reject_flow sess (JStr ''state_validation: error_response'') 400
     (page ''State Validation Failed'' (html_escape ''error_response'')) s"
    by (simp add: check_state_def sbnd_def lib_def stm_simps verdict_value_def Let_def)
  then show ?thesis
    by (cases "store_test_result (failed_result (JStr ''state_validation: error_response'') sess) s")
       (auto simp: complete_flow_def sbnd_def reject_flow_def answer_def slift_def split: sum.splits)
qed

text \<open>
  An ID token whose validation ends in another exception than a \<open>TokenValidationException\<close>, as PyJWT's for a token that is
  no JWT, leaves the flow without an answer and the test without a result.
\<close>

theorem unreadable_id_token_unrecorded:
  assumes "fst (validate_token (cw_validation w) jwt (harness_token_config sess iss) (Some address) False (hs_caches s)) = Inl e"
    and "\<not> exn_isinstance e TokenValidationException"
  shows "fst (decode_id_token w sess address iss (JStr jwt) s) = Inl (Raised e) \<and>
     hs_results (snd (decode_id_token w sess address iss (JStr jwt) s)) = hs_results s"
  using assms by (auto simp: decode_id_token_def except_for_def scatch_def on_validation_def lib_def slift_def
      split: prod.splits sum.splits)

end
