(* ===== verification/Conformance_Examples.thy ===== *)
theory Conformance_Examples
  imports Conformance_Logout Login_Router
begin

text \<open>
  A provider and a conformance relying party on which the properties of the harness are applied: a flow is
  started, completed and logged out.
\<close>

definition op_document_of :: "json dict" where
  "op_document_of = example_document @ [(''authorization_endpoint'', JStr ''https://op.example/authorize''),
     (''end_session_endpoint'', JStr ''https://op.example/logout'')]"

definition op_http :: http_response where
  "op_http = example_disco_http\<lparr>h_json := Inr (JDict op_document_of)\<rparr>"

definition op_world :: http_world where
  "op_world = example_world\<lparr>w_get := (\<lambda>_ _. Inr op_http)\<rparr>"

definition conf_world :: "unit harness_world" where
  "conf_world =
     \<lparr>cw_base_url = ''https://rp'', cw_internal_base_url = ''https://rp'', cw_client_built = Inr (), cw_disco = (\<lambda>_. op_world),
      cw_jarm_jwks = (\<lambda>_. op_world), cw_net = example_net\<lparr>nw_send := (\<lambda>_ _ _. Inr token_http)\<rparr>,
      cw_json_net = \<lparr>nw_env = empty_env, nw_parsedate = (\<lambda>_. None), nw_clock = (\<lambda>_. 0), nw_send = (\<lambda>_ _ _. Inr token_http),
         nw_client_context = (\<lambda>_. Inr ()), nw_mtls_context = (\<lambda>_ _. Inr ())\<rparr>,
      cw_signing = (\<lambda>_. example_signing), cw_token_urlsafe = (\<lambda>n. if n = 1 then ''s1'' else ''n1''), cw_pkce_bytes = (\<lambda>_ _. []),
      cw_dpop_keys = (\<lambda>_ _. ([], RsaPublic 1 1)), cw_validation = decoding_env login_claims, cw_float_text = (\<lambda>_. []),
      cw_rp_private_key = [], cw_rp_jwks = JNull, cw_rp_kid = [], cw_fapi2_key = \<lparr>dk_algorithm = [], dk_private_pem = [],
      dk_public = RsaPublic 1 1\<rparr>, cw_mtls_certificate = [], cw_mtls_private_key = [], cw_mtls_jwks = JNull\<rparr>"

definition first_query :: auth_query where
  "first_query = \<lparr>aq_issuer = ''https://op.example'', aq_client_id = ''app'', aq_client_secret = [], aq_test_id = ''t1'',
     aq_test_name = [], aq_profile = [], aq_use_pkce = ''false'', aq_skip_userinfo = ''false'', aq_use_request_uri = ''false'',
     aq_scope = ''openid'', aq_fapi2 = ''false'', aq_jarm = ''false'', aq_mtls = ''false''\<rparr>"

definition new_harness :: harness where
  "new_harness = \<lparr>hs_client = None, hs_sessions = [], hs_results = [], hs_request_objects = [], hs_flow = None, hs_logout = None,
     hs_logout_state = None, hs_registered = None, hs_active = None, hs_net = idle_net,
     hs_json_net = \<lparr>ns_thread_client = True, ns_trace = [], ns_responses = 0, ns_response = None, ns_owned = False\<rparr>,
     hs_caches = tv_init, hs_draws = 0\<rparr>"

abbreviation op_response :: disco_response where
  "op_response \<equiv> build_discovery_response op_document_of None"

lemma op_discovery: "get_discovery_document op_world example_address (Some harness_policy) = op_response"
proof -
  have f: "fetch op_world example_address = Inr op_http"
    by (rule fetch_first [where n = 3 and b = "Fin 1"])
       (simp_all add: op_world_def op_http_def example_world_def get_retry_config_default is_success_def example_disco_http_def)
  have "validate_url_scheme example_address harness_policy = Inr ()" "is_success op_http"
    "header_get op_http ''cache-control'' = None"
    "validate_and_parse_discovery_response op_http (Some harness_policy) = Inr op_document_of"
    by code_simp+
  then show ?thesis
    using f by (simp add: get_discovery_document_def effective_policy_def
        process_discovery_response_def process_successful_response_def)
qed

lemma op_attributes:
  "d_is_successful op_response" "disco_get op_response ''issuer'' = Inr (JStr ''https://op.example'')"
  "disco_get op_response ''authorization_endpoint'' = Inr (JStr ''https://op.example/authorize'')"
  "disco_get op_response ''token_endpoint'' = Inr (JStr ''https://op.example/token'')"
  "disco_get op_response ''userinfo_endpoint'' = Inr JNull"
  "disco_get op_response ''end_session_endpoint'' = Inr (JStr ''https://op.example/logout'')"
  by code_simp+

definition op_endpoint :: discovery_endpoint where
  "op_endpoint = \<lparr>ep_url = example_address, ep_authority = ''https://op.example''\<rparr>"

lemma op_url: "parse_discovery_url ''https://op.example'' = Inr op_endpoint"
  by code_simp

lemma op_begin:
  "begin_discovery conf_world test_id ''https://op.example'' s = (Inr (op_endpoint, op_response), s\<lparr>hs_draws := Suc (hs_draws s)\<rparr>)"
  by (simp add: begin_discovery_def op_url except_for_def scatch_def sbnd_def stm_simps lib_def fetch_document_def draw_number_def
      conf_world_def op_endpoint_def op_discovery op_attributes(1))

definition first_url :: string where
  "first_url = projr (build_authorization_url (plain_auth_request conf_world ''https://op.example/authorize'' first_query ''s1'' ''n1'' None))"

definition first_session :: auth_session where
  "first_session = (auth_session_of ''https://op.example'' ''s1'' ''n1'')
     \<lparr>as_client_id := ''app'', as_redirect_uri := ''https://rp/callback'', as_result := [(''test_id'', JStr ''t1'')]\<rparr>"

definition waiting_harness :: harness where
  "waiting_harness = new_harness\<lparr>
     hs_client := Some \<lparr>mc_class = ''HTTPClient'', mc_owned = True, mc_closed = False, mc_inner_open = True\<rparr>,
     hs_sessions := [(''s1'', first_session)], hs_draws := 3,
     hs_flow := Some \<lparr>fc_issuer = ''https://op.example'', fc_client_id = ''app'', fc_disco_address = example_address\<rparr>\<rparr>"

lemma first_url_built:
  "build_authorization_url (plain_auth_request conf_world ''https://op.example/authorize'' first_query ''s1'' ''n1'' None) = Inr first_url"
proof -
  have "is_ok (build_authorization_url (plain_auth_request conf_world ''https://op.example/authorize'' first_query ''s1'' ''n1'' None))"
    by code_simp
  then show ?thesis unfolding first_url_def by (auto simp: is_ok_def split: sum.splits)
qed

lemma first_query_says:
  "aq_issuer first_query = ''https://op.example''" "\<not> says_true (aq_fapi2 first_query)" "\<not> says_true (aq_jarm first_query)"
  "\<not> says_true (aq_mtls first_query)" "\<not> says_true (aq_use_pkce first_query)" "\<not> says_true (aq_use_request_uri first_query)"
  by code_simp+

lemma conf_tokens:
  "hs_draws s = 1 \<Longrightarrow> token_urlsafe conf_world s = (Inr ''s1'', s\<lparr>hs_draws := 2\<rparr>)"
  "hs_draws s = 2 \<Longrightarrow> token_urlsafe conf_world s = (Inr ''n1'', s\<lparr>hs_draws := 3\<rparr>)"
  by (simp_all add: token_urlsafe_def draw_number_def sbnd_def stm_simps conf_world_def)

lemma first_open:
  "open_session (aq_test_id first_query) ''https://op.example'' a
     ((auth_session_of ''https://op.example'' ''s1'' ''n1'')
        \<lparr>as_code_verifier := None, as_client_id := aq_client_id first_query, as_client_secret := JStr [],
         as_redirect_uri := cw_base_url conf_world @ ''/callback'', as_skip_userinfo := says_true (aq_skip_userinfo first_query),
         as_test_name := aq_test_name first_query, as_profile := aq_profile first_query\<rparr>) s =
     (Inr (), s\<lparr>hs_sessions := dict_set ''s1'' first_session (hs_sessions s),
                hs_flow := Some \<lparr>fc_issuer = ''https://op.example'', fc_client_id = ''app'', fc_disco_address = a\<rparr>\<rparr>)"
proof -
  have "\<not> says_true ''false''" by code_simp
  then show ?thesis
    by (simp add: open_session_def supd_def first_session_def first_query_def auth_session_of_def conf_world_def set_result_def)
qed

lemma first_plain:
  assumes "hs_draws s = 1"
  shows "authorize_plain conf_world op_response a first_query (JStr []) s = (Inr (Redirect_To first_url),
     s\<lparr>hs_draws := 3, hs_sessions := dict_set ''s1'' first_session (hs_sessions s),
       hs_flow := Some \<lparr>fc_issuer = ''https://op.example'', fc_client_id = ''app'', fc_disco_address = a\<rparr>\<rparr>)"
  using assms by (simp add: authorize_plain_def sbnd_def sret_def slift_def lib_def conf_tokens first_query_says op_attributes text_arg_def
      first_url_built first_open)

lemma first_authorize:
  "served_by conf_world (Ask_Authorize first_query) new_harness = (Inr (Redirect_To first_url), waiting_harness)"
proof -
  let ?c = "\<lparr>mc_class = ''HTTPClient'', mc_owned = True, mc_closed = False, mc_inner_open = True\<rparr>"
  let ?s = "new_harness\<lparr>hs_client := Some ?c\<rparr>"
  have start: "set_active_test (Some (aq_profile first_query)) (Some (aq_test_name first_query)) (new_harness\<lparr>hs_active := None\<rparr>) = (Inr (), new_harness)"
    by (simp add: set_active_test_def supd_def first_query_def new_harness_def)
  have client: "get_harness_client conf_world new_harness = (Inr ?c, ?s)"
    by (simp add: get_harness_client_def sbnd_def stm_simps new_harness_def managed_init_def lib_def conf_world_def)
  have secret: "registered_secret (hs_registered new_harness) (aq_client_id first_query) (aq_client_secret first_query) = JStr []"
    by (simp add: registered_secret_def new_harness_def first_query_def)
  have "authorize_plain conf_world op_response (ep_url op_endpoint) first_query (JStr []) (?s\<lparr>hs_draws := Suc (hs_draws ?s)\<rparr>) =
      (Inr (Redirect_To first_url), waiting_harness)"
    by (subst first_plain) (simp_all add: new_harness_def waiting_harness_def op_endpoint_def)
  then show ?thesis
    by (simp add: served_by_def harness_authorize_def sbnd_def sret_def slift_def sget_def lib_def start client first_query_says op_begin
        op_attributes secret)
qed

section \<open>The first callback\<close>

abbreviation first_callback :: string where
  "first_callback \<equiv> ''https://rp/callback?code=c1&state=s1''"

abbreviation open_client :: managed_client where
  "open_client \<equiv> \<lparr>mc_class = ''HTTPClient'', mc_owned = True, mc_closed = False, mc_inner_open = True\<rparr>"

definition first_response :: callback_response where
  "first_response = projr (parse_authorize_callback_response first_callback)"

lemma first_response:
  "parse_authorize_callback_response first_callback = Inr first_response" "is_jarm_response first_callback = Inr False"
  "cb_get first_response ''state'' = Inr (JStr ''s1'')" "cb_get first_response ''code'' = Inr (JStr ''c1'')"
  "cb_is_successful first_response" "validate_authorize_callback_state first_response (Some ''s1'') = Inr sv_success"
proof -
  have "is_ok (parse_authorize_callback_response first_callback)" by code_simp
  then show "parse_authorize_callback_response first_callback = Inr first_response"
    by (auto simp: is_ok_def first_response_def split: sum.splits)
qed (unfold first_response_def, code_simp+)

definition first_code_request :: code_request where
  "first_code_request = \<lparr>rq_address = ''https://op.example/token'', rq_client_id = ''app'', rq_client_secret = None,
     rq_private_key_jwt = None, rq_mtls = None, cr_code = ''c1'', cr_redirect_uri = ''https://rp/callback'',
     cr_code_verifier = None, cr_scope = None, cr_dpop_key = None\<rparr>"

lemma first_exchange:
  "\<exists>n tok. request_authorization_code_token (cw_net conf_world) (cw_signing conf_world k) (Some open_client) first_code_request idle_net
       = (Inr tok, n) \<and> rs_is_successful tok \<and> tr_token tok = JDict [(''id_token'', JStr ''token'')]"
proof -
  have tok: "rs_is_successful (process_auth_code_token_response token_http)"
      "tr_token (process_auth_code_token_response token_http) = JDict [(''id_token'', JStr ''token'')]"
    by code_simp+
  have "is_ok (prepare_auth_code_token_request_data example_signing 0 first_code_request None)"
    by code_simp
  then obtain p where prep: "prepare_auth_code_token_request_data example_signing 0 first_code_request None = Inr p"
    by (auto simp: is_ok_def split: sum.splits)
  have plain: "rq_mtls first_code_request = None" "cr_dpop_key first_code_request = None"
    by (simp_all add: first_code_request_def)
  show ?thesis
    using tok by (simp add: request_authorization_code_token_def call_endpoint_def attempt_def sbnd_def scatch_def stm_simps plain prep
        resolve_http_client_def managed_get_def guard_raise_def idle_net_def send_request_def Let_def log_event_def example_net_def
        conf_world_def draw_def token_retry close_response_def close_owned_def)
qed

lemma first_redeem:
  assumes "hs_net s = idle_net"
  shows "\<exists>n. redeem_code conf_world open_client first_session op_response first_response s =
     (Inr [(''id_token'', JStr ''token'')], s\<lparr>hs_draws := Suc (hs_draws s), hs_net := n\<rparr>)"
proof -
  have "build_auth_code_token_request conf_world first_session op_response ''c1'' s = (Inr first_code_request, s)"
    by (simp add: build_auth_code_token_request_def first_session_def auth_session_of_def sbnd_def lib_def stm_simps op_attributes
        text_arg_def first_code_request_def)
  moreover have "client_for_session first_session open_client = Some open_client"
    by (simp add: client_for_session_def first_session_def auth_session_of_def)
  moreover obtain n tok where "request_authorization_code_token (cw_net conf_world) (cw_signing conf_world (hs_draws s)) (Some open_client)
       first_code_request idle_net = (Inr tok, n)" "rs_is_successful tok" "tr_token tok = JDict [(''id_token'', JStr ''token'')]"
    using first_exchange by blast
  ultimately show ?thesis
    using assms by (intro exI [of _ n]) (simp add: redeem_code_def sbnd_def lib_def stm_simps op_attributes first_response
        text_arg_def draw_number_def on_http_def as_dict_or_raise_def)
qed

text \<open>The ID token: discovery and keys are fetched under the policy of the harness.\<close>

lemma lenient_discovery:
  "get_discovery_document example_world example_address (Some harness_policy) = build_discovery_response example_document None"
proof -
  have "validate_url_scheme example_address harness_policy = Inr ()"
    "validate_and_parse_discovery_response example_disco_http (Some harness_policy) = Inr example_document"
    "is_success example_disco_http" "header_get example_disco_http ''cache-control'' = None"
    by code_simp+
  then show ?thesis
    by (simp add: get_discovery_document_def effective_policy_def example_fetch process_discovery_response_def
        process_successful_response_def)
qed

lemma lenient_jwks:
  "get_jwks example_world example_jwks_uri (Some harness_policy) =
     \<lparr>j_is_successful = True, j_error = None, j_keys = Some [projr (jwks_from_dict example_jwk_dict)], j_cache_control = None\<rparr>"
proof -
  have "parse_jwks_response empty_env example_jwks_http =
     Inr \<lparr>j_is_successful = True, j_error = None, j_keys = Some [projr (jwks_from_dict example_jwk_dict)], j_cache_control = None\<rparr>"
    "validate_url_scheme example_jwks_uri harness_policy = Inr ()"
    by code_simp+
  moreover have "w_env example_world = empty_env"
    by (simp add: example_world_def)
  ultimately show ?thesis
    by (simp add: get_jwks_def effective_policy_def example_fetch process_jwks_response_def)
qed

lemma first_token:
  "\<exists>c. validate_token (decoding_env login_claims) ''token'' (harness_token_config first_session (JStr ''https://op.example''))
     (Some example_address) False tv_init = (Inr login_claims, c)"
proof -
  let ?e = "decoding_env login_claims"
  let ?c = "harness_token_config first_session (JStr ''https://op.example'')"
  let ?c' = "?c\<lparr>cfg_key := Some (KeyDict example_jwk_dict), algorithms := Some [JStr ''RS256'']\<rparr>"
  let ?r = "\<lparr>j_is_successful = True, j_error = None, j_keys = Some [projr (jwks_from_dict example_jwk_dict)], j_cache_control = None\<rparr>"
  have v: "validate_jwks_response ?r = Inr ()" "keys_or_empty ?r = Inr [projr (jwks_from_dict example_jwk_dict)]"
    by (simp_all add: validate_jwks_response_def jwks_get_keys_def guarded_get_def keys_or_empty_def)
  have "build_resolved_config ?c example_jwk_dict (JStr ''RS256'') = Inr ?c'"
    by (simp add: build_resolved_config_ok harness_token_config_def id_token_validation_params_def first_session_def
        auth_session_of_def default_config_def)
  moreover have "validate_token_config ?c = Inr ()" "decode_with_config (example_lib\<lparr>jl_decode := (\<lambda>_ _ _. Inr login_claims)\<rparr>) ''token'' ?c' (JStr ''https://op.example'')
      = Inr login_claims"
    "validate_claims login_claims ?c = Inr ()"
    by code_simp+
  moreover have "perform_disco ?c" "resolve_discovery_policy (cfg_discovery_policy ?c) (cfg_require_https ?c) = harness_policy"
    by (simp_all add: harness_token_config_def id_token_validation_params_def first_session_def auth_session_of_def default_config_def
        resolve_discovery_policy_def harness_policy_def default_policy_def)
  moreover have "fst (discover_cached ?e ''token'' (Some example_address) harness_policy tv_init) =
      Inr (example_jwk_dict, JStr ''RS256'', build_discovery_response example_document None)"
    by (simp add: discover_cached_def sbnd_def get_disco_miss tv_init_def fetch_disco_eq lenient_discovery slift_def
        example_resolve Let_def get_jwks_miss fetch_jwks_eq lenient_jwks v select_key_def sret_def)
  ultimately have "fst (validate_token ?e ''token'' ?c (Some example_address) False tv_init) = Inr login_claims"
    by (cases "discover_cached ?e ''token'' (Some example_address) harness_policy tv_init")
       (simp add: validate_token_def sbnd_def slift_def validate_with_discovery_def
        discover_and_resolve_key_def scatch_def example_resolve sret_def)
  then show ?thesis by (metis prod.collapse)
qed

lemma first_id_token:
  assumes "hs_caches s = tv_init"
  shows "\<exists>c. check_id_token conf_world first_session example_address op_response (JStr ''token'') s =
     (Inr login_claims, s\<lparr>hs_caches := c\<rparr>)"
proof -
  obtain c where c: "validate_token (decoding_env login_claims) ''token'' (harness_token_config first_session (JStr ''https://op.example''))
     (Some example_address) False tv_init = (Inr login_claims, c)"
    using first_token by blast
  have nonce: "jget login_claims ''nonce'' = JStr (as_nonce first_session)" "\<not> as_fapi2 first_session"
    by (simp_all add: login_claims_def jget_def first_session_def auth_session_of_def)
  have "cw_validation conf_world = decoding_env login_claims" by (simp add: conf_world_def)
  then show ?thesis
    using c assms nonce by (intro exI [of _ c]) (simp add: check_id_token_def decode_id_token_def except_for_def scatch_def sbnd_def
        lib_def stm_simps op_attributes on_validation_def validate_fapi2_audience_def)
qed

lemma first_session_fields:
  "as_state first_session = ''s1''" "as_issuer first_session = ''https://op.example''" "\<not> as_fapi2 first_session" "\<not> as_mtls first_session"
  "as_profile first_session = []" "as_test_name first_session = []" "as_client_id first_session = ''app''"
  "jget (as_result first_session) ''test_id'' = JStr ''t1''"
  by (simp_all add: first_session_def auth_session_of_def jget_def)

definition first_logout :: logout_context where
  "first_logout = \<lparr>lc_end_session_endpoint = JStr ''https://op.example/logout'', lc_id_token = ''token'', lc_client_id = ''app''\<rparr>"

lemma first_complete:
  assumes "hs_net s = idle_net" "hs_caches s = tv_init"
  shows "\<exists>s'. complete_flow conf_world open_client first_response first_session s =
     (Inr (Html 200 (success_page conf_world login_claims [])), s') \<and> hs_logout s' = Some first_logout \<and>
     hs_draws s' = hs_draws s + 2 \<and> hs_logout_state s' = hs_logout_state s"
proof -
  have state: "check_state first_session first_response t = (Inr (), t)"
      "check_op_error conf_world first_session first_response t = (Inr (), t)"
      "validate_fapi2_callback_issuer first_session first_response op_response t = (Inr (), t)" for t
    by (simp_all add: check_state_def check_op_error_def validate_fapi2_callback_issuer_def sbnd_def lib_def stm_simps
        first_session_fields first_response sv_success_def)
  have disco: "fetch_and_validate_discovery conf_world first_session s = (Inr (op_endpoint, op_response), s\<lparr>hs_draws := Suc (hs_draws s)\<rparr>)"
    by (simp add: fetch_and_validate_discovery_def except_for_def scatch_def sbnd_def lib_def stm_simps first_session_fields op_url
        fetch_document_def draw_number_def op_endpoint_def op_discovery op_attributes conf_world_def)
  obtain n where red: "redeem_code conf_world open_client first_session op_response first_response (s\<lparr>hs_draws := Suc (hs_draws s)\<rparr>) =
     (Inr [(''id_token'', JStr ''token'')], s\<lparr>hs_draws := Suc (Suc (hs_draws s)), hs_net := n\<rparr>)"
    using first_redeem [of "s\<lparr>hs_draws := Suc (hs_draws s)\<rparr>"] assms(1) by auto
  obtain c where idt: "check_id_token conf_world first_session example_address op_response (JStr ''token'')
     (s\<lparr>hs_draws := Suc (Suc (hs_draws s)), hs_net := n\<rparr>) = (Inr login_claims, s\<lparr>hs_draws := Suc (Suc (hs_draws s)), hs_net := n, hs_caches := c\<rparr>)"
    using first_id_token [of "s\<lparr>hs_draws := Suc (Suc (hs_draws s)), hs_net := n\<rparr>"] assms(2) by auto
  have rest: "fetch_userinfo conf_world open_client first_session op_response JNull sub t = (Inr (JDict [], first_session), t)"
      "fetch_fapi2_resource conf_world open_client first_session op_response JNull t = (Inr (), t)" for sub t
    by (simp_all add: fetch_userinfo_def fetch_fapi2_resource_def resource_request_def sbnd_def stm_simps first_session_fields)
  have store: "store_test_result (logged_in a b c d e first_session) t =
      (Inr (), t\<lparr>hs_results := dict_set ''t1'' (logged_in a b c d e first_session) (hs_results t)\<rparr>)" for a b c d e t
  proof -
    have "jget (as_result (logged_in a b c d e first_session)) ''test_id'' = JStr ''t1''"
      using first_session_fields(8) by (simp add: result_simps)
    then show ?thesis by (simp add: store_test_result_def put_result_def supd_def)
  qed
  have tok: "jget [(''id_token'', JStr ''token'')] ''id_token'' = JStr ''token''" "jget [(''id_token'', JStr ''token'')] ''access_token'' = JNull"
      "text_of (JStr ''token'') = ''token''"
    by (simp_all add: jget_def text_of_def)
  have ep: "ep_url op_endpoint = example_address" by (simp add: op_endpoint_def)
  have es: "json_or_empty (JStr ''https://op.example/logout'') = JStr ''https://op.example/logout''" by (simp add: json_or_empty_def)
  show ?thesis
    by (simp add: complete_flow_def sbnd_def Let_def state disco red tok idt ep rest lib_def sret_def slift_def supd_def op_attributes
        store as_dict_or_raise_def es first_logout_def first_session_fields)
qed

lemma first_served:
  "\<exists>s'. served_by conf_world (Ask_Callback first_callback) waiting_harness =
     (Inr (Html 200 (success_page conf_world login_claims [])), s') \<and> hs_logout s' = Some first_logout \<and> hs_draws s' = 5 \<and>
     hs_logout_state s' = None"
proof -
  let ?t = "waiting_harness\<lparr>hs_sessions := []\<rparr>"
  have w: "waiting_harness\<lparr>hs_active := None\<rparr> = waiting_harness" "hs_client waiting_harness = Some open_client"
      "hs_sessions waiting_harness = [(''s1'', first_session)]" "hs_draws waiting_harness = 3" "hs_net waiting_harness = idle_net"
      "hs_caches waiting_harness = tv_init" "hs_logout_state waiting_harness = None"
    by (simp_all add: waiting_harness_def new_harness_def)
  have act: "set_active_test (Some []) (Some []) ?t = (Inr (), ?t)"
    by (simp add: set_active_test_def supd_def waiting_harness_def new_harness_def)
  have find: "find_session (JStr ''s1'') waiting_harness = (Inr first_session, ?t)"
    by (simp add: find_session_def sbnd_def stm_simps w(3))
  have parse: "parse_harness_callback conf_world first_callback waiting_harness = (Inr first_response, waiting_harness)"
    by (simp add: parse_harness_callback_def except_for_def scatch_def sbnd_def lib_def stm_simps first_response)
  have client: "get_harness_client conf_world waiting_harness = (Inr open_client, waiting_harness)"
    by (simp add: get_harness_client_def sbnd_def stm_simps w(2))
  obtain s' where "complete_flow conf_world open_client first_response first_session ?t =
     (Inr (Html 200 (success_page conf_world login_claims [])), s')" "hs_logout s' = Some first_logout" "hs_draws s' = 5"
     "hs_logout_state s' = None"
    using first_complete [of ?t] w(4-7) by auto
  then show ?thesis
    using act find parse client w(1) by (simp add: served_by_def handle_callback_def sbnd_def lib_def stm_simps first_response
        first_session_fields)
qed

lemma waiting_run: "harness_run conf_world waiting_harness"
  using harness_run.request [OF harness_run.start first_authorize] by (simp add: new_harness_def)

lemma conf_settings: "settings_ok (te_settings (cw_validation conf_world))"
  using example_env_settings by (simp add: conf_world_def)


section \<open>The other properties\<close>

theorem harness_flows_wf_witness: "session_wf conf_world ''s1'' first_session \<and> hs_flow waiting_harness \<noteq> None"
proof -
  have "map_of (hs_sessions waiting_harness) ''s1'' = Some first_session" by (simp add: waiting_harness_def)
  then show ?thesis using harness_flows_wf [OF waiting_run] by blast
qed

theorem backchannel_logout_exact_witness:
  "fst (served_by conf_world (Ask_Backchannel_Logout (Some ''token'')) waiting_harness) =
     backchannel_answer (fst (validate_logout_token (decoding_env login_claims) ''token''
       (logout_token_config \<lparr>fc_issuer = ''https://op.example'', fc_client_id = ''app'', fc_disco_address = example_address\<rparr>)
       (Some example_address) False tv_init))"
proof -
  obtain r s' where run: "served_by conf_world (Ask_Backchannel_Logout (Some ''token'')) waiting_harness = (r, s')" by fastforce
  have "hs_flow waiting_harness = Some \<lparr>fc_issuer = ''https://op.example'', fc_client_id = ''app'', fc_disco_address = example_address\<rparr>"
      "hs_caches waiting_harness = tv_init" "cw_validation conf_world = decoding_env login_claims"
      "some_if_text (opt_or (Some ''token'') []) = Some ''token''"
    by (simp_all add: waiting_harness_def new_harness_def conf_world_def some_if_text_def opt_or_def)
  then show ?thesis
    using backchannel_logout_exact [OF conf_settings waiting_run run] run by (auto split: prod.splits)
qed

definition logged_harness :: harness where
  "logged_harness = waiting_harness\<lparr>hs_sessions := [], hs_logout := Some first_logout\<rparr>"

lemma first_logout_url:
  "is_ok (build_end_session_url (harness_end_session conf_world first_logout ''https://op.example/logout'' (Some ''n1'')))"
  by code_simp


end
