(* ===== verification/Spec2Isabelle.thy ===== *)
theory Spec2Isabelle
  imports Aio_Flows Aio_Client Fapi_Jar Login_Router Single_Flight Token_Manager Config Conformance_Examples
begin

text \<open>
  A verification development of the Python package \<open>py_identity_model\<close> (\<open>src/py/src/py_identity_model\<close>), a
  client library for OAuth 2.0 and OpenID Connect, and of its FastAPI companion
  (\<open>src/py/packages/fastapi-identity-model\<close>), and of the relying party the OpenID certification suite drives, a
  web application over the whole library (\<open>src/conformance/app.py\<close>).

  \<^bold>\<open>The program.\<close> A relying party or a resource server fetches a provider's discovery document and key set over
  HTTP, keeps both in caches, chooses the key a token names, has PyJWT check the signature and the registered
  claims, and adds the checks of a profile: access token, ID token, logout token, JARM response. As a client it builds
  authorization URLs, parses callbacks, and sends token, introspection, revocation, device, exchange, pushed
  authorization, UserInfo and registration requests with one of several ways to authenticate. \<open>core/\<close> holds the logic,
  \<open>sync/\<close> and \<open>aio/\<close> the entry points that do I/O. The FastAPI package puts validation in front of routes and WebSockets,
  logs browsers in, and keeps an access token fresh.

  \<^bold>\<open>Theories and sources.\<close> File names are below \<open>src/py/src/py_identity_model\<close>.

  \<^item> \<open>Py_Prelude\<close>, \<open>Py_Values\<close>: Python as far as the sources use it: strings (code points below 256), numbers, parsed JSON
    with Python's equality and truth, dictionaries as association lists, exceptions as values of a sum, computations on a
    state with \<open>try\<close>, and the Hoare triples over them.
  \<^item> \<open>Exceptions\<close>: \<open>exceptions.py\<close>. \<open>Models\<close>: the guarded responses and keys of \<open>core/models.py\<close>.
  \<^item> \<open>Ip_Address\<close>, \<open>Url_Parse\<close>, \<open>Url_Unparse\<close>, \<open>Hashing\<close>: the functions of the standard library the checks rest on, written
    out: \<open>ipaddress\<close>, \<open>urllib.parse\<close>, SHA-2 and base64url.
  \<^item> \<open>Discovery_Policy\<close>: \<open>core/discovery_policy.py\<close>, \<open>core/validators.py\<close>. \<open>Jwks_Cache\<close>: \<open>core/jwks_cache.py\<close>.
    \<open>Http_Utils\<close>: \<open>core/http_utils.py\<close> and the retry decorator. \<open>Response_Processors\<close>:
    \<open>core/response_processors.py\<close>, \<open>core/error_handlers.py\<close>, \<open>core/discovery_logic.py\<close>, \<open>core/jwks_logic.py\<close>,
    \<open>sync/discovery.py\<close>, \<open>sync/jwks.py\<close>. \<open>Key_Selection\<close>: \<open>core/parsers.py\<close>.
  \<^item> \<open>Token_Logic\<close>: \<open>core/jwt_helpers.py\<close>, \<open>core/token_validation_logic.py\<close>. \<open>Token_Validation\<close>:
    \<open>sync/token_validation.py\<close> over the two caches and the cooldown stamps. \<open>Aio_Validation\<close>:
    \<open>aio/token_validation.py\<close> and \<open>core/cache_metrics.py\<close>.
  \<^item> \<open>Token_Profiles\<close>: \<open>core/claims_validation.py\<close>, \<open>core/id_token_logic.py\<close>, \<open>core/logout_logic.py\<close> and their
    entry points. \<open>Authorize\<close>: \<open>core/authorize_url.py\<close>, \<open>core/authorize_response.py\<close>, \<open>core/state_validation.py\<close>.
    \<open>Jarm\<close>: \<open>core/jarm.py\<close>, \<open>sync/jarm.py\<close>. \<open>Fapi_Jar\<close>: \<open>core/jar.py\<close>, \<open>core/fapi.py\<close>.
  \<^item> \<open>Client_Auth\<close>: \<open>core/jwt_signing.py\<close>, \<open>client_auth.py\<close>, \<open>client_assertion.py\<close>, \<open>pkce.py\<close>, \<open>dpop.py\<close>, \<open>mtls.py\<close>.
    \<open>Client_Requests\<close>: the request and answer logic of the protocol endpoints. \<open>Client_Flows\<close>: the wrappers of
    \<open>sync/\<close> with their HTTP clients. \<open>Registration\<close>: \<open>core/registration_logic.py\<close>, \<open>sync/registration.py\<close>.
  \<^item> \<open>Aio_Flows\<close>: \<open>aio/http_client.py\<close>, \<open>aio/managed_client.py\<close> and the other wrappers of \<open>aio/\<close>, with cancellation.
  \<^item> \<open>Async_Tasks\<close>: coroutines that interleave on one event loop. \<open>Aio_Client\<close>: the client all tasks share. \<open>Single_Flight\<close>: the cached fetches of
    \<open>aio/token_validation.py\<close> as such coroutines. \<open>Token_Manager\<close>: the FastAPI package's \<open>token_manager.py\<close>.
  \<^item> \<open>Config\<close>: \<open>core/config.py\<close>. \<open>Identity\<close>: \<open>identity.py\<close> over a store of shared lists. \<open>Redaction\<close>:
    \<open>logging_utils.py\<close> and \<open>BaseResponse.__repr__\<close>.
  \<^item> \<open>Resource_Server\<close>: the FastAPI package's \<open>config.py\<close>, \<open>middleware.py\<close>, \<open>ws.py\<close>, \<open>dependencies.py\<close>.
    \<open>Login_Router\<close>: its \<open>rp.py\<close>, the routes over the browser session.
  \<^item> \<open>Conformance_Rp\<close>, \<open>Conformance_Callback\<close>: \<open>src/conformance/app.py\<close>, its module state as one record, and every route
    as a computation on it over the operations of the other theories. \<open>Conformance_Runs\<close>: sequences of requests, their
    invariant and what a completed login proves. \<open>Conformance_Logout\<close>: both ways to log out, and the log files.
    \<open>Conformance_Examples\<close>: a whole login evaluated on a concrete provider.

  \<^bold>\<open>State and effects.\<close> A stateless function is a HOL function into \<open>exn + 'a\<close>; every \<open>raise\<close> and every handler of the source
  is a branch. Validation threads a record of the two caches, the stamps and the settings; a protocol call threads a record of the
  thread's HTTP client, the locals its \<open>finally\<close> block reads and a trace of network events. Where the order of concurrent
  steps matters the code between two \<open>await\<close>s is one step of an inductive relation, and runs are its finite
  sequences, with cancellation at every \<open>await\<close>.

  \<^bold>\<open>Parameters.\<close> PyJWT's header reader, \<open>decode\<close> and \<open>encode\<close>, the HTTP transport, the clock, random values, the
  X.509 parser, TLS contexts, the environment, the hash of a string, the HTTP date parser and the text of a float are
  arguments. What a theorem needs of them is a premise of its own, and a witness instantiates it.

  \<^bold>\<open>What is shown.\<close>

  \<^item> Validation: accepted claims were decoded with the right key under the caller's policy and every configured check
    (\<open>validate_token_sound\<close>); key selection admits no algorithm confusion; no option disables a core check; allowed issuers
    are enforced; asynchronous validation equals synchronous validation.
  \<^item> Caches: the invariant of all reachable cache states, the cooldown, policy separation, also under every
    interleaving, where a document is fetched by at most one task at a time and every pending call can finish.
  \<^item> Discovery and keys: what an accepted document and key set satisfies, internal addresses in aliases included.
  \<^item> Transport: the retry loop ends with the first lasting outcome; protocol calls never raise and release every
    response and client, asynchronous ones also when their task is cancelled; uninterrupted ones equal the synchronous ones,
    and compute the fetches that validation takes as single steps; no shared client is lost.
  \<^item> Profiles: ID tokens, token hashes, logout tokens, JARM responses, callbacks, certificate binding.
  \<^item> Clients: one authentication method on the wire, DPoP proofs, request objects, UserInfo subjects, registration, FAPI checks.
  \<^item> Configuration: typed results, precedence as a refinement of a first-hit specification, secrets that are not shown.
  \<^item> Identities: principals refine values where lists are not shared, and what a token's principal answers.
  \<^item> Servers: a protected route runs only for a validated access token, refusals tell nothing of the cause; a login had its
    state, code, verifier, nonce and ID token checked against one flow, and a flow completes at most one login.
  \<^item> The conformance relying party composes the library: its success page proves that state, issuer, code, ID token and
    UserInfo of one waiting flow were checked, whatever requests came before; logout tokens and logout states are accepted
    exactly when they should be; request parameters cannot choose a file outside the log directory.
  \<^item> Round trips: authorization and JAR URLs, callbacks, keys as dictionaries, Basic credentials.

  Interfaces are locales, interpreted on the model's definitions: the LRU cache, the endpoint flows, lawful
  configuration sources, client authentication of a request, and the coroutines of \<open>Async_Tasks\<close>.

  \<^bold>\<open>Bounds and fuel.\<close> No definition uses fuel: loops are structural, or have a measure, or run over a list that is there before
  they start (the retry attempts, the parameters, the keys). Python integers are \<open>int\<close>; finite floats are rationals, with
  infinities, not-a-number and the overflow threshold, without rounding; bytes are integers below 256, and SHA-2 works on words of
  32 and 64 bits.

  \<^bold>\<open>Not modelled.\<close> The constant tables \<open>oidc_constants.py\<close> and
  \<open>jwt_claim_types.py\<close>, the package facades, the logging set-up, the web framework itself, the scripts around
  the certification suite, the mutation-testing tools, the examples and the ports to other languages are left out. The requests
  to the conformance relying party are served one after another, and its keys and certificate are given. Characters above U+00FF do not occur in strings. Threads
  that validate at the same moment are outside \<open>Token_Validation\<close>, which runs one call at a time; tasks on different event loops are
  outside \<open>Single_Flight\<close>. An interpolated list, dictionary or float is a placeholder in error messages, but not where the
  text is a result.
\<close>

end
